(* ===== verification/Prelude.thy ===== *)
theory Prelude
  imports Main "HOL-Library.Word"
begin

text \<open>
  Shared vocabulary of the development: the integer types of \<open>include/ef2/base.h\<close>,
  the injection \<open>w32\<close> from natural numbers to 32-bit words with its arithmetic, and
  the theorem collections the component theories feed.

  The EE toolchain is the little-endian n32 ABI: \<open>int\<close>, \<open>long\<close>, \<open>size_t\<close> and every
  pointer have 32 bits, \<open>long long\<close> has 64.
\<close>

unbundle bit_operations_syntax

section \<open>The integer types of the SDK\<close>

type_synonym u8 = "8 word"
type_synonym u16 = "16 word"
type_synonym u32 = "32 word"
type_synonym u64 = "64 word"

text \<open>\<open>ef2_s32\<close> and C \<open>int\<close> results whose value never wraps are HOL integers.\<close>

type_synonym s32 = int

lemma unat_shift_right_less: "r \<noteq> 0 \<Longrightarrow> unat (drop_bit (Suc 0) r) < unat (r :: u32)"
proof -
  assume "r \<noteq> 0"
  then have "unat r div 2 < unat r" by (simp add: unat_eq_zero flip: neq0_conv)
  then show ?thesis by (simp add: drop_bit_Suc unat_div)
qed

lemma u32_countdown_less: "i < n \<Longrightarrow> unat (n - (i + 1)) < unat (n - i :: u32)"
proof -
  assume "i < n"
  then have "n - i \<noteq> 0" by auto
  then have "unat (n - i - 1) < unat (n - i)"
    by (metis unat_minus_one unat_gt_0 diff_less zero_less_one)
  then show ?thesis by (simp add: diff_diff_eq)
qed

lemma u32_pred_less: "i \<noteq> 0 \<Longrightarrow> unat (i - 1) < unat (i :: u32)"
  by (simp add: unat_minus_one unat_gt_0)

lemma ball_pair: "(\<forall>(x, y) \<in> S. P x y) \<longleftrightarrow> (\<forall>x y. (x, y) \<in> S \<longrightarrow> P x y)"
  by auto

section \<open>Collections\<close>

named_theorems heap_simps "reading and writing heap headers"
named_theorems word_nat "arithmetic of w32 on naturals below 2^32"

section \<open>Naturals as 32-bit words\<close>

definition w32 :: "nat \<Rightarrow> u32" where
  "w32 n = word_of_nat n"

lemma w32_unat [simp]: "w32 (unat x) = x"
  by (simp add: w32_def)

lemma unat_w32: "n < 4294967296 \<Longrightarrow> unat (w32 n) = n"
  by (simp add: w32_def unat_of_nat take_bit_nat_eq_self)

lemma unat_less_32 [simp]: "unat (x :: u32) < 4294967296"
  using unsigned_less [of x] by simp

lemma w32_eq_iff [word_nat]:
  "a < 4294967296 \<Longrightarrow> b < 4294967296 \<Longrightarrow> w32 a = w32 b \<longleftrightarrow> a = b"
  by (metis unat_w32)

lemma w32_less_iff [word_nat]:
  "a < 4294967296 \<Longrightarrow> b < 4294967296 \<Longrightarrow> w32 a < w32 b \<longleftrightarrow> a < b"
  by (simp add: word_less_nat_alt unat_w32)

lemma w32_le_iff [word_nat]:
  "a < 4294967296 \<Longrightarrow> b < 4294967296 \<Longrightarrow> w32 a \<le> w32 b \<longleftrightarrow> a \<le> b"
  by (simp add: word_le_nat_alt unat_w32)

lemma w32_0 [simp]: "w32 0 = 0"
  by (simp add: w32_def)

lemma w32_one: "w32 (Suc 0) = 1"
  by (simp add: w32_def)

lemma w32_numeral: "w32 (numeral k) = numeral k"
  by (simp add: w32_def)

lemma w32_eq_0_iff [word_nat]: "a < 4294967296 \<Longrightarrow> w32 a = 0 \<longleftrightarrow> a = 0"
  using w32_eq_iff [of a 0] by simp

lemma w32_add: "w32 a + w32 b = w32 (a + b)"
  by (simp add: w32_def)

lemma w32_add_numeral: "w32 a + numeral k = w32 (a + numeral k)"
  by (simp add: w32_def)

lemma w32_add_one: "w32 a + 1 = w32 (a + 1)"
  by (simp add: w32_def)

lemma w32_diff: "b \<le> a \<Longrightarrow> w32 a - w32 b = w32 (a - b)"
  by (simp add: w32_def of_nat_diff)

lemma w32_diff_numeral: "numeral k \<le> a \<Longrightarrow> w32 a - numeral k = w32 (a - numeral k)"
  using w32_diff [of "numeral k" a] by (simp add: w32_numeral)

section \<open>Masking low bits\<close>

lemma and_not_mask: "x AND NOT (mask k) = x - take_bit k (x :: 'a::len word)"
proof -
  have "x AND NOT (mask k) = push_bit k (drop_bit k x)"
    by (rule bit_word_eqI) (auto simp: bit_simps)
  then show ?thesis by (metis add_diff_cancel_right' bits_ident)
qed

lemma unat_take_bit: "unat (take_bit k (x :: 'a::len word)) = unat x mod 2 ^ k"
  by (simp add: unsigned_take_bit_eq flip: take_bit_eq_mod)

lemma unat_and_not_mask: "unat ((x :: 'a::len word) AND NOT (mask k)) = unat x div 2 ^ k * 2 ^ k"
proof -
  have "take_bit k x \<le> x" by (simp add: word_le_nat_alt unat_take_bit)
  then show ?thesis by (simp add: and_not_mask unat_sub unat_take_bit minus_mod_eq_div_mult)
qed

lemma unat_and_mask: "unat ((x :: 'a::len word) AND mask k) = unat x mod 2 ^ k"
  by (simp add: unat_take_bit flip: take_bit_eq_mask)

section \<open>Signed and extended words\<close>

lemma sint_small: "unat (n :: u32) \<le> 2147483647 \<Longrightarrow> sint n = int (unat n)"
proof -
  assume "unat n \<le> 2147483647"
  then have "int (unat n) < int (2 ^ 31)" by (simp only: of_nat_less_iff) simp
  then have "uint n < 2 ^ 31" by simp
  moreover have "- (2 ^ 31) \<le> uint n" by (rule order_trans [of _ 0]) auto
  ultimately have "signed_take_bit 31 (uint n) = uint n" by (intro signed_take_bit_int_eq_self) auto
  then show ?thesis by (simp add: sint_uint)
qed

lemma ucast_slot [simp]: "ucast (ucast (p :: u32) :: u64) = p"
  by (rule bit_word_eqI) (simp add: bit_simps)

lemma unat_drop_bit_div: "unat (drop_bit k (x :: 'a::len word)) = unat x div 2 ^ k"
  unfolding unat_drop_bit_eq by (rule drop_bit_eq_div)

lemma unat_ucast_up [simp]: "unat (ucast (x :: u32) :: u64) = unat x"
proof -
  have "unat x < 2 ^ 64" by (rule less_trans [OF unat_less_32]) simp
  then show ?thesis by (simp add: unsigned_ucast_eq take_bit_nat_eq_self)
qed

lemma unat_ucast_u8 [simp]: "unat (ucast (a :: u8) :: u32) = unat a"
proof -
  have "unat a < 2 ^ 8" using unsigned_less [of a, where 'a = nat] by simp
  then have "unat a < 2 ^ 32" by simp
  then show ?thesis by (simp only: unsigned_ucast_eq take_bit_nat_eq_self len_of_numeral_defs) (simp add: take_bit_nat_eq_self)
qed

end
