(* ===== verification/ByteMem.thy ===== *)
theory ByteMem
  imports Prelude
begin

text \<open>
  The EE main memory as the C code sees it: a function from 32-bit addresses to bytes,
  with the little-endian 32-bit loads and stores that the field accesses of the C
  structures compile to.
\<close>

type_synonym mem = "u32 \<Rightarrow> u8"

definition load32 :: "mem \<Rightarrow> u32 \<Rightarrow> u32" where
  "load32 m a = ucast (m a) OR push_bit 8 (ucast (m (a + 1)))
     OR push_bit 16 (ucast (m (a + 2))) OR push_bit 24 (ucast (m (a + 3)))"

definition store32 :: "mem \<Rightarrow> u32 \<Rightarrow> u32 \<Rightarrow> mem" where
  "store32 m a v = m(a := ucast v, a + 1 := ucast (drop_bit 8 v),
     a + 2 := ucast (drop_bit 16 v), a + 3 := ucast (drop_bit 24 v))"

section \<open>Reading what was written\<close>

lemma bytes_of_u32:
  "ucast (ucast v :: u8) OR push_bit 8 (ucast (ucast (drop_bit 8 v) :: u8))
   OR push_bit 16 (ucast (ucast (drop_bit 16 v) :: u8))
   OR push_bit 24 (ucast (ucast (drop_bit 24 v) :: u8)) = (v :: u32)" (is "?L = v")
proof (rule bit_word_eqI)
  fix n assume "n < LENGTH(32)"
  then have "n < 8 \<or> 8 \<le> n \<and> n < 16 \<or> 16 \<le> n \<and> n < 24 \<or> 24 \<le> n \<and> n < 32"
    by simp linarith
  then show "bit ?L n = bit v n"
    by (elim disjE conjE) (auto simp: bit_simps less_diff_conv2)
qed

lemma load32_store32_same [simp]: "load32 (store32 m a v) a = v"
  by (simp add: load32_def store32_def bytes_of_u32)

lemma store32_other_byte:
  assumes "x + 4 \<le> 4294967296" "n < 4294967296" "n < x \<or> x + 4 \<le> n"
  shows "store32 m (w32 x) v (w32 n) = m (w32 n)"
proof -
  have "w32 n \<noteq> w32 (x + k)" if "k < 4" for k
    using assms that by (subst w32_eq_iff) auto
  from this[of 0] this[of 1] this[of 2] this[of 3] show ?thesis
    unfolding store32_def by (simp add: w32_add_numeral w32_add_one)
qed

lemma load32_cong:
  assumes "\<And>k. k < 4 \<Longrightarrow> m (w32 (x + k)) = m' (w32 (x + k))"
  shows "load32 m (w32 x) = load32 m' (w32 x)"
  using assms[of 0] assms[of 1] assms[of 2] assms[of 3]
  by (simp add: load32_def w32_add_numeral w32_add_one)

lemma load32_store32_other:
  assumes "x + 4 \<le> 4294967296" "y + 4 \<le> 4294967296" "y + 4 \<le> x \<or> x + 4 \<le> y"
  shows "load32 (store32 m (w32 x) v) (w32 y) = load32 m (w32 y)"
  by (rule load32_cong, rule store32_other_byte) (use assms in auto)

section \<open>Structure fields at 16-byte aligned addresses\<close>

definition field_off :: "u32 \<Rightarrow> bool" where
  "field_off i \<longleftrightarrow> i = 0 \<or> i = 4 \<or> i = 8 \<or> i = 12"

lemma field_off_simps [simp]: "field_off 0" "field_off 4" "field_off 8" "field_off 12"
  by (simp_all add: field_off_def)

lemma field_off_nat:
  "field_off i \<Longrightarrow> \<exists>k. i = w32 k \<and> 4 dvd k \<and> k \<le> 12"
  by (auto simp: field_off_def w32_def intro: exI [of _ 0] exI [of _ 4] exI [of _ 8] exI [of _ 12])

lemma dvd16_less: "16 dvd x \<Longrightarrow> 16 dvd y \<Longrightarrow> x < y \<Longrightarrow> x + 16 \<le> (y :: nat)"
  by (elim dvdE) simp

lemma dvd16_bound: "16 dvd x \<Longrightarrow> x < 4294967296 \<Longrightarrow> x + 16 \<le> (4294967296 :: nat)"
  by (rule dvd16_less) auto

lemma dvd4_less: "4 dvd x \<Longrightarrow> 4 dvd y \<Longrightarrow> x < y \<Longrightarrow> x + 4 \<le> (y :: nat)"
  by (elim dvdE) simp

lemma dvd16_dvd4: "16 dvd x \<Longrightarrow> 4 dvd (x :: nat)"
  by (elim dvdE) simp

lemma load32_store32_field:
  assumes "16 dvd x" "16 dvd y" "x < 4294967296" "y < 4294967296" "field_off i" "field_off j"
  shows "load32 (store32 m (w32 x + i) v) (w32 y + j) =
    (if x = y \<and> i = j then v else load32 m (w32 y + j))"
proof -
  obtain a where a: "i = w32 a" "4 dvd a" "a \<le> 12" using field_off_nat assms by blast
  obtain b where b: "j = w32 b" "4 dvd b" "b \<le> 12" using field_off_nat assms by blast
  have bx: "x + 16 \<le> 4294967296" "y + 16 \<le> 4294967296"
    using assms by (auto intro: dvd16_bound)
  have d4: "4 dvd x + a" "4 dvd y + b"
    using assms a b by (auto intro: dvd16_dvd4)
  have eq: "x + a = y + b \<longleftrightarrow> x = y \<and> a = b"
    using dvd16_less [of x y] dvd16_less [of y x] assms a b
    by (cases x y rule: linorder_cases) auto
  have ij: "i = j \<longleftrightarrow> a = b" using a b by (auto simp: w32_eq_iff)
  show ?thesis
  proof (cases "x + a = y + b")
    case True
    then show ?thesis using a b eq by simp
  next
    case False
    then have "y + b + 4 \<le> x + a \<or> x + a + 4 \<le> y + b"
      using dvd4_less [OF d4] dvd4_less [OF d4(2,1)] by linarith
    moreover have "\<not> (x = y \<and> i = j)" using False eq ij by blast
    ultimately show ?thesis
      using bx a b by (simp only: a(1) b(1) w32_add if_False) (subst load32_store32_other, auto)
  qed
qed

lemmas load32_store32_fields [heap_simps] = load32_store32_field
  load32_store32_field [of x y 0 j for x y j, simplified]
  load32_store32_field [of x y i 0 for x y i, simplified]
  load32_store32_field [of x y 0 0 for x y, simplified]

lemma store32_field_byte:
  assumes "16 dvd x" "x < 4294967296" "field_off i" "n < 4294967296" "n < x \<or> x + 16 \<le> n"
  shows "store32 m (w32 x + i) v (w32 n) = m (w32 n)"
proof -
  obtain a where a: "i = w32 a" "4 dvd a" "a \<le> 12" using field_off_nat assms by blast
  have "x + 16 \<le> 4294967296" using assms by (auto intro: dvd16_bound)
  then show ?thesis
    using a assms by (simp only: a(1) w32_add) (rule store32_other_byte, auto)
qed

section \<open>The byte loops of the C code\<close>

text \<open>
  \<open>for (i = 0; i < n; ++i) p[i] = byte;\<close>, the ascending copy
  \<open>for (i = 0; i < n; ++i) dst[i] = src[i];\<close> and the descending copy of \<open>ef2_memmove\<close>,
  \<open>while (i != 0) { --i; dst[i] = src[i]; }\<close>.
\<close>

function fill_loop :: "mem \<Rightarrow> u32 \<Rightarrow> u8 \<Rightarrow> u32 \<Rightarrow> u32 \<Rightarrow> mem" where
  "fill_loop m p byte i n =
    (if i < n then fill_loop (m(p + i := byte)) p byte (i + 1) n else m)"
  by pat_completeness auto
termination
  by (relation "measure (\<lambda>(m, p, b, i, n). unat (n - i))") (auto simp: u32_countdown_less)

function copy_loop :: "mem \<Rightarrow> u32 \<Rightarrow> u32 \<Rightarrow> u32 \<Rightarrow> u32 \<Rightarrow> mem" where
  "copy_loop m dst src i n =
    (if i < n then copy_loop (m(dst + i := m (src + i))) dst src (i + 1) n else m)"
  by pat_completeness auto
termination
  by (relation "measure (\<lambda>(m, d, s, i, n). unat (n - i))") (auto simp: u32_countdown_less)

function copy_loop_down :: "mem \<Rightarrow> u32 \<Rightarrow> u32 \<Rightarrow> u32 \<Rightarrow> mem" where
  "copy_loop_down m dst src i =
    (if i \<noteq> 0 then copy_loop_down (m(dst + (i - 1) := m (src + (i - 1)))) dst src (i - 1) else m)"
  by pat_completeness auto
termination
  by (relation "measure (\<lambda>(m, d, s, i). unat i)") (auto simp: u32_pred_less)

declare fill_loop.simps [simp del] copy_loop.simps [simp del] copy_loop_down.simps [simp del]

lemma word_succ_le_iff: "i < n \<Longrightarrow> i + 1 \<le> y \<longleftrightarrow> i < (y :: u32)"
  by unat_arith

lemma word_index_iff: "x = p + i \<longleftrightarrow> x - p = (i :: u32)"
  by (auto simp: algebra_simps)

lemma word_distance: "a + k = b + j \<Longrightarrow> b - a = k - (j :: u32)"
  by (simp add: algebra_simps)

lemma fill_loop_apply:
  "fill_loop m p byte i n x = (if i \<le> x - p \<and> x - p < n then byte else m x)"
proof (induction m p byte i n rule: fill_loop.induct)
  case (1 m p byte i n)
  show ?case
  proof (cases "i < n")
    case True
    then have "fill_loop m p byte i n x = fill_loop (m(p + i := byte)) p byte (i + 1) n x"
      by (subst fill_loop.simps) simp
    also have "\<dots> = (if i < x - p \<and> x - p < n then byte else (m(p + i := byte)) x)"
      unfolding "1.IH" [OF True] word_succ_le_iff [OF True] ..
    also have "\<dots> = (if i \<le> x - p \<and> x - p < n then byte else m x)"
      using True by (auto simp: word_index_iff)
    finally show ?thesis .
  next
    case False
    then show ?thesis by (auto simp: fill_loop.simps [of m p byte i n])
  qed
qed

text \<open>
  Both copies move the bytes the source held at the start, provided that no byte is
  overwritten before it is read: the condition is on the distance of the two ranges.
\<close>

lemma copy_loop_apply:
  assumes "dst = src \<or> n \<le> dst - src"
  shows "copy_loop m dst src i n x =
    (if i \<le> x - dst \<and> x - dst < n then m (src + (x - dst)) else m x)"
  using assms
proof (induction m dst src i n rule: copy_loop.induct)
  case (1 m dst src i n)
  show ?case
  proof (cases "i < n")
    case True
    let ?m = "m(dst + i := m (src + i))"
    have "copy_loop m dst src i n x = copy_loop ?m dst src (i + 1) n x"
      using True by (subst copy_loop.simps) simp
    also have "\<dots> = (if i < x - dst \<and> x - dst < n then ?m (src + (x - dst)) else ?m x)"
      unfolding "1.IH" [OF True "1.prems"] word_succ_le_iff [OF True] ..
    also have "\<dots> = (if i \<le> x - dst \<and> x - dst < n then m (src + (x - dst)) else m x)"
    proof (cases "i < x - dst \<and> x - dst < n")
      case k: True
      have "?m (src + (x - dst)) = m (src + (x - dst))"
      proof (cases "dst = src")
        case False
        then have "n \<le> dst - src" using "1.prems" by blast
        have "src + (x - dst) \<noteq> dst + i"
        proof
          assume "src + (x - dst) = dst + i"
          then have "dst - src = (x - dst) - i" by (rule word_distance)
          moreover have "(x - dst) - i < n"
            using k by (meson le_less_trans less_imp_le word_sub_le)
          ultimately show False using \<open>n \<le> dst - src\<close> by (metis leD)
        qed
        then show ?thesis by simp
      qed (use k in auto)
      moreover have "i \<le> x - dst" using k less_imp_le by blast
      ultimately show ?thesis using k by (simp only: simp_thms if_True)
    next
      case False
      then show ?thesis using True by (auto simp: word_index_iff)
    qed
    finally show ?thesis .
  next
    case False
    then show ?thesis by (auto simp: copy_loop.simps [of m dst src i n])
  qed
qed

lemma copy_loop_down_apply:
  assumes "dst = src \<or> i \<le> src - dst"
  shows "copy_loop_down m dst src i x =
    (if x - dst < i then m (src + (x - dst)) else m x)"
  using assms
proof (induction m dst src i rule: copy_loop_down.induct)
  case (1 m dst src i)
  show ?case
  proof (cases "i \<noteq> 0")
    case True
    let ?m = "m(dst + (i - 1) := m (src + (i - 1)))"
    have lt: "x - dst < i - 1 \<longleftrightarrow> x - dst < i \<and> x - dst \<noteq> i - 1" if "i \<noteq> 0" for x
      using that by unat_arith
    have lt1: "i - 1 < i" using u32_pred_less [OF True] by (simp add: word_less_nat_alt)
    then have "i - 1 \<le> i" by simp
    then have ih: "dst = src \<or> i - 1 \<le> src - dst" using "1.prems" by force
    have "copy_loop_down m dst src i x = copy_loop_down ?m dst src (i - 1) x"
      using True by (subst copy_loop_down.simps) simp
    also have "\<dots> = (if x - dst < i - 1 then ?m (src + (x - dst)) else ?m x)"
      by (rule "1.IH" [OF True ih])
    also have "\<dots> = (if x - dst < i then m (src + (x - dst)) else m x)"
    proof (cases "x - dst < i - 1")
      case k: True
      have "?m (src + (x - dst)) = m (src + (x - dst))"
      proof (cases "dst = src")
        case False
        then have "i \<le> src - dst" using "1.prems" by blast
        have "src + (x - dst) \<noteq> dst + (i - 1)"
        proof
          assume "src + (x - dst) = dst + (i - 1)"
          then have "src - dst = (i - 1) - (x - dst)" by (rule word_distance [OF sym])
          moreover have "(i - 1) - (x - dst) < i"
            using k lt1 by (meson le_less_trans less_imp_le word_sub_le)
          ultimately show False using \<open>i \<le> src - dst\<close> by (metis leD)
        qed
        then show ?thesis by simp
      qed (use k in auto)
      then show ?thesis using k lt [OF True, of x] by (simp only: simp_thms if_True)
    next
      case False
      show ?thesis
      proof (cases "x = dst + (i - 1)")
        case here: True
        then have "x - dst = i - 1" by simp
        then show ?thesis using False here lt1 by simp
      next
        case elsewhere: False
        then have "\<not> x - dst < i"
          using False lt [OF True, of x] by (simp only: word_index_iff) blast
        then show ?thesis using False elsewhere by simp
      qed
    qed
    finally show ?thesis .
  next
    case False
    then show ?thesis by (simp add: copy_loop_down.simps [of m dst src 0])
  qed
qed

text \<open>The same facts at natural addresses below 2^32, for ranges that do not wrap.\<close>

lemma w32_wrap: "w32 (4294967296 + n) = w32 n"
  by (simp only: w32_def word_of_nat_eq_iff) (simp add: take_bit_eq_mod)

lemma w32_offset_less:
  assumes "p + n \<le> 4294967296" "x < 4294967296" "n < 4294967296"
  shows "w32 x - w32 p < w32 n \<longleftrightarrow> p \<le> x \<and> x < p + n"
proof (cases "p \<le> x")
  case True
  then show ?thesis using assms by (auto simp: w32_diff w32_less_iff)
next
  case False
  then have "w32 x - w32 p = w32 (4294967296 + x - p)"
    using assms False w32_add [of "4294967296 + x - p" p] w32_wrap [of x]
    by (simp add: diff_eq_eq)
  then show ?thesis using assms False by (auto simp: w32_less_iff)
qed

text \<open>Copying between two disjoint ranges of memory that do not wrap.\<close>

lemma copy_loop_ranges:
  assumes "p + n \<le> 4294967296" "q + n \<le> 4294967296" "n < 4294967296"
    and apart: "p + n \<le> q \<or> q + n \<le> p"
  shows "k < n \<Longrightarrow> copy_loop m (w32 q) (w32 p) 0 (w32 n) (w32 (q + k)) = m (w32 (p + k))"
    and "x < 4294967296 \<Longrightarrow> \<not> (q \<le> x \<and> x < q + n) \<Longrightarrow>
      copy_loop m (w32 q) (w32 p) 0 (w32 n) (w32 x) = m (w32 x)"
proof -
  have dist: "w32 q = w32 p \<or> w32 n \<le> w32 q - w32 p"
  proof (cases "n = 0")
    case False
    have "w32 n \<le> w32 q - w32 p" 
      using w32_offset_less [of p n q] assms False by (auto simp: not_less)
    then show ?thesis ..
  qed simp
  note cp = copy_loop_apply [OF dist, of m 0]
  show "k < n \<Longrightarrow> copy_loop m (w32 q) (w32 p) 0 (w32 n) (w32 (q + k)) = m (w32 (p + k))"
  proof -
    assume k: "k < n"
    have e: "w32 (q + k) - w32 q = w32 k" using w32_diff [of q "q + k"] by simp
    have "w32 k < w32 n" using k assms by (simp add: w32_less_iff)
    then show ?thesis unfolding cp e by (simp add: w32_add)
  qed
  show "x < 4294967296 \<Longrightarrow> \<not> (q \<le> x \<and> x < q + n) \<Longrightarrow>
      copy_loop m (w32 q) (w32 p) 0 (w32 n) (w32 x) = m (w32 x)"
    using w32_offset_less [of q n x] assms by (auto simp: cp)
qed

lemma fill_loop_ranges:
  assumes "p + n \<le> 4294967296" "n < 4294967296" "x < 4294967296"
  shows "fill_loop m (w32 p) byte 0 (w32 n) (w32 x) =
    (if p \<le> x \<and> x < p + n then byte else m (w32 x))"
  using w32_offset_less [of p n x] assms by (simp add: fill_loop_apply)

section \<open>Ranges of bytes that agree\<close>

text \<open>The bytes below \<open>s\<close> at \<open>p\<close> agree in two memories.\<close>

definition same_bytes :: "mem \<Rightarrow> mem \<Rightarrow> nat \<Rightarrow> nat \<Rightarrow> bool" where
  "same_bytes m m' p s \<longleftrightarrow> (\<forall>k < s. m' (w32 (p + k)) = m (w32 (p + k)))"

lemma same_bytes_trans:
  "same_bytes m m1 p n \<Longrightarrow> same_bytes m1 m2 p n \<Longrightarrow> same_bytes m m2 p n"
  by (simp add: same_bytes_def)

lemma same_bytes_mono: "same_bytes m m' p n \<Longrightarrow> k \<le> n \<Longrightarrow> same_bytes m m' p k"
  by (simp add: same_bytes_def)


end
