(* ===== verification/Heap.thy ===== *)
theory Heap
  imports ByteMem
begin

text \<open>
  The freestanding allocator of \<open>src/ee/runtime/heap.c\<close>: a doubly linked list of block
  headers kept inside the managed memory itself.  Every pointer access of the C code is
  a load or store of the byte memory; the four static variables are fields of the state.
\<close>

section \<open>State and block headers\<close>

definition EF2_HEAP_ALIGNMENT :: u32 where "EF2_HEAP_ALIGNMENT = 16"
definition EF2_HEAP_MAGIC_ALLOC :: u32 where "EF2_HEAP_MAGIC_ALLOC = 0xE2A110C1"
definition EF2_HEAP_MAGIC_FREE :: u32 where "EF2_HEAP_MAGIC_FREE = 0xE2F4EE01"

record heap =
  hmem :: mem
  g_heap_first :: u32
  g_heap_total :: u32
  g_heap_active :: u32
  g_heap_ready :: bool

text \<open>The fields of \<open>ef2_heap_block\<close> at their offsets; a null pointer is 0.\<close>

definition blk_size :: "mem \<Rightarrow> u32 \<Rightarrow> u32" where "blk_size m b = load32 m b"
definition blk_magic :: "mem \<Rightarrow> u32 \<Rightarrow> u32" where "blk_magic m b = load32 m (b + 4)"
definition blk_previous :: "mem \<Rightarrow> u32 \<Rightarrow> u32" where "blk_previous m b = load32 m (b + 8)"
definition blk_next :: "mem \<Rightarrow> u32 \<Rightarrow> u32" where "blk_next m b = load32 m (b + 12)"

definition set_size :: "u32 \<Rightarrow> u32 \<Rightarrow> mem \<Rightarrow> mem" where "set_size b v m = store32 m b v"
definition set_magic :: "u32 \<Rightarrow> u32 \<Rightarrow> mem \<Rightarrow> mem" where "set_magic b v m = store32 m (b + 4) v"
definition set_previous :: "u32 \<Rightarrow> u32 \<Rightarrow> mem \<Rightarrow> mem" where "set_previous b v m = store32 m (b + 8) v"
definition set_next :: "u32 \<Rightarrow> u32 \<Rightarrow> mem \<Rightarrow> mem" where "set_next b v m = store32 m (b + 12) v"

definition sizeof_heap_block :: u32 where "sizeof_heap_block = 16"

section \<open>Arithmetic helpers\<close>

definition align_up :: "u32 \<Rightarrow> u32" where
  "align_up value = (value + EF2_HEAP_ALIGNMENT - 1) AND NOT (EF2_HEAP_ALIGNMENT - 1)"

definition align_ptr_up :: "u32 \<Rightarrow> u32" where
  "align_ptr_up value = (value + EF2_HEAP_ALIGNMENT - 1) AND NOT (EF2_HEAP_ALIGNMENT - 1)"

definition align_ptr_down :: "u32 \<Rightarrow> u32" where
  "align_ptr_down value = value AND NOT (EF2_HEAP_ALIGNMENT - 1)"

definition header_size :: u32 where "header_size = align_up sizeof_heap_block"

definition block_payload :: "u32 \<Rightarrow> u32" where "block_payload block = block + header_size"
definition payload_block :: "u32 \<Rightarrow> u32" where "payload_block ptr = ptr - header_size"

text \<open>
  The shift-and-add loop of \<open>checked_multiply_u32\<close>; \<open>None\<close> is its error return -1.  The
  only call passes the address of a local variable, so the null test of the result
  pointer never fires.
\<close>

function multiply_loop :: "u32 \<Rightarrow> u32 \<Rightarrow> u32 \<Rightarrow> u32 option" where
  "multiply_loop left right result =
    (if right \<noteq> 0 then
       if right AND 1 \<noteq> 0 \<and> result > 0xFFFFFFFF - left then None
       else
         let result' = (if right AND 1 \<noteq> 0 then result + left else result);
             right' = drop_bit 1 right
         in if right' \<noteq> 0 then
              if left > 0x7FFFFFFF then None
              else multiply_loop (push_bit 1 left) right' result'
            else multiply_loop left right' result'
     else Some result)"
  by pat_completeness auto
termination
  by (relation "measure (\<lambda>(l, r, s). unat r)") (auto simp: unat_shift_right_less unat_gt_0)

definition checked_multiply_u32 :: "u32 \<Rightarrow> u32 \<Rightarrow> u32 option" where
  "checked_multiply_u32 left right = multiply_loop left right 0"

section \<open>Splitting and merging blocks\<close>

definition split_block :: "mem \<Rightarrow> u32 \<Rightarrow> u32 \<Rightarrow> mem" where
  "split_block m block wanted =
    (if blk_size m block < wanted then m
     else
       let remaining = blk_size m block - wanted in
       if remaining < header_size + EF2_HEAP_ALIGNMENT then m
       else
         let split = block_payload block + wanted;
             m1 = set_size split (remaining - header_size) m;
             m2 = set_magic split EF2_HEAP_MAGIC_FREE m1;
             m3 = set_previous split block m2;
             m4 = set_next split (blk_next m3 block) m3;
             m5 = (if blk_next m4 split \<noteq> 0
                   then set_previous (blk_next m4 split) split m4 else m4);
             m6 = set_size block wanted m5
         in set_next block split m6)"

definition merge_with_next :: "mem \<Rightarrow> u32 \<Rightarrow> mem" where
  "merge_with_next m block =
    (if block = 0 then m
     else
       let nxt = blk_next m block in
       if nxt = 0 \<or> blk_magic m nxt \<noteq> EF2_HEAP_MAGIC_FREE then m
       else
         let m1 = set_size block (blk_size m block + (header_size + blk_size m nxt)) m;
             m2 = set_next block (blk_next m1 nxt) m1
         in if blk_next m2 block \<noteq> 0
            then set_previous (blk_next m2 block) block m2 else m2)"

section \<open>The public operations\<close>

definition ef2_heap_init :: "heap \<Rightarrow> u32 \<Rightarrow> u32 \<Rightarrow> s32 \<times> heap" where
  "ef2_heap_init h memory bytes =
    (if memory = 0 \<or> bytes = 0 then (-1, h)
     else
       let start = align_ptr_up memory;
           end = align_ptr_down (memory + bytes);
           hsize = header_size
       in if end \<le> start \<or> end - start < hsize + EF2_HEAP_ALIGNMENT then (-2, h)
          else if end - start > 0xFFFFFFFF then (-3, h)
          else
            let m1 = set_size start (end - start - hsize) (hmem h);
                m2 = set_magic start EF2_HEAP_MAGIC_FREE m1;
                m3 = set_previous start 0 m2;
                m4 = set_next start 0 m3
            in (0, h\<lparr>hmem := m4, g_heap_first := start, g_heap_total := blk_size m4 start,
                     g_heap_active := 0, g_heap_ready := True\<rparr>))"

definition ef2_heap_is_ready :: "heap \<Rightarrow> bool" where
  "ef2_heap_is_ready h = g_heap_ready h"

text \<open>
  The list walk of \<open>ef2_malloc\<close>: the first free block of at least \<open>wanted\<close> bytes, 0 when
  the list ends.  \<open>None\<close> means that the walk does not end (a cyclic list).
\<close>

partial_function (option) find_free :: "mem \<Rightarrow> u32 \<Rightarrow> u32 \<Rightarrow> u32 option" where
  "find_free m wanted block =
    (if block = 0 then Some 0
     else if blk_magic m block \<noteq> EF2_HEAP_MAGIC_FREE \<or> blk_size m block < wanted
     then find_free m wanted (blk_next m block)
     else Some block)"

definition ef2_malloc :: "heap \<Rightarrow> u32 \<Rightarrow> (u32 \<times> heap) option" where
  "ef2_malloc h bytes =
    (if \<not> g_heap_ready h \<or> bytes = 0 then Some (0, h)
     else if bytes > 0xFFFFFFFF - (EF2_HEAP_ALIGNMENT - 1) then Some (0, h)
     else
       let wanted = align_up bytes in
       case find_free (hmem h) wanted (g_heap_first h) of
         None \<Rightarrow> None
       | Some block \<Rightarrow>
           if block = 0 then Some (0, h)
           else Some (block_payload block,
             h\<lparr>hmem := set_magic block EF2_HEAP_MAGIC_ALLOC (split_block (hmem h) block wanted),
               g_heap_active := g_heap_active h + 1\<rparr>))"

definition ef2_free :: "heap \<Rightarrow> u32 \<Rightarrow> heap" where
  "ef2_free h ptr =
    (if \<not> g_heap_ready h \<or> ptr = 0 then h
     else if ptr AND (EF2_HEAP_ALIGNMENT - 1) \<noteq> 0 then h
     else
       let block = payload_block ptr in
       if blk_magic (hmem h) block \<noteq> EF2_HEAP_MAGIC_ALLOC then h
       else
         let m1 = set_magic block EF2_HEAP_MAGIC_FREE (hmem h);
             active = (if g_heap_active h \<noteq> 0 then g_heap_active h - 1 else g_heap_active h);
             m2 = merge_with_next m1 block;
             m3 = (if blk_previous m2 block \<noteq> 0 \<and>
                      blk_magic m2 (blk_previous m2 block) = EF2_HEAP_MAGIC_FREE
                   then merge_with_next m2 (blk_previous m2 block) else m2)
         in h\<lparr>hmem := m3, g_heap_active := active\<rparr>)"

declare multiply_loop.simps [simp del]

definition ef2_calloc :: "heap \<Rightarrow> u32 \<Rightarrow> u32 \<Rightarrow> (u32 \<times> heap) option" where
  "ef2_calloc h count bytes =
    (if count = 0 \<or> bytes = 0 then Some (0, h)
     else case checked_multiply_u32 count bytes of
       None \<Rightarrow> Some (0, h)
     | Some needed \<Rightarrow>
         (case ef2_malloc h needed of
            None \<Rightarrow> None
          | Some (ptr, h') \<Rightarrow>
              if ptr = 0 then Some (0, h')
              else Some (ptr, h'\<lparr>hmem := fill_loop (hmem h') ptr 0 0 needed\<rparr>)))"

definition ef2_realloc :: "heap \<Rightarrow> u32 \<Rightarrow> u32 \<Rightarrow> (u32 \<times> heap) option" where
  "ef2_realloc h ptr bytes =
    (if ptr = 0 then ef2_malloc h bytes
     else if bytes = 0 then Some (0, ef2_free h ptr)
     else if \<not> g_heap_ready h \<or> ptr AND (EF2_HEAP_ALIGNMENT - 1) \<noteq> 0 then Some (0, h)
     else
       let block = payload_block ptr; m = hmem h in
       if blk_magic m block \<noteq> EF2_HEAP_MAGIC_ALLOC then Some (0, h)
       else
         let wanted = align_up bytes; old_size = blk_size m block in
         if wanted \<le> old_size then Some (ptr, h\<lparr>hmem := split_block m block wanted\<rparr>)
         else if blk_next m block \<noteq> 0 \<and>
                 blk_magic m (blk_next m block) = EF2_HEAP_MAGIC_FREE \<and>
                 old_size + header_size + blk_size m (blk_next m block) \<ge> wanted
         then Some (ptr, h\<lparr>hmem := set_magic block EF2_HEAP_MAGIC_ALLOC
                (split_block (merge_with_next m block) block wanted)\<rparr>)
         else
           case ef2_malloc h bytes of
             None \<Rightarrow> None
           | Some (replacement, h') \<Rightarrow>
               if replacement = 0 then Some (0, h')
               else
                 let copy_size = (if old_size < bytes then old_size else bytes);
                     h'' = h'\<lparr>hmem := copy_loop (hmem h') replacement ptr 0 copy_size\<rparr>
                 in Some (replacement, ef2_free h'' ptr))"

definition ef2_heap_usable_size :: "heap \<Rightarrow> u32 \<Rightarrow> u32" where
  "ef2_heap_usable_size h ptr =
    (if \<not> g_heap_ready h \<or> ptr = 0 then 0
     else
       let block = payload_block ptr in
       if blk_magic (hmem h) block \<noteq> EF2_HEAP_MAGIC_ALLOC then 0
       else blk_size (hmem h) block)"

record heap_stats =
  total_bytes :: u32
  free_bytes :: u32
  largest_free_block :: u32
  active_allocations :: u32

partial_function (option) stats_walk ::
  "mem \<Rightarrow> u32 \<Rightarrow> u32 \<Rightarrow> u32 \<Rightarrow> (u32 \<times> u32) option" where
  "stats_walk m block free largest =
    (if block = 0 then Some (free, largest)
     else if blk_magic m block \<noteq> EF2_HEAP_MAGIC_FREE
     then stats_walk m (blk_next m block) free largest
     else stats_walk m (blk_next m block) (free + blk_size m block)
            (if blk_size m block > largest then blk_size m block else largest))"

text \<open>
  \<open>ef2_heap_get_stats\<close>: \<open>None\<close> for \<open>stats\<close> is the null pointer; the result is the return code
  and the structure behind the pointer, unchanged on the error return.
\<close>

definition ef2_heap_get_stats ::
  "heap \<Rightarrow> heap_stats option \<Rightarrow> (s32 \<times> heap_stats option) option" where
  "ef2_heap_get_stats h stats =
    (if \<not> g_heap_ready h \<or> stats = None then Some (-1, stats)
     else case stats_walk (hmem h) (g_heap_first h) 0 0 of
       None \<Rightarrow> None
     | Some (free, largest) \<Rightarrow>
         Some (0, Some \<lparr>total_bytes = g_heap_total h, free_bytes = free,
                   largest_free_block = largest, active_allocations = g_heap_active h\<rparr>))"

end
