(* ===== verification/Allocator.thy ===== *)
theory Allocator
  imports ByteMem
begin

text \<open>
  The allocator interface as its clients rely on it (\<open>libc_stdio.c\<close>, application code):
  \<open>alloc\<close> and \<open>release\<close> on an abstract heap state, the bytes of memory it holds, and the
  set of live payloads as pairs of address and size.
\<close>

locale allocator =
  fixes alloc :: "'h \<Rightarrow> u32 \<Rightarrow> (u32 \<times> 'h) option"
    and release :: "'h \<Rightarrow> u32 \<Rightarrow> 'h"
    and bytes :: "'h \<Rightarrow> mem"
    and put :: "mem \<Rightarrow> 'h \<Rightarrow> 'h"
    and rel :: "'h \<Rightarrow> 'a \<Rightarrow> bool"
    and live :: "'a \<Rightarrow> (nat \<times> nat) set"
  assumes alloc_total: "rel h a \<Longrightarrow> alloc h n \<noteq> None"
    and alloc_null: "rel h a \<Longrightarrow> alloc h n = Some (0, h') \<Longrightarrow> h' = h"
    and alloc_some: "rel h a \<Longrightarrow> alloc h n = Some (p, h') \<Longrightarrow> p \<noteq> 0 \<Longrightarrow>
      \<exists>a' s. rel h' a' \<and> unat n \<le> s \<and> (unat p, s) \<notin> live a \<and>
        live a' = insert (unat p, s) (live a) \<and>
        (\<forall>q t. (q, t) \<in> live a \<longrightarrow> same_bytes (bytes h) (bytes h') q t)"
    and release_live: "rel h a \<Longrightarrow> (unat p, s) \<in> live a \<Longrightarrow>
      \<exists>a'. rel (release h p) a' \<and> live a' = live a - {(unat p, s)} \<and>
        (\<forall>q t. (q, t) \<in> live a \<longrightarrow> same_bytes (bytes h) (bytes (release h p)) q t)"
    and put_inside: "rel h a \<Longrightarrow> (b, s) \<in> live a \<Longrightarrow>
      (\<And>k. k < 4294967296 \<Longrightarrow> \<not> (b \<le> k \<and> k < b + s) \<Longrightarrow> m (w32 k) = bytes h (w32 k)) \<Longrightarrow>
      rel (put m h) a"
    and bytes_put: "bytes (put m h) = m"
    and live_bound: "rel h a \<Longrightarrow> (b, s) \<in> live a \<Longrightarrow> b + s < 4294967296"
    and live_apart: "rel h a \<Longrightarrow> (b, s) \<in> live a \<Longrightarrow> (q, t) \<in> live a \<Longrightarrow>
      (b, s) = (q, t) \<or> b + s \<le> q \<or> q + t \<le> b"
begin

text \<open>
  A client that allocates a buffer, writes only inside it and releases it leaves the same
  payloads live, with their contents.
\<close>

lemma temporary_buffer:
  assumes a: "rel h a" and p: "alloc h n = Some (p, h1)" "p \<noteq> 0"
    and m: "\<And>k. k < 4294967296 \<Longrightarrow> \<not> (unat p \<le> k \<and> k < unat p + unat n) \<Longrightarrow>
      m (w32 k) = bytes h1 (w32 k)"
  shows "\<exists>a'. rel (release (put m h1) p) a' \<and> live a' = live a \<and>
    (\<forall>q t. (q, t) \<in> live a \<longrightarrow> same_bytes (bytes h) (bytes (release (put m h1) p)) q t)"
proof -
  from alloc_some [OF a p] obtain a1 s where a1: "rel h1 a1" "unat n \<le> s" "(unat p, s) \<notin> live a"
    "live a1 = insert (unat p, s) (live a)"
    and k1: "\<And>q t. (q, t) \<in> live a \<Longrightarrow> same_bytes (bytes h) (bytes h1) q t" by blast
  have ps: "(unat p, s) \<in> live a1" using a1 by simp
  have a2: "rel (put m h1) a1"
    by (rule put_inside [OF a1(1) ps]) (use m a1(2) in auto)
  from release_live [OF a2 ps] obtain a3 where a3: "rel (release (put m h1) p) a3"
    "live a3 = live a1 - {(unat p, s)}"
    and k3: "\<And>q t. (q, t) \<in> live a1 \<Longrightarrow> same_bytes m (bytes (release (put m h1) p)) q t"
    by (auto simp: bytes_put)
  have "same_bytes (bytes h) (bytes (release (put m h1) p)) q t" if q: "(q, t) \<in> live a" for q t
  proof -
    have q1: "(q, t) \<in> live a1" using q a1 by simp
    have "q + t \<le> unat p \<or> unat p + s \<le> q" using live_apart [OF a1(1) q1 ps] q a1(3) by auto
    then have "same_bytes (bytes h1) m q t"
      unfolding same_bytes_def using live_bound [OF a1(1) q1] a1(2) by (auto intro!: m)
    then show ?thesis using k1 [OF q] k3 [OF q1] by (blast intro: same_bytes_trans)
  qed
  then show ?thesis using a3 a1 by auto
qed

end

end
