(* ===== verification/HeapSpec.thy ===== *)
theory HeapSpec
  imports Heap Allocator
begin

lemma header_size [simp]: "header_size = 16" by (simp add: header_size_def align_up_def sizeof_heap_block_def EF2_HEAP_ALIGNMENT_def)

lemma unat_and_not_15: "unat ((x::u32) AND -16) = unat x div 16 * 16"
  using unat_and_not_mask [of x 4] by (simp add: mask_eq_exp_minus_1)

lemma unat_align_up:
  assumes "unat x \<le> 4294967280"
  shows "unat (align_up x) = (unat x + 15) div 16 * 16"
proof -
  have "unat (x + 15) = unat x + 15"
    using assms by (simp add: unat_word_ariths)
  then show ?thesis
    by (simp add: align_up_def EF2_HEAP_ALIGNMENT_def unat_and_not_15 add.commute)
qed

lemma unat_shift_right_decomp:
  "unat (r :: u32) = 2 * unat (drop_bit 1 r) + (if r AND 1 \<noteq> 0 then 1 else 0)"
proof -
  have "unat (drop_bit 1 r) = unat r div 2" by (simp add: drop_bit_Suc unat_div)
  moreover have "(r AND 1 \<noteq> 0) = odd (unat r)"
    by (simp add: and_one_eq odd_iff_mod_2_eq_one word_unat_eq_iff unat_mod)
  moreover have "unat r = 2 * (unat r div 2) + (if odd (unat r) then 1 else 0)"
    by simp
  ultimately show ?thesis by simp
qed

lemma u32_overflow_iff: "0xFFFFFFFF - l < s \<longleftrightarrow> 4294967296 \<le> unat s + unat (l :: u32)"
proof -
  have "l \<le> 0xFFFFFFFF" using unat_less_32 [of l] by (simp add: word_le_nat_alt del: unat_less_32)
  then have "unat (0xFFFFFFFF - l) = 4294967295 - unat l" by (simp add: unat_sub)
  then show ?thesis unfolding word_less_nat_alt using unat_less_32 [of l] by linarith
qed

lemma unat_add_no_overflow:
  "unat s + unat l < 4294967296 \<Longrightarrow> unat (s + l :: u32) = unat s + unat l"
  by (simp add: unat_word_ariths)

lemma unat_double_no_overflow:
  "\<not> 0x7FFFFFFF < l \<Longrightarrow> unat (push_bit 1 l :: u32) = 2 * unat l"
  by (simp add: word_less_nat_alt unat_word_ariths)

lemma multiply_loop_spec:
  "multiply_loop l r s =
    (if unat s + unat l * unat r < 4294967296 then Some (s + l * r) else None)"
proof (induction l r s rule: multiply_loop.induct)
  case (1 l r s)
  show ?case
  proof (cases "r = 0")
    case True
    then show ?thesis by (simp add: multiply_loop.simps [of l 0 s])
  next
    case False
    define s' where "s' = (if r AND 1 \<noteq> 0 then s + l else s)"
    define q where "q = drop_bit 1 r"
    note r = unat_shift_right_decomp [of r, folded q_def]
    have unf: "multiply_loop l r s =
      (if r AND 1 \<noteq> 0 \<and> s > 0xFFFFFFFF - l then None
       else if q \<noteq> 0 then if l > 0x7FFFFFFF then None else multiply_loop (push_bit 1 l) q s'
       else multiply_loop l q s')"
      using False by (subst multiply_loop.simps) (simp add: q_def s'_def Let_def)
    note over = u32_overflow_iff [of l s]
    show ?thesis
    proof (cases "r AND 1 \<noteq> 0 \<and> s > 0xFFFFFFFF - l")
      case True
      then have "unat s + unat l * unat r \<ge> 4294967296"
        using over r by (simp add: add_mult_distrib2) 
      with True unf show ?thesis by simp
    next
      case no_over: False
      then have s': "unat s' = unat s + (if r AND 1 \<noteq> 0 then unat l else 0)"
        using over by (auto simp: s'_def intro: unat_add_no_overflow)
      have w: "s' + push_bit 1 l * q = s + l * r"
      proof -
        have "r = 2 * q + (if r AND 1 \<noteq> 0 then 1 else 0)"
          using arg_cong [OF r, of "word_of_nat :: nat \<Rightarrow> u32"]
          by (cases "r AND 1 \<noteq> 0") simp_all
        then have "l * r = l * (2 * q + (if r AND 1 \<noteq> 0 then 1 else 0))" by (rule arg_cong)
        then show ?thesis by (simp add: s'_def algebra_simps)
      qed
      show ?thesis
      proof (cases "q = 0")
        case True
        then have "multiply_loop l r s = Some s'"
          using unf no_over by (simp add: multiply_loop.simps [of l 0 s'])
        moreover have "unat s + unat l * unat r = unat s'" using True r s' by simp
        ultimately show ?thesis using True w by simp
      next
        case q: False
        show ?thesis
        proof (cases "l > 0x7FFFFFFF")
          case True
          then have "2147483648 \<le> unat l" by (simp add: word_less_nat_alt)
          moreover have "2 \<le> unat r" using r q unat_gt_0 [of q] by linarith
          ultimately have "2147483648 * 2 \<le> unat l * unat r" by (rule mult_le_mono)
          then show ?thesis using unf no_over q True by simp
        next
          case False
          then have "unat s' + unat (push_bit 1 l) * unat q = unat s + unat l * unat r"
            by (subst unat_double_no_overflow) (simp_all add: s' r algebra_simps)
          then show ?thesis
            using unf no_over q False w "1.IH"(1) [OF \<open>r \<noteq> 0\<close> _ s'_def q_def q False] by simp
        qed
      qed
    qed
  qed
qed

type_synonym blocks = "(nat \<times> bool) list"

definition magic_of :: "bool \<Rightarrow> u32" where
  "magic_of u = (if u then EF2_HEAP_MAGIC_ALLOC else EF2_HEAP_MAGIC_FREE)"

fun span :: "blocks \<Rightarrow> nat" where
  "span [] = 0"
| "span ((s, u) # bs) = 16 + s + span bs"

fun hseg :: "mem \<Rightarrow> u32 \<Rightarrow> nat \<Rightarrow> u32 \<Rightarrow> blocks \<Rightarrow> bool" where
  "hseg m p a q [] \<longleftrightarrow> True"
| "hseg m p a q ((s, u) # bs) \<longleftrightarrow>
     load32 m (w32 a) = w32 s \<and> load32 m (w32 a + 4) = magic_of u \<and>
     load32 m (w32 a + 8) = p \<and>
     load32 m (w32 a + 12) = (if bs = [] then q else w32 (a + 16 + s)) \<and>
     hseg m (w32 a) (a + 16 + s) q bs"

fun lastp :: "u32 \<Rightarrow> nat \<Rightarrow> blocks \<Rightarrow> u32" where
  "lastp p a [] = p"
| "lastp p a ((s, u) # bs) = lastp (w32 a) (a + 16 + s) bs"

definition wf_blocks :: "blocks \<Rightarrow> bool" where
  "wf_blocks bs \<longleftrightarrow> (\<forall>(s, u) \<in> set bs. 16 dvd s)"

lemma wf_blocks_simps [simp]:
  "wf_blocks []"
  "wf_blocks ((s, u) # bs) \<longleftrightarrow> 16 dvd s \<and> wf_blocks bs"
  "wf_blocks (xs @ ys) \<longleftrightarrow> wf_blocks xs \<and> wf_blocks ys"
  by (auto simp: wf_blocks_def)

lemma span_append [simp]: "span (xs @ ys) = span xs + span ys"
  by (induction xs rule: span.induct) auto

lemma span_dvd: "wf_blocks bs \<Longrightarrow> 16 dvd span bs"
  by (induction bs rule: span.induct) auto

lemma lastp_append [simp]: "lastp p a (xs @ ys) = lastp (lastp p a xs) (a + span xs) ys"
  by (induction p a xs rule: lastp.induct) (auto simp: add.assoc)

lemma hseg_append:
  "hseg m p a q (xs @ ys) \<longleftrightarrow>
     hseg m p a (if ys = [] then q else w32 (a + span xs)) xs \<and>
     hseg m (lastp p a xs) (a + span xs) q ys"
  by (induction m p a q xs rule: hseg.induct) (auto simp: add.assoc)

lemma hseg_store_outside [heap_simps]:
  assumes "16 dvd x" "x < 4294967296" "field_off i" "16 dvd a" "wf_blocks bs"
    "a + span bs \<le> 4294967296" "x < a \<or> a + span bs \<le> x"
  shows "hseg (store32 m (w32 x + i) v) p a q bs = hseg m p a q bs"
  using assms
proof (induction m p a q bs rule: hseg.induct)
  case (2 m p a q s u bs)
  then have "a < 4294967296" "x \<noteq> a" by auto
  then show ?case using 2 by (simp add: heap_simps) auto
qed simp

lemmas hseg_store_outside0 [heap_simps] =
  hseg_store_outside [where i = 0, simplified]

lemma hseg_set_previous:
  assumes "hseg m p a q ((s, u) # bs)" "16 dvd a" "wf_blocks ((s, u) # bs)"
    "a + span ((s, u) # bs) \<le> 4294967296"
  shows "hseg (store32 m (w32 a + 8) p') p' a q ((s, u) # bs)"
  using assms by (simp add: heap_simps)

lemma hseg_set_next:
  assumes "hseg m p a q (xs @ [(s, u)])" "16 dvd a" "wf_blocks (xs @ [(s, u)])"
    "a + span (xs @ [(s, u)]) \<le> 4294967296"
  shows "hseg (store32 m (w32 (a + span xs) + 12) q') p a q' (xs @ [(s, u)])"
  using assms by (simp add: heap_simps hseg_append span_dvd)

lemmas heap_field_defs = blk_size_def blk_magic_def blk_previous_def blk_next_def
  set_size_def set_magic_def set_previous_def set_next_def block_payload_def payload_block_def

text \<open>The block list is well formed, lies in memory, and is the linked list from \<open>base\<close>.\<close>

definition hlist :: "mem \<Rightarrow> nat \<Rightarrow> blocks \<Rightarrow> bool" where
  "hlist m base bs \<longleftrightarrow> hseg m 0 base 0 bs \<and> wf_blocks bs \<and> 16 dvd base \<and> 0 < base \<and>
     base + span bs < 4294967296"

definition split_list :: "nat \<Rightarrow> nat \<Rightarrow> bool \<Rightarrow> blocks \<Rightarrow> blocks" where
  "split_list w s u ys =
    (if s - w < 32 then (s, u) # ys else (w, u) # (s - w - 16, False) # ys)"

lemma split_block_small:
  assumes "hlist m base (xs @ (s, u) # ys)" "w \<le> s" "s - w < 32"
  shows "split_block m (w32 (base + span xs)) (w32 w) = m"
proof -
  have "load32 m (w32 (base + span xs)) = w32 s" "s < 4294967296"
    using assms by (auto simp: hlist_def hseg_append)
  moreover have "w32 s - w32 w = w32 (s - w)" by (rule w32_diff [OF assms(2)])
  ultimately show ?thesis
    using assms w32_less_iff [of "s - w" 32]
    by (simp add: split_block_def heap_field_defs EF2_HEAP_ALIGNMENT_def w32_numeral Let_def)
qed

text \<open>The memory after a split, as the stores made: \<open>b\<close> is the new block, \<open>n\<close> the old next.\<close>

definition split_stores :: "mem \<Rightarrow> nat \<Rightarrow> nat \<Rightarrow> nat \<Rightarrow> nat \<Rightarrow> nat \<Rightarrow> bool \<Rightarrow> mem" where
  "split_stores m a b n r w is_last =
    (let m4 = store32 (store32 (store32 (store32 m (w32 b) (w32 r)) (w32 b + 4)
           EF2_HEAP_MAGIC_FREE) (w32 b + 8) (w32 a)) (w32 b + 12) (if is_last then 0 else w32 n);
         m5 = (if is_last then m4 else store32 m4 (w32 n + 8) (w32 b))
     in store32 (store32 m5 (w32 a) (w32 w)) (w32 a + 12) (w32 b))"

lemma split_block_large:
  assumes h: "hlist m base (xs @ (s, u) # ys)" and w: "w \<le> s" "16 dvd w" "\<not> s - w < 32"
  shows split_block_stores: "split_block m (w32 (base + span xs)) (w32 w) =
      split_stores m (base + span xs) (base + span xs + 16 + w) (base + span xs + 16 + s)
        (s - w - 16) w (ys = [])"
    and split_block_hlist: "hlist (split_block m (w32 (base + span xs)) (w32 w)) base
      (xs @ (w, u) # (s - w - 16, False) # ys)"
proof -
  define a where "a = base + span xs"
  define b where "b = a + 16 + w"
  define n where "n = a + 16 + s"
  have al: "16 dvd base" "16 dvd a" "16 dvd b" "16 dvd n" "16 dvd s" "16 dvd s - w - 16"
    using h w by (auto simp: hlist_def a_def b_def n_def span_dvd dvd_diff_nat)
  have bd: "0 < base" "0 < a" "a < 4294967296" "b < 4294967296" "n < 4294967296" "a < b" "b < n"
    "b + 16 + (s - w - 16) = n" "base + span xs = a" "n + span ys < 4294967296" "s < 4294967296"
    using h w by (auto simp: hlist_def a_def b_def n_def)
  have wf: "wf_blocks xs" "wf_blocks ys" using h by (auto simp: hlist_def)
  have segs: "hseg m 0 base (w32 a) xs" "load32 m (w32 a) = w32 s"
    "load32 m (w32 a + 4) = magic_of u" "load32 m (w32 a + 8) = lastp 0 base xs"
    "load32 m (w32 a + 12) = (if ys = [] then 0 else w32 n)" "hseg m (w32 a) n 0 ys"
    using h by (auto simp: hlist_def hseg_append a_def n_def)
  have arith: "w32 s - w32 w = w32 (s - w)" "w32 a + 16 + w32 w = w32 b"
    "w32 (s - w) - 16 = w32 (s - w - 16)"
    using w by (auto simp: w32_diff w32_diff_numeral w32_add_numeral w32_add b_def)
  have cmp: "\<not> w32 s < w32 w" "\<not> w32 (s - w) < 32"
    using w bd w32_less_iff [of s w] w32_less_iff [of "s - w" 32]
    by (auto simp: w32_numeral)
  define m7 where "m7 = split_stores m a b n (s - w - 16) w (ys = [])"
  have m7: "split_block m (w32 a) (w32 w) = m7"
    using cmp al bd unfolding split_block_def heap_field_defs header_size EF2_HEAP_ALIGNMENT_def
    by (simp add: segs arith Let_def m7_def split_stores_def heap_simps w32_eq_0_iff)
  then show "split_block m (w32 (base + span xs)) (w32 w) =
      split_stores m (base + span xs) (base + span xs + 16 + w) (base + span xs + 16 + s)
        (s - w - 16) w (ys = [])"
    by (simp only: m7_def a_def b_def n_def)
  have ys: "hseg m7 (w32 b) n 0 ys"
  proof (cases ys)
    case (Cons y ys')
    then obtain t v where y: "ys = (t, v) # ys'" by (cases y) auto
    show ?thesis using segs(6) wf al bd
      unfolding m7_def split_stores_def y by (simp add: heap_simps)
  qed simp
  have "hseg m7 0 base 0 (xs @ (w, u) # (s - w - 16, False) # ys)"
    using segs ys al bd wf
    by (simp add: hseg_append a_def [symmetric] b_def [symmetric] heap_simps)
       (simp add: m7_def split_stores_def magic_of_def a_def [symmetric] heap_simps)
  moreover have "base + span (xs @ (w, u) # (s - w - 16, False) # ys) = n + span ys"
    using bd(8,9) by (simp add: b_def)
  moreover have "wf_blocks (xs @ (w, u) # (s - w - 16, False) # ys)"
    using al wf w by auto
  ultimately show "hlist (split_block m (w32 (base + span xs)) (w32 w)) base
      (xs @ (w, u) # (s - w - 16, False) # ys)"
    using bd al unfolding a_def [symmetric] m7 hlist_def by simp
qed

lemma hlist_set_magic:
  assumes "hlist m base (xs @ (s, u) # ys)"
  shows "hlist (set_magic (w32 (base + span xs)) (magic_of v) m) base (xs @ (s, v) # ys)"
proof -
  have "16 dvd base + span xs" "wf_blocks xs" "wf_blocks ys" "base + span xs < 4294967296"
    using assms by (auto simp: hlist_def span_dvd)
  then show ?thesis
    using assms by (simp add: hlist_def hseg_append set_magic_def heap_simps)
qed

text \<open>The memory after a merge, as the stores made: \<open>a\<close> absorbs its neighbour, \<open>n\<close> is next.\<close>

definition merge_stores :: "mem \<Rightarrow> nat \<Rightarrow> nat \<Rightarrow> nat \<Rightarrow> bool \<Rightarrow> mem" where
  "merge_stores m a n s is_last =
    (let m2 = store32 (store32 m (w32 a) (w32 s)) (w32 a + 12) (if is_last then 0 else w32 n)
     in if is_last then m2 else store32 m2 (w32 n + 8) (w32 a))"

lemma merge_with_next_free:
  assumes h: "hlist m base (xs @ (s, u) # (t, False) # ys)"
  shows merge_with_next_stores: "merge_with_next m (w32 (base + span xs)) =
      merge_stores m (base + span xs) (base + span xs + 32 + s + t) (s + 16 + t) (ys = [])"
    and merge_with_next_hlist:
      "hlist (merge_with_next m (w32 (base + span xs))) base (xs @ (s + 16 + t, u) # ys)"
proof -
  define a where "a = base + span xs"
  define b where "b = a + 16 + s"
  define n where "n = b + 16 + t"
  have sp: "base + span xs = a" "a + 16 + s = b" "b + 16 + t = n" "a + 16 + (s + 16 + t) = n"
    by (simp_all add: a_def b_def n_def)
  have al: "16 dvd base" "16 dvd a" "16 dvd b" "16 dvd n" "16 dvd s" "16 dvd t" "16 dvd s + 16 + t"
    using h by (auto simp: hlist_def a_def b_def n_def span_dvd)
  have bd: "0 < base" "0 < a" "a < 4294967296" "b < 4294967296" "n < 4294967296" "a < b" "b < n"
    "n + span ys < 4294967296" "base \<le> a"
    using h by (auto simp: hlist_def a_def b_def n_def)
  have wf: "wf_blocks xs" "wf_blocks ys" using h by (auto simp: hlist_def)
  have segs: "hseg m 0 base (w32 a) xs" "load32 m (w32 a) = w32 s"
    "load32 m (w32 a + 4) = magic_of u" "load32 m (w32 a + 8) = lastp 0 base xs"
    "load32 m (w32 a + 12) = w32 b" 
    "load32 m (w32 b) = w32 t" "load32 m (w32 b + 4) = EF2_HEAP_MAGIC_FREE"
    "load32 m (w32 b + 12) = (if ys = [] then 0 else w32 n)" "hseg m (w32 b) n 0 ys"
    using h by (auto simp: hlist_def hseg_append sp magic_of_def)
  have nz: "w32 a \<noteq> 0" "w32 b \<noteq> 0" "w32 n \<noteq> 0"
    using bd by (auto simp: w32_eq_0_iff)
  have arith: "w32 s + (16 + w32 t) = w32 (s + 16 + t)"
    by (simp add: w32_add w32_add_numeral ac_simps)
  define m3 where "m3 = merge_stores m a n (s + 16 + t) (ys = [])"
  have m3: "merge_with_next m (w32 a) = m3"
    using al bd nz unfolding merge_with_next_def heap_field_defs header_size
    by (simp add: segs arith Let_def m3_def merge_stores_def heap_simps)
  have ys: "hseg m3 (w32 a) n 0 ys"
  proof (cases ys)
    case (Cons y ys')
    then obtain t' v where y: "ys = (t', v) # ys'" by (cases y) auto
    show ?thesis using segs(9) wf al bd
      unfolding m3_def merge_stores_def y by (simp add: heap_simps)
  qed simp
  have "hseg m3 0 base 0 (xs @ (s + 16 + t, u) # ys)"
    using segs ys al bd wf
    by (simp add: hseg_append sp heap_simps) (simp add: m3_def merge_stores_def sp heap_simps)
  moreover have "base + span (xs @ (s + 16 + t, u) # ys) = n + span ys"
    using sp by simp
  moreover have "wf_blocks (xs @ (s + 16 + t, u) # ys)"
    using al wf by auto
  ultimately show "hlist (merge_with_next m (w32 (base + span xs))) base (xs @ (s + 16 + t, u) # ys)"
    using bd al unfolding sp m3 hlist_def by simp
  have "base + span xs + 32 + s + t = n" using sp by simp
  then show "merge_with_next m (w32 (base + span xs)) =
      merge_stores m (base + span xs) (base + span xs + 32 + s + t) (s + 16 + t) (ys = [])"
    using m3 unfolding m3_def sp by simp
qed

lemma merge_with_next_none:
  assumes h: "hlist m base (xs @ (s, u) # ys)" and "ys = [] \<or> snd (hd ys)"
  shows "merge_with_next m (w32 (base + span xs)) = m"
proof (cases ys)
  case Nil
  then have "load32 m (w32 (base + span xs) + 12) = 0"
    using h by (auto simp: hlist_def hseg_append)
  then show ?thesis by (simp add: merge_with_next_def heap_field_defs)
next
  case (Cons y ys')
  then obtain t where y: "ys = (t, True) # ys'" using assms(2) by (cases y) auto
  have "load32 m (w32 (base + span xs) + 12) = w32 (base + span xs + 16 + s)"
    "load32 m (w32 (base + span xs + 16 + s) + 4) = EF2_HEAP_MAGIC_ALLOC"
    using h y by (auto simp: hlist_def hseg_append magic_of_def)
  then show ?thesis
    by (simp add: merge_with_next_def heap_field_defs EF2_HEAP_MAGIC_ALLOC_def EF2_HEAP_MAGIC_FREE_def)
qed

section \<open>First fit\<close>

fun first_fit :: "nat \<Rightarrow> blocks \<Rightarrow> (blocks \<times> nat \<times> blocks) option" where
  "first_fit w [] = None"
| "first_fit w ((s, u) # bs) =
    (if \<not> u \<and> w \<le> s then Some ([], s, bs)
     else map_option (\<lambda>(xs, t, ys). ((s, u) # xs, t, ys)) (first_fit w bs))"

lemma first_fit_Some:
  "first_fit w bs = Some (xs, s, ys) \<Longrightarrow>
     bs = xs @ (s, False) # ys \<and> w \<le> s \<and> (\<forall>(t, u) \<in> set xs. u \<or> t < w)"
  by (induction w bs arbitrary: xs rule: first_fit.induct) (auto split: if_splits)

lemma first_fit_None: "first_fit w bs = None \<longleftrightarrow> (\<forall>(t, u) \<in> set bs. u \<or> t < w)"
  by (induction w bs rule: first_fit.induct) auto

lemma find_free_first_fit:
  assumes "hseg m p a 0 bs" "0 < a" "a + span bs < 4294967296" "w < 4294967296"
  shows "find_free m (w32 w) (if bs = [] then 0 else w32 a) =
    Some (case first_fit w bs of None \<Rightarrow> 0 | Some (xs, s, ys) \<Rightarrow> w32 (a + span xs))"
  using assms
proof (induction bs arbitrary: p a)
  case Nil
  then show ?case by (simp add: find_free.simps)
next
  case (Cons b bs)
  obtain s u where b: "b = (s, u)" by (cases b)
  from Cons.prems have f: "load32 m (w32 a) = w32 s" "load32 m (w32 a + 4) = magic_of u"
    "load32 m (w32 a + 12) = (if bs = [] then 0 else w32 (a + 16 + s))"
    "hseg m (w32 a) (a + 16 + s) 0 bs" "w32 a \<noteq> 0" "s < 4294967296"
    by (auto simp: b w32_eq_0_iff)
  have IH: "find_free m (w32 w) (if bs = [] then 0 else w32 (a + 16 + s)) =
    Some (case first_fit w bs of None \<Rightarrow> 0 | Some (xs, t, ys) \<Rightarrow> w32 (a + 16 + s + span xs))"
    using Cons.prems f by (intro Cons.IH) (auto simp: b)
  show ?case
  proof (cases "\<not> u \<and> w \<le> s")
    case True
    then show ?thesis using f Cons.prems
      by (simp add: b find_free.simps [of m "w32 w" "w32 a"] heap_field_defs magic_of_def w32_less_iff)
  next
    case False
    then have "find_free m (w32 w) (w32 a) = find_free m (w32 w) (load32 m (w32 a + 12))"
      using f Cons.prems
      by (subst find_free.simps)
        (auto simp: heap_field_defs magic_of_def w32_less_iff EF2_HEAP_MAGIC_ALLOC_def EF2_HEAP_MAGIC_FREE_def)
    then show ?thesis using IH f False
      by (auto simp: b add.assoc split: option.splits)
  qed
qed

section \<open>Allocated payloads and the bytes outside headers\<close>

fun headers :: "nat \<Rightarrow> blocks \<Rightarrow> nat set" where
  "headers a [] = {}"
| "headers a ((s, u) # bs) = {a..<a + 16} \<union> headers (a + 16 + s) bs"

fun allocs :: "nat \<Rightarrow> blocks \<Rightarrow> (nat \<times> nat) set" where
  "allocs a [] = {}"
| "allocs a ((s, u) # bs) = (if u then {(a + 16, s)} else {}) \<union> allocs (a + 16 + s) bs"

lemma headers_append [simp]: "headers a (xs @ ys) = headers a xs \<union> headers (a + span xs) ys"
  by (induction a xs rule: headers.induct) (auto simp: add.assoc)

lemma allocs_append [simp]: "allocs a (xs @ ys) = allocs a xs \<union> allocs (a + span xs) ys"
  by (induction a xs rule: allocs.induct) (auto simp: add.assoc)

lemma headers_range: "headers a bs \<subseteq> {a..<a + span bs}"
  by (induction a bs rule: headers.induct) force+

lemma allocs_range:
  "(p, s) \<in> allocs a bs \<Longrightarrow> a + 16 \<le> p \<and> p + s \<le> a + span bs"
  by (induction a bs rule: allocs.induct) (force split: if_splits)+

lemma allocs_aligned:
  "(p, s) \<in> allocs a bs \<Longrightarrow> 16 dvd a \<Longrightarrow> wf_blocks bs \<Longrightarrow> 16 dvd p \<and> 16 dvd s"
  by (induction a bs rule: allocs.induct) (auto split: if_splits)

lemma allocs_apart:
  "(p, s) \<in> allocs a bs \<Longrightarrow> (p', s') \<in> allocs a bs \<Longrightarrow>
     (p, s) = (p', s') \<or> p + s + 16 \<le> p' \<or> p' + s' + 16 \<le> p"
proof (induction a bs rule: allocs.induct)
  case (2 a t u bs)
  then show ?case
    using allocs_range [of p s "a + 16 + t" bs] allocs_range [of p' s' "a + 16 + t" bs]
    by (auto split: if_splits)
qed simp

lemma payload_not_header:
  "(p, s) \<in> allocs a bs \<Longrightarrow> p \<le> n \<Longrightarrow> n < p + s \<Longrightarrow> n \<notin> headers a bs"
proof (induction a bs rule: allocs.induct)
  case (2 a t u bs)
  then show ?case
    using allocs_range [of p s "a + 16 + t" bs] headers_range [of "a + 16 + t" bs]
    by (auto split: if_splits)
qed simp

lemma allocs_split_free:
  assumes "(p, s) \<in> allocs a bs"
  obtains xs ys where "bs = xs @ (s, True) # ys" "p = a + span xs + 16"
proof -
  have "\<exists>xs ys. bs = xs @ (s, True) # ys \<and> p = a + span xs + 16"
    using assms
  proof (induction a bs rule: allocs.induct)
    case (2 a t u bs)
    from 2(2) consider "u" "p = a + 16" "s = t" | "(p, s) \<in> allocs (a + 16 + t) bs"
      by (auto split: if_splits)
    then show ?case
    proof cases
      case 1
      then show ?thesis by (intro exI [of _ "[]"] exI [of _ bs]) simp
    next
      case 2
      then obtain xs ys where "bs = xs @ (s, True) # ys" "p = a + 16 + t + span xs + 16"
        using "2.IH" by blast
      then show ?thesis by (intro exI [of _ "(t, u) # xs"] exI [of _ ys]) simp
    qed
  qed simp
  with that show thesis by blast
qed

lemma split_block_frame:
  assumes h: "hlist m base (xs @ (s, u) # ys)" and w: "w \<le> s" "16 dvd w"
    and n: "n < 4294967296" "n \<notin> headers base (xs @ split_list w s u ys)"
  shows "split_block m (w32 (base + span xs)) (w32 w) (w32 n) = m (w32 n)"
proof (cases "s - w < 32")
  case True
  then show ?thesis using split_block_small [OF h w(1)] by simp
next
  case False
  have al: "16 dvd base + span xs" "16 dvd base + span xs + 16 + w" "16 dvd base + span xs + 16 + s"
    "base + span xs + 16 + s + span ys < 4294967296"
    using h w by (auto simp: hlist_def span_dvd)
  have out: "n < base + span xs \<or> base + span xs + 16 \<le> n"
    "n < base + span xs + 16 + w \<or> base + span xs + 16 + w + 16 \<le> n"
    "ys \<noteq> [] \<Longrightarrow> n < base + span xs + 16 + s \<or> base + span xs + 16 + s + 16 \<le> n"
    using n False w by (cases ys; auto simp: split_list_def)+
  show ?thesis
    unfolding split_block_stores [OF h w False] split_stores_def Let_def
    using al out n w False
    by (cases "ys = []") (simp_all add: store32_field_byte store32_field_byte [where i = 0, simplified])
qed

lemma merge_with_next_frame:
  assumes h: "hlist m base (xs @ (s, u) # (t, False) # ys)"
    and n: "n < 4294967296" "n \<notin> headers base (xs @ (s, u) # (t, False) # ys)"
  shows "merge_with_next m (w32 (base + span xs)) (w32 n) = m (w32 n)"
proof -
  have al: "16 dvd base + span xs" "16 dvd base + span xs + 32 + s + t"
    "base + span xs + 32 + s + t + span ys < 4294967296"
    using h by (auto simp: hlist_def span_dvd)
  have out: "n < base + span xs \<or> base + span xs + 16 \<le> n"
    "ys \<noteq> [] \<Longrightarrow> n < base + span xs + 32 + s + t \<or> base + span xs + 32 + s + t + 16 \<le> n"
    using n by (cases ys; auto simp: add.assoc)+
  show ?thesis
    unfolding merge_with_next_stores [OF h] merge_stores_def Let_def
    using al out n
    by (cases "ys = []") (simp_all add: store32_field_byte store32_field_byte [where i = 0, simplified])
qed

section \<open>The invariant of the allocator\<close>

definition used_count :: "blocks \<Rightarrow> nat" where
  "used_count bs = length (filter snd bs)"

definition heap_inv :: "heap \<Rightarrow> nat \<Rightarrow> blocks \<Rightarrow> bool" where
  "heap_inv h base bs \<longleftrightarrow> g_heap_ready h \<and> bs \<noteq> [] \<and> hlist (hmem h) base bs \<and>
     g_heap_first h = w32 base \<and> g_heap_total h = w32 (span bs - 16) \<and>
     g_heap_active h = w32 (used_count bs)"

lemma used_count_le: "used_count bs * 16 \<le> span bs"
  by (induction bs rule: span.induct) (auto simp: used_count_def)

lemma used_count_simps [simp]:
  "used_count [] = 0"
  "used_count ((s, u) # bs) = (if u then Suc (used_count bs) else used_count bs)"
  "used_count (xs @ ys) = used_count xs + used_count ys"
  by (simp_all add: used_count_def)

lemma split_list_simps [simp]:
  "used_count (split_list w s u ys) = used_count ((s, u) # ys)"
  "w \<le> s \<Longrightarrow> span (split_list w s u ys) = 16 + s + span ys"
  "split_list w s u ys \<noteq> []"
  by (auto simp: split_list_def)

lemma split_block_refines:
  assumes "hlist m base (xs @ (s, u) # ys)" "w \<le> s" "16 dvd w"
  shows "hlist (split_block m (w32 (base + span xs)) (w32 w)) base (xs @ split_list w s u ys)"
  using split_block_small [OF assms(1,2)] split_block_hlist [OF assms] assms(1)
  by (auto simp: split_list_def)

definition round16 :: "nat \<Rightarrow> nat" where
  "round16 n = (n + 15) div 16 * 16"

lemma round16_facts:
  "16 dvd round16 n" "n \<le> round16 n" "round16 n < n + 16" "0 < n \<Longrightarrow> 0 < round16 n"
  by (auto simp: round16_def)

lemma align_up_round16: "unat x \<le> 4294967280 \<Longrightarrow> align_up x = w32 (round16 (unat x))"
  using unat_align_up [of x] w32_unat [of "align_up x"] by (simp add: round16_def)

lemma round16_bound: "n \<le> 4294967280 \<Longrightarrow> round16 n \<le> 4294967280"
proof -
  assume "n \<le> 4294967280"
  then have "(n + 15) div 16 \<le> 268435455" by linarith
  then show ?thesis by (simp add: round16_def)
qed

lemma w32_aligned_and_15: "16 dvd p \<Longrightarrow> p < 4294967296 \<Longrightarrow> w32 p AND 15 = 0"
proof -
  assume p: "16 dvd p" "p < 4294967296"
  have "w32 p AND 15 = take_bit 4 (w32 p)" by (simp add: take_bit_eq_mask mask_eq_exp_minus_1)
  also have "\<dots> = 0" using p by (simp add: word_unat_eq_iff take_bit_eq_mod unat_mod unat_w32)
  finally show ?thesis .
qed

lemma heap_inv_block:
  assumes "heap_inv h base (xs @ (s, u) # ys)"
  shows "hlist (hmem h) base (xs @ (s, u) # ys)" "16 dvd base + span xs" "0 < base + span xs"
    "base + span xs + 16 + s + span ys < 4294967296" "16 dvd s"
    "load32 (hmem h) (w32 (base + span xs)) = w32 s"
    "load32 (hmem h) (w32 (base + span xs) + 4) = magic_of u"
    "load32 (hmem h) (w32 (base + span xs) + 8) = lastp 0 base xs"
    "load32 (hmem h) (w32 (base + span xs) + 12) =
      (if ys = [] then 0 else w32 (base + span xs + 16 + s))"
  using assms by (auto simp: heap_inv_def hlist_def hseg_append span_dvd)

lemma magic_of_eq [simp]:
  "magic_of u = EF2_HEAP_MAGIC_FREE \<longleftrightarrow> \<not> u" "magic_of u = EF2_HEAP_MAGIC_ALLOC \<longleftrightarrow> u"
  by (auto simp: magic_of_def EF2_HEAP_MAGIC_ALLOC_def EF2_HEAP_MAGIC_FREE_def)

lemma split_list_head:
  "split_list w s u ys = (if s - w < 32 then s else w, u) #
     (if s - w < 32 then ys else (s - w - 16, False) # ys)"
  by (simp add: split_list_def)

section \<open>Malloc refines first fit\<close>

lemma malloc_full:
  assumes inv: "heap_inv h base bs" and n: "n \<noteq> 0" "unat n \<le> 4294967280"
    and ff: "first_fit (round16 (unat n)) bs = None"
  shows "ef2_malloc h n = Some (0, h)"
proof -
  have "find_free (hmem h) (w32 (round16 (unat n))) (g_heap_first h) = Some 0"
    using inv find_free_first_fit [of "hmem h" 0 base bs "round16 (unat n)"] ff round16_bound [OF n(2)]
    by (simp add: heap_inv_def hlist_def)
  then show ?thesis
    using inv n by (simp add: ef2_malloc_def heap_inv_def align_up_round16)
qed

lemma malloc_fits:
  assumes inv: "heap_inv h base bs" and n: "n \<noteq> 0" "unat n \<le> 4294967280"
    and ff: "first_fit (round16 (unat n)) bs = Some (xs, s, ys)"
  obtains h' where "ef2_malloc h n = Some (w32 (base + span xs + 16), h')"
    "heap_inv h' base (xs @ split_list (round16 (unat n)) s True ys)"
    "\<And>k. k < 4294967296 \<Longrightarrow> k \<notin> headers base (xs @ split_list (round16 (unat n)) s True ys) \<Longrightarrow>
       hmem h' (w32 k) = hmem h (w32 k)"
proof -
  let ?w = "round16 (unat n)" and ?a = "base + span xs"
  have bs: "bs = xs @ (s, False) # ys" "?w \<le> s" using first_fit_Some [OF ff] by auto
  note blk = heap_inv_block [OF inv [unfolded bs(1)]]
  have w: "16 dvd ?w" by (simp add: round16_facts)
  define m1 where "m1 = split_block (hmem h) (w32 ?a) (w32 ?w)"
  define h' where "h' = h\<lparr>hmem := set_magic (w32 ?a) (magic_of True) m1,
    g_heap_active := g_heap_active h + 1\<rparr>"
  have find: "find_free (hmem h) (w32 ?w) (g_heap_first h) = Some (w32 ?a)"
    using inv find_free_first_fit [of "hmem h" 0 base bs ?w] ff round16_bound [OF n(2)]
    by (simp add: heap_inv_def hlist_def)
  have nz: "w32 ?a \<noteq> 0" using blk by (simp add: w32_eq_0_iff)
  have "ef2_malloc h n = Some (w32 ?a + 16, h')"
    using inv n find nz
    by (simp add: ef2_malloc_def heap_inv_def align_up_round16 block_payload_def h'_def m1_def magic_of_def
        word_le_nat_alt [symmetric] EF2_HEAP_ALIGNMENT_def not_less word_less_nat_alt)
  moreover have hl1: "hlist m1 base (xs @ split_list ?w s False ys)"
    unfolding m1_def by (rule split_block_refines [OF blk(1) bs(2) w])
  obtain z zs where z: "split_list ?w s False ys = (z, False) # zs" "split_list ?w s True ys = (z, True) # zs"
    using split_list_head by blast
  have hl2: "hlist (hmem h') base (xs @ split_list ?w s True ys)"
    using hlist_set_magic [of m1 base xs z False zs True] hl1 by (simp add: z h'_def)
  moreover have "heap_inv h' base (xs @ split_list ?w s True ys)"
    using inv hl2 bs by (simp add: heap_inv_def h'_def w32_add_one z(2) [symmetric])
  moreover have "hmem h' (w32 k) = hmem h (w32 k)"
    if k: "k < 4294967296" "k \<notin> headers base (xs @ split_list ?w s True ys)" for k
  proof -
    have k': "k \<notin> headers base (xs @ split_list ?w s False ys)" "k < ?a \<or> ?a + 16 \<le> k"
      using k z by auto
    then show ?thesis
      using split_block_frame [OF blk(1) bs(2) w k(1)] k k' blk
      by (simp add: h'_def m1_def set_magic_def store32_field_byte)
  qed
  ultimately show thesis using that by (simp add: w32_add_numeral)
qed

lemma allocs_split_list [simp]:
  "w \<le> s \<Longrightarrow> allocs a (split_list w s u ys) =
     (if u then {(a + 16, if s - w < 32 then s else w)} else {}) \<union> allocs (a + 16 + s) ys"
  by (auto simp: split_list_def add.assoc)

section \<open>Free refines coalescing\<close>

definition absorb :: "nat \<Rightarrow> blocks \<Rightarrow> blocks" where
  "absorb s ys = (case ys of (t, False) # zs \<Rightarrow> (s + 16 + t, False) # zs | _ \<Rightarrow> (s, False) # ys)"

definition free_list :: "blocks \<Rightarrow> nat \<Rightarrow> blocks \<Rightarrow> blocks" where
  "free_list xs s ys =
    (if xs \<noteq> [] \<and> \<not> snd (last xs)
     then butlast xs @ absorb (fst (last xs)) (absorb s ys)
     else xs @ absorb s ys)"

lemma absorb_simps [simp]:
  "absorb s [] = [(s, False)]"
  "absorb s ((t, u) # zs) = (if u then (s, False) # (t, u) # zs else (s + 16 + t, False) # zs)"
  by (auto simp: absorb_def split: bool.splits)

lemma absorb_cases:
  obtains "ys = [] \<or> snd (hd ys)" "absorb s ys = (s, False) # ys"
    | t zs where "ys = (t, False) # zs" "absorb s ys = (s + 16 + t, False) # zs"
proof (cases ys)
  case (Cons y zs)
  obtain t u where y: "y = (t, u)" by (cases y)
  show thesis using that Cons y by (cases u) auto
qed (use that in auto)

lemma absorb_props [simp]:
  "span (absorb s ys) = 16 + s + span ys"
  "used_count (absorb s ys) = used_count ys"
  "absorb s ys \<noteq> []"
  "allocs a (absorb s ys) = allocs (a + 16 + s) ys"
  by (cases rule: absorb_cases [of ys s]; simp add: add.assoc)+

lemma absorb_head: "\<exists>t zs. absorb s ys = (t, False) # zs"
  by (cases rule: absorb_cases [of ys s]) auto

lemma headers_absorb: "headers a (absorb s ys) \<subseteq> headers a ((s, u) # ys)"
  by (cases rule: absorb_cases [of ys s]) (auto simp: add.assoc)

lemma snoc_cases_block:
  obtains "xs = []" | zs t v where "xs = zs @ [(t, v)]"
  by (cases xs rule: rev_cases) auto

lemma free_list_props:
  "span (free_list xs s ys) = span xs + 16 + s + span ys"
  "used_count (free_list xs s ys) = used_count xs + used_count ys"
  "free_list xs s ys \<noteq> []"
  "allocs a (free_list xs s ys) = allocs a xs \<union> allocs (a + span xs + 16 + s) ys"
  by (cases xs rule: snoc_cases_block; auto simp: free_list_def add.assoc)+

lemma headers_free_list: "headers a (free_list xs s ys) \<subseteq> headers a (xs @ (s, u) # ys)"
proof (cases xs rule: snoc_cases_block)
  case 1
  then show ?thesis using headers_absorb by (simp add: free_list_def)
next
  case (2 zs t v)
  then show ?thesis
    using headers_absorb [of "a + span zs" t "absorb s ys" v]
      headers_absorb [of "a + span zs + 16 + t" s ys u]
    by (auto simp: free_list_def add.assoc)
qed

lemma merge_refines:
  assumes h: "hlist m base (xs @ (s, False) # ys)"
  shows "hlist (merge_with_next m (w32 (base + span xs))) base (xs @ absorb s ys)"
    and "n < 4294967296 \<Longrightarrow> n \<notin> headers base (xs @ (s, False) # ys) \<Longrightarrow>
      merge_with_next m (w32 (base + span xs)) (w32 n) = m (w32 n)"
proof -
  have "hlist (merge_with_next m (w32 (base + span xs))) base (xs @ absorb s ys) \<and>
    (n < 4294967296 \<longrightarrow> n \<notin> headers base (xs @ (s, False) # ys) \<longrightarrow>
      merge_with_next m (w32 (base + span xs)) (w32 n) = m (w32 n))"
  proof (cases rule: absorb_cases [of ys s])
    case 1
    then show ?thesis using h merge_with_next_none [OF h 1(1)] by simp
  next
    case 2
    note h' = h [unfolded 2(1)]
    show ?thesis
      using merge_with_next_hlist [OF h'] merge_with_next_frame [OF h', of n] unfolding 2
      by simp
  qed
  then show "hlist (merge_with_next m (w32 (base + span xs))) base (xs @ absorb s ys)"
    "n < 4294967296 \<Longrightarrow> n \<notin> headers base (xs @ (s, False) # ys) \<Longrightarrow>
      merge_with_next m (w32 (base + span xs)) (w32 n) = m (w32 n)"
    by blast+
qed

lemma hlist_previous:
  assumes "hlist m base (xs @ (s, u) # ys)"
  shows "load32 m (w32 (base + span xs) + 8) = lastp 0 base xs"
  using assms by (simp add: hlist_def hseg_append)

lemma free_refines:
  assumes inv: "heap_inv h base (xs @ (s, True) # ys)"
  defines "h' \<equiv> ef2_free h (w32 (base + span xs + 16))"
  shows "heap_inv h' base (free_list xs s ys)"
    and "\<And>k. k < 4294967296 \<Longrightarrow> k \<notin> headers base (xs @ (s, True) # ys) \<Longrightarrow>
       hmem h' (w32 k) = hmem h (w32 k)"
proof -
  let ?a = "base + span xs"
  note blk = heap_inv_block [OF inv]
  define m1 where "m1 = set_magic (w32 ?a) EF2_HEAP_MAGIC_FREE (hmem h)"
  define m2 where "m2 = merge_with_next m1 (w32 ?a)"
  define m3 where "m3 = (if blk_previous m2 (w32 ?a) \<noteq> 0 \<and>
      blk_magic m2 (blk_previous m2 (w32 ?a)) = EF2_HEAP_MAGIC_FREE
    then merge_with_next m2 (blk_previous m2 (w32 ?a)) else m2)"
  have hl1: "hlist m1 base (xs @ (s, False) # ys)"
    using hlist_set_magic [OF blk(1), of False] by (simp add: m1_def magic_of_def)
  have hl2: "hlist m2 base (xs @ absorb s ys)"
    unfolding m2_def by (rule merge_refines(1) [OF hl1])
  have frame2: "m2 (w32 k) = hmem h (w32 k)"
    if "k < 4294967296" "k \<notin> headers base (xs @ (s, True) # ys)" for k
    using that merge_refines(2) [OF hl1, of k] blk
    by (auto simp: m2_def m1_def set_magic_def store32_field_byte)
  obtain t zs where t: "absorb s ys = (t, False) # zs" using absorb_head by blast
  have prev: "blk_previous m2 (w32 ?a) = lastp 0 base xs"
    using hlist_previous [of m2 base xs t False zs] hl2 by (simp add: t blk_previous_def)
  have m3: "hlist m3 base (free_list xs s ys) \<and>
    (\<forall>k. k < 4294967296 \<longrightarrow> k \<notin> headers base (xs @ (s, True) # ys) \<longrightarrow> m3 (w32 k) = hmem h (w32 k))"
  proof (cases xs rule: snoc_cases_block)
    case 1
    then show ?thesis using hl2 frame2 prev by (simp add: m3_def free_list_def)
  next
    case (2 zs r v)
    let ?p = "base + span zs"
    have hz: "hlist m2 base (zs @ (r, v) # absorb s ys)" using hl2 2 by simp
    have p: "lastp 0 base xs = w32 ?p" using 2 by simp
    have "w32 ?p \<noteq> 0" using blk inv 2 by (simp add: heap_inv_def hlist_def w32_eq_0_iff)
    moreover have "blk_magic m2 (w32 ?p) = magic_of v"
      using hz by (simp add: blk_magic_def hlist_def hseg_append)
    ultimately have m3: "m3 = (if v then m2 else merge_with_next m2 (w32 ?p))"
      by (simp add: m3_def prev p)
    show ?thesis
    proof (cases v)
      case True
      then show ?thesis using hl2 frame2 m3 2 by (simp add: free_list_def)
    next
      case False
      have hf: "hlist m2 base (zs @ (r, False) # absorb s ys)" using hz False by simp
      have "merge_with_next m2 (w32 ?p) (w32 k) = hmem h (w32 k)"
        if k: "k < 4294967296" "k \<notin> headers base (xs @ (s, True) # ys)" for k
      proof -
        have "k \<notin> headers base (zs @ (r, False) # absorb s ys)"
          using k 2 headers_absorb [of "base + span zs + 16 + r" s ys True] by (auto simp: add.assoc)
        then show ?thesis using merge_refines(2) [OF hf k(1)] frame2 [OF k] by simp
      qed
      then show ?thesis
        using merge_refines(1) [OF hf] m3 False 2 by (simp add: free_list_def)
    qed
  qed
  have ptr: "w32 (?a + 16) \<noteq> 0" "w32 (?a + 16) AND 15 = 0" "w32 (?a + 16) - 16 = w32 ?a"
    using blk w32_aligned_and_15 [of "?a + 16"] by (auto simp: w32_eq_0_iff w32_diff_numeral)
  have h': "h' = h\<lparr>hmem := m3,
      g_heap_active := (if g_heap_active h \<noteq> 0 then g_heap_active h - 1 else g_heap_active h)\<rparr>"
    using inv ptr blk(7)
    by (simp add: h'_def ef2_free_def heap_inv_def payload_block_def EF2_HEAP_ALIGNMENT_def
        blk_magic_def m3_def m2_def m1_def Let_def)
  have "used_count xs + used_count ys < 4294967295"
    using used_count_le [of xs] used_count_le [of ys] blk(4) by linarith
  then have "g_heap_active h \<noteq> 0" "g_heap_active h - 1 = w32 (used_count xs + used_count ys)"
    using inv w32_diff [of 1 "Suc (used_count xs + used_count ys)"]
    by (auto simp: heap_inv_def w32_eq_0_iff w32_one)
  then show "heap_inv h' base (free_list xs s ys)"
    using inv m3 by (simp add: h' heap_inv_def free_list_props)
  show "\<And>k. k < 4294967296 \<Longrightarrow> k \<notin> headers base (xs @ (s, True) # ys) \<Longrightarrow>
       hmem h' (w32 k) = hmem h (w32 k)"
    using m3 by (simp add: h')
qed

lemma allocs_free_list:
  assumes "heap_inv h base (xs @ (s, True) # ys)"
  shows "allocs base (free_list xs s ys) =
    allocs base (xs @ (s, True) # ys) - {(base + span xs + 16, s)}"
  using allocs_range [of "base + span xs + 16" s base xs]
    allocs_range [of "base + span xs + 16" s "base + span xs + 16 + s" ys]
  by (auto simp: free_list_props)

section \<open>Writes inside a payload\<close>

lemma hseg_cong:
  assumes "\<And>k. k \<in> headers a bs \<Longrightarrow> m (w32 k) = m' (w32 k)"
  shows "hseg m p a q bs = hseg m' p a q bs"
  using assms
proof (induction m p a q bs rule: hseg.induct)
  case (2 m p a q s u bs)
  have "load32 m (w32 (a + j)) = load32 m' (w32 (a + j))" if "j + 4 \<le> 16" for j
    by (rule load32_cong) (use 2(2) that in \<open>auto simp: add.assoc\<close>)
  from this [of 0] this [of 4] this [of 8] this [of 12] 2 show ?case
    by (simp add: w32_add_numeral)
qed simp

lemma heap_inv_payload_write:
  assumes "heap_inv h base bs" "(p, s) \<in> allocs base bs"
    and "\<And>k. k < 4294967296 \<Longrightarrow> \<not> (p \<le> k \<and> k < p + s) \<Longrightarrow> m (w32 k) = hmem h (w32 k)"
  shows "heap_inv (h\<lparr>hmem := m\<rparr>) base bs"
proof -
  have "m (w32 k) = hmem h (w32 k)" if "k \<in> headers base bs" for k
  proof (rule assms(3))
    show "k < 4294967296" using that headers_range [of base bs] assms(1)
      by (auto simp: heap_inv_def hlist_def)
    show "\<not> (p \<le> k \<and> k < p + s)" using payload_not_header [OF assms(2)] that by blast
  qed
  then have "hseg m 0 base 0 bs = hseg (hmem h) 0 base 0 bs" by (rule hseg_cong)
  then show ?thesis using assms(1) by (simp add: heap_inv_def hlist_def)
qed

lemma heap_inv_alloc:
  assumes "heap_inv h base bs" "(p, s) \<in> allocs base bs"
  shows "0 < p" "p + s < 4294967296" "16 dvd p" "16 dvd s"
  using assms allocs_range [OF assms(2)] allocs_aligned [OF assms(2)]
  by (auto simp: heap_inv_def hlist_def)

lemma same_bytes_frame:
  assumes "heap_inv h base bs" "(p, s) \<in> allocs base bs" "n \<le> s"
    and "\<And>k. k < 4294967296 \<Longrightarrow> k \<notin> headers base bs \<Longrightarrow> m' (w32 k) = m (w32 k)"
  shows "same_bytes m m' p n"
  unfolding same_bytes_def
proof (intro allI impI)
  fix k assume "k < n"
  then show "m' (w32 (p + k)) = m (w32 (p + k))"
    using heap_inv_alloc [OF assms(1,2)] assms(3) payload_not_header [OF assms(2), of "p + k"]
    by (intro assms(4)) auto
qed

section \<open>The contract of malloc and free on allocated payloads\<close>

lemma malloc_contract:
  assumes inv: "heap_inv h base bs" and n: "n \<noteq> 0" "unat n \<le> 4294967280"
  obtains "first_fit (round16 (unat n)) bs = None" "ef2_malloc h n = Some (0, h)"
  | p s h' bs' where "ef2_malloc h n = Some (w32 p, h')" "heap_inv h' base bs'" "unat n \<le> s"
      "s < unat n + 47" 
      "(p, s) \<notin> allocs base bs" "allocs base bs' = insert (p, s) (allocs base bs)"
      "span bs' = span bs"
      "\<And>q t. (q, t) \<in> allocs base bs \<Longrightarrow> same_bytes (hmem h) (hmem h') q t"
proof (cases "first_fit (round16 (unat n)) bs")
  case None
  then show ?thesis using malloc_full [OF inv n None] that(1) by blast
next
  case (Some r)
  obtain xs t ys where "r = (xs, t, ys)" by (cases r) auto
  with Some have ff: "first_fit (round16 (unat n)) bs = Some (xs, t, ys)" by simp
  let ?w = "round16 (unat n)"
  have bs: "bs = xs @ (t, False) # ys" "?w \<le> t" using first_fit_Some [OF ff] by auto
  from malloc_fits [OF inv n ff] obtain h' where h':
    "ef2_malloc h n = Some (w32 (base + span xs + 16), h')"
    "heap_inv h' base (xs @ split_list ?w t True ys)"
    "\<And>k. k < 4294967296 \<Longrightarrow> k \<notin> headers base (xs @ split_list ?w t True ys) \<Longrightarrow>
       hmem h' (w32 k) = hmem h (w32 k)" by blast
  let ?p = "base + span xs + 16" and ?s = "if t - ?w < 32 then t else ?w"
  have al: "allocs base (xs @ split_list ?w t True ys) = insert (?p, ?s) (allocs base bs)"
    using bs by (auto simp: allocs_split_list add.assoc)
  have fresh: "(?p, ?s) \<notin> allocs base bs"
    using allocs_range [of ?p ?s base xs] allocs_range [of ?p ?s "?p + t" ys] bs by auto
  show ?thesis
    using h' al fresh bs round16_facts(2,3) [of "unat n"]
    by (intro that(2) [of ?p h' _ ?s]) (auto intro!: same_bytes_frame [OF h'(2)] simp: al)
qed

lemma free_contract:
  assumes inv: "heap_inv h base bs" and p: "(p, s) \<in> allocs base bs"
  obtains bs' where "heap_inv (ef2_free h (w32 p)) base bs'"
    "allocs base bs' = allocs base bs - {(p, s)}" "span bs' = span bs"
    "\<And>q t. (q, t) \<in> allocs base bs \<Longrightarrow> same_bytes (hmem h) (hmem (ef2_free h (w32 p))) q t"
proof -
  obtain xs ys where bs: "bs = xs @ (s, True) # ys" "p = base + span xs + 16"
    using allocs_split_free [OF p] by blast
  note inv' = inv [unfolded bs(1)]
  show thesis
    using free_refines [OF inv'] allocs_free_list [OF inv'] free_list_props(1) [of xs s ys]
    unfolding bs
    by (intro that [of "free_list xs s ys"]) (auto intro!: same_bytes_frame [OF inv'] simp: bs)
qed

section \<open>Realloc\<close>

lemma ptr_checks:
  assumes "heap_inv h base bs" "(p, s) \<in> allocs base bs"
  shows "w32 p \<noteq> 0" "w32 p AND 15 = 0" "w32 p - 16 = w32 (p - 16)" "unat (w32 p) = p"
    "blk_magic (hmem h) (w32 (p - 16)) = EF2_HEAP_MAGIC_ALLOC"
    "blk_size (hmem h) (w32 (p - 16)) = w32 s"
proof -
  obtain xs ys where bs: "bs = xs @ (s, True) # ys" "p = base + span xs + 16"
    using allocs_split_free [OF assms(2)] by blast
  note blk = heap_inv_block [OF assms(1) [unfolded bs(1)]]
  show "w32 p \<noteq> 0" "w32 p AND 15 = 0" "w32 p - 16 = w32 (p - 16)" "unat (w32 p) = p"
    "blk_magic (hmem h) (w32 (p - 16)) = EF2_HEAP_MAGIC_ALLOC"
    "blk_size (hmem h) (w32 (p - 16)) = w32 s"
    using heap_inv_alloc [OF assms] blk bs
    by (auto simp: w32_eq_0_iff w32_aligned_and_15 w32_diff_numeral unat_w32 blk_magic_def
        blk_size_def magic_of_def)
qed

text \<open>The two branches that keep the block where it is.\<close>

lemma realloc_shrink:
  assumes inv: "heap_inv h base (xs @ (s, True) # ys)"
    and n: "n \<noteq> 0" "unat n \<le> 4294967280" and fit: "round16 (unat n) \<le> s"
  defines "a \<equiv> base + span xs"
  defines "h' \<equiv> h\<lparr>hmem := split_block (hmem h) (w32 a) (w32 (round16 (unat n)))\<rparr>"
  shows "ef2_realloc h (w32 (a + 16)) n = Some (w32 (a + 16), h')"
    and "heap_inv h' base (xs @ split_list (round16 (unat n)) s True ys)"
    and "\<And>k. k < 4294967296 \<Longrightarrow> k \<notin> headers base (xs @ split_list (round16 (unat n)) s True ys) \<Longrightarrow>
       hmem h' (w32 k) = hmem h (w32 k)"
proof -
  let ?w = "round16 (unat n)"
  note blk = heap_inv_block [OF inv, folded a_def]
  have w: "16 dvd ?w" "?w < 4294967296" using round16_bound [OF n(2)]
    by (auto simp: round16_facts)
  have p: "(a + 16, s) \<in> allocs base (xs @ (s, True) # ys)" by (simp add: a_def)
  note chk = ptr_checks [OF inv p]
  show "ef2_realloc h (w32 (a + 16)) n = Some (w32 (a + 16), h')"
    using inv n w fit chk blk(4)
    by (simp add: ef2_realloc_def heap_inv_def payload_block_def EF2_HEAP_ALIGNMENT_def
        align_up_round16 w32_le_iff h'_def Let_def)
  have hl: "hlist (hmem h') base (xs @ split_list ?w s True ys)"
    unfolding h'_def a_def using split_block_refines [OF blk(1) fit w(1)] by (simp add: a_def)
  then show "heap_inv h' base (xs @ split_list ?w s True ys)"
    using inv fit by (simp add: heap_inv_def h'_def)
  show "\<And>k. k < 4294967296 \<Longrightarrow> k \<notin> headers base (xs @ split_list ?w s True ys) \<Longrightarrow>
       hmem h' (w32 k) = hmem h (w32 k)"
    using split_block_frame [OF blk(1) fit w(1)] by (simp add: h'_def a_def)
qed

lemma realloc_grow:
  assumes inv: "heap_inv h base (xs @ (s, True) # (t, False) # ys)"
    and n: "n \<noteq> 0" "unat n \<le> 4294967280"
    and fit: "s < round16 (unat n)" "round16 (unat n) \<le> s + 16 + t"
  defines "a \<equiv> base + span xs"
  defines "bs' \<equiv> xs @ split_list (round16 (unat n)) (s + 16 + t) True ys"
  shows "\<exists>h'. ef2_realloc h (w32 (a + 16)) n = Some (w32 (a + 16), h') \<and> heap_inv h' base bs' \<and>
    (\<forall>k. k < 4294967296 \<longrightarrow> k \<notin> headers base bs' \<longrightarrow> k \<notin> headers base (xs @ (s, True) # (t, False) # ys) \<longrightarrow>
       hmem h' (w32 k) = hmem h (w32 k))"
proof -
  let ?w = "round16 (unat n)"
  note blk = heap_inv_block [OF inv, folded a_def]
  have w: "16 dvd ?w" "?w < 4294967296" using round16_bound [OF n(2)]
    by (auto simp: round16_facts)
  have p: "(a + 16, s) \<in> allocs base (xs @ (s, True) # (t, False) # ys)" by (simp add: a_def)
  note chk = ptr_checks [OF inv p]
  have bd: "a + 32 + s + t + span ys < 4294967296" "0 < a" using blk(3,4) by auto
  define m1 where "m1 = merge_with_next (hmem h) (w32 a)"
  define m2 where "m2 = split_block m1 (w32 a) (w32 ?w)"
  define h' where "h' = h\<lparr>hmem := set_magic (w32 a) EF2_HEAP_MAGIC_ALLOC m2\<rparr>"
  have hl1: "hlist m1 base (xs @ (s + 16 + t, True) # ys)"
    unfolding m1_def a_def by (rule merge_with_next_hlist [OF blk(1)])
  have hl2: "hlist m2 base bs'"
    unfolding m2_def bs'_def a_def by (rule split_block_refines [OF hl1 fit(2) w(1)])
  obtain z zs where z: "split_list ?w (s + 16 + t) True ys = (z, True) # zs"
    using split_list_head by blast
  have hl3: "hlist (hmem h') base bs'"
    using hlist_set_magic [of m2 base xs z True zs True] hl2 by (simp add: z h'_def bs'_def a_def magic_of_def)
  have next_blk: "load32 (hmem h) (w32 (a + 16 + s)) = w32 t"
    "load32 (hmem h) (w32 (a + 16 + s) + 4) = EF2_HEAP_MAGIC_FREE"
    using blk(1) by (auto simp: hlist_def hseg_append a_def magic_of_def)
  have nx: "blk_next (hmem h) (w32 a) = w32 (a + 16 + s)" "w32 (a + 16 + s) \<noteq> 0"
    using blk bd by (auto simp: blk_next_def w32_eq_0_iff)
  have sum: "w32 s + 16 + w32 t = w32 (s + 16 + t)" by (simp add: w32_add w32_add_numeral)
  have "ef2_realloc h (w32 (a + 16)) n = Some (w32 (a + 16), h')"
    using inv n w fit chk bd nx next_blk sum
    by (simp add: ef2_realloc_def heap_inv_def payload_block_def EF2_HEAP_ALIGNMENT_def
        align_up_round16 w32_le_iff h'_def m2_def m1_def Let_def)
      (simp add: blk_magic_def blk_size_def w32_le_iff)
  moreover have "heap_inv h' base bs'"
    using inv hl3 fit by (simp add: heap_inv_def h'_def bs'_def)
  moreover have "hmem h' (w32 k) = hmem h (w32 k)"
    if k: "k < 4294967296" "k \<notin> headers base bs'" "k \<notin> headers base (xs @ (s, True) # (t, False) # ys)" for k
  proof -
    have "m2 (w32 k) = m1 (w32 k)"
      unfolding m2_def a_def using k by (intro split_block_frame [OF hl1 fit(2) w(1)]) (auto simp: bs'_def)
    also have "\<dots> = hmem h (w32 k)"
      unfolding m1_def a_def using k by (intro merge_with_next_frame [OF blk(1)]) auto
    finally show ?thesis using k blk
      by (auto simp: h'_def set_magic_def store32_field_byte a_def)
  qed
  ultimately show ?thesis by blast
qed

text \<open>
  What a successful reallocation of payload \<open>(p, s)\<close> to \<open>n\<close> bytes at \<open>q\<close> promises: a block
  of at least \<open>n\<close> bytes replaces the old one, the common prefix keeps its contents, and
  every other allocation is untouched.
\<close>

definition realloc_result ::
  "heap \<Rightarrow> nat \<Rightarrow> blocks \<Rightarrow> nat \<Rightarrow> nat \<Rightarrow> nat \<Rightarrow> nat \<Rightarrow> heap \<Rightarrow> bool" where
  "realloc_result h base bs p s n q h' \<longleftrightarrow>
    (\<exists>bs' s'. heap_inv h' base bs' \<and> n \<le> s' \<and>
      allocs base bs' = insert (q, s') (allocs base bs - {(p, s)}) \<and>
      (\<forall>k < min s n. hmem h' (w32 (q + k)) = hmem h (w32 (p + k))) \<and>
      (\<forall>r t. (r, t) \<in> allocs base bs - {(p, s)} \<longrightarrow> same_bytes (hmem h) (hmem h') r t))"

lemma realloc_resultI:
  assumes "heap_inv h' base bs'" "n \<le> s'"
    "allocs base bs' = insert (q, s') (allocs base bs - {(p, s)})"
    "\<And>k. k < s \<Longrightarrow> k < n \<Longrightarrow> hmem h' (w32 (q + k)) = hmem h (w32 (p + k))"
    "\<And>r t. (r, t) \<in> allocs base bs - {(p, s)} \<Longrightarrow> same_bytes (hmem h) (hmem h') r t"
  shows "realloc_result h base bs p s n q h'"
  unfolding realloc_result_def using assms
  by (intro exI [of _ bs'] exI [of _ s'] conjI allI impI) simp_all

lemma realloc_move:
  assumes inv: "heap_inv h base bs" and p: "(p, s) \<in> allocs base bs"
    and n: "n \<noteq> 0" "unat n \<le> 4294967280" and big: "s < round16 (unat n)"
    and moved: "ef2_realloc h (w32 p) n = (case ef2_malloc h n of None \<Rightarrow> None
        | Some (r, h') \<Rightarrow> if r = 0 then Some (0, h')
            else Some (r, ef2_free (h'\<lparr>hmem := copy_loop (hmem h') r (w32 p) 0
                    (if w32 s < n then w32 s else n)\<rparr>) (w32 p)))"
  shows "ef2_realloc h (w32 p) n = Some (0, h) \<or>
    (\<exists>q h'. ef2_realloc h (w32 p) n = Some (w32 q, h') \<and> realloc_result h base bs p s (unat n) q h')"
proof (rule malloc_contract [OF inv n])
  assume "ef2_malloc h n = Some (0, h)"
  then show ?thesis using moved by simp
next
  fix q s' h1 bs1
  assume m: "ef2_malloc h n = Some (w32 q, h1)" "heap_inv h1 base bs1" "unat n \<le> s'"
    and fresh: "(q, s') \<notin> allocs base bs" and al: "allocs base bs1 = insert (q, s') (allocs base bs)"
    and keep: "\<And>q t. (q, t) \<in> allocs base bs \<Longrightarrow> same_bytes (hmem h) (hmem h1) q t"
  let ?c = "min s (unat n)"
  have q: "(q, s') \<in> allocs base bs1" and p1: "(p, s) \<in> allocs base bs1" using al p by auto
  note qf = heap_inv_alloc [OF m(2) q] and pf = heap_inv_alloc [OF m(2) p1]
  have apart: "p + s + 16 \<le> q \<or> q + s' + 16 \<le> p"
    using allocs_apart [OF p1 q] fresh p by auto
  have c: "(if w32 s < n then w32 s else n) = w32 ?c"
    using pf w32_less_iff [of s "unat n"] by (auto simp: min_def not_less)
  define m2 where "m2 = copy_loop (hmem h1) (w32 q) (w32 p) 0 (w32 ?c)"
  have ranges: "p + ?c \<le> 4294967296" "q + ?c \<le> 4294967296" "?c < 4294967296"
    "p + ?c \<le> q \<or> q + ?c \<le> p" using pf qf m(3) apart by (auto simp: min_def)
  note copied = copy_loop_ranges [OF ranges, of _ "hmem h1", folded m2_def]
  define h2 where "h2 = h1\<lparr>hmem := m2\<rparr>"
  have inv2: "heap_inv h2 base bs1"
    unfolding h2_def
    by (rule heap_inv_payload_write [OF m(2) q]) (use copied(2) m(3) in auto)
  have h2: "hmem h2 = m2" by (simp add: h2_def)
  obtain bs3 where f: "heap_inv (ef2_free h2 (w32 p)) base bs3"
    "allocs base bs3 = allocs base bs1 - {(p, s)}"
    and kept: "\<And>r t. (r, t) \<in> allocs base bs1 \<Longrightarrow> same_bytes m2 (hmem (ef2_free h2 (w32 p))) r t"
  proof (rule free_contract [OF inv2 p1])
    fix bs'
    assume "heap_inv (ef2_free h2 (w32 p)) base bs'" "allocs base bs' = allocs base bs1 - {(p, s)}"
      and "\<And>r t. (r, t) \<in> allocs base bs1 \<Longrightarrow>
        same_bytes (hmem h2) (hmem (ef2_free h2 (w32 p))) r t"
    then show thesis by (intro that [of bs']) (simp_all add: h2)
  qed
  have "w32 q \<noteq> 0" using qf by (simp add: w32_eq_0_iff)
  then have ret: "ef2_realloc h (w32 p) n = Some (w32 q, ef2_free h2 (w32 p))"
    using moved m(1) by (simp add: c h2_def m2_def)
  have al3: "allocs base bs3 = insert (q, s') (allocs base bs - {(p, s)})"
    using f(2) al fresh p by blast
  have contents: "hmem (ef2_free h2 (w32 p)) (w32 (q + k)) = hmem h (w32 (p + k))"
    if k: "k < s" "k < unat n" for k
  proof -
    have "hmem (ef2_free h2 (w32 p)) (w32 (q + k)) = m2 (w32 (q + k))"
      using kept [OF q] k m(3) by (simp add: same_bytes_def)
    also have "\<dots> = hmem h1 (w32 (p + k))" using copied(1) k by simp
    also have "\<dots> = hmem h (w32 (p + k))" using keep [OF p] k by (simp add: same_bytes_def)
    finally show ?thesis .
  qed
  have others: "same_bytes (hmem h) (hmem (ef2_free h2 (w32 p))) r t"
    if rt: "(r, t) \<in> allocs base bs - {(p, s)}" for r t
  proof -
    have r1: "(r, t) \<in> allocs base bs1" using al rt by auto
    have "r + t \<le> q \<or> q + ?c \<le> r"
      using allocs_apart [OF r1 q] rt fresh m(3) by auto
    then have "same_bytes (hmem h1) m2 r t"
      unfolding same_bytes_def using heap_inv_alloc [OF m(2) r1] by (auto intro!: copied(2))
    then show ?thesis using keep [of r t] kept [OF r1] rt by (blast intro: same_bytes_trans)
  qed
  have "realloc_result h base bs p s (unat n) q (ef2_free h2 (w32 p))"
    by (rule realloc_resultI [OF f(1) m(3) al3 contents others])
  then show ?thesis using ret by blast
qed

lemma ef2_realloc_move_branch:
  assumes "ptr \<noteq> 0" "n \<noteq> 0" "g_heap_ready h" "ptr AND (EF2_HEAP_ALIGNMENT - 1) = 0"
    "payload_block ptr = b" "blk_magic (hmem h) b = EF2_HEAP_MAGIC_ALLOC"
    "blk_size (hmem h) b = old" "align_up n = w" "\<not> w \<le> old"
    "(blk_next (hmem h) b \<noteq> 0 \<and> blk_magic (hmem h) (blk_next (hmem h) b) = EF2_HEAP_MAGIC_FREE \<and>
      w \<le> old + header_size + blk_size (hmem h) (blk_next (hmem h) b)) = False"
  shows "ef2_realloc h ptr n = (case ef2_malloc h n of None \<Rightarrow> None
    | Some (r, h') \<Rightarrow> if r = 0 then Some (0, h')
        else Some (r, ef2_free (h'\<lparr>hmem := copy_loop (hmem h') r ptr 0
                (if old < n then old else n)\<rparr>) ptr))"
proof -
  have t: "(\<not> g_heap_ready h \<or> ptr AND (EF2_HEAP_ALIGNMENT - 1) \<noteq> 0) = False"
    "(blk_magic (hmem h) b \<noteq> EF2_HEAP_MAGIC_ALLOC) = False" "(w \<le> old) = False"
    "(ptr = 0) = False" "(n = 0) = False"
    using assms by simp_all
  show ?thesis
    unfolding ef2_realloc_def Let_def assms(5,7,8) t assms(10) if_False ..
qed

lemma realloc_contract:
  assumes inv: "heap_inv h base bs" and p: "(p, s) \<in> allocs base bs"
    and n: "n \<noteq> 0" "unat n \<le> 4294967280"
  shows "ef2_realloc h (w32 p) n = Some (0, h) \<or>
    (\<exists>q h'. ef2_realloc h (w32 p) n = Some (w32 q, h') \<and> realloc_result h base bs p s (unat n) q h')"
proof -
  let ?w = "round16 (unat n)"
  obtain xs ys where bs: "bs = xs @ (s, True) # ys" "p = base + span xs + 16"
    using allocs_split_free [OF p] by blast
  note inv' = inv [unfolded bs(1)] and nw = round16_facts(2) [of "unat n"]
  have al: "allocs base bs - {(p, s)} = allocs base xs \<union> allocs (base + span xs + 16 + s) ys"
    using allocs_free_list [OF inv'] by (simp add: bs free_list_props)
  show ?thesis
  proof (cases "?w \<le> s")
    case True
    note r = realloc_shrink [OF inv' n True, folded bs(2)]
    let ?h' = "h\<lparr>hmem := split_block (hmem h) (w32 (base + span xs)) (w32 ?w)\<rparr>"
    let ?s' = "if s - ?w < 32 then s else ?w"
    have al': "allocs base (xs @ split_list ?w s True ys) = insert (p, ?s') (allocs base bs - {(p, s)})"
      using True unfolding al by (simp add: bs)
    have fr: "same_bytes (hmem h) (hmem ?h') r t" if "(r, t) \<in> allocs base (xs @ split_list ?w s True ys)" for r t
      by (rule same_bytes_frame [OF r(2) that order_refl]) (rule r(3))
    have p': "same_bytes (hmem h) (hmem ?h') p ?s'"
      by (rule fr) (unfold al', rule insertI1)
    have "realloc_result h base bs p s (unat n) p ?h'"
    proof (rule realloc_resultI [OF r(2) _ al'])
      show "unat n \<le> ?s'" using nw True by simp
      show "hmem ?h' (w32 (p + k)) = hmem h (w32 (p + k))" if "k < s" "k < unat n" for k
        using p' that nw unfolding same_bytes_def by force
      show "same_bytes (hmem h) (hmem ?h') r t" if "(r, t) \<in> allocs base bs - {(p, s)}" for r t
        by (rule fr) (unfold al', rule insertI2 [OF that])
    qed
    then show ?thesis using r(1) by blast
  next
    case big: False
    show ?thesis
    proof (cases "\<exists>t zs. ys = (t, False) # zs \<and> ?w \<le> s + 16 + t")
      case True
      then obtain t zs where ys: "ys = (t, False) # zs" and fit: "?w \<le> s + 16 + t" by blast
      let ?bs' = "xs @ split_list ?w (s + 16 + t) True zs"
      let ?s' = "if s + 16 + t - ?w < 32 then s + 16 + t else ?w"
      obtain h' where r: "ef2_realloc h (w32 p) n = Some (w32 p, h')" "heap_inv h' base ?bs'"
        "\<And>k. k < 4294967296 \<Longrightarrow> k \<notin> headers base ?bs' \<Longrightarrow> k \<notin> headers base bs \<Longrightarrow> hmem h' (w32 k) = hmem h (w32 k)"
        using realloc_grow [OF inv' [unfolded ys] n _ fit] big unfolding bs ys by auto
      have al': "allocs base ?bs' = insert (p, ?s') (allocs base bs - {(p, s)})"
        using fit unfolding al by (simp add: bs ys add.assoc)
      have fr: "same_bytes (hmem h) (hmem h') r c"
        if c: "(r, t') \<in> allocs base ?bs'" "(r, t'') \<in> allocs base bs" "c \<le> t'" "c \<le> t''" for r t' t'' c
        unfolding same_bytes_def
      proof (intro allI impI)
        fix k assume "k < c"
        then show "hmem h' (w32 (r + k)) = hmem h (w32 (r + k))"
          using c heap_inv_alloc [OF inv c(2)]
            payload_not_header [OF c(1), of "r + k"] payload_not_header [OF c(2), of "r + k"]
          by (intro r(3)) auto
      qed
      have p': "same_bytes (hmem h) (hmem h') p s"
        by (rule fr [of p ?s' s]) (use al' p big in auto)
      have "realloc_result h base bs p s (unat n) p h'"
      proof (rule realloc_resultI [OF r(2) _ al'])
        show "unat n \<le> ?s'" using nw fit by simp
        show "hmem h' (w32 (p + k)) = hmem h (w32 (p + k))" if "k < s" "k < unat n" for k
          using p' that unfolding same_bytes_def by blast
        show "same_bytes (hmem h) (hmem h') r t" if "(r, t) \<in> allocs base bs - {(p, s)}" for r t
          by (rule fr [of r t t]) (use al' that in auto)
      qed
      then show ?thesis using r(1) by blast
    next
      case False
      have "ef2_realloc h (w32 p) n = (case ef2_malloc h n of None \<Rightarrow> None
        | Some (r, h') \<Rightarrow> if r = 0 then Some (0, h')
            else Some (r, ef2_free (h'\<lparr>hmem := copy_loop (hmem h') r (w32 p) 0
                    (if w32 s < n then w32 s else n)\<rparr>) (w32 p)))"
      proof -
        note chk = ptr_checks [OF inv p] and blk = heap_inv_block [OF inv']
        have s: "s < 4294967296" "?w < 4294967296" using blk(4) round16_bound [OF n(2)] by auto
        have nx: "blk_next (hmem h) (w32 (p - 16)) = 0 \<or>
          blk_magic (hmem h) (blk_next (hmem h) (w32 (p - 16))) \<noteq> EF2_HEAP_MAGIC_FREE \<or>
          \<not> w32 ?w \<le> w32 s + header_size + blk_size (hmem h) (blk_next (hmem h) (w32 (p - 16)))"
        proof (cases ys)
          case Nil
          then show ?thesis using blk(9) by (simp add: bs blk_next_def)
        next
          case (Cons y zs)
          obtain t v where y: "y = (t, v)" by (cases y)
          have f: "blk_next (hmem h) (w32 (p - 16)) = w32 (p + s)"
            "blk_magic (hmem h) (w32 (p + s)) = magic_of v" "blk_size (hmem h) (w32 (p + s)) = w32 t"
            using blk(1,9) Cons y
            by (auto simp: bs blk_next_def blk_magic_def blk_size_def hlist_def hseg_append)
          have "s + 16 + t < 4294967296" using blk(4) Cons y by simp
          then show ?thesis using False Cons y f s
            by (auto simp: w32_add w32_add_numeral w32_le_iff)
        qed
        have small: "\<not> w32 ?w \<le> w32 s" using s big by (simp add: w32_le_iff)
        have ready: "g_heap_ready h" using inv by (simp add: heap_inv_def)
        have al15: "w32 p AND EF2_HEAP_ALIGNMENT - 1 = 0"
          and blk_p: "payload_block (w32 p) = w32 (p - 16)"
          using chk(2,3) by (simp_all add: EF2_HEAP_ALIGNMENT_def payload_block_def)
        show ?thesis
          by (rule ef2_realloc_move_branch [OF chk(1) n(1) ready al15 blk_p chk(5,6)
                align_up_round16 [OF n(2)] small]) (use nx in blast)
      qed
      then show ?thesis using realloc_move [OF inv p n] big by simp
    qed
  qed
qed

section \<open>Initialisation\<close>

lemma align_ptr_up_nat: "n \<le> 4294967280 \<Longrightarrow> align_ptr_up (w32 n) = w32 (round16 n)"
  using align_up_round16 [of "w32 n"] by (simp add: align_ptr_up_def align_up_def unat_w32)

lemma align_ptr_down_nat: "n < 4294967296 \<Longrightarrow> align_ptr_down (w32 n) = w32 (n div 16 * 16)"
  using unat_and_not_15 [of "w32 n"] w32_unat [of "align_ptr_down (w32 n)"]
  by (simp add: align_ptr_down_def EF2_HEAP_ALIGNMENT_def unat_w32)

lemma init_refines:
  assumes m: "0 < p" "p \<le> 4294967280" "0 < n" "p + n < 4294967296"
  defines "start \<equiv> round16 p" and "stop \<equiv> (p + n) div 16 * 16"
  shows "stop < start + 32 \<Longrightarrow> ef2_heap_init h (w32 p) (w32 n) = (-2, h)"
    and "start + 32 \<le> stop \<Longrightarrow>
      \<exists>h'. ef2_heap_init h (w32 p) (w32 n) = (0, h') \<and> heap_inv h' start [(stop - start - 16, False)]"
proof -
  have bd: "start \<le> 4294967280" "stop < 4294967296" "n < 4294967296"
    using round16_bound [OF m(2)] m by (auto simp: start_def stop_def)
  have al: "align_ptr_up (w32 p) = w32 start" "align_ptr_down (w32 p + w32 n) = w32 stop"
    using m by (auto simp: align_ptr_up_nat start_def stop_def w32_add align_ptr_down_nat)
  have nz: "w32 p \<noteq> 0" "w32 n \<noteq> 0" using m bd by (auto simp: w32_eq_0_iff)
  have cmp: "w32 stop \<le> w32 start \<or> w32 stop - w32 start < 32 \<longleftrightarrow> stop < start + 32"
    using bd w32_less_iff [of "stop - start" 32]
    by (cases "stop \<le> start") (auto simp: w32_le_iff w32_diff w32_numeral)
  show "stop < start + 32 \<Longrightarrow> ef2_heap_init h (w32 p) (w32 n) = (-2, h)"
    using nz cmp by (simp add: ef2_heap_init_def al EF2_HEAP_ALIGNMENT_def Let_def)
  show "\<exists>h'. ef2_heap_init h (w32 p) (w32 n) = (0, h') \<and> heap_inv h' start [(stop - start - 16, False)]"
    if big: "start + 32 \<le> stop"
  proof -
    define m4 where "m4 = set_next (w32 start) 0 (set_previous (w32 start) 0
      (set_magic (w32 start) EF2_HEAP_MAGIC_FREE
        (set_size (w32 start) (w32 stop - w32 start - 16) (hmem h))))"
    define h' where "h' = h\<lparr>hmem := m4, g_heap_first := w32 start,
      g_heap_total := blk_size m4 (w32 start), g_heap_active := 0, g_heap_ready := True\<rparr>"
    have st: "16 dvd start" "start < 4294967296" "16 dvd stop" "0 < start"
      using bd m by (auto simp: start_def stop_def round16_facts)
    have sz: "w32 stop - w32 start - 16 = w32 (stop - start - 16)"
      using big by (simp add: w32_diff w32_diff_numeral)
    have "\<not> 0xFFFFFFFF < w32 stop - w32 start"
      using unat_less_32 [of "w32 stop - w32 start"]
      by (simp add: word_less_nat_alt not_less del: unat_less_32)
    then have "ef2_heap_init h (w32 p) (w32 n) = (0, h')"
      using nz cmp big by (simp add: ef2_heap_init_def al EF2_HEAP_ALIGNMENT_def Let_def h'_def m4_def)
    moreover have "hseg m4 0 start 0 [(stop - start - 16, False)]"
      using st by (simp add: m4_def heap_field_defs heap_simps sz magic_of_def)
    moreover have "blk_size m4 (w32 start) = w32 (stop - start - 16)"
      using st by (simp add: m4_def heap_field_defs heap_simps sz)
    ultimately show ?thesis
      using st bd big by (auto simp: heap_inv_def hlist_def h'_def used_count_def dvd_diff_nat)
  qed
qed

section \<open>Calloc\<close>

lemma calloc_contract:
  assumes inv: "heap_inv h base bs"
  shows "ef2_calloc h c n = Some (0, h) \<or>
    (\<exists>p h' bs' s. ef2_calloc h c n = Some (w32 p, h') \<and> heap_inv h' base bs' \<and>
      unat c * unat n \<le> s \<and> (p, s) \<notin> allocs base bs \<and>
      allocs base bs' = insert (p, s) (allocs base bs) \<and>
      (\<forall>k < unat c * unat n. hmem h' (w32 (p + k)) = 0) \<and>
      (\<forall>q t. (q, t) \<in> allocs base bs \<longrightarrow> same_bytes (hmem h) (hmem h') q t))"
proof (cases "c = 0 \<or> n = 0 \<or> 4294967296 \<le> unat c * unat n")
  case True
  then show ?thesis
    by (auto simp: ef2_calloc_def checked_multiply_u32_def multiply_loop_spec)
next
  case False
  let ?t = "unat c * unat n"
  have mul: "checked_multiply_u32 c n = Some (c * n)" and u: "unat (c * n) = ?t"
    and nz: "c \<noteq> 0" "n \<noteq> 0" "c * n \<noteq> 0"
  proof -
    show "checked_multiply_u32 c n = Some (c * n)"
      using False by (simp add: checked_multiply_u32_def multiply_loop_spec)
    show u: "unat (c * n) = ?t" using False by (simp add: unat_word_ariths)
    show "c \<noteq> 0" "n \<noteq> 0" using False by auto
    then have "?t \<noteq> 0" by (simp add: unat_eq_zero)
    then show "c * n \<noteq> 0" using u by (metis unat_0)
  qed
  show ?thesis
  proof (cases "?t \<le> 4294967280")
    case False
    then have "4294967295 - (EF2_HEAP_ALIGNMENT - 1) < c * n"
      by (simp add: EF2_HEAP_ALIGNMENT_def word_less_nat_alt u)
    then have "ef2_malloc h (c * n) = Some (0, h)"
      by (simp add: ef2_malloc_def)
    then show ?thesis using mul nz by (simp add: ef2_calloc_def)
  next
    case True
    then have le: "unat (c * n) \<le> 4294967280" using u by simp
    show ?thesis
    proof (rule malloc_contract [OF inv nz(3) le])
      assume "ef2_malloc h (c * n) = Some (0, h)"
      then show ?thesis using mul nz by (simp add: ef2_calloc_def)
    next
      fix p s h1 bs1
      assume m: "ef2_malloc h (c * n) = Some (w32 p, h1)" "heap_inv h1 base bs1" "unat (c * n) \<le> s"
        and fresh: "(p, s) \<notin> allocs base bs" "allocs base bs1 = insert (p, s) (allocs base bs)"
        and keep: "\<And>q t. (q, t) \<in> allocs base bs \<Longrightarrow> same_bytes (hmem h) (hmem h1) q t"
      have p: "(p, s) \<in> allocs base bs1" using fresh by simp
      note pf = heap_inv_alloc [OF m(2) p]
      define m2 where "m2 = fill_loop (hmem h1) (w32 p) 0 0 (c * n)"
      have cn: "c * n = w32 ?t" using u w32_unat [of "c * n"] by simp
      have fill: "m2 (w32 x) = (if p \<le> x \<and> x < p + ?t then 0 else hmem h1 (w32 x))"
        if "x < 4294967296" for x
        unfolding m2_def cn using pf m(3) u that by (intro fill_loop_ranges) auto
      have "w32 p \<noteq> 0" using pf by (simp add: w32_eq_0_iff)
      then have ret: "ef2_calloc h c n = Some (w32 p, h1\<lparr>hmem := m2\<rparr>)"
        using mul nz m(1) by (simp add: ef2_calloc_def m2_def)
      have inv2: "heap_inv (h1\<lparr>hmem := m2\<rparr>) base bs1"
        by (rule heap_inv_payload_write [OF m(2) p]) (use fill m(3) u in auto)
      have zero: "\<forall>k < ?t. m2 (w32 (p + k)) = 0"
        using fill pf m(3) u by auto
      have others: "same_bytes (hmem h) m2 q t" if q: "(q, t) \<in> allocs base bs" for q t
      proof -
        have q1: "(q, t) \<in> allocs base bs1" using q fresh by simp
        have "q + t \<le> p \<or> p + s \<le> q" using allocs_apart [OF q1 p] q fresh by auto
        then have "same_bytes (hmem h1) m2 q t"
          unfolding same_bytes_def using heap_inv_alloc [OF m(2) q1] m(3) u
          by (auto simp: fill)
        then show ?thesis using keep [OF q] by (blast intro: same_bytes_trans)
      qed
      have "hmem (h1\<lparr>hmem := m2\<rparr>) = m2" by simp
      then show ?thesis
        using ret inv2 zero others fresh m(3) u by metis
    qed
  qed
qed

section \<open>Statistics and usable size\<close>

definition free_sizes :: "blocks \<Rightarrow> nat list" where
  "free_sizes bs = map fst (filter (\<lambda>b. \<not> snd b) bs)"

lemma free_sizes_simps [simp]:
  "free_sizes [] = []"
  "free_sizes ((s, u) # bs) = (if u then free_sizes bs else s # free_sizes bs)"
  by (simp_all add: free_sizes_def)

lemma free_sizes_le: "sum_list (free_sizes bs) + 16 * length bs \<le> span bs"
  by (induction bs rule: span.induct) auto

lemma stats_walk_free_sizes:
  assumes "hseg m p a 0 bs" "0 < a" "a + span bs < 4294967296" "f + span bs < 4294967296" "l < 4294967296"
  shows "stats_walk m (if bs = [] then 0 else w32 a) (w32 f) (w32 l) =
    Some (w32 (f + sum_list (free_sizes bs)), w32 (fold max (free_sizes bs) l))"
  using assms
proof (induction bs arbitrary: p a f l)
  case Nil
  then show ?case by (simp add: stats_walk.simps)
next
  case (Cons b bs)
  obtain s u where b: "b = (s, u)" by (cases b)
  from Cons.prems have f: "load32 m (w32 a) = w32 s" "load32 m (w32 a + 4) = magic_of u"
    "load32 m (w32 a + 12) = (if bs = [] then 0 else w32 (a + 16 + s))"
    "hseg m (w32 a) (a + 16 + s) 0 bs" "w32 a \<noteq> 0" "s < 4294967296"
    by (auto simp: b w32_eq_0_iff)
  have IH: "stats_walk m (if bs = [] then 0 else w32 (a + 16 + s)) (w32 f') (w32 l') =
    Some (w32 (f' + sum_list (free_sizes bs)), w32 (fold max (free_sizes bs) l'))"
    if "f' + span bs < 4294967296" "l' < 4294967296" for f' l'
    using Cons.prems f that by (intro Cons.IH) (auto simp: b)
  show ?case
    using Cons.prems f IH [of f l] IH [of "f + s" "max s l"]
    by (subst stats_walk.simps)
      (auto simp: b heap_field_defs w32_add w32_less_iff max_def not_less add.assoc)
qed

lemma stats_refines:
  assumes inv: "heap_inv h base bs"
  shows "ef2_heap_get_stats h (Some st) = Some (0, Some \<lparr>total_bytes = w32 (span bs - 16),
    free_bytes = w32 (sum_list (free_sizes bs)),
    largest_free_block = w32 (fold max (free_sizes bs) 0),
    active_allocations = w32 (used_count bs)\<rparr>)"
  using inv stats_walk_free_sizes [of "hmem h" 0 base bs 0 0]
  by (simp add: ef2_heap_get_stats_def heap_inv_def hlist_def)

lemma usable_size_alloc:
  assumes "heap_inv h base bs" "(p, s) \<in> allocs base bs"
  shows "ef2_heap_usable_size h (w32 p) = w32 s"
  using ptr_checks [OF assms] assms(1)
  by (simp add: ef2_heap_usable_size_def heap_inv_def payload_block_def Let_def)

section \<open>Coalescing\<close>

definition coalesced :: "blocks \<Rightarrow> bool" where
  "coalesced bs \<longleftrightarrow> successively (\<lambda>b c. snd b \<or> snd c) bs"

lemma coalesced_simps [simp]:
  "coalesced []"
  "coalesced (b # bs) \<longleftrightarrow> (bs = [] \<or> snd b \<or> snd (hd bs)) \<and> coalesced bs"
  "coalesced (xs @ ys) \<longleftrightarrow> coalesced xs \<and> coalesced ys \<and>
     (xs = [] \<or> ys = [] \<or> snd (last xs) \<or> snd (hd ys))"
  by (cases bs; auto simp: coalesced_def)
    (auto simp: coalesced_def successively_append_iff successively_Cons)

lemma coalesced_malloc:
  "coalesced (xs @ (s, False) # ys) \<Longrightarrow> coalesced (xs @ split_list w s True ys)"
  by (auto simp: split_list_def)

lemma coalesced_absorb:
  "coalesced ((s, True) # ys) \<Longrightarrow>
     coalesced (absorb s ys) \<and> (\<exists>t zs. absorb s ys = (t, False) # zs \<and> (zs = [] \<or> snd (hd zs)))"
  by (cases rule: absorb_cases [of ys s]) auto

lemma coalesced_free:
  assumes "coalesced (xs @ (s, True) # ys)"
  shows "coalesced (free_list xs s ys)"
proof -
  have "coalesced ((s, True) # ys)" using assms by simp
  from coalesced_absorb [OF this] obtain t zs
    where a: "absorb s ys = (t, False) # zs" "zs = [] \<or> snd (hd zs)" "coalesced (absorb s ys)"
    by blast
  show ?thesis
  proof (cases xs rule: snoc_cases_block)
    case 1
    then show ?thesis using a by (simp add: free_list_def)
  next
    case (2 vs r v)
    then show ?thesis using a assms by (cases v) (auto simp: free_list_def)
  qed
qed

text \<open>Freeing what was just allocated gives back the very same block list.\<close>

lemma free_list_malloc:
  assumes c: "coalesced (xs @ (s, False) # ys)" and w: "w \<le> s"
    and "split_list w s True ys = (t, True) # zs"
  shows "free_list xs t zs = xs @ (s, False) # ys"
proof -
  have "absorb t zs = (s, False) # ys"
    using assms by (cases ys) (auto simp: split_list_def split: if_splits)
  moreover have "xs = [] \<or> snd (last xs)" using c by simp
  ultimately show ?thesis by (auto simp: free_list_def)
qed

lemma malloc_free_roundtrip:
  assumes inv: "heap_inv h base bs" and c: "coalesced bs"
    and m: "ef2_malloc h n = Some (ptr, h')" "ptr \<noteq> 0"
  shows "heap_inv (ef2_free h' ptr) base bs"
proof -
  have n: "n \<noteq> 0" "unat n \<le> 4294967280"
    using m inv by (auto simp: ef2_malloc_def heap_inv_def EF2_HEAP_ALIGNMENT_def word_less_nat_alt
        split: if_splits)
  obtain xs s ys where ff: "first_fit (round16 (unat n)) bs = Some (xs, s, ys)"
    using malloc_full [OF inv n] m by (cases "first_fit (round16 (unat n)) bs") auto
  note bs = first_fit_Some [OF ff]
  from malloc_fits [OF inv n ff] m(1)
  have h': "ptr = w32 (base + span xs + 16)" "heap_inv h' base (xs @ split_list (round16 (unat n)) s True ys)"
    by auto
  obtain t zs where t: "split_list (round16 (unat n)) s True ys = (t, True) # zs"
    using split_list_head by blast
  have "free_list xs t zs = bs"
    using free_list_malloc [OF _ _ t] bs c by simp
  then show ?thesis
    using free_refines(1) [OF h'(2) [unfolded t]] h'(1) by simp
qed

section \<open>Where the size computation of realloc wraps\<close>

lemma align_up_wraps: "4294967280 < unat n \<Longrightarrow> align_up n = 0"
proof -
  assume n: "4294967280 < unat n"
  have "n + 15 = w32 (unat n + 15)" by (simp add: w32_def)
  also have "\<dots> = w32 (4294967296 + (unat n - 4294967281))"
    using n by (intro arg_cong [of _ _ w32]) simp
  also have "\<dots> = w32 (unat n - 4294967281)" by (rule w32_wrap)
  finally have "unat (n + 15) = unat n - 4294967281" 
    using unat_less_32 [of n] by (simp add: unat_w32 del: unat_less_32)
  then have "unat (n + 15) < 16" using unat_less_32 [of n] by linarith
  then have "unat (align_up n) = 0"
    by (simp add: align_up_def EF2_HEAP_ALIGNMENT_def unat_and_not_15 add.commute)
  then show ?thesis by (simp add: unat_eq_zero)
qed

lemma realloc_wrap:
  assumes inv: "heap_inv h base (xs @ (s, True) # ys)" and n: "4294967280 < unat n"
  shows "\<exists>h'. ef2_realloc h (w32 (base + span xs + 16)) n = Some (w32 (base + span xs + 16), h') \<and>
    (s < 32 \<longrightarrow> h' = h) \<and> heap_inv h' base (xs @ split_list 0 s True ys)"
proof -
  have p: "(base + span xs + 16, s) \<in> allocs base (xs @ (s, True) # ys)" by simp
  note chk = ptr_checks [OF inv p] and blk = heap_inv_block(1) [OF inv]
  define h' where "h' = h\<lparr>hmem := split_block (hmem h) (w32 (base + span xs)) (w32 0)\<rparr>"
  have hl: "hlist (hmem h') base (xs @ split_list 0 s True ys)"
    using split_block_refines [OF blk, of 0] by (simp add: h'_def)
  have "n \<noteq> 0" using n by auto
  then have "ef2_realloc h (w32 (base + span xs + 16)) n = Some (w32 (base + span xs + 16), h')"
    using inv chk align_up_wraps [OF n]
    by (simp add: ef2_realloc_def heap_inv_def payload_block_def EF2_HEAP_ALIGNMENT_def h'_def Let_def)
  moreover have "heap_inv h' base (xs @ split_list 0 s True ys)"
    using inv hl by (auto simp: heap_inv_def h'_def split_list_def)
  moreover have "s < 32 \<longrightarrow> h' = h"
    using split_block_small [OF blk, of 0] by (simp add: h'_def)
  ultimately show ?thesis by blast
qed

section \<open>The heap provides the allocator interface\<close>

definition heap_rel :: "heap \<Rightarrow> nat \<times> blocks \<Rightarrow> bool" where
  "heap_rel h a = heap_inv h (fst a) (snd a)"

definition heap_live :: "nat \<times> blocks \<Rightarrow> (nat \<times> nat) set" where
  "heap_live a = allocs (fst a) (snd a)"

definition heap_put :: "mem \<Rightarrow> heap \<Rightarrow> heap" where
  "heap_put m h = h\<lparr>hmem := m\<rparr>"

lemma malloc_cases:
  assumes inv: "heap_inv h base bs"
  obtains "ef2_malloc h n = Some (0, h)"
  | p s h' bs' where "ef2_malloc h n = Some (w32 p, h')" "w32 p \<noteq> 0" "unat (w32 p) = p"
      "heap_inv h' base bs'" "unat n \<le> s" "(p, s) \<notin> allocs base bs"
      "allocs base bs' = insert (p, s) (allocs base bs)"
      "\<And>q t. (q, t) \<in> allocs base bs \<Longrightarrow> same_bytes (hmem h) (hmem h') q t"
proof (cases "n \<noteq> 0 \<and> unat n \<le> 4294967280")
  case True
  then have n: "n \<noteq> 0" "unat n \<le> 4294967280" by auto
  show thesis
  proof (rule malloc_contract [OF inv n])
    fix p s h' bs'
    assume a: "ef2_malloc h n = Some (w32 p, h')" "heap_inv h' base bs'" "unat n \<le> s"
      "(p, s) \<notin> allocs base bs" "allocs base bs' = insert (p, s) (allocs base bs)"
      and k: "\<And>q t. (q, t) \<in> allocs base bs \<Longrightarrow> same_bytes (hmem h) (hmem h') q t"
    have "(p, s) \<in> allocs base bs'" using a by simp
    from ptr_checks(1,4) [OF a(2) this] show thesis by (intro that(2) [OF a(1) _ _ a(2-5) k])
  qed (use that in blast)
next
  case False
  then have "ef2_malloc h n = Some (0, h)"
    by (auto simp: ef2_malloc_def EF2_HEAP_ALIGNMENT_def word_less_nat_alt)
  then show thesis by (rule that(1))
qed

interpretation heap_alloc: allocator ef2_malloc ef2_free hmem heap_put heap_rel heap_live
proof unfold_locales
  fix h a n
  assume a: "heap_rel h a"
  then have inv: "heap_inv h (fst a) (snd a)" by (simp add: heap_rel_def)
  show "ef2_malloc h n \<noteq> None" by (rule malloc_cases [OF inv, of n]) auto
  show "h' = h" if "ef2_malloc h n = Some (0, h')" for h'
    by (rule malloc_cases [OF inv, of n]) (use that in auto)
  show "\<exists>a' s. heap_rel h' a' \<and> unat n \<le> s \<and> (unat p, s) \<notin> heap_live a \<and>
        heap_live a' = insert (unat p, s) (heap_live a) \<and>
        (\<forall>q t. (q, t) \<in> heap_live a \<longrightarrow> same_bytes (hmem h) (hmem h') q t)"
    if p: "ef2_malloc h n = Some (p, h')" "p \<noteq> 0" for p h'
  proof (rule malloc_cases [OF inv, of n])
    fix b s h2 bs'
    assume m: "ef2_malloc h n = Some (w32 b, h2)" "unat (w32 b) = b"
      "heap_inv h2 (fst a) bs'" "unat n \<le> s" "(b, s) \<notin> allocs (fst a) (snd a)"
      "allocs (fst a) bs' = insert (b, s) (allocs (fst a) (snd a))"
      and k: "\<And>q t. (q, t) \<in> allocs (fst a) (snd a) \<Longrightarrow> same_bytes (hmem h) (hmem h2) q t"
    then show ?thesis using p
      by (intro exI [of _ "(fst a, bs')"] exI [of _ s]) (auto simp: heap_rel_def heap_live_def)
  qed (use p in auto)
  show "\<exists>a'. heap_rel (ef2_free h p) a' \<and> heap_live a' = heap_live a - {(unat p, s)} \<and>
        (\<forall>q t. (q, t) \<in> heap_live a \<longrightarrow> same_bytes (hmem h) (hmem (ef2_free h p)) q t)"
    if p: "(unat p, s) \<in> heap_live a" for p s
  proof (rule free_contract [OF inv, of "unat p" s])
    show "(unat p, s) \<in> allocs (fst a) (snd a)" using p by (simp add: heap_live_def)
  next
    fix bs'
    assume "heap_inv (ef2_free h (w32 (unat p))) (fst a) bs'"
      "allocs (fst a) bs' = allocs (fst a) (snd a) - {(unat p, s)}"
      and "\<And>q t. (q, t) \<in> allocs (fst a) (snd a) \<Longrightarrow>
        same_bytes (hmem h) (hmem (ef2_free h (w32 (unat p)))) q t"
    then show ?thesis
      by (intro exI [of _ "(fst a, bs')"]) (simp add: heap_rel_def heap_live_def)
  qed
  show "heap_rel (heap_put m h) a"
    if "(b, s) \<in> heap_live a"
      "\<And>k. k < 4294967296 \<Longrightarrow> \<not> (b \<le> k \<and> k < b + s) \<Longrightarrow> m (w32 k) = hmem h (w32 k)" for b s m
    using heap_inv_payload_write [OF inv, of b s m] that
    by (simp add: heap_rel_def heap_live_def heap_put_def)
  show "b + s < 4294967296" if "(b, s) \<in> heap_live a" for b s
    using heap_inv_alloc(2) [OF inv] that by (simp add: heap_live_def)
  show "(b, s) = (q, t) \<or> b + s \<le> q \<or> q + t \<le> b"
    if "(b, s) \<in> heap_live a" "(q, t) \<in> heap_live a" for b s q t
    using allocs_apart [of b s "fst a" "snd a" q t] that by (auto simp: heap_live_def)
qed (simp add: heap_put_def)

section \<open>A concrete heap\<close>

text \<open>4 KiB of managed memory at 1 MiB, as \<open>ef2_heap_init\<close> leaves it.\<close>

definition empty_heap :: heap where
  "empty_heap = \<lparr>hmem = (\<lambda>_. 0), g_heap_first = 0, g_heap_total = 0, g_heap_active = 0,
     g_heap_ready = False\<rparr>"

definition small_heap :: heap where
  "small_heap = snd (ef2_heap_init empty_heap (w32 1048576) (w32 4096))"

lemma small_heap_inv: "heap_inv small_heap 1048576 [(4080, False)]"
  using init_refines(2) [of 1048576 4096 empty_heap] by (auto simp: small_heap_def round16_def)

end
