(* ===== verification/HeapProps.thy ===== *)
theory HeapProps
  imports HeapSpec
begin

text \<open>
  The properties of the allocator, stated over the operations of \<open>Heap\<close> and the block
  list of \<open>HeapSpec\<close>, each with a concrete instance on a 4 KiB heap.
\<close>

definition no_stats :: heap_stats where
  "no_stats = \<lparr>total_bytes = 0, free_bytes = 0, largest_free_block = 0, active_allocations = 0\<rparr>"

section \<open>Properties of the allocator\<close>

text \<open>
  C2: Allocation is first fit.  On a well-formed heap \<open>ef2_malloc\<close> returns for every
  request up to 0xFFFFFFF0 bytes: null with the heap unchanged when no free block is large
  enough, otherwise the payload of the first free block that is, which is split when at
  least 32 bytes remain; the heap stays well formed.
\<close>

theorem heap_malloc_first_fit:
  assumes "heap_inv h base bs" "n \<noteq> 0" "unat n \<le> 0xFFFFFFF0"
  shows "case first_fit (round16 (unat n)) bs of
      None \<Rightarrow> ef2_malloc h n = Some (0, h)
    | Some (xs, s, ys) \<Rightarrow> \<exists>h'. ef2_malloc h n = Some (w32 (base + span xs + 16), h') \<and>
        heap_inv h' base (xs @ split_list (round16 (unat n)) s True ys)"
proof (cases "first_fit (round16 (unat n)) bs")
  case None
  then show ?thesis using malloc_full assms by simp
next
  case (Some r)
  obtain xs s ys where r: "r = (xs, s, ys)" by (cases r) auto
  have n: "unat n \<le> 4294967280" using assms(3) by simp
  show ?thesis
    by (rule malloc_fits [OF assms(1,2) n Some [unfolded r]]) (use Some r in auto)
qed

theorem heap_malloc_first_fit_witness:
  "\<exists>h'. ef2_malloc small_heap 100 = Some (w32 1048592, h') \<and>
     heap_inv h' 1048576 [(112, True), (3952, False)]"
  using heap_malloc_first_fit [OF small_heap_inv, of 100]
  by (simp add: round16_def split_list_def)

text \<open>
  C1: Isolation.  A non-null result of \<open>ef2_malloc\<close> is a 16-byte aligned payload of at least
  the requested size that overlaps no live allocation and no header between them, becomes
  live itself, and every byte of every other live allocation keeps its value.
\<close>

theorem heap_malloc_isolated:
  assumes "heap_inv h base bs" "ef2_malloc h n = Some (ptr, h')" "ptr \<noteq> 0"
  shows "\<exists>bs' s. heap_inv h' base bs' \<and> unat n \<le> s \<and> 16 dvd unat ptr \<and>
    allocs base bs' = insert (unat ptr, s) (allocs base bs) \<and>
    (\<forall>(q, t) \<in> allocs base bs. unat ptr + s + 16 \<le> q \<or> q + t + 16 \<le> unat ptr) \<and>
    (\<forall>(q, t) \<in> allocs base bs. same_bytes (hmem h) (hmem h') q t)"
proof (rule malloc_cases [OF assms(1), of n])
  fix p s h2 bs'
  assume m: "ef2_malloc h n = Some (w32 p, h2)" "unat (w32 p) = p" "heap_inv h2 base bs'" "unat n \<le> s"
    "(p, s) \<notin> allocs base bs" "allocs base bs' = insert (p, s) (allocs base bs)"
    and k: "\<And>q t. (q, t) \<in> allocs base bs \<Longrightarrow> same_bytes (hmem h) (hmem h2) q t"
  have p: "(p, s) \<in> allocs base bs'" using m by simp
  have "\<forall>(q, t) \<in> allocs base bs. p + s + 16 \<le> q \<or> q + t + 16 \<le> p"
    using allocs_apart [OF p] m(5,6) by fastforce
  then show ?thesis
    using m k assms(2) heap_inv_alloc(3) [OF m(3) p] by (intro exI [of _ bs'] exI [of _ s]) auto
qed (use assms in auto)

theorem heap_malloc_isolated_witness:
  "\<exists>ptr h' bs' s. ef2_malloc small_heap 100 = Some (ptr, h') \<and> ptr \<noteq> 0 \<and>
     heap_inv h' 1048576 bs' \<and> 100 \<le> s \<and> allocs 1048576 bs' = {(unat ptr, s)}"
proof -
  obtain h' where h': "ef2_malloc small_heap 100 = Some (w32 1048592, h')"
    by (rule malloc_fits [OF small_heap_inv, of 100]) (auto simp: round16_def)
  have "w32 1048592 \<noteq> 0" by (simp add: w32_eq_0_iff)
  from heap_malloc_isolated [OF small_heap_inv h' this] h' this show ?thesis by auto
qed

text \<open>
  C3: Freeing refines coalescing.  \<open>ef2_free\<close> of a live payload turns its block into a free
  one, joined with the free neighbours on either side; the heap stays well formed, exactly
  that payload stops being live and the bytes of the others keep their values.  When no two
  free blocks were adjacent before, none are afterwards.
\<close>

theorem heap_free_coalesces:
  assumes "heap_inv h base (xs @ (s, True) # ys)"
  defines "p \<equiv> base + span xs + 16"
  shows "heap_inv (ef2_free h (w32 p)) base (free_list xs s ys) \<and>
    allocs base (free_list xs s ys) = allocs base (xs @ (s, True) # ys) - {(p, s)} \<and>
    (\<forall>(q, t) \<in> allocs base (xs @ (s, True) # ys) - {(p, s)}.
       same_bytes (hmem h) (hmem (ef2_free h (w32 p))) q t) \<and>
    (coalesced (xs @ (s, True) # ys) \<longrightarrow> coalesced (free_list xs s ys))"
proof -
  have "(p, s) \<in> allocs base (xs @ (s, True) # ys)" by (simp add: p_def)
  then have "same_bytes (hmem h) (hmem (ef2_free h (w32 p))) q t"
    if "(q, t) \<in> allocs base (xs @ (s, True) # ys)" for q t
    by (rule free_contract [OF assms(1)]) (use that in blast)
  then show ?thesis
    using free_refines(1) [OF assms(1)] allocs_free_list [OF assms(1)] coalesced_free
    by (auto simp: p_def)
qed

theorem heap_free_coalesces_witness:
  "\<exists>h'. ef2_malloc small_heap 100 = Some (w32 1048592, h') \<and>
     heap_inv (ef2_free h' (w32 1048592)) 1048576 [(4080, False)]"
proof -
  obtain h' where h': "ef2_malloc small_heap 100 = Some (w32 1048592, h')"
    "heap_inv h' 1048576 ([] @ (112, True) # [(3952, False)])"
    by (rule malloc_fits [OF small_heap_inv, of 100]) (auto simp: round16_def split_list_def)
  from heap_free_coalesces [OF h'(2)] h'(1) show ?thesis
    by (simp add: free_list_def)
qed

text \<open>
  Allocation and release cancel.  On a heap without adjacent free blocks, freeing the
  block that \<open>ef2_malloc\<close> has just returned restores exactly the block list from before.
\<close>

theorem heap_malloc_free_restores:
  assumes "heap_inv h base bs" "coalesced bs" "ef2_malloc h n = Some (ptr, h')" "ptr \<noteq> 0"
  shows "heap_inv (ef2_free h' ptr) base bs"
  using malloc_free_roundtrip [OF assms] .

theorem heap_malloc_free_restores_witness:
  "\<exists>h'. ef2_malloc small_heap 100 = Some (w32 1048592, h') \<and>
     heap_inv (ef2_free h' (w32 1048592)) 1048576 [(4080, False)]"
proof -
  obtain h' where h': "ef2_malloc small_heap 100 = Some (w32 1048592, h')"
    by (rule malloc_fits [OF small_heap_inv, of 100]) (auto simp: round16_def)
  have "coalesced [(4080, False)]" "w32 1048592 \<noteq> 0" by (simp_all add: w32_eq_0_iff)
  from heap_malloc_free_restores [OF small_heap_inv this(1) h' this(2)] h' show ?thesis by blast
qed

text \<open>
  C4: Reallocation.  Resizing a live payload to \<open>n\<close> bytes, up to 0xFFFFFFF0, either returns
  null and changes nothing, or returns a payload of at least \<open>n\<close> bytes, in place or moved,
  whose first \<open>min\<close> of old and new size bytes are the old contents, and no other live
  allocation is touched.
\<close>

theorem heap_realloc_preserves:
  assumes "heap_inv h base bs" "(p, s) \<in> allocs base bs" "n \<noteq> 0" "unat n \<le> 0xFFFFFFF0"
  shows "ef2_realloc h (w32 p) n = Some (0, h) \<or>
    (\<exists>q h' bs' s'. ef2_realloc h (w32 p) n = Some (w32 q, h') \<and> heap_inv h' base bs' \<and>
      unat n \<le> s' \<and> allocs base bs' = insert (q, s') (allocs base bs - {(p, s)}) \<and>
      (\<forall>k < min s (unat n). hmem h' (w32 (q + k)) = hmem h (w32 (p + k))) \<and>
      (\<forall>(r, t) \<in> allocs base bs - {(p, s)}. same_bytes (hmem h) (hmem h') r t))"
proof -
  have "unat n \<le> 4294967280" using assms(4) by simp
  from realloc_contract [OF assms(1-3) this] show ?thesis
    unfolding realloc_result_def ball_pair by (simp only: ex_simps)
qed

theorem heap_realloc_preserves_witness:
  "\<exists>h1 q h2. ef2_malloc small_heap 100 = Some (w32 1048592, h1) \<and>
     (ef2_realloc h1 (w32 1048592) 200 = Some (0, h1) \<or> ef2_realloc h1 (w32 1048592) 200 = Some (w32 q, h2))"
proof -
  obtain h' where h': "ef2_malloc small_heap 100 = Some (w32 1048592, h')"
    "heap_inv h' 1048576 [(112, True), (3952, False)]"
    by (rule malloc_fits [OF small_heap_inv, of 100]) (auto simp: round16_def split_list_def)
  from heap_realloc_preserves [OF h'(2), of 1048592 112 200] h'(1) show ?thesis by auto
qed

text \<open>
  Zeroed allocation.  \<open>ef2_calloc\<close> multiplies without overflow: it returns null with the
  heap unchanged, or a fresh payload of at least \<open>count * size\<close> bytes (the exact product,
  not its 32-bit residue), all of them zero, and every live allocation keeps its contents.
\<close>

theorem heap_calloc_zeroed:
  assumes "heap_inv h base bs"
  shows "ef2_calloc h c n = Some (0, h) \<or>
    (\<exists>p h' bs' s. ef2_calloc h c n = Some (w32 p, h') \<and> heap_inv h' base bs' \<and>
      unat c * unat n \<le> s \<and> (p, s) \<notin> allocs base bs \<and>
      allocs base bs' = insert (p, s) (allocs base bs) \<and>
      (\<forall>k < unat c * unat n. hmem h' (w32 (p + k)) = 0) \<and>
      (\<forall>(q, t) \<in> allocs base bs. same_bytes (hmem h) (hmem h') q t))"
  using calloc_contract [OF assms, of c n] unfolding ball_pair .

theorem heap_calloc_zeroed_witness:
  "ef2_calloc small_heap 3 5 = Some (0, small_heap) \<or>
    (\<exists>p h' bs' s. ef2_calloc small_heap 3 5 = Some (w32 p, h') \<and> heap_inv h' 1048576 bs' \<and>
      15 \<le> s \<and> (p, s) \<notin> allocs 1048576 [(4080, False)] \<and>
      allocs 1048576 bs' = insert (p, s) (allocs 1048576 [(4080, False)]) \<and>
      (\<forall>k < 15. hmem h' (w32 (p + k)) = 0) \<and>
      (\<forall>(q, t) \<in> allocs 1048576 [(4080, False)]. same_bytes (hmem small_heap) (hmem h') q t))"
  using heap_calloc_zeroed [OF small_heap_inv, of 3 5] by simp

text \<open>
  The overflow-checked product.  \<open>checked_multiply_u32\<close>, a shift-and-add loop without
  multiplication or division, returns the product exactly when it fits in 32 bits and the
  error otherwise.
\<close>

theorem checked_multiply_exact:
  "checked_multiply_u32 a b = (if unat a * unat b < 2 ^ 32 then Some (a * b) else None)"
  by (simp add: checked_multiply_u32_def multiply_loop_spec)

text \<open>
  Initialisation.  Over a memory range that does not wrap, \<open>ef2_heap_init\<close> aligns both
  ends inward; it fails with -2 and no change when less than a header and one unit remain,
  and otherwise sets up a well-formed heap of one free block spanning the aligned range.
\<close>

theorem heap_init_establishes:
  assumes "0 < p" "p \<le> 0xFFFFFFF0" "0 < n" "p + n < 2 ^ 32"
  shows "if (p + n) div 16 * 16 < round16 p + 32
    then ef2_heap_init h (w32 p) (w32 n) = (-2, h)
    else \<exists>h'. ef2_heap_init h (w32 p) (w32 n) = (0, h') \<and>
      heap_inv h' (round16 p) [((p + n) div 16 * 16 - round16 p - 16, False)]"
  using init_refines [of p n h] assms by simp

theorem heap_init_establishes_witness:
  "\<exists>h'. ef2_heap_init empty_heap (w32 1000) (w32 500) = (0, h') \<and> heap_inv h' 1008 [(464, False)]"
  using heap_init_establishes [of 1000 500 empty_heap] by (simp add: round16_def)

text \<open>
  Statistics.  \<open>ef2_heap_get_stats\<close> ends and reports the sum and the largest of the free
  payload sizes and the number of live allocations, and the bytes in use, in free blocks
  and in the headers after the first make up the total.
\<close>

theorem heap_stats_exact:
  assumes "heap_inv h base bs"
  shows "ef2_heap_get_stats h (Some st) = Some (0, Some \<lparr>total_bytes = w32 (span bs - 16),
      free_bytes = w32 (sum_list (free_sizes bs)),
      largest_free_block = w32 (fold max (free_sizes bs) 0),
      active_allocations = w32 (card (allocs base bs))\<rparr>) \<and>
    (\<Sum>(q, t) \<in> allocs base bs. t) + sum_list (free_sizes bs) + 16 * (length bs - 1) = span bs - 16"
proof -
  have "finite (allocs a cs) \<and> card (allocs a cs) = used_count cs \<and>
      (\<Sum>(q, t) \<in> allocs a cs. t) + sum_list (free_sizes cs) + 16 * length cs = span cs" for a cs
  proof (induction a cs rule: allocs.induct)
    case (2 a s u cs)
    have "(a + 16, s) \<notin> allocs (a + 16 + s) cs"
      using allocs_range [of "a + 16" s "a + 16 + s" cs] by auto
    then show ?case using 2 by (cases u) auto
  qed simp
  moreover have "bs \<noteq> []" "16 * (length bs - 1) = 16 * length bs - 16" "16 \<le> 16 * length bs"
    using assms by (cases bs; auto simp: heap_inv_def)+
  ultimately show ?thesis using stats_refines [OF assms] by (metis Nat.add_diff_assoc)
qed

theorem heap_stats_exact_witness:
  "ef2_heap_get_stats small_heap (Some no_stats) = Some (0, Some \<lparr>total_bytes = 4080, free_bytes = 4080,
     largest_free_block = 4080, active_allocations = 0\<rparr>)"
  using heap_stats_exact [OF small_heap_inv, of no_stats] by (simp add: w32_numeral)

text \<open>
  C5: Reallocation to more than 0xFFFFFFF0 bytes wraps.  \<open>ef2_realloc\<close> lacks the bound that
  \<open>ef2_malloc\<close> checks: rounding such a request up to a multiple of 16 gives 0, so the call
  reports success on the old pointer although the request cannot be met.  A block of 32 bytes
  or more is cut down to no usable byte and its contents become free memory; a block of 16
  bytes is too small to be split and stays as it is.
\<close>

theorem heap_realloc_wraps:
  assumes "heap_inv h base (xs @ (s, True) # ys)" "0xFFFFFFF0 < unat n"
  defines "p \<equiv> w32 (base + span xs + 16)"
  shows "ef2_malloc h n = Some (0, h) \<and>
    (\<exists>h'. ef2_realloc h p n = Some (p, h') \<and>
      (if s < 32 then h' = h \<and> ef2_heap_usable_size h' p = w32 s
       else ef2_heap_usable_size h' p = 0 \<and>
         heap_inv h' base (xs @ (0, True) # (s - 16, False) # ys)))"
proof -
  have n: "4294967280 < unat n" using assms(2) by simp
  obtain h' where h': "ef2_realloc h p n = Some (p, h')" "s < 32 \<longrightarrow> h' = h"
    "heap_inv h' base (xs @ split_list 0 s True ys)"
    using realloc_wrap [OF assms(1) n] by (auto simp: p_def)
  have "ef2_heap_usable_size h' p = (if s < 32 then w32 s else 0)"
    unfolding p_def using usable_size_alloc [OF h'(3), of "base + span xs + 16" "if s < 32 then s else 0"]
    by (simp add: split_list_def)
  moreover have "ef2_malloc h n = Some (0, h)"
    using n by (auto simp: ef2_malloc_def EF2_HEAP_ALIGNMENT_def word_less_nat_alt)
  ultimately show ?thesis using h' by (auto simp: split_list_def)
qed

theorem heap_realloc_wraps_witness:
  "\<exists>h' h2. ef2_malloc small_heap 100 = Some (w32 1048592, h') \<and>
     ef2_realloc h' (w32 1048592) 0xFFFFFFFF = Some (w32 1048592, h2) \<and>
     ef2_heap_usable_size h2 (w32 1048592) = 0"
proof -
  obtain h' where h': "ef2_malloc small_heap 100 = Some (w32 1048592, h')"
    "heap_inv h' 1048576 ([] @ (112, True) # [(3952, False)])"
    by (rule malloc_fits [OF small_heap_inv, of 100]) (auto simp: round16_def split_list_def)
  from heap_realloc_wraps [OF h'(2), where n = "0xFFFFFFFF"] h'(1) show ?thesis by auto
qed
end
