(* ===== verification/LibcAlloc.thy ===== *)
theory LibcAlloc
  imports HeapProps
begin

text \<open>
  \<open>src/ee/runtime/heap_default.c\<close> and \<open>src/ee/runtime/libc_alloc.c\<close>: placing the heap after the
  program image, and the standard allocator names.

  The two kernel calls are parameters: \<open>setup_heap\<close> (system call 0x3D) changes the kernel
  state, \<open>end_of_heap\<close> (0x3E) reads the heap end it fixed.
\<close>

definition ef2_heap_init_default ::
  "(u32 \<Rightarrow> s32 \<Rightarrow> 'k \<Rightarrow> 'k) \<Rightarrow> ('k \<Rightarrow> u32) \<Rightarrow> u32 \<Rightarrow> 'k \<Rightarrow> heap \<Rightarrow> s32 \<times> 'k \<times> heap" where
  "ef2_heap_init_default setup_heap end_of_heap image_end k h =
    (let start = (image_end + 63) AND NOT 63;
         k' = setup_heap start (-1) k;
         end = end_of_heap k'
     in if end \<le> start then (-1, k', h)
        else let (r, h') = ef2_heap_init h start (end - start) in (r, k', h'))"

text \<open>\<open>size_t\<close> has 32 bits on the EE, so \<open>size_fits_ee\<close> is the branch that returns 1.\<close>

definition size_fits_ee :: "u32 \<Rightarrow> bool" where "size_fits_ee bytes = True"

definition libc_malloc :: "heap \<Rightarrow> u32 \<Rightarrow> (u32 \<times> heap) option" where
  "libc_malloc h bytes = (if \<not> size_fits_ee bytes then Some (0, h) else ef2_malloc h bytes)"

definition libc_free :: "heap \<Rightarrow> u32 \<Rightarrow> heap" where
  "libc_free h ptr = ef2_free h ptr"

definition libc_calloc :: "heap \<Rightarrow> u32 \<Rightarrow> u32 \<Rightarrow> (u32 \<times> heap) option" where
  "libc_calloc h count bytes =
    (if \<not> size_fits_ee count \<or> \<not> size_fits_ee bytes then Some (0, h)
     else ef2_calloc h count bytes)"

definition libc_realloc :: "heap \<Rightarrow> u32 \<Rightarrow> u32 \<Rightarrow> (u32 \<times> heap) option" where
  "libc_realloc h ptr bytes =
    (if \<not> size_fits_ee bytes then Some (0, h) else ef2_realloc h ptr bytes)"

lemma libc_alloc_names:
  "libc_malloc = ef2_malloc" "libc_free = ef2_free"
  "libc_calloc = ef2_calloc" "libc_realloc = ef2_realloc"
  by (simp_all add: fun_eq_iff libc_malloc_def libc_free_def libc_calloc_def libc_realloc_def
      size_fits_ee_def)

lemma image_end_aligned:
  assumes "unat e \<le> 4294967232"
  shows "(e + 63) AND NOT 63 = w32 ((unat e + 63) div 64 * 64)"
proof -
  have s: "unat (e + 63) = unat e + 63" using assms by (simp add: unat_word_ariths)
  have "unat ((e + 63) AND NOT 63) = (unat e + 63) div 64 * 64"
    using unat_and_not_mask [of "e + 63" 6] by (simp add: s mask_eq_exp_minus_1)
  then show ?thesis by (metis w32_unat)
qed

text \<open>
  The default heap.  When the kernel reports a heap end below 4 GiB that lies at least
  32 bytes after the image end rounded up to a cache line, the heap is well formed and
  consists of one free block from there to that end; when the end is not after it, the
  call fails with -1 and the heap is unchanged.
\<close>

theorem heap_default_establishes:
  fixes e :: u32
  defines "start \<equiv> (unat e + 63) div 64 * 64"
  assumes "0 < unat e" "unat e \<le> 0xFFFFFF00" "kend = end_of_heap (setup_heap (w32 start) (-1) k)"
  shows "(unat kend \<le> start \<longrightarrow>
      ef2_heap_init_default setup_heap end_of_heap e k h = (-1, setup_heap (w32 start) (-1) k, h)) \<and>
    (start + 32 \<le> unat kend div 16 * 16 \<longrightarrow>
      (\<exists>h'. ef2_heap_init_default setup_heap end_of_heap e k h =
          (0, setup_heap (w32 start) (-1) k, h') \<and>
        heap_inv h' start [(unat kend div 16 * 16 - start - 16, False)]))"
proof -
  have st: "(e + 63) AND NOT 63 = w32 start" using assms image_end_aligned [of e] by simp
  have b: "0 < start" "start \<le> 4294967232" "16 dvd start"
    using assms(2,3) by (auto simp: start_def)
  have le: "kend \<le> w32 start \<longleftrightarrow> unat kend \<le> start"
    using b by (simp add: word_le_nat_alt unat_w32)
  have r: "round16 start = start" using b(3) by (auto simp: round16_def)
  have part: "\<exists>h'. ef2_heap_init h (w32 start) (kend - w32 start) = (0, h') \<and>
      heap_inv h' start [(unat kend div 16 * 16 - start - 16, False)]"
    if big: "start + 32 \<le> unat kend div 16 * 16"
  proof -
    have "kend - w32 start = w32 (unat kend - start)"
      using w32_diff [of start "unat kend"] big by simp
    then show ?thesis
      using init_refines(2) [of start "unat kend - start" h] b r big unat_less_32 [of kend]
      by simp
  qed
  show ?thesis
  proof (intro conjI impI)
    assume "unat kend \<le> start"
    then show "ef2_heap_init_default setup_heap end_of_heap e k h = (-1, setup_heap (w32 start) (-1) k, h)"
      using assms(4) by (simp add: ef2_heap_init_default_def st [simplified] le [unfolded assms(4)] Let_def)
  next
    assume big: "start + 32 \<le> unat kend div 16 * 16"
    then have "\<not> unat kend \<le> start" by linarith
    then show "\<exists>h'. ef2_heap_init_default setup_heap end_of_heap e k h =
          (0, setup_heap (w32 start) (-1) k, h') \<and>
        heap_inv h' start [(unat kend div 16 * 16 - start - 16, False)]"
      using part [OF big] assms(4) by (auto simp: ef2_heap_init_default_def st [simplified] le [unfolded assms(4)] Let_def)
  qed
qed

theorem heap_default_establishes_witness:
  "\<exists>h'. ef2_heap_init_default (\<lambda>start bytes k. k) (\<lambda>k. 0x2000000) 0x100010 () empty_heap = (0, (), h') \<and>
     heap_inv h' 0x100040 [(0x1EFFFB0, False)]"
  using heap_default_establishes [where e = "0x100010" and kend = "0x2000000" and k = "()"
      and end_of_heap = "\<lambda>k. 0x2000000" and setup_heap = "\<lambda>start bytes k. k" and h = empty_heap]
  by simp

end
