(* ===== verification/HeapArena.thy ===== *)
theory HeapArena
  imports HeapSpec
begin

text \<open>
  The allocator as seen by code that also owns memory outside the heap: the managed range
  is fixed and no operation writes outside it.
\<close>

locale arena_allocator = allocator alloc release bytes put rel live
  for alloc :: "'h \<Rightarrow> u32 \<Rightarrow> (u32 \<times> 'h) option"
    and release :: "'h \<Rightarrow> u32 \<Rightarrow> 'h"
    and bytes :: "'h \<Rightarrow> mem"
    and put :: "mem \<Rightarrow> 'h \<Rightarrow> 'h"
    and rel :: "'h \<Rightarrow> 'a \<Rightarrow> bool"
    and live :: "'a \<Rightarrow> (nat \<times> nat) set" +
  fixes arena :: "'h \<Rightarrow> nat set"
  assumes alloc_arena: "rel h a \<Longrightarrow> alloc h n = Some (p, h') \<Longrightarrow> arena h' = arena h"
    and alloc_outside: "rel h a \<Longrightarrow> alloc h n = Some (p, h') \<Longrightarrow> k < 4294967296 \<Longrightarrow>
      k \<notin> arena h \<Longrightarrow> bytes h' (w32 k) = bytes h (w32 k)"
    and release_outside: "rel h a \<Longrightarrow> (unat p, s) \<in> live a \<Longrightarrow> k < 4294967296 \<Longrightarrow>
      k \<notin> arena h \<Longrightarrow> bytes (release h p) (w32 k) = bytes h (w32 k)"
    and put_arena: "arena (put m h) = arena h"
    and live_arena: "rel h a \<Longrightarrow> (b, s) \<in> live a \<Longrightarrow> {b..<b + s} \<subseteq> arena h"
begin

text \<open>
  The buffer a client gets lies in the arena, is not wrapped, and after its release the
  memory outside the arena is what it was.
\<close>

lemma buffer_in_arena:
  assumes "rel h a" "alloc h n = Some (p, h1)" "p \<noteq> 0"
  shows "unat p + unat n < 4294967296 \<and> {unat p..<unat p + unat n} \<subseteq> arena h"
proof -
  obtain a1 s where a1: "rel h1 a1" "unat n \<le> s" "live a1 = insert (unat p, s) (live a)"
    using alloc_some [OF assms] by blast
  then have s: "(unat p, s) \<in> live a1" by simp
  then show ?thesis
    using live_bound [OF a1(1) s] live_arena [OF a1(1) s] alloc_arena [OF assms(1,2)] a1(2) by auto
qed

lemma arena_buffer_outside:
  assumes "rel h a" "alloc h n = Some (p, h1)" "p \<noteq> 0"
    and m: "\<And>k. k < 4294967296 \<Longrightarrow> \<not> (unat p \<le> k \<and> k < unat p + unat n) \<Longrightarrow>
      m (w32 k) = bytes h1 (w32 k)"
    and k: "k < 4294967296" "k \<notin> arena h"
  shows "bytes (release (put m h1) p) (w32 k) = bytes h (w32 k)"
proof -
  obtain a1 s where a1: "rel h1 a1" "unat n \<le> s" "live a1 = insert (unat p, s) (live a)"
    using alloc_some [OF assms(1-3)] by blast
  then have s: "(unat p, s) \<in> live a1" by simp
  have a2: "rel (put m h1) a1" by (rule put_inside [OF a1(1) s]) (use m a1(2) in auto)
  have ar: "arena h1 = arena h" by (rule alloc_arena [OF assms(1,2)])
  then have "\<not> (unat p \<le> k \<and> k < unat p + unat n)"
    using buffer_in_arena [OF assms(1-3)] k by auto
  then show ?thesis
    using release_outside [OF a2 s k(1)] k ar m [OF k(1)] alloc_outside [OF assms(1,2) k]
    by (simp add: put_arena bytes_put)
qed

end

definition heap_arena :: "heap \<Rightarrow> nat set" where
  "heap_arena h = {unat (g_heap_first h)..<unat (g_heap_first h) + (unat (g_heap_total h) + 16)}"

lemma heap_inv_arena:
  assumes "heap_inv h base bs"
  shows "heap_arena h = {base..<base + span bs}" "base + span bs < 4294967296"
proof -
  have "base + span bs < 4294967296" "bs \<noteq> []" using assms by (auto simp: heap_inv_def hlist_def)
  moreover have "16 \<le> span bs" using \<open>bs \<noteq> []\<close> by (cases bs) auto
  ultimately show "heap_arena h = {base..<base + span bs}" "base + span bs < 4294967296"
    using assms by (auto simp: heap_arena_def heap_inv_def unat_w32)
qed

lemma ef2_malloc_outside:
  assumes inv: "heap_inv h base bs" and m: "ef2_malloc h n = Some (p, h')"
    and k: "k < 4294967296" "k \<notin> heap_arena h"
  shows "hmem h' (w32 k) = hmem h (w32 k)"
proof (cases "n \<noteq> 0 \<and> unat n \<le> 4294967280")
  case True
  then have n: "n \<noteq> 0" "unat n \<le> 4294967280" by auto
  show ?thesis
  proof (cases "first_fit (round16 (unat n)) bs")
    case None
    then show ?thesis using malloc_full [OF inv n] m by simp
  next
    case (Some r)
    then obtain xs s ys where ff: "first_fit (round16 (unat n)) bs = Some (xs, s, ys)" by (cases r) auto
    then have bs: "bs = xs @ (s, False) # ys" "round16 (unat n) \<le> s" using first_fit_Some by auto
    let ?bs = "xs @ split_list (round16 (unat n)) s True ys"
    have "span ?bs = span bs" using bs by (auto simp: split_list_def)
    then have "k \<notin> headers base ?bs"
      using headers_range [of base ?bs] k(2) heap_inv_arena(1) [OF inv] by auto
    then show ?thesis
      using malloc_fits [OF inv n ff] m k(1) by (metis Pair_inject option.inject)
  qed
next
  case False
  then have "ef2_malloc h n = Some (0, h)"
    by (auto simp: ef2_malloc_def EF2_HEAP_ALIGNMENT_def word_less_nat_alt)
  then show ?thesis using m by simp
qed

lemma ef2_malloc_arena: "ef2_malloc h n = Some (p, h') \<Longrightarrow> heap_arena h' = heap_arena h"
  by (auto simp: ef2_malloc_def heap_arena_def Let_def split: if_splits option.splits)

lemma ef2_free_outside:
  assumes inv: "heap_inv h base bs" and p: "(p, s) \<in> allocs base bs"
    and k: "k < 4294967296" "k \<notin> heap_arena h"
  shows "hmem (ef2_free h (w32 p)) (w32 k) = hmem h (w32 k)"
proof -
  obtain xs ys where bs: "bs = xs @ (s, True) # ys" "p = base + span xs + 16"
    using allocs_split_free [OF p] by blast
  have "k \<notin> headers base bs" using headers_range [of base bs] k(2) heap_inv_arena(1) [OF inv] by auto
  then show ?thesis using free_refines(2) [OF inv [unfolded bs(1)] k(1)] bs by simp
qed

interpretation heap_arena: arena_allocator ef2_malloc ef2_free hmem heap_put heap_rel heap_live heap_arena
proof unfold_locales
  fix h a n p h'
  assume a: "heap_rel h a" and m: "ef2_malloc h n = Some (p, h')"
  then have inv: "heap_inv h (fst a) (snd a)" by (simp add: heap_rel_def)
  show "heap_arena h' = heap_arena h" by (rule ef2_malloc_arena [OF m])
  show "hmem h' (w32 k) = hmem h (w32 k)" if "k < 4294967296" "k \<notin> heap_arena h" for k
    by (rule ef2_malloc_outside [OF inv m that])
next
  fix h a and p :: u32 and s k
  assume a: "heap_rel h a" "(unat p, s) \<in> heap_live a" and k: "k < 4294967296" "k \<notin> heap_arena h"
  then show "hmem (ef2_free h p) (w32 k) = hmem h (w32 k)"
    using ef2_free_outside [of h "fst a" "snd a" "unat p" s k] by (simp add: heap_rel_def heap_live_def)
next
  show "heap_arena (heap_put m h) = heap_arena h" for m h by (simp add: heap_arena_def heap_put_def)
next
  fix h a b s
  assume "heap_rel h a" "(b, s) \<in> heap_live a"
  then show "{b..<b + s} \<subseteq> heap_arena h"
    using heap_inv_arena(1) [of h "fst a" "snd a"] allocs_range [of b s "fst a" "snd a"]
    by (auto simp: heap_rel_def heap_live_def)
qed

end
