(* ===== verification/LibcMemory.thy ===== *)
theory LibcMemory
  imports ByteMem "HOL-Library.List_Lexorder"
begin

text \<open>
  The memory and string functions of \<open>src/ee/runtime/libc_memory.c\<close> on the byte memory, and
  what they compute on byte lists.  A function that returns its destination returns it
  beside the new memory.  The string loops without a length bound are partial functions:
  \<open>None\<close> would mean that no terminator is ever found.
\<close>

section \<open>The C functions\<close>

definition ef2_memcpy :: "mem \<Rightarrow> u32 \<Rightarrow> u32 \<Rightarrow> u32 \<Rightarrow> u32 \<times> mem" where
  "ef2_memcpy m dst src n = (dst, copy_loop m dst src 0 n)"

definition ef2_memmove :: "mem \<Rightarrow> u32 \<Rightarrow> u32 \<Rightarrow> u32 \<Rightarrow> u32 \<times> mem" where
  "ef2_memmove m dst src n =
    (if dst = src \<or> n = 0 then (dst, m)
     else if dst < src then (dst, copy_loop m dst src 0 n)
     else (dst, copy_loop_down m dst src n))"

definition ef2_memset :: "mem \<Rightarrow> u32 \<Rightarrow> s32 \<Rightarrow> u32 \<Rightarrow> u32 \<times> mem" where
  "ef2_memset m dst v n = (dst, fill_loop m dst (word_of_int v) 0 n)"

function memcmp_loop :: "mem \<Rightarrow> u32 \<Rightarrow> u32 \<Rightarrow> u32 \<Rightarrow> u32 \<Rightarrow> s32" where
  "memcmp_loop m a b i n =
    (if i < n then
       if m (a + i) < m (b + i) then -1
       else if m (a + i) > m (b + i) then 1
       else memcmp_loop m a b (i + 1) n
     else 0)"
  by pat_completeness auto
termination
  by (relation "measure (\<lambda>(m, a, b, i, n). unat (n - i))") (auto simp: u32_countdown_less)

definition ef2_memcmp :: "mem \<Rightarrow> u32 \<Rightarrow> u32 \<Rightarrow> u32 \<Rightarrow> s32" where
  "ef2_memcmp m left right n = memcmp_loop m left right 0 n"

partial_function (option) strlen_loop :: "mem \<Rightarrow> u32 \<Rightarrow> u32 \<Rightarrow> u32 option" where
  "strlen_loop m text n = (if m (text + n) \<noteq> 0 then strlen_loop m text (n + 1) else Some n)"

definition ef2_strlen :: "mem \<Rightarrow> u32 \<Rightarrow> u32 option" where
  "ef2_strlen m text = strlen_loop m text 0"

partial_function (option) strcmp_loop :: "mem \<Rightarrow> u32 \<Rightarrow> u32 \<Rightarrow> u32 \<Rightarrow> s32 option" where
  "strcmp_loop m left right i =
    (let a = m (left + i); b = m (right + i)
     in if a < b then Some (-1)
        else if a > b then Some 1
        else if a = 0 then Some 0
        else strcmp_loop m left right (i + 1))"

definition ef2_strcmp :: "mem \<Rightarrow> u32 \<Rightarrow> u32 \<Rightarrow> s32 option" where
  "ef2_strcmp m left right = strcmp_loop m left right 0"

function strncmp_loop :: "mem \<Rightarrow> u32 \<Rightarrow> u32 \<Rightarrow> u32 \<Rightarrow> u32 \<Rightarrow> s32" where
  "strncmp_loop m left right i n =
    (if i < n then
       let a = m (left + i); b = m (right + i)
       in if a < b then -1
          else if a > b then 1
          else if a = 0 then 0
          else strncmp_loop m left right (i + 1) n
     else 0)"
  by pat_completeness auto
termination
  by (relation "measure (\<lambda>(m, a, b, i, n). unat (n - i))") (auto simp: u32_countdown_less)

definition ef2_strncmp :: "mem \<Rightarrow> u32 \<Rightarrow> u32 \<Rightarrow> u32 \<Rightarrow> s32" where
  "ef2_strncmp m left right n = strncmp_loop m left right 0 n"

text \<open>The loop test of \<open>ef2_strcpy\<close> reads the source after the destination was written.\<close>

partial_function (option) strcpy_loop :: "mem \<Rightarrow> u32 \<Rightarrow> u32 \<Rightarrow> u32 \<Rightarrow> mem option" where
  "strcpy_loop m dst src i =
    (let m' = m(dst + i := m (src + i))
     in if m' (src + i) \<noteq> 0 then strcpy_loop m' dst src (i + 1) else Some m')"

definition ef2_strcpy :: "mem \<Rightarrow> u32 \<Rightarrow> u32 \<Rightarrow> (u32 \<times> mem) option" where
  "ef2_strcpy m dst src = map_option (Pair dst) (strcpy_loop m dst src 0)"

function strncpy_loop :: "mem \<Rightarrow> u32 \<Rightarrow> u32 \<Rightarrow> u32 \<Rightarrow> u32 \<Rightarrow> mem \<times> u32" where
  "strncpy_loop m dst src i n =
    (if i < n \<and> m (src + i) \<noteq> 0
     then strncpy_loop (m(dst + i := m (src + i))) dst src (i + 1) n
     else (m, i))"
  by pat_completeness auto
termination
  by (relation "measure (\<lambda>(m, d, s, i, n). unat (n - i))") (auto simp: u32_countdown_less)

definition ef2_strncpy :: "mem \<Rightarrow> u32 \<Rightarrow> u32 \<Rightarrow> u32 \<Rightarrow> u32 \<times> mem" where
  "ef2_strncpy m dst src n =
    (let (m', i) = strncpy_loop m dst src 0 n in (dst, fill_loop m' dst 0 i n))"

declare memcmp_loop.simps [simp del] strncmp_loop.simps [simp del] strncpy_loop.simps [simp del]

section \<open>The standard names\<close>

definition libc_memcpy :: "mem \<Rightarrow> u32 \<Rightarrow> u32 \<Rightarrow> u32 \<Rightarrow> u32 \<times> mem" where
  "libc_memcpy m dst src n = ef2_memcpy m dst src n"
definition libc_memmove :: "mem \<Rightarrow> u32 \<Rightarrow> u32 \<Rightarrow> u32 \<Rightarrow> u32 \<times> mem" where
  "libc_memmove m dst src n = ef2_memmove m dst src n"
definition libc_memset :: "mem \<Rightarrow> u32 \<Rightarrow> s32 \<Rightarrow> u32 \<Rightarrow> u32 \<times> mem" where
  "libc_memset m dst v n = ef2_memset m dst v n"
definition libc_memcmp :: "mem \<Rightarrow> u32 \<Rightarrow> u32 \<Rightarrow> u32 \<Rightarrow> s32" where
  "libc_memcmp m left right n = ef2_memcmp m left right n"
definition libc_strlen :: "mem \<Rightarrow> u32 \<Rightarrow> u32 option" where
  "libc_strlen m text = ef2_strlen m text"
definition libc_strcmp :: "mem \<Rightarrow> u32 \<Rightarrow> u32 \<Rightarrow> s32 option" where
  "libc_strcmp m left right = ef2_strcmp m left right"
definition libc_strncmp :: "mem \<Rightarrow> u32 \<Rightarrow> u32 \<Rightarrow> u32 \<Rightarrow> s32" where
  "libc_strncmp m left right n = ef2_strncmp m left right n"
definition libc_strcpy :: "mem \<Rightarrow> u32 \<Rightarrow> u32 \<Rightarrow> (u32 \<times> mem) option" where
  "libc_strcpy m dst src = ef2_strcpy m dst src"
definition libc_strncpy :: "mem \<Rightarrow> u32 \<Rightarrow> u32 \<Rightarrow> u32 \<Rightarrow> u32 \<times> mem" where
  "libc_strncpy m dst src n = ef2_strncpy m dst src n"

section \<open>Memory as byte lists\<close>

definition bytes_at :: "mem \<Rightarrow> nat \<Rightarrow> nat \<Rightarrow> u8 list" where
  "bytes_at m p n = map (\<lambda>k. m (w32 (p + k))) [0..<n]"

fun put_bytes :: "mem \<Rightarrow> nat \<Rightarrow> u8 list \<Rightarrow> mem" where
  "put_bytes m p [] = m"
| "put_bytes m p (b # bs) = put_bytes (m(w32 p := b)) (Suc p) bs"

text \<open>A string without its terminator, at an address where it does not wrap.\<close>

fun cstr :: "mem \<Rightarrow> nat \<Rightarrow> u8 list \<Rightarrow> bool" where
  "cstr m p [] \<longleftrightarrow> p < 4294967296 \<and> m (w32 p) = 0"
| "cstr m p (c # cs) \<longleftrightarrow> p < 4294967296 \<and> c \<noteq> 0 \<and> m (w32 p) = c \<and> cstr m (Suc p) cs"

lemma length_bytes_at [simp]: "length (bytes_at m p n) = n"
  by (simp add: bytes_at_def)

lemma nth_bytes_at [simp]: "k < n \<Longrightarrow> bytes_at m p n ! k = m (w32 (p + k))"
  by (simp add: bytes_at_def)

lemma bytes_at_0 [simp]: "bytes_at m p 0 = []"
  by (simp add: bytes_at_def)

lemma bytes_at_Suc: "bytes_at m p (Suc n) = m (w32 p) # bytes_at m (Suc p) n"
  by (rule nth_equalityI) (auto simp: nth_Cons split: nat.splits)

lemma put_bytes_apply:
  "p + length bs \<le> 4294967296 \<Longrightarrow> x < 4294967296 \<Longrightarrow>
   put_bytes m p bs (w32 x) = (if p \<le> x \<and> x < p + length bs then bs ! (x - p) else m (w32 x))"
  by (induction m p bs rule: put_bytes.induct) (auto simp: w32_eq_iff nth_Cons' Suc_diff_le)

lemma put_bytes_eqI:
  assumes "p + length bs \<le> 4294967296"
    and "\<And>x. x < 4294967296 \<Longrightarrow> f (w32 x) = (if p \<le> x \<and> x < p + length bs then bs ! (x - p) else m (w32 x))"
  shows "f = put_bytes m p bs"
proof
  fix y
  show "f y = put_bytes m p bs y"
    using assms(2) [of "unat y"] put_bytes_apply [OF assms(1), of "unat y" m] by simp
qed

lemma put_bytes_append: "put_bytes m p (xs @ ys) = put_bytes (put_bytes m p xs) (p + length xs) ys"
  by (induction xs arbitrary: m p) auto

lemma bytes_at_put:
  "p + length bs \<le> 4294967296 \<Longrightarrow> bytes_at (put_bytes m p bs) p (length bs) = bs"
  by (rule nth_equalityI) (auto simp: put_bytes_apply)

lemma cstr_bound: "cstr m p s \<Longrightarrow> p + length s < 4294967296"
  by (induction m p s rule: cstr.induct) auto

lemma cstr_bytes_at:
  "cstr m p s \<longleftrightarrow> p + length s < 4294967296 \<and> 0 \<notin> set s \<and> bytes_at m p (Suc (length s)) = s @ [0]"
proof (induction m p s rule: cstr.induct)
  case (1 m p)
  then show ?case by (simp add: bytes_at_Suc [of m p 0])
next
  case (2 m p c cs)
  show ?case
    by (auto simp: "2.IH" bytes_at_Suc [of m p "Suc (length cs)"])
qed

lemma cstr_upd: "x < 4294967296 \<Longrightarrow> x < p \<or> p + length s < x \<Longrightarrow>
    cstr (m(w32 x := v)) p s = cstr m p s"
  by (induction s arbitrary: p) (auto simp: w32_eq_iff)

lemma cstr_put_bytes:
  "0 \<notin> set s \<Longrightarrow> p + length s < 4294967296 \<Longrightarrow> cstr (put_bytes m p (s @ [0])) p s"
  using bytes_at_put [of p "s @ [0]" m] by (simp add: cstr_bytes_at)

section \<open>Moving and filling\<close>

lemma range_put:
  assumes "s + n \<le> 4294967296" "d + n \<le> 4294967296" "n < 4294967296"
    and f: "\<And>x. f x = (if x - w32 d < w32 n then m (w32 s + (x - w32 d)) else m x)"
  shows "f = put_bytes m d (bytes_at m s n)"
proof (rule put_bytes_eqI)
  fix x :: nat assume x: "x < 4294967296"
  have "w32 s + (w32 x - w32 d) = w32 (s + (x - d))" if "d \<le> x"
    using that by (simp add: w32_diff w32_add)
  then show "f (w32 x) = (if d \<le> x \<and> x < d + length (bytes_at m s n)
      then bytes_at m s n ! (x - d) else m (w32 x))"
    using f [of "w32 x"] w32_offset_less [of d n x] assms(1-3) x by auto
qed (use assms in simp)

lemma copy_loop_put:
  assumes "s + n \<le> 4294967296" "d + n \<le> 4294967296" "n < 4294967296" "d \<le> s \<or> s + n \<le> d"
  shows "copy_loop m (w32 d) (w32 s) 0 (w32 n) = put_bytes m d (bytes_at m s n)"
proof (cases "n = 0")
  case True
  then show ?thesis by (simp add: copy_loop.simps)
next
  case False
  then have "d < 4294967296" using assms by simp
  then have "w32 d = w32 s \<or> w32 n \<le> w32 d - w32 s"
    using w32_offset_less [of s n d] assms False by (cases "d = s") (auto simp: not_less)
  from copy_loop_apply [OF this, of m 0] show ?thesis
    by (intro range_put [OF assms(1-3)]) simp
qed

lemma copy_loop_down_put:
  assumes "s + n \<le> 4294967296" "d + n \<le> 4294967296" "n < 4294967296" "s \<le> d"
  shows "copy_loop_down m (w32 d) (w32 s) (w32 n) = put_bytes m d (bytes_at m s n)"
proof (cases "n = 0")
  case True
  then show ?thesis by (simp add: copy_loop_down.simps)
next
  case False
  then have "s < 4294967296" using assms by simp
  then have "w32 d = w32 s \<or> w32 n \<le> w32 s - w32 d"
    using w32_offset_less [of d n s] assms False by (cases "d = s") (auto simp: not_less)
  from copy_loop_down_apply [OF this, of m] show ?thesis
    by (rule range_put [OF assms(1-3)])
qed

lemma memcpy_put:
  assumes "s + n \<le> 4294967296" "d + n \<le> 4294967296" "n < 4294967296" "d \<le> s \<or> s + n \<le> d"
  shows "ef2_memcpy m (w32 d) (w32 s) (w32 n) = (w32 d, put_bytes m d (bytes_at m s n))"
  by (simp add: ef2_memcpy_def copy_loop_put [OF assms])

lemma put_bytes_self:
  assumes "d + n \<le> 4294967296" shows "put_bytes m d (bytes_at m d n) = m"
  by (rule put_bytes_eqI [symmetric]) (use assms in auto)

lemma memmove_put:
  assumes "s + n \<le> 4294967296" "d + n \<le> 4294967296" "n < 4294967296"
  shows "ef2_memmove m (w32 d) (w32 s) (w32 n) = (w32 d, put_bytes m d (bytes_at m s n))"
proof (cases "n = 0")
  case True
  then show ?thesis by (simp add: ef2_memmove_def)
next
  case False
  then have b: "d < 4294967296" "s < 4294967296" "w32 n \<noteq> 0" using assms by (auto simp: w32_eq_0_iff)
  then show ?thesis
    using copy_loop_put [OF assms] copy_loop_down_put [OF assms] put_bytes_self [OF assms(2)]
    by (cases d s rule: linorder_cases) (auto simp: ef2_memmove_def w32_eq_iff w32_less_iff)
qed

lemma fill_loop_put:
  assumes "p + n \<le> 4294967296" "n < 4294967296" "i \<le> n"
  shows "fill_loop m (w32 p) byte (w32 i) (w32 n) = put_bytes m (p + i) (replicate (n - i) byte)"
proof (rule put_bytes_eqI)
  fix x :: nat assume x: "x < 4294967296"
  have "w32 x - w32 p < w32 k \<longleftrightarrow> p \<le> x \<and> x < p + k" if "k \<le> n" for k
    using w32_offset_less [of p k x] assms x that by simp
  from this [of i] this [of n] show "fill_loop m (w32 p) byte (w32 i) (w32 n) (w32 x) =
      (if p + i \<le> x \<and> x < p + i + length (replicate (n - i) byte)
       then replicate (n - i) byte ! (x - (p + i)) else m (w32 x))"
    using assms by (auto simp: fill_loop_apply simp flip: not_less)
qed (use assms in simp)

lemma memset_put:
  assumes "p + n \<le> 4294967296" "n < 4294967296"
  shows "ef2_memset m (w32 p) v (w32 n) = (w32 p, put_bytes m p (replicate n (word_of_int v)))"
  using fill_loop_put [OF assms, of 0] by (simp add: ef2_memset_def)

section \<open>Comparing\<close>

text \<open>The sign of the lexicographic comparison of byte lists.\<close>

definition cmp_bytes :: "u8 list \<Rightarrow> u8 list \<Rightarrow> s32" where
  "cmp_bytes s t = (if s < t then -1 else if t < s then 1 else 0)"

lemma cmp_bytes_simps [simp]:
  "cmp_bytes [] [] = 0"
  "cmp_bytes [] (b # t) = -1"
  "cmp_bytes (a # s) [] = 1"
  "cmp_bytes (a # s) (b # t) = (if a < b then -1 else if b < a then 1 else cmp_bytes s t)"
  by (auto simp: cmp_bytes_def)

lemma memcmp_loop_bytes:
  "i \<le> n \<Longrightarrow> n < 4294967296 \<Longrightarrow>
   memcmp_loop m (w32 a) (w32 b) (w32 i) (w32 n) = cmp_bytes (bytes_at m (a + i) (n - i)) (bytes_at m (b + i) (n - i))"
proof (induction "n - i" arbitrary: i)
  case 0
  then show ?case by (simp add: memcmp_loop.simps)
next
  case (Suc k)
  then have e: "n - i = Suc (n - Suc i)" "w32 i < w32 n" "k = n - Suc i" "Suc i \<le> n"
    by (auto simp: w32_less_iff)
  show ?case
    using Suc.hyps(1) [OF e(3,4) Suc.prems(2)]
    by (subst memcmp_loop.simps) (simp add: e(1,2) bytes_at_Suc w32_add w32_add_one)
qed

lemma memcmp_bytes:
  "n < 4294967296 \<Longrightarrow> ef2_memcmp m (w32 a) (w32 b) (w32 n) = cmp_bytes (bytes_at m a n) (bytes_at m b n)"
  using memcmp_loop_bytes [of 0 n] by (simp add: ef2_memcmp_def)

lemma strcmp_loop_bytes:
  "cstr m (a + i) s \<Longrightarrow> cstr m (b + i) t \<Longrightarrow>
   strcmp_loop m (w32 a) (w32 b) (w32 i) = Some (cmp_bytes s t)"
proof (induction s arbitrary: i t)
  case Nil
  then show ?case by (subst strcmp_loop.simps) (cases t; auto simp: w32_add Let_def word_neq_0_conv)
next
  case (Cons c s)
  then show ?case
    by (subst strcmp_loop.simps) (cases t; auto simp: w32_add w32_add_one Let_def word_neq_0_conv)
qed

lemma strcmp_bytes:
  "cstr m a s \<Longrightarrow> cstr m b t \<Longrightarrow> ef2_strcmp m (w32 a) (w32 b) = Some (cmp_bytes s t)"
  using strcmp_loop_bytes [of m a 0] by (simp add: ef2_strcmp_def)

lemma strncmp_loop_bytes:
  "cstr m (a + i) s \<Longrightarrow> cstr m (b + i) t \<Longrightarrow> i \<le> n \<Longrightarrow> n < 4294967296 \<Longrightarrow>
   strncmp_loop m (w32 a) (w32 b) (w32 i) (w32 n) = cmp_bytes (take (n - i) s) (take (n - i) t)"
proof (induction "n - i" arbitrary: i s t)
  case 0
  then show ?case by (simp add: strncmp_loop.simps)
next
  case (Suc k)
  then have e: "n - i = Suc (n - Suc i)" "w32 i < w32 n" "k = n - Suc i" "Suc i \<le> n"
    by (auto simp: w32_less_iff)
  show ?case
    using Suc.prems Suc.hyps(1) [OF e(3) _ _ e(4) Suc.prems(4), of "tl s" "tl t"] e(4)
    by (subst strncmp_loop.simps, cases s; cases t)
      (auto simp: e w32_add w32_add_one Let_def word_neq_0_conv)
qed

lemma strncmp_bytes:
  "cstr m a s \<Longrightarrow> cstr m b t \<Longrightarrow> n < 4294967296 \<Longrightarrow>
   ef2_strncmp m (w32 a) (w32 b) (w32 n) = cmp_bytes (take n s) (take n t)"
  using strncmp_loop_bytes [of m a 0] by (simp add: ef2_strncmp_def)

section \<open>Lengths and copies of strings\<close>

lemma strlen_loop_bytes:
  "cstr m (p + i) s \<Longrightarrow> strlen_loop m (w32 p) (w32 i) = Some (w32 (i + length s))"
  by (induction s arbitrary: i; subst strlen_loop.simps) (auto simp: w32_add w32_add_one)

lemma strlen_bytes: "cstr m p s \<Longrightarrow> ef2_strlen m (w32 p) = Some (w32 (length s))"
  using strlen_loop_bytes [of m p 0] by (simp add: ef2_strlen_def)

lemma strcpy_loop_put:
  "cstr m (s + i) cs \<Longrightarrow> d + i + length cs < 4294967296 \<Longrightarrow>
   d + i + length cs < s + i \<or> s + i + length cs < d + i \<Longrightarrow>
   strcpy_loop m (w32 d) (w32 s) (w32 i) = Some (put_bytes m (d + i) (cs @ [0]))"
proof (induction cs arbitrary: m i)
  case Nil
  then show ?case by (subst strcpy_loop.simps) (auto simp: w32_add Let_def)
next
  case (Cons c cs)
  let ?m = "m(w32 (d + i) := c)"
  have ne: "w32 (s + i) \<noteq> w32 (d + i)" using Cons.prems by (subst w32_eq_iff) auto
  have "cstr ?m (s + Suc i) cs"
    using Cons.prems by (subst cstr_upd) auto
  then have "strcpy_loop ?m (w32 d) (w32 s) (w32 (Suc i)) =
      Some (put_bytes ?m (Suc (d + i)) (cs @ [0]))"
    using Cons.IH [of ?m "Suc i"] Cons.prems(2,3) by (auto simp: fun_upd_def)
  moreover have "m (w32 (s + i)) = c" "c \<noteq> 0" using Cons.prems by auto
  ultimately show ?case
    using ne by (subst strcpy_loop.simps) (simp add: w32_add w32_add_one Let_def)
qed

lemma strcpy_put:
  assumes "cstr m s cs" "d + length cs < 4294967296" "d + length cs < s \<or> s + length cs < d"
  shows "ef2_strcpy m (w32 d) (w32 s) = Some (w32 d, put_bytes m d (cs @ [0]))"
  using strcpy_loop_put [of m s 0 cs d] assms by (simp add: ef2_strcpy_def)

text \<open>\<open>ef2_strncpy\<close> copies at most \<open>n\<close> characters and pads with zero bytes to \<open>n\<close>.\<close>

lemma strncpy_loop_put:
  "cstr m (s + i) cs \<Longrightarrow> i \<le> n \<Longrightarrow> d + n \<le> 4294967296 \<Longrightarrow> n < 4294967296 \<Longrightarrow>
   d + n \<le> s \<or> s + i + length cs < d + i \<Longrightarrow>
   strncpy_loop m (w32 d) (w32 s) (w32 i) (w32 n) =
     (put_bytes m (d + i) (take (n - i) cs), w32 (i + length (take (n - i) cs)))"
proof (induction cs arbitrary: m i)
  case Nil
  then show ?case by (subst strncpy_loop.simps) (simp add: w32_add)
next
  case (Cons c cs)
  show ?case
  proof (cases "i < n")
    case True
    let ?m = "m(w32 (d + i) := c)"
    have e: "n - i = Suc (n - Suc i)" "w32 i < w32 n" using True Cons.prems by (auto simp: w32_less_iff)
    have "cstr ?m (s + Suc i) cs"
      using Cons.prems True by (subst cstr_upd) auto
    then have "strncpy_loop ?m (w32 d) (w32 s) (w32 (Suc i)) (w32 n) =
        (put_bytes ?m (Suc (d + i)) (take (n - Suc i) cs), w32 (Suc i + length (take (n - Suc i) cs)))"
      using Cons.IH [of ?m "Suc i"] Cons.prems(2-5) True by (auto simp: fun_upd_def)
    moreover have "m (w32 (s + i)) = c" "c \<noteq> 0" using Cons.prems by auto
    ultimately show ?thesis
      using e by (subst strncpy_loop.simps) (simp add: w32_add w32_add_one)
  next
    case False
    then have "i = n" using Cons.prems by simp
    then show ?thesis by (subst strncpy_loop.simps) simp
  qed
qed

lemma strncpy_put:
  assumes "cstr m s cs" "d + n \<le> 4294967296" "n < 4294967296" "d + n \<le> s \<or> s + length cs < d"
  shows "ef2_strncpy m (w32 d) (w32 s) (w32 n) =
    (w32 d, put_bytes m d (take n cs @ replicate (n - length cs) 0))"
proof -
  let ?k = "length (take n cs)"
  have "fill_loop (put_bytes m d (take n cs)) (w32 d) 0 (w32 ?k) (w32 n) =
      put_bytes (put_bytes m d (take n cs)) (d + ?k) (replicate (n - ?k) 0)"
    by (rule fill_loop_put [OF assms(2,3)]) simp
  moreover have "n - ?k = n - length cs" by simp
  ultimately show ?thesis
    using strncpy_loop_put [of m s 0 cs n d] assms
    by (simp add: ef2_strncpy_def put_bytes_append del: length_take)
qed

section \<open>Properties\<close>

text \<open>
  C6: Overlapping moves.  For ranges that do not wrap, however they overlap, \<open>ef2_memmove\<close>
  leaves at the destination exactly the bytes the source held before the call and changes
  no other byte; \<open>ef2_memcpy\<close>, which only copies upwards, does the same when the
  destination does not start inside the source range.
\<close>

theorem memmove_exact:
  assumes "s + n \<le> 2 ^ 32" "d + n \<le> 2 ^ 32" "n < 2 ^ 32"
  shows "ef2_memmove m (w32 d) (w32 s) (w32 n) = (w32 d, put_bytes m d (bytes_at m s n)) \<and>
    bytes_at (put_bytes m d (bytes_at m s n)) d n = bytes_at m s n \<and>
    (\<forall>x < 2 ^ 32. \<not> (d \<le> x \<and> x < d + n) \<longrightarrow> put_bytes m d (bytes_at m s n) (w32 x) = m (w32 x)) \<and>
    (d \<le> s \<or> s + n \<le> d \<longrightarrow>
       ef2_memcpy m (w32 d) (w32 s) (w32 n) = ef2_memmove m (w32 d) (w32 s) (w32 n))"
proof -
  have b: "s + n \<le> 4294967296" "d + n \<le> 4294967296" "n < 4294967296" using assms by simp_all
  show ?thesis
    using memmove_put [OF b] memcpy_put [OF b] bytes_at_put [of d "bytes_at m s n" m] b
    by (auto simp: put_bytes_apply)
qed

theorem memmove_exact_witness:
  "\<exists>m'. ef2_memmove (\<lambda>a. ucast a) (w32 102) (w32 100) (w32 8) = (w32 102, m') \<and>
     bytes_at m' 102 8 = map (\<lambda>k. ucast (w32 (100 + k))) [0..<8]"
proof -
  have "bytes_at (\<lambda>a. ucast a) 100 8 = map (\<lambda>k. ucast (w32 (100 + k))) [0..<8]"
    by (simp only: bytes_at_def)
  then show ?thesis
    using memmove_exact [of 100 8 102 "\<lambda>a. ucast a"] by (simp del: upt_rec_numeral)
qed

text \<open>
  C7: String comparison decides the lexicographic order.  On two terminated strings that do
  not wrap, \<open>ef2_strcmp\<close> ends and returns the sign of the lexicographic comparison of their
  characters as unsigned bytes, 0 exactly for equal strings; \<open>ef2_strncmp\<close> does so on the
  first \<open>n\<close> characters and \<open>ef2_memcmp\<close> on raw byte ranges.
\<close>

theorem strcmp_lexicographic:
  assumes "cstr m a s" "cstr m b t" "n < 2 ^ 32"
  shows "ef2_strcmp m (w32 a) (w32 b) = Some (if s < t then -1 else if t < s then 1 else 0) \<and>
    (ef2_strcmp m (w32 a) (w32 b) = Some 0 \<longleftrightarrow> s = t) \<and>
    ef2_strncmp m (w32 a) (w32 b) (w32 n) =
      (if take n s < take n t then -1 else if take n t < take n s then 1 else 0) \<and>
    ef2_memcmp m (w32 a) (w32 b) (w32 n) =
      (if bytes_at m a n < bytes_at m b n then -1
       else if bytes_at m b n < bytes_at m a n then 1 else 0)"
  using strcmp_bytes [OF assms(1,2)] strncmp_bytes [OF assms(1,2)] memcmp_bytes [of n m a b] assms(3)
  by (auto simp: cmp_bytes_def)

definition two_strings :: mem where
  "two_strings = put_bytes (\<lambda>a. 0) 16 [69, 70, 50]"

theorem strcmp_lexicographic_witness:
  "ef2_strcmp two_strings (w32 16) (w32 17) = Some (-1) \<and>
   ef2_strncmp two_strings (w32 17) (w32 17) (w32 5) = 0"
proof -
  have c: "cstr two_strings 16 [69, 70, 50]" "cstr two_strings 17 [70, 50]"
    by (simp_all add: two_strings_def w32_eq_iff)
  from strcmp_lexicographic [OF c, of 0] strcmp_lexicographic [OF c(2) c(2), of 5]
  show ?thesis by simp
qed

text \<open>
  String copies.  \<open>ef2_strcpy\<close> of a terminated string to a range that does not overlap it
  ends with the string and its terminator at the destination, readable back with
  \<open>ef2_strlen\<close>, and no other byte changed; \<open>ef2_strncpy\<close> writes exactly \<open>n\<close> bytes, the first
  \<open>n\<close> characters padded with zeros, and so leaves no terminator when the string has \<open>n\<close>
  characters or more.
\<close>

theorem strcpy_roundtrip:
  assumes "cstr m s cs" "d + length cs < 2 ^ 32" "d + length cs < s \<or> s + length cs < d"
    and "e + n \<le> 2 ^ 32" "n < 2 ^ 32" "e + n \<le> s \<or> s + length cs < e"
  shows "ef2_strcpy m (w32 d) (w32 s) = Some (w32 d, put_bytes m d (cs @ [0])) \<and>
    cstr (put_bytes m d (cs @ [0])) d cs \<and>
    ef2_strlen (put_bytes m d (cs @ [0])) (w32 d) = Some (w32 (length cs)) \<and>
    ef2_strncpy m (w32 e) (w32 s) (w32 n) =
      (w32 e, put_bytes m e (take n cs @ replicate (n - length cs) 0))"
proof -
  have "cstr (put_bytes m d (cs @ [0])) d cs"
    by (rule cstr_put_bytes) (use assms in \<open>auto simp: cstr_bytes_at\<close>)
  then show ?thesis
    using assms strcpy_put [OF assms(1)] strncpy_put [OF assms(1)] strlen_bytes by auto
qed

theorem strcpy_roundtrip_witness:
  "\<exists>m'. ef2_strcpy two_strings (w32 100) (w32 16) = Some (w32 100, m') \<and>
     ef2_strlen m' (w32 100) = Some 3 \<and>
     ef2_strncpy two_strings (w32 200) (w32 16) (w32 2) = (w32 200, put_bytes two_strings 200 [69, 70])"
proof -
  have c: "cstr two_strings 16 [69, 70, 50]" by (simp add: two_strings_def w32_eq_iff)
  have "w32 (Suc (Suc (Suc 0))) = 3" using w32_numeral [of "num.Bit1 num.One"] by (simp add: numeral_3_eq_3)
  then show ?thesis
    using strcpy_roundtrip [OF c, of 100 200 2] by (simp add: w32_numeral)
qed

end
