(* ===== verification/LibcFormat.thy ===== *)
theory LibcFormat
  imports LibcMemory "HOL-Library.Monad_Syntax"
begin

text \<open>
  The formatted output engine of \<open>src/ee/runtime/libc_format.c\<close>: \<open>ef2_vsnprintf\<close> over the
  byte memory, with the format and the string arguments read through pointers while the
  buffer is written.

  A \<open>va_list\<close> is the list of the remaining 64-bit argument slots of the n32 calling
  convention: an argument narrower than 64 bits is the low part of its slot, and reading
  past the last argument, which C leaves undefined, is \<open>None\<close>.  \<open>None\<close> is also the value of
  a scan for a terminator that is never found.
\<close>

abbreviation ch :: "char \<Rightarrow> u8" where "ch c \<equiv> of_char c"

definition chars :: "string \<Rightarrow> u8 list" where "chars s = map of_char s"

section \<open>Output with a bounded buffer\<close>

record format_output =
  fo_buffer :: u32
  fo_size :: u32
  fo_count :: u32

type_synonym out_state = "mem \<times> format_output"

definition format_putc :: "out_state \<Rightarrow> u8 \<Rightarrow> out_state" where
  "format_putc st c = (case st of (m, out) \<Rightarrow>
    (if fo_buffer out \<noteq> 0 \<and> fo_size out \<noteq> 0 \<and> fo_count out + 1 < fo_size out
     then m(fo_buffer out + fo_count out := c) else m,
     out\<lparr>fo_count := fo_count out + 1\<rparr>))"

function format_repeat :: "out_state \<Rightarrow> u8 \<Rightarrow> u32 \<Rightarrow> out_state" where
  "format_repeat st c n =
    (if n \<noteq> 0 then format_repeat (format_putc st c) c (n - 1) else st)"
  by pat_completeness auto
termination
  by (relation "measure (\<lambda>(st, c, n). unat n)") (auto simp: u32_pred_less)

declare format_repeat.simps [simp del]

text \<open>The loops that put the characters of a local array or a literal, in order.\<close>

definition format_puts :: "out_state \<Rightarrow> u8 list \<Rightarrow> out_state" where
  "format_puts st cs = foldl format_putc st cs"

section \<open>Digits\<close>

definition lower_table :: "u8 list" where "lower_table = chars ''0123456789abcdef''"
definition upper_table :: "u8 list" where "upper_table = chars ''0123456789ABCDEF''"

definition decimal_places :: "u64 list" where
  "decimal_places = [10000000000000000000, 1000000000000000000, 100000000000000000,
     10000000000000000, 1000000000000000, 100000000000000, 10000000000000, 1000000000000,
     100000000000, 10000000000, 1000000000, 100000000, 10000000, 1000000, 100000, 10000,
     1000, 100, 10, 1]"

text \<open>\<open>digits[count++] = ...\<close> appends to the list of the digits written so far.\<close>

function hex_digits_loop ::
  "u64 \<Rightarrow> u8 list \<Rightarrow> int \<Rightarrow> bool \<Rightarrow> u8 list \<Rightarrow> u8 list" where
  "hex_digits_loop v table shift started digits =
    (if shift \<ge> 0 then
       let digit = ucast (drop_bit (nat shift) v AND 0x0F) :: u32
       in if digit \<noteq> 0 \<or> started \<or> shift = 0
          then hex_digits_loop v table (shift - 4) True (digits @ [table ! unat digit])
          else hex_digits_loop v table (shift - 4) started digits
     else digits)"
  by pat_completeness auto
termination
  by (relation "measure (\<lambda>(v, t, shift, s, d). nat (shift + 4))") auto

declare hex_digits_loop.simps [simp del]

partial_function (option) subtract_place :: "u64 \<Rightarrow> u64 \<Rightarrow> u32 \<Rightarrow> (u64 \<times> u32) option" where
  "subtract_place v place digit =
    (if v \<ge> place then subtract_place (v - place) place (digit + 1) else Some (v, digit))"

fun decimal_digits_loop ::
  "u64 \<Rightarrow> u8 list \<Rightarrow> u64 list \<Rightarrow> bool \<Rightarrow> u8 list \<Rightarrow> u8 list option" where
  "decimal_digits_loop v table [] started digits = Some digits"
| "decimal_digits_loop v table (place # places) started digits =
    do { (v', digit) \<leftarrow> subtract_place v place 0;
         if digit \<noteq> 0 \<or> started \<or> places = []
         then decimal_digits_loop v' table places True (digits @ [table ! unat digit])
         else decimal_digits_loop v' table places started digits }"

definition format_unsigned_digits :: "u64 \<Rightarrow> u32 \<Rightarrow> bool \<Rightarrow> u8 list option" where
  "format_unsigned_digits v base upper =
    (let table = (if upper then upper_table else lower_table)
     in if base = 16 then Some (hex_digits_loop v table 60 False [])
        else decimal_digits_loop v table decimal_places False [])"

section \<open>Fields\<close>

definition format_unsigned ::
  "out_state \<Rightarrow> u64 \<Rightarrow> u32 \<Rightarrow> bool \<Rightarrow> u32 \<Rightarrow> u8 \<Rightarrow> u8 list \<Rightarrow> out_state option" where
  "format_unsigned st v base upper width pad prefix =
    do { digits \<leftarrow> format_unsigned_digits v base upper;
         let field_size = w32 (length digits) + w32 (length prefix);
             padding = (if width > field_size then width - field_size else 0);
             st' = (if pad = ch CHR ''0''
                    then format_repeat (format_puts st prefix) (ch CHR ''0'') padding
                    else format_puts (format_repeat st (ch CHR '' '') padding) prefix)
         in Some (format_puts st' digits) }"

datatype format_length =
    EF2_FORMAT_DEFAULT | EF2_FORMAT_LONG | EF2_FORMAT_LONG_LONG | EF2_FORMAT_SIZE

type_synonym va_list = "u64 list"

fun va_arg :: "va_list \<Rightarrow> (u64 \<times> va_list) option" where
  "va_arg [] = None"
| "va_arg (a # args) = Some (a, args)"

text \<open>\<open>int\<close>, \<open>long\<close>, \<open>size_t\<close> and pointers are 32-bit parts of a slot.\<close>

definition format_unsigned_arg :: "va_list \<Rightarrow> format_length \<Rightarrow> (u64 \<times> va_list) option" where
  "format_unsigned_arg args len =
    do { (a, args') \<leftarrow> va_arg args;
         Some (if len = EF2_FORMAT_LONG_LONG then a else ucast (ucast a :: u32), args') }"

definition format_signed_arg :: "va_list \<Rightarrow> format_length \<Rightarrow> (u64 \<times> va_list) option" where
  "format_signed_arg args len =
    do { (a, args') \<leftarrow> va_arg args;
         Some (if len = EF2_FORMAT_LONG_LONG then a else scast (ucast a :: u32), args') }"

definition format_signed :: "out_state \<Rightarrow> u64 \<Rightarrow> u32 \<Rightarrow> u8 \<Rightarrow> out_state option" where
  "format_signed st v width pad =
    (if v <s 0
     then format_unsigned st (- (v + 1) + 1) 10 False width pad (chars ''-'')
     else format_unsigned st v 10 False width pad [])"

text \<open>The characters of the text are read one by one while the buffer is written.\<close>

function put_text :: "out_state \<Rightarrow> u32 \<Rightarrow> u32 \<Rightarrow> u32 \<Rightarrow> out_state" where
  "put_text st text i len =
    (if i < len then put_text (format_putc st (fst st (text + i))) text (i + 1) len else st)"
  by pat_completeness auto
termination
  by (relation "measure (\<lambda>(st, t, i, n). unat (n - i))") (auto simp: u32_countdown_less)

declare put_text.simps [simp del]

text \<open>The substitute \<open>"(null)"\<close> for a null pointer is a literal of the program.\<close>

definition format_string :: "out_state \<Rightarrow> u32 \<Rightarrow> u32 \<Rightarrow> out_state option" where
  "format_string st text width =
    (if text = 0 then
       let st' = (if width > 6 then format_repeat st (ch CHR '' '') (width - 6) else st)
       in Some (format_puts st' (chars ''(null)''))
     else
       do { len \<leftarrow> strlen_loop (fst st) text 0;
            let st' = (if width > len then format_repeat st (ch CHR '' '') (width - len) else st)
            in Some (put_text st' text 0 len) })"

section \<open>The format interpreter\<close>

definition parse_pad :: "mem \<Rightarrow> u32 \<Rightarrow> u8 \<times> u32" where
  "parse_pad m format =
    (if m format = ch CHR ''0'' then (ch CHR ''0'', format + 1) else (ch CHR '' '', format))"

partial_function (option) parse_width :: "mem \<Rightarrow> u32 \<Rightarrow> u32 \<Rightarrow> (u32 \<times> u32) option" where
  "parse_width m format width =
    (if m format \<ge> ch CHR ''0'' \<and> m format \<le> ch CHR ''9''
     then parse_width m (format + 1)
            (if width < 100000
             then push_bit 3 width + push_bit 1 width + ucast (m format - ch CHR ''0'')
             else width)
     else Some (width, format))"

definition parse_length :: "mem \<Rightarrow> u32 \<Rightarrow> format_length \<times> u32" where
  "parse_length m format =
    (if m format = ch CHR ''l'' then
       if m (format + 1) = ch CHR ''l'' then (EF2_FORMAT_LONG_LONG, format + 2)
       else (EF2_FORMAT_LONG, format + 1)
     else if m format = ch CHR ''z'' then (EF2_FORMAT_SIZE, format + 1)
     else (EF2_FORMAT_DEFAULT, format))"

definition format_conversion ::
  "out_state \<Rightarrow> u8 \<Rightarrow> format_length \<Rightarrow> u32 \<Rightarrow> u8 \<Rightarrow> va_list \<Rightarrow> (out_state \<times> va_list) option" where
  "format_conversion st specifier len width pad args =
    (if specifier = ch CHR ''c'' then
       do { (a, args') \<leftarrow> va_arg args;
            let st' = (if width > 1 then format_repeat st (ch CHR '' '') (width - 1) else st)
            in Some (format_putc st' (ucast a), args') }
     else if specifier = ch CHR ''s'' then
       do { (a, args') \<leftarrow> va_arg args;
            st' \<leftarrow> format_string st (ucast a) width;
            Some (st', args') }
     else if specifier = ch CHR ''d'' \<or> specifier = ch CHR ''i'' then
       do { (a, args') \<leftarrow> format_signed_arg args len;
            st' \<leftarrow> format_signed st a width pad;
            Some (st', args') }
     else if specifier = ch CHR ''u'' then
       do { (a, args') \<leftarrow> format_unsigned_arg args len;
            st' \<leftarrow> format_unsigned st a 10 False width pad [];
            Some (st', args') }
     else if specifier = ch CHR ''x'' \<or> specifier = ch CHR ''X'' then
       do { (a, args') \<leftarrow> format_unsigned_arg args len;
            st' \<leftarrow> format_unsigned st a 16 (specifier = ch CHR ''X'') width pad [];
            Some (st', args') }
     else if specifier = ch CHR ''p'' then
       do { (a, args') \<leftarrow> va_arg args;
            st' \<leftarrow> format_unsigned st (ucast (ucast a :: u32)) 16 False width pad (chars ''0x'');
            Some (st', args') }
     else Some (format_putc (format_putc st (ch CHR ''%'')) specifier, args))"

partial_function (option) vsnprintf_loop :: "out_state \<Rightarrow> u32 \<Rightarrow> va_list \<Rightarrow> out_state option" where
  "vsnprintf_loop st format args =
    (let m = fst st in
     if m format = 0 then Some st
     else if m format \<noteq> ch CHR ''%''
     then vsnprintf_loop (format_putc st (m format)) (format + 1) args
     else if m (format + 1) = ch CHR ''%''
     then vsnprintf_loop (format_putc st (ch CHR ''%'')) (format + 2) args
     else
       let (pad, f1) = parse_pad m (format + 1) in
       do { (width, f2) \<leftarrow> parse_width m f1 0;
            let (len, f3) = parse_length m f2;
            if m f3 = 0 then Some (format_putc st (ch CHR ''%''))
            else
              do { (st', args') \<leftarrow> format_conversion st (m f3) len width pad args;
                   vsnprintf_loop st' (f3 + 1) args' } })"

definition ef2_vsnprintf :: "mem \<Rightarrow> u32 \<Rightarrow> u32 \<Rightarrow> u32 \<Rightarrow> va_list \<Rightarrow> (s32 \<times> mem) option" where
  "ef2_vsnprintf m buffer bytes format args =
    do { (m', out) \<leftarrow> vsnprintf_loop (m, \<lparr>fo_buffer = buffer, fo_size = bytes, fo_count = 0\<rparr>) format args;
         let m'' = (if fo_buffer out \<noteq> 0 \<and> fo_size out \<noteq> 0
                    then m'(fo_buffer out + (if fo_count out < fo_size out
                              then fo_count out else fo_size out - 1) := 0)
                    else m')
         in Some (if fo_count out > 0x7FFFFFFF then 0x7FFFFFFF else int (unat (fo_count out)), m'') }"

definition ef2_snprintf :: "mem \<Rightarrow> u32 \<Rightarrow> u32 \<Rightarrow> u32 \<Rightarrow> va_list \<Rightarrow> (s32 \<times> mem) option" where
  "ef2_snprintf m buffer bytes format args = ef2_vsnprintf m buffer bytes format args"

definition libc_vsnprintf :: "mem \<Rightarrow> u32 \<Rightarrow> u32 \<Rightarrow> u32 \<Rightarrow> va_list \<Rightarrow> (s32 \<times> mem) option" where
  "libc_vsnprintf m buffer bytes format args = ef2_vsnprintf m buffer bytes format args"

definition libc_snprintf :: "mem \<Rightarrow> u32 \<Rightarrow> u32 \<Rightarrow> u32 \<Rightarrow> va_list \<Rightarrow> (s32 \<times> mem) option" where
  "libc_snprintf m buffer bytes format args = ef2_vsnprintf m buffer bytes format args"

end
