(* ===== verification/FormatSpec.thy ===== *)
theory FormatSpec
  imports LibcFormat
begin

text \<open>
  What \<open>ef2_vsnprintf\<close> promises: the text of a format as a function of byte lists and
  integers, the digit generators against positional notation, and the refinement of that
  function by the pointer code.
\<close>

section \<open>Positional digits\<close>

text \<open>The digits of a number in a base, most significant first, without leading zeros.\<close>

function digits_in :: "nat \<Rightarrow> u8 list \<Rightarrow> nat \<Rightarrow> u8 list" where
  "digits_in b t n =
    (if n < b \<or> b \<le> 1 then [t ! n] else digits_in b t (n div b) @ [t ! (n mod b)])"
  by pat_completeness auto
termination
  by (relation "measure (\<lambda>(b, t, n). n)") auto

declare digits_in.simps [simp del]

text \<open>The lowest \<open>k\<close> digits, leading zeros included.\<close>

fun tail_digits :: "nat \<Rightarrow> u8 list \<Rightarrow> nat \<Rightarrow> nat \<Rightarrow> u8 list" where
  "tail_digits b t 0 n = []"
| "tail_digits b t (Suc k) n = t ! (n div b ^ k mod b) # tail_digits b t k n"

lemma tail_digits_last:
  "tail_digits b t (Suc k) n = tail_digits b t k (n div b) @ [t ! (n mod b)]"
  by (induction k) (simp_all add: div_mult2_eq)

lemma digits_in_tail:
  "2 \<le> b \<Longrightarrow> b ^ k \<le> n \<Longrightarrow> n < b ^ Suc k \<Longrightarrow> digits_in b t n = tail_digits b t (Suc k) n"
proof (induction k arbitrary: n)
  case 0
  then show ?case by (subst digits_in.simps) simp
next
  case (Suc k)
  have "b ^ 1 \<le> b ^ Suc k" by (rule power_increasing) (use Suc.prems in auto)
  then have "b \<le> n" using Suc.prems(2) by (metis le_trans power_one_right)
  then have "\<not> (n < b \<or> b \<le> 1)" using Suc.prems(1) by auto
  moreover have "b ^ k \<le> n div b" "n div b < b ^ Suc k"
    using Suc.prems by (auto simp: less_mult_imp_div_less div_le_mono mult.commute less_eq_div_iff_mult_less_eq)
  ultimately show ?case
    using Suc.IH [of "n div b"] Suc.prems(1)
    by (subst digits_in.simps) (simp only: if_False tail_digits_last [of b t "Suc k"])
qed

lemma tail_digits_mod: "2 \<le> b \<Longrightarrow> k \<le> l \<Longrightarrow> tail_digits b t k (n mod b ^ l) = tail_digits b t k n"
proof (induction k)
  case (Suc k)
  have "n mod b ^ l div b ^ k mod b = n div b ^ k mod b"
  proof -
    have l: "l = k + Suc (l - Suc k)" using Suc.prems by simp
    have "n mod b ^ l = n mod (b ^ k * b ^ Suc (l - Suc k))"
      by (metis l power_add)
    then have "n mod b ^ l div b ^ k = n div b ^ k mod b ^ Suc (l - Suc k)"
      using Suc.prems by (simp add: mod_mult2_eq)
    then show ?thesis by (simp add: mod_mod_cancel)
  qed
  then show ?case using Suc by simp
qed simp

text \<open>Reading the digits back gives the number.\<close>

definition read_digits :: "nat \<Rightarrow> nat list \<Rightarrow> nat" where
  "read_digits b ds = foldl (\<lambda>a d. a * b + d) 0 ds"

lemma digits_in_read:
  "2 \<le> b \<Longrightarrow> b \<le> length t \<Longrightarrow> distinct t \<Longrightarrow>
   \<exists>ds. digits_in b t n = map ((!) t) ds \<and> (\<forall>d \<in> set ds. d < b) \<and> read_digits b ds = n \<and>
     ds \<noteq> [] \<and> (hd ds = 0 \<longrightarrow> ds = [0])"
proof (induction b t n rule: digits_in.induct)
  case (1 b t n)
  show ?case
  proof (cases "n < b")
    case True
    then show ?thesis
      by (intro exI [of _ "[n]"]) (auto simp: digits_in.simps [of b t n] read_digits_def)
  next
    case False
    then obtain ds where ds: "digits_in b t (n div b) = map ((!) t) ds" "\<forall>d \<in> set ds. d < b"
      "read_digits b ds = n div b" "ds \<noteq> []" "hd ds = 0 \<longrightarrow> ds = [0]"
      using 1 by auto
    have "n div b \<noteq> 0" using False 1 by (simp add: div_eq_0_iff)
    then have "hd ds \<noteq> 0" using ds(3,5) by (auto simp: read_digits_def)
    then show ?thesis using False ds 1
      by (intro exI [of _ "ds @ [n mod b]"])
        (auto simp: digits_in.simps [of b t n] read_digits_def)
  qed
qed

section \<open>The digit loops\<close>

lemma unat_hex_digit:
  "unat (ucast (drop_bit k (v :: u64) AND 0x0F) :: u32) = unat v div 2 ^ k mod 16"
proof -
  have m: "(0x0F :: u64) = mask 4" by (simp add: mask_eq_exp_minus_1)
  have "unat (drop_bit k v AND mask 4) = unat v div 2 ^ k mod 16"
    by (simp only: unat_and_mask unat_drop_bit_eq) (simp add: drop_bit_eq_div)
  moreover have "unat v div 2 ^ k mod 16 < 16" by simp
  ultimately show ?thesis unfolding m by (simp add: unsigned_ucast_eq take_bit_eq_mod)
qed

lemma hex_power: "(2::nat) ^ nat (4 * int k) = 16 ^ k"
proof -
  have "nat (4 * int k) = 4 * k" by simp
  then show ?thesis by (simp only: power_mult) simp
qed

lemma hex_loop_started:
  "hex_digits_loop v t (4 * int k) True ds = ds @ tail_digits 16 t (Suc k) (unat v)"
proof (induction k arbitrary: ds)
  case 0
  then show ?case
    by (simp add: hex_digits_loop.simps unat_hex_digit [of 0, simplified])
next
  case (Suc k)
  note p = hex_power [of "Suc k"]
  have s: "4 * int (Suc k) - 4 = 4 * int k" by simp
  show ?case
    by (subst hex_digits_loop.simps) (simp only: Let_def unat_hex_digit p s Suc.IH, simp)
qed

lemma hex_loop_digits:
  "unat v < 16 ^ Suc k \<Longrightarrow> hex_digits_loop v t (4 * int k) False [] = digits_in 16 t (unat v)"
proof (induction k)
  case 0
  then show ?case
    by (simp add: hex_digits_loop.simps digits_in.simps [of 16 t "unat v"] unat_hex_digit [of 0, simplified])
next
  case (Suc k)
  let ?d = "ucast (drop_bit (nat (4 * int (Suc k))) v AND 0x0F) :: u32"
  note p = hex_power [of "Suc k"]
  have s: "4 * int (Suc k) - 4 = 4 * int k" by simp
  have d: "unat ?d = unat v div 16 ^ Suc k"
    using Suc.prems by (simp only: unat_hex_digit p) (simp add: less_mult_imp_div_less)
  have step: "hex_digits_loop v t (4 * int (Suc k)) False [] =
    (if ?d \<noteq> 0 then hex_digits_loop v t (4 * int k) True [t ! unat ?d]
     else hex_digits_loop v t (4 * int k) False [])"
    by (subst hex_digits_loop.simps) (simp add: s Let_def)
  show ?case
  proof (cases "?d = 0")
    case True
    then have "unat v div 16 ^ Suc k = 0" using d by simp
    then have "unat v < 16 ^ Suc k" by (simp add: div_eq_0_iff)
    then show ?thesis using True Suc.IH step by simp
  next
    case False
    then have "unat v div 16 ^ Suc k \<noteq> 0" using d by (metis unat_eq_zero)
    then have "16 ^ Suc k \<le> unat v" by (simp add: div_eq_0_iff not_less)
    then show ?thesis
      using False step digits_in_tail [of 16 "Suc k" "unat v" t] Suc.prems d
      by (simp add: hex_loop_started less_mult_imp_div_less)
  qed
qed

lemma hex_digits: "hex_digits_loop v t 60 False [] = digits_in 16 t (unat v)"
  using hex_loop_digits [of v 15 t] unsigned_less [of v] by simp

lemma subtract_place_spec:
  "p \<noteq> 0 \<Longrightarrow> subtract_place v p d = Some (v mod p, d + w32 (unat v div unat p))"
proof (induction "unat v" arbitrary: v d rule: less_induct)
  case less
  have p0: "unat p \<noteq> 0" using less.prems by (simp add: unat_eq_zero)
  show ?case
  proof (cases "v \<ge> p")
    case True
    then have u: "unat (v - p) = unat v - unat p" "unat p \<le> unat v"
      by (simp_all add: unat_sub word_le_nat_alt)
    have m: "(v - p) mod p = v mod p"
      using u by (simp add: word_unat_eq_iff unat_mod le_mod_geq)
    have q: "unat v div unat p = Suc ((unat v - unat p) div unat p)"
      using u p0 by (simp add: le_div_geq)
    have "unat (v - p) < unat v" using u p0 by simp
    from less.hyps [OF this less.prems] show ?thesis
      using True by (subst subtract_place.simps) (simp add: m u q w32_def)
  next
    case False
    then have "unat v < unat p" by (simp add: word_le_nat_alt)
    then show ?thesis
      using False by (subst subtract_place.simps) (simp add: word_unat_eq_iff unat_mod)
  qed
qed

fun places :: "nat \<Rightarrow> u64 list" where
  "places 0 = []"
| "places (Suc k) = 10 ^ k # places k"

lemma decimal_places_eq: "decimal_places = places (Suc 19)"
  by (simp add: decimal_places_def eval_nat_numeral)

lemma unat_power10: "k < 20 \<Longrightarrow> unat (10 ^ k :: u64) = 10 ^ k"
proof -
  assume "k < 20"
  then have "(10::nat) ^ k \<le> 10 ^ 19" by (intro power_increasing) auto
  also have "\<dots> < 2 ^ LENGTH(64)" by simp
  finally have "(10::nat) ^ k mod 2 ^ LENGTH(64) = 10 ^ k" by (rule mod_less)
  then have "unat (of_nat (10 ^ k) :: u64) = 10 ^ k" by (simp only: unat_of_nat)
  then show ?thesis by simp
qed

lemma places_nonzero: "k < 20 \<Longrightarrow> (10 ^ k :: u64) \<noteq> 0"
  by (metis unat_power10 unat_0 power_not_zero zero_neq_numeral)

lemma decimal_loop_started:
  "k \<le> 20 \<Longrightarrow> unat v < 10 ^ k \<Longrightarrow>
   decimal_digits_loop v t (places k) True ds = Some (ds @ tail_digits 10 t k (unat v))"
proof (induction k arbitrary: v ds)
  case (Suc k)
  have u: "unat (10 ^ k :: u64) = 10 ^ k" "(10 ^ k :: u64) \<noteq> 0"
    using Suc.prems unat_power10 places_nonzero by auto
  have q: "unat v div 10 ^ k < 10" using Suc.prems by (simp add: less_mult_imp_div_less)
  have m: "unat (v mod 10 ^ k) = unat v mod 10 ^ k" by (simp add: unat_mod u)
  show ?case
    using Suc.IH [of "v mod 10 ^ k"] Suc.prems q
    by (simp add: subtract_place_spec [OF u(2)] u m unat_w32 tail_digits_mod)
qed simp

lemma decimal_loop_digits:
  "k < 20 \<Longrightarrow> unat v < 10 ^ Suc k \<Longrightarrow>
   decimal_digits_loop v t (places (Suc k)) False [] = Some (digits_in 10 t (unat v))"
proof (induction k arbitrary: v)
  case 0
  then show ?case
    using subtract_place_spec [of 1 v 0]
    by (simp add: digits_in.simps [of 10 t "unat v"] unat_w32)
next
  case (Suc k)
  let ?p = "10 ^ Suc k :: u64" and ?d = "unat v div 10 ^ Suc k"
  have u: "unat ?p = 10 ^ Suc k" "?p \<noteq> 0"
    using Suc.prems unat_power10 [of "Suc k"] places_nonzero [of "Suc k"] by auto
  have q: "?d < 10" using Suc.prems by (simp add: less_mult_imp_div_less)
  have m: "unat (v mod ?p) = unat v mod 10 ^ Suc k" by (simp only: unat_mod u)
  have step: "decimal_digits_loop v t (places (Suc (Suc k))) False [] =
    (if ?d \<noteq> 0 then decimal_digits_loop (v mod ?p) t (places (Suc k)) True [t ! ?d]
     else decimal_digits_loop (v mod ?p) t (places (Suc k)) False [])"
    using q by (simp only: places.simps(2) [of "Suc k"] decimal_digits_loop.simps(2)
        subtract_place_spec [OF u(2)] u) (simp add: unat_w32 w32_eq_0_iff)
  show ?case
  proof (cases "?d = 0")
    case True
    then have "unat v < 10 ^ Suc k" by (simp add: div_eq_0_iff)
    then have "v mod ?p = v" using u by (simp add: word_unat_eq_iff unat_mod)
    then show ?thesis using True Suc.IH [of v] \<open>unat v < 10 ^ Suc k\<close> Suc.prems step by simp
  next
    case False
    then have "10 ^ Suc k \<le> unat v" by (simp add: div_eq_0_iff not_less)
    moreover have "decimal_digits_loop (v mod ?p) t (places (Suc k)) True [t ! ?d] =
        Some ([t ! ?d] @ tail_digits 10 t (Suc k) (unat v))"
      using decimal_loop_started [of "Suc k" "v mod ?p" t "[t ! ?d]"] Suc.prems(1) m
        tail_digits_mod [of 10 "Suc k" "Suc k" t "unat v"] by simp
    ultimately show ?thesis
      using False step digits_in_tail [of 10 "Suc k" "unat v" t] Suc.prems(2) q by simp
  qed
qed

lemma decimal_digits: "decimal_digits_loop v t decimal_places False [] = Some (digits_in 10 t (unat v))"
proof -
  have "unat v < 2 ^ LENGTH(64)" by (rule unsigned_less)
  then have "unat v < 10 ^ Suc 19" by simp
  then show ?thesis using decimal_loop_digits [of 19 v t] by (simp only: decimal_places_eq)
qed

text \<open>The digit generator in one equation.\<close>

lemma format_unsigned_digits_spec:
  "format_unsigned_digits v base upper =
    Some (digits_in (if base = 16 then 16 else 10) (if upper then upper_table else lower_table) (unat v))"
  by (simp add: format_unsigned_digits_def hex_digits decimal_digits)

section \<open>The text of a format\<close>

definition pad_field :: "nat \<Rightarrow> u8 \<Rightarrow> u8 list \<Rightarrow> u8 list \<Rightarrow> u8 list" where
  "pad_field width pad prefix ds =
    (let fill = width - (length prefix + length ds)
     in if pad = ch CHR ''0'' then prefix @ replicate fill (ch CHR ''0'') @ ds
        else replicate fill (ch CHR '' '') @ prefix @ ds)"

definition unsigned_value :: "format_length \<Rightarrow> u64 \<Rightarrow> nat" where
  "unsigned_value len a = (if len = EF2_FORMAT_LONG_LONG then unat a else unat a mod 2 ^ 32)"

definition signed_value :: "format_length \<Rightarrow> u64 \<Rightarrow> int" where
  "signed_value len a = (if len = EF2_FORMAT_LONG_LONG then sint a else sint (ucast a :: u32))"

definition signed_field :: "nat \<Rightarrow> u8 \<Rightarrow> int \<Rightarrow> u8 list" where
  "signed_field width pad i =
    pad_field width pad (if i < 0 then chars ''-'' else []) (digits_in 10 lower_table (nat \<bar>i\<bar>))"

fun spec_pad :: "u8 list \<Rightarrow> u8 \<times> u8 list" where
  "spec_pad (c # cs) = (if c = ch CHR ''0'' then (c, cs) else (ch CHR '' '', c # cs))"
| "spec_pad [] = (ch CHR '' '', [])"

fun spec_width :: "nat \<Rightarrow> u8 list \<Rightarrow> nat \<times> u8 list" where
  "spec_width w (c # cs) =
    (if ch CHR ''0'' \<le> c \<and> c \<le> ch CHR ''9''
     then spec_width (if w < 100000 then 10 * w + (unat c - 48) else w) cs
     else (w, c # cs))"
| "spec_width w [] = (w, [])"

fun spec_length :: "u8 list \<Rightarrow> format_length \<times> u8 list" where
  "spec_length (c # cs) =
    (if c = ch CHR ''l'' then
       (case cs of d # ds \<Rightarrow> if d = ch CHR ''l'' then (EF2_FORMAT_LONG_LONG, ds) else (EF2_FORMAT_LONG, cs)
        | [] \<Rightarrow> (EF2_FORMAT_LONG, []))
     else if c = ch CHR ''z'' then (EF2_FORMAT_SIZE, cs)
     else (EF2_FORMAT_DEFAULT, c # cs))"
| "spec_length [] = (EF2_FORMAT_DEFAULT, [])"

text \<open>
  The text of one conversion and the arguments left; \<open>strs\<close> gives the text behind a string
  pointer.
\<close>

definition spec_conversion ::
  "(u32 \<rightharpoonup> u8 list) \<Rightarrow> u8 \<Rightarrow> format_length \<Rightarrow> nat \<Rightarrow> u8 \<Rightarrow> va_list \<Rightarrow> (u8 list \<times> va_list) option" where
  "spec_conversion strs c len width pad args =
    (if c \<in> set (chars ''csdiuxXp'') then
       do { (a, args') \<leftarrow> va_arg args;
            txt \<leftarrow>
              (if c = ch CHR ''c'' then Some (pad_field width (ch CHR '' '') [] [ucast a])
               else if c = ch CHR ''s'' then
                 map_option (pad_field width (ch CHR '' '') [])
                   (if ucast a = (0 :: u32) then Some (chars ''(null)'') else strs (ucast a))
               else if c = ch CHR ''d'' \<or> c = ch CHR ''i'' then
                 Some (signed_field width pad (signed_value len a))
               else if c = ch CHR ''u'' then
                 Some (pad_field width pad [] (digits_in 10 lower_table (unsigned_value len a)))
               else if c = ch CHR ''x'' then
                 Some (pad_field width pad [] (digits_in 16 lower_table (unsigned_value len a)))
               else if c = ch CHR ''X'' then
                 Some (pad_field width pad [] (digits_in 16 upper_table (unsigned_value len a)))
               else Some (pad_field width pad (chars ''0x'')
                      (digits_in 16 lower_table (unat a mod 2 ^ 32))));
            Some (txt, args') }
     else Some ([ch CHR ''%'', c], args))"

lemma spec_rest_lengths [simp]:
  "spec_pad cs = (p, r) \<Longrightarrow> length r \<le> length cs"
  "spec_width w cs = (x, r) \<Longrightarrow> length r \<le> length cs"
  "spec_length cs = (l, r) \<Longrightarrow> length r \<le> length cs"
proof -
  show "spec_pad cs = (p, r) \<Longrightarrow> length r \<le> length cs"
    by (cases cs) (auto split: if_splits)
  show "spec_width w cs = (x, r) \<Longrightarrow> length r \<le> length cs"
    by (induction w cs rule: spec_width.induct) (auto split: if_splits)
  show "spec_length cs = (l, r) \<Longrightarrow> length r \<le> length cs"
    by (cases cs) (auto split: if_splits list.splits)
qed

definition spec_directive :: "u8 list \<Rightarrow> u8 \<times> nat \<times> format_length \<times> u8 list" where
  "spec_directive cs =
    (let (pad, r1) = spec_pad cs; (width, r2) = spec_width 0 r1; (len, r3) = spec_length r2
     in (pad, width, len, r3))"

lemma spec_directive_length:
  "spec_directive cs = (pad, width, len, r) \<Longrightarrow> length r \<le> length cs"
  by (auto simp: spec_directive_def split: prod.splits
      dest!: spec_rest_lengths intro: order_trans)

function spec_format :: "(u32 \<rightharpoonup> u8 list) \<Rightarrow> u8 list \<Rightarrow> va_list \<Rightarrow> u8 list option" where
  "spec_format strs [] args = Some []"
| "spec_format strs (c # cs) args =
    (if c \<noteq> ch CHR ''%'' then map_option (Cons c) (spec_format strs cs args)
     else if cs \<noteq> [] \<and> hd cs = ch CHR ''%''
     then map_option (Cons c) (spec_format strs (tl cs) args)
     else case spec_directive cs of
       (pad, width, len, []) \<Rightarrow> Some [c]
     | (pad, width, len, s # rest) \<Rightarrow>
         do { (txt, args') \<leftarrow> spec_conversion strs s len width pad args;
              map_option ((@) txt) (spec_format strs rest args') })"
  by pat_completeness auto
termination
  by (relation "measure (\<lambda>(strs, cs, args). length cs)")
    (auto dest!: spec_directive_length [OF sym])

declare spec_format.simps [simp del]

section \<open>The output state as a function of the text\<close>

text \<open>
  The output state after the characters \<open>acc\<close>, however many they are.  The byte after the
  counter is reached only inside the buffer, with one exception: the character that wraps
  the 32-bit counter, the 2^32nd, goes to the byte before the buffer.
\<close>

definition out_rep :: "mem \<Rightarrow> u32 \<Rightarrow> u32 \<Rightarrow> u8 list \<Rightarrow> out_state" where
  "out_rep m buf n acc = format_puts (m, \<lparr>fo_buffer = buf, fo_size = n, fo_count = 0\<rparr>) acc"

definition reached :: "u32 \<Rightarrow> u32 \<Rightarrow> nat \<Rightarrow> nat \<Rightarrow> bool" where
  "reached buf n k x \<longleftrightarrow> buf \<noteq> 0 \<and> n \<noteq> 0 \<and> (w32 x - buf < n \<or> w32 x = buf - 1 \<and> 2 ^ 32 \<le> k)"

definition clear_of :: "u32 \<Rightarrow> u32 \<Rightarrow> nat \<Rightarrow> nat \<Rightarrow> nat \<Rightarrow> bool" where
  "clear_of buf n k p l \<longleftrightarrow> (\<forall>i \<le> l. \<not> reached buf n k (p + i))"

definition strings_clear :: "mem \<Rightarrow> u32 \<Rightarrow> u32 \<Rightarrow> nat \<Rightarrow> (u32 \<rightharpoonup> u8 list) \<Rightarrow> bool" where
  "strings_clear m buf n k strs \<longleftrightarrow>
    (\<forall>p s. strs p = Some s \<longrightarrow> cstr m (unat p) s \<and> clear_of buf n k (unat p) (length s))"

lemma format_putc_rep [simp]: "format_putc (out_rep m buf n acc) c = out_rep m buf n (acc @ [c])"
  by (simp add: out_rep_def format_puts_def)

lemma format_puts_rep [simp]: "format_puts (out_rep m buf n acc) cs = out_rep m buf n (acc @ cs)"
  by (simp add: out_rep_def format_puts_def)

lemma format_repeat_rep [simp]:
  "format_repeat (out_rep m buf n acc) c k = out_rep m buf n (acc @ replicate (unat k) c)"
proof (induction "unat k" arbitrary: acc k)
  case 0
  then have "k = 0" by (metis unat_eq_zero)
  then show ?case by (simp add: format_repeat.simps)
next
  case (Suc j)
  then have k: "k \<noteq> 0" "unat k = Suc j" by auto
  then have "unat (k - 1) = j" by (simp add: unat_minus_one)
  then show ?case
    using Suc.hyps(1) [of "k - 1" "acc @ [c]"] k by (subst format_repeat.simps) simp
qed

lemma snd_out_rep [simp]:
  "snd (out_rep m buf n acc) = \<lparr>fo_buffer = buf, fo_size = n, fo_count = w32 (length acc)\<rparr>"
proof (induction acc rule: rev_induct)
  case (snoc c acc)
  then show ?case
    by (simp add: format_putc_def w32_add_one split_beta flip: format_putc_rep)
qed (simp add: out_rep_def format_puts_def)

lemma fst_out_rep_Nil [simp]: "fst (out_rep m buf n []) = m"
  by (simp add: out_rep_def format_puts_def)

lemma fst_out_rep_snoc:
  "fst (out_rep m buf n (acc @ [c])) =
    (if buf \<noteq> 0 \<and> n \<noteq> 0 \<and> w32 (length acc) + 1 < n
     then (fst (out_rep m buf n acc))(buf + w32 (length acc) := c) else fst (out_rep m buf n acc))"
  by (simp add: format_putc_def split_beta flip: format_putc_rep)

lemma w32_minus_one: "w32 i = - 1 \<longleftrightarrow> i mod 4294967296 = 4294967295"
proof -
  have "unat (- 1 :: u32) = 4294967295"
    by (simp add: unsigned_minus_1_eq_mask mask_eq_exp_minus_1)
  moreover have "unat (w32 i) = i mod 4294967296" by (simp add: w32_def unat_of_nat)
  ultimately show ?thesis by (simp only: word_unat_eq_iff)
qed

lemma succ_less_cases: "(i :: u32) + 1 < n \<Longrightarrow> i < n \<or> i = - 1"
proof (cases "i + 1 = 0")
  case False
  assume "i + 1 < n"
  moreover have "unat (i + 1) = unat i + 1" using False by unat_arith
  ultimately show ?thesis by (simp add: word_less_nat_alt)
qed (simp add: add_eq_0_iff2)

lemma out_rep_other:
  "length acc \<le> k \<Longrightarrow> \<not> reached buf n k x \<Longrightarrow> fst (out_rep m buf n acc) (w32 x) = m (w32 x)"
proof (induction acc rule: rev_induct)
  case (snoc c acc)
  have "w32 x \<noteq> buf + w32 (length acc)"
    if n: "buf \<noteq> 0" "n \<noteq> 0" "w32 (length acc) + 1 < n"
  proof (cases "w32 (length acc) = - 1")
    case True
    have "length acc mod 4294967296 \<le> length acc" by (rule mod_less_eq_dividend)
    then have "2 ^ 32 \<le> k" using True snoc.prems(1) by (simp add: w32_minus_one)
    then show ?thesis using snoc.prems(2) n True by (auto simp: reached_def)
  next
    case False
    then have "w32 (length acc) < n" using succ_less_cases [OF n(3)] by blast
    then show ?thesis using snoc.prems(2) n by (auto simp: reached_def)
  qed
  then show ?case using snoc by (auto simp: fst_out_rep_snoc)
qed simp

lemma cstr_out_rep:
  "cstr m p s \<Longrightarrow> clear_of buf n k p (length s) \<Longrightarrow> length acc \<le> k \<Longrightarrow>
   cstr (fst (out_rep m buf n acc)) p s"
proof (induction s arbitrary: p)
  case Nil
  then show ?case using out_rep_other [of acc k buf n p m] by (simp add: clear_of_def)
next
  case (Cons c s)
  then have "\<not> reached buf n k p" "clear_of buf n k (Suc p) (length s)"
    by (auto simp: clear_of_def dest: spec [of _ 0] spec [of _ "Suc _"])
  then show ?case using Cons out_rep_other [of acc k buf n p m] by simp
qed

lemma put_text_rep:
  "cstr m (p + i) s \<Longrightarrow> clear_of buf n k (p + i) (length s) \<Longrightarrow> length acc + length s \<le> k \<Longrightarrow>
   i + length s < 4294967296 \<Longrightarrow>
   put_text (out_rep m buf n acc) (w32 p) (w32 i) (w32 (i + length s)) = out_rep m buf n (acc @ s)"
proof (induction s arbitrary: i acc)
  case Nil
  then show ?case by (simp add: put_text.simps)
next
  case (Cons c s)
  have "fst (out_rep m buf n acc) (w32 (p + i)) = c"
    using cstr_out_rep [OF Cons.prems(1,2), of acc] Cons.prems(3) by simp
  moreover have "clear_of buf n k (p + Suc i) (length s)"
    using Cons.prems(2) by (auto simp: clear_of_def dest: spec [of _ "Suc _"])
  ultimately show ?case
    using Cons.prems Cons.IH [of "Suc i" "acc @ [c]"]
    by (subst put_text.simps) (simp add: w32_add w32_add_one w32_less_iff)
qed

text \<open>The byte before the buffer: untouched until the counter wraps, then overwritten.\<close>

lemma out_rep_before:
  assumes "buf \<noteq> 0" "n \<noteq> 0"
  shows "fst (out_rep m buf n acc) (buf - 1) =
    (if length acc < 2 ^ 32 then m (buf - 1) else acc ! (length acc div 2 ^ 32 * 2 ^ 32 - 1))"
proof (induction acc rule: rev_induct)
  case (snoc c acc)
  have n: "0 < n" using assms by (simp add: word_gt_0)
  have hit: "buf + w32 (length acc) = buf - 1 \<longleftrightarrow> w32 (length acc) = - 1" by auto
  show ?case
  proof (cases "w32 (length acc) = - 1")
    case True
    then have m: "length acc mod 4294967296 = 4294967295" by (simp add: w32_minus_one)
    then have e: "length acc + 1 = (length acc div 4294967296 + 1) * 4294967296"
      using div_mult_mod_eq [of "length acc" 4294967296] by (simp add: algebra_simps)
    then have d: "(length acc + 1) div 4294967296 * 4294967296 = length acc + 1"
      by (metis dvd_div_mult_self dvd_triv_right)
    have l: "\<not> length acc + 1 < 4294967296" unfolding e by simp
    have "fst (out_rep m buf n (acc @ [c])) (buf - 1) = c"
      using True n assms by (simp add: fst_out_rep_snoc)
    then show ?thesis using d l by simp
  next
    case False
    then have m: "length acc mod 4294967296 \<noteq> 4294967295" by (simp add: w32_minus_one)
    then have d: "Suc (length acc) div 4294967296 = length acc div 4294967296"
      by (simp add: div_Suc mod_Suc)
    have l: "Suc (length acc) < 4294967296 \<longleftrightarrow> length acc < 4294967296"
      using m by (cases "Suc (length acc) = 4294967296") auto
    have k: "length acc div 4294967296 * 4294967296 - 1 < length acc" if "4294967296 \<le> length acc"
      using that div_times_less_eq_dividend [of "length acc" 4294967296] by linarith
    have "fst (out_rep m buf n (acc @ [c])) (buf - 1) = fst (out_rep m buf n acc) (buf - 1)"
      using False by (auto simp: fst_out_rep_snoc)
    then show ?thesis using snoc.IH d l k by (simp add: nth_append)
  qed
qed simp

section \<open>Texts that do not wrap the counter\<close>

definition out_mem :: "mem \<Rightarrow> u32 \<Rightarrow> u32 \<Rightarrow> u8 list \<Rightarrow> mem" where
  "out_mem m buf n acc =
    (if buf = 0 \<or> n = 0 then m else put_bytes m (unat buf) (take (unat n - 1) acc))"

definition buffer_ok :: "u32 \<Rightarrow> u32 \<Rightarrow> bool" where
  "buffer_ok buf n \<longleftrightarrow> buf = 0 \<or> n = 0 \<or> unat buf + unat n \<le> 4294967296"

definition apart :: "u32 \<Rightarrow> u32 \<Rightarrow> nat \<Rightarrow> nat \<Rightarrow> bool" where
  "apart buf n p k \<longleftrightarrow> buf = 0 \<or> n = 0 \<or> p + k < unat buf \<or> unat buf + unat n \<le> p"

definition strings_ok :: "mem \<Rightarrow> u32 \<Rightarrow> u32 \<Rightarrow> (u32 \<rightharpoonup> u8 list) \<Rightarrow> bool" where
  "strings_ok m buf n strs \<longleftrightarrow>
    (\<forall>p s. strs p = Some s \<longrightarrow> cstr m (unat p) s \<and> apart buf n (unat p) (length s))"

lemma out_rep_mem:
  "buffer_ok buf n \<Longrightarrow> length acc < 4294967296 \<Longrightarrow> fst (out_rep m buf n acc) = out_mem m buf n acc"
proof (induction acc rule: rev_induct)
  case (snoc c acc)
  have n: "w32 (length acc) + 1 < n \<longleftrightarrow> length acc < unat n - 1"
    using snoc.prems by (auto simp: w32_add_one word_less_nat_alt unat_w32)
  have b: "buf + w32 (length acc) = w32 (unat buf + length acc)" by (simp flip: w32_add)
  show ?case
    using n snoc
    by (cases "buf = 0 \<or> n = 0") (auto simp: fst_out_rep_snoc out_mem_def put_bytes_append b)
qed (simp add: out_mem_def)

lemma cstr_range: "cstr m p s \<Longrightarrow> p + length s < 4294967296"
  by (induction s arbitrary: p) force+

lemma apart_clear:
  assumes "buffer_ok buf n" "k < 4294967296" "apart buf n p l" "p + l < 4294967296"
  shows "clear_of buf n k p l"
proof -
  have "\<not> w32 x - buf < n" if x: "buf \<noteq> 0" "n \<noteq> 0" "p \<le> x" "x \<le> p + l" for x
  proof -
    have u: "unat (w32 x) = x" using x assms(4) by (simp add: unat_w32)
    have "x < unat buf \<or> unat buf + unat n \<le> x" using assms(3) x by (auto simp: apart_def)
    then show ?thesis
    proof
      assume "x < unat buf"
      then have "unat (w32 x - buf) = 4294967296 + x - unat buf"
        using u unat_sub_if' [of "w32 x" buf] by auto
      then show ?thesis using assms(1) x by (simp add: buffer_ok_def word_less_nat_alt)
    next
      assume "unat buf + unat n \<le> x"
      then show ?thesis using u by (simp add: word_less_nat_alt unat_sub word_le_nat_alt)
    qed
  qed
  then show ?thesis using assms(2) by (auto simp: clear_of_def reached_def)
qed

lemma strings_ok_clear:
  "buffer_ok buf n \<Longrightarrow> k < 4294967296 \<Longrightarrow> strings_ok m buf n strs \<Longrightarrow> strings_clear m buf n k strs"
  unfolding strings_ok_def strings_clear_def using apart_clear cstr_range by blast

section \<open>Conversions\<close>

lemma digits_in_length: "2 \<le> b \<Longrightarrow> n < b ^ k \<Longrightarrow> 0 < k \<Longrightarrow> length (digits_in b t n) \<le> k"
proof (induction k arbitrary: n)
  case (Suc k)
  show ?case
  proof (cases "n < b")
    case True
    then show ?thesis by (simp add: digits_in.simps [of b t n])
  next
    case False
    then have "k \<noteq> 0" using Suc.prems by (cases k) auto
    then have "length (digits_in b t (n div b)) \<le> k"
      using Suc by (simp add: less_mult_imp_div_less mult.commute)
    then show ?thesis using False Suc.prems by (simp add: digits_in.simps [of b t n])
  qed
qed simp

lemma format_unsigned_rep:
  assumes p: "length prefix < 100"
    and ds: "ds = digits_in (if base = 16 then 16 else 10) (if upper then upper_table else lower_table) (unat v)"
  shows "format_unsigned (out_rep m buf n acc) v base upper width pad prefix =
    Some (out_rep m buf n (acc @ pad_field (unat width) pad prefix ds))"
proof -
  have v: "unat v < 10 ^ 20"
  proof -
    have "unat v < 2 ^ LENGTH(64)" by (rule unsigned_less)
    then show ?thesis by simp
  qed
  also have "(10::nat) ^ 20 \<le> 16 ^ 20" by simp
  finally have "length ds \<le> 20"
    using digits_in_length [of 10 "unat v" 20] digits_in_length [of 16 "unat v" 20] v ds by auto
  then have fs: "unat (w32 (length ds) + w32 (length prefix)) = length prefix + length ds"
    using p by (simp add: w32_add unat_w32)
  define padding where "padding = (if width > w32 (length ds) + w32 (length prefix)
    then width - (w32 (length ds) + w32 (length prefix)) else 0)"
  have pd: "unat padding = unat width - (length prefix + length ds)"
    using fs by (auto simp: padding_def word_less_nat_alt unat_sub word_le_nat_alt)
  show ?thesis
    unfolding format_unsigned_def format_unsigned_digits_spec ds [symmetric] bind.bind_lunit Let_def
      padding_def [symmetric]
    by (simp add: pad_field_def Let_def pd)
qed

lemma negative_magnitude: "v <s 0 \<Longrightarrow> unat (- v :: u64) = nat \<bar>sint v\<bar>"
proof -
  assume "v <s 0"
  then have s: "sint v < 0" by (simp add: word_sless_alt)
  have b: "- (2 ^ 63) \<le> sint v" using sint_greater_eq [of v] by simp
  have "- v = word_of_int (- sint v)" by simp
  then have "uint (- v) = uint (word_of_int (- sint v) :: u64)" by (rule arg_cong)
  also have "\<dots> = (- sint v) mod 2 ^ 64" by (simp only: uint_word_of_int) simp
  also have "\<dots> = - sint v" by (rule mod_pos_pos_trivial) (use s b in auto)
  finally show ?thesis using s by (simp add: unat_eq_nat_uint)
qed

lemma format_signed_rep:
  "format_signed (out_rep m buf n acc) v width pad =
    Some (out_rep m buf n (acc @ signed_field (unat width) pad (sint v)))"
proof (cases "v <s 0")
  case True
  then have "sint v < 0" by (simp add: word_sless_alt)
  then show ?thesis
    using True format_unsigned_rep [of "chars ''-''" _ 10 False "- v" m buf n acc width pad]
    by (simp add: format_signed_def signed_field_def negative_magnitude chars_def)
next
  case False
  then have s: "0 \<le> sint v" by (simp add: word_sless_alt)
  moreover have "sint v < 2 ^ 64" using sint_lt [of v] by simp
  ultimately have "take_bit 64 (sint v) = sint v" using s by (intro take_bit_int_eq_self) auto
  then have "uint v = sint v" by (simp add: uint_sint)
  then have "unat v = nat \<bar>sint v\<bar>" using s by (simp add: unat_eq_nat_uint)
  then show ?thesis
    using False s format_unsigned_rep [of "[]" _ 10 False v m buf n acc width pad]
    by (simp add: format_signed_def signed_field_def)
qed

lemma format_string_rep:
  assumes strs: "strings_clear m buf n k strs"
    and s: "(if text = 0 then Some (chars ''(null)'') else strs text) = Some s"
    and len: "length acc + length (pad_field (unat width) (ch CHR '' '') [] s) \<le> k"
  shows "format_string (out_rep m buf n acc) text width =
    Some (out_rep m buf n (acc @ pad_field (unat width) (ch CHR '' '') [] s))"
proof -
  have pf: "pad_field (unat width) 32 [] s = replicate (unat width - length s) 32 @ s" for s
    by (simp add: pad_field_def)
  have pl: "unat (width - w32 (length s)) = unat width - length s"
    if "width > w32 (length s)" "length s < 4294967296"
    using that by (auto simp: word_less_nat_alt unat_w32 unat_sub word_le_nat_alt)
  have pz: "unat width - length s = 0" if "\<not> width > w32 (length s)" "length s < 4294967296"
    using that by (auto simp: word_less_nat_alt unat_w32 unat_sub word_le_nat_alt)
  show ?thesis
  proof (cases "text = 0")
    case True
    then have sn: "chars ''(null)'' = s" using s by simp
    then have "length s = 6" by (auto simp: chars_def)
    then have l6: "w32 (length s) = 6" "length s < 4294967296" by (simp_all add: w32_numeral)
    show ?thesis
      using True pl [OF _ l6(2), unfolded l6(1)] pz [OF _ l6(2), unfolded l6(1)]
      by (cases "width > 6") (simp_all add: format_string_def pf sn Let_def)
  next
    case False
    then have c: "cstr m (unat text) s" "clear_of buf n k (unat text) (length s)"
      using s strs by (auto simp: strings_clear_def)
    have ls: "length s < 4294967296" using cstr_range [OF c(1)] by simp
    have "strlen_loop (fst (out_rep m buf n acc)) text 0 = Some (w32 (length s))"
      using strlen_loop_bytes [of "fst (out_rep m buf n acc)" "unat text" 0 s] cstr_out_rep [OF c] len by simp
    moreover have "put_text (out_rep m buf n (acc @ replicate (unat width - length s) 32)) text 0
        (w32 (length s)) = out_rep m buf n (acc @ replicate (unat width - length s) 32 @ s)"
      using put_text_rep [of m "unat text" 0 s buf n k "acc @ replicate (unat width - length s) 32"] c len ls
      by (simp add: pf)
    ultimately show ?thesis
      using False pl [OF _ ls] pz [OF _ ls]
      by (cases "width > w32 (length s)") (simp_all add: format_string_def pf)
  qed
qed

lemma unat_low_word: "unat (ucast (ucast (a :: u64) :: u32) :: u64) = unat a mod 2 ^ 32"
  by (simp only: unsigned_ucast_eq ucast_id unat_take_bit) simp

lemma unsigned_arg_value:
  "format_unsigned_arg args len = do { (a, args') \<leftarrow> va_arg args;
     Some (if len = EF2_FORMAT_LONG_LONG then a else ucast (ucast a :: u32), args') }"
  "unat (if len = EF2_FORMAT_LONG_LONG then a else ucast (ucast a :: u32)) = unsigned_value len a"
  by (simp_all only: format_unsigned_arg_def unsigned_value_def unat_low_word split: if_split) simp

lemma sint_scast_up: "sint (scast (x :: u32) :: u64) = sint x"
  by (rule sint_up_scast) (simp add: is_up)

lemma format_conversion_rep:
  assumes strs: "strings_clear m buf n k strs"
    and s: "spec_conversion strs c len (unat width) pad args = Some (tx, args')"
    and l: "length acc + length tx \<le> k"
  shows "format_conversion (out_rep m buf n acc) c len width pad args =
    Some (out_rep m buf n (acc @ tx), args')"
proof (cases "c \<in> set (chars ''csdiuxXp'')")
  case False
  then have "tx = [ch CHR ''%'', c]" "args' = args" using s by (auto simp: spec_conversion_def)
  then show ?thesis
    using False
    by (simp add: format_conversion_def chars_def)
next
  case True
  then obtain a where a: "args = a # args'"
    using s by (cases args) (auto simp: spec_conversion_def split: bind_splits)
  note fu = format_unsigned_rep
  from True consider "c = ch CHR ''c''" | "c = ch CHR ''s''" | "c = ch CHR ''d'' \<or> c = ch CHR ''i''"
    | "c = ch CHR ''u''" | "c = ch CHR ''x''" | "c = ch CHR ''X''" | "c = ch CHR ''p''"
    unfolding chars_def by auto
  then show ?thesis
  proof cases
    case 1
    have "unat (width - 1) = unat width - 1" if "width > 1"
      using that by (subst unat_minus_one) auto
    moreover have "unat width - 1 = 0" if "\<not> width > 1"
      using that by (simp add: word_less_nat_alt)
    ultimately show ?thesis
      using 1 s a by (cases "width > 1")
        (auto simp: format_conversion_def spec_conversion_def pad_field_def chars_def)
  next
    case 2
    obtain str where str: "(if ucast a = (0 :: u32) then Some (chars ''(null)'') else strs (ucast a)) = Some str"
      "tx = pad_field (unat width) (ch CHR '' '') [] str"
      using s 2 a by (auto simp: spec_conversion_def chars_def split: if_splits bind_splits)
    show ?thesis
      using format_string_rep [OF strs str(1), of acc width] l 2 a str(2)
      by (simp add: format_conversion_def)
  next
    case 3
    let ?v = "if len = EF2_FORMAT_LONG_LONG then a else scast (ucast a :: u32)"
    have "sint ?v = signed_value len a" by (simp add: signed_value_def sint_scast_up)
    then show ?thesis
      using format_signed_rep [of m buf n acc ?v width pad] 3 a s
      by (auto simp: format_conversion_def spec_conversion_def chars_def format_signed_arg_def)
  next
    case 4
    let ?v = "if len = EF2_FORMAT_LONG_LONG then a else ucast (ucast a :: u32)"
    show ?thesis
      using fu [of "[]" _ 10 False ?v m buf n acc width pad] unsigned_arg_value(2) [of len a] 4 a s
      by (auto simp: format_conversion_def spec_conversion_def chars_def unsigned_arg_value(1))
  next
    case 5
    let ?v = "if len = EF2_FORMAT_LONG_LONG then a else ucast (ucast a :: u32)"
    show ?thesis
      using fu [of "[]" _ 16 False ?v m buf n acc width pad] unsigned_arg_value(2) [of len a] 5 a s
      by (auto simp: format_conversion_def spec_conversion_def chars_def unsigned_arg_value(1))
  next
    case 6
    let ?v = "if len = EF2_FORMAT_LONG_LONG then a else ucast (ucast a :: u32)"
    show ?thesis
      using fu [of "[]" _ 16 True ?v m buf n acc width pad] unsigned_arg_value(2) [of len a] 6 a s
      by (auto simp: format_conversion_def spec_conversion_def chars_def unsigned_arg_value(1))
  next
    case 7
    show ?thesis
      using unat_low_word [of a] fu [of "chars ''0x''" _ 16 False "ucast (ucast a :: u32)" m buf n acc width pad] 7 a s
      by (auto simp: format_conversion_def spec_conversion_def chars_def)
  qed
qed

section \<open>Parsing a directive\<close>

lemma cstr_drop: "cstr m p cs \<Longrightarrow> k \<le> length cs \<Longrightarrow> cstr m (p + k) (drop k cs)"
proof (induction cs arbitrary: p k)
  case (Cons c cs)
  then show ?case using Cons.IH [of "Suc p" "k - 1"] by (cases k) auto
qed simp

lemma cstr_head: "cstr m p cs \<Longrightarrow> m (w32 p) = (case cs of [] \<Rightarrow> 0 | c # _ \<Rightarrow> c)"
  by (cases cs) auto

lemma cstr_zero: "cstr m p cs \<Longrightarrow> m (w32 p) = 0 \<longleftrightarrow> cs = []"
  by (cases cs) auto

lemma parse_pad_spec:
  "cstr m p cs \<Longrightarrow> \<exists>k \<le> length cs. parse_pad m (w32 p) = (fst (spec_pad cs), w32 (p + k)) \<and>
     snd (spec_pad cs) = drop k cs"
  by (cases cs) (auto simp: parse_pad_def w32_add_one intro: exI [of _ 1] exI [of _ 0])

lemma parse_width_spec:
  "cstr m p cs \<Longrightarrow> w < 1000000 \<Longrightarrow>
   \<exists>k \<le> length cs. parse_width m (w32 p) (w32 w) = Some (w32 (fst (spec_width w cs)), w32 (p + k)) \<and>
     snd (spec_width w cs) = drop k cs \<and> fst (spec_width w cs) < 1000000"
proof (induction w cs arbitrary: p rule: spec_width.induct)
  case (1 w c cs)
  have m: "m (w32 p) = c" using 1 by simp
  show ?case
  proof (cases "ch CHR ''0'' \<le> c \<and> c \<le> ch CHR ''9''")
    case True
    let ?w = "if w < 100000 then 10 * w + (unat c - 48) else w"
    have c: "48 \<le> unat c" "unat c \<le> 57" using True by (auto simp: word_le_nat_alt)
    have "ucast (c - 48) = w32 (unat c - 48)"
      using c by (simp add: word_unat_eq_iff unsigned_ucast_eq unat_sub word_le_nat_alt unat_w32 take_bit_eq_mod)
    moreover have "push_bit 3 (w32 w) + push_bit 1 (w32 w) = w32 (10 * w)"
      by (simp add: push_bit_eq_mult w32_def)
    ultimately have "(if w32 w < 100000 then push_bit 3 (w32 w) + push_bit 1 (w32 w) + ucast (c - 48) else w32 w)
        = w32 ?w"
      using "1.prems"(2) w32_less_iff [of w 100000] by (simp add: w32_numeral w32_add)
    moreover have "parse_width m (w32 p) (w32 w) = parse_width m (w32 p + 1)
        (if w32 w < 100000 then push_bit 3 (w32 w) + push_bit 1 (w32 w) + ucast (c - 48) else w32 w)"
      using True by (subst parse_width.simps) (simp add: m)
    ultimately have e: "parse_width m (w32 p) (w32 w) = parse_width m (w32 (Suc p)) (w32 ?w)"
      by (simp only: w32_add_one Suc_eq_plus1)
    have "?w < 1000000" using c "1.prems"(2) by auto
    from "1.IH" [OF True _ this, of "Suc p"] "1.prems" obtain k where k: "k \<le> length cs"
      "parse_width m (w32 (Suc p)) (w32 ?w) = Some (w32 (fst (spec_width ?w cs)), w32 (Suc p + k))"
      "snd (spec_width ?w cs) = drop k cs" "fst (spec_width ?w cs) < 1000000" by auto
    show ?thesis
      using k e True by (intro exI [of _ "Suc k"]) simp
  next
    case False
    then show ?thesis using m "1.prems"
      by (intro exI [of _ 0]) (auto simp: parse_width.simps [of m "w32 p"])
  qed
next
  case (2 w)
  then show ?case by (auto simp: parse_width.simps [of m "w32 p"])
qed

lemma parse_length_spec:
  "cstr m p cs \<Longrightarrow> \<exists>k \<le> length cs. parse_length m (w32 p) = (fst (spec_length cs), w32 (p + k)) \<and>
     snd (spec_length cs) = drop k cs"
proof (cases cs)
  case (Cons c ds)
  assume "cstr m p cs"
  then show ?thesis using Cons
    by (intro exI [of _ "length cs - length (snd (spec_length cs))"], cases ds)
      (auto simp: parse_length_def w32_add_one w32_add_numeral)
qed (auto simp: parse_length_def)

section \<open>The interpreter refines the text function\<close>

lemma clear_drop:
  assumes "clear_of buf n k p (length cs)" "j \<le> length cs"
  shows "clear_of buf n k (p + j) (length (drop j cs))"
  unfolding clear_of_def
proof (intro allI impI)
  fix i
  assume "i \<le> length (drop j cs)"
  then show "\<not> reached buf n k (p + j + i)"
    using assms spec [of "\<lambda>i. i \<le> length cs \<longrightarrow> \<not> reached buf n k (p + i)" "j + i"]
    by (auto simp: clear_of_def add.assoc)
qed

lemma clear_Suc: "clear_of buf n k p (Suc l) \<Longrightarrow> clear_of buf n k (Suc p) l"
  by (auto simp: clear_of_def dest: spec [of _ "Suc _"])

lemma vsnprintf_loop_rep:
  "spec_format strs fs args = Some tx \<Longrightarrow> cstr m p fs \<Longrightarrow> clear_of buf n k p (length fs) \<Longrightarrow>
    length acc + length tx \<le> k \<Longrightarrow> strings_clear m buf n k strs \<Longrightarrow>
    vsnprintf_loop (out_rep m buf n acc) (w32 p) args = Some (out_rep m buf n (acc @ tx))"
proof (induction strs fs args arbitrary: tx p acc rule: spec_format.induct)
  case (1 s args)
  have "fst (out_rep m buf n acc) (w32 p) = 0"
    using cstr_out_rep [OF "1.prems"(2,3), of acc] "1.prems"(4) by simp
  then show ?case
    using "1.prems" by (subst vsnprintf_loop.simps) (simp add: spec_format.simps)
next
  case (2 s c cs args)
  let ?st = "out_rep m buf n acc"
  let ?m = "fst ?st"
  have cm: "cstr ?m p (c # cs)"
    using cstr_out_rep [OF "2.prems"(2,3), of acc] "2.prems"(4) by simp
  then have c: "?m (w32 p) = c" "c \<noteq> 0" "cstr ?m (Suc p) cs" by auto
  have nxt: "?m (w32 p + 1) = (case cs of [] \<Rightarrow> 0 | d # _ \<Rightarrow> d)"
    using cstr_head [OF c(3)] by (simp add: w32_add_one)
  have ap: "clear_of buf n k (Suc p) (length cs)" using "2.prems"(3) by (simp add: clear_Suc)
  consider "c \<noteq> ch CHR ''%''" | "c = ch CHR ''%''" "cs \<noteq> []" "hd cs = ch CHR ''%''"
    | "c = ch CHR ''%''" "\<not> (cs \<noteq> [] \<and> hd cs = ch CHR ''%'')" by blast
  then show ?case
  proof cases
    case 1
    then obtain t where t: "spec_format s cs args = Some t" "tx = c # t"
      using "2.prems"(1) by (auto simp: spec_format.simps)
    have "vsnprintf_loop (out_rep m buf n (acc @ [c])) (w32 (Suc p)) args = Some (out_rep m buf n ((acc @ [c]) @ t))"
      by (rule "2.IH"(1) [OF 1 t(1)]) (use "2.prems" t ap in auto)
    then show ?thesis
      using 1 c t by (subst vsnprintf_loop.simps) (simp add: w32_add_one)
  next
    case 2
    then obtain t where t: "spec_format s (tl cs) args = Some t" "tx = c # t"
      using "2.prems"(1) by (auto simp: spec_format.simps)
    obtain ds where cs: "cs = ch CHR ''%'' # ds" using 2 by (cases cs) auto
    have pre: "cstr m (Suc (Suc p)) ds" "clear_of buf n k (Suc (Suc p)) (length ds)"
      using "2.prems"(2) ap by (auto simp: cs clear_Suc)
    have "vsnprintf_loop (out_rep m buf n (acc @ [c])) (w32 (Suc (Suc p))) args = Some (out_rep m buf n ((acc @ [c]) @ t))"
      by (rule "2.IH"(2) [OF _ _ t(1)]) (use "2.prems" t pre 2 in \<open>auto simp: cs\<close>)
    then show ?thesis
      using 2 c t nxt by (subst vsnprintf_loop.simps) (simp add: w32_add_numeral cs)
  next
    case 3
    obtain k1 where k1: "k1 \<le> length cs" "parse_pad ?m (w32 (Suc p)) = (fst (spec_pad cs), w32 (Suc p + k1))"
      "snd (spec_pad cs) = drop k1 cs" using parse_pad_spec [OF c(3)] by blast
    let ?c1 = "drop k1 cs"
    have m1: "cstr ?m (Suc p + k1) ?c1" by (rule cstr_drop [OF c(3) k1(1)])
    obtain k2 where k2: "k2 \<le> length ?c1"
      "parse_width ?m (w32 (Suc p + k1)) 0 = Some (w32 (fst (spec_width 0 ?c1)), w32 (Suc p + k1 + k2))"
      "snd (spec_width 0 ?c1) = drop k2 ?c1" "fst (spec_width 0 ?c1) < 1000000"
      using parse_width_spec [OF m1, of 0] by auto
    let ?c2 = "drop k2 ?c1"
    have m2: "cstr ?m (Suc p + k1 + k2) ?c2" by (rule cstr_drop [OF m1 k2(1)])
    obtain k3 where k3: "k3 \<le> length ?c2"
      "parse_length ?m (w32 (Suc p + k1 + k2)) = (fst (spec_length ?c2), w32 (Suc p + k1 + k2 + k3))"
      "snd (spec_length ?c2) = drop k3 ?c2"
      using parse_length_spec [OF m2] by blast
    let ?k = "k1 + k2 + k3"
    let ?pad = "fst (spec_pad cs)" and ?w = "fst (spec_width 0 ?c1)" and ?len = "fst (spec_length ?c2)"
      and ?r = "drop ?k cs"
    have r: "drop k3 ?c2 = ?r" by (simp add: ac_simps)
    have kk: "?k \<le> length cs" using k1(1) k2(1) k3(1) by simp
    have mr: "cstr ?m (Suc p + ?k) ?r" "cstr m (Suc p + ?k) ?r" "clear_of buf n k (Suc p + ?k) (length ?r)"
      using cstr_drop [OF c(3) kk] cstr_drop [OF _ kk, of m "Suc p"] "2.prems"(2) clear_drop [OF ap kk]
      by simp_all
    have dir: "spec_directive cs = (?pad, ?w, ?len, ?r)"
      by (simp only: spec_directive_def Let_def split_beta k1(3) k2(3) k3(3) r)
    have n3: "?m (w32 p + 1) \<noteq> ch CHR ''%''" using 3(2) nxt by (cases cs) auto
    have go: "vsnprintf_loop ?st (w32 p) args =
        (if ?m (w32 (Suc p + ?k)) = 0 then Some (format_putc ?st (ch CHR ''%''))
         else do { (st', args') \<leftarrow> format_conversion ?st (?m (w32 (Suc p + ?k))) ?len (w32 ?w) ?pad args;
                   vsnprintf_loop st' (w32 (Suc p + ?k) + 1) args' })"
      using c(1,2) 3(1) n3 k1(2) k2(2) k3(2)
      by (subst vsnprintf_loop.simps) (simp add: Let_def w32_add_one add.assoc split_beta)
    show ?thesis
    proof (cases ?r)
      case Nil
      then have "tx = [c]" using "2.prems"(1) 3 dir by (auto simp: spec_format.simps)
      then show ?thesis using go mr(1) 3(1) by (simp add: Nil)
    next
      case (Cons x rest)
      obtain t1 args' t2 where t: "spec_conversion s x ?len ?w ?pad args = Some (t1, args')"
        "spec_format s rest args' = Some t2" "tx = t1 @ t2"
        using "2.prems"(1) 3 dir Cons by (auto simp: spec_format.simps split: bind_splits)
      have x: "?m (w32 (Suc p + ?k)) = x" "x \<noteq> 0" using mr(1) by (auto simp: Cons)
      have "format_conversion ?st x ?len (w32 ?w) ?pad args = Some (out_rep m buf n (acc @ t1), args')"
        by (rule format_conversion_rep [OF "2.prems"(5)]) (use t k2(4) "2.prems"(4) in \<open>auto simp: unat_w32\<close>)
      moreover have "vsnprintf_loop (out_rep m buf n (acc @ t1)) (w32 (Suc (Suc p + ?k))) args' =
          Some (out_rep m buf n ((acc @ t1) @ t2))"
        by (rule "2.IH"(3) [OF _ 3(2) dir [symmetric] refl refl Cons t(1) refl t(2)])
          (use t(3) "2.prems"(4,5) mr 3 in \<open>auto simp: Cons clear_Suc\<close>)
      ultimately show ?thesis using go x t(3) by (simp add: w32_add_one)
    qed
  qed
qed

end
