(* ===== verification/FormatProps.thy ===== *)
theory FormatProps
  imports FormatSpec
begin

text \<open>
  The properties of the formatted output: the text written, the digits of a number, and the
  bytes the engine may touch.
\<close>

section \<open>Only the buffer is written\<close>

text \<open>
  Whatever the format and the arguments are, even when the buffer overlaps them, the state
  keeps its buffer and every byte outside it, with one exception: the counter wraps after
  2^32 - 1 characters, and the character that wraps it goes to the byte before the buffer.
\<close>

definition confined :: "mem \<Rightarrow> u32 \<Rightarrow> u32 \<Rightarrow> out_state \<Rightarrow> bool" where
  "confined m0 buf n st \<longleftrightarrow> fo_buffer (snd st) = buf \<and> fo_size (snd st) = n \<and>
    (\<forall>x. buf = 0 \<or> n = 0 \<or> \<not> x - buf < n \<and> x \<noteq> buf - 1 \<longrightarrow> fst st x = m0 x)"

lemma confined_putc: "confined m0 buf n st \<Longrightarrow> confined m0 buf n (format_putc st c)"
proof -
  assume a: "confined m0 buf n st"
  obtain m out where st: "st = (m, out)" by (cases st)
  have "fo_count out < fo_size out \<or> fo_count out = - 1" if "fo_count out + 1 < fo_size out"
  proof (cases "fo_count out + 1 = 0")
    case True
    then show ?thesis by (simp add: add_eq_0_iff2)
  next
    case False
    then have "unat (fo_count out + 1) = unat (fo_count out) + 1" by unat_arith
    then show ?thesis using that by (simp add: word_less_nat_alt)
  qed
  then have "fo_buffer out + fo_count out - fo_buffer out < fo_size out \<or>
      fo_buffer out + fo_count out = fo_buffer out - 1" if "fo_count out + 1 < fo_size out"
    using that by auto
  then show ?thesis
    using a by (auto simp: confined_def format_putc_def st simp del: add_diff_cancel_left')
qed

lemma confined_puts: "confined m0 buf n st \<Longrightarrow> confined m0 buf n (format_puts st cs)"
  by (induction cs arbitrary: st) (auto simp: format_puts_def confined_putc)

lemma confined_repeat: "confined m0 buf n st \<Longrightarrow> confined m0 buf n (format_repeat st c k)"
  by (induction st c k rule: format_repeat.induct) (subst format_repeat.simps, simp add: confined_putc)

lemma confined_text: "confined m0 buf n st \<Longrightarrow> confined m0 buf n (put_text st t i k)"
  by (induction st t i k rule: put_text.induct) (subst put_text.simps, simp add: confined_putc)

lemmas confined_ops = confined_putc confined_puts confined_repeat confined_text

lemma confined_unsigned:
  "format_unsigned st v b u w p pre = Some st' \<Longrightarrow> confined m0 buf n st \<Longrightarrow> confined m0 buf n st'"
  by (auto simp: format_unsigned_def format_unsigned_digits_spec Let_def confined_ops)

lemma confined_string:
  "format_string st t w = Some st' \<Longrightarrow> confined m0 buf n st \<Longrightarrow> confined m0 buf n st'"
  by (auto simp: format_string_def Let_def confined_ops split: if_splits bind_splits)

lemma confined_conversion:
  "format_conversion st c len w p args = Some (st', args') \<Longrightarrow> confined m0 buf n st \<Longrightarrow>
   confined m0 buf n st'"
  by (auto simp: format_conversion_def format_signed_def confined_ops
      dest: confined_unsigned confined_string split: if_splits bind_splits)

lemma confined_loop:
  "vsnprintf_loop st f args = Some st' \<Longrightarrow> confined m0 buf n st \<longrightarrow> confined m0 buf n st'"
proof (rule vsnprintf_loop.raw_induct
    [where P = "\<lambda>st f args st'. confined m0 buf n st \<longrightarrow> confined m0 buf n st'"])
  fix loop :: "out_state \<Rightarrow> u32 \<Rightarrow> va_list \<Rightarrow> out_state option" and st f args st'
  assume ih: "\<And>st f args st'. loop st f args = Some st' \<Longrightarrow>
      confined m0 buf n st \<longrightarrow> confined m0 buf n st'"
  assume *: "(let m = fst st in
     if m f = 0 then Some st
     else if m f \<noteq> ch CHR ''%'' then loop (format_putc st (m f)) (f + 1) args
     else if m (f + 1) = ch CHR ''%'' then loop (format_putc st (ch CHR ''%'')) (f + 2) args
     else
       let (pad, f1) = parse_pad m (f + 1) in
       do { (width, f2) \<leftarrow> parse_width m f1 0;
            let (len, f3) = parse_length m f2;
            if m f3 = 0 then Some (format_putc st (ch CHR ''%''))
            else
              do { (st', args') \<leftarrow> format_conversion st (m f3) len width pad args;
                   loop st' (f3 + 1) args' } }) = Some st'"
  show "confined m0 buf n st \<longrightarrow> confined m0 buf n st'"
  proof
    assume c: "confined m0 buf n st"
    have step: "loop st1 f' args' = Some st' \<Longrightarrow> confined m0 buf n st1 \<Longrightarrow> confined m0 buf n st'"
      for st1 f' args' using ih by blast
    show "confined m0 buf n st'"
      using * c by (auto simp: Let_def confined_ops split: if_splits bind_splits prod.splits
          intro: step confined_conversion)
  qed
qed

lemma vsnprintf_run:
  assumes "spec_format strs fs args = Some tx" "cstr m (unat format) fs"
    and "clear_of buf n (length tx) (unat format) (length fs)" "strings_clear m buf n (length tx) strs"
  shows "ef2_vsnprintf m buf n format args =
    Some (int (min (length tx mod 2 ^ 32) 0x7FFFFFFF),
      let m1 = fst (out_rep m buf n tx); k = w32 (length tx)
      in if buf \<noteq> 0 \<and> n \<noteq> 0 then m1(buf + (if k < n then k else n - 1) := 0) else m1)"
proof -
  have start: "(m, \<lparr>fo_buffer = buf, fo_size = n, fo_count = 0\<rparr>) = out_rep m buf n []"
    by (simp add: out_rep_def format_puts_def)
  have loop: "vsnprintf_loop (out_rep m buf n []) format args = Some (out_rep m buf n tx)"
    using vsnprintf_loop_rep [OF assms(1-3), of "[]"] assms(4) by simp
  obtain m1 where o: "out_rep m buf n tx = (m1, \<lparr>fo_buffer = buf, fo_size = n, fo_count = w32 (length tx)\<rparr>)"
    by (metis prod.collapse snd_out_rep)
  have "unat (w32 (length tx)) = length tx mod 2 ^ 32" by (simp add: w32_def unat_of_nat)
  then have ret: "(if w32 (length tx) > 0x7FFFFFFF then 0x7FFFFFFF else int (unat (w32 (length tx)))) =
      int (min (length tx mod 2 ^ 32) 0x7FFFFFFF)"
    by (simp add: word_less_nat_alt)
  show ?thesis
    unfolding ef2_vsnprintf_def start loop o bind.bind_lunit Let_def
    using ret by (simp cong: if_cong split del: if_split)
qed

lemma vsnprintf_text:
  assumes "spec_format strs fs args = Some tx" "length tx < 2 ^ 32"
    and "cstr m (unat format) fs" "buffer_ok buf n" "apart buf n (unat format) (length fs)"
    and "strings_ok m buf n strs"
  shows "ef2_vsnprintf m buf n format args = Some (int (min (length tx) 0x7FFFFFFF),
    if buf = 0 \<or> n = 0 then m else put_bytes m (unat buf) (take (unat n - 1) tx @ [0]))"
proof -
  have l: "length tx < 4294967296" using assms(2) by simp
  have pos: "(if w32 (length tx) < n then w32 (length tx) else n - 1) = w32 (length (take (unat n - 1) tx))"
    if "n \<noteq> 0"
    using that l by (auto simp: word_less_nat_alt unat_w32 min_def word_unat_eq_iff unat_minus_one)
  have "(out_mem m buf n tx)(buf + w32 (length (take (unat n - 1) tx)) := 0) =
      put_bytes m (unat buf) (take (unat n - 1) tx @ [0])" if "buf \<noteq> 0" "n \<noteq> 0"
    using that by (simp add: out_mem_def put_bytes_append flip: w32_add)
  then show ?thesis
    using vsnprintf_run [OF assms(1,3) apart_clear [OF assms(4) l assms(5) cstr_range [OF assms(3)]]
        strings_ok_clear [OF assms(4) l assms(6)]] pos out_rep_mem [OF assms(4) l, of m] l
    by (auto simp: Let_def) (simp_all add: out_mem_def)
qed

text \<open>
  C8: Formatting.  For a terminated format and terminated \<open>%s\<close> arguments that lie outside the
  buffer, \<open>ef2_vsnprintf\<close> ends; it returns the length of the full text of the format, capped
  at INT_MAX, and writes exactly the first \<open>size - 1\<close> characters of that text and a
  terminator, or nothing when the buffer is null or has no room.  The text is a function of
  the format, the argument slots and the strings behind the \<open>%s\<close> pointers.
\<close>

theorem vsnprintf_refines:
  assumes "spec_format strs fs args = Some tx" "length tx < 2 ^ 32"
    and "cstr m (unat format) fs" "buffer_ok buf n" "apart buf n (unat format) (length fs)"
    and "strings_ok m buf n strs"
  shows "ef2_vsnprintf m buf n format args = Some (int (min (length tx) 0x7FFFFFFF),
    if buf = 0 \<or> n = 0 then m else put_bytes m (unat buf) (take (unat n - 1) tx @ [0]))"
  by (rule vsnprintf_text [OF assms])

definition format_mem :: mem where
  "format_mem = put_bytes (\<lambda>a. 0) 16 (chars ''v=%04d'')"

theorem vsnprintf_refines_witness:
  "ef2_vsnprintf format_mem 100 5 (w32 16) [42] =
     Some (6, put_bytes format_mem 100 (chars ''v=00'' @ [0]))"
proof -
  have "digits_in 10 lower_table 42 = chars ''42''"
    by (simp add: digits_in.simps lower_table_def chars_def)
  then have "signed_field 4 48 42 = chars ''0042''"
    by (simp add: signed_field_def pad_field_def chars_def numeral_eq_Suc)
  moreover have "spec_directive [48, 52, 100] = (48, 4, EF2_FORMAT_DEFAULT, [100])"
    by (simp add: spec_directive_def)
  ultimately have "spec_format Map.empty (chars ''v=%04d'') [42] = Some (chars ''v=0042'')"
    by (simp add: spec_format.simps spec_conversion_def signed_value_def chars_def)
  moreover have "cstr format_mem (unat (w32 16)) (chars ''v=%04d'')"
    by (simp add: format_mem_def chars_def unat_w32 w32_eq_iff)
  moreover have "buffer_ok 100 5" "apart 100 5 (unat (w32 16)) (length (chars ''v=%04d''))"
    "strings_ok format_mem 100 5 Map.empty"
    by (simp_all add: buffer_ok_def apart_def strings_ok_def chars_def unat_w32)
  ultimately show ?thesis
    using vsnprintf_refines [of Map.empty "chars ''v=%04d''" "[42]" "chars ''v=0042''"
        format_mem "w32 16" 100 5]
    by (simp add: chars_def)
qed

text \<open>
  Number conversion.  The digit loops, which use neither division nor multiplication,
  write the digits of the 64-bit value in base 16 or 10, lower or upper case: read back they
  give the value, every digit is below the base, and there is no leading zero except for 0.
\<close>

theorem format_digits_roundtrip:
  "\<exists>ds. format_unsigned_digits v base upper = Some (map ((!) (if upper then upper_table else lower_table)) ds) \<and>
     read_digits (if base = 16 then 16 else 10) ds = unat v \<and>
     (\<forall>d \<in> set ds. d < (if base = 16 then 16 else 10)) \<and>
     ds \<noteq> [] \<and> length ds \<le> 20 \<and> (hd ds = 0 \<longrightarrow> ds = [0])"
proof -
  let ?b = "if base = 16 then 16 else 10 :: nat" and ?t = "if upper then upper_table else lower_table"
  have t: "?b \<le> length ?t" "distinct ?t" "2 \<le> ?b"
    by (simp_all add: lower_table_def upper_table_def chars_def)
  from digits_in_read [OF t(3,1,2), of "unat v"]
  obtain ds where ds: "digits_in ?b ?t (unat v) = map ((!) ?t) ds" "\<forall>d \<in> set ds. d < ?b"
    "read_digits ?b ds = unat v" "ds \<noteq> []" "hd ds = 0 \<longrightarrow> ds = [0]"
    by (elim exE conjE) (rule that; assumption)
  have "unat v < 2 ^ LENGTH(64)" by (rule unsigned_less)
  then have "unat v < ?b ^ 20" by simp
  then have "length (digits_in ?b ?t (unat v)) \<le> 20" by (rule digits_in_length [OF t(3)]) simp
  then have "length ds \<le> 20" using arg_cong [OF ds(1), of length] by simp
  moreover have "format_unsigned_digits v base upper = Some (map ((!) ?t) ds)"
    by (simp only: format_unsigned_digits_spec ds(1))
  ultimately show ?thesis
    by (intro exI [of _ ds] conjI ds) assumption+
qed

theorem format_digits_roundtrip_witness:
  "\<exists>ds. format_unsigned_digits 0xFF 16 True = Some (map ((!) upper_table) ds) \<and>
     read_digits 16 ds = 255 \<and> (\<forall>d \<in> set ds. d < 16)"
  using format_digits_roundtrip [of "0xFF" 16 True] by auto

lemma not_before: "j \<noteq> - 1 \<Longrightarrow> buf - 1 \<noteq> buf + (j :: u32)"
  by (metis add_left_cancel diff_conv_add_uminus)

text \<open>
  C9: Confinement.  Whatever the format and its arguments are, even when they overlap the
  buffer, \<open>ef2_vsnprintf\<close> changes no byte other than those of the buffer and the one before
  it, and nothing at all when the buffer is null or has no room.  For a format with a text,
  whose strings the output does not overwrite, the byte before the buffer is exact: a text of
  fewer than 2^32 characters leaves it alone, and a longer one, whose count has wrapped, puts
  there the last character that wrapped the count and returns the length modulo 2^32.
\<close>

theorem vsnprintf_confined:
  assumes "ef2_vsnprintf m buf n format args = Some (r, m')"
  shows "(buf = 0 \<or> n = 0 \<longrightarrow> m' = m) \<and>
    (\<forall>x. \<not> x - buf < n \<and> x \<noteq> buf - 1 \<longrightarrow> m' x = m x) \<and> 0 \<le> r \<and> r \<le> 0x7FFFFFFF \<and>
    (\<forall>strs fs tx. spec_format strs fs args = Some tx \<longrightarrow> cstr m (unat format) fs \<longrightarrow>
      clear_of buf n (length tx) (unat format) (length fs) \<longrightarrow>
      strings_clear m buf n (length tx) strs \<longrightarrow>
      r = int (min (length tx mod 2 ^ 32) 0x7FFFFFFF) \<and>
      m' (buf - 1) = (if buf = 0 \<or> n = 0 \<or> length tx < 2 ^ 32 then m (buf - 1)
        else tx ! (length tx div 2 ^ 32 * 2 ^ 32 - 1)))"
proof -
  obtain m1 out where o: "vsnprintf_loop (m, \<lparr>fo_buffer = buf, fo_size = n, fo_count = 0\<rparr>) format args = Some (m1, out)"
    "m' = (if fo_buffer out \<noteq> 0 \<and> fo_size out \<noteq> 0
           then m1(fo_buffer out + (if fo_count out < fo_size out then fo_count out else fo_size out - 1) := 0)
           else m1)"
    "r = (if fo_count out > 0x7FFFFFFF then 0x7FFFFFFF else int (unat (fo_count out)))"
    using assms by (auto simp: ef2_vsnprintf_def Let_def split: bind_splits)
  have "confined m buf n (m, \<lparr>fo_buffer = buf, fo_size = n, fo_count = 0\<rparr>)"
    by (simp add: confined_def)
  then have c: "confined m buf n (m1, out)" using confined_loop [OF o(1)] by blast
  have "fo_size out - 1 < fo_size out" if "fo_size out \<noteq> 0"
    using u32_pred_less [OF that] by (simp add: word_less_nat_alt)
  then have out: "buf = 0 \<or> n = 0 \<or> \<not> x - buf < n \<and> x \<noteq> buf - 1 \<Longrightarrow> m' x = m x" for x
    using c o(2) by (auto simp: confined_def split: if_splits)
  have r: "0 \<le> r \<and> r \<le> 0x7FFFFFFF"
  proof (cases "fo_count out > 0x7FFFFFFF")
    case False
    then have "unat (fo_count out) \<le> 2147483647" by (simp add: word_less_nat_alt)
    then show ?thesis unfolding o(3) using False by (simp only: if_False) linarith
  qed (use o(3) in simp)
  have wrap: "r = int (min (length tx mod 2 ^ 32) 0x7FFFFFFF) \<and>
      m' (buf - 1) = (if buf = 0 \<or> n = 0 \<or> length tx < 2 ^ 32 then m (buf - 1)
        else tx ! (length tx div 2 ^ 32 * 2 ^ 32 - 1))"
    if t: "spec_format strs fs args = Some tx" "cstr m (unat format) fs"
      "clear_of buf n (length tx) (unat format) (length fs)" "strings_clear m buf n (length tx) strs"
    for strs fs tx
  proof (cases "buf = 0 \<or> n = 0")
    case True
    then have "m' (buf - 1) = m (buf - 1)" using out by blast
    then show ?thesis using vsnprintf_run [OF t] assms True by auto
  next
    case False
    then have nz: "buf \<noteq> 0" "n \<noteq> 0" by auto
    let ?i = "if w32 (length tx) < n then w32 (length tx) else n - 1"
    have "?i < n" using u32_pred_less [OF nz(2)] by (simp add: word_less_nat_alt)
    then have "?i \<noteq> - 1" by (auto simp: not_less)
    then have "buf - 1 \<noteq> buf + ?i" by (rule not_before)
    then show ?thesis
      using vsnprintf_run [OF t] assms nz out_rep_before [OF nz, of m tx] by (simp add: Let_def)
  qed
  show ?thesis using out r wrap by blast
qed

text \<open>A format of two strings of 2^31 characters each: the count wraps to zero.\<close>

definition big :: nat where
  "big = 2147483648"

definition big_mem :: mem where
  "big_mem = (\<lambda>a. if 4096 \<le> unat a \<and> unat a < 4096 + big then 65 else
    if a = 16 \<or> a = 18 then 37 else if a = 17 \<or> a = 19 then 115 else 0)"

lemma cstr_replicate:
  "(\<And>i. i < k \<Longrightarrow> m (w32 (p + i)) = c) \<Longrightarrow> c \<noteq> 0 \<Longrightarrow> m (w32 (p + k)) = 0 \<Longrightarrow> p + k < 4294967296 \<Longrightarrow>
   cstr m p (replicate k c)"
proof (induction k arbitrary: p)
  case (Suc k)
  have "cstr m (Suc p) (replicate k c)"
  proof (rule Suc.IH)
    show "m (w32 (Suc p + i)) = c" if "i < k" for i using Suc.prems(1) [of "Suc i"] that by simp
  qed (use Suc.prems in auto)
  then show ?case using Suc.prems(1) [of 0] Suc.prems(2,4) by simp
qed simp

theorem vsnprintf_confined_witness:
  "\<exists>m'. ef2_vsnprintf big_mem 0x90000000 5 16 [4096, 4096] = Some (0, m') \<and>
     big_mem 0x8FFFFFFF = 0 \<and> m' 0x8FFFFFFF = 65 \<and> m' 0x8FFFFFFE = 0"
proof -
  let ?strs = "[4096 \<mapsto> replicate big 65] :: u32 \<rightharpoonup> u8 list"
  let ?tx = "replicate big 65 @ replicate big (65 :: u8)"
  have l: "length ?tx = 2 ^ 32" by (simp add: big_def)
  have tx: "spec_format ?strs (chars ''%s%s'') [4096, 4096] = Some ?tx"
    by (simp add: spec_format.simps spec_directive_def spec_conversion_def pad_field_def chars_def)
  have fs: "cstr big_mem (unat (16 :: u32)) (chars ''%s%s'')"
    by (simp add: big_mem_def big_def chars_def unat_w32 w32_numeral w32_def)
  have s: "cstr big_mem 4096 (replicate big 65)"
    by (rule cstr_replicate) (auto simp: big_mem_def big_def unat_w32 word_unat_eq_iff)
  have far: "\<not> w32 x - 0x90000000 < 5 \<and> w32 x \<noteq> 0x8FFFFFFF" if "x \<le> 4096 + big" for x
    using that unat_w32 [of x] by (auto simp: word_less_nat_alt word_unat_eq_iff unat_sub_if' big_def)
  have c: "clear_of 0x90000000 5 (length ?tx) (unat (16 :: u32)) (length (chars ''%s%s''))"
    using far by (auto simp: clear_of_def reached_def chars_def big_def)
  have "clear_of 0x90000000 5 (length ?tx) 4096 big"
    using far by (auto simp: clear_of_def reached_def)
  then have c2: "strings_clear big_mem 0x90000000 5 (length ?tx) ?strs"
    using s by (auto simp: strings_clear_def)
  obtain r m' where e: "ef2_vsnprintf big_mem 0x90000000 5 16 [4096, 4096] = Some (r, m')"
    using vsnprintf_run [OF tx fs c c2] by blast
  note v = vsnprintf_confined [OF e]
  have i: "?tx ! 4294967295 = 65" by (simp add: nth_append big_def)
  have "r = 0" "m' 0x8FFFFFFF = 65" using v tx fs c c2 l i by (auto simp del: length_append)
  moreover have "m' 0x8FFFFFFE = big_mem 0x8FFFFFFE" using v by simp
  ultimately show ?thesis using e by (simp add: big_mem_def big_def)
qed

end
