(* ===== verification/LibcStdio.thy ===== *)
theory LibcStdio
  imports LibcAlloc HeapArena FormatProps
begin

text \<open>
  The output streams of \<open>src/ee/runtime/libc_stdio.c\<close>.  A write function is called with its
  context, the memory it reads from, the address and the size, and changes a sink state;
  its signed result is a 32-bit word.  The automatic array \<open>stack_buffer\<close> of \<open>ef2_vfprintf\<close>
  lies at an address that is a parameter.
\<close>

type_synonym 's write_fn = "u32 \<Rightarrow> mem \<Rightarrow> u32 \<Rightarrow> u32 \<Rightarrow> 's \<Rightarrow> u32 \<times> 's"

record 's ef2_FILE =
  file_write :: "'s write_fn option"
  file_context :: u32

record 's streams =
  ef2_stdout_stream :: "'s ef2_FILE"
  ef2_stderr_stream :: "'s ef2_FILE"

definition EF2_STDIO_STACK_BUFFER :: u32 where "EF2_STDIO_STACK_BUFFER = 256"

definition initial_streams :: "'s streams" where
  "initial_streams = \<lparr>ef2_stdout_stream = \<lparr>file_write = None, file_context = 0\<rparr>,
     ef2_stderr_stream = \<lparr>file_write = None, file_context = 0\<rparr>\<rparr>"

definition set_stream :: "'s write_fn option \<Rightarrow> u32 \<Rightarrow> 's ef2_FILE \<Rightarrow> 's ef2_FILE" where
  "set_stream write context stream = stream\<lparr>file_write := write, file_context := context\<rparr>"

definition ef2_stdio_set_stdout :: "'s write_fn option \<Rightarrow> u32 \<Rightarrow> 's streams \<Rightarrow> 's streams" where
  "ef2_stdio_set_stdout write context st =
    st\<lparr>ef2_stdout_stream := set_stream write context (ef2_stdout_stream st)\<rparr>"

definition ef2_stdio_set_stderr :: "'s write_fn option \<Rightarrow> u32 \<Rightarrow> 's streams \<Rightarrow> 's streams" where
  "ef2_stdio_set_stderr write context st =
    st\<lparr>ef2_stderr_stream := set_stream write context (ef2_stderr_stream st)\<rparr>"

text \<open>A stream pointer is an option, \<open>None\<close> the null pointer.\<close>

function write_loop ::
  "'s write_fn \<Rightarrow> u32 \<Rightarrow> mem \<Rightarrow> u32 \<Rightarrow> u32 \<Rightarrow> u32 \<Rightarrow> 's \<Rightarrow> s32 \<times> 's" where
  "write_loop write context m data n written s =
    (if written < n then
       let (result, s') = write context m (data + written) (n - written) s
       in if result \<le>s 0 then (-1, s')
          else if result > n - written then (-1, s')
          else write_loop write context m data n (written + result) s'
     else if written > 0x7FFFFFFF then (0x7FFFFFFF, s)
     else (int (unat written), s))"
  by pat_completeness auto
termination
proof (relation "measure (\<lambda>(f, c, m, d, n, w, s). unat (n - w))", goal_cases)
  case (2 f c m d n w s p r s')
  then have "r \<noteq> 0" "r \<le> n - w" by auto
  then have "0 < unat r" "unat r \<le> unat (n - w)"
    by (simp_all add: unat_gt_0 word_le_nat_alt)
  then have "unat (n - w - r) < unat (n - w)" using \<open>r \<le> n - w\<close> by (simp only: unat_sub)
  then show ?case by (simp add: diff_diff_eq)
qed simp

declare write_loop.simps [simp del]

definition write_all ::
  "'s ef2_FILE option \<Rightarrow> mem \<Rightarrow> u32 \<Rightarrow> u32 \<Rightarrow> 's \<Rightarrow> s32 \<times> 's" where
  "write_all stream m data n s =
    (case stream of None \<Rightarrow> (-1, s)
     | Some f \<Rightarrow> (case file_write f of None \<Rightarrow> (-1, s)
        | Some write \<Rightarrow> write_loop write (file_context f) m data n 0 s))"

definition ef2_vfprintf ::
  "u32 \<Rightarrow> 's ef2_FILE option \<Rightarrow> u32 \<Rightarrow> va_list \<Rightarrow> heap \<Rightarrow> 's \<Rightarrow> (s32 \<times> heap \<times> 's) option" where
  "ef2_vfprintf stack_buffer stream format args h s =
    (if stream = None \<or> format = 0 then Some (-1, h, s)
     else
       do { (needed, m0) \<leftarrow> ef2_vsnprintf (hmem h) 0 0 format args;
            if needed < 0 then Some (-1, h\<lparr>hmem := m0\<rparr>, s)
            else
              let h0 = h\<lparr>hmem := m0\<rparr>; capacity = word_of_int needed + 1 :: u32;
                  dynamic = capacity > EF2_STDIO_STACK_BUFFER
              in do { (buffer, h1) \<leftarrow> (if dynamic then ef2_malloc h0 capacity else Some (stack_buffer, h0));
                   if dynamic \<and> buffer = 0 then Some (-1, h1, s)
                   else
                     do { (formatted, m1) \<leftarrow> ef2_vsnprintf (hmem h1) buffer capacity format args;
                          let h2 = h1\<lparr>hmem := m1\<rparr>
                          in if formatted < 0 then Some (-1, if dynamic then ef2_free h2 buffer else h2, s)
                             else
                               let (result, s') = write_all stream (hmem h2) buffer (word_of_int formatted) s;
                                   h3 = (if dynamic then ef2_free h2 buffer else h2)
                               in Some (if result < 0 then -1 else formatted, h3, s') } } })"

definition ef2_fprintf ::
  "u32 \<Rightarrow> 's ef2_FILE option \<Rightarrow> u32 \<Rightarrow> va_list \<Rightarrow> heap \<Rightarrow> 's \<Rightarrow> (s32 \<times> heap \<times> 's) option" where
  "ef2_fprintf stack_buffer stream format args h s = ef2_vfprintf stack_buffer stream format args h s"

definition ef2_vprintf ::
  "u32 \<Rightarrow> 's streams \<Rightarrow> u32 \<Rightarrow> va_list \<Rightarrow> heap \<Rightarrow> 's \<Rightarrow> (s32 \<times> heap \<times> 's) option" where
  "ef2_vprintf stack_buffer st format args h s =
    ef2_vfprintf stack_buffer (Some (ef2_stdout_stream st)) format args h s"

definition ef2_printf ::
  "u32 \<Rightarrow> 's streams \<Rightarrow> u32 \<Rightarrow> va_list \<Rightarrow> heap \<Rightarrow> 's \<Rightarrow> (s32 \<times> heap \<times> 's) option" where
  "ef2_printf stack_buffer st format args h s = ef2_vprintf stack_buffer st format args h s"

text \<open>The newline literal of \<open>ef2_puts\<close> lies at the address \<open>newline\<close>.\<close>

definition ef2_puts :: "u32 \<Rightarrow> 's streams \<Rightarrow> mem \<Rightarrow> u32 \<Rightarrow> 's \<Rightarrow> (s32 \<times> 's) option" where
  "ef2_puts newline st m text s =
    (if text = 0 then Some (-1, s)
     else
       do { len \<leftarrow> ef2_strlen m text;
            let (r, s') = write_all (Some (ef2_stdout_stream st)) m text len s
            in if r < 0 then Some (-1, s')
               else
                 let (r', s'') = write_all (Some (ef2_stdout_stream st)) m newline 1 s'
                 in if r' < 0 then Some (-1, s'')
                    else if len \<ge> 0x7FFFFFFF then Some (0x7FFFFFFF, s'')
                    else Some (int (unat len) + 1, s'') })"

section \<open>The standard names\<close>

definition libc_vfprintf ::
  "u32 \<Rightarrow> 's ef2_FILE option \<Rightarrow> u32 \<Rightarrow> va_list \<Rightarrow> heap \<Rightarrow> 's \<Rightarrow> (s32 \<times> heap \<times> 's) option" where
  "libc_vfprintf stack_buffer stream format args h s = ef2_vfprintf stack_buffer stream format args h s"
definition libc_fprintf ::
  "u32 \<Rightarrow> 's ef2_FILE option \<Rightarrow> u32 \<Rightarrow> va_list \<Rightarrow> heap \<Rightarrow> 's \<Rightarrow> (s32 \<times> heap \<times> 's) option" where
  "libc_fprintf stack_buffer stream format args h s = ef2_vfprintf stack_buffer stream format args h s"
definition libc_vprintf ::
  "u32 \<Rightarrow> 's streams \<Rightarrow> u32 \<Rightarrow> va_list \<Rightarrow> heap \<Rightarrow> 's \<Rightarrow> (s32 \<times> heap \<times> 's) option" where
  "libc_vprintf stack_buffer st format args h s = ef2_vprintf stack_buffer st format args h s"
definition libc_printf ::
  "u32 \<Rightarrow> 's streams \<Rightarrow> u32 \<Rightarrow> va_list \<Rightarrow> heap \<Rightarrow> 's \<Rightarrow> (s32 \<times> heap \<times> 's) option" where
  "libc_printf stack_buffer st format args h s = ef2_vprintf stack_buffer st format args h s"
definition libc_puts :: "u32 \<Rightarrow> 's streams \<Rightarrow> mem \<Rightarrow> u32 \<Rightarrow> 's \<Rightarrow> (s32 \<times> 's) option" where
  "libc_puts newline st m text s = ef2_puts newline st m text s"

end
