(* ===== verification/StdioSpec.thy ===== *)
theory StdioSpec
  imports LibcStdio
begin

text \<open>
  What the streams promise: the contract of a write function as the locale \<open>sink\<close>, the
  delivery of a whole buffer through it, and the delivery of a formatted text by
  \<open>ef2_vfprintf\<close>, which takes a heap buffer for a long text and gives it back.
\<close>

section \<open>Memory facts\<close>

lemma bytes_at_cong: "(\<And>k. k < n \<Longrightarrow> m' (w32 (q + k)) = m (w32 (p + k))) \<Longrightarrow> bytes_at m' q n = bytes_at m p n"
  by (rule nth_equalityI) auto

lemma bytes_at_add: "bytes_at m p (i + j) = bytes_at m p i @ bytes_at m (p + i) j"
  by (rule nth_equalityI) (auto simp: nth_append add.assoc)

lemma bytes_at_word: "bytes_at m (unat (p + q :: u32)) n = bytes_at m (unat p + unat q) n"
proof (rule bytes_at_cong)
  fix k
  have "w32 (unat (p + q) + k) = (p + q) + w32 k" by (simp flip: w32_add)
  also have "\<dots> = w32 (unat p + unat q + k)" by (simp flip: w32_add)
  finally show "m (w32 (unat (p + q) + k)) = m (w32 (unat p + unat q + k))" by simp
qed

lemma cstr_cong:
  "(\<And>k. p \<le> k \<Longrightarrow> k \<le> p + length s \<Longrightarrow> m' (w32 k) = m (w32 k)) \<Longrightarrow> cstr m p s \<Longrightarrow> cstr m' p s"
  by (induction s arbitrary: p) auto

definition readable :: "mem \<Rightarrow> nat set \<Rightarrow> nat \<Rightarrow> u8 list \<Rightarrow> bool" where
  "readable m A p s \<longleftrightarrow> cstr m p s \<and> {p..p + length s} \<inter> A = {}"

definition readable_strings :: "mem \<Rightarrow> nat set \<Rightarrow> (u32 \<rightharpoonup> u8 list) \<Rightarrow> bool" where
  "readable_strings m A strs \<longleftrightarrow> (\<forall>p s. strs p = Some s \<longrightarrow> readable m A (unat p) s)"

text \<open>Two memories that agree outside \<open>A\<close>.\<close>

definition agree_outside :: "nat set \<Rightarrow> mem \<Rightarrow> mem \<Rightarrow> bool" where
  "agree_outside A m m' \<longleftrightarrow> (\<forall>k < 4294967296. k \<notin> A \<longrightarrow> m' (w32 k) = m (w32 k))"

lemma agree_outside_refl [simp]: "agree_outside A m m"
  by (simp add: agree_outside_def)

lemma agree_outside_trans:
  "agree_outside A m m1 \<Longrightarrow> agree_outside A m1 m2 \<Longrightarrow> agree_outside A m m2"
  by (simp add: agree_outside_def)

lemma agree_outside_mono: "agree_outside B m m' \<Longrightarrow> B \<subseteq> A \<Longrightarrow> agree_outside A m m'"
  unfolding agree_outside_def by blast

lemma readable_agree: "readable m A p s \<Longrightarrow> agree_outside A m m' \<Longrightarrow> readable m' A p s"
  unfolding readable_def
proof (elim conjE, intro conjI)
  assume c: "cstr m p s" "agree_outside A m m'" "{p..p + length s} \<inter> A = {}"
  show "cstr m' p s"
  proof (rule cstr_cong [OF _ c(1)])
    fix k assume "p \<le> k" "k \<le> p + length s"
    then have "k < 4294967296" "k \<notin> A" using cstr_bound [OF c(1)] c(3) by auto
    then show "m' (w32 k) = m (w32 k)" using c(2) by (simp add: agree_outside_def)
  qed
qed

lemma readable_apart:
  "readable m A p s \<Longrightarrow> {unat buf..<unat buf + unat n} \<subseteq> A \<Longrightarrow> apart buf n p (length s)"
proof -
  assume r: "readable m A p s" and A: "{unat buf..<unat buf + unat n} \<subseteq> A"
  show ?thesis
  proof (rule ccontr)
    assume n: "\<not> apart buf n p (length s)"
    then have b: "unat buf \<le> p + length s" "p < unat buf + unat n" "0 < unat n"
      by (auto simp: apart_def unat_gt_0)
    then have "max p (unat buf) \<in> {unat buf..<unat buf + unat n}" by simp
    then have "max p (unat buf) \<in> A" using A by blast
    moreover have "max p (unat buf) \<in> {p..p + length s}" using b by simp
    ultimately show False using r unfolding readable_def by blast
  qed
qed

lemma readable_strings_ok:
  assumes "readable_strings m A strs" "{unat buf..<unat buf + unat n} \<subseteq> A"
  shows "strings_ok m buf n strs"
  unfolding strings_ok_def
proof (intro allI impI)
  fix p s
  assume "strs p = Some s"
  then have r: "readable m A (unat p) s" using assms(1) by (simp add: readable_strings_def)
  then show "cstr m (unat p) s \<and> apart buf n (unat p) (length s)"
    using readable_apart [OF r assms(2)] by (simp add: readable_def)
qed

lemma put_bytes_agree:
  "p + length bs \<le> 4294967296 \<Longrightarrow> {p..<p + length bs} \<subseteq> A \<Longrightarrow> agree_outside A m (put_bytes m p bs)"
  unfolding agree_outside_def by (auto simp: put_bytes_apply)

section \<open>Writing around the heap\<close>

lemma heap_inv_outside_write:
  assumes "heap_inv h base bs" "agree_outside B (hmem h) m" "B \<inter> heap_arena h = {}"
  shows "heap_inv (h\<lparr>hmem := m\<rparr>) base bs"
proof -
  have "m (w32 k) = hmem h (w32 k)" if "k \<in> headers base bs" for k
  proof -
    have "k \<in> heap_arena h" "k < 4294967296"
      using that headers_range [of base bs] heap_inv_arena [OF assms(1)] by auto
    then show ?thesis using assms(2,3) by (auto simp: agree_outside_def)
  qed
  then have "hseg m 0 base 0 bs = hseg (hmem h) 0 base 0 bs" by (rule hseg_cong)
  then show ?thesis using assms(1) by (simp add: heap_inv_def hlist_def)
qed

text \<open>
  A call leaves the heap as it was: the same payloads are live with the same contents, and
  the memory agrees outside the heap and the scratch area \<open>B\<close>.
\<close>

definition heap_kept :: "nat \<Rightarrow> blocks \<Rightarrow> nat set \<Rightarrow> heap \<Rightarrow> heap \<Rightarrow> bool" where
  "heap_kept base bs B h h' \<longleftrightarrow> (\<exists>bs'. heap_inv h' base bs' \<and> allocs base bs' = allocs base bs \<and>
     heap_arena h' = heap_arena h \<and>
     (\<forall>q t. (q, t) \<in> allocs base bs \<longrightarrow> same_bytes (hmem h) (hmem h') q t) \<and>
     agree_outside (heap_arena h \<union> B) (hmem h) (hmem h'))"

lemma heap_kept_refl: "heap_inv h base bs \<Longrightarrow> heap_kept base bs B h h"
  by (auto simp: heap_kept_def same_bytes_def)

lemma heap_kept_stack:
  assumes inv: "heap_inv h base bs" and B: "B \<inter> heap_arena h = {}" "agree_outside B (hmem h) m"
  shows "heap_kept base bs B h (h\<lparr>hmem := m\<rparr>)"
  unfolding heap_kept_def
proof (intro exI conjI allI impI)
  show "heap_inv (h\<lparr>hmem := m\<rparr>) base bs" by (rule heap_inv_outside_write [OF inv B(2,1)])
  show "heap_arena (h\<lparr>hmem := m\<rparr>) = heap_arena h" by (simp add: heap_arena_def)
  show "agree_outside (heap_arena h \<union> B) (hmem h) (hmem (h\<lparr>hmem := m\<rparr>))"
    using B(2) by (auto simp: agree_outside_def)
  fix q t assume q: "(q, t) \<in> allocs base bs"
  have "{q..<q + t} \<subseteq> heap_arena h" "q + t < 4294967296"
    using allocs_range [OF q] heap_inv_arena [OF inv] by auto
  then show "same_bytes (hmem h) (hmem (h\<lparr>hmem := m\<rparr>)) q t"
    unfolding same_bytes_def
  proof (intro allI impI)
    fix k assume "k < t"
    then have "q + k \<in> heap_arena h" "q + k < 4294967296"
      using \<open>{q..<q + t} \<subseteq> heap_arena h\<close> \<open>q + t < 4294967296\<close> by auto
    then show "hmem (h\<lparr>hmem := m\<rparr>) (w32 (q + k)) = hmem h (w32 (q + k))"
      using B unfolding agree_outside_def by auto
  qed
qed simp

lemma heap_kept_temporary:
  assumes inv: "heap_inv h base bs" and p: "ef2_malloc h n = Some (p, h1)" "p \<noteq> 0"
    and m: "agree_outside {unat p..<unat p + unat n} (hmem h1) m"
  shows "heap_kept base bs B h (ef2_free (h1\<lparr>hmem := m\<rparr>) p)"
proof -
  have rel: "heap_rel h (base, bs)" using inv by (simp add: heap_rel_def)
  have m': "m (w32 k) = hmem h1 (w32 k)" if "k < 4294967296" "\<not> (unat p \<le> k \<and> k < unat p + unat n)" for k
    using m that by (simp add: agree_outside_def)
  obtain a' where a': "heap_rel (ef2_free (heap_put m h1) p) a'" "heap_live a' = heap_live (base, bs)"
    "\<forall>q t. (q, t) \<in> heap_live (base, bs) \<longrightarrow>
       same_bytes (hmem h) (hmem (ef2_free (heap_put m h1) p)) q t"
    using heap_alloc.temporary_buffer [OF rel p m'] by blast
  have out: "agree_outside (heap_arena h \<union> B) (hmem h) (hmem (ef2_free (heap_put m h1) p))"
    unfolding agree_outside_def using heap_arena.arena_buffer_outside [OF rel p m'] by auto
  have put: "heap_put m h1 = h1\<lparr>hmem := m\<rparr>" by (simp add: heap_put_def)
  have first: "g_heap_first (ef2_free (h1\<lparr>hmem := m\<rparr>) p) = g_heap_first h"
    "g_heap_total (ef2_free (h1\<lparr>hmem := m\<rparr>) p) = g_heap_total h"
    using p(1) by (auto simp: ef2_malloc_def ef2_free_def Let_def split: if_splits option.splits)
  have "fst a' = base"
  proof -
    have "w32 (fst a') = w32 base"
      using a'(1) inv first(1) by (simp add: heap_rel_def heap_inv_def put)
    moreover have "fst a' + span (snd a') < 4294967296" "base + span bs < 4294967296"
      using a'(1) inv by (auto simp: heap_rel_def heap_inv_def hlist_def)
    ultimately show ?thesis by (simp add: w32_eq_iff)
  qed
  then have "heap_inv (ef2_free (h1\<lparr>hmem := m\<rparr>) p) base (snd a')" "allocs base (snd a') = allocs base bs"
    using a'(1,2) by (auto simp: heap_rel_def heap_live_def put)
  moreover have "heap_arena (ef2_free (h1\<lparr>hmem := m\<rparr>) p) = heap_arena h"
    using first by (simp add: heap_arena_def)
  ultimately show ?thesis
    using a'(3) out unfolding heap_kept_def heap_live_def put by (intro exI [of _ "snd a'"]) simp
qed

lemma readable_mono: "readable m A p s \<Longrightarrow> B \<subseteq> A \<Longrightarrow> readable m B p s"
  by (auto simp: readable_def)

lemma heap_keptE:
  assumes "heap_kept base bs B h h'"
  obtains bs' where "heap_inv h' base bs'" "allocs base bs' = allocs base bs"
    "heap_arena h' = heap_arena h"
    "\<And>q t. (q, t) \<in> allocs base bs \<Longrightarrow> same_bytes (hmem h) (hmem h') q t"
    "agree_outside (heap_arena h \<union> B) (hmem h) (hmem h')"
  using assms unfolding heap_kept_def by blast

lemma heap_kept_trans:
  assumes "heap_kept base bs B h h1" "heap_kept base bs1 C h1 h2"
    "allocs base bs1 = allocs base bs" "heap_arena h1 = heap_arena h" "B \<subseteq> E" "C \<subseteq> E"
  shows "heap_kept base bs E h h2"
proof -
  obtain bs2 where 2: "heap_inv h2 base bs2" "allocs base bs2 = allocs base bs1"
    "heap_arena h2 = heap_arena h1"
    "\<And>q t. (q, t) \<in> allocs base bs1 \<Longrightarrow> same_bytes (hmem h1) (hmem h2) q t"
    "agree_outside (heap_arena h1 \<union> C) (hmem h1) (hmem h2)"
    using assms(2) unfolding heap_kept_def by blast
  have 1: "\<And>q t. (q, t) \<in> allocs base bs \<Longrightarrow> same_bytes (hmem h) (hmem h1) q t"
    "agree_outside (heap_arena h \<union> B) (hmem h) (hmem h1)"
    using assms(1) unfolding heap_kept_def by blast+
  have "agree_outside (heap_arena h \<union> E) (hmem h) (hmem h2)"
    using agree_outside_mono [OF 1(2), of "heap_arena h \<union> E"]
      agree_outside_mono [OF 2(5), of "heap_arena h \<union> E"] assms(4-6)
    by (blast intro: agree_outside_trans)
  moreover have "same_bytes (hmem h) (hmem h2) q t" if "(q, t) \<in> allocs base bs" for q t
    by (rule same_bytes_trans [OF 1(1) [OF that] 2(4)]) (use that assms(3) in simp)
  ultimately show ?thesis
    unfolding heap_kept_def using 2(1-3) assms(3,4) by (intro exI [of _ bs2]) simp
qed

section \<open>Sinks\<close>

text \<open>
  A formatted print of 256 characters or more goes through the heap and is dropped exactly
  when there is no room for it and its terminator.
\<close>

definition print_dropped :: "heap \<Rightarrow> nat \<Rightarrow> bool" where
  "print_dropped h k \<longleftrightarrow> 256 \<le> k \<and> ef2_malloc h (w32 (Suc k)) = Some (0, h)"

definition printed :: "heap \<Rightarrow> u8 list \<Rightarrow> u8 list" where
  "printed h tx = (if print_dropped h (length tx) then [] else tx)"

text \<open>
  What a stream needs of its write function: it accepts at least one and at most all of the
  bytes offered and appends them to what it has recorded.
\<close>

locale sink =
  fixes wr :: "'s write_fn" and rel :: "'s \<Rightarrow> u8 list \<Rightarrow> bool"
  assumes write_accepts: "rel s xs \<Longrightarrow> 0 < n \<Longrightarrow> unat n \<le> 0x7FFFFFFF \<Longrightarrow>
    p \<noteq> 0 \<Longrightarrow> unat p + unat n \<le> 4294967296 \<Longrightarrow>
    wr c m p n s = (r, s') \<Longrightarrow> 0 <s r \<and> r \<le> n \<and> rel s' (xs @ bytes_at m (unat p) (unat r))"
begin

lemma write_loop_delivers:
  "rel s xs \<Longrightarrow> unat n \<le> 0x7FFFFFFF \<Longrightarrow> written \<le> n \<Longrightarrow>
   p \<noteq> 0 \<Longrightarrow> unat p + unat n \<le> 4294967296 \<Longrightarrow>
   \<exists>s'. write_loop wr c m p n written s = (int (unat n), s') \<and>
     rel s' (xs @ bytes_at m (unat p + unat written) (unat n - unat written))"
proof (induction "unat (n - written)" arbitrary: written s xs rule: less_induct)
  case less
  show ?case
  proof (cases "written < n")
    case False
    then have "written = n" using less.prems(3) by simp
    then show ?thesis
      using less.prems by (subst write_loop.simps) (auto simp: word_less_nat_alt)
  next
    case True
    obtain r s1 where w: "wr c m (p + written) (n - written) s = (r, s1)" by fastforce
    have u: "unat (n - written) = unat n - unat written" using less.prems(3) by (simp add: unat_sub)
    have "0 < n - written" using True by (simp add: word_gt_0)
    moreover have "unat (n - written) \<le> 0x7FFFFFFF" using u less.prems(2) by simp
    moreover have pw: "unat (p + written) = unat p + unat written"
      using less.prems(5) True by (intro unat_add_no_overflow) (auto simp: word_less_nat_alt)
    moreover have "p + written \<noteq> 0"
    proof
      assume "p + written = 0"
      then have "unat p = 0" using pw by simp
      then show False using less.prems(4) by (simp add: unat_eq_zero)
    qed
    ultimately have r: "0 <s r" "r \<le> n - written"
      "rel s1 (xs @ bytes_at m (unat p + unat written) (unat r))"
      using write_accepts [OF less.prems(1) _ _ _ _ w] u less.prems(5)
        less.prems(3) [unfolded word_le_nat_alt] by auto
    have "r \<noteq> 0" using r(1) by auto
    then have r0: "0 < unat r" by (simp add: unat_gt_0)
    have le: "unat r \<le> unat n - unat written" using r(2) u by (simp add: word_le_nat_alt)
    have wru: "unat (written + r) = unat written + unat r"
      using le less.prems(2,3) by (intro unat_add_no_overflow) (auto simp: word_le_nat_alt)
    have "written + r \<le> n"
      using wru le True by (simp add: word_le_nat_alt word_less_nat_alt)
    moreover have "unat (n - (written + r)) < unat (n - written)"
      using r0 wru le True u calculation unat_sub [of "written + r" n]
      by (simp add: word_less_nat_alt)
    ultimately obtain s' where s': "write_loop wr c m p n (written + r) s1 = (int (unat n), s')"
      "rel s' ((xs @ bytes_at m (unat p + unat written) (unat r)) @
        bytes_at m (unat p + unat (written + r)) (unat n - unat (written + r)))"
      using less.hyps [of "written + r" s1] less.prems(2,4,5) r(3) by blast
    have "unat n - unat written = unat r + (unat n - unat (written + r))" using wru le by simp
    then have "rel s' (xs @ bytes_at m (unat p + unat written) (unat n - unat written))"
      using s'(2) wru by (simp add: bytes_at_add add.assoc)
    moreover have "\<not> r \<le>s 0" using r(1) by (simp add: word_sle_eq word_sless_alt)
    moreover have "\<not> n - written < r" using r(2) by simp
    ultimately show ?thesis
      using True s'(1) by (subst write_loop.simps) (simp add: w)
  qed
qed

lemma write_all_delivers:
  assumes "rel s xs" "unat n \<le> 0x7FFFFFFF" "file_write f = Some wr"
    "p \<noteq> 0" "unat p + unat n \<le> 4294967296"
  shows "\<exists>s'. write_all (Some f) m p n s = (int (unat n), s') \<and> rel s' (xs @ bytes_at m (unat p) (unat n))"
  using write_loop_delivers [OF assms(1,2) _ assms(4,5), of 0] assms(3) by (simp add: write_all_def)

text \<open>
  \<open>ef2_vfprintf\<close> measures the text, formats it into the stack array or a heap buffer, hands
  it to the stream and gives the buffer back.
\<close>

lemma vfprintf_delivers:
  assumes inv: "heap_inv h base bs" and s: "rel s xs" and f: "file_write f = Some wr"
    and tx: "spec_format strs fs args = Some tx" "length tx < 0x7FFFFFFF" and nz: "format \<noteq> 0"
    and stk: "stk \<noteq> 0" "unat stk + 256 \<le> 4294967296" "B = {unat stk..<unat stk + 256}"
      "B \<inter> heap_arena h = {}"
    and fmt: "readable (hmem h) (heap_arena h \<union> B) (unat format) fs"
    and strs: "readable_strings (hmem h) (heap_arena h \<union> B) strs"
  shows "\<exists>r h' s'. ef2_vfprintf stk (Some f) format args h s = Some (r, h', s') \<and>
    heap_kept base bs B h h' \<and>
    (if print_dropped h (length tx) then r = -1 \<and> h' = h \<and> s' = s
     else r = int (length tx) \<and> rel s' (xs @ tx))"
proof -
  let ?A = "heap_arena h \<union> B" and ?cap = "w32 (Suc (length tx))"
  have l: "length tx < 4294967296" using tx(2) by simp
  have cap: "unat ?cap = Suc (length tx)" using tx(2) by (simp add: unat_w32)
  have cs: "cstr (hmem h) (unat format) fs" using fmt by (simp add: readable_def)
  have "strings_ok (hmem h) 0 0 strs" by (rule readable_strings_ok [OF strs]) simp
  then have measure: "ef2_vsnprintf (hmem h) 0 0 format args = Some (int (length tx), hmem h)"
    using vsnprintf_text [OF tx(1) _ cs, of 0 0] tx(2) by (simp add: buffer_ok_def apart_def)
  have formatted: "ef2_vsnprintf m buf ?cap format args =
      Some (int (length tx), put_bytes m (unat buf) (tx @ [0]))"
    if m: "agree_outside ?A (hmem h) m" and b: "buf \<noteq> 0" "unat buf + Suc (length tx) \<le> 4294967296"
      "{unat buf..<unat buf + Suc (length tx)} \<subseteq> ?A" for m buf
  proof -
    have "{unat buf..<unat buf + unat ?cap} \<subseteq> ?A" using b(3) cap by simp
    then have A: "{unat buf..<unat buf + unat ?cap} \<subseteq> ?A" .
    have "readable_strings m ?A strs"
      using strs readable_agree [OF _ m] unfolding readable_strings_def by blast
    then have so: "strings_ok m buf ?cap strs" by (rule readable_strings_ok [OF _ A])
    have r: "readable m ?A (unat format) fs" by (rule readable_agree [OF fmt m])
    have "?cap \<noteq> 0" using cap by auto
    then show ?thesis
      using vsnprintf_text [OF tx(1) _ _ _ readable_apart [OF r A] so] r b(1,2) cap tx(2)
      by (simp add: buffer_ok_def readable_def)
  qed
  have written: "bytes_at (put_bytes m (unat buf) (tx @ [0])) (unat buf) (length tx) = tx"
    if "unat buf + Suc (length tx) \<le> 4294967296" for m buf
  proof -
    have "bytes_at (put_bytes m (unat buf) (tx @ [0])) (unat buf) (length (tx @ [0])) = tx @ [0]"
      by (rule bytes_at_put) (use that in simp)
    moreover have "bytes_at m' p (length tx) = take (length tx) (bytes_at m' p (length (tx @ [0])))" for m' p
      by (rule nth_equalityI) auto
    ultimately show ?thesis by simp
  qed
  have deliver: "\<exists>s'. write_all (Some f) m buf (word_of_int (int (length tx))) s = (int (length tx), s') \<and>
      rel s' (xs @ tx)" if "bytes_at m (unat buf) (length tx) = tx" "buf \<noteq> 0"
      "unat buf + Suc (length tx) \<le> 4294967296" for m buf
    using write_all_delivers [OF s _ f, where n = "w32 (length tx)" and p = buf and m = m] tx(2) l that
    by (simp add: unat_w32 flip: w32_def)
  have capw: "word_of_int (int (length tx)) + 1 = ?cap" by (simp add: w32_def)
  have dyn: "?cap > EF2_STDIO_STACK_BUFFER \<longleftrightarrow> 256 \<le> length tx"
    using cap by (auto simp: EF2_STDIO_STACK_BUFFER_def word_less_nat_alt)
  show ?thesis
  proof (cases "256 \<le> length tx")
    case False
    let ?m = "put_bytes (hmem h) (unat stk) (tx @ [0])"
    have b: "unat stk + Suc (length tx) \<le> 4294967296" "{unat stk..<unat stk + Suc (length tx)} \<subseteq> B"
      using False stk(2,3) by auto
    obtain s' where s': "write_all (Some f) ?m stk (word_of_int (int (length tx))) s = (int (length tx), s')"
      "rel s' (xs @ tx)" using deliver [OF written [OF b(1)] stk(1) b(1)] by blast
    have "agree_outside B (hmem h) ?m" using b by (intro put_bytes_agree) auto
    then have "heap_kept base bs B h (h\<lparr>hmem := ?m\<rparr>)" by (rule heap_kept_stack [OF inv stk(4)])
    moreover have "ef2_vfprintf stk (Some f) format args h s = Some (int (length tx), h\<lparr>hmem := ?m\<rparr>, s')"
      using measure formatted [of "hmem h" stk] b stk(1) nz False dyn s'(1)
      by (simp add: ef2_vfprintf_def capw Let_def le_supI2 del: of_int_of_nat_eq)
    ultimately show ?thesis using s'(2) False by (auto simp: print_dropped_def)
  next
    case True
    obtain p h1 where p: "ef2_malloc h ?cap = Some (p, h1)"
      using heap_alloc.alloc_total [of h "(base, bs)" ?cap] inv by (auto simp: heap_rel_def)
    have rel: "heap_rel h (base, bs)" using inv by (simp add: heap_rel_def)
    show ?thesis
    proof (cases "p = 0")
      case True
      then have "h1 = h" using heap_alloc.alloc_null [OF rel] p by blast
      then have "ef2_vfprintf stk (Some f) format args h s = Some (-1, h, s)"
        using measure \<open>256 \<le> length tx\<close> dyn p True nz
        by (simp add: ef2_vfprintf_def capw Let_def del: of_int_of_nat_eq)
      moreover have "print_dropped h (length tx)"
        using p True \<open>h1 = h\<close> \<open>256 \<le> length tx\<close> by (simp add: print_dropped_def)
      ultimately show ?thesis using heap_kept_refl [OF inv] by auto
    next
      case False
      let ?m = "put_bytes (hmem h1) (unat p) (tx @ [0])"
      have b: "unat p + Suc (length tx) < 4294967296" "{unat p..<unat p + Suc (length tx)} \<subseteq> heap_arena h"
        using heap_arena.buffer_in_arena [OF rel p False] cap by auto
      have m1: "agree_outside ?A (hmem h) (hmem h1)"
        unfolding agree_outside_def using heap_arena.alloc_outside [OF rel p] by auto
      obtain s' where s': "write_all (Some f) ?m p (word_of_int (int (length tx))) s = (int (length tx), s')"
        "rel s' (xs @ tx)"
        using deliver [OF written [of p "hmem h1"] False] b(1) less_imp_le by blast
      have "agree_outside {unat p..<unat p + unat ?cap} (hmem h1) ?m"
        using b cap by (intro put_bytes_agree) auto
      then have "heap_kept base bs B h (ef2_free (h1\<lparr>hmem := ?m\<rparr>) p)"
        by (rule heap_kept_temporary [OF inv p False])
      moreover have "ef2_vfprintf stk (Some f) format args h s =
          Some (int (length tx), ef2_free (h1\<lparr>hmem := ?m\<rparr>) p, s')"
        using measure formatted [OF m1 False] b \<open>256 \<le> length tx\<close> dyn p False nz s'(1)
        by (simp add: ef2_vfprintf_def capw Let_def le_supI1 del: of_int_of_nat_eq)
      moreover have "\<not> print_dropped h (length tx)" using p False by (simp add: print_dropped_def)
      ultimately show ?thesis using s'(2) by auto
    qed
  qed
qed

end

end
