(* ===== verification/Bus.thy ===== *)
theory Bus
  imports Prelude
begin

text \<open>
  Memory-mapped hardware.  A device is a parameter of the drivers: what its registers hold
  and how they react is a state \<open>'w\<close> with one function per access width, which the drivers
  call in the order of the volatile accesses of the C code.
\<close>

record 'w bus =
  rd8 :: "u32 \<Rightarrow> 'w \<Rightarrow> u8 \<times> 'w"
  rd16 :: "u32 \<Rightarrow> 'w \<Rightarrow> u16 \<times> 'w"
  rd32 :: "u32 \<Rightarrow> 'w \<Rightarrow> u32 \<times> 'w"
  wr8 :: "u32 \<Rightarrow> u8 \<Rightarrow> 'w \<Rightarrow> 'w"
  wr16 :: "u32 \<Rightarrow> u16 \<Rightarrow> 'w \<Rightarrow> 'w"
  wr32 :: "u32 \<Rightarrow> u32 \<Rightarrow> 'w \<Rightarrow> 'w"

text \<open>
  A device for concrete runs: every register reads as a fixed function of its address and
  the writes are recorded, the latest first.
\<close>

definition fixed_bus :: "(u32 \<Rightarrow> u32) \<Rightarrow> (u32 \<times> u32) list bus" where
  "fixed_bus f = \<lparr>
     rd8 = (\<lambda>a w. (ucast (f a), w)),
     rd16 = (\<lambda>a w. (ucast (f a), w)),
     rd32 = (\<lambda>a w. (f a, w)),
     wr8 = (\<lambda>a v w. (a, ucast v) # w),
     wr16 = (\<lambda>a v w. (a, ucast v) # w),
     wr32 = (\<lambda>a v w. (a, v) # w)\<rparr>"

lemma fixed_bus_simps [simp]:
  "rd8 (fixed_bus f) a w = (ucast (f a), w)"
  "rd16 (fixed_bus f) a w = (ucast (f a), w)"
  "rd32 (fixed_bus f) a w = (f a, w)"
  "wr8 (fixed_bus f) a v8 w = (a, ucast v8) # w"
  "wr16 (fixed_bus f) a v16 w = (a, ucast v16) # w"
  "wr32 (fixed_bus f) a v w = (a, v) # w"
  by (simp_all add: fixed_bus_def)

end
