(* ===== verification/DebugSio.thy ===== *)
theory DebugSio
  imports LibcStdio Bus
begin

text \<open>
  The serial port driver of \<open>src/ee/kernel/debug_sio.c\<close> over the register interface.  A
  polling loop is bounded by its own timeout; the division by a zero divisor, which traps on
  the EE, is \<open>None\<close>.
\<close>

record 'w sio =
  sio_dev :: 'w
  g_last_output :: u8

definition EF2_SIO_LCR :: u32 where "EF2_SIO_LCR = 0x1000F100"
definition EF2_SIO_IER :: u32 where "EF2_SIO_IER = 0x1000F120"
definition EF2_SIO_ISR :: u32 where "EF2_SIO_ISR = 0x1000F130"
definition EF2_SIO_FCR :: u32 where "EF2_SIO_FCR = 0x1000F140"
definition EF2_SIO_BGR :: u32 where "EF2_SIO_BGR = 0x1000F150"
definition EF2_SIO_TXFIFO :: u32 where "EF2_SIO_TXFIFO = 0x1000F180"
definition EF2_SIO_CPU_CLOCK :: u32 where "EF2_SIO_CPU_CLOCK = 294912000"
definition EF2_SIO_TX_TIMEOUT :: u32 where "EF2_SIO_TX_TIMEOUT = 0x00100000"

function sio_wait_loop :: "'w bus \<Rightarrow> u32 \<Rightarrow> 'w \<Rightarrow> bool \<times> 'w" where
  "sio_wait_loop bus timeout w =
    (let (isr, w') = rd32 bus EF2_SIO_ISR w
     in if isr AND 0xF000 = 0x8000
        then if timeout - 1 = 0 then (False, w') else sio_wait_loop bus (timeout - 1) w'
        else (True, w'))"
  by pat_completeness auto
termination
proof (relation "measure (\<lambda>(bus, t, w). unat (t - 1))", goal_cases)
  case (2 bus timeout w)
  then show ?case using u32_pred_less [of "timeout - 1"] by simp
qed simp

declare sio_wait_loop.simps [simp del]

definition sio_putc_bounded :: "'w bus \<Rightarrow> u8 \<Rightarrow> 'w sio \<Rightarrow> s32 \<times> 'w sio" where
  "sio_putc_bounded bus v st =
    (let (ok, w) = sio_wait_loop bus EF2_SIO_TX_TIMEOUT (sio_dev st)
     in if \<not> ok then (-1, st\<lparr>sio_dev := w\<rparr>)
        else (0, st\<lparr>sio_dev := wr8 bus EF2_SIO_TXFIFO v w, g_last_output := v\<rparr>))"

function sio_clock_loop :: "u32 \<Rightarrow> u32 \<Rightarrow> u32 \<times> u32" where
  "sio_clock_loop divisor clock_select =
    (if divisor \<ge> 256 \<and> clock_select < 3
     then sio_clock_loop (drop_bit 2 divisor) (clock_select + 1)
     else (divisor, clock_select))"
  by pat_completeness auto
termination
proof (relation "measure (\<lambda>(d, c). unat (3 - c))", goal_cases)
  case (2 divisor clock_select)
  then show ?case using u32_countdown_less [of clock_select 3] by simp
qed simp

declare sio_clock_loop.simps [simp del]

definition ef2_debug_sio_init :: "'w bus \<Rightarrow> u32 \<Rightarrow> 'w sio \<Rightarrow> (s32 \<times> 'w sio) option" where
  "ef2_debug_sio_init bus baudrate st =
    (if baudrate = 0 then Some (-1, st)
     else
       let w1 = wr32 bus EF2_SIO_LCR (push_bit 5 1) (sio_dev st);
           w2 = wr32 bus EF2_SIO_IER 0 w1;
           w3 = wr32 bus EF2_SIO_FCR (1 OR 2 OR 4) w2;
           w4 = wr32 bus EF2_SIO_FCR 0 w3;
           st4 = st\<lparr>sio_dev := w4\<rparr>
       in if baudrate * 256 = 0 then None
          else
            let (divisor, clock_select) = sio_clock_loop (EF2_SIO_CPU_CLOCK div (baudrate * 256)) 0
            in if divisor = 0 \<or> divisor \<ge> 256 then Some (-2, st4)
               else Some (0, st4\<lparr>sio_dev := wr32 bus EF2_SIO_BGR (push_bit 8 clock_select OR divisor) w4,
                                 g_last_output := 0\<rparr>))"

function sio_write_loop :: "'w bus \<Rightarrow> mem \<Rightarrow> u32 \<Rightarrow> u32 \<Rightarrow> u32 \<Rightarrow> 'w sio \<Rightarrow> bool \<times> 'w sio" where
  "sio_write_loop bus m data i n st =
    (if i < n then
       let v = m (data + i);
           (r, st1) = (if v = ch (CHR 0x0A) \<and> g_last_output st \<noteq> ch (CHR 0x0D)
                       then sio_putc_bounded bus (ch (CHR 0x0D)) st else (0, st))
       in if r < 0 then (False, st1)
          else
            let (r', st2) = sio_putc_bounded bus v st1
            in if r' < 0 then (False, st2) else sio_write_loop bus m data (i + 1) n st2
     else (True, st))"
  by pat_completeness auto
termination
  by (relation "measure (\<lambda>(bus, m, d, i, n, st). unat (n - i))") (auto simp: u32_countdown_less)

declare sio_write_loop.simps [simp del]

definition ef2_debug_sio_write :: "'w bus \<Rightarrow> u32 \<Rightarrow> mem \<Rightarrow> u32 \<Rightarrow> u32 \<Rightarrow> 'w sio \<Rightarrow> u32 \<times> 'w sio" where
  "ef2_debug_sio_write bus context m data n st =
    (if data = 0 then (-1, st)
     else
       let (ok, st') = sio_write_loop bus m data 0 n st
       in if \<not> ok then (-1, st')
          else if n > 0x7FFFFFFF then (0x7FFFFFFF, st') else (n, st'))"

definition ef2_debug_use_sio_stdio ::
  "'w bus \<Rightarrow> u32 \<Rightarrow> 'w sio \<Rightarrow> 'w sio streams \<Rightarrow> (s32 \<times> 'w sio \<times> 'w sio streams) option" where
  "ef2_debug_use_sio_stdio bus baudrate st str =
    do { (result, st') \<leftarrow> ef2_debug_sio_init bus baudrate st;
         if result < 0 then Some (result, st', str)
         else Some (0, st', ef2_stdio_set_stderr (Some (ef2_debug_sio_write bus)) 0
                      (ef2_stdio_set_stdout (Some (ef2_debug_sio_write bus)) 0 str)) }"

end
