(* ===== verification/DebugLog.thy ===== *)
theory DebugLog
  imports StdioSpec DebugSio
begin

text \<open>
  The debug log of \<open>src/ee/runtime/debug_log.c\<close>: a ring of the last 8192 bytes in RAM,
  mirrored to the serial port while that works, and the two streams directed to it.

  The addresses of the string literals are given by \<open>lit\<close>, those of the automatic arrays of
  \<open>ef2_debug_printf\<close> and \<open>ef2_vfprintf\<close> are parameters.
\<close>

definition EF2_DEBUG_RING_BYTES :: u32 where "EF2_DEBUG_RING_BYTES = 8192"
definition EF2_DEBUG_SIO_DEFAULT_BAUD :: u32 where "EF2_DEBUG_SIO_DEFAULT_BAUD = 115200"
definition EF2_DEBUG_FORMAT_BYTES :: u32 where "EF2_DEBUG_FORMAT_BYTES = 512"

record 'w debug_log =
  g_debug_ring :: "u8 list"
  g_ring_head :: u32
  g_ring_used :: u32
  g_total_bytes :: u32
  g_sio_active :: bool
  g_sio_failures :: u32
  log_sio :: "'w sio"

definition ring_put :: "u8 \<Rightarrow> 'w debug_log \<Rightarrow> 'w debug_log" where
  "ring_put c g = g\<lparr>
     g_debug_ring := (g_debug_ring g)[unat (g_ring_head g) := c],
     g_ring_head := (g_ring_head g + 1) mod EF2_DEBUG_RING_BYTES,
     g_ring_used := (if g_ring_used g < EF2_DEBUG_RING_BYTES then g_ring_used g + 1 else g_ring_used g),
     g_total_bytes := (if g_total_bytes g \<noteq> 0xFFFFFFFF then g_total_bytes g + 1 else g_total_bytes g)\<rparr>"

function ring_write :: "mem \<Rightarrow> u32 \<Rightarrow> u32 \<Rightarrow> u32 \<Rightarrow> 'w debug_log \<Rightarrow> 'w debug_log" where
  "ring_write m data i n g =
    (if i < n then ring_write m data (i + 1) n (ring_put (m (data + i)) g) else g)"
  by pat_completeness auto
termination
  by (relation "measure (\<lambda>(m, d, i, n, g). unat (n - i))") (auto simp: u32_countdown_less)

declare ring_write.simps [simp del]

definition ef2_debug_write_raw :: "'w bus \<Rightarrow> mem \<Rightarrow> u32 \<Rightarrow> u32 \<Rightarrow> 'w debug_log \<Rightarrow> u32 \<times> 'w debug_log" where
  "ef2_debug_write_raw bus m data n g =
    (if data = 0 then (-1, g)
     else
       let g1 = ring_write m data 0 n g;
           g2 = (if g_sio_active g1 then
                   let (r, sio) = ef2_debug_sio_write bus 0 m data n (log_sio g1);
                       g' = g1\<lparr>log_sio := sio\<rparr>
                   in if r <s 0
                      then g'\<lparr>g_sio_active := False,
                              g_sio_failures := (if g_sio_failures g' \<noteq> 0xFFFFFFFF
                                then g_sio_failures g' + 1 else g_sio_failures g')\<rparr>
                      else g'
                 else g1)
       in if n > 0x7FFFFFFF then (0x7FFFFFFF, g2) else (n, g2))"

definition debug_sink_write ::
  "'w bus \<Rightarrow> u32 \<Rightarrow> mem \<Rightarrow> u32 \<Rightarrow> u32 \<Rightarrow> 'w debug_log \<Rightarrow> u32 \<times> 'w debug_log" where
  "debug_sink_write bus context m data n g = ef2_debug_write_raw bus m data n g"

definition ef2_debug_reset :: "'w debug_log \<Rightarrow> 'w debug_log" where
  "ef2_debug_reset g = g\<lparr>g_debug_ring := replicate (unat EF2_DEBUG_RING_BYTES) 0, g_ring_head := 0,
     g_ring_used := 0, g_total_bytes := 0, g_sio_active := False, g_sio_failures := 0\<rparr>"

definition ef2_debug_init ::
  "'w bus \<Rightarrow> u32 \<Rightarrow> 'w debug_log \<Rightarrow> 'w debug_log streams \<Rightarrow>
   (s32 \<times> 'w debug_log \<times> 'w debug_log streams) option" where
  "ef2_debug_init bus baudrate g str =
    (let g1 = ef2_debug_reset g;
         baud = (if baudrate = 0 then EF2_DEBUG_SIO_DEFAULT_BAUD else baudrate)
     in do { (r, sio) \<leftarrow> ef2_debug_sio_init bus baud (log_sio g1);
             let g2 = g1\<lparr>log_sio := sio\<rparr>;
                 g3 = (if r = 0 then g2\<lparr>g_sio_active := True\<rparr> else g2\<lparr>g_sio_failures := 1\<rparr>)
             in Some (0, g3, ef2_stdio_set_stderr (Some (debug_sink_write bus)) 0
                              (ef2_stdio_set_stdout (Some (debug_sink_write bus)) 0 str)) })"

text \<open>\<open>buffer\<close> is the automatic array of 512 bytes, \<open>stk\<close> the one of \<open>ef2_vfprintf\<close>.\<close>

definition ef2_debug_printf ::
  "(string \<Rightarrow> u32) \<Rightarrow> u32 \<Rightarrow> u32 \<Rightarrow> 's streams \<Rightarrow> u32 \<Rightarrow> u32 \<Rightarrow> va_list \<Rightarrow> heap \<Rightarrow> 's \<Rightarrow>
   (s32 \<times> heap \<times> 's) option" where
  "ef2_debug_printf lit buffer stk str tag format args h s =
    (if format = 0 then Some (-1, h, s)
     else
       do { (r1, h1, s1) \<leftarrow>
              (if tag \<noteq> 0 \<and> hmem h tag \<noteq> 0
               then ef2_printf stk str (lit ''[EF2][%s] '') [ucast tag] h s
               else ef2_printf stk str (lit ''[EF2] '') [] h s);
            let result = (if r1 < 0 then -1 else 0);
            (len, m) \<leftarrow> ef2_vsnprintf (hmem h1) buffer EF2_DEBUG_FORMAT_BYTES format args;
            let h2 = h1\<lparr>hmem := m\<rparr>;
            if len < 0 then Some (-1, h2, s1)
            else if word_of_int len \<ge> EF2_DEBUG_FORMAT_BYTES then
              do { (r2, h3, s2) \<leftarrow> ef2_fprintf stk (Some (ef2_stdout_stream str)) (lit ''%s'')
                     [ucast (lit (''<debug message truncated>'' @ [CHR 0x0A]))] h2 s1;
                   Some (if r2 < 0 then -1 else result, h3, s2) }
            else
              do { (r2, h3, s2) \<leftarrow> ef2_fprintf stk (Some (ef2_stdout_stream str)) (lit ''%s'')
                     [ucast buffer] h2 s1;
                   Some (if r2 < 0 then -1 else result, h3, s2) } })"

function copy_recent_loop :: "u8 list \<Rightarrow> u32 \<Rightarrow> u32 \<Rightarrow> u32 \<Rightarrow> u32 \<Rightarrow> mem \<Rightarrow> mem" where
  "copy_recent_loop ring destination start i n m =
    (if i < n
     then copy_recent_loop ring destination start (i + 1) n
            (m(destination + i := ring ! unat ((start + i) mod EF2_DEBUG_RING_BYTES)))
     else m)"
  by pat_completeness auto
termination
  by (relation "measure (\<lambda>(r, d, s, i, n, m). unat (n - i))") (auto simp: u32_countdown_less)

declare copy_recent_loop.simps [simp del]

definition ef2_debug_copy_recent :: "'w debug_log \<Rightarrow> u32 \<Rightarrow> u32 \<Rightarrow> mem \<Rightarrow> u32 \<times> mem" where
  "ef2_debug_copy_recent g destination capacity m =
    (if destination = 0 \<or> capacity = 0 then (0, m)
     else
       let count = (if g_ring_used g \<ge> capacity then capacity - 1 else g_ring_used g);
           start = (g_ring_head g + EF2_DEBUG_RING_BYTES - g_ring_used g) mod EF2_DEBUG_RING_BYTES;
           start' = (if count < g_ring_used g
                     then (g_ring_head g + EF2_DEBUG_RING_BYTES - count) mod EF2_DEBUG_RING_BYTES
                     else start);
           m' = copy_recent_loop (g_debug_ring g) destination start' 0 count m
       in (count, m'(destination + count := 0)))"

record debug_stats =
  ring_capacity :: u32
  ring_used :: u32
  ds_total_bytes :: u32
  sio_active :: bool
  sio_failures :: u32

definition ef2_debug_get_stats :: "'w debug_log \<Rightarrow> debug_stats option \<Rightarrow> s32 \<times> debug_stats option" where
  "ef2_debug_get_stats g stats =
    (if stats = None then (-1, None)
     else (0, Some \<lparr>ring_capacity = EF2_DEBUG_RING_BYTES, ring_used = g_ring_used g,
             ds_total_bytes = g_total_bytes g, sio_active = g_sio_active g,
             sio_failures = g_sio_failures g\<rparr>))"

end
