(* ===== verification/DebugSpec.thy ===== *)
theory DebugSpec
  imports DebugLog
begin

text \<open>
  What the debug log promises: the ring holds the most recent 8192 of all bytes written,
  the sink contract holds for it whatever the serial port does, and a message arrives as
  tag and text.
\<close>

section \<open>The ring holds the recent bytes\<close>

definition ring_rel :: "'w debug_log \<Rightarrow> u8 list \<Rightarrow> bool" where
  "ring_rel g xs \<longleftrightarrow> length (g_debug_ring g) = 8192 \<and> unat (g_ring_head g) = length xs mod 8192 \<and>
     unat (g_ring_used g) = min (length xs) 8192 \<and>
     unat (g_total_bytes g) = min (length xs) 0xFFFFFFFF \<and>
     (\<forall>k < length xs. length xs \<le> k + 8192 \<longrightarrow> g_debug_ring g ! (k mod 8192) = xs ! k)"

lemma ring_rel_reset: "ring_rel (ef2_debug_reset g) []"
  by (simp add: ring_rel_def ef2_debug_reset_def EF2_DEBUG_RING_BYTES_def)

lemma ring_rel_put:
  assumes "ring_rel g xs" shows "ring_rel (ring_put c g) (xs @ [c])"
proof -
  let ?n = "length xs"
  have h: "unat (g_ring_head g) = ?n mod 8192" "unat (g_ring_used g) = min ?n 8192"
    "unat (g_total_bytes g) = min ?n 4294967295" "length (g_debug_ring g) = 8192"
    using assms by (simp_all add: ring_rel_def)
  have "unat (g_ring_head g + 1) = Suc (?n mod 8192)"
    using h(1) by (subst unat_add_no_overflow) auto
  then have head: "unat ((g_ring_head g + 1) mod 8192) = Suc ?n mod 8192"
    by (simp add: unat_mod mod_Suc_eq)
  have used: "unat (if g_ring_used g < 8192 then g_ring_used g + 1 else g_ring_used g) = min (Suc ?n) 8192"
    using h(2) by (auto simp: word_less_nat_alt unat_add_no_overflow)
  have total: "unat (if g_total_bytes g \<noteq> 0xFFFFFFFF then g_total_bytes g + 1 else g_total_bytes g)
      = min (Suc ?n) 4294967295"
    using h(3) by (auto simp: word_unat_eq_iff unat_add_no_overflow)
  have elems: "(g_debug_ring g)[?n mod 8192 := c] ! (k mod 8192) = (xs @ [c]) ! k"
    if k: "k < Suc ?n" "Suc ?n \<le> k + 8192" for k
  proof (cases "k = ?n")
    case False
    then have "k < ?n" "?n - k < 8192" "0 < ?n - k" using k by auto
    have "?n mod 8192 \<noteq> k mod 8192"
    proof
      assume "?n mod 8192 = k mod 8192"
      then have "8192 dvd ?n - k" using \<open>k < ?n\<close> by (simp add: mod_eq_dvd_iff_nat)
      then show False using \<open>?n - k < 8192\<close> \<open>0 < ?n - k\<close> by (simp add: nat_dvd_not_less)
    qed
    then show ?thesis using assms \<open>k < ?n\<close> k by (simp add: ring_rel_def nth_append)
  qed (use h(4) in simp)
  show ?thesis
    using head used total elems h(1,4) by (simp add: ring_rel_def ring_put_def EF2_DEBUG_RING_BYTES_def)
qed

lemma ring_write_rel:
  "ring_rel g xs \<Longrightarrow> i \<le> n \<Longrightarrow>
   ring_rel (ring_write m data i n g) (xs @ bytes_at m (unat data + unat i) (unat n - unat i))"
proof (induction m data i n g arbitrary: xs rule: ring_write.induct)
  case (1 m data i n g)
  show ?case
  proof (cases "i < n")
    case True
    have i1: "unat (i + 1) = Suc (unat i)" using True by unat_arith
    have e: "unat n - unat i = Suc (unat n - Suc (unat i))" using True by (simp add: word_less_nat_alt)
    have "i + 1 \<le> n" using True i1 by (simp add: word_le_nat_alt word_less_nat_alt)
    moreover have "m (data + i) = m (w32 (unat data + unat i))" by (simp flip: w32_add)
    ultimately show ?thesis
      using "1.IH" [OF True ring_rel_put [OF "1.prems"(1)]] True i1
      by (subst ring_write.simps) (simp add: e bytes_at_Suc)
  next
    case False
    then have "i = n" using "1.prems"(2) by simp
    then show ?thesis using "1.prems"(1) by (subst ring_write.simps) simp
  qed
qed

lemma ring_rel_other [simp]:
  "ring_rel (g\<lparr>log_sio := s\<rparr>) xs = ring_rel g xs"
  "ring_rel (g\<lparr>g_sio_active := b\<rparr>) xs = ring_rel g xs"
  "ring_rel (g\<lparr>g_sio_failures := f\<rparr>) xs = ring_rel g xs"
  by (simp_all add: ring_rel_def)

lemma debug_write_raw_rel:
  assumes "ring_rel g xs" "data \<noteq> 0" "ef2_debug_write_raw bus m data n g = (r, g')"
  shows "ring_rel g' (xs @ bytes_at m (unat data) (unat n))"
    and "r = (if n > 0x7FFFFFFF then 0x7FFFFFFF else n)"
  using ring_write_rel [OF assms(1), of 0 n m data] assms(2,3)
  by (auto simp: ef2_debug_write_raw_def Let_def split: if_splits prod.splits)

interpretation debug_sink: sink "debug_sink_write bus" ring_rel for bus :: "'w bus"
proof unfold_locales
  fix g :: "'w debug_log" and xs n c m p r g'
  assume a: "ring_rel g xs" "0 < n" "unat n \<le> 0x7FFFFFFF" "p \<noteq> 0"
    "debug_sink_write bus c m p n g = (r, g')"
  have "r = n" "ring_rel g' (xs @ bytes_at m (unat p) (unat n))"
    using debug_write_raw_rel [OF a(1,4) a(5) [unfolded debug_sink_write_def]] a(3)
    by (simp_all add: word_less_nat_alt)
  moreover have "0 <s n"
    using a(2,3) by (simp add: word_sless_alt sint_small word_less_def)
  ultimately show "0 <s r \<and> r \<le> n \<and> ring_rel g' (xs @ bytes_at m (unat p) (unat r))" by simp
qed

section \<open>Reading the log back\<close>

lemma copy_recent_loop_put:
  "n \<le> 4294967295 \<Longrightarrow> d + n \<le> 4294967296 \<Longrightarrow> i \<le> n \<Longrightarrow>
   copy_recent_loop ring (w32 d) start (w32 i) (w32 n) m =
     put_bytes m (d + i) (map (\<lambda>k. ring ! unat ((start + w32 k) mod 8192)) [i..<n])"
proof (induction "n - i" arbitrary: i m)
  case 0
  then show ?case by (simp add: copy_recent_loop.simps)
next
  case (Suc k)
  then have e: "[i..<n] = i # [Suc i..<n]" "w32 i < w32 n" "k = n - Suc i" "Suc i \<le> n"
    by (auto simp: w32_less_iff upt_conv_Cons)
  show ?case
    using Suc.hyps(1) [OF e(3) Suc.prems(1,2) e(4)]
    by (subst copy_recent_loop.simps) (simp add: e(1,2) w32_add w32_add_one EF2_DEBUG_RING_BYTES_def)
qed

lemma ring_slice:
  assumes "ring_rel g xs" "c \<le> 8192" "c \<le> length xs" "k < c"
    and "start = (g_ring_head g + 8192 - w32 c) mod 8192"
  shows "g_debug_ring g ! unat ((start + w32 k) mod 8192) = xs ! (length xs - c + k)"
proof -
  let ?n = "length xs"
  have h: "unat (g_ring_head g) = ?n mod 8192" using assms(1) by (simp add: ring_rel_def)
  have hl: "?n mod 8192 < 8192" by simp
  have "unat (g_ring_head g + 8192) = ?n mod 8192 + 8192"
    using h hl by (subst unat_add_no_overflow) auto
  then have s: "unat (g_ring_head g + 8192 - w32 c) = ?n mod 8192 + 8192 - c"
    using assms(2) by (subst unat_sub) (auto simp: word_le_nat_alt unat_w32)
  then have st: "unat start = (?n mod 8192 + 8192 - c) mod 8192"
    using assms(5) by (simp add: unat_mod)
  have "unat (start + w32 k) = unat start + k"
    using st assms(2,4) by (subst unat_add_no_overflow) (auto simp: unat_w32)
  then have "unat ((start + w32 k) mod 8192) = (?n mod 8192 + 8192 - c + k) mod 8192"
    by (simp add: unat_mod st mod_add_left_eq)
  also have "\<dots> = (?n - c + k) mod 8192"
  proof -
    have "(?n mod 8192 + 8192 - c + k) mod 8192 = (?n mod 8192 + (8192 - c + k)) mod 8192"
      using assms(2) by (simp add: add.assoc)
    also have "\<dots> = (?n + (8192 - c + k)) mod 8192" by (rule mod_add_left_eq)
    also have "?n + (8192 - c + k) = (?n - c + k) + 8192" using assms(2,3) by simp
    finally show ?thesis by simp
  qed
  finally show ?thesis using assms by (simp add: ring_rel_def)
qed

lemma copy_recent_exact:
  assumes "ring_rel g xs" "unat dst \<noteq> 0" "0 < unat cap" "unat dst + unat cap \<le> 4294967296"
  defines "c \<equiv> min (min (length xs) 8192) (unat cap - 1)"
  shows "ef2_debug_copy_recent g dst cap m =
    (w32 c, put_bytes m (unat dst) (drop (length xs - c) xs @ [0]))"
proof -
  have u: "unat (g_ring_used g) = min (length xs) 8192" using assms(1) by (simp add: ring_rel_def)
  have cb: "c \<le> 8192" "c \<le> length xs" "c < 4294967296" "unat dst + c < 4294967296"
    using assms(4) assms(3) by (auto simp: c_def)
  have count: "(if g_ring_used g \<ge> cap then cap - 1 else g_ring_used g) = w32 c"
    using u assms(3) by (auto simp: c_def word_le_nat_alt word_unat_eq_iff unat_w32 unat_sub)
  let ?s = "(g_ring_head g + 8192 - w32 c) mod 8192"
  have start: "(if w32 c < g_ring_used g then ?s else (g_ring_head g + 8192 - g_ring_used g) mod 8192) = ?s"
  proof (cases "w32 c < g_ring_used g")
    case False
    then have "g_ring_used g = w32 c"
      using u cb by (auto simp: word_less_nat_alt word_unat_eq_iff unat_w32 c_def)
    then show ?thesis by simp
  qed simp
  have "map (\<lambda>k. g_debug_ring g ! unat ((?s + w32 k) mod 8192)) [0..<c] = drop (length xs - c) xs"
    by (rule nth_equalityI) (use cb ring_slice [OF assms(1) cb(1,2)] in auto)
  then have "copy_recent_loop (g_debug_ring g) dst ?s 0 (w32 c) m =
      put_bytes m (unat dst) (drop (length xs - c) xs)"
    using copy_recent_loop_put [of c "unat dst" 0 "g_debug_ring g" ?s m] cb by simp
  moreover have "dst \<noteq> 0" "cap \<noteq> 0" using assms(2,3) by auto
  moreover have "dst + w32 c = w32 (unat dst + c)" by (simp flip: w32_add)
  moreover have "length (drop (length xs - c) xs) = c" using cb by simp
  ultimately show ?thesis
    using count start by (simp add: ef2_debug_copy_recent_def EF2_DEBUG_RING_BYTES_def Let_def put_bytes_append
        split: if_splits)
qed

section \<open>A message through the log\<close>

lemma spec_format_tag:
  "strs tag = Some t \<Longrightarrow> tag \<noteq> 0 \<Longrightarrow>
   spec_format strs (chars ''[EF2][%s] '') [ucast tag] = Some (chars ''[EF2]['' @ t @ chars ''] '')"
proof -
  assume a: "strs tag = Some t" "tag \<noteq> 0"
  have "spec_directive [115, 93, 32] = (32, 0, EF2_FORMAT_DEFAULT, [115, 93, 32])"
    by (simp add: spec_directive_def)
  then show ?thesis using a
    by (simp add: spec_format.simps spec_conversion_def chars_def pad_field_def)
qed

lemma spec_format_plain: "spec_format strs (chars ''[EF2] '') [] = Some (chars ''[EF2] '')"
  by (simp add: spec_format.simps chars_def)

lemma spec_format_s:
  "strs p = Some t \<Longrightarrow> p \<noteq> 0 \<Longrightarrow> spec_format strs (chars ''%s'') [ucast p] = Some t"
proof -
  assume a: "strs p = Some t" "p \<noteq> 0"
  have "spec_directive [115] = (32, 0, EF2_FORMAT_DEFAULT, [115])"
    by (simp add: spec_directive_def)
  then show ?thesis using a
    by (simp add: spec_format.simps spec_conversion_def chars_def pad_field_def)
qed

definition log_prefix :: "u8 list \<Rightarrow> u8 list" where
  "log_prefix t = (if t = [] then chars ''[EF2] '' else chars ''[EF2]['' @ t @ chars ''] '')"

definition truncated :: string where
  "truncated = ''<debug message truncated>'' @ [CHR 0x0A]"

definition log_body :: "u8 list \<Rightarrow> u8 list" where
  "log_body tx = (if length tx < 512 then takeWhile (\<lambda>c. c \<noteq> 0) tx else chars truncated)"

lemma cstr_takeWhile:
  "bytes_at m p (Suc (length s)) = s @ [0] \<Longrightarrow> p + length s < 4294967296 \<Longrightarrow>
   cstr m p (takeWhile (\<lambda>c. c \<noteq> 0) s)"
proof (induction s arbitrary: p)
  case (Cons c s)
  then show ?case by (simp add: bytes_at_Suc [of m p "Suc (length s)"])
qed (simp add: bytes_at_Suc [of m p 0 for m p, simplified])

text \<open>Printing a text whose format and strings lie outside the heap and the stack array.\<close>

lemma print_step:
  assumes inv: "heap_inv h base bs" and g: "ring_rel g xs"
    and out: "file_write f = Some (debug_sink_write bus)"
    and stk: "stk \<noteq> 0" "unat stk + 256 \<le> 4294967296" "{unat stk..<unat stk + 256} \<inter> heap_arena h = {}"
    and fmt: "readable (hmem h) (heap_arena h \<union> {unat stk..<unat stk + 256}) (unat format) fs" "format \<noteq> 0"
    and strs: "readable_strings (hmem h) (heap_arena h \<union> {unat stk..<unat stk + 256}) strs"
    and tx: "spec_format strs fs args = Some tx" "length tx < 0x7FFFFFFF"
  obtains h' g' where "ef2_vfprintf stk (Some f) format args h g =
      Some (if print_dropped h (length tx) then -1 else int (length tx), h', g')"
    "ring_rel g' (xs @ printed h tx)" "heap_kept base bs {unat stk..<unat stk + 256} h h'"
proof -
  from debug_sink.vfprintf_delivers [OF inv g out tx fmt(2) stk(1,2) refl stk(3) fmt(1) strs] g
  show thesis using that by (auto simp: printed_def split: if_splits)
qed

lemma debug_printf_logs:
  fixes buffer stk :: u32 and h :: heap
  defines "B \<equiv> {unat stk..<unat stk + 256}" and "D \<equiv> {unat buffer..<unat buffer + 512}"
  defines "A \<equiv> heap_arena h \<union> (B \<union> D)"
  assumes inv: "heap_inv h base bs" and g: "ring_rel g xs"
    and out: "file_write (ef2_stdout_stream str) = Some (debug_sink_write bus)"
    and stk: "stk \<noteq> 0" "unat stk + 256 \<le> 4294967296" "B \<inter> heap_arena h = {}"
    and buf: "buffer \<noteq> 0" "unat buffer + 512 \<le> 4294967296" "D \<inter> heap_arena h = {}" "D \<inter> B = {}"
    and lits: "\<And>l. l \<in> {''[EF2][%s] '', ''[EF2] '', ''%s'', truncated} \<Longrightarrow>
      lit l \<noteq> 0 \<and> readable (hmem h) A (unat (lit l)) (chars l)"
    and tag: "tag = 0 \<and> t = [] \<or> tag \<noteq> 0 \<and> readable (hmem h) A (unat tag) t"
    and fmt: "format \<noteq> 0" "readable (hmem h) A (unat format) fs" "readable_strings (hmem h) A strs"
    and tx: "spec_format strs fs args = Some tx" "length tx < 0x7FFFFFFF"
    and small: "length (log_prefix t) < 0x7FFFFFFF"
  shows "\<exists>h2 h' g'. ef2_debug_printf lit buffer stk str tag format args h g =
      Some (if print_dropped h (length (log_prefix t)) \<or> print_dropped h2 (length (log_body tx))
            then -1 else 0, h', g') \<and>
    ring_rel g' (xs @ printed h (log_prefix t) @ printed h2 (log_body tx)) \<and>
    heap_kept base bs (B \<union> D) h h2 \<and> heap_kept base bs (B \<union> D) h h'"
proof -
  let ?f = "ef2_stdout_stream str" and ?AB = "heap_arena h \<union> B"
  have sub: "?AB \<subseteq> A" "D \<subseteq> A" by (auto simp: A_def)
  have litAB: "lit l \<noteq> 0" "readable (hmem h) ?AB (unat (lit l)) (chars l)"
    if "l \<in> {''[EF2][%s] '', ''[EF2] '', ''%s'', truncated}" for l
    using lits [OF that] readable_mono [OF _ sub(1)] by auto
  have cond: "tag \<noteq> 0 \<and> hmem h tag \<noteq> 0 \<longleftrightarrow> t \<noteq> []"
    using tag cstr_zero [of "hmem h" "unat tag" t] by (auto simp: readable_def)
  obtain h1 g1 where 1: "(if tag \<noteq> 0 \<and> hmem h tag \<noteq> 0
      then ef2_printf stk str (lit ''[EF2][%s] '') [ucast tag] h g
      else ef2_printf stk str (lit ''[EF2] '') [] h g) =
      Some (if print_dropped h (length (log_prefix t)) then -1 else int (length (log_prefix t)), h1, g1)"
    "ring_rel g1 (xs @ printed h (log_prefix t))" "heap_kept base bs B h h1"
  proof (cases "t = []")
    case True
    have s: "readable_strings (hmem h) ?AB Map.empty" by (simp add: readable_strings_def)
    show thesis
      by (rule print_step [OF inv g out stk(1,2) stk(3) [unfolded B_def]
            litAB(2) [of "''[EF2] ''", unfolded B_def] litAB(1) s [unfolded B_def] spec_format_plain])
        (use small True cond in
          \<open>auto simp: log_prefix_def B_def [symmetric] ef2_printf_def ef2_vprintf_def intro!: that\<close>)
  next
    case False
    then have tg: "tag \<noteq> 0" "readable (hmem h) ?AB (unat tag) t"
      using tag readable_mono [OF _ sub(1)] by auto
    have s: "readable_strings (hmem h) ?AB [tag \<mapsto> t]" using tg(2) by (simp add: readable_strings_def)
    show thesis
      by (rule print_step [OF inv g out stk(1,2) stk(3) [unfolded B_def]
            litAB(2) [of "''[EF2][%s] ''", unfolded B_def] litAB(1) s [unfolded B_def]
            spec_format_tag [of "[tag \<mapsto> t]" tag t]])
        (use small False cond tg(1) in
          \<open>auto simp: log_prefix_def B_def [symmetric] ef2_printf_def ef2_vprintf_def intro!: that\<close>)
  qed
  obtain bs1 where bs1: "heap_inv h1 base bs1" "allocs base bs1 = allocs base bs"
    "heap_arena h1 = heap_arena h" "agree_outside ?AB (hmem h) (hmem h1)"
    using heap_keptE [OF 1(3)] by metis
  have agr: "agree_outside A (hmem h) (hmem h1)" by (rule agree_outside_mono [OF bs1(4) sub(1)])
  let ?m2 = "put_bytes (hmem h1) (unat buffer) (take 511 tx @ [0])"
  have fr: "readable (hmem h1) A (unat format) fs" by (rule readable_agree [OF fmt(2) agr])
  have sr: "readable_strings (hmem h1) A strs"
    using fmt(3) readable_agree [OF _ agr] unfolding readable_strings_def by blast
  have D512: "{unat buffer..<unat buffer + unat (512 :: u32)} \<subseteq> A" using sub(2) by (simp add: D_def)
  have v: "ef2_vsnprintf (hmem h1) buffer 512 format args = Some (int (length tx), ?m2)"
    using vsnprintf_text [OF tx(1) _ _ _ readable_apart [OF fr D512] readable_strings_ok [OF sr D512]]
      fr buf(1,2) tx(2) by (simp add: buffer_ok_def readable_def)
  let ?h2 = "h1\<lparr>hmem := ?m2\<rparr>"
  have ag2: "agree_outside D (hmem h1) ?m2"
    by (rule put_bytes_agree) (use buf(2) in \<open>auto simp: D_def\<close>)
  have k2: "heap_kept base bs1 D h1 ?h2"
    by (rule heap_kept_stack [OF bs1(1) _ ag2]) (use buf(3) bs1(3) in simp)
  have inv2: "heap_inv ?h2 base bs1"
    by (rule heap_inv_outside_write [OF bs1(1) ag2]) (use buf(3) bs1(3) in simp)
  have ar2: "heap_arena ?h2 = heap_arena h" using bs1(3) by (simp add: heap_arena_def)
  have agA: "agree_outside A (hmem h) (hmem ?h2)"
    using agree_outside_trans [OF agr agree_outside_mono [OF ag2 sub(2)]] by simp
  have pct: "readable (hmem ?h2) (heap_arena ?h2 \<union> B) (unat (lit ''%s'')) (chars ''%s'')" "lit ''%s'' \<noteq> 0"
    using readable_mono [OF readable_agree [OF _ agA], of _ _ ?AB] lits sub(1) ar2 by auto
  define p where "p = (if length tx < 512 then buffer else lit truncated)"
  have p: "p \<noteq> 0" "readable (hmem ?h2) (heap_arena ?h2 \<union> B) (unat p) (log_body tx)"
  proof -
    show "p \<noteq> 0" using buf(1) lits by (simp add: p_def)
    show "readable (hmem ?h2) (heap_arena ?h2 \<union> B) (unat p) (log_body tx)"
    proof (cases "length tx < 512")
      case True
      then have mem: "?m2 = put_bytes (hmem h1) (unat buffer) (tx @ [0])" by simp
      have "bytes_at ?m2 (unat buffer) (length (tx @ [0])) = tx @ [0]"
        unfolding mem by (rule bytes_at_put) (use True buf(2) in simp)
      then have "cstr ?m2 (unat buffer) (takeWhile (\<lambda>c. c \<noteq> 0) tx)"
        by (intro cstr_takeWhile) (use True buf(2) in simp_all)
      moreover have "{unat buffer..unat buffer + length (takeWhile (\<lambda>c. c \<noteq> 0) tx)} \<subseteq> D"
      proof -
        have "length (takeWhile (\<lambda>c. c \<noteq> 0) tx) \<le> length tx" by (rule length_takeWhile_le)
        then show ?thesis using True by (auto simp: D_def)
      qed
      ultimately show ?thesis
        using True buf(3,4) ar2 by (auto simp: readable_def p_def log_body_def)
    next
      case False
      then show ?thesis
        using readable_mono [OF readable_agree [OF _ agA], of _ _ ?AB] lits [of truncated] sub(1) ar2
        by (simp add: p_def log_body_def)
    qed
  qed
  have s: "readable_strings (hmem ?h2) (heap_arena ?h2 \<union> B) [p \<mapsto> log_body tx]"
    using p(2) by (simp add: readable_strings_def)
  have st2: "{unat stk..<unat stk + 256} \<inter> heap_arena ?h2 = {}" using stk(3) ar2 by (simp add: B_def)
  have body: "length (log_body tx) < 0x7FFFFFFF"
    using length_takeWhile_le [of "\<lambda>c. c \<noteq> 0" tx] tx(2)
    by (simp add: log_body_def truncated_def chars_def)
  obtain h3 g3 where 3: "ef2_vfprintf stk (Some ?f) (lit ''%s'') [ucast p] ?h2 g1 =
      Some (if print_dropped ?h2 (length (log_body tx)) then -1 else int (length (log_body tx)), h3, g3)"
    "ring_rel g3 ((xs @ printed h (log_prefix t)) @ printed ?h2 (log_body tx))" "heap_kept base bs1 B ?h2 h3"
    by (rule print_step [OF inv2 1(2) out stk(1,2) st2 pct(1) [unfolded B_def] pct(2) s [unfolded B_def]
          spec_format_s [of "[p \<mapsto> log_body tx]" p "log_body tx"] body])
      (use p(1) in \<open>auto simp: B_def\<close>)
  have k: "heap_kept base bs (B \<union> D) h ?h2"
    by (rule heap_kept_trans [OF 1(3) k2 bs1(2,3)]) auto
  have "heap_kept base bs (B \<union> D) h h3"
    by (rule heap_kept_trans [OF k 3(3) bs1(2) ar2]) auto
  moreover have "ef2_debug_printf lit buffer stk str tag format args h g =
      Some (if print_dropped h (length (log_prefix t)) \<or> print_dropped ?h2 (length (log_body tx))
            then -1 else 0, h3, g3)"
  proof -
    have "(word_of_int (int (length tx)) :: u32) \<ge> 512 \<longleftrightarrow> \<not> length tx < 512"
      using tx(2) w32_le_iff [of 512 "length tx"] by (simp add: w32_numeral w32_def not_less)
    then show ?thesis
      using 1(1) v 3(1) fmt(1)
      by (simp add: ef2_debug_printf_def EF2_DEBUG_FORMAT_BYTES_def ef2_fprintf_def Let_def p_def
          truncated_def split: if_splits del: of_int_of_nat_eq)
  qed
  ultimately show ?thesis using 3(2) k by (intro exI [of _ ?h2] exI [of _ h3] exI [of _ g3]) simp
qed

section \<open>The serial port\<close>

lemma drop_bit_w32: "n < 4294967296 \<Longrightarrow> drop_bit k (w32 n) = w32 (n div 2 ^ k)"
proof -
  assume n: "n < 4294967296"
  have "n div 2 ^ k \<le> n" by simp
  then have le: "n div 2 ^ k < 4294967296" using n by (rule le_less_trans)
  have "unat (drop_bit k (w32 n)) = drop_bit k (unat (w32 n))" by (rule unat_drop_bit_eq)
  also have "\<dots> = n div 2 ^ k" by (simp only: unat_w32 [OF n] drop_bit_eq_div)
  finally show ?thesis using unat_w32 [OF le] by (metis w32_unat)
qed

definition sio_clock :: "nat \<Rightarrow> nat" where
  "sio_clock q = (if q < 256 then 0 else if q < 1024 then 1 else if q < 4096 then 2 else 3)"

lemma sio_clock_loop_spec:
  assumes "q < 4294967296"
  shows "sio_clock_loop (w32 q) 0 = (w32 (q div 4 ^ sio_clock q), w32 (sio_clock q))"
proof -
  have step: "sio_clock_loop (w32 n) (w32 c) =
      (if 256 \<le> n \<and> c < 3 then sio_clock_loop (w32 (n div 4)) (w32 (Suc c)) else (w32 n, w32 c))"
    if "n < 4294967296" "c \<le> 3" for n c
    using that w32_le_iff [of 256 n] w32_less_iff [of c 3] drop_bit_w32 [of n 2]
    by (subst sio_clock_loop.simps) (simp add: w32_numeral w32_add_one)
  have q: "q div 4 < 4294967296" "q div 4 div 4 < 4294967296" "q div 4 div 4 div 4 < 4294967296"
    using assms by auto
  have d: "q div 16 = q div 4 div 4" "q div 64 = q div 4 div 4 div 4" by (simp_all flip: div_mult2_eq)
  have c: "256 \<le> q div 4 \<longleftrightarrow> 1024 \<le> q" "256 \<le> q div 4 div 4 \<longleftrightarrow> 4096 \<le> q" by auto
  show ?thesis
    using step [OF assms, of 0] step [OF q(1), of 1] step [OF q(2), of 2] step [OF q(3), of 3] c
    by (auto simp: sio_clock_def d numeral_2_eq_2 numeral_3_eq_3)
qed

text \<open>The register writes that reset the port.\<close>

definition sio_setup :: "'w bus \<Rightarrow> 'w \<Rightarrow> 'w" where
  "sio_setup bus w = wr32 bus 0x1000F140 0 (wr32 bus 0x1000F140 7 (wr32 bus 0x1000F120 0
     (wr32 bus 0x1000F100 32 w)))"

text \<open>The bytes on the line: a carriage return before each newline that does not follow one.\<close>

fun crlf :: "u8 \<Rightarrow> u8 list \<Rightarrow> u8 list" where
  "crlf prev [] = []"
| "crlf prev (c # cs) = (if c = 10 \<and> prev \<noteq> 13 then [13, c] else [c]) @ crlf c cs"

definition port_ready :: "'w bus \<Rightarrow> bool" where
  "port_ready bus \<longleftrightarrow> (\<forall>w. \<exists>isr. rd32 bus EF2_SIO_ISR w = (isr, w) \<and> isr AND 0xF000 \<noteq> 0x8000)"

definition port_busy :: "'w bus \<Rightarrow> bool" where
  "port_busy bus \<longleftrightarrow> (\<forall>w. \<exists>isr w'. rd32 bus EF2_SIO_ISR w = (isr, w') \<and> isr AND 0xF000 = 0x8000)"

lemma sio_putc_ready:
  "port_ready bus \<Longrightarrow> sio_putc_bounded bus c st =
    (0, st\<lparr>sio_dev := wr8 bus EF2_SIO_TXFIFO c (sio_dev st), g_last_output := c\<rparr>)"
proof -
  assume r: "port_ready bus"
  obtain isr where "rd32 bus EF2_SIO_ISR (sio_dev st) = (isr, sio_dev st)" "isr AND 0xF000 \<noteq> 0x8000"
    using r unfolding port_ready_def by blast
  then show ?thesis by (simp add: sio_putc_bounded_def sio_wait_loop.simps)
qed

lemma sio_wait_busy: "port_busy bus \<Longrightarrow> fst (sio_wait_loop bus timeout w) = False"
proof (induction bus timeout w rule: sio_wait_loop.induct)
  case (1 bus timeout w)
  obtain isr w' where r: "rd32 bus EF2_SIO_ISR w = (isr, w')" "isr AND 0xF000 = 0x8000"
    using "1.prems" unfolding port_busy_def by blast
  show ?case
    using "1.IH" [OF r(1) [symmetric] refl r(2)] "1.prems" r
    by (subst sio_wait_loop.simps) auto
qed

lemma sio_write_step:
  assumes "port_ready bus" "i < n"
  shows "sio_write_loop bus m data i n st = sio_write_loop bus m data (i + 1) n
    (st\<lparr>sio_dev := fold (wr8 bus EF2_SIO_TXFIFO) (crlf (g_last_output st) [m (data + i)]) (sio_dev st),
        g_last_output := m (data + i)\<rparr>)"
  using assms(2) by (subst sio_write_loop.simps) (simp add: Let_def sio_putc_ready [OF assms(1)])

lemma crlf_Cons: "crlf prev (c # cs) = crlf prev [c] @ crlf c cs"
  by simp

lemma sio_write_loop_ready:
  "port_ready bus \<Longrightarrow> i \<le> n \<Longrightarrow>
   sio_write_loop bus m data i n st = (True,
      st\<lparr>sio_dev := fold (wr8 bus EF2_SIO_TXFIFO)
           (crlf (g_last_output st) (bytes_at m (unat data + unat i) (unat n - unat i))) (sio_dev st),
         g_last_output := last (g_last_output st # bytes_at m (unat data + unat i) (unat n - unat i))\<rparr>)"
proof (induction "unat n - unat i" arbitrary: i st)
  case 0
  then have "\<not> i < n" by (simp add: word_less_nat_alt)
  then show ?case using 0 by (subst sio_write_loop.simps) simp
next
  case (Suc k)
  then have lt: "i < n" by (simp add: word_less_nat_alt)
  have i1: "unat (i + 1) = Suc (unat i)" using lt by unat_arith
  have e: "unat n - unat i = Suc (unat n - Suc (unat i))" using lt by (simp add: word_less_nat_alt)
  have le: "i + 1 \<le> n" using lt i1 by (simp add: word_le_nat_alt word_less_nat_alt)
  have k: "k = unat n - unat (i + 1)" using Suc.hyps(2) i1 by simp
  have m: "m (w32 (unat data + unat i)) = m (data + i)" by (simp flip: w32_add)
  show ?case
    unfolding sio_write_step [OF Suc.prems(1) lt] Suc.hyps(1) [OF k Suc.prems(1) le]
    by (simp only: e bytes_at_Suc m i1 crlf_Cons [of _ "m (data + i)" "bytes_at _ _ _"]) simp
qed

end
