(* ===== verification/DebugProps.thy ===== *)
theory DebugProps
  imports DebugSpec
begin

text \<open>
  The properties of the streams, the debug log and the serial port, with a small data
  segment and heap on which the instances run.
\<close>

text \<open>
  A stream gets the whole text.  For a format and strings outside the heap and the stack
  array, on a well-formed heap, \<open>ef2_vfprintf\<close> to the debug log ends; it appends exactly the
  text of the format and returns its length, also when the text needs a heap buffer, or
  returns -1 with nothing written and the heap unchanged, which happens only for a text of
  256 characters or more; either way no payload and no memory outside is disturbed.
\<close>

theorem vfprintf_appends:
  assumes "heap_inv h base bs" "ring_rel g xs" "file_write f = Some (debug_sink_write bus)"
    and "spec_format strs fs args = Some tx" "length tx < 0x7FFFFFFF" "format \<noteq> 0"
    and "stk \<noteq> 0" "unat stk + 256 \<le> 2 ^ 32" "B = {unat stk..<unat stk + 256}" "B \<inter> heap_arena h = {}"
    and "readable (hmem h) (heap_arena h \<union> B) (unat format) fs"
    and "readable_strings (hmem h) (heap_arena h \<union> B) strs"
  shows "\<exists>r h' g'. ef2_vfprintf stk (Some f) format args h g = Some (r, h', g') \<and>
    heap_kept base bs B h h' \<and>
    (r = int (length tx) \<and> ring_rel g' (xs @ tx) \<or> r = -1 \<and> h' = h \<and> g' = g \<and> 256 \<le> length tx)"
proof -
  have "unat stk + 256 \<le> 4294967296" using assms(8) by simp
  from debug_sink.vfprintf_delivers [OF assms(1-7) this assms(9-12)] show ?thesis
    by (auto simp: print_dropped_def split: if_splits)
qed

text \<open>A data segment with the literals of the log, a tag and a message.\<close>

lemma cstr_segment:
  assumes "img = xs @ s @ [0] @ ys" "0 \<notin> set s" "p + length img \<le> 4294967296"
  shows "cstr (put_bytes m p img) (p + length xs) s"
proof -
  have "bytes_at (put_bytes m p img) p (length img) = img" by (rule bytes_at_put [OF assms(3)])
  then have b: "put_bytes m p img (w32 (p + k)) = img ! k" if "k < length img" for k
    using nth_bytes_at [OF that, of "put_bytes m p img" p] by simp
  have "bytes_at (put_bytes m p img) (p + length xs) (Suc (length s)) = s @ [0]"
    by (rule nth_equalityI) (use b assms(1) in \<open>auto simp: add.assoc nth_append\<close>)
  then show ?thesis using assms by (simp add: cstr_bytes_at)
qed

definition log_image :: "u8 list" where
  "log_image = chars ''[EF2][%s] '' @ [0] @ chars ''[EF2] '' @ [0] @ chars ''%s'' @ [0] @
     chars truncated @ [0] @ chars ''ab'' @ [0] @ chars ''ok'' @ [0]"


definition log_heap :: heap where
  "log_heap = small_heap\<lparr>hmem := put_bytes (hmem small_heap) 16 log_image\<rparr>"

lemma log_image_length: "length log_image = 54"
  by (simp add: log_image_def chars_def truncated_def)

lemma log_strings:
  "cstr (hmem log_heap) 16 (chars ''[EF2][%s] '')"
  "cstr (hmem log_heap) 27 (chars ''[EF2] '')"
  "cstr (hmem log_heap) 34 (chars ''%s'')"
  "cstr (hmem log_heap) 37 (chars truncated)"
  "cstr (hmem log_heap) 64 (chars ''ab'')"
  "cstr (hmem log_heap) 67 (chars ''ok'')"
proof -
  have seg: "cstr (hmem log_heap) (16 + length xs) t"
    if "log_image = xs @ t @ [0] @ ys" "0 \<notin> set t" for xs t ys
    using cstr_segment [OF that, of 16 "hmem small_heap"] by (simp add: log_heap_def log_image_length)
  note simps = log_image_def chars_def truncated_def
  let ?t1 = "chars ''[EF2][%s] '' @ [0]" and ?t2 = "chars ''[EF2] '' @ [0]" and ?t3 = "chars ''%s'' @ [0]"
    and ?t4 = "chars truncated @ [0]" and ?t5 = "chars ''ab'' @ [0]" and ?t6 = "chars ''ok'' @ [0]"
  show "cstr (hmem log_heap) 16 (chars ''[EF2][%s] '')"
    using seg [of "[]" "chars ''[EF2][%s] ''" "?t2 @ ?t3 @ ?t4 @ ?t5 @ ?t6"] by (simp add: simps)
  show "cstr (hmem log_heap) 27 (chars ''[EF2] '')"
    using seg [of ?t1 "chars ''[EF2] ''" "?t3 @ ?t4 @ ?t5 @ ?t6"] by (simp add: simps)
  show "cstr (hmem log_heap) 34 (chars ''%s'')"
    using seg [of "?t1 @ ?t2" "chars ''%s''" "?t4 @ ?t5 @ ?t6"] by (simp add: simps)
  show "cstr (hmem log_heap) 37 (chars truncated)"
    using seg [of "?t1 @ ?t2 @ ?t3" "chars truncated" "?t5 @ ?t6"] by (simp add: simps)
  show "cstr (hmem log_heap) 64 (chars ''ab'')"
    using seg [of "?t1 @ ?t2 @ ?t3 @ ?t4" "chars ''ab''" ?t6] by (simp add: simps)
  show "cstr (hmem log_heap) 67 (chars ''ok'')"
    using seg [of "?t1 @ ?t2 @ ?t3 @ ?t4 @ ?t5" "chars ''ok''" "[]"] by (simp add: simps)
qed

lemma log_arena: "heap_arena log_heap = {1048576..<1052672}"
  using heap_inv_arena(1) [OF small_heap_inv] by (simp add: heap_arena_def log_heap_def)

lemma log_heap_inv: "heap_inv log_heap 1048576 [(4080, False)]"
proof -
  have ar: "heap_arena small_heap = {1048576..<1052672}" using heap_inv_arena(1) [OF small_heap_inv] by simp
  show ?thesis
    unfolding log_heap_def
    by (rule heap_inv_outside_write [OF small_heap_inv put_bytes_agree [where A = "{16..<70}"]])
      (simp_all add: ar log_image_length)
qed

definition log_start :: "unit debug_log" where
  "log_start = ef2_debug_reset \<lparr>g_debug_ring = [], g_ring_head = 0, g_ring_used = 0, g_total_bytes = 0,
     g_sio_active = False, g_sio_failures = 0, log_sio = \<lparr>sio_dev = (), g_last_output = 0\<rparr>\<rparr>"

definition null_bus :: "unit bus" where
  "null_bus = \<lparr>rd8 = (\<lambda>a w. (0, w)), rd16 = (\<lambda>a w. (0, w)), rd32 = (\<lambda>a w. (0, w)),
     wr8 = (\<lambda>a v w. w), wr16 = (\<lambda>a v w. w), wr32 = (\<lambda>a v w. w)\<rparr>"

definition log_streams :: "unit bus \<Rightarrow> unit debug_log streams" where
  "log_streams bus = ef2_stdio_set_stdout (Some (debug_sink_write bus)) 0 initial_streams"

lemma spec_format_ok: "spec_format strs (chars ''ok'') [] = Some (chars ''ok'')"
  by (simp add: spec_format.simps chars_def)

theorem vfprintf_appends_witness:
  "\<exists>h' g'. ef2_vfprintf 0x200000 (Some (ef2_stdout_stream (log_streams null_bus))) 67 [] log_heap log_start =
       Some (2, h', g') \<and> ring_rel g' (chars ''ok'')"
proof -
  have f: "file_write (ef2_stdout_stream (log_streams null_bus)) = Some (debug_sink_write null_bus)"
    by (simp add: log_streams_def ef2_stdio_set_stdout_def set_stream_def)
  have r: "readable (hmem log_heap) (heap_arena log_heap \<union> {2097152..<2097408}) (unat (67 :: u32)) (chars ''ok'')"
    using log_strings(6) by (auto simp: readable_def log_arena chars_def)
  have g: "ring_rel log_start []" by (simp add: log_start_def ring_rel_reset)
  show ?thesis
    using vfprintf_appends [OF log_heap_inv g f spec_format_ok [of Map.empty],
        where format = 67 and stk = "0x200000" and B = "{2097152..<2097408}"] r
    by (auto simp: chars_def log_arena readable_strings_def)
qed



text \<open>
  C11: The log keeps the most recent bytes.  Whatever the serial mirror does, \<open>ef2_debug_write_raw\<close>
  extends the history by the bytes given and \<open>ef2_debug_copy_recent\<close> returns the last of them
  that the ring of 8192 bytes and the buffer of the caller can hold, terminated; the usage and
  byte counts are exact up to saturation.
\<close>

theorem debug_log_recent:
  assumes "ring_rel g xs" "data \<noteq> 0" "ef2_debug_write_raw bus m data n g = (r, g')"
    and "dst \<noteq> 0" "0 < cap" "unat dst + unat cap \<le> 2 ^ 32"
  defines "ys \<equiv> xs @ bytes_at m (unat data) (unat n)"
  defines "c \<equiv> min (min (length ys) 8192) (unat cap - 1)"
  shows "ring_rel g' ys \<and> r = (if n > 0x7FFFFFFF then 0x7FFFFFFF else n) \<and>
    ef2_debug_copy_recent g' dst cap m = (w32 c, put_bytes m (unat dst) (drop (length ys - c) ys @ [0])) \<and>
    (\<exists>st. ef2_debug_get_stats g' (Some ds) = (0, Some st) \<and> unat (ring_used st) = min (length ys) 8192 \<and>
       unat (ds_total_bytes st) = min (length ys) 0xFFFFFFFF)"
proof -
  have rel: "ring_rel g' ys" unfolding ys_def by (rule debug_write_raw_rel(1) [OF assms(1-3)])
  have "unat dst \<noteq> 0" "0 < unat cap" "unat dst + unat cap \<le> 4294967296"
    using assms(4-6) by (simp_all add: unat_gt_0 unat_eq_zero)
  from copy_recent_exact [OF rel this] have
    "ef2_debug_copy_recent g' dst cap m = (w32 c, put_bytes m (unat dst) (drop (length ys - c) ys @ [0]))"
    by (simp add: c_def)
  moreover have "unat (g_ring_used g') = min (length ys) 8192" "unat (g_total_bytes g') = min (length ys) 4294967295"
    using rel by (simp_all add: ring_rel_def)
  ultimately show ?thesis
    using rel debug_write_raw_rel(2) [OF assms(1-3)] by (simp add: ef2_debug_get_stats_def)
qed

definition no_debug_stats :: debug_stats where
  "no_debug_stats = \<lparr>ring_capacity = 0, ring_used = 0, ds_total_bytes = 0, sio_active = False, sio_failures = 0\<rparr>"

theorem debug_log_recent_witness:
  "\<exists>r g'. ef2_debug_write_raw null_bus (\<lambda>a. ucast a) 65 10 log_start = (r, g') \<and>
     ef2_debug_copy_recent g' 1000 4 (\<lambda>a. ucast a) = (3, put_bytes (\<lambda>a. ucast a) 1000 [72, 73, 74, 0])"
proof -
  obtain r g' where w: "ef2_debug_write_raw null_bus (\<lambda>a. ucast a) 65 10 log_start = (r, g')" by fastforce
  have rel: "ring_rel log_start []" by (simp add: log_start_def ring_rel_reset)
  have "bytes_at (\<lambda>a. ucast a) 65 10 = [65, 66, 67, 68, 69, 70, 71, 72, 73, 74]"
    by (simp add: bytes_at_def w32_numeral upt_rec)
  then show ?thesis
    using debug_log_recent [OF rel _ w, of 1000 4 no_debug_stats] w by (simp add: w32_def)
qed

text \<open>
  C12: The baud rate.  \<open>ef2_debug_sio_init\<close> resets the port and programs the largest divisor
  below 256 that the four clock selections allow, rounding down, or fails with -2 when there
  is none; but the product of the rate and 256 is taken modulo 2^32, so that a rate that is
  a non-zero multiple of 2^24 traps in a division by zero.
\<close>

theorem sio_init_divisor:
  fixes baud :: u32 and bus :: "'w bus" and st :: "'w sio"
  defines "q \<equiv> 294912000 div (unat baud * 256 mod 2 ^ 32)" and "w \<equiv> sio_setup bus (sio_dev st)"
  shows "ef2_debug_sio_init bus baud st =
    (if baud = 0 then Some (-1, st)
     else if 2 ^ 24 dvd unat baud then None
     else if q = 0 \<or> 256 \<le> q div 4 ^ sio_clock q then Some (-2, st\<lparr>sio_dev := w\<rparr>)
     else Some (0, \<lparr>sio_dev = wr32 bus 0x1000F150 (w32 (256 * sio_clock q + q div 4 ^ sio_clock q)) w,
                    g_last_output = 0\<rparr>))"
proof (cases "baud = 0")
  case False
  have m: "unat (baud * 256) = unat baud * 256 mod 2 ^ 32" by (simp add: unat_word_ariths)
  have z: "baud * 256 = 0 \<longleftrightarrow> 2 ^ 24 dvd unat baud"
  proof -
    have "baud * 256 = 0 \<longleftrightarrow> unat (baud * 256) = 0" by (simp add: unat_eq_zero)
    also have "\<dots> \<longleftrightarrow> 256 * 2 ^ 24 dvd 256 * unat baud" by (simp add: m dvd_eq_mod_eq_0 mult.commute)
    finally show ?thesis by simp
  qed
  have q: "q < 4294967296" "(294912000 :: u32) div (baud * 256) = w32 q"
  proof -
    have "q \<le> 294912000" by (simp add: q_def)
    then show "q < 4294967296" by simp
    have "unat ((294912000 :: u32) div (baud * 256)) = q" by (simp add: unat_div m q_def)
    then show "(294912000 :: u32) div (baud * 256) = w32 q" by (metis w32_unat)
  qed
  have d: "q div 4 ^ sio_clock q < 4294967296" using q(1) by (meson div_le_dividend le_less_trans)
  have z0: "w32 (q div 4 ^ sio_clock q) = 0 \<longleftrightarrow> q = 0"
    using d by (auto simp: w32_eq_0_iff sio_clock_def div_eq_0_iff)
  have le: "256 \<le> w32 (q div 4 ^ sio_clock q) \<longleftrightarrow> 256 \<le> q div 4 ^ sio_clock q"
    using w32_le_iff [of 256, OF _ d] by (simp add: w32_numeral)
  have reg: "push_bit 8 (w32 c) OR w32 n = w32 (256 * c + n)" if "n < 256" for c n
  proof -
    have n: "take_bit 8 (w32 n) = w32 n"
      using that unat_take_bit [of 8 "w32 n"] by (simp add: word_unat_eq_iff unat_w32)
    have "push_bit 8 (w32 c) AND take_bit 8 (w32 n) = 0"
      by (rule bit_word_eqI) (auto simp: bit_simps)
    then have "push_bit 8 (w32 c) OR w32 n = push_bit 8 (w32 c) + w32 n"
      unfolding n by (simp only: disjunctive_add_eq_or)
    then show ?thesis by (simp add: push_bit_eq_mult w32_def mult.commute)
  qed
  show ?thesis
    using False z le z0 sio_clock_loop_spec [OF q(1)] q(2) reg [of "q div 4 ^ sio_clock q" "sio_clock q"]
    by (simp add: ef2_debug_sio_init_def EF2_SIO_CPU_CLOCK_def EF2_SIO_LCR_def EF2_SIO_IER_def EF2_SIO_FCR_def
        EF2_SIO_BGR_def Let_def w_def sio_setup_def not_le)
qed (simp add: ef2_debug_sio_init_def)

text \<open>
  Lines on the serial port.  When the port is ready, \<open>ef2_debug_sio_write\<close> sends every byte in
  order with a carriage return before each newline that does not follow one, and reports the
  size; when it stays busy, a non-empty write gives up with -1 after the bounded wait.
\<close>

theorem sio_write_lines:
  fixes m :: mem
  assumes "data \<noteq> 0" "unat n \<le> 0x7FFFFFFF"
  defines "bs \<equiv> bytes_at m (unat data) (unat n)"
  shows "(port_ready bus \<longrightarrow> ef2_debug_sio_write bus context m data n st =
      (n, st\<lparr>sio_dev := fold (wr8 bus 0x1000F180) (crlf (g_last_output st) bs) (sio_dev st),
             g_last_output := last (g_last_output st # bs)\<rparr>)) \<and>
    (port_busy bus \<longrightarrow> 0 < n \<longrightarrow> fst (ef2_debug_sio_write bus context m data n st) = -1)"
proof -
  have nb: "\<not> 0x7FFFFFFF < n" using assms(2) by (simp add: word_less_nat_alt)
  have putc: "fst (sio_putc_bounded bus c s) = -1" if "port_busy bus" for c s
    using sio_wait_busy [OF that, of EF2_SIO_TX_TIMEOUT "sio_dev s"]
    by (simp add: sio_putc_bounded_def split_beta)
  have "fst (sio_write_loop bus m data 0 n st) = False" if "port_busy bus" "0 < n"
    using that putc [OF that(1)] by (subst sio_write_loop.simps) (auto simp: Let_def split_beta)
  then show ?thesis
    using sio_write_loop_ready [of bus 0 n m data st] assms(1) nb
    by (auto simp: ef2_debug_sio_write_def bs_def EF2_SIO_TXFIFO_def split_beta)
qed

theorem sio_write_lines_witness:
  "ef2_debug_sio_write (fixed_bus (\<lambda>a. 0)) 0 (\<lambda>a. 10) 100 2 \<lparr>sio_dev = [], g_last_output = 0\<rparr> =
     (2, \<lparr>sio_dev = map (Pair 0x1000F180) [10, 13, 10, 13], g_last_output = 10\<rparr>)"
proof -
  have "port_ready (fixed_bus (\<lambda>a. 0))" by (simp add: port_ready_def)
  moreover have "bytes_at (\<lambda>a. 10) 100 2 = [10, 10]" by (simp add: bytes_at_def upt_rec)
  ultimately show ?thesis
    using sio_write_lines [of 100 2 "fixed_bus (\<lambda>a. 0)" 0 "\<lambda>a. 10" "\<lparr>sio_dev = [], g_last_output = 0\<rparr>"]
    by (simp add: fixed_bus_def)
qed

end
