(* ===== verification/AudioRate.thy ===== *)
theory AudioRate
  imports Prelude "HOL-Library.Monad_Syntax"
begin

text \<open>
  The portable audio core of \<open>src/ee/audio/audio.c\<close>: stream validation, the Q32 sample rate
  converter and the mixer.

  Sample buffers are lists of 16-bit words, read as signed.  An access outside a buffer,
  undefined in C, makes the result \<open>None\<close>.  A null pointer argument is \<open>None\<close>.
\<close>

type_synonym s16 = "16 word"

definition EF2_AUDIO_SAMPLE_S16 :: u32 where "EF2_AUDIO_SAMPLE_S16 = 1"
definition EF2_AUDIO_RESAMPLE_NEAREST :: u32 where "EF2_AUDIO_RESAMPLE_NEAREST = 0"
definition EF2_AUDIO_RESAMPLE_LINEAR :: u32 where "EF2_AUDIO_RESAMPLE_LINEAR = 1"

record audio_stream_config =
  sample_rate :: u32
  cfg_channels :: u8
  cfg_format :: u32
  cfg_resampler :: u32

record rate_converter =
  input_rate :: u32
  output_rate :: u32
  rc_channels :: u8
  rc_mode :: u32
  phase_q32 :: u64
  step_q32 :: u64

definition get_sample :: "s16 list \<Rightarrow> u32 \<Rightarrow> s16 option" where
  "get_sample xs i = (if unat i < length xs then Some (xs ! unat i) else None)"

definition put_sample :: "s16 list \<Rightarrow> u32 \<Rightarrow> s16 \<Rightarrow> s16 list option" where
  "put_sample xs i v = (if unat i < length xs then Some (xs[unat i := v]) else None)"

section \<open>The long divider\<close>

function div_loop :: "u64 \<Rightarrow> u64 \<Rightarrow> int \<Rightarrow> u64 \<Rightarrow> u64 \<Rightarrow> u64" where
  "div_loop numerator denominator k remainder quot =
    (if k \<ge> 0 then
       let r = push_bit 1 remainder OR (drop_bit (nat k) numerator AND 1)
       in if r \<ge> denominator
          then div_loop numerator denominator (k - 1) (r - denominator) (quot OR push_bit (nat k) 1)
          else div_loop numerator denominator (k - 1) r quot
     else quot)"
  by pat_completeness auto
termination
  by (relation "measure (\<lambda>(n, d, k, r, q). nat (k + 1))") auto

declare div_loop.simps [simp del]

definition ef2_audio_div_u64_u32 :: "u64 \<Rightarrow> u32 \<Rightarrow> u64" where
  "ef2_audio_div_u64_u32 numerator denominator =
    (if denominator = 0 then 0 else div_loop numerator (ucast denominator) 63 0 0)"

definition ef2_audio_saturate_s16 :: "int \<Rightarrow> s16" where
  "ef2_audio_saturate_s16 v =
    (if v > 32767 then 32767 else if v < -32768 then word_of_int (-32768) else word_of_int v)"

section \<open>Configuration\<close>

definition ef2_audio_stream_config_valid :: "audio_stream_config option \<Rightarrow> s32" where
  "ef2_audio_stream_config_valid config =
    (case config of None \<Rightarrow> 0
     | Some c \<Rightarrow>
         if sample_rate c = 0 then 0
         else if cfg_channels c \<noteq> 1 \<and> cfg_channels c \<noteq> 2 then 0
         else if cfg_format c \<noteq> EF2_AUDIO_SAMPLE_S16 then 0
         else if cfg_resampler c \<noteq> EF2_AUDIO_RESAMPLE_NEAREST \<and>
                 cfg_resampler c \<noteq> EF2_AUDIO_RESAMPLE_LINEAR then 0
         else 1)"

definition ef2_audio_rate_converter_init ::
  "rate_converter option \<Rightarrow> u32 \<Rightarrow> u32 \<Rightarrow> u8 \<Rightarrow> u32 \<Rightarrow> s32 \<times> rate_converter option" where
  "ef2_audio_rate_converter_init converter irate orate channels mode =
    (case converter of None \<Rightarrow> (-1, None)
     | Some c \<Rightarrow>
         if irate = 0 \<or> orate = 0 then (-2, Some c)
         else if channels \<noteq> 1 \<and> channels \<noteq> 2 then (-3, Some c)
         else if mode \<noteq> EF2_AUDIO_RESAMPLE_NEAREST \<and> mode \<noteq> EF2_AUDIO_RESAMPLE_LINEAR
         then (-4, Some c)
         else
           let numerator = push_bit 32 (ucast irate);
               c' = \<lparr>input_rate = irate, output_rate = orate, rc_channels = channels, rc_mode = mode,
                     phase_q32 = 0, step_q32 = ef2_audio_div_u64_u32 numerator orate\<rparr>
           in if step_q32 c' = 0 then (-5, Some c') else (0, Some c'))"

definition ef2_audio_rate_converter_reset :: "rate_converter option \<Rightarrow> rate_converter option" where
  "ef2_audio_rate_converter_reset converter = map_option (\<lambda>c. c\<lparr>phase_q32 := 0\<rparr>) converter"

section \<open>Conversion\<close>

function copy_samples :: "s16 list \<Rightarrow> s16 list \<Rightarrow> u32 \<Rightarrow> u32 \<Rightarrow> s16 list option" where
  "copy_samples input output i n =
    (if i < n then
       do { v \<leftarrow> get_sample input i; output' \<leftarrow> put_sample output i v;
            copy_samples input output' (i + 1) n }
     else Some output)"
  by pat_completeness auto
termination
  by (relation "measure (\<lambda>(a, b, i, n). unat (n - i))") (auto simp: u32_countdown_less)

definition convert_sample :: "u32 \<Rightarrow> u32 \<Rightarrow> s16 \<Rightarrow> s16 \<Rightarrow> s16" where
  "convert_sample mode fraction x y =
    (let a = sint x; b = sint y in
     if mode = EF2_AUDIO_RESAMPLE_NEAREST
     then word_of_int (if fraction < 0x80000000 then a else b)
     else
       let fraction_q16 = drop_bit 16 fraction; delta = b - a;
           interpolated = delta * int (unat fraction_q16)
       in word_of_int (a + interpolated div 2 ^ 16))"

function channel_loop ::
  "u32 \<Rightarrow> s16 list \<Rightarrow> u32 \<Rightarrow> u32 \<Rightarrow> u32 \<Rightarrow> u32 \<Rightarrow> u32 \<Rightarrow> s16 list \<Rightarrow> s16 list option" where
  "channel_loop mode input channels index fraction produced channel output =
    (if channel < channels then
       do { a \<leftarrow> get_sample input (index * channels + channel);
            b \<leftarrow> get_sample input ((index + 1) * channels + channel);
            output' \<leftarrow> put_sample output (produced * channels + channel) (convert_sample mode fraction a b);
            channel_loop mode input channels index fraction produced (channel + 1) output' }
     else Some output)"
  by pat_completeness auto
termination
  by (relation "measure (\<lambda>(m, x, n, i, f, p, c, out). unat (n - c))") (auto simp: u32_countdown_less)

function convert_loop ::
  "rate_converter \<Rightarrow> s16 list \<Rightarrow> u32 \<Rightarrow> u32 \<Rightarrow> u32 \<Rightarrow> u64 \<Rightarrow> s16 list \<Rightarrow> (u32 \<times> u64 \<times> s16 list) option" where
  "convert_loop c input input_frames capacity produced phase output =
    (if produced < capacity then
       let index = ucast (drop_bit 32 phase) :: u32; fraction = ucast phase :: u32
       in if index + 1 \<ge> input_frames then Some (produced, phase, output)
          else do { output' \<leftarrow> channel_loop (rc_mode c) input (ucast (rc_channels c)) index fraction
                                  produced 0 output;
                    convert_loop c input input_frames capacity (produced + 1) (phase + step_q32 c) output' }
     else Some (produced, phase, output))"
  by pat_completeness auto
termination
  by (relation "measure (\<lambda>(c, x, n, cap, p, ph, out). unat (cap - p))") (auto simp: u32_countdown_less)

declare copy_samples.simps [simp del] channel_loop.simps [simp del] convert_loop.simps [simp del]

text \<open>
  The result: frames produced, the converter, the output buffer and the value stored through
  \<open>input_frames_consumed\<close>; \<open>store\<close> says that this pointer is not null.
\<close>

definition ef2_audio_rate_converter_process_s16 ::
  "rate_converter option \<Rightarrow> s16 list option \<Rightarrow> u32 \<Rightarrow> s16 list option \<Rightarrow> u32 \<Rightarrow> bool \<Rightarrow>
   (u32 \<times> rate_converter option \<times> s16 list option \<times> u32) option" where
  "ef2_audio_rate_converter_process_s16 converter input input_frames output capacity store =
    (case (converter, input, output) of
       (Some c, Some xs, Some ys) \<Rightarrow>
         if \<not> store \<or> capacity = 0 \<or> input_frames = 0 then Some (0, converter, output, 0)
         else
           let channels = ucast (rc_channels c) :: u32 in
           if input_rate c = output_rate c then
             let frames = (if input_frames > capacity then capacity else input_frames)
             in do { ys' \<leftarrow> copy_samples xs ys 0 (frames * channels);
                     Some (frames, Some (c\<lparr>phase_q32 := 0\<rparr>), Some ys', frames) }
           else if input_frames < 2 then Some (0, converter, output, 0)
           else
             do { (produced, phase, ys') \<leftarrow> convert_loop c xs input_frames capacity 0 (phase_q32 c) ys;
                  let consumed64 = drop_bit 32 phase;
                      consumed = (if consumed64 \<ge> ucast input_frames then input_frames - 1
                                  else ucast consumed64);
                      phase' = phase - push_bit 32 (ucast consumed)
                  in Some (produced, Some (c\<lparr>phase_q32 := phase'\<rparr>), Some ys', consumed) }
     | _ \<Rightarrow> Some (0, converter, output, 0))"

section \<open>Mixing\<close>

definition mix_sample :: "s32 \<Rightarrow> s16 \<Rightarrow> s16 \<Rightarrow> s16" where
  "mix_sample gain_q15 d s =
    (let scaled = sint s * gain_q15;
         scaled' = (if scaled \<ge> 0 then (scaled + 32768 div 2) div 2 ^ 15
                    else - ((- scaled + 32768 div 2) div 2 ^ 15))
     in ef2_audio_saturate_s16 (sint d + scaled'))"

function mix_loop :: "s16 list \<Rightarrow> s16 list \<Rightarrow> u32 \<Rightarrow> u32 \<Rightarrow> s32 \<Rightarrow> s16 list option" where
  "mix_loop destination source i n gain_q15 =
    (if i < n then
       do { s \<leftarrow> get_sample source i; d \<leftarrow> get_sample destination i;
            destination' \<leftarrow> put_sample destination i (mix_sample gain_q15 d s);
            mix_loop destination' source (i + 1) n gain_q15 }
     else Some destination)"
  by pat_completeness auto
termination
  by (relation "measure (\<lambda>(d, s, i, n, g). unat (n - i))") (auto simp: u32_countdown_less)

declare mix_loop.simps [simp del]

definition ef2_audio_mix_s16 :: "s16 list option \<Rightarrow> s16 list option \<Rightarrow> u32 \<Rightarrow> s32 \<Rightarrow> s16 list option option" where
  "ef2_audio_mix_s16 destination source n gain_q15 =
    (case (destination, source) of
       (Some d, Some s) \<Rightarrow> map_option Some (mix_loop d s 0 n gain_q15)
     | _ \<Rightarrow> Some destination)"

end
