(* ===== verification/AudioSpec.thy ===== *)
theory AudioSpec
  imports AudioRate
begin

text \<open>
  What the audio core computes, as functions on lists and naturals: the quotient of the divider, the
  frames a conversion makes and their samples, the mixed sample; and the lemmas that the loops
  of \<open>AudioRate\<close> compute them.
\<close>

section \<open>The long divider\<close>

lemma unat_shift_in:
  assumes "unat (r :: u64) < 2 ^ 32" 
  shows "unat (push_bit 1 r OR (drop_bit j n AND 1)) = 2 * unat r + unat n div 2 ^ j mod 2"
proof -
  let ?b = "drop_bit j n AND (1 :: u64)"
  have "(1 :: u64) = mask 1" by (simp add: mask_eq_exp_minus_1)
  then have b: "unat ?b = unat n div 2 ^ j mod 2"
    using unat_and_mask [of "drop_bit j n" 1] unfolding unat_drop_bit_div by simp
  have "push_bit 1 r AND mask 1 = 0"
    by (simp only: take_bit_push_bit flip: take_bit_eq_mask) simp
  then have "(push_bit 1 r AND 1) AND drop_bit j n = 0" by (simp add: mask_eq_exp_minus_1)
  then have "push_bit 1 r AND ?b = 0" by (simp only: ac_simps)
  then have "push_bit 1 r OR ?b = push_bit 1 r + ?b" by (simp only: disjunctive_add_eq_or)
  moreover have "unat (push_bit 1 r) = 2 * unat r"
    using assms by (simp add: push_bit_eq_mult unat_word_ariths mult.commute)
  moreover have "unat ?b < 2" using b by simp
  ultimately show ?thesis
    using b assms by (simp add: unat_word_ariths)
qed

lemma div_mod_unique: "B = D * q + r \<Longrightarrow> r < D \<Longrightarrow> B div D = q \<and> B mod D = (r :: nat)"
  by simp

lemma div_loop_spec:
  "0 < unat d \<Longrightarrow> unat d < 2 ^ 32 \<Longrightarrow> unat r = unat n div 2 ^ j mod unat d \<Longrightarrow>
   unat q = unat n div 2 ^ j div unat d * 2 ^ j \<Longrightarrow> j \<le> 64 \<Longrightarrow>
   unat (div_loop n d (int j - 1) r q) = unat n div unat d"
proof (induction j arbitrary: r q)
  case 0
  then show ?case by (simp add: div_loop.simps)
next
  case (Suc j)
  let ?N = "unat n" and ?D = "unat d"
  let ?A = "?N div 2 ^ Suc j" and ?B = "?N div 2 ^ j" and ?b = "?N div 2 ^ j mod 2"
  have "?A = ?B div 2" by (simp only: power_Suc2 div_mult2_eq)
  then have AB: "?B = 2 * ?A + ?b" by simp
  have rD: "unat r < ?D" using Suc.prems(1,3) by simp
  then have r: "unat r < 2 ^ 32" using Suc.prems(2) by linarith
  let ?r = "push_bit 1 r OR (drop_bit j n AND 1)"
  have ur: "unat ?r = 2 * unat r + ?b" by (rule unat_shift_in [OF r])
  have A: "?A = ?D * (?A div ?D) + unat r" using Suc.prems(3) by simp
  have B: "?B = ?D * (2 * (?A div ?D)) + unat ?r"
    unfolding ur using AB A by (simp add: algebra_simps)
  have le: "?B * 2 ^ j \<le> ?N" by (rule div_times_less_eq_dividend)
  have N: "?N < 2 ^ 64" using unsigned_less [of n, where 'a = nat] by simp
  have step: "div_loop n d (int (Suc j) - 1) r q =
      (if d \<le> ?r then div_loop n d (int j - 1) (?r - d) (q OR push_bit j 1)
       else div_loop n d (int j - 1) ?r q)"
    by (subst div_loop.simps) (simp add: Let_def)
  show ?case
  proof (cases "d \<le> ?r")
    case True
    then have ge: "?D \<le> unat ?r" by (simp add: word_le_nat_alt)
    then have u1: "unat (?r - d) = unat ?r - ?D" using True by (simp add: unat_sub)
    have lt: "unat ?r - ?D < ?D" using ur rD by auto
    have qm: "?B = ?D * (2 * (?A div ?D) + 1) + (unat ?r - ?D)" using B ge by simp
    have divB: "?B div ?D = 2 * (?A div ?D) + 1" and modB: "?B mod ?D = unat ?r - ?D"
      using div_mod_unique [OF qm lt] by auto
    have "unat q = (?A div ?D) * 2 * 2 ^ j" using Suc.prems(4) by simp
    have "\<not> bit q j"
    proof -
      have "bit (unat q) j = odd (unat q div 2 ^ j)" by (rule bit_iff_odd)
      also have "unat q div 2 ^ j = (?A div ?D) * 2" using Suc.prems(4) by simp
      finally have "\<not> bit (unat q) j" by simp
      then show ?thesis by (simp add: bit_unsigned_iff)
    qed
    then have "q AND push_bit j 1 = 0" by (intro bit_word_eqI) (auto simp: bit_simps)
    then have "q OR push_bit j 1 = q + push_bit j 1" by (simp only: disjunctive_add_eq_or)
    moreover have "unat (push_bit j (1 :: u64)) = 2 ^ j"
    proof -
      have "(2 :: nat) ^ j < 2 ^ 64" using Suc.prems(5) by (intro power_strict_increasing) auto
      then show ?thesis
        unfolding unsigned_push_bit_eq using Suc.prems(5) by (simp add: take_bit_nat_eq_self push_bit_eq_mult)
    qed
    moreover have "unat q + 2 ^ j = (?B div ?D) * 2 ^ j"
      using Suc.prems(4) divB by (simp add: algebra_simps)
    moreover have "(?B div ?D) * 2 ^ j < 2 ^ 64"
    proof -
      have "(?B div ?D) * 2 ^ j \<le> ?B * 2 ^ j" by (rule mult_right_mono) auto
      then show ?thesis using le N by linarith
    qed
    ultimately have uq: "unat (q OR push_bit j 1) = (?B div ?D) * 2 ^ j"
      by (simp add: unat_word_ariths)
    show ?thesis
      unfolding step using True u1 modB uq Suc.IH [of "?r - d" "q OR push_bit j 1"] Suc.prems(1,2,5) by simp
  next
    case False
    then have lt: "unat ?r < ?D" by (simp add: word_le_nat_alt)
    have divB: "?B div ?D = 2 * (?A div ?D)" and modB: "?B mod ?D = unat ?r"
      using div_mod_unique [OF B lt] by auto
    have "unat q = (?B div ?D) * 2 ^ j" using Suc.prems(4) divB by simp
    then show ?thesis
      unfolding step using False modB Suc.IH [of ?r q] Suc.prems(1,2,5) by simp
  qed
qed

lemma div_u64_u32: "unat (ef2_audio_div_u64_u32 n d) = unat n div unat d"
proof (cases "d = 0")
  case False
  have "unat n < 2 ^ 64" using unsigned_less [of n, where 'a = nat] by simp
  moreover have "0 < unat d" using False by (simp add: unat_gt_0)
  ultimately show ?thesis
    using div_loop_spec [of "ucast d" 0 n 64 0] False by (simp add: ef2_audio_div_u64_u32_def)
qed (simp add: ef2_audio_div_u64_u32_def)

section \<open>Conversion of a whole buffer\<close>

text \<open>
  Frame \<open>i\<close>, channel \<open>c\<close> of an interleaved buffer, and the sample of the output frame at a
  Q32 position of the input.
\<close>

definition frame_at :: "s16 list \<Rightarrow> nat \<Rightarrow> nat \<Rightarrow> nat \<Rightarrow> s16" where
  "frame_at xs ch i c = xs ! (i * ch + c)"

text \<open>
  The sample between two neighbours \<open>x\<close> and \<open>y\<close> at the fraction \<open>f / 2^32\<close> of the way.  In the
  nearest mode it is the neighbour at the smaller distance (the second one at equal distances);
  otherwise it is the average of the two weighted with the first 16 bits of the fraction,
  rounded down.
\<close>

definition between :: "u32 \<Rightarrow> nat \<Rightarrow> int \<Rightarrow> int \<Rightarrow> int" where
  "between mode f x y =
    (if mode = 0 then (if f < 2 ^ 32 - f then x else y)
     else ((2 ^ 16 - int (f div 2 ^ 16)) * x + int (f div 2 ^ 16) * y) div 2 ^ 16)"

definition sample_at :: "u32 \<Rightarrow> s16 list \<Rightarrow> nat \<Rightarrow> nat \<Rightarrow> nat \<Rightarrow> s16" where
  "sample_at mode xs ch p c = word_of_int (between mode (p mod 2 ^ 32)
     (sint (frame_at xs ch (p div 2 ^ 32) c)) (sint (frame_at xs ch (p div 2 ^ 32 + 1) c)))"

lemma convert_sample_between:
  assumes "f < 4294967296"
  shows "convert_sample mode (w32 f) x y = word_of_int (between mode f (sint x) (sint y))"
proof -
  have u: "unat (w32 f) = f" using assms by (simp add: unat_w32)
  let ?q = "int (f div 65536)"
  have "unat (drop_bit 16 (w32 f)) = drop_bit 16 f" by (simp only: unat_drop_bit_eq u)
  also have "\<dots> = f div 65536" by (simp add: drop_bit_eq_div)
  finally have q: "int (unat (drop_bit 16 (w32 f))) = ?q" by (rule arg_cong)
  have "(2 ^ 16 - int (f div 2 ^ 16)) * sint x + int (f div 2 ^ 16) * sint y =
      (65536 - ?q) * sint x + ?q * sint y" by simp
  also have "(65536 - ?q) * sint x + ?q * sint y = (sint y - sint x) * ?q + 65536 * sint x"
    by (simp add: algebra_simps)
  finally have "((2 ^ 16 - int (f div 2 ^ 16)) * sint x + int (f div 2 ^ 16) * sint y) div 65536 =
      sint x + (sint y - sint x) * ?q div 65536" by simp
  then show ?thesis
    using q u assms
    by (auto simp: convert_sample_def between_def Let_def EF2_AUDIO_RESAMPLE_NEAREST_def word_less_nat_alt)
qed

definition converted :: "u32 \<Rightarrow> s16 list \<Rightarrow> nat \<Rightarrow> nat \<Rightarrow> nat \<Rightarrow> nat \<Rightarrow> s16 list" where
  "converted mode xs ch p step k =
    concat (map (\<lambda>j. map (sample_at mode xs ch (p + j * step)) [0..<ch]) [0..<k])"

text \<open>The number of frames produced: one for each position before the last input frame.\<close>

fun frames_made :: "nat \<Rightarrow> nat \<Rightarrow> nat \<Rightarrow> nat \<Rightarrow> nat" where
  "frames_made 0 p step n = 0"
| "frames_made (Suc cap) p step n =
    (if p div 2 ^ 32 + 1 < n then Suc (frames_made cap (p + step) step n) else 0)"

lemma converted_0 [simp]: "converted mode xs ch p step 0 = []"
  by (simp add: converted_def)

lemma converted_Suc:
  "converted mode xs ch p step (Suc k) =
    map (sample_at mode xs ch p) [0..<ch] @ converted mode xs ch (p + step) step k"
proof -
  have "[0..<Suc k] = 0 # map Suc [0..<k]" by (simp add: upt_conv_Cons map_Suc_upt)
  then show ?thesis by (simp add: converted_def o_def add.assoc del: upt_Suc)
qed

lemma length_converted [simp]: "length (converted mode xs ch p step k) = k * ch"
  by (induction k arbitrary: p) (simp_all add: converted_Suc)

lemma frames_made_le: "frames_made cap p step n \<le> cap"
  by (induction cap p step n rule: frames_made.induct) auto

text \<open>Writing a list into a buffer at a position.\<close>

definition splice :: "'a list \<Rightarrow> nat \<Rightarrow> 'a list \<Rightarrow> 'a list" where
  "splice ys i vs = take i ys @ vs @ drop (i + length vs) ys"

lemma length_splice: "i + length vs \<le> length ys \<Longrightarrow> length (splice ys i vs) = length ys"
  by (simp add: splice_def)

lemma splice_empty [simp]: "splice ys i [] = ys"
  by (simp add: splice_def)

lemma splice_Cons: "i < length ys \<Longrightarrow> splice (ys[i := v]) (Suc i) vs = splice ys i (v # vs)"
  by (simp add: splice_def upd_conv_take_nth_drop take_Suc_conv_app_nth nth_append ac_simps)

lemma splice_append:
  "i + length us \<le> length ys \<Longrightarrow> splice (splice ys i us) (i + length us) vs = splice ys i (us @ vs)"
  by (simp add: splice_def ac_simps)

lemma channel_loop_spec:
  assumes "ch < 4294967296" "i + 1 < n" "n * ch \<le> length xs" "length xs < 4294967296"
    and "k < cap" "cap * ch \<le> length ys" "length ys < 4294967296" "c \<le> ch"
  shows "channel_loop mode xs (w32 ch) (w32 i) f (w32 k) (w32 c) ys =
    Some (splice ys (k * ch + c)
      (map (\<lambda>c. convert_sample mode f (frame_at xs ch i c) (frame_at xs ch (i + 1) c)) [c..<ch]))"
  using assms(5-8)
proof (induction "ch - c" arbitrary: c ys)
  case 0
  then show ?case by (simp add: channel_loop.simps)
next
  case (Suc d)
  then have c: "c < ch" "[c..<ch] = c # [Suc c..<ch]" by (auto simp: upt_conv_Cons)
  have "(i + 1) * ch + ch \<le> n * ch" using assms(2) by (metis Suc_eq_plus1 Suc_leI add_mult_distrib mult_1 mult_le_mono1)
  then have x: "i * ch + c < length xs" "(i + 1) * ch + c < length xs" using assms(3) c(1) by auto
  have "k * ch + ch \<le> cap * ch" using Suc.prems(1) by (metis Suc_leI add.commute mult_Suc mult_le_mono1)
  then have y: "k * ch + c < length ys" using Suc.prems(2) c(1) by auto
  have w: "w32 a * w32 b + w32 e = w32 (a * b + e)" for a b e by (simp add: w32_def)
  let ?v = "convert_sample mode f (frame_at xs ch i c) (frame_at xs ch (i + 1) c)"
  have ih: "channel_loop mode xs (w32 ch) (w32 i) f (w32 k) (w32 (Suc c)) (ys[k * ch + c := ?v]) =
    Some (splice (ys[k * ch + c := ?v]) (k * ch + Suc c)
      (map (\<lambda>c. convert_sample mode f (frame_at xs ch i c) (frame_at xs ch (i + 1) c)) [Suc c..<ch]))"
    by (rule Suc.hyps(1)) (use Suc c in auto)
  have lt: "w32 c < w32 ch" using c(1) assms(1) by (simp add: w32_less_iff)
  show ?case
    using ih lt x y assms(4) Suc.prems(3)
    by (subst channel_loop.simps)
      (simp add: w32_add_one w get_sample_def put_sample_def unat_w32 frame_at_def c(2) splice_Cons)
qed


lemma unat_hi: "p < 2 ^ 64 \<Longrightarrow> unat (drop_bit 32 (word_of_nat p :: u64)) = p div 2 ^ 32"
  unfolding unat_drop_bit_div by (simp add: unat_of_nat take_bit_nat_eq_self)

lemma ucast_hi: "p < 2 ^ 64 \<Longrightarrow> ucast (drop_bit 32 (word_of_nat p :: u64)) = w32 (p div 2 ^ 32)"
  unfolding w32_def by (metis of_nat_unat unat_hi)

lemma ucast_lo: "ucast (word_of_nat p :: u64) = w32 (p mod 2 ^ 32)"
proof -
  have "ucast (word_of_nat p :: u64) = (word_of_nat p :: u32)"
    by (rule bit_word_eqI) (simp add: bit_simps)
  also have "\<dots> = w32 (p mod 2 ^ 32)"
    unfolding w32_def by (simp add: word_unat_eq_iff unat_of_nat take_bit_eq_mod)
  finally show ?thesis .
qed

lemma convert_loop_spec:
  assumes "2 \<le> n" "n < 4294967295" "n * unat (rc_channels c) \<le> length xs" "length xs < 4294967296"
    and "cap * unat (rc_channels c) \<le> length ys" "length ys < 4294967296" "cap < 4294967296"
    and "k \<le> cap" "step = unat (step_q32 c)" "n * 2 ^ 32 + step < 2 ^ 64 - 2 ^ 32" "p < 2 ^ 64 - 2 ^ 32"
    and "m = frames_made (cap - k) p step n"
  shows "convert_loop c xs (w32 n) (w32 cap) (w32 k) (word_of_nat p) ys =
    Some (w32 (k + m), word_of_nat (p + m * step),
      splice ys (k * unat (rc_channels c)) (converted (rc_mode c) xs (unat (rc_channels c)) p step m))"
  using assms(5-8,11,12)
proof (induction "cap - k" arbitrary: k p ys m)
  case 0
  then show ?case by (simp add: convert_loop.simps)
next
  case (Suc d)
  let ?ch = "unat (rc_channels c)"
  have k: "w32 k < w32 cap" "k < cap" using Suc by (auto simp: w32_less_iff)
  have m: "m = (if p div 2 ^ 32 + 1 < n then Suc (frames_made d (p + step) step n) else 0)"
    using Suc.prems(6) Suc.hyps(2) by (metis frames_made.simps(2))
  have p: "p < 2 ^ 64" "p div 2 ^ 32 + 1 < 2 ^ 32" using Suc.prems(5) by auto
  have i: "w32 (p div 2 ^ 32) + 1 \<ge> w32 n \<longleftrightarrow> \<not> p div 2 ^ 32 + 1 < n"
    using p(2) assms(2) by (simp add: w32_add_one w32_le_iff not_less)
  have ch: "w32 ?ch = ucast (rc_channels c)" by (simp add: w32_def)
  have chb: "?ch < 4294967296" using unsigned_less [of "rc_channels c", where 'a = nat] by simp
  show ?case
  proof (cases "p div 2 ^ 32 + 1 < n")
    case False
    then show ?thesis using k m i p by (subst convert_loop.simps) (simp add: Let_def ucast_hi)
  next
    case True
    have dk: "cap - Suc k = d" using Suc.hyps(2) by simp
    let ?ys = "splice ys (k * ?ch) (map (sample_at (rc_mode c) xs ?ch p) [0..<?ch])"
    have kc: "k * ?ch + ?ch \<le> cap * ?ch"
      using k(2) by (metis Suc_leI add.commute mult_Suc mult_le_mono1)
    have len: "length ?ys = length ys" using kc Suc.prems(1) by (simp add: length_splice)
    have one: "channel_loop (rc_mode c) xs (ucast (rc_channels c)) (w32 (p div 2 ^ 32)) (w32 (p mod 2 ^ 32)) (w32 k) 0 ys =
      Some ?ys"
      using channel_loop_spec [OF chb True assms(3,4) k(2) Suc.prems(1,2), of 0 "rc_mode c" "w32 (p mod 2 ^ 32)"]
      unfolding sample_at_def ch by (simp add: convert_sample_between)
    have lt: "p < n * 2 ^ 32" using True by (simp add: div_less_iff_less_mult)
    then have p': "p + step < 2 ^ 64 - 2 ^ 32" using assms(10) by linarith
    have st: "word_of_nat p + step_q32 c = (word_of_nat (p + step) :: u64)"
      using assms(9) by simp
    have ih: "convert_loop c xs (w32 n) (w32 cap) (w32 (k + 1)) (word_of_nat (p + step)) ?ys =
      Some (w32 (k + 1 + frames_made d (p + step) step n),
        word_of_nat (p + step + frames_made d (p + step) step n * step),
        splice ?ys ((k + 1) * ?ch) (converted (rc_mode c) xs ?ch (p + step) step (frames_made d (p + step) step n)))"
      by (rule Suc.hyps(1)) (use Suc.prems Suc.hyps(2) k p' len dk in auto)
    have sp: "splice ?ys ((k + 1) * ?ch) vs = splice ys (k * ?ch) (map (sample_at (rc_mode c) xs ?ch p) [0..<?ch] @ vs)" for vs
      using splice_append [of "k * ?ch" "map (sample_at (rc_mode c) xs ?ch p) [0..<?ch]" ys vs] kc Suc.prems(1)
      by (simp add: algebra_simps)
    have cl: "convert_loop c xs (w32 n) (w32 cap) (w32 k) (word_of_nat p) ys =
      convert_loop c xs (w32 n) (w32 cap) (w32 (k + 1)) (word_of_nat (p + step)) ?ys"
      using k(1) True i one st by (subst convert_loop.simps) (simp add: Let_def ucast_hi [OF p(1)] ucast_lo w32_add_one)
    show ?thesis
      unfolding cl ih sp using True m by (simp add: converted_Suc add.assoc)
  qed
qed

lemma frames_made_mono_split:
  "n \<le> N \<Longrightarrow> k = frames_made cap p step n \<Longrightarrow>
   frames_made (k + extra) p step N = k + frames_made extra (p + k * step) step N"
  by (induction cap p step n arbitrary: k rule: frames_made.induct) (auto simp: algebra_simps)

lemma frames_made_shift:
  "frames_made cap (p + c * 2 ^ 32) step (n + c) = frames_made cap p step n"
proof (induction cap arbitrary: p)
  case (Suc cap)
  show ?case using Suc [of "p + step"] by (simp add: ac_simps)
qed simp

lemma converted_append:
  "converted mode xs ch p step (k + m) = converted mode xs ch p step k @ converted mode xs ch (p + k * step) step m"
  by (induction k arbitrary: p) (simp_all add: converted_Suc add.assoc)

lemma sample_at_drop:
  "c * 2 ^ 32 \<le> p \<Longrightarrow> (p div 2 ^ 32 + 1) * ch + i < length xs \<Longrightarrow>
   sample_at mode (drop (c * ch) xs) ch (p - c * 2 ^ 32) i = sample_at mode xs ch p i"
proof -
  assume "c * 2 ^ 32 \<le> p" and len: "(p div 2 ^ 32 + 1) * ch + i < length xs"
  then obtain r where p: "p = r + c * 2 ^ 32" by (metis le_add_diff_inverse2)
  then show ?thesis using len
    by (simp add: sample_at_def frame_at_def algebra_simps)
qed


lemma frames_made_phase_bound:
  "p < B \<Longrightarrow> n * 2 ^ 32 + step \<le> B \<Longrightarrow> p + frames_made cap p step n * step < (B :: nat)"
proof (induction cap p step n rule: frames_made.induct)
  case (2 cap p step n)
  show ?case
  proof (cases "p div 2 ^ 32 + 1 < n")
    case True
    then have "p < n * 2 ^ 32" by (simp add: div_less_iff_less_mult)
    then have "p + step < B" using "2.prems"(2) by linarith
    then show ?thesis using "2.IH" [OF True] "2.prems"(2) True by (simp add: add.assoc)
  qed (use "2.prems" in simp)
qed simp

lemma process_exact:
  assumes "input_rate c \<noteq> output_rate c" "ch = unat (rc_channels c)" "mode = rc_mode c"
    and "p = unat (phase_q32 c)" "step = unat (step_q32 c)"
    and "2 \<le> n" "n * ch \<le> length xs" "length xs < 4294967296" "n < 4294967295"
    and "0 < cap" "cap * ch \<le> length ys" "length ys < 4294967296" "cap < 4294967296"
    and "p < 2 ^ 64 - 2 ^ 32" "n * 2 ^ 32 + step < 2 ^ 64 - 2 ^ 32"
    and "k = frames_made cap p step n" "used = min ((p + k * step) div 2 ^ 32) (n - 1)"
  shows "ef2_audio_rate_converter_process_s16 (Some c) (Some xs) (w32 n) (Some ys) (w32 cap) True =
    Some (w32 k, Some (c\<lparr>phase_q32 := word_of_nat (p + k * step - used * 2 ^ 32)\<rparr>),
          Some (splice ys 0 (converted mode xs ch p step k)), w32 used)"
proof -
  let ?q = "p + k * step"
  have q: "?q < 2 ^ 64 - 2 ^ 32"
    unfolding assms(16) by (rule frames_made_phase_bound) (use assms(14,15) in auto)
  then have q64: "?q < 2 ^ 64" by linarith
  have conv: "convert_loop c xs (w32 n) (w32 cap) 0 (phase_q32 c) ys =
      Some (w32 k, word_of_nat ?q, splice ys 0 (converted mode xs ch p step k))"
    using convert_loop_spec [of n c xs cap ys 0 step p k] assms by simp
  have nz: "w32 cap \<noteq> 0" "w32 n \<noteq> 0" "\<not> w32 n < 2"
    using assms(6,9,10,13) w32_less_iff [of n 2] by (simp_all add: w32_eq_0_iff w32_numeral)
  have hi: "unat (drop_bit 32 (word_of_nat ?q :: u64)) = ?q div 2 ^ 32"
    by (rule unat_hi [OF q64])
  have cmp: "ucast (w32 n) \<le> drop_bit 32 (word_of_nat ?q :: u64) \<longleftrightarrow> n \<le> ?q div 2 ^ 32"
    unfolding word_le_nat_alt hi using assms(9) by (simp add: unat_w32)
  have used: "(if ucast (w32 n) \<le> drop_bit 32 (word_of_nat ?q :: u64) then w32 n - 1
      else ucast (drop_bit 32 (word_of_nat ?q :: u64))) = w32 used"
    unfolding cmp ucast_hi [OF q64] assms(17) using assms(6) w32_diff [of 1 n] by (simp add: min_def w32_one)
  have "used * 2 ^ 32 \<le> ?q" unfolding assms(17) by (metis div_times_less_eq_dividend min.cobounded1 mult_le_mono1 order_trans)
  moreover have "push_bit 32 (ucast (w32 used) :: u64) = word_of_nat (used * 2 ^ 32)"
  proof -
    have "used < 4294967296" using assms(9,17) by auto
    then have "ucast (w32 used) = (word_of_nat used :: u64)"
      by (metis of_nat_unat unat_w32)
    then show ?thesis by (simp add: push_bit_eq_mult)
  qed
  ultimately have phase: "word_of_nat ?q - push_bit 32 (ucast (w32 used)) = (word_of_nat (?q - used * 2 ^ 32) :: u64)"
    by (simp only: of_nat_diff)
  show ?thesis
    unfolding ef2_audio_rate_converter_process_s16_def
    using assms(1) nz conv used phase
    by (simp add: Let_def split del: if_split del: of_nat_add of_nat_mult)
qed


section \<open>Mixing\<close>

text \<open>The product by the gain, rounded to the nearest integer, halves away from zero.\<close>

definition gain_round :: "int \<Rightarrow> int" where
  "gain_round v = sgn v * ((\<bar>v\<bar> + 16384) div 32768)"

definition clamp16 :: "int \<Rightarrow> int" where
  "clamp16 v = max (-32768) (min 32767 v)"

lemma sint_s16: "- 32768 \<le> v \<Longrightarrow> v \<le> 32767 \<Longrightarrow> sint (word_of_int v :: s16) = v"
proof -
  assume "- 32768 \<le> v" "v \<le> 32767"
  then have "signed_take_bit 15 v = v" by (intro signed_take_bit_int_eq_self) auto
  then show ?thesis by (simp add: sint_sbintrunc')
qed

lemma saturate_s16: "sint (ef2_audio_saturate_s16 v) = clamp16 v"
  using sint_s16 [of v] sint_s16 [of 32767] sint_s16 [of "-32768"]
  by (auto simp: ef2_audio_saturate_s16_def clamp16_def)

lemma mix_sample_clamps: "sint (mix_sample g d s) = clamp16 (sint d + gain_round (sint s * g))"
proof -
  have "(if v \<ge> 0 then (v + 32768 div 2) div 2 ^ 15 else - ((- v + 32768 div 2) div 2 ^ 15)) = gain_round v" for v :: int
    by (cases v "0 :: int" rule: linorder_cases) (simp_all add: gain_round_def)
  then show ?thesis unfolding mix_sample_def Let_def saturate_s16 by simp
qed

lemma mix_loop_spec:
  assumes "length ys < 4294967296" "length xs < 4294967296" "n \<le> length xs" "n \<le> length ys" "i \<le> n"
  shows "mix_loop ys xs (w32 i) (w32 n) g =
    Some (take i ys @ map2 (mix_sample g) (take (n - i) (drop i ys)) (take (n - i) (drop i xs)) @ drop n ys)"
  using assms
proof (induction "n - i" arbitrary: i ys)
  case 0
  then show ?case by (simp add: mix_loop.simps)
next
  case (Suc d)
  then have i: "i < n" "i < length xs" "i < length ys" "n < 4294967296" by auto
  let ?ys = "ys[i := mix_sample g (ys ! i) (xs ! i)]"
  have ih: "mix_loop ?ys xs (w32 (Suc i)) (w32 n) g =
    Some (take (Suc i) ?ys @ map2 (mix_sample g) (take (n - Suc i) (drop (Suc i) ?ys)) (take (n - Suc i) (drop (Suc i) xs)) @ drop n ?ys)"
    by (rule Suc.hyps(1)) (use Suc in auto)
  have "take (Suc i) ?ys = take i ys @ [mix_sample g (ys ! i) (xs ! i)]"
    using i by (simp add: take_Suc_conv_app_nth)
  moreover have "take (n - i) (drop i ys) = ys ! i # take (n - Suc i) (drop (Suc i) ys)"
    "take (n - i) (drop i xs) = xs ! i # take (n - Suc i) (drop (Suc i) xs)"
    using i by (simp_all add: Suc_diff_Suc flip: Cons_nth_drop_Suc take_Suc_Cons)
  moreover have "w32 i < w32 n" using i by (simp add: w32_less_iff)
  ultimately show ?case
    using ih i Suc.prems(1,2)
    by (subst mix_loop.simps) (simp add: get_sample_def put_sample_def unat_w32 w32_add_one)
qed

lemma frame_index_bound: "p div 2 ^ 32 + 1 < n \<Longrightarrow> i < ch \<Longrightarrow> (p div 2 ^ 32 + 1) * ch + i < n * (ch :: nat)"
proof -
  assume "p div 2 ^ 32 + 1 < n" "i < ch"
  then have "(p div 2 ^ 32 + 1) * ch + ch \<le> n * ch"
    by (metis Suc_leI add.commute mult_Suc mult_le_mono1)
  then show ?thesis using \<open>i < ch\<close> by linarith
qed

lemma converted_take:
  "k = frames_made cap p step n \<Longrightarrow> n * ch \<le> length xs \<Longrightarrow>
   converted mode (take (n * ch) xs) ch p step k = converted mode xs ch p step k"
proof (induction cap p step n arbitrary: k rule: frames_made.induct)
  case (2 cap p step n)
  have "sample_at mode (take (n * ch) xs) ch p i = sample_at mode xs ch p i"
    if "p div 2 ^ 32 + 1 < n" "i < ch" for i
    using frame_index_bound [OF that] by (simp add: sample_at_def frame_at_def)
  then show ?case using 2 by (auto simp: converted_Suc)
qed simp

lemma converted_drop:
  "k = frames_made cap p step n \<Longrightarrow> u * 2 ^ 32 \<le> p \<Longrightarrow> n * ch \<le> length xs \<Longrightarrow>
   converted mode (drop (u * ch) xs) ch (p - u * 2 ^ 32) step k = converted mode xs ch p step k"
proof (induction cap p step n arbitrary: k rule: frames_made.induct)
  case (2 cap p step n)
  have "sample_at mode (drop (u * ch) xs) ch (p - u * 2 ^ 32) i = sample_at mode xs ch p i"
    if "p div 2 ^ 32 + 1 < n" "i < ch" for i
    by (rule sample_at_drop) (use frame_index_bound [OF that] "2.prems" in auto)
  moreover have "p - u * 2 ^ 32 + step = p + step - u * 2 ^ 32" using "2.prems"(2) by simp
  ultimately show ?case using 2 by (auto simp: converted_Suc)
qed simp

lemma frames_made_numeral [simp]:
  "frames_made (numeral v) p step n =
    (if p div 2 ^ 32 + 1 < n then Suc (frames_made (pred_numeral v) (p + step) step n) else 0)"
  by (subst numeral_eq_Suc) (rule frames_made.simps)

lemma take_splice: "length vs \<le> length ys \<Longrightarrow> take (length vs) (splice ys 0 vs) = vs"
  by (simp add: splice_def)

lemma process_chunks:
  assumes conv: "input_rate c \<noteq> output_rate c" "ch = unat (rc_channels c)"
    and small: "N < 4294967295" "length xs < 4294967296" "N * ch \<le> length xs" "2 \<le> n" "n < N"
      "unat (phase_q32 c) < 2 ^ 64 - 2 ^ 32" "N * 2 ^ 32 + unat (step_q32 c) < 2 ^ 64 - 2 ^ 32"
    and caps: "0 < cap1" "cap1 * ch \<le> length ys1" "length ys1 < 4294967296" "cap1 < 4294967296"
      "0 < cap2" "cap2 * ch \<le> length ys2" "length ys2 < 4294967296" "cap2 < 4294967296"
      "(cap1 + cap2) * ch \<le> length ys" "length ys < 4294967296" "cap1 + cap2 < 4294967296"
    and one: "ef2_audio_rate_converter_process_s16 (Some c) (Some (take (n * ch) xs)) (w32 n) (Some ys1) (w32 cap1) True =
      Some (f1, Some c1, Some zs1, u1)"
    and two: "ef2_audio_rate_converter_process_s16 (Some c1) (Some (drop (unat u1 * ch) xs)) (w32 N - u1) (Some ys2) (w32 cap2) True =
      Some (f2, Some c2, Some zs2, u2)"
  shows "ef2_audio_rate_converter_process_s16 (Some c) (Some xs) (w32 N) (Some ys) (w32 (unat f1 + cap2)) True =
    Some (f1 + f2, Some c2,
      Some (splice ys 0 (take (unat f1 * ch) zs1 @ take (unat f2 * ch) zs2)), u1 + u2)"
proof -
  let ?p = "unat (phase_q32 c)" and ?step = "unat (step_q32 c)" and ?mode = "rc_mode c"
  let ?B = "2 ^ 64 - 2 ^ 32 :: nat"
  have "n * ch \<le> N * ch" using small(5) by simp
  then have nch: "n * ch \<le> length xs" using small(3) by linarith
  define k1 where "k1 = frames_made cap1 ?p ?step n"
  define P1 where "P1 = ?p + k1 * ?step"
  define v1 where "v1 = min (P1 div 2 ^ 32) (n - 1)"
  have k1: "k1 \<le> cap1" by (simp add: k1_def frames_made_le)
  have nN: "n * 2 ^ 32 + ?step < ?B"
    by (rule le_less_trans [OF _ small(7)]) (use small(5) in simp)
  have "Some (f1, Some c1, Some zs1, u1) = Some (w32 k1, Some (c\<lparr>phase_q32 := word_of_nat (P1 - v1 * 2 ^ 32)\<rparr>),
      Some (splice ys1 0 (converted ?mode (take (n * ch) xs) ch ?p ?step k1)), w32 v1)"
    unfolding one [symmetric] P1_def v1_def k1_def
    by (rule process_exact) (use conv small caps nN nch in auto)
  then have r1: "f1 = w32 k1" "c1 = c\<lparr>phase_q32 := word_of_nat (P1 - v1 * 2 ^ 32)\<rparr>"
    "zs1 = splice ys1 0 (converted ?mode (take (n * ch) xs) ch ?p ?step k1)" "u1 = w32 v1" by auto
  have v1: "v1 * 2 ^ 32 \<le> P1" "v1 < n"
    using small(4) unfolding v1_def
    by (metis div_times_less_eq_dividend min.cobounded1 mult_le_mono1 order_trans, auto)
  have uf1: "unat f1 = k1" "unat u1 = v1" using r1 k1 caps v1 small by (auto simp: unat_w32)
  have P1: "P1 < ?B" unfolding P1_def k1_def by (rule frames_made_phase_bound) (use small nN in auto)
  define k2 where "k2 = frames_made cap2 (P1 - v1 * 2 ^ 32) ?step (N - v1)"
  define P2 where "P2 = P1 - v1 * 2 ^ 32 + k2 * ?step"
  define v2 where "v2 = min (P2 div 2 ^ 32) (N - v1 - 1)"
  have w: "w32 N - u1 = w32 (N - v1)" using r1 v1 small by (simp add: w32_diff)
  have ph: "unat (word_of_nat (P1 - v1 * 2 ^ 32) :: u64) = P1 - v1 * 2 ^ 32"
    using P1 by (simp add: unat_of_nat take_bit_nat_eq_self)
  have "(N - v1) * 2 ^ 32 + ?step < ?B"
    by (rule le_less_trans [OF _ small(7)]) simp
  then have "Some (f2, Some c2, Some zs2, u2) = Some (w32 k2, Some (c1\<lparr>phase_q32 := word_of_nat (P2 - v2 * 2 ^ 32)\<rparr>),
      Some (splice ys2 0 (converted ?mode (drop (unat u1 * ch) xs) ch (P1 - v1 * 2 ^ 32) ?step k2)), w32 v2)"
    unfolding two [symmetric] P2_def v2_def k2_def w
    by (intro process_exact)
      (use conv small caps P1 v1 ph in \<open>auto simp: r1(2) uf1 diff_mult_distrib\<close>)
  then have r2: "f2 = w32 k2" "c2 = c\<lparr>phase_q32 := word_of_nat (P2 - v2 * 2 ^ 32)\<rparr>"
    "zs2 = splice ys2 0 (converted ?mode (drop (v1 * ch) xs) ch (P1 - v1 * 2 ^ 32) ?step k2)" "u2 = w32 v2"
    by (auto simp: r1(2) uf1)
  have "k2 \<le> cap2" by (simp add: k2_def frames_made_le)
  then have k2: "k2 \<le> cap2" "unat f2 = k2" using caps(8) by (auto simp: r2(1) unat_w32)
  have k2': "k2 = frames_made cap2 P1 ?step N"
    using frames_made_shift [of cap2 "P1 - v1 * 2 ^ 32" v1 ?step "N - v1"] v1 small(5) by (simp add: k2_def)
  have kk: "k1 + k2 = frames_made (k1 + cap2) ?p ?step N"
    unfolding k2' P1_def
    by (rule frames_made_mono_split [symmetric]) (use small in \<open>auto simp: k1_def\<close>)
  have P: "?p + (k1 + k2) * ?step = P2 + v1 * 2 ^ 32" using v1 by (simp add: P2_def P1_def algebra_simps)
  have vv: "v1 + v2 = min ((?p + (k1 + k2) * ?step) div 2 ^ 32) (N - 1)"
    unfolding P v2_def using v1 small(5) by auto
  have out: "converted ?mode xs ch ?p ?step (k1 + k2) = take (unat f1 * ch) zs1 @ take (unat f2 * ch) zs2"
  proof -
    have c1: "converted ?mode (take (n * ch) xs) ch ?p ?step k1 = converted ?mode xs ch ?p ?step k1"
      by (intro converted_take nch) (auto simp: k1_def)
    have c2: "converted ?mode (drop (v1 * ch) xs) ch (P1 - v1 * 2 ^ 32) ?step k2 = converted ?mode xs ch P1 ?step k2"
      by (rule converted_drop [OF k2' v1(1) small(3)])
    have "k1 * ch \<le> cap1 * ch" "k2 * ch \<le> cap2 * ch" using k1 k2 by auto
    then have "k1 * ch \<le> length ys1" "k2 * ch \<le> length ys2" using caps(2,6) by (blast intro: order_trans)+
    then show ?thesis
      unfolding r1(3) r2(3) uf1 k2(2) c1 c2 converted_append P1_def [symmetric]
      using take_splice [of "converted ?mode xs ch ?p ?step k1" ys1]
        take_splice [of "converted ?mode xs ch P1 ?step k2" ys2] by simp
  qed
  have "(k1 + cap2) * ch \<le> (cap1 + cap2) * ch" using k1 by simp
  then have cap: "(k1 + cap2) * ch \<le> length ys" using caps by linarith
  have fin: "P2 - v2 * 2 ^ 32 = ?p + (k1 + k2) * ?step - (v1 + v2) * 2 ^ 32" unfolding P by (simp add: add_mult_distrib)
  have "ef2_audio_rate_converter_process_s16 (Some c) (Some xs) (w32 N) (Some ys) (w32 (k1 + cap2)) True =
    Some (w32 (k1 + k2), Some (c\<lparr>phase_q32 := word_of_nat (?p + (k1 + k2) * ?step - (v1 + v2) * 2 ^ 32)\<rparr>),
      Some (splice ys 0 (converted ?mode xs ch ?p ?step (k1 + k2))), w32 (v1 + v2))"
    by (rule process_exact) (use conv small caps cap k1 kk vv in auto)
  then show ?thesis
    unfolding out fin [symmetric] uf1(1) r1(1,4) r2(1,2,4) w32_add by (simp add: uf1 r1(1)[symmetric] r2(1)[symmetric])
qed

end
