(* ===== verification/AudioProps.thy ===== *)
theory AudioProps
  imports AudioSpec
begin

text \<open>
  The properties of the sample rate converter and the mixer, with their witnesses.
\<close>

section \<open>Properties\<close>

text \<open>
  The freestanding shift-and-subtract divider of \<open>ef2_audio_div_u64_u32\<close>
  computes the 64 by 32 bit quotient exactly (and 0 for a zero divisor).
\<close>

theorem audio_div_exact: "unat (ef2_audio_div_u64_u32 n d) = unat n div unat d"
  by (rule div_u64_u32)

lemma step_exact:
  "unat (ef2_audio_div_u64_u32 (push_bit 32 (ucast (r :: u32))) d) = unat r * 2 ^ 32 div unat d"
proof -
  have "unat r * 2 ^ 32 < 2 ^ 64" by (rule less_le_trans [OF mult_strict_right_mono [OF unat_less_32]]) simp_all
  then have "unat (push_bit 32 (ucast r :: u64)) = unat r * 2 ^ 32"
    by (simp add: push_bit_eq_mult unat_word_ariths)
  then show ?thesis by (simp add: div_u64_u32)
qed

lemma rate_step_positive: "r \<noteq> 0 \<Longrightarrow> d \<noteq> 0 \<Longrightarrow> 0 < unat (r :: u32) * 2 ^ 32 div unat (d :: u32)"
proof -
  assume "r \<noteq> 0" "d \<noteq> 0"
  then have "unat d \<le> 1 * 2 ^ 32" "1 \<le> unat r" "0 < unat d"
    using less_imp_le [OF unat_less_32 [of d]] by (simp_all add: unat_gt_0 Suc_le_eq)
  then have "unat d \<le> unat r * 2 ^ 32" using mult_le_mono1 [of 1 "unat r" "2 ^ 32"] by linarith
  then show ?thesis using \<open>0 < unat d\<close> by (simp add: div_greater_zero_iff)
qed

lemma init_total:
  "ef2_audio_rate_converter_init converter irate orate channels mode =
    (case converter of None \<Rightarrow> (-1, None)
     | Some c \<Rightarrow>
        if irate = 0 \<or> orate = 0 then (-2, Some c)
        else if channels \<notin> {1, 2} then (-3, Some c)
        else if mode \<notin> {EF2_AUDIO_RESAMPLE_NEAREST, EF2_AUDIO_RESAMPLE_LINEAR} then (-4, Some c)
        else (0, Some \<lparr>input_rate = irate, output_rate = orate, rc_channels = channels, rc_mode = mode,
                phase_q32 = 0, step_q32 = word_of_nat (unat irate * 2 ^ 32 div unat orate)\<rparr>))"
proof -
  have step: "ef2_audio_div_u64_u32 (push_bit 32 (ucast irate)) orate =
      word_of_nat (unat irate * 2 ^ 32 div unat orate)"
    by (simp only: step_exact [symmetric] of_nat_unat ucast_id)
  have "ef2_audio_div_u64_u32 (push_bit 32 (ucast irate)) orate \<noteq> 0" if "irate \<noteq> 0" "orate \<noteq> 0"
    using step_exact [of irate orate] rate_step_positive [OF that] by auto
  then show ?thesis
    unfolding ef2_audio_rate_converter_init_def Let_def step by (auto split: option.split)
qed

text \<open>
  \<open>ef2_audio_rate_converter_init\<close> classifies its arguments completely: a null
  converter is -1, a zero rate -2, a channel count other than 1 and 2 is -3, an unknown mode -4, each
  without touching the converter; anything else succeeds with the step
  \<open>input_rate * 2^32 div output_rate\<close>, which is never zero: the result -5 does not occur.
\<close>

theorem rate_converter_init_total:
  "ef2_audio_rate_converter_init converter irate orate channels mode =
    (case converter of None \<Rightarrow> (-1, None)
     | Some c \<Rightarrow>
        if irate = 0 \<or> orate = 0 then (-2, Some c)
        else if channels \<notin> {1, 2} then (-3, Some c)
        else if mode \<notin> {EF2_AUDIO_RESAMPLE_NEAREST, EF2_AUDIO_RESAMPLE_LINEAR} then (-4, Some c)
        else (0, Some \<lparr>input_rate = irate, output_rate = orate, rc_channels = channels, rc_mode = mode,
                phase_q32 = 0, step_q32 = word_of_nat (unat irate * 2 ^ 32 div unat orate)\<rparr>))"
  by (rule init_total)

text \<open>
  C13: One call of \<open>ef2_audio_rate_converter_process_s16\<close> between different rates, on
  buffers that hold the announced frames: it produces one frame for every phase position
  \<open>p, p + step, \<dots>\<close> that has both of its input neighbours and still fits in the output,
  each sample that of \<open>between\<close> for its two neighbours in the channel (the closer one, or their
  average weighted with the fraction and rounded down), writes nothing else, reports the
  frames that no later position needs (keeping the last one as a look-ahead) and keeps the rest of
  the position as the new phase.
\<close>

theorem rate_converter_process_exact:
  assumes "input_rate c \<noteq> output_rate c" "ch = unat (rc_channels c)" "mode = rc_mode c"
    and "p = unat (phase_q32 c)" "step = unat (step_q32 c)"
    and "2 \<le> n" "n * ch \<le> length xs" "length xs < 4294967296" "n < 4294967295"
    and "0 < cap" "cap * ch \<le> length ys" "length ys < 4294967296" "cap < 4294967296"
    and "p < 2 ^ 64 - 2 ^ 32" "n * 2 ^ 32 + step < 2 ^ 64 - 2 ^ 32"
    and "k = frames_made cap p step n" "used = min ((p + k * step) div 2 ^ 32) (n - 1)"
  shows "ef2_audio_rate_converter_process_s16 (Some c) (Some xs) (w32 n) (Some ys) (w32 cap) True =
    Some (w32 k, Some (c\<lparr>phase_q32 := word_of_nat (p + k * step - used * 2 ^ 32)\<rparr>),
          Some (splice ys 0 (converted mode xs ch p step k)), w32 used)"
  using assms by (rule process_exact)

definition doubling :: rate_converter where
  "doubling = \<lparr>input_rate = 1, output_rate = 2, rc_channels = 1, rc_mode = EF2_AUDIO_RESAMPLE_LINEAR,
    phase_q32 = 0, step_q32 = 0x80000000\<rparr>"

lemma doubling_simps [simp]:
  "input_rate doubling = 1" "output_rate doubling = 2" "rc_channels doubling = 1"
  "rc_mode doubling = EF2_AUDIO_RESAMPLE_LINEAR" "phase_q32 doubling = 0" "step_q32 doubling = 0x80000000"
  by (simp_all add: doubling_def)

theorem rate_converter_process_exact_witness:
  "ef2_audio_rate_converter_process_s16 (Some doubling) (Some [0, 100, 300]) (w32 3) (Some [7, 7, 7, 7, 7]) (w32 5) True =
    Some (w32 4, Some (doubling\<lparr>phase_q32 := 0\<rparr>), Some [0, 50, 100, 200, 7], w32 2)"
proof -
  have "ef2_audio_rate_converter_process_s16 (Some doubling) (Some [0, 100, 300]) (w32 3) (Some [7, 7, 7, 7, 7]) (w32 5) True =
    Some (w32 4, Some (doubling\<lparr>phase_q32 := word_of_nat (0 + 4 * 2147483648 - 2 * 2 ^ 32)\<rparr>),
      Some (splice [7, 7, 7, 7, 7] 0 (converted EF2_AUDIO_RESAMPLE_LINEAR [0, 100, 300] 1 0 2147483648 4)), w32 2)"
    by (rule rate_converter_process_exact) simp_all
  moreover have "converted EF2_AUDIO_RESAMPLE_LINEAR [0, 100, 300] 1 0 2147483648 4 = [0, 50, 100, 200]"
    by (simp add: converted_def sample_at_def frame_at_def between_def EF2_AUDIO_RESAMPLE_LINEAR_def upt_rec)
  ultimately show ?thesis by (simp add: splice_def)
qed

text \<open>
  C14: Converting a stream in two calls, the second on the frames the first did not
  consume, is converting it in one: same samples, same final state, same total of consumed frames.
  So chunk boundaries cannot be heard.
\<close>

theorem rate_converter_chunking:
  assumes "input_rate c \<noteq> output_rate c" "ch = unat (rc_channels c)"
    and "N < 4294967295" "length xs < 4294967296" "N * ch \<le> length xs" "2 \<le> n" "n < N"
      "unat (phase_q32 c) < 2 ^ 64 - 2 ^ 32" "N * 2 ^ 32 + unat (step_q32 c) < 2 ^ 64 - 2 ^ 32"
    and "0 < cap1" "cap1 * ch \<le> length ys1" "length ys1 < 4294967296" "cap1 < 4294967296"
      "0 < cap2" "cap2 * ch \<le> length ys2" "length ys2 < 4294967296" "cap2 < 4294967296"
      "(cap1 + cap2) * ch \<le> length ys" "length ys < 4294967296" "cap1 + cap2 < 4294967296"
    and "ef2_audio_rate_converter_process_s16 (Some c) (Some (take (n * ch) xs)) (w32 n) (Some ys1) (w32 cap1) True =
      Some (f1, Some c1, Some zs1, u1)"
    and "ef2_audio_rate_converter_process_s16 (Some c1) (Some (drop (unat u1 * ch) xs)) (w32 N - u1) (Some ys2) (w32 cap2) True =
      Some (f2, Some c2, Some zs2, u2)"
  shows "ef2_audio_rate_converter_process_s16 (Some c) (Some xs) (w32 N) (Some ys) (w32 (unat f1 + cap2)) True =
    Some (f1 + f2, Some c2,
      Some (splice ys 0 (take (unat f1 * ch) zs1 @ take (unat f2 * ch) zs2)), u1 + u2)"
  using assms by (rule process_chunks)

lemma doubling_call:
  assumes "n = length xs" "2 \<le> n" "n < 1000" "0 < cap" "cap \<le> length ys" "length ys < 1000" "k = frames_made cap 0 2147483648 n"
    and "used = k div 2" "used < n" "even k"
  shows "ef2_audio_rate_converter_process_s16 (Some doubling) (Some xs) (w32 n) (Some ys) (w32 cap) True =
    Some (w32 k, Some doubling, Some (splice ys 0 (converted EF2_AUDIO_RESAMPLE_LINEAR xs 1 0 2147483648 k)), w32 used)"
proof -
  have "k * 2147483648 = used * 2 ^ 32" using assms(8,10) by auto
  moreover have "doubling\<lparr>phase_q32 := 0\<rparr> = doubling" by (simp add: doubling_def)
  ultimately show ?thesis
    using process_exact [of doubling 1 EF2_AUDIO_RESAMPLE_LINEAR 0 2147483648 n xs cap ys k used] assms by simp
qed

theorem rate_converter_chunking_witness:
  "ef2_audio_rate_converter_process_s16 (Some doubling) (Some [0, 100, 300, 500]) (w32 4) (Some [7, 7, 7, 7, 7, 7]) (w32 (unat (w32 2) + 4)) True =
    Some (w32 2 + w32 4, Some doubling,
      Some (splice [7, 7, 7, 7, 7, 7] 0
        (take (unat (w32 2) * 1) (splice [7, 7] 0 (converted EF2_AUDIO_RESAMPLE_LINEAR [0, 100] 1 0 2147483648 2)) @
         take (unat (w32 4) * 1) (splice [7, 7, 7, 7] 0 (converted EF2_AUDIO_RESAMPLE_LINEAR [100, 300, 500] 1 0 2147483648 4)))),
      w32 1 + w32 2)"
proof (rule rate_converter_chunking)
  show "ef2_audio_rate_converter_process_s16 (Some doubling) (Some (take (2 * 1) [0, 100, 300, 500])) (w32 2) (Some [7, 7]) (w32 2) True =
    Some (w32 2, Some doubling, Some (splice [7, 7] 0 (converted EF2_AUDIO_RESAMPLE_LINEAR [0, 100] 1 0 2147483648 2)), w32 1)"
    using doubling_call [of 2 "[0, 100]" 2 "[7, 7]" 2 1] by simp
  show "ef2_audio_rate_converter_process_s16 (Some doubling) (Some (drop (unat (w32 1) * 1) [0, 100, 300, 500])) (w32 4 - w32 1) (Some [7, 7, 7, 7]) (w32 4) True =
    Some (w32 4, Some doubling, Some (splice [7, 7, 7, 7] 0 (converted EF2_AUDIO_RESAMPLE_LINEAR [100, 300, 500] 1 0 2147483648 4)), w32 2)"
    using doubling_call [of 3 "[100, 300, 500]" 4 "[7, 7, 7, 7]" 4 2] by (simp add: unat_w32 w32_diff)
qed simp_all

text \<open>
  \<open>ef2_audio_mix_s16\<close> adds to each destination sample the source sample times
  \<open>gain_q15 / 32768\<close>, rounded to the nearest integer with halves away from zero, and
  saturates the sum at the limits of 16 bits instead of wrapping; the samples behind
  \<open>sample_count\<close> stay.
\<close>

theorem audio_mix_saturates:
  assumes "length ys < 4294967296" "length xs < 4294967296" "n \<le> length xs" "n \<le> length ys"
  shows "\<exists>zs. ef2_audio_mix_s16 (Some ys) (Some xs) (w32 n) g = Some (Some zs) \<and> length zs = length ys \<and>
    drop n zs = drop n ys \<and>
    map sint (take n zs) = map2 (\<lambda>d s. clamp16 (sint d + gain_round (sint s * g))) (take n ys) (take n xs)"
proof (intro exI conjI)
  let ?zs = "map2 (mix_sample g) (take n ys) (take n xs) @ drop n ys"
  show "ef2_audio_mix_s16 (Some ys) (Some xs) (w32 n) g = Some (Some ?zs)"
    using mix_loop_spec [OF assms, of 0 g] by (simp add: ef2_audio_mix_s16_def)
  show "length ?zs = length ys" using assms by simp
  show "drop n ?zs = drop n ys" using assms by simp
  show "map sint (take n ?zs) = map2 (\<lambda>d s. clamp16 (sint d + gain_round (sint s * g))) (take n ys) (take n xs)"
    using assms by (simp add: o_def case_prod_unfold mix_sample_clamps)
qed

theorem audio_mix_saturates_witness:
  "\<exists>zs. ef2_audio_mix_s16 (Some [30000, 5]) (Some [10000, 1]) (w32 1) 32768 = Some (Some zs) \<and> length zs = length [30000, 5 :: s16] \<and>
    drop 1 zs = drop 1 [30000, 5] \<and>
    map sint (take 1 zs) = map2 (\<lambda>d s. clamp16 (sint d + gain_round (sint s * 32768))) (take 1 [30000, 5 :: s16]) (take 1 [10000, 1 :: s16])"
  by (rule audio_mix_saturates) simp_all

text \<open>
  A converter accepted by \<open>ef2_audio_rate_converter_init\<close> can read outside its input: with
  \<open>input_rate = 2^32 - 1\<close> and \<open>output_rate = 1\<close> the second phase position is frame
  \<open>2^32 - 1\<close>, the test \<open>input_index + 1 >= input_frames\<close> wraps to 0, and the sample at
  that index is read.
\<close>

theorem rate_converter_overread:
  "\<exists>c. ef2_audio_rate_converter_init (Some doubling) 0xFFFFFFFF 1 1 EF2_AUDIO_RESAMPLE_LINEAR = (0, Some c) \<and>
    ef2_audio_rate_converter_process_s16 (Some c) (Some [a, b]) 2 (Some [x, y]) 2 True = None"
proof -
  let ?c = "\<lparr>input_rate = 0xFFFFFFFF, output_rate = 1, rc_channels = 1, rc_mode = EF2_AUDIO_RESAMPLE_LINEAR,
                phase_q32 = 0, step_q32 = 0xFFFFFFFF00000000\<rparr>"
  have init: "ef2_audio_rate_converter_init (Some doubling) 0xFFFFFFFF 1 1 EF2_AUDIO_RESAMPLE_LINEAR = (0, Some ?c)"
    by (simp add: init_total EF2_AUDIO_RESAMPLE_LINEAR_def EF2_AUDIO_RESAMPLE_NEAREST_def)
  have shifts: "drop_bit 32 (0xFFFFFFFF00000000 :: u64) = 0xFFFFFFFF" "ucast (0xFFFFFFFF00000000 :: u64) = (0 :: u32)"
    "drop_bit 32 (0 :: u64) = 0" "ucast (0xFFFFFFFF :: u64) = (0xFFFFFFFF :: u32)"
    by simp_all
  have "convert_loop ?c [a, b] 2 2 1 0xFFFFFFFF00000000 ys = None" for ys
    by (subst convert_loop.simps, subst channel_loop.simps) (simp add: shifts get_sample_def)
  moreover have "channel_loop EF2_AUDIO_RESAMPLE_LINEAR [a, b] 1 0 0 0 1 ys = Some ys" for ys
    by (subst channel_loop.simps) simp
  moreover have "\<not> (2 :: u32) \<le> 1" by (simp add: word_le_nat_alt)
  ultimately have "convert_loop ?c [a, b] 2 2 0 0 [x, y] = None"
    by (subst convert_loop.simps, subst channel_loop.simps) (simp add: get_sample_def put_sample_def)
  moreover have "\<not> (2 :: u32) \<le> 1" "\<not> (2 :: u32) < 2" by (simp_all add: word_le_nat_alt)
  ultimately show ?thesis using init by (simp add: ef2_audio_rate_converter_process_s16_def)
qed

end
