(* ===== verification/IopKernel.thy ===== *)
theory IopKernel
  imports Bus
begin

text \<open>
  The IOP side: the calls of the console's I/O processor kernel (threads, semaphores,
  interrupts, caches) that the modules under \<open>src/iop\<close> make.  The kernel is not part of the
  repository: it is a record of functions on the same state \<open>'w\<close> as the hardware, and the modules
  are defined for every such record.
\<close>

record iop_sema_t =
  sema_attr :: u32
  sema_option :: u32
  sema_initial :: s32
  sema_max :: s32

text \<open>The entry points that the modules start as threads.\<close>

datatype thread_entry = Play_thread | Rpc_thread | Pad_thread

record iop_thread_t =
  thread_attr :: u32
  thread_option :: u32
  thread_entry :: thread_entry
  thread_stacksize :: u32
  thread_priority :: u32

record 'w iop_kernel =
  TH_C :: u32
  IOP_IRQ_DMA_SPU2 :: u32
  IOP_IRQ_SIO2 :: u32
  MODULE_RESIDENT_END :: s32
  MODULE_NO_RESIDENT_END :: s32
  CreateSema :: "iop_sema_t \<Rightarrow> 'w \<Rightarrow> s32 \<times> 'w"
  WaitSema :: "s32 \<Rightarrow> 'w \<Rightarrow> 'w"
  SignalSema :: "s32 \<Rightarrow> 'w \<Rightarrow> 'w"
  iSignalSema :: "s32 \<Rightarrow> 'w \<Rightarrow> 'w"
  PollSema :: "s32 \<Rightarrow> 'w \<Rightarrow> s32 \<times> 'w"
  DelayThread :: "u32 \<Rightarrow> 'w \<Rightarrow> 'w"
  CreateThread :: "iop_thread_t \<Rightarrow> 'w \<Rightarrow> s32 \<times> 'w"
  StartThread :: "s32 \<Rightarrow> 'w \<Rightarrow> s32 \<times> 'w"
  DisableIntr :: "u32 \<Rightarrow> 'w \<Rightarrow> 'w"
  EnableIntr :: "u32 \<Rightarrow> 'w \<Rightarrow> s32 \<times> 'w"
  RegisterIntrHandler :: "u32 \<Rightarrow> 'w \<Rightarrow> s32 \<times> 'w"
  ReleaseIntrHandler :: "u32 \<Rightarrow> 'w \<Rightarrow> 'w"
  CpuSuspendIntr :: "'w \<Rightarrow> 'w"
  CpuResumeIntr :: "'w \<Rightarrow> 'w"
  CpuEnableIntr :: "'w \<Rightarrow> 'w"
  FlushDcache :: "'w \<Rightarrow> 'w"

text \<open>A kernel for concrete runs: every call succeeds and none changes the state.\<close>

definition quiet_kernel :: "'w iop_kernel" where
  "quiet_kernel = \<lparr>
     TH_C = 0x02000000, IOP_IRQ_DMA_SPU2 = 40, IOP_IRQ_SIO2 = 17,
     MODULE_RESIDENT_END = 0, MODULE_NO_RESIDENT_END = 1,
     CreateSema = (\<lambda>s w. (1, w)), WaitSema = (\<lambda>s w. w), SignalSema = (\<lambda>s w. w),
     iSignalSema = (\<lambda>s w. w), PollSema = (\<lambda>s w. (-1, w)), DelayThread = (\<lambda>us w. w), CreateThread = (\<lambda>t w. (1, w)), StartThread = (\<lambda>t w. (0, w)),
     DisableIntr = (\<lambda>i w. w), EnableIntr = (\<lambda>i w. (0, w)), RegisterIntrHandler = (\<lambda>i w. (0, w)),
     ReleaseIntrHandler = (\<lambda>i w. w), CpuSuspendIntr = (\<lambda>w. w), CpuResumeIntr = (\<lambda>w. w),
     CpuEnableIntr = (\<lambda>w. w), FlushDcache = (\<lambda>w. w)\<rparr>"

text \<open>Hardware that reads as zero and ignores writes.\<close>

definition silent_bus :: "'w bus" where
  "silent_bus = \<lparr>rd8 = (\<lambda>a w. (0, w)), rd16 = (\<lambda>a w. (0, w)), rd32 = (\<lambda>a w. (0, w)),
    wr8 = (\<lambda>a v w. w), wr16 = (\<lambda>a v w. w), wr32 = (\<lambda>a v w. w)\<rparr>"

text \<open>Register sequences: writes in order, and the read-modify-write of C's compound assignments.\<close>

fun writes16 :: "'w bus \<Rightarrow> (u32 \<times> u16) list \<Rightarrow> 'w \<Rightarrow> 'w" where
  "writes16 bus [] w = w"
| "writes16 bus ((a, v) # avs) w = writes16 bus avs (wr16 bus a v w)"

fun writes32 :: "'w bus \<Rightarrow> (u32 \<times> u32) list \<Rightarrow> 'w \<Rightarrow> 'w" where
  "writes32 bus [] w = w"
| "writes32 bus ((a, v) # avs) w = writes32 bus avs (wr32 bus a v w)"

definition update16 :: "'w bus \<Rightarrow> u32 \<Rightarrow> (u16 \<Rightarrow> u16) \<Rightarrow> 'w \<Rightarrow> 'w" where
  "update16 bus a f w = (let (v, w') = rd16 bus a w in wr16 bus a (f v) w')"

definition update32 :: "'w bus \<Rightarrow> u32 \<Rightarrow> (u32 \<Rightarrow> u32) \<Rightarrow> 'w \<Rightarrow> 'w" where
  "update32 bus a f w = (let (v, w') = rd32 bus a w in wr32 bus a (f v) w')"

end
