(* ===== verification/Spu2.thy ===== *)
theory Spu2
  imports IopKernel
begin

text \<open>
  The SPU2 driver of the IOP audio module, \<open>src/iop/audio/src/spu2_direct.c\<close>: reset and mixer
  setup, the two-block DMA loop that its interrupt handler keeps going, volume and stop.

  The callback is a code address with its argument; what calling it does to the module that
  registered it is the parameter \<open>call\<close> of the interrupt handler.
\<close>

record 'w spu2 =
  spu2_dev :: 'w
  g_active_block :: u32
  g_running :: bool
  g_buffer_address :: u32
  g_block_bytes :: u32
  g_callback :: u32
  g_callback_arg :: u32
  spu2_initialized :: bool

section \<open>Registers\<close>

definition EF2_SPU2_CORE :: u32 where "EF2_SPU2_CORE = 1"
definition EF2_SPU2_MAX_VOLUME :: u32 where "EF2_SPU2_MAX_VOLUME = 0x3FFF"

definition SPU2_SREG :: "u32 \<Rightarrow> u32 \<Rightarrow> u32" where
  "SPU2_SREG core offset = 0xBF900000 + 0x180 + core * 0x400 + offset"
definition SPU2_AREG :: "u32 \<Rightarrow> u32 \<Rightarrow> u32" where
  "SPU2_AREG core offset = 0xBF900000 + 0x1A0 + core * 0x400 + offset"
definition SPU2_PREG :: "u32 \<Rightarrow> u32 \<Rightarrow> u32" where
  "SPU2_PREG core offset = 0xBF900000 + 0x760 + core * 40 + offset"
definition SPU2_STATX :: "u32 \<Rightarrow> u32" where
  "SPU2_STATX core = 0xBF900000 + 0x344 + core * 0x400"
definition SPU2_XFER_CTRL :: "u32 \<Rightarrow> u32" where
  "SPU2_XFER_CTRL core = 0xBF900000 + 0x1B0 + core * 0x400"
definition SPU2_MMIX :: "u32 \<Rightarrow> u32" where "SPU2_MMIX core = SPU2_SREG core 0x18"
definition SPU2_CORE_ATTR :: "u32 \<Rightarrow> u32" where "SPU2_CORE_ATTR core = SPU2_SREG core 0x1A"
definition SPU2_DMA_ADDR :: "u32 \<Rightarrow> u32" where "SPU2_DMA_ADDR core = 0xBF8010C0 + core * 0x440"
definition SPU2_DMA_MODE :: "u32 \<Rightarrow> u32" where "SPU2_DMA_MODE core = 0xBF8010C4 + core * 0x440"
definition SPU2_DMA_SIZE :: "u32 \<Rightarrow> u32" where "SPU2_DMA_SIZE core = 0xBF8010C6 + core * 0x440"
definition SPU2_DMA_CHCR :: "u32 \<Rightarrow> u32" where "SPU2_DMA_CHCR core = 0xBF8010C8 + core * 0x440"
definition SPU2_SPDIF_OUT :: u32 where "SPU2_SPDIF_OUT = 0xBF9007C0"
definition SPU2_SPDIF_MODE :: u32 where "SPU2_SPDIF_MODE = 0xBF9007C6"
definition SPU2_SPDIF_MEDIA :: u32 where "SPU2_SPDIF_MEDIA = 0xBF9007C8"
definition SPU2_SPDIF_MISC :: u32 where "SPU2_SPDIF_MISC = 0xBF9007CA"

definition EF2_SPU2_DMA_START :: u32 where "EF2_SPU2_DMA_START = push_bit 24 1"
definition EF2_SPU2_DMA_CS :: u32 where "EF2_SPU2_DMA_CS = push_bit 9 1"
definition EF2_SPU2_DMA_IOP_TO_SPU :: u32 where "EF2_SPU2_DMA_IOP_TO_SPU = 1"
definition EF2_SPU2_ON :: u16 where "EF2_SPU2_ON = push_bit 15 1"
definition EF2_SPU2_MUTE_BIT :: u16 where "EF2_SPU2_MUTE_BIT = push_bit 14 1"
definition EF2_SPU2_EXT_INPUT :: u16 where "EF2_SPU2_EXT_INPUT = 1"
definition EF2_SPU2_DMA_MASK :: u16 where "EF2_SPU2_DMA_MASK = push_bit 4 3"

section \<open>Reset and mixer\<close>

text \<open>The delay spins without touching memory or registers.\<close>

function spu2_delay_loop :: "u32 \<Rightarrow> 'w \<Rightarrow> 'w" where
  "spu2_delay_loop i w = (if i < 0x10000 then spu2_delay_loop (i + 1) w else w)"
  by pat_completeness auto
termination
  by (relation "measure (\<lambda>(i, w). unat (0x10000 - i))") (use u32_countdown_less [of _ "0x10000"] in auto)

definition ef2_spu2_delay :: "'w \<Rightarrow> 'w" where
  "ef2_spu2_delay w = spu2_delay_loop 0 w"

function spu2_idle_loop :: "'w bus \<Rightarrow> u32 \<Rightarrow> u32 \<Rightarrow> 'w \<Rightarrow> 'w" where
  "spu2_idle_loop bus core timeout w =
    (let (v, w') = rd16 bus (SPU2_STATX core) w
     in if v AND 0x07FF \<noteq> 0 \<and> timeout \<noteq> 0 then spu2_idle_loop bus core (timeout - 1) w' else w')"
  by pat_completeness auto
termination
  by (relation "measure (\<lambda>(bus, core, t, w). unat t)") (auto simp: u32_pred_less)

definition ef2_spu2_wait_core_idle :: "'w bus \<Rightarrow> u32 \<Rightarrow> 'w \<Rightarrow> 'w" where
  "ef2_spu2_wait_core_idle bus core w = spu2_idle_loop bus core 0x200000 w"

declare spu2_delay_loop.simps [simp del] spu2_idle_loop.simps [simp del]

definition ef2_spu2_init_dmac :: "'w bus \<Rightarrow> 'w \<Rightarrow> 'w" where
  "ef2_spu2_init_dmac bus w =
    (let w = writes32 bus [(0xBF801404, 0xBF900000), (0xBF80140C, 0xBF900800)] w;
         w = update32 bus 0xBF8010F0 (\<lambda>v. v OR 0x000B0000) w;
         w = update32 bus 0xBF801570 (\<lambda>v. v OR 0x00000008) w
     in writes32 bus [(0xBF801014, 0x200B31E1), (0xBF801414, 0x200B31E1)] w)"

definition ef2_spu2_reset_core :: "'w bus \<Rightarrow> u32 \<Rightarrow> 'w \<Rightarrow> 'w" where
  "ef2_spu2_reset_core bus core w =
    (let w = writes16 bus [(SPU2_XFER_CTRL core, 0), (SPU2_CORE_ATTR core, 0)] w;
         w = ef2_spu2_delay w;
         w = writes16 bus [(SPU2_CORE_ATTR core, EF2_SPU2_ON), (SPU2_PREG core 0x00, 0), (SPU2_PREG core 0x02, 0)] w;
         w = ef2_spu2_wait_core_idle bus core w
     in writes16 bus [(SPU2_AREG core 0x04, 0xFFFF), (SPU2_AREG core 0x06, 0x00FF)] w)"

definition spu2_mixer_core :: "'w bus \<Rightarrow> u32 \<Rightarrow> 'w \<Rightarrow> 'w" where
  "spu2_mixer_core bus core = writes16 bus
    [(SPU2_SREG core 0x08, 0xFFFF), (SPU2_SREG core 0x0A, 0x00FF),
     (SPU2_SREG core 0x0C, 0xFFFF), (SPU2_SREG core 0x0E, 0x00FF),
     (SPU2_SREG core 0x10, 0xFFFF), (SPU2_SREG core 0x12, 0x00FF),
     (SPU2_SREG core 0x14, 0xFFFF), (SPU2_SREG core 0x16, 0x00FF),
     (SPU2_PREG core 0x04, 0), (SPU2_PREG core 0x06, 0),
     (SPU2_PREG core 0x0C, 0), (SPU2_PREG core 0x0E, 0)]"

definition ef2_spu2_init_mixer :: "'w bus \<Rightarrow> 'w \<Rightarrow> 'w" where
  "ef2_spu2_init_mixer bus w =
    (let w = writes16 bus [(SPU2_SREG 1 0x00, 0), (SPU2_SREG 1 0x02, 0), (SPU2_SREG 1 0x04, 0), (SPU2_SREG 1 0x06, 0)] w;
         w = spu2_mixer_core bus 1 (spu2_mixer_core bus 0 w)
     in writes16 bus
       [(SPU2_MMIX 0, 0x0FF0), (SPU2_MMIX 1, 0x0FFC),
        (SPU2_CORE_ATTR 0, EF2_SPU2_ON OR EF2_SPU2_MUTE_BIT),
        (SPU2_CORE_ATTR 1, EF2_SPU2_ON OR EF2_SPU2_MUTE_BIT OR EF2_SPU2_EXT_INPUT),
        (SPU2_PREG 0 0x08, 0), (SPU2_PREG 0 0x0A, 0), (SPU2_PREG 1 0x08, 0x7FFF), (SPU2_PREG 1 0x0A, 0x7FFF),
        (SPU2_PREG 0 0x00, 0), (SPU2_PREG 0 0x02, 0),
        (SPU2_PREG 1 0x00, ucast EF2_SPU2_MAX_VOLUME), (SPU2_PREG 1 0x02, ucast EF2_SPU2_MAX_VOLUME)] w)"

section \<open>The DMA loop\<close>

definition ef2_spu2_start_dma_block :: "'w bus \<Rightarrow> u32 \<Rightarrow> 'w spu2 \<Rightarrow> 'w spu2" where
  "ef2_spu2_start_dma_block bus block st =
    (let core = EF2_SPU2_CORE; address = g_buffer_address st + g_block_bytes st * block;
         w = wr32 bus (SPU2_DMA_ADDR core) address (spu2_dev st);
         w = wr16 bus (SPU2_DMA_MODE core) 0x0010 w;
         w = wr16 bus (SPU2_DMA_SIZE core) (ucast ((g_block_bytes st + 63) div 64)) w;
         w = wr32 bus (SPU2_DMA_CHCR core) (EF2_SPU2_DMA_START OR EF2_SPU2_DMA_CS OR EF2_SPU2_DMA_IOP_TO_SPU) w
     in st\<lparr>spu2_dev := w\<rparr>)"

definition ef2_spu2_dma_interrupt :: "'w bus \<Rightarrow> (u32 \<Rightarrow> u32 \<Rightarrow> 'w \<Rightarrow> 'w) \<Rightarrow> 'w spu2 \<Rightarrow> s32 \<times> 'w spu2" where
  "ef2_spu2_dma_interrupt bus call st =
    (if \<not> g_running st then (1, st)
     else
       let st1 = st\<lparr>g_active_block := g_active_block st XOR 1\<rparr>;
           st2 = ef2_spu2_start_dma_block bus (g_active_block st1) st1
       in if g_callback st2 \<noteq> 0
          then (1, st2\<lparr>spu2_dev := call (g_callback st2) (g_callback_arg st2) (spu2_dev st2)\<rparr>)
          else (1, st2))"

definition ef2_spu2_init :: "'w iop_kernel \<Rightarrow> 'w bus \<Rightarrow> u32 \<Rightarrow> u32 \<Rightarrow> 'w spu2 \<Rightarrow> s32 \<times> 'w spu2" where
  "ef2_spu2_init ker bus callback callback_arg st0 =
    (let st = st0\<lparr>g_callback := callback, g_callback_arg := callback_arg\<rparr> in
     if spu2_initialized st then (0, st)
     else
       let w = ef2_spu2_init_dmac bus (spu2_dev st);
           w = ef2_spu2_delay (wr16 bus SPU2_SPDIF_OUT 0 w);
           w = ef2_spu2_delay (wr16 bus SPU2_SPDIF_OUT 0x8000 w);
           w = ef2_spu2_reset_core bus 1 (ef2_spu2_reset_core bus 0 w);
           w = writes16 bus [(SPU2_SPDIF_MODE, 0x0900), (SPU2_SPDIF_MEDIA, 0x0200),
                             (SPU2_SPDIF_MISC, 0x0008), (SPU2_SPDIF_OUT, 0xC032)] w;
           w = ef2_spu2_init_mixer bus w;
           irq = IOP_IRQ_DMA_SPU2 ker;
           w = ReleaseIntrHandler ker irq (DisableIntr ker irq w);
           (registered, w1) = RegisterIntrHandler ker irq w
       in if registered \<noteq> 0 then (-1, st\<lparr>spu2_dev := w1\<rparr>)
          else
            let (enabled, w2) = EnableIntr ker irq w1
            in if enabled \<noteq> 0 then (-2, st\<lparr>spu2_dev := ReleaseIntrHandler ker irq w2\<rparr>)
               else (0, st\<lparr>spu2_dev := w2, g_active_block := 0, g_running := False, spu2_initialized := True\<rparr>))"

definition ef2_spu2_set_volume :: "'w bus \<Rightarrow> u32 \<Rightarrow> 'w spu2 \<Rightarrow> 'w spu2" where
  "ef2_spu2_set_volume bus volume st =
    (let volume = (if volume > EF2_SPU2_MAX_VOLUME then EF2_SPU2_MAX_VOLUME else volume)
     in st\<lparr>spu2_dev := writes16 bus [(SPU2_PREG EF2_SPU2_CORE 0x0C, ucast volume),
                                     (SPU2_PREG EF2_SPU2_CORE 0x0E, ucast volume)] (spu2_dev st)\<rparr>)"

definition ef2_spu2_start_loop :: "'w bus \<Rightarrow> u32 \<Rightarrow> u32 \<Rightarrow> 'w spu2 \<Rightarrow> s32 \<times> 'w spu2" where
  "ef2_spu2_start_loop bus buffer total_bytes st =
    (if \<not> spu2_initialized st \<or> buffer = 0 then (-1, st)
     else if total_bytes < 128 \<or> total_bytes AND 127 \<noteq> 0 then (-2, st)
     else
       let core = EF2_SPU2_CORE;
           w = update32 bus (SPU2_DMA_CHCR core) (\<lambda>v. v AND NOT EF2_SPU2_DMA_START) (spu2_dev st);
           w = update16 bus (SPU2_CORE_ATTR core) (\<lambda>v. v AND NOT EF2_SPU2_DMA_MASK) w;
           w = writes16 bus [(SPU2_AREG core 0x08, 0), (SPU2_AREG core 0x0A, 0),
                             (SPU2_XFER_CTRL core, push_bit (unat core) 1)] w;
           st = st\<lparr>spu2_dev := w, g_buffer_address := buffer, g_block_bytes := total_bytes div 2,
                   g_active_block := 0, g_running := True\<rparr>
       in (0, ef2_spu2_start_dma_block bus 0 st))"

definition ef2_spu2_stop :: "'w bus \<Rightarrow> 'w spu2 \<Rightarrow> s32 \<times> 'w spu2" where
  "ef2_spu2_stop bus st =
    (if \<not> spu2_initialized st then (-1, st)
     else
       let core = EF2_SPU2_CORE;
           w = update32 bus (SPU2_DMA_CHCR core) (\<lambda>v. v AND NOT EF2_SPU2_DMA_START) (spu2_dev st);
           w = wr16 bus (SPU2_XFER_CTRL core) 0 w;
           w = update16 bus (SPU2_CORE_ATTR core) (\<lambda>v. v AND NOT EF2_SPU2_DMA_MASK) w
       in (0, st\<lparr>spu2_dev := w, g_running := False\<rparr>))"

definition ef2_spu2_active_block :: "'w spu2 \<Rightarrow> u32" where
  "ef2_spu2_active_block st = g_active_block st AND 1"

end
