(* ===== verification/AudioService.thy ===== *)
theory AudioService
  imports Spu2 AudioRate ByteMem
begin

text \<open>
  The IOP audio module \<open>src/iop/audio/src/main.c\<close>: the frame ring between the RPC thread and the play
  thread, the controls and the RPC dispatcher.

  Buffers of samples are lists of 16-bit words: \<open>g_ring\<close> holds 4096 interleaved stereo
  frames, \<open>g_spu_buffer\<close> the 4096 bytes that the SPU2 reads.  The sections that the code runs
  between \<open>WaitSema(g_ring_mutex)\<close> and \<open>SignalSema(g_ring_mutex)\<close> are functions on the state, so
  that they are atomic with respect to one another; how the threads interleave is in \<open>AudioRing\<close>.
\<close>

definition EF2AUDIO_RING_FRAMES :: u32 where "EF2AUDIO_RING_FRAMES = 4096"
definition EF2AUDIO_BLOCK_FRAMES :: u32 where "EF2AUDIO_BLOCK_FRAMES = 512"
definition EF2AUDIO_MAX_VOLUME :: u32 where "EF2AUDIO_MAX_VOLUME = 0x3FFF"
definition EF2_AUDIO_RPC_MAX_FRAMES :: u32 where "EF2_AUDIO_RPC_MAX_FRAMES = 512"

record ef2_audio_rpc_reply =
  reply_result :: s32
  reply_queued_frames :: u32
  reply_capacity_frames :: u32
  reply_underruns :: u32
  reply_overruns :: u32
  reply_latency_ms :: u32
  reply_volume :: u32
  reply_flags :: u32

record 'w audio =
  g_spu2 :: "'w spu2"
  g_ring :: "s16 list"
  g_read_frame :: u32
  g_write_frame :: u32
  g_queued_frames :: u32
  g_underruns :: u32
  g_overruns :: u32
  g_spu_buffer :: "s16 list"
  g_render_left :: "s16 list"
  g_render_right :: "s16 list"
  g_ring_mutex :: s32
  g_space_sema :: s32
  g_transfer_sema :: s32
  g_rpc_ready_sema :: s32
  g_play_thread :: s32
  g_initialized :: bool
  g_started :: bool
  g_paused :: bool
  g_volume :: u32
  g_queue_limit_frames :: u32
  g_rpc_reply :: ef2_audio_rpc_reply

text \<open>The state as the module is loaded.\<close>

definition audio_loaded :: "'w spu2 \<Rightarrow> 'w audio" where
  "audio_loaded spu = \<lparr>g_spu2 = spu, g_ring = replicate 8192 0, g_read_frame = 0, g_write_frame = 0,
    g_queued_frames = 0, g_underruns = 0, g_overruns = 0, g_spu_buffer = replicate 2048 0,
    g_render_left = replicate 512 0, g_render_right = replicate 512 0,
    g_ring_mutex = -1, g_space_sema = -1, g_transfer_sema = -1, g_rpc_ready_sema = -1, g_play_thread = -1,
    g_initialized = False, g_started = False, g_paused = False,
    g_volume = EF2AUDIO_MAX_VOLUME, g_queue_limit_frames = EF2AUDIO_RING_FRAMES,
    g_rpc_reply = \<lparr>reply_result = 0, reply_queued_frames = 0, reply_capacity_frames = 0, reply_underruns = 0,
      reply_overruns = 0, reply_latency_ms = 0, reply_volume = 0, reply_flags = 0\<rparr>\<rparr>"

text \<open>A kernel or register operation in the state of the module.\<close>

definition on_dev :: "('w \<Rightarrow> 'w) \<Rightarrow> 'w audio \<Rightarrow> 'w audio" where
  "on_dev f st = st\<lparr>g_spu2 := (g_spu2 st)\<lparr>spu2_dev := f (spu2_dev (g_spu2 st))\<rparr>\<rparr>"

definition audio_dev :: "'w audio \<Rightarrow> 'w" where
  "audio_dev st = spu2_dev (g_spu2 st)"

definition call_dev :: "('w \<Rightarrow> 'a \<times> 'w) \<Rightarrow> 'w audio \<Rightarrow> 'a \<times> 'w audio" where
  "call_dev f st = (let (r, w) = f (audio_dev st) in (r, on_dev (\<lambda>_. w) st))"

definition create_semaphore :: "'w iop_kernel \<Rightarrow> s32 \<Rightarrow> s32 \<Rightarrow> 'w \<Rightarrow> s32 \<times> 'w" where
  "create_semaphore ker initial max_count =
    CreateSema ker \<lparr>sema_attr = 0, sema_option = 0, sema_initial = initial, sema_max = max_count\<rparr>"

definition update_volume :: "'w bus \<Rightarrow> 'w audio \<Rightarrow> 'w audio" where
  "update_volume bus st =
    (let volume = (if g_started st \<and> \<not> g_paused st then g_volume st else 0)
     in st\<lparr>g_spu2 := ef2_spu2_set_volume bus volume (g_spu2 st)\<rparr>)"

definition transfer_complete :: "'w iop_kernel \<Rightarrow> 'w audio \<Rightarrow> s32 \<times> 'w audio" where
  "transfer_complete ker st =
    (1, if g_transfer_sema st \<ge> 0 then on_dev (iSignalSema ker (g_transfer_sema st)) st else st)"

section \<open>Rendering\<close>

function render_loop :: "u32 \<Rightarrow> u32 \<Rightarrow> 'w audio \<Rightarrow> 'w audio" where
  "render_loop i count st =
    (if i < EF2AUDIO_BLOCK_FRAMES then
       let position = ((g_read_frame st + i) mod EF2AUDIO_RING_FRAMES) * 2;
           left = (if i < count then g_ring st ! unat position else 0);
           right = (if i < count then g_ring st ! unat (position + 1) else 0)
       in render_loop (i + 1) count
            (st\<lparr>g_render_left := (g_render_left st)[unat i := left],
                g_render_right := (g_render_right st)[unat i := right]\<rparr>)
     else st)"
  by pat_completeness auto
termination
  by (relation "measure (\<lambda>(i, c, st). unat (EF2AUDIO_BLOCK_FRAMES - i))") (auto simp: u32_countdown_less)

declare render_loop.simps [simp del]

text \<open>The section of \<open>fill_render_block\<close> under the mutex, with the number of frames taken.\<close>

definition render_section :: "'w audio \<Rightarrow> u32 \<times> 'w audio" where
  "render_section st =
    (let count = (if g_paused st then 0
                  else if g_queued_frames st > EF2AUDIO_BLOCK_FRAMES then EF2AUDIO_BLOCK_FRAMES
                  else g_queued_frames st);
         st1 = render_loop 0 count st;
         st2 = (if count \<noteq> 0
                then st1\<lparr>g_read_frame := (g_read_frame st1 + count) mod EF2AUDIO_RING_FRAMES,
                         g_queued_frames := g_queued_frames st1 - count\<rparr>
                else st1);
         st3 = (if \<not> g_paused st2 \<and> count < EF2AUDIO_BLOCK_FRAMES
                then st2\<lparr>g_underruns := g_underruns st2 + 1\<rparr> else st2)
     in (count, st3))"

definition fill_render_block :: "'w iop_kernel \<Rightarrow> 'w audio \<Rightarrow> 'w audio" where
  "fill_render_block ker st =
    (let st1 = on_dev (WaitSema ker (g_ring_mutex st)) st;
         (count, st2) = render_section st1;
         st3 = on_dev (SignalSema ker (g_ring_mutex st2)) st2
     in if count \<noteq> 0 then on_dev (SignalSema ker (g_space_sema st3)) st3 else st3)"

text \<open>
  The four 256-sample quarters of a block of the SPU2 buffer; \<open>block\<close> is its byte offset,
  halved to index samples.
\<close>

function copy_render_loop :: "u32 \<Rightarrow> nat \<Rightarrow> 'w audio \<Rightarrow> 'w audio" where
  "copy_render_loop i base st =
    (if i < 256 then
       let b = g_spu_buffer st;
           b = b[base + unat i := g_render_left st ! unat i];
           b = b[base + 256 + unat i := g_render_right st ! unat i];
           b = b[base + 512 + unat i := g_render_left st ! unat (i + 256)];
           b = b[base + 768 + unat i := g_render_right st ! unat (i + 256)]
       in copy_render_loop (i + 1) base (st\<lparr>g_spu_buffer := b\<rparr>)
     else st)"
  by pat_completeness auto
termination
  by (relation "measure (\<lambda>(i, b, st). unat (256 - i))") (use u32_countdown_less [of _ 256] in auto)

declare copy_render_loop.simps [simp del]

definition copy_render_to_spu :: "u32 \<Rightarrow> 'w audio \<Rightarrow> 'w audio" where
  "copy_render_to_spu block st = copy_render_loop 0 (unat block div 2) st"

text \<open>One round of the endless loop of \<open>play_thread\<close>.\<close>

definition play_round :: "'w iop_kernel \<Rightarrow> 'w audio \<Rightarrow> 'w audio" where
  "play_round ker st =
    (let st = on_dev (WaitSema ker (g_transfer_sema st)) st;
         st = fill_render_block ker st;
         st = on_dev (CpuSuspendIntr ker) st;
         active_block = ef2_spu2_active_block (g_spu2 st);
         idle_block = 1 - active_block;
         st = copy_render_to_spu (push_bit 11 idle_block) st
     in on_dev (\<lambda>w. FlushDcache ker (CpuResumeIntr ker w)) st)"

section \<open>Start of the service\<close>

definition audio_initialize :: "'w iop_kernel \<Rightarrow> 'w bus \<Rightarrow> u32 \<Rightarrow> 'w audio \<Rightarrow> s32 \<times> 'w audio" where
  "audio_initialize ker bus transfer_complete_addr st =
    (if g_initialized st then (0, st)
     else
       let (ring, st) = call_dev (create_semaphore ker 1 1) st;
           (space, st) = call_dev (create_semaphore ker 0 1) st;
           (transfer, st) = call_dev (create_semaphore ker 0 1) st;
           st = st\<lparr>g_ring_mutex := ring, g_space_sema := space, g_transfer_sema := transfer\<rparr>
       in if ring < 0 \<or> space < 0 \<or> transfer < 0 then (-1, st)
          else
            let (spu2_result, spu) = ef2_spu2_init ker bus transfer_complete_addr 0 (g_spu2 st);
                st = st\<lparr>g_spu2 := spu\<rparr>
            in if spu2_result < 0 then (-2, st)
               else
                 let st = st\<lparr>g_ring := replicate 8192 0, g_spu_buffer := replicate 2048 0,
                             g_render_left := replicate 512 0, g_render_right := replicate 512 0,
                             g_read_frame := 0, g_write_frame := 0, g_queued_frames := 0,
                             g_underruns := 0, g_overruns := 0\<rparr>;
                     st = update_volume bus st;
                     (thread, st) = call_dev (CreateThread ker
                       \<lparr>thread_attr = TH_C ker, thread_option = 0, thread_entry = Play_thread,
                        thread_stacksize = 0x1000, thread_priority = 38\<rparr>) st;
                     st = st\<lparr>g_play_thread := thread\<rparr>
                 in if thread < 0 then (-3, st)
                    else
                      let (started, st) = call_dev (StartThread ker thread) st
                      in if started < 0 then (-4, st) else (0, st\<lparr>g_initialized := True\<rparr>))"

section \<open>Submission\<close>

function submit_copy :: "(u32 \<Rightarrow> s16) \<Rightarrow> u32 \<Rightarrow> u32 \<Rightarrow> u32 \<Rightarrow> u32 \<Rightarrow> s16 list \<Rightarrow> s16 list" where
  "submit_copy samples source_frame write_frame i count ring =
    (if i < count then
       let position = ((write_frame + i) mod EF2AUDIO_RING_FRAMES) * 2;
           source = (source_frame + i) * 2
       in submit_copy samples source_frame write_frame (i + 1) count
            (ring[unat position := samples source, unat (position + 1) := samples (source + 1)])
     else ring)"
  by pat_completeness auto
termination
  by (relation "measure (\<lambda>(s, f, w, i, n, r). unat (n - i))") (auto simp: u32_countdown_less)

declare submit_copy.simps [simp del]

text \<open>
  The section of one round of the loop of \<open>audio_submit\<close> under the mutex: with space the frames
  copied and the next source frame, without space \<open>None\<close> and an overrun counted.
\<close>

definition submit_section :: "(u32 \<Rightarrow> s16) \<Rightarrow> u32 \<Rightarrow> u32 \<Rightarrow> 'w audio \<Rightarrow> u32 option \<times> 'w audio" where
  "submit_section samples frames source_frame st =
    (let space = (if g_queued_frames st \<ge> g_queue_limit_frames st then 0
                  else g_queue_limit_frames st - g_queued_frames st)
     in if space = 0 then (None, st\<lparr>g_overruns := g_overruns st + 1\<rparr>)
        else
          let count = (if frames - source_frame > space then space else frames - source_frame)
          in (Some (source_frame + count),
              st\<lparr>g_ring := submit_copy samples source_frame (g_write_frame st) 0 count (g_ring st),
                 g_write_frame := (g_write_frame st + count) mod EF2AUDIO_RING_FRAMES,
                 g_queued_frames := g_queued_frames st + count\<rparr>))"

text \<open>
  The loop itself: \<open>others\<close> is what the other threads do to the state while this one waits for
  \<open>g_space_sema\<close>.  A loop that never ends is \<open>None\<close>.
\<close>

partial_function (option) submit_loop ::
  "'w iop_kernel \<Rightarrow> ('w audio \<Rightarrow> 'w audio) \<Rightarrow> (u32 \<Rightarrow> s16) \<Rightarrow> u32 \<Rightarrow> u32 \<Rightarrow> 'w audio \<Rightarrow> 'w audio option" where
  "submit_loop ker others samples frames source_frame st =
    (if source_frame < frames then
       let st1 = on_dev (WaitSema ker (g_ring_mutex st)) st;
           (next_frame, st2) = submit_section samples frames source_frame st1;
           st3 = on_dev (SignalSema ker (g_ring_mutex st2)) st2
       in case next_frame of
            None \<Rightarrow> submit_loop ker others samples frames source_frame
                     (on_dev (WaitSema ker (g_space_sema st3)) (others st3))
          | Some f \<Rightarrow> submit_loop ker others samples frames f st3
     else Some st)"

definition audio_submit ::
  "'w iop_kernel \<Rightarrow> ('w audio \<Rightarrow> 'w audio) \<Rightarrow> (u32 \<Rightarrow> s16) \<Rightarrow> u32 \<Rightarrow> 'w audio \<Rightarrow> (s32 \<times> 'w audio) option" where
  "audio_submit ker others samples frames st =
    (if \<not> g_initialized st then Some (-1, st)
     else if frames > EF2_AUDIO_RPC_MAX_FRAMES then Some (-2, st)
     else do { st' \<leftarrow> submit_loop ker others samples frames 0 st; Some (sint frames, st') })"

section \<open>Controls\<close>

definition audio_start :: "'w iop_kernel \<Rightarrow> 'w bus \<Rightarrow> u32 \<Rightarrow> 'w audio \<Rightarrow> s32 \<times> 'w audio" where
  "audio_start ker bus spu_buffer_addr st =
    (if \<not> g_initialized st then (-1, st)
     else if g_started st then (0, st)
     else
       let st = st\<lparr>g_spu_buffer := replicate 2048 0\<rparr>;
           st = update_volume bus (on_dev (FlushDcache ker) st);
           (transfer_result, spu) = ef2_spu2_start_loop bus spu_buffer_addr 4096 (g_spu2 st);
           st = st\<lparr>g_spu2 := spu\<rparr>
       in if transfer_result < 0 then (-2, update_volume bus (st\<lparr>g_started := False\<rparr>))
          else (0, update_volume bus (st\<lparr>g_started := True, g_paused := False\<rparr>)))"

definition audio_pause :: "'w bus \<Rightarrow> 'w audio \<Rightarrow> s32 \<times> 'w audio" where
  "audio_pause bus st =
    (if \<not> g_initialized st \<or> \<not> g_started st then (-1, st)
     else (0, update_volume bus (st\<lparr>g_paused := True\<rparr>)))"

definition audio_resume :: "'w bus \<Rightarrow> 'w audio \<Rightarrow> s32 \<times> 'w audio" where
  "audio_resume bus st =
    (if \<not> g_initialized st \<or> \<not> g_started st then (-1, st)
     else (0, update_volume bus (st\<lparr>g_paused := False\<rparr>)))"

definition audio_stop :: "'w bus \<Rightarrow> 'w audio \<Rightarrow> s32 \<times> 'w audio" where
  "audio_stop bus st =
    (if \<not> g_initialized st then (-1, st)
     else if \<not> g_started st then (0, update_volume bus (st\<lparr>g_paused := False\<rparr>))
     else
       let (result, spu) = ef2_spu2_stop bus (g_spu2 st); st = st\<lparr>g_spu2 := spu\<rparr>
       in if result < 0 then (-2, st)
          else (0, update_volume bus (st\<lparr>g_started := False, g_paused := False\<rparr>)))"

definition flush_section :: "'w audio \<Rightarrow> 'w audio" where
  "flush_section st = st\<lparr>g_read_frame := 0, g_write_frame := 0, g_queued_frames := 0\<rparr>"

definition audio_flush :: "'w iop_kernel \<Rightarrow> 'w audio \<Rightarrow> s32 \<times> 'w audio" where
  "audio_flush ker st =
    (let st = flush_section (on_dev (WaitSema ker (g_ring_mutex st)) st);
         st = on_dev (SignalSema ker (g_ring_mutex st)) st
     in (0, on_dev (SignalSema ker (g_space_sema st)) st))"

definition audio_set_volume :: "'w bus \<Rightarrow> u32 \<Rightarrow> 'w audio \<Rightarrow> s32 \<times> 'w audio" where
  "audio_set_volume bus volume st =
    (if volume > EF2AUDIO_MAX_VOLUME then (-1, st)
     else (0, update_volume bus (st\<lparr>g_volume := volume\<rparr>)))"

definition audio_set_latency_ms :: "'w iop_kernel \<Rightarrow> u32 \<Rightarrow> 'w audio \<Rightarrow> s32 \<times> 'w audio" where
  "audio_set_latency_ms ker latency_ms st =
    (if latency_ms = 0 \<or> latency_ms > 1000 then (-1, st)
     else
       let frames = latency_ms * 48;
           frames = ((frames + EF2AUDIO_BLOCK_FRAMES - 1) div EF2AUDIO_BLOCK_FRAMES) * EF2AUDIO_BLOCK_FRAMES;
           frames = (if frames < EF2AUDIO_BLOCK_FRAMES then EF2AUDIO_BLOCK_FRAMES else frames);
           frames = (if frames > EF2AUDIO_RING_FRAMES then EF2AUDIO_RING_FRAMES else frames);
           st = st\<lparr>g_queue_limit_frames := frames\<rparr>
       in (0, on_dev (SignalSema ker (g_space_sema st)) st))"

section \<open>The dispatcher\<close>

definition fill_reply :: "s32 \<Rightarrow> 'w audio \<Rightarrow> 'w audio" where
  "fill_reply result st =
    st\<lparr>g_rpc_reply :=
      \<lparr>reply_result = result, reply_queued_frames = g_queued_frames st,
       reply_capacity_frames = g_queue_limit_frames st,
       reply_underruns = g_underruns st, reply_overruns = g_overruns st,
       reply_latency_ms = (g_queue_limit_frames st * 1000 + 47999) div 48000,
       reply_volume = g_volume st,
       reply_flags = (if g_started st then 1 else 0) OR (if g_paused st then 2 else 0)\<rparr>\<rparr>"

definition load16 :: "mem \<Rightarrow> u32 \<Rightarrow> u16" where
  "load16 m a = ucast (m a) OR push_bit 8 (ucast (m (a + 1)))"

text \<open>
  The request is the input buffer \<open>buffer\<close> of the memory \<open>m\<close>, a pointer-free struct that starts
  with one word.  \<open>addr\<close> gives the two addresses that the handler passes on: the completion
  callback and the SPU2 buffer.
\<close>

definition rpc_handler ::
  "'w iop_kernel \<Rightarrow> 'w bus \<Rightarrow> ('w audio \<Rightarrow> 'w audio) \<Rightarrow> u32 \<times> u32 \<Rightarrow> mem \<Rightarrow> s32 \<Rightarrow> u32 \<Rightarrow> s32 \<Rightarrow> 'w audio \<Rightarrow> 'w audio option"
where
  "rpc_handler ker bus others addr m function_id buffer len st =
    do { (result, st') \<leftarrow>
      (if function_id = 0 then Some (audio_initialize ker bus (fst addr) st)
       else if function_id = 1 then
         (if len < 4 then Some (-10, st)
          else
            let frames = load32 m buffer; expected = 4 + frames * 2 * 2
            in if frames > EF2_AUDIO_RPC_MAX_FRAMES \<or> word_of_int len < expected then Some (-11, st)
               else audio_submit ker others (\<lambda>i. load16 m (buffer + 4 + 2 * i)) frames st)
       else if function_id = 2 then Some (audio_start ker bus (snd addr) st)
       else if function_id = 3 then Some (0, st)
       else if function_id = 4 then
         Some (if len < 4 then (-12, st) else audio_set_volume bus (load32 m buffer) st)
       else if function_id = 5 then Some (audio_pause bus st)
       else if function_id = 6 then Some (audio_resume bus st)
       else if function_id = 7 then Some (audio_stop bus st)
       else if function_id = 8 then Some (audio_flush ker st)
       else if function_id = 9 then
         Some (if len < 4 then (-13, st) else audio_set_latency_ms ker (load32 m buffer) st)
       else Some (-100, st));
      Some (fill_reply result st') }"

end
