(* ===== verification/SharedQueue.thy ===== *)
theory SharedQueue
  imports Main
begin

text \<open>
  The interface of a queue that several threads share, and what every interleaving of its
  operations keeps.
\<close>

section \<open>Queues shared by two threads\<close>

text \<open>
  The contract between the threads that share the ring: one appends frames at the back, one takes
  frames from the front, the queue can be emptied, and every other operation leaves its contents
  alone.  Operations are relations between the states before and after one section of code that
  runs under the mutex.
\<close>

locale shared_queue =
  fixes ok :: "'s \<Rightarrow> bool"
    and contents :: "'s \<Rightarrow> 'a list"
    and capacity :: nat
    and push :: "'s \<Rightarrow> 'a list \<Rightarrow> 's \<Rightarrow> bool"
    and pop :: "'s \<Rightarrow> 'a list \<Rightarrow> 's \<Rightarrow> bool"
    and clear :: "'s \<Rightarrow> 's \<Rightarrow> bool"
    and adjust :: "'s \<Rightarrow> 's \<Rightarrow> bool"
  assumes bounded: "ok s \<Longrightarrow> length (contents s) \<le> capacity"
    and push_law: "ok s \<Longrightarrow> push s xs s' \<Longrightarrow> ok s' \<and> contents s' = contents s @ xs"
    and pop_law: "ok s \<Longrightarrow> pop s xs s' \<Longrightarrow> ok s' \<and> contents s = xs @ contents s'"
    and clear_law: "ok s \<Longrightarrow> clear s s' \<Longrightarrow> ok s' \<and> contents s' = []"
    and adjust_law: "ok s \<Longrightarrow> adjust s s' \<Longrightarrow> ok s' \<and> contents s' = contents s"
begin

text \<open>
  Any interleaving: the elements that went in since the last clear or were popped before, the
  elements that came out, and the state.
\<close>

inductive run :: "'s \<Rightarrow> 'a list \<Rightarrow> 'a list \<Rightarrow> 's \<Rightarrow> bool" for s0 where
  start: "run s0 [] [] s0"
| pushed: "run s0 ins outs s \<Longrightarrow> push s xs s' \<Longrightarrow> run s0 (ins @ xs) outs s'"
| popped: "run s0 ins outs s \<Longrightarrow> pop s xs s' \<Longrightarrow> run s0 ins (outs @ xs) s'"
| cleared: "run s0 ins outs s \<Longrightarrow> clear s s' \<Longrightarrow> run s0 outs outs s'"
| adjusted: "run s0 ins outs s \<Longrightarrow> adjust s s' \<Longrightarrow> run s0 ins outs s'"

lemma run_fifo:
  "run s0 ins outs s \<Longrightarrow> ok s0 \<Longrightarrow> contents s0 = [] \<Longrightarrow> ok s \<and> ins = outs @ contents s"
proof (induction rule: run.induct)
  case (pushed ins outs s xs s')
  then show ?case using push_law by (metis append_assoc)
next
  case (popped ins outs s xs s')
  then show ?case using pop_law by (metis append_assoc)
next
  case (cleared ins outs s s')
  then show ?case using clear_law by fastforce
next
  case (adjusted ins outs s s')
  then show ?case using adjust_law by metis
qed simp

lemma run_bounded:
  "run s0 ins outs s \<Longrightarrow> ok s0 \<Longrightarrow> contents s0 = [] \<Longrightarrow> length ins \<le> length outs + capacity"
  using run_fifo bounded by fastforce

end

end
