(* ===== verification/AudioRing.thy ===== *)
theory AudioRing
  imports AudioService SharedQueue
begin

text \<open>
  The frame ring of \<open>AudioService\<close> as a list of frames: what one round of submission appends, what
  rendering a block removes, what the copy to the SPU2 buffer writes.
\<close>

section \<open>The ring as a queue of frames\<close>

type_synonym frame = "s16 \<times> s16"

definition frame_of :: "s16 list \<Rightarrow> nat \<Rightarrow> frame" where
  "frame_of ring j = (ring ! (2 * j), ring ! (2 * j + 1))"

definition queue :: "'w audio \<Rightarrow> frame list" where
  "queue st = map (\<lambda>i. frame_of (g_ring st) ((unat (g_read_frame st) + i) mod 4096)) [0..<unat (g_queued_frames st)]"

definition queue_limit :: "'w audio \<Rightarrow> nat" where
  "queue_limit st = unat (g_queue_limit_frames st)"

definition ring_ok :: "'w audio \<Rightarrow> bool" where
  "ring_ok st \<longleftrightarrow> length (g_ring st) = 8192 \<and> unat (g_read_frame st) < 4096 \<and>
    unat (g_queued_frames st) \<le> 4096 \<and> unat (g_queue_limit_frames st) \<le> 4096 \<and>
    unat (g_write_frame st) = (unat (g_read_frame st) + unat (g_queued_frames st)) mod 4096 \<and>
    length (g_render_left st) = 512 \<and> length (g_render_right st) = 512 \<and> length (g_spu_buffer st) = 2048"

lemma length_queue [simp]: "length (queue st) = unat (g_queued_frames st)"
  by (simp add: queue_def)

lemma nth_queue: "i < unat (g_queued_frames st) \<Longrightarrow>
    queue st ! i = frame_of (g_ring st) ((unat (g_read_frame st) + i) mod 4096)"
  by (simp add: queue_def)

text \<open>Operations that leave the ring alone.\<close>

definition same_ring :: "'w audio \<Rightarrow> 'w audio \<Rightarrow> bool" where
  "same_ring st st' \<longleftrightarrow> g_ring st' = g_ring st \<and> g_read_frame st' = g_read_frame st \<and>
    g_write_frame st' = g_write_frame st \<and> g_queued_frames st' = g_queued_frames st \<and>
    g_queue_limit_frames st' = g_queue_limit_frames st \<and>
    length (g_render_left st') = length (g_render_left st) \<and>
    length (g_render_right st') = length (g_render_right st) \<and>
    length (g_spu_buffer st') = length (g_spu_buffer st)"

lemma same_ring_ok: "same_ring st st' \<Longrightarrow> ring_ok st' = ring_ok st"
  by (simp add: same_ring_def ring_ok_def)

lemma same_ring_queue: "same_ring st st' \<Longrightarrow> queue st' = queue st"
  by (simp add: same_ring_def queue_def)

lemma same_ring_limit: "same_ring st st' \<Longrightarrow> queue_limit st' = queue_limit st"
  by (simp add: same_ring_def queue_limit_def)

lemma on_dev_simps [simp]:
  "g_ring (on_dev f st) = g_ring st" "g_read_frame (on_dev f st) = g_read_frame st"
  "g_write_frame (on_dev f st) = g_write_frame st" "g_queued_frames (on_dev f st) = g_queued_frames st"
  "g_queue_limit_frames (on_dev f st) = g_queue_limit_frames st"
  "g_render_left (on_dev f st) = g_render_left st" "g_render_right (on_dev f st) = g_render_right st"
  "g_spu_buffer (on_dev f st) = g_spu_buffer st" "g_paused (on_dev f st) = g_paused st"
  "g_initialized (on_dev f st) = g_initialized st" "g_started (on_dev f st) = g_started st"
  "g_ring_mutex (on_dev f st) = g_ring_mutex st" "g_space_sema (on_dev f st) = g_space_sema st"
  "g_underruns (on_dev f st) = g_underruns st" "g_overruns (on_dev f st) = g_overruns st"
  "g_volume (on_dev f st) = g_volume st"
  "g_active_block (g_spu2 (on_dev f st)) = g_active_block (g_spu2 st)"
  by (simp_all add: on_dev_def)

lemma same_ring_on_dev [simp]: "same_ring st (on_dev f st)"
  by (simp add: same_ring_def)

lemma on_dev_ring [simp]:
  "ring_ok (on_dev f st) = ring_ok st" "queue (on_dev f st) = queue st" "queue_limit (on_dev f st) = queue_limit st"
  by (simp_all add: ring_ok_def queue_def queue_limit_def)

lemmas same_ring_facts = same_ring_ok same_ring_queue same_ring_limit

lemma ring_frames_word [simp]: "EF2AUDIO_RING_FRAMES = w32 4096" "EF2AUDIO_BLOCK_FRAMES = w32 512"
  by (simp_all add: EF2AUDIO_RING_FRAMES_def EF2AUDIO_BLOCK_FRAMES_def w32_numeral)

lemma ring_position:
  assumes "a < 4096" "i \<le> 4096"
  shows "unat (((w32 a + w32 i) mod w32 4096) * 2) = 2 * ((a + i) mod 4096)"
    and "unat (((w32 a + w32 i) mod w32 4096) * 2 + 1) = 2 * ((a + i) mod 4096) + 1"
proof -
  have m: "unat ((w32 a + w32 i) mod w32 4096) = (a + i) mod 4096"
    using assms by (simp add: w32_add unat_mod unat_w32)
  then have e: "(w32 a + w32 i) mod w32 4096 = w32 ((a + i) mod 4096)" by (metis w32_unat)
  have "(a + i) mod 4096 < 4096" by simp
  then have "(a + i) mod 4096 * 2 + 1 < 4294967296" by linarith
  then show "unat (((w32 a + w32 i) mod w32 4096) * 2) = 2 * ((a + i) mod 4096)"
    "unat (((w32 a + w32 i) mod w32 4096) * 2 + 1) = 2 * ((a + i) mod 4096) + 1"
    unfolding e using unat_w32 [of "(a + i) mod 4096 * 2"] unat_w32 [of "(a + i) mod 4096 * 2 + 1"]
    by (simp_all add: w32_def ac_simps)
qed

lemma ring_distinct: "i < k \<Longrightarrow> k < i + m \<Longrightarrow> (a + i) mod m \<noteq> (a + k) mod (m :: nat)"
proof
  assume "i < k" "k < i + m" and "(a + i) mod m = (a + k) mod m"
  then have "m dvd (a + k) - (a + i)" using mod_eq_dvd_iff_nat [of "a + i" "a + k" m] by simp
  then have "m dvd k - i" by simp
  then have "m \<le> k - i" using \<open>i < k\<close> by (intro dvd_imp_le) auto
  then show False using \<open>i < k\<close> \<open>k < i + m\<close> by simp
qed

subsection \<open>Pushing\<close>

definition sent_frame :: "(u32 \<Rightarrow> s16) \<Rightarrow> u32 \<Rightarrow> nat \<Rightarrow> frame" where
  "sent_frame samples source_frame k = (samples ((source_frame + w32 k) * 2), samples ((source_frame + w32 k) * 2 + 1))"

lemma frame_of_update:
  "length ring = 8192 \<Longrightarrow> j < 4096 \<Longrightarrow> j' < 4096 \<Longrightarrow>
   frame_of (ring[2 * j := x, 2 * j + 1 := y]) j' = (if j' = j then (x, y) else frame_of ring j')"
  by (auto simp: frame_of_def nth_list_update)

lemma submit_copy_spec:
  assumes "a < 4096" "n \<le> 4096" "i \<le> n" "length ring = 8192"
  shows "length (submit_copy samples f (w32 a) (w32 i) (w32 n) ring) = 8192 \<and>
    (\<forall>k. i \<le> k \<and> k < n \<longrightarrow> frame_of (submit_copy samples f (w32 a) (w32 i) (w32 n) ring) ((a + k) mod 4096) = sent_frame samples f k) \<and>
    (\<forall>j < 4096. (\<forall>k. i \<le> k \<and> k < n \<longrightarrow> j \<noteq> (a + k) mod 4096) \<longrightarrow>
      frame_of (submit_copy samples f (w32 a) (w32 i) (w32 n) ring) j = frame_of ring j)"
  using assms(3,4)
proof (induction "n - i" arbitrary: i ring)
  case 0
  then show ?case by (subst (1 2 3) submit_copy.simps) auto
next
  case (Suc d)
  then have i: "i < n" by simp
  then have lt: "w32 i < w32 n" using assms(2) by (simp add: w32_less_iff)
  let ?j = "(a + i) mod 4096"
  let ?ring = "ring[2 * ?j := samples ((f + w32 i) * 2), 2 * ?j + 1 := samples ((f + w32 i) * 2 + 1)]"
  have step: "submit_copy samples f (w32 a) (w32 i) (w32 n) ring = submit_copy samples f (w32 a) (w32 (Suc i)) (w32 n) ?ring"
    using lt ring_position [of a i] assms i by (subst submit_copy.simps) (simp add: Let_def w32_add_one)
  have inj: "(a + i) mod 4096 \<noteq> (a + k) mod 4096" if "Suc i \<le> k" "k < n" for k
    by (rule ring_distinct) (use that assms(2) in auto)
  have fr: "frame_of ?ring j' = (if j' = ?j then sent_frame samples f i else frame_of ring j')" if "j' < 4096" for j'
    using frame_of_update [OF Suc.prems(2) _ that, of ?j] by (simp add: sent_frame_def)
  have ih: "length (submit_copy samples f (w32 a) (w32 (Suc i)) (w32 n) ?ring) = 8192 \<and>
    (\<forall>k. Suc i \<le> k \<and> k < n \<longrightarrow> frame_of (submit_copy samples f (w32 a) (w32 (Suc i)) (w32 n) ?ring) ((a + k) mod 4096) = sent_frame samples f k) \<and>
    (\<forall>j < 4096. (\<forall>k. Suc i \<le> k \<and> k < n \<longrightarrow> j \<noteq> (a + k) mod 4096) \<longrightarrow>
      frame_of (submit_copy samples f (w32 a) (w32 (Suc i)) (w32 n) ?ring) j = frame_of ?ring j)"
    by (rule Suc.hyps(1)) (use Suc i in auto)
  show ?case
    unfolding step
  proof (intro conjI allI impI, goal_cases)
    case 1
    then show ?case using ih by blast
  next
    case (2 k)
    then show ?case using ih inj fr [of ?j] by (cases "k = i") auto
  next
    case (3 j)
    then have "j \<noteq> ?j" using i by auto
    then show ?case using ih 3 fr by auto
  qed
qed


definition sent :: "(u32 \<Rightarrow> s16) \<Rightarrow> u32 \<Rightarrow> nat \<Rightarrow> frame list" where
  "sent samples source_frame n = map (sent_frame samples source_frame) [0..<n]"

lemma length_sent [simp]: "length (sent samples f n) = n"
  by (simp add: sent_def)

lemma submit_section_full:
  "unat (g_queue_limit_frames st) \<le> unat (g_queued_frames st) \<Longrightarrow>
   submit_section samples frames f st = (None, st\<lparr>g_overruns := g_overruns st + 1\<rparr>)"
  by (simp add: submit_section_def word_le_nat_alt)

lemma submit_section_space:
  assumes ok: "ring_ok st" and space: "unat (g_queued_frames st) < unat (g_queue_limit_frames st)"
    and f: "f < frames"
    and n: "n = min (unat frames - unat f) (unat (g_queue_limit_frames st) - unat (g_queued_frames st))"
  shows "\<exists>st'. submit_section samples frames f st = (Some (f + w32 n), st') \<and> ring_ok st' \<and>
    queue st' = queue st @ sent samples f n \<and>
    st' = st\<lparr>g_ring := g_ring st', g_write_frame := g_write_frame st', g_queued_frames := g_queued_frames st'\<rparr>"
proof -
  let ?q = "unat (g_queued_frames st)" and ?r = "unat (g_read_frame st)" and ?a = "unat (g_write_frame st)"
  note ok' = ok [unfolded ring_ok_def]
  have n4: "n \<le> 4096" "?q + n \<le> 4096" using ok' n space by auto
  have a: "?a < 4096" using ok' by simp
  have fr: "unat (frames - f) = unat frames - unat f" using f by (simp add: unat_sub)
  have sp: "unat (g_queue_limit_frames st - g_queued_frames st) = unat (g_queue_limit_frames st) - ?q"
    using space by (simp add: unat_sub word_le_nat_alt)
  have count: "(if g_queue_limit_frames st - g_queued_frames st < frames - f
      then g_queue_limit_frames st - g_queued_frames st else frames - f) = w32 n"
    unfolding n using fr [symmetric] sp [symmetric] by (simp add: word_less_nat_alt min_def)
  let ?ring = "submit_copy samples f (g_write_frame st) 0 (w32 n) (g_ring st)"
  let ?st = "st\<lparr>g_ring := ?ring, g_write_frame := (g_write_frame st + w32 n) mod EF2AUDIO_RING_FRAMES,
      g_queued_frames := g_queued_frames st + w32 n\<rparr>"
  have "g_queue_limit_frames st - g_queued_frames st \<noteq> 0" "\<not> g_queue_limit_frames st \<le> g_queued_frames st"
    using space by (auto simp: word_le_nat_alt)
  then have sec: "submit_section samples frames f st = (Some (f + w32 n), ?st)"
    unfolding submit_section_def Let_def by (simp add: count if_not_P split del: if_split cong: if_cong)
  have copy: "length ?ring = 8192"
    "\<And>k. k < n \<Longrightarrow> frame_of ?ring ((?a + k) mod 4096) = sent_frame samples f k"
    "\<And>j. j < 4096 \<Longrightarrow> (\<And>k. k < n \<Longrightarrow> j \<noteq> (?a + k) mod 4096) \<Longrightarrow> frame_of ?ring j = frame_of (g_ring st) j"
    using submit_copy_spec [OF a n4(1) le0, of "g_ring st" samples f, unfolded w32_unat w32_0] ok' by blast+
  have q': "unat (g_queued_frames st + w32 n) = ?q + n"
    using n4 w32_add [of ?q n] by (simp add: unat_w32)
  have w': "unat ((g_write_frame st + w32 n) mod EF2AUDIO_RING_FRAMES) = (?a + n) mod 4096"
    using n4 a w32_add [of ?a n] by (simp add: unat_mod unat_w32)
  have ok2: "ring_ok ?st"
    using ok' copy(1) q' n4 w' by (simp add: ring_ok_def mod_simps add.assoc)
  have "queue ?st ! i = (queue st @ sent samples f n) ! i" if i: "i < ?q + n" for i
  proof (cases "i < ?q")
    case True
    have "(?r + i) mod 4096 \<noteq> (?a + k) mod 4096" if "k < n" for k
    proof -
      have "(?r + i) mod 4096 \<noteq> (?r + ?q + k) mod 4096"
        using ring_distinct [of i "?q + k" 4096 ?r] True that n4 by (simp add: add.assoc)
      then show ?thesis using ok' by (simp add: mod_simps)
    qed
    then show ?thesis using True i q' copy(3) by (simp add: nth_queue nth_append)
  next
    case False
    then obtain k where k: "i = ?q + k" "k < n" using i by (metis add_less_cancel_left le_Suc_ex not_less)
    then have "(?r + i) mod 4096 = (?a + k) mod 4096" using ok' by (simp add: mod_simps add.assoc)
    then show ?thesis using k q' copy(2) by (simp add: nth_queue nth_append sent_def)
  qed
  then have "queue ?st = queue st @ sent samples f n" by (intro nth_equalityI) (simp_all add: q')
  then show ?thesis using sec ok2 by (intro exI [of _ ?st]) simp
qed

subsection \<open>Popping\<close>

lemma render_loop_spec:
  assumes "ring_ok st" "n \<le> 512" "i \<le> 512"
  shows "\<exists>ls rs. render_loop (w32 i) (w32 n) st = st\<lparr>g_render_left := ls, g_render_right := rs\<rparr> \<and>
    length ls = 512 \<and> length rs = 512 \<and>
    (\<forall>k < i. ls ! k = g_render_left st ! k \<and> rs ! k = g_render_right st ! k) \<and>
    (\<forall>k. i \<le> k \<and> k < 512 \<longrightarrow> (ls ! k, rs ! k) =
      (if k < n then frame_of (g_ring st) ((unat (g_read_frame st) + k) mod 4096) else (0, 0)))"
  using assms(1,3)
proof (induction "512 - i" arbitrary: i st)
  case 0
  then show ?case
    by (subst render_loop.simps) (rule exI [of _ "g_render_left st"], rule exI [of _ "g_render_right st"], auto simp: ring_ok_def)
next
  case (Suc d)
  then have i: "i < 512" by simp
  note ok = Suc.prems(1) [unfolded ring_ok_def]
  let ?r = "unat (g_read_frame st)"
  let ?f = "if i < n then frame_of (g_ring st) ((?r + i) mod 4096) else (0, 0)"
  obtain l0 r0 where f: "?f = (l0, r0)" by (rule prod.exhaust)
  then have f': "l0 = (if i < n then g_ring st ! (2 * ((?r + i) mod 4096)) else 0)"
    "r0 = (if i < n then g_ring st ! Suc (2 * ((?r + i) mod 4096)) else 0)"
    by (auto simp: frame_of_def split: if_splits)
  let ?st = "st\<lparr>g_render_left := (g_render_left st)[i := l0], g_render_right := (g_render_right st)[i := r0]\<rparr>"
  have lt: "w32 i < w32 512" "w32 i < w32 n \<longleftrightarrow> i < n" using i assms(2) by (simp_all add: w32_less_iff)
  have step: "render_loop (w32 i) (w32 n) st = render_loop (w32 (Suc i)) (w32 n) ?st"
    using lt i ring_position [of ?r i] ok f'
    by (subst render_loop.simps) (simp add: Let_def w32_add_one unat_w32)
  have ok': "ring_ok ?st" using Suc.prems(1) by (simp add: ring_ok_def)
  have d: "d = 512 - Suc i" "Suc i \<le> 512" using Suc.hyps(2) i by auto
  obtain ls rs where ih: "render_loop (w32 (Suc i)) (w32 n) ?st = ?st\<lparr>g_render_left := ls, g_render_right := rs\<rparr>"
    "length ls = 512" "length rs = 512"
    "\<forall>k < Suc i. ls ! k = g_render_left ?st ! k \<and> rs ! k = g_render_right ?st ! k"
    "\<forall>k. Suc i \<le> k \<and> k < 512 \<longrightarrow> (ls ! k, rs ! k) =
      (if k < n then frame_of (g_ring st) ((?r + k) mod 4096) else (0, 0))"
    using Suc.hyps(1) [OF d(1) ok' d(2)] by (simp cong: if_cong split del: if_split) blast
  show ?case
  proof (rule exI [of _ ls], rule exI [of _ rs], intro conjI allI impI, goal_cases)
    case (6 k)
    then show ?case using ih(4) ih(5) f ok i by (cases "k = i") (auto split: if_splits)
  next
    case (4 k)
    then show ?case using ih(4) ok i by auto
  next
    case (5 k)
    then show ?case using ih(4) ok i by auto
  qed (use ih step in simp_all)
qed


lemma render_section_spec:
  assumes ok: "ring_ok st" and n: "n = (if g_paused st then 0 else min 512 (unat (g_queued_frames st)))"
  shows "\<exists>st'. render_section st = (w32 n, st') \<and> ring_ok st' \<and> queue st' = drop n (queue st) \<and>
    (\<forall>k < 512. (g_render_left st' ! k, g_render_right st' ! k) = (if k < n then queue st ! k else (0, 0))) \<and>
    st' = st\<lparr>g_render_left := g_render_left st', g_render_right := g_render_right st',
      g_read_frame := g_read_frame st', g_queued_frames := g_queued_frames st', g_underruns := g_underruns st'\<rparr>"
proof -
  let ?q = "unat (g_queued_frames st)" and ?r = "unat (g_read_frame st)"
  note ok' = ok [unfolded ring_ok_def]
  have n512: "n \<le> 512" "n \<le> ?q" using n by auto
  have count: "(if g_paused st then 0 else if w32 512 < g_queued_frames st then w32 512 else g_queued_frames st) = w32 n"
    unfolding n using ok' by (simp add: word_less_nat_alt unat_w32 min_def)
  obtain ls rs where rl: "render_loop 0 (w32 n) st = st\<lparr>g_render_left := ls, g_render_right := rs\<rparr>"
    "length ls = 512" "length rs = 512"
    "\<And>k. k < 512 \<Longrightarrow> (ls ! k, rs ! k) = (if k < n then frame_of (g_ring st) ((?r + k) mod 4096) else (0, 0))"
    using render_loop_spec [OF ok n512(1), of 0] by auto
  let ?u = "if \<not> g_paused st \<and> w32 n < w32 512 then g_underruns st + 1 else g_underruns st"
  let ?st = "st\<lparr>g_render_left := ls, g_render_right := rs, g_read_frame := (g_read_frame st + w32 n) mod w32 4096,
    g_queued_frames := g_queued_frames st - w32 n, g_underruns := ?u\<rparr>"
  have "(g_read_frame st) mod w32 4096 = g_read_frame st"
    using ok' by (simp add: word_unat_eq_iff unat_mod unat_w32)
  then have sec: "render_section st = (w32 n, ?st)"
    unfolding render_section_def ring_frames_word count rl(1) Let_def using n512
    by (cases "n = 0") (simp_all add: w32_eq_0_iff)
  have r': "unat ((g_read_frame st + w32 n) mod w32 4096) = (?r + n) mod 4096"
    using ok' n512 w32_add [of ?r n] by (simp add: unat_mod unat_w32)
  have q': "unat (g_queued_frames st - w32 n) = ?q - n"
    using n512 w32_diff [of n ?q] less_imp_diff_less [OF unat_less_32] by (simp add: unat_w32)
  obtain d where d: "?q = n + d" using n512 by (metis le_Suc_ex)
  have "((?r + n) mod 4096 + (?q - n)) mod 4096 = (?r + ?q) mod 4096"
    by (simp add: d mod_simps add.assoc)
  then have ok2: "ring_ok ?st"
    using ok' rl(2,3) r' q' le_trans [OF diff_le_self, of ?q 4096 n] by (simp add: ring_ok_def del: Nat.add_diff_assoc)
  have qu: "queue ?st = drop n (queue st)"
  proof (rule nth_equalityI)
    show "queue ?st ! i = drop n (queue st) ! i" if "i < length (queue ?st)" for i
      using that q' r' by (simp add: nth_queue mod_simps ac_simps)
  qed (simp add: q')
  have "(ls ! k, rs ! k) = (if k < n then queue st ! k else (0, 0))" if "k < 512" for k
    using rl(4) [OF that] n512 by (simp add: nth_queue)
  then show ?thesis using sec ok2 qu by (intro exI [of _ ?st]) simp
qed

section \<open>The module provides the queue\<close>

definition ring_push :: "'w audio \<Rightarrow> frame list \<Rightarrow> 'w audio \<Rightarrow> bool" where
  "ring_push st xs st' \<longleftrightarrow>
    (\<exists>samples frames f f'. f < frames \<and> submit_section samples frames f st = (Some f', st') \<and>
      xs = sent samples f (unat f' - unat f))"

definition rendered :: "'w audio \<Rightarrow> frame list" where
  "rendered st = zip (g_render_left st) (g_render_right st)"

definition ring_pop :: "'w iop_kernel \<Rightarrow> 'w audio \<Rightarrow> frame list \<Rightarrow> 'w audio \<Rightarrow> bool" where
  "ring_pop ker st xs st' \<longleftrightarrow> st' = fill_render_block ker st \<and>
    xs = take (unat (g_queued_frames st) - unat (g_queued_frames st')) (rendered st')"

definition ring_clear :: "'w iop_kernel \<Rightarrow> 'w audio \<Rightarrow> 'w audio \<Rightarrow> bool" where
  "ring_clear ker st st' \<longleftrightarrow> st' = snd (audio_flush ker st)"

definition ring_adjust :: "'w iop_kernel \<Rightarrow> 'w bus \<Rightarrow> 'w audio \<Rightarrow> 'w audio \<Rightarrow> bool" where
  "ring_adjust ker bus st st' \<longleftrightarrow>
    st' = snd (audio_pause bus st) \<or> st' = snd (audio_resume bus st) \<or> st' = snd (audio_stop bus st) \<or>
    (\<exists>a. st' = snd (audio_start ker bus a st)) \<or> (\<exists>v. st' = snd (audio_set_volume bus v st)) \<or>
    (\<exists>ms. st' = snd (audio_set_latency_ms ker ms st)) \<or> (\<exists>r. st' = fill_reply r st) \<or>
    (\<exists>b. st' = copy_render_to_spu (push_bit 11 (b AND 1)) st) \<or> (\<exists>f. st' = on_dev f st) \<or>
    (\<exists>call. st' = st\<lparr>g_spu2 := snd (ef2_spu2_dma_interrupt bus call (g_spu2 st))\<rparr>) \<or>
    (\<exists>samples frames f. submit_section samples frames f st = (None, st'))"

lemma fill_render_block_spec:
  assumes ok: "ring_ok st" and n: "n = (if g_paused st then 0 else min 512 (unat (g_queued_frames st)))"
  shows "ring_ok (fill_render_block ker st)" "queue (fill_render_block ker st) = drop n (queue st)"
    "\<And>k. k < 512 \<Longrightarrow> (g_render_left (fill_render_block ker st) ! k, g_render_right (fill_render_block ker st) ! k) =
      (if k < n then queue st ! k else (0, 0))"
    "g_queue_limit_frames (fill_render_block ker st) = g_queue_limit_frames st"
    "g_paused (fill_render_block ker st) = g_paused st"
    "g_spu_buffer (fill_render_block ker st) = g_spu_buffer st"
    "g_active_block (g_spu2 (fill_render_block ker st)) = g_active_block (g_spu2 st)"
proof -
  let ?st1 = "on_dev (WaitSema ker (g_ring_mutex st)) st"
  have ok1: "ring_ok ?st1" and q1: "queue ?st1 = queue st" using ok by simp_all
  have n': "n = (if g_paused ?st1 then 0 else min 512 (unat (g_queued_frames ?st1)))" using n by simp
  obtain st2 where st2: "render_section ?st1 = (w32 n, st2)" "ring_ok st2" "queue st2 = drop n (queue st)"
    "\<forall>k < 512. (g_render_left st2 ! k, g_render_right st2 ! k) = (if k < n then queue st ! k else (0, 0))"
    "st2 = ?st1\<lparr>g_render_left := g_render_left st2, g_render_right := g_render_right st2,
      g_read_frame := g_read_frame st2, g_queued_frames := g_queued_frames st2, g_underruns := g_underruns st2\<rparr>"
    using render_section_spec [OF ok1 n'] unfolding q1 by blast
  let ?st3 = "on_dev (SignalSema ker (g_ring_mutex st2)) st2"
  have fr: "fill_render_block ker st = (if w32 n \<noteq> 0 then on_dev (SignalSema ker (g_space_sema ?st3)) ?st3 else ?st3)"
    unfolding fill_render_block_def Let_def st2(1) by simp
  have same: "same_ring st2 (fill_render_block ker st)" unfolding fr by (simp add: same_ring_def)
  show "ring_ok (fill_render_block ker st)" "queue (fill_render_block ker st) = drop n (queue st)"
    using st2(2,3) by (simp_all add: same_ring_facts [OF same])
  have keep: "g_render_left (fill_render_block ker st) = g_render_left st2"
    "g_render_right (fill_render_block ker st) = g_render_right st2"
    unfolding fr by auto
  show "(g_render_left (fill_render_block ker st) ! k, g_render_right (fill_render_block ker st) ! k) =
      (if k < n then queue st ! k else (0, 0))" if "k < 512" for k
    unfolding keep using st2(4) that by blast
  have "g_queue_limit_frames st2 = g_queue_limit_frames st" "g_paused st2 = g_paused st"
    "g_spu_buffer st2 = g_spu_buffer st" "g_active_block (g_spu2 st2) = g_active_block (g_spu2 st)"
    by (subst st2(5), simp)+
  then show "g_queue_limit_frames (fill_render_block ker st) = g_queue_limit_frames st"
    "g_paused (fill_render_block ker st) = g_paused st" "g_spu_buffer (fill_render_block ker st) = g_spu_buffer st"
    "g_active_block (g_spu2 (fill_render_block ker st)) = g_active_block (g_spu2 st)"
    unfolding fr by auto
qed

lemma ring_pop_spec: "ring_ok st \<Longrightarrow> ring_pop ker st xs st' \<Longrightarrow> ring_ok st' \<and> queue st = xs @ queue st'"
proof -
  assume ok: "ring_ok st" and pop: "ring_pop ker st xs st'"
  define n where "n = (if g_paused st then 0 else min 512 (unat (g_queued_frames st)))"
  have st': "st' = fill_render_block ker st" using pop by (simp add: ring_pop_def)
  note spec = fill_render_block_spec [OF ok n_def, where ker = ker, folded st']
  have n: "n \<le> length (queue st)" "n \<le> 512" by (auto simp: n_def)
  have "unat (g_queued_frames st') = unat (g_queued_frames st) - n"
    using arg_cong [OF spec(2), of length] by simp
  then have "unat (g_queued_frames st) - unat (g_queued_frames st') = n" using n by simp
  then have xs: "xs = take n (rendered st')" using pop by (simp add: ring_pop_def)
  have len: "length (rendered st') = 512" using spec(1) by (simp add: rendered_def ring_ok_def)
  have "take n (rendered st') = take n (queue st)"
  proof (rule nth_equalityI)
    show "take n (rendered st') ! k = take n (queue st) ! k" if "k < length (take n (rendered st'))" for k
      using that spec(3) [of k] n len spec(1) by (simp add: rendered_def ring_ok_def)
  qed (use n len in simp)
  then show ?thesis using spec(1,2) xs by simp
qed

lemma ring_push_spec: "ring_ok st \<Longrightarrow> ring_push st xs st' \<Longrightarrow> ring_ok st' \<and> queue st' = queue st @ xs"
proof -
  assume ok: "ring_ok st" and push: "ring_push st xs st'"
  then obtain samples frames f f' where p: "f < frames" "submit_section samples frames f st = (Some f', st')"
    "xs = sent samples f (unat f' - unat f)" unfolding ring_push_def by blast
  have space: "unat (g_queued_frames st) < unat (g_queue_limit_frames st)"
    using p(2) submit_section_full [of st samples frames f] by (force simp: not_less)
  define n where "n = min (unat frames - unat f) (unat (g_queue_limit_frames st) - unat (g_queued_frames st))"
  have spec: "f' = f + w32 n" "ring_ok st'" "queue st' = queue st @ sent samples f n"
    using submit_section_space [OF ok space p(1) n_def, of samples] p(2) by auto
  have "n \<le> unat frames - unat f" by (simp add: n_def)
  then have "unat f + n < 4294967296"
    using unat_less_32 [of frames] p(1) unfolding word_less_nat_alt by linarith
  then have "unat f' = unat f + n" using w32_add [of "unat f" n] by (simp add: spec(1) unat_w32)
  then show ?thesis using spec(2,3) p(3) by simp
qed

lemma copy_render_loop_spec:
  assumes "length (g_spu_buffer st) = 2048" "base + 1024 \<le> 2048" "i \<le> 256"
  shows "\<exists>b. copy_render_loop (w32 i) base st = st\<lparr>g_spu_buffer := b\<rparr> \<and> length b = 2048 \<and>
    (\<forall>j < 2048. (j < base \<or> base + 1024 \<le> j) \<longrightarrow> b ! j = g_spu_buffer st ! j) \<and>
    (\<forall>k < 256. if i \<le> k then
        b ! (base + k) = g_render_left st ! k \<and> b ! (base + 256 + k) = g_render_right st ! k \<and>
        b ! (base + 512 + k) = g_render_left st ! (k + 256) \<and> b ! (base + 768 + k) = g_render_right st ! (k + 256)
      else b ! (base + k) = g_spu_buffer st ! (base + k) \<and> b ! (base + 256 + k) = g_spu_buffer st ! (base + 256 + k) \<and>
        b ! (base + 512 + k) = g_spu_buffer st ! (base + 512 + k) \<and> b ! (base + 768 + k) = g_spu_buffer st ! (base + 768 + k))"
  using assms(1,3)
proof (induction "256 - i" arbitrary: i st)
  case 0
  then show ?case by (subst copy_render_loop.simps) (rule exI [of _ "g_spu_buffer st"], simp add: w32_numeral)
next
  case (Suc d)
  then have i: "i < 256" by simp
  have lt: "w32 i < 256" using i w32_less_iff [of i 256] by (simp add: w32_numeral)
  have u: "unat (w32 i) = i" "unat (w32 i + 256) = i + 256"
    using i by (simp_all add: unat_w32 w32_add_numeral)
  let ?b = "(g_spu_buffer st)[base + i := g_render_left st ! i, base + 256 + i := g_render_right st ! i,
    base + 512 + i := g_render_left st ! (i + 256), base + 768 + i := g_render_right st ! (i + 256)]"
  let ?st = "st\<lparr>g_spu_buffer := ?b\<rparr>"
  have step: "copy_render_loop (w32 i) base st = copy_render_loop (w32 (Suc i)) base ?st"
    using lt u by (subst copy_render_loop.simps) (simp add: Let_def w32_add_one)
  have d: "d = 256 - Suc i" "Suc i \<le> 256" "length (g_spu_buffer ?st) = 2048" using Suc i by auto
  obtain b where ih: "copy_render_loop (w32 (Suc i)) base ?st = ?st\<lparr>g_spu_buffer := b\<rparr>" "length b = 2048"
    "\<forall>j < 2048. (j < base \<or> base + 1024 \<le> j) \<longrightarrow> b ! j = ?b ! j"
    "\<forall>k < 256. if Suc i \<le> k then
        b ! (base + k) = g_render_left st ! k \<and> b ! (base + 256 + k) = g_render_right st ! k \<and>
        b ! (base + 512 + k) = g_render_left st ! (k + 256) \<and> b ! (base + 768 + k) = g_render_right st ! (k + 256)
      else b ! (base + k) = ?b ! (base + k) \<and> b ! (base + 256 + k) = ?b ! (base + 256 + k) \<and>
        b ! (base + 512 + k) = ?b ! (base + 512 + k) \<and> b ! (base + 768 + k) = ?b ! (base + 768 + k)"
    using Suc.hyps(1) [OF d(1,3,2)] by (simp cong: if_cong split del: if_split) blast
  show ?case
  proof (rule exI [of _ b], intro conjI allI impI, goal_cases)
    case (3 j)
    then show ?case using ih(3) i by auto
  next
    case (4 k)
    show ?case
    proof (cases k i rule: linorder_cases)
      case less
      then show ?thesis using 4 i ih(4) assms(2) by (simp add: nth_list_update)
    next
      case equal
      then show ?thesis using 4 i ih(4) assms(2) Suc.prems(1) by (simp add: nth_list_update)
    next
      case greater
      then show ?thesis using 4 i ih(4) by simp
    qed
  qed (use ih step in simp_all)
qed

end
