(* ===== verification/AudioThreads.thy ===== *)
theory AudioThreads
  imports AudioRing
begin

text \<open>
  The threads of the IOP audio module together: the module provides the queue of \<open>SharedQueue\<close>, its
  interleavings as a step relation, submission as a loop that ends when blocks are rendered and cannot
  end when none is, and a round of the play thread.
\<close>

lemma update_volume_ring [simp]:
  "ring_ok (update_volume bus st) = ring_ok st" "queue (update_volume bus st) = queue st"
  by (simp_all add: update_volume_def ring_ok_def queue_def Let_def)

lemma ring_ok_frame:
  "ring_ok (st\<lparr>g_spu2 := spu\<rparr>) = ring_ok st" "queue (st\<lparr>g_spu2 := spu\<rparr>) = queue st"
  "ring_ok (st\<lparr>g_paused := p\<rparr>) = ring_ok st" "queue (st\<lparr>g_paused := p\<rparr>) = queue st"
  "ring_ok (st\<lparr>g_started := p\<rparr>) = ring_ok st" "queue (st\<lparr>g_started := p\<rparr>) = queue st"
  "ring_ok (st\<lparr>g_volume := v\<rparr>) = ring_ok st" "queue (st\<lparr>g_volume := v\<rparr>) = queue st"
  "ring_ok (st\<lparr>g_overruns := v\<rparr>) = ring_ok st" "queue (st\<lparr>g_overruns := v\<rparr>) = queue st"
  "ring_ok (st\<lparr>g_rpc_reply := r\<rparr>) = ring_ok st" "queue (st\<lparr>g_rpc_reply := r\<rparr>) = queue st"
  "queue (st\<lparr>g_spu_buffer := b\<rparr>) = queue st" "queue (st\<lparr>g_queue_limit_frames := l\<rparr>) = queue st"
  "ring_ok st \<Longrightarrow> length b = 2048 \<Longrightarrow> ring_ok (st\<lparr>g_spu_buffer := b\<rparr>)"
  "ring_ok st \<Longrightarrow> unat l \<le> 4096 \<Longrightarrow> ring_ok (st\<lparr>g_queue_limit_frames := l\<rparr>)"
  by (simp_all add: ring_ok_def queue_def)

text \<open>The queue limit that a latency in milliseconds sets: whole blocks, at least one, at most the ring.\<close>

lemma latency_frames:
  assumes "0 < ms" "ms \<le> 1000"
  shows "g_queue_limit_frames (snd (audio_set_latency_ms ker (w32 ms) st)) = w32 (min 4096 ((ms * 48 + 511) div 512 * 512))"
    "fst (audio_set_latency_ms ker (w32 ms) st) = 0"
proof -
  let ?n = "(ms * 48 + 511) div 512 * 512"
  have b: "ms * 48 + 511 \<le> 48511" using assms(2) by simp
  then have n: "?n \<le> 48511" by (metis div_times_less_eq_dividend le_trans)
  have n512: "512 \<le> ?n" using assms(1) by (simp add: div_greater_zero_iff Suc_le_eq)
  have ok: "\<not> (w32 ms = 0 \<or> w32 ms > 1000)"
    using assms w32_less_iff [of 1000 ms] by (simp add: w32_eq_0_iff w32_numeral)
  have "w32 ms * 48 + w32 512 - 1 = w32 (ms * 48 + 511)" by (simp add: w32_def)
  moreover have "w32 (ms * 48 + 511) div w32 512 = w32 ((ms * 48 + 511) div 512)"
    using b by (simp add: word_unat_eq_iff unat_div unat_w32)
  moreover have "w32 ((ms * 48 + 511) div 512) * w32 512 = w32 ?n" by (simp add: w32_def)
  ultimately have f: "(w32 ms * 48 + w32 512 - 1) div w32 512 * w32 512 = w32 ?n" by simp
  have lo: "\<not> w32 ?n < w32 512" using n n512 w32_less_iff [of ?n 512] by linarith
  have hi: "w32 ?n > w32 4096 \<longleftrightarrow> ?n > 4096" using n by (intro w32_less_iff) auto
  have frames: "g_queue_limit_frames (snd (audio_set_latency_ms ker (w32 ms) st)) =
      (if w32 ?n > w32 4096 then w32 4096 else w32 ?n) \<and> fst (audio_set_latency_ms ker (w32 ms) st) = 0"
    unfolding audio_set_latency_ms_def ring_frames_word Let_def f if_not_P [OF lo] if_not_P [OF ok] by simp
  then show "g_queue_limit_frames (snd (audio_set_latency_ms ker (w32 ms) st)) = w32 (min 4096 ?n)"
    unfolding hi by (simp add: min_def not_less)
  show "fst (audio_set_latency_ms ker (w32 ms) st) = 0" using frames by simp
qed

lemma latency_rejected: "ms = 0 \<or> 1000 < ms \<Longrightarrow> audio_set_latency_ms ker ms st = (-1, st)"
  by (simp add: audio_set_latency_ms_def)

lemma latency_ring:
  "ring_ok st \<Longrightarrow> ring_ok (snd (audio_set_latency_ms ker ms st)) \<and> queue (snd (audio_set_latency_ms ker ms st)) = queue st"
proof -
  assume ok: "ring_ok st"
  show ?thesis
  proof (cases "ms = 0 \<or> 1000 < ms")
    case True
    then show ?thesis using ok by (simp add: latency_rejected)
  next
    case False
    then have u: "0 < unat ms" "unat ms \<le> 1000" by (auto simp: unat_gt_0 word_less_nat_alt not_less)
    have "unat (g_queue_limit_frames (snd (audio_set_latency_ms ker ms st))) \<le> 4096"
      using latency_frames(1) [OF u, of ker st] by (simp add: unat_w32)
    moreover have "\<exists>f l. snd (audio_set_latency_ms ker ms st) = on_dev f (st\<lparr>g_queue_limit_frames := l\<rparr>)"
      using False by (auto simp: audio_set_latency_ms_def Let_def)
    ultimately show ?thesis using ok by (auto simp: ring_ok_frame)
  qed
qed

lemma idle_base: "unat (push_bit 11 (b AND 1 :: u32)) div 2 = (if b AND 1 = 0 then 0 else 1024)"
  by (cases "odd b") (simp_all add: and_one_eq odd_iff_mod_2_eq_one)

lemma copy_render_ring:
  assumes "ring_ok st"
  shows "ring_ok (copy_render_to_spu (push_bit 11 (b AND 1)) st)" "queue (copy_render_to_spu (push_bit 11 (b AND 1)) st) = queue st"
proof -
  let ?base = "unat (push_bit 11 (b AND 1)) div 2"
  have "length (g_spu_buffer st) = 2048" "?base + 1024 \<le> 2048"
    using assms unfolding idle_base by (simp_all add: ring_ok_def)
  then obtain buf where "copy_render_loop (w32 0) ?base st = st\<lparr>g_spu_buffer := buf\<rparr>" "length buf = 2048"
    using copy_render_loop_spec [of st ?base 0] by auto
  then show "ring_ok (copy_render_to_spu (push_bit 11 (b AND 1)) st)" "queue (copy_render_to_spu (push_bit 11 (b AND 1)) st) = queue st"
    using assms by (simp_all add: copy_render_to_spu_def ring_ok_frame)
qed

lemma ring_adjust_spec: "ring_ok st \<Longrightarrow> ring_adjust ker bus st st' \<Longrightarrow> ring_ok st' \<and> queue st' = queue st"
proof -
  assume ok: "ring_ok st" and "ring_adjust ker bus st st'"
  then consider "st' = snd (audio_pause bus st) \<or> st' = snd (audio_resume bus st) \<or> st' = snd (audio_stop bus st)"
    | a where "st' = snd (audio_start ker bus a st)" | v where "st' = snd (audio_set_volume bus v st)"
    | ms where "st' = snd (audio_set_latency_ms ker ms st)" | r where "st' = fill_reply r st"
    | b where "st' = copy_render_to_spu (push_bit 11 (b AND 1)) st" | f where "st' = on_dev f st"
    | call where "st' = st\<lparr>g_spu2 := snd (ef2_spu2_dma_interrupt bus call (g_spu2 st))\<rparr>"
    | samples frames f where "submit_section samples frames f st = (None, st')"
    unfolding ring_adjust_def by blast
  then show ?thesis
  proof cases
    case 1
    then show ?thesis using ok
      by (auto simp: audio_pause_def audio_resume_def audio_stop_def ring_ok_frame Let_def split: prod.splits)
  next
    case 2
    then show ?thesis using ok by (auto simp: audio_start_def ring_ok_frame Let_def split: prod.splits)
  next
    case 3
    then show ?thesis using ok by (auto simp: audio_set_volume_def ring_ok_frame)
  next
    case 4
    then show ?thesis using latency_ring [OF ok] by blast
  next
    case 5
    then show ?thesis using ok by (simp add: fill_reply_def ring_ok_frame)
  next
    case 6
    then show ?thesis using copy_render_ring [OF ok] by simp
  next
    case 9
    then have "st' = st\<lparr>g_overruns := g_overruns st + 1\<rparr>"
      by (auto simp: submit_section_def Let_def split: if_splits)
    then show ?thesis using ok by (simp add: ring_ok_frame)
  qed (use ok in \<open>simp_all add: ring_ok_frame\<close>)
qed

lemma ring_clear_spec: "ring_ok st \<Longrightarrow> ring_clear ker st st' \<Longrightarrow> ring_ok st' \<and> queue st' = []"
  by (simp add: ring_clear_def audio_flush_def Let_def) (simp add: flush_section_def ring_ok_def queue_def)

interpretation ring: shared_queue ring_ok queue 4096 ring_push "ring_pop ker" "ring_clear ker" "ring_adjust ker bus"
  for ker :: "'w iop_kernel" and bus :: "'w bus"
proof unfold_locales
  fix st st' :: "'w audio" and xs
  assume ok: "ring_ok st"
  show "length (queue st) \<le> 4096" using ok by (simp add: ring_ok_def)
  show "ring_push st xs st' \<Longrightarrow> ring_ok st' \<and> queue st' = queue st @ xs" using ring_push_spec [OF ok] .
  show "ring_pop ker st xs st' \<Longrightarrow> ring_ok st' \<and> queue st = xs @ queue st'" using ring_pop_spec [OF ok] .
  show "ring_clear ker st st' \<Longrightarrow> ring_ok st' \<and> queue st' = []" using ring_clear_spec [OF ok] .
  show "ring_adjust ker bus st st' \<Longrightarrow> ring_ok st' \<and> queue st' = queue st" using ring_adjust_spec [OF ok] .
qed

section \<open>Interleavings of the threads\<close>

text \<open>
  The steps of the module: rounds of \<open>audio_submit\<close>, the play thread, the RPC controls and the DMA
  interrupt, in any order, with the frames accepted since the last flush and the frames rendered.
\<close>

inductive service_run :: "'w iop_kernel \<Rightarrow> 'w bus \<Rightarrow> 'w audio \<Rightarrow> frame list \<Rightarrow> frame list \<Rightarrow> 'w audio \<Rightarrow> bool"
  for ker bus st0 where
  loaded: "service_run ker bus st0 [] [] st0"
| accepted: "service_run ker bus st0 ins outs st \<Longrightarrow> f < frames \<Longrightarrow>
    submit_section samples frames f st = (Some f', st') \<Longrightarrow>
    service_run ker bus st0 (ins @ sent samples f (unat f' - unat f)) outs st'"
| refused: "service_run ker bus st0 ins outs st \<Longrightarrow> submit_section samples frames f st = (None, st') \<Longrightarrow>
    service_run ker bus st0 ins outs st'"
| render: "service_run ker bus st0 ins outs st \<Longrightarrow> st' = fill_render_block ker st \<Longrightarrow>
    service_run ker bus st0 ins
      (outs @ take (unat (g_queued_frames st) - unat (g_queued_frames st')) (rendered st')) st'"
| copied: "service_run ker bus st0 ins outs st \<Longrightarrow>
    service_run ker bus st0 ins outs (copy_render_to_spu (push_bit 11 (b AND 1)) st)"
| interrupt: "service_run ker bus st0 ins outs st \<Longrightarrow>
    service_run ker bus st0 ins outs (st\<lparr>g_spu2 := snd (ef2_spu2_dma_interrupt bus call (g_spu2 st))\<rparr>)"
| kernel: "service_run ker bus st0 ins outs st \<Longrightarrow> service_run ker bus st0 ins outs (on_dev g st)"
| pause: "service_run ker bus st0 ins outs st \<Longrightarrow> service_run ker bus st0 ins outs (snd (audio_pause bus st))"
| resume: "service_run ker bus st0 ins outs st \<Longrightarrow> service_run ker bus st0 ins outs (snd (audio_resume bus st))"
| start: "service_run ker bus st0 ins outs st \<Longrightarrow> service_run ker bus st0 ins outs (snd (audio_start ker bus a st))"
| stop: "service_run ker bus st0 ins outs st \<Longrightarrow> service_run ker bus st0 ins outs (snd (audio_stop bus st))"
| volume: "service_run ker bus st0 ins outs st \<Longrightarrow> service_run ker bus st0 ins outs (snd (audio_set_volume bus v st))"
| latency: "service_run ker bus st0 ins outs st \<Longrightarrow> service_run ker bus st0 ins outs (snd (audio_set_latency_ms ker ms st))"
| reply: "service_run ker bus st0 ins outs st \<Longrightarrow> service_run ker bus st0 ins outs (fill_reply r st)"
| flush: "service_run ker bus st0 ins outs st \<Longrightarrow> service_run ker bus st0 outs outs (snd (audio_flush ker st))"

lemma ring_adjust_intros:
  "submit_section samples frames f st = (None, st') \<Longrightarrow> ring_adjust ker bus st st'"
  "ring_adjust ker bus st (copy_render_to_spu (push_bit 11 (b AND 1)) st)"
  "ring_adjust ker bus st (st\<lparr>g_spu2 := snd (ef2_spu2_dma_interrupt bus call (g_spu2 st))\<rparr>)"
  "ring_adjust ker bus st (on_dev g st)"
  "ring_adjust ker bus st (snd (audio_pause bus st))" "ring_adjust ker bus st (snd (audio_resume bus st))"
  "ring_adjust ker bus st (snd (audio_start ker bus a st))" "ring_adjust ker bus st (snd (audio_stop bus st))"
  "ring_adjust ker bus st (snd (audio_set_volume bus v st))"
  "ring_adjust ker bus st (snd (audio_set_latency_ms ker ms st))" "ring_adjust ker bus st (fill_reply r st)"
  unfolding ring_adjust_def by blast+

lemma service_run_queue:
  "service_run ker bus st0 ins outs st \<Longrightarrow> ring.run ker bus st0 ins outs st"
proof (induction rule: service_run.induct)
  case loaded
  show ?case by (rule ring.run.start)
next
  case (accepted ins outs st f frames samples f' st')
  then have "ring_push st (sent samples f (unat f' - unat f)) st'" unfolding ring_push_def by blast
  then show ?case by (rule ring.run.pushed [OF accepted.IH])
next
  case (render ins outs st st')
  have "ring_pop ker st (take (unat (g_queued_frames st) - unat (g_queued_frames st')) (rendered st')) st'"
    using render(2) by (simp add: ring_pop_def)
  then show ?case by (rule ring.run.popped [OF render.IH])
next
  case (flush ins outs st)
  show ?case by (rule ring.run.cleared [OF flush.IH]) (simp add: ring_clear_def)
qed (rule ring.run.adjusted, assumption, blast intro: ring_adjust_intros)+


section \<open>Submission ends when frames are played\<close>

lemma sent_append: "sent samples f (n + m) = sent samples f n @ sent samples (f + w32 n) m"
proof -
  have "[0..<n + m] = [0..<n] @ map (\<lambda>k. k + n) [0..<m]"
    using upt_add_eq_append [of 0 n m] map_add_upt [of n m] by (simp add: add.commute)
  then show ?thesis
    by (simp add: sent_def sent_frame_def o_def w32_add [symmetric] ac_simps)
qed

lemma queue_length: "length (queue st) = unat (g_queued_frames st)"
  by simp

lemma submit_loop_returns:
  assumes "ring_ok st" "\<not> g_paused st" "0 < g_queue_limit_frames st" "f \<le> frames"
  shows "\<exists>st'. submit_loop ker (fill_render_block ker) samples frames f st = Some st' \<and> ring_ok st' \<and>
    (\<exists>k. queue st' = drop k (queue st @ sent samples f (unat frames - unat f)))"
  using assms
proof (induction "2 * (unat frames - unat f) + unat (g_queued_frames st)" arbitrary: f st rule: less_induct)
  case less
  let ?left = "unat frames - unat f" and ?st1 = "on_dev (WaitSema ker (g_ring_mutex st)) st"
  have ok1: "ring_ok ?st1" using less.prems(1) by simp
  show ?case
  proof (cases "f < frames")
    case False
    then have "f = frames" using less.prems(4) by simp
    then show ?thesis using less.prems(1) by (subst submit_loop.simps) (auto simp: sent_def intro: exI [of _ 0])
  next
    case lt: True
    show ?thesis
    proof (cases "unat (g_queued_frames st) < unat (g_queue_limit_frames st)")
      case True
      define n where "n = min ?left (unat (g_queue_limit_frames ?st1) - unat (g_queued_frames ?st1))"
      obtain st2 where st2: "submit_section samples frames f ?st1 = (Some (f + w32 n), st2)" "ring_ok st2"
        "queue st2 = queue st @ sent samples f n"
        "st2 = ?st1\<lparr>g_ring := g_ring st2, g_write_frame := g_write_frame st2, g_queued_frames := g_queued_frames st2\<rparr>"
        using submit_section_space [OF ok1 _ lt n_def, of samples] True by auto
      have n: "0 < n" "n \<le> ?left" using lt True by (auto simp: n_def word_less_nat_alt)
      then have "unat f + n \<le> unat frames" using lt by (simp add: word_less_nat_alt)
      then have fn: "unat (f + w32 n) = unat f + n" "f + w32 n \<le> frames"
        using w32_add [of "unat f" n] le_less_trans [OF _ unat_less_32, of "unat f + n" frames]
        by (simp_all add: unat_w32 word_le_nat_alt)
      let ?st3 = "on_dev (SignalSema ker (g_ring_mutex st2)) st2"
      have keep: "g_paused st2 = g_paused st" "g_queue_limit_frames st2 = g_queue_limit_frames st"
        by (subst st2(4), simp)+
      have q: "unat (g_queued_frames st2) = unat (g_queued_frames st) + n"
        using arg_cong [OF st2(3), of length] by simp
      have "unat frames - (unat f + n) + n = ?left" using n by simp
      then have decr: "2 * (unat frames - unat (f + w32 n)) + unat (g_queued_frames ?st3) < 2 * ?left + unat (g_queued_frames st)"
        using n q unfolding fn(1) by simp
      obtain st' k where r: "submit_loop ker (fill_render_block ker) samples frames (f + w32 n) ?st3 = Some st'"
        "ring_ok st'" "queue st' = drop k (queue ?st3 @ sent samples (f + w32 n) (unat frames - unat (f + w32 n)))"
        using less.hyps [OF decr] less.prems st2(2) keep fn n q by auto
      have "?left = n + (unat frames - (unat f + n))" using n by simp
      then have "sent samples f ?left = sent samples f n @ sent samples (f + w32 n) (unat frames - unat (f + w32 n))"
        unfolding fn(1) by (metis sent_append)
      then have "queue st' = drop k (queue st @ sent samples f ?left)"
        using r(3) st2(3) by simp
      then show ?thesis using r(1,2) lt st2(1) by (subst submit_loop.simps) (auto simp: Let_def)
    next
      case False
      let ?st2 = "?st1\<lparr>g_overruns := g_overruns ?st1 + 1\<rparr>"
      let ?st3 = "on_dev (SignalSema ker (g_ring_mutex ?st2)) ?st2"
      let ?st4 = "fill_render_block ker ?st3"
      let ?st5 = "on_dev (WaitSema ker (g_space_sema ?st3)) ?st4"
      have sec: "submit_section samples frames f ?st1 = (None, ?st2)"
        using submit_section_full [of ?st1 samples frames f] False by simp
      have ok3: "ring_ok ?st3" and q3: "queue ?st3 = queue st" using ok1 by (simp_all add: ring_ok_frame)
      define n where "n = (if g_paused ?st3 then 0 else min 512 (unat (g_queued_frames ?st3)))"
      note fill = fill_render_block_spec [OF ok3 n_def, where ker = ker]
      have "0 < unat (g_queue_limit_frames st)" using less.prems(3) by (simp add: unat_gt_0 word_neq_0_conv)
      then have n: "0 < n" "n \<le> unat (g_queued_frames st)" using False less.prems(2) by (auto simp: n_def)
      have q: "unat (g_queued_frames ?st4) = unat (g_queued_frames st) - n"
        using arg_cong [OF fill(2), of length] by (simp only: queue_length length_drop q3)
      have keep: "g_paused ?st5 = g_paused st" "g_queue_limit_frames ?st5 = g_queue_limit_frames st"
        using fill(4,5) by simp_all
      obtain st' k where r: "submit_loop ker (fill_render_block ker) samples frames f ?st5 = Some st'"
        "ring_ok st'" "queue st' = drop k (queue ?st5 @ sent samples f ?left)"
        using less.hyps [of f ?st5] less.prems fill(1) keep n q by auto
      have "queue ?st5 @ sent samples f ?left = drop n (queue st @ sent samples f ?left)"
        using fill(2) q3 n by simp
      then have "queue st' = drop (k + n) (queue st @ sent samples f ?left)"
        using r(3) by (simp only: drop_drop)
      then show ?thesis using r(1,2) lt sec by (subst submit_loop.simps) (auto simp: Let_def)
    qed
  qed
qed

section \<open>The play thread\<close>

lemma odd_unat_iff: "odd (unat (x :: u32)) \<longleftrightarrow> odd x"
proof -
  have "bit (unat x) 0 = bit x 0" by (simp only: bit_unsigned_iff) simp
  then show ?thesis by (simp add: bit_0)
qed

lemma play_round_spec:
  assumes ok: "ring_ok st" and n: "n = (if g_paused st then 0 else min 512 (unat (g_queued_frames st)))"
    and base: "base = 1024 * (1 - unat (g_active_block (g_spu2 st)) mod 2)"
  shows "ring_ok (play_round ker st)" "queue (play_round ker st) = drop n (queue st)"
    "g_paused (play_round ker st) = g_paused st" "g_queue_limit_frames (play_round ker st) = g_queue_limit_frames st"
    "\<forall>j < 2048. (j < base \<or> base + 1024 \<le> j) \<longrightarrow> g_spu_buffer (play_round ker st) ! j = g_spu_buffer st ! j"
    "\<forall>k < 256. (g_spu_buffer (play_round ker st) ! (base + k), g_spu_buffer (play_round ker st) ! (base + 256 + k)) =
        (if k < n then queue st ! k else (0, 0)) \<and>
      (g_spu_buffer (play_round ker st) ! (base + 512 + k), g_spu_buffer (play_round ker st) ! (base + 768 + k)) =
        (if k + 256 < n then queue st ! (k + 256) else (0, 0))"
proof -
  let ?st1 = "on_dev (WaitSema ker (g_transfer_sema st)) st"
  have ok1: "ring_ok ?st1" and n1: "n = (if g_paused ?st1 then 0 else min 512 (unat (g_queued_frames ?st1)))"
    and q1: "queue ?st1 = queue st" using ok n by simp_all
  note fill = fill_render_block_spec [OF ok1 n1, where ker = ker, unfolded q1]
  let ?st2 = "fill_render_block ker ?st1"
  let ?st3 = "on_dev (CpuSuspendIntr ker) ?st2"
  have ok3: "ring_ok ?st3" using fill(1) by simp
  have base': "unat (push_bit 11 (1 - (g_active_block (g_spu2 st) AND 1))) div 2 = base"
    unfolding base using odd_unat_iff [of "g_active_block (g_spu2 st)"]
    by (cases "odd (g_active_block (g_spu2 st))") (simp_all add: and_one_eq odd_iff_mod_2_eq_one)
  have b2048: "base + 1024 \<le> 2048" unfolding base by (simp add: diff_mult_distrib2)
  obtain b where b: "copy_render_loop 0 base ?st3 = ?st3\<lparr>g_spu_buffer := b\<rparr>" "length b = 2048"
    "\<forall>j < 2048. (j < base \<or> base + 1024 \<le> j) \<longrightarrow> b ! j = g_spu_buffer ?st3 ! j"
    "\<forall>k < 256. b ! (base + k) = g_render_left ?st3 ! k \<and> b ! (base + 256 + k) = g_render_right ?st3 ! k \<and>
        b ! (base + 512 + k) = g_render_left ?st3 ! (k + 256) \<and> b ! (base + 768 + k) = g_render_right ?st3 ! (k + 256)"
    using copy_render_loop_spec [OF _ b2048, of ?st3 0] ok3 [unfolded ring_ok_def] by (auto simp del: on_dev_simps)
  have pr: "play_round ker st = on_dev (\<lambda>w. FlushDcache ker (CpuResumeIntr ker w)) (?st3\<lparr>g_spu_buffer := b\<rparr>)"
    unfolding play_round_def Let_def copy_render_to_spu_def b(1) [symmetric] base' [symmetric]
    using fill(7) by (simp add: ef2_spu2_active_block_def)
  show "ring_ok (play_round ker st)" "queue (play_round ker st) = drop n (queue st)"
    "g_paused (play_round ker st) = g_paused st" "g_queue_limit_frames (play_round ker st) = g_queue_limit_frames st"
    unfolding pr using fill(1,2,4,5) b(2) by (simp_all add: ring_ok_frame)
  show "\<forall>j < 2048. (j < base \<or> base + 1024 \<le> j) \<longrightarrow> g_spu_buffer (play_round ker st) ! j = g_spu_buffer st ! j"
    unfolding pr using b(3) fill(6) by simp
  show "\<forall>k < 256. (g_spu_buffer (play_round ker st) ! (base + k), g_spu_buffer (play_round ker st) ! (base + 256 + k)) =
        (if k < n then queue st ! k else (0, 0)) \<and>
      (g_spu_buffer (play_round ker st) ! (base + 512 + k), g_spu_buffer (play_round ker st) ! (base + 768 + k)) =
        (if k + 256 < n then queue st ! (k + 256) else (0, 0))"
  proof (intro allI impI)
    fix k :: nat assume k: "k < 256"
    have "k + 256 < 512" "k < 512" using k by auto
    note fill(3) [OF this(1)] fill(3) [OF this(2)]
    then show "(g_spu_buffer (play_round ker st) ! (base + k), g_spu_buffer (play_round ker st) ! (base + 256 + k)) =
        (if k < n then queue st ! k else (0, 0)) \<and>
      (g_spu_buffer (play_round ker st) ! (base + 512 + k), g_spu_buffer (play_round ker st) ! (base + 768 + k)) =
        (if k + 256 < n then queue st ! (k + 256) else (0, 0))"
      unfolding pr using b(4) k by simp
  qed
qed

lemma submit_loop_stuck:
  fixes ker :: "'a iop_kernel"
  assumes J: "\<And>s. J s \<Longrightarrow> J (others s)" "\<And>s g. J (on_dev g s) = J s" "\<And>s v. J (s\<lparr>g_overruns := v\<rparr>) = J s"
    and full: "\<And>s. J s \<Longrightarrow> unat (g_queue_limit_frames s) \<le> unat (g_queued_frames s)"
    and run: "submit_loop ker others samples frames f st = Some y"
  shows "\<not> (J st \<and> f < frames)"
proof -
  have "others = others \<longrightarrow> \<not> (J st \<and> f < frames)"
  proof (rule submit_loop.raw_induct
      [where P = "\<lambda>ker others' samples frames f st y. others' = others \<longrightarrow> \<not> (J st \<and> f < frames)", OF _ run],
      intro impI notI)
    fix rec and ker :: "'a iop_kernel" and others' samples frames f and st :: "'a audio" and y
    let ?st1 = "on_dev (WaitSema ker (g_ring_mutex st)) st"
    assume ih: "\<And>ker o' samples frames f st y. rec ker o' samples frames f st = Some y \<Longrightarrow> o' = others \<longrightarrow> \<not> (J st \<and> f < frames)"
      and body: "(if f < frames then
         let st1 = on_dev (WaitSema ker (g_ring_mutex st)) st;
             (next_frame, st2) = submit_section samples frames f st1;
             st3 = on_dev (SignalSema ker (g_ring_mutex st2)) st2
         in case next_frame of
              None \<Rightarrow> rec ker others' samples frames f (on_dev (WaitSema ker (g_space_sema st3)) (others' st3))
            | Some f \<Rightarrow> rec ker others' samples frames f st3
       else Some st) = Some y"
      and o: "others' = others" and st: "J st \<and> f < frames"
    have "submit_section samples frames f ?st1 = (None, ?st1\<lparr>g_overruns := g_overruns ?st1 + 1\<rparr>)"
      using submit_section_full [of ?st1 samples frames f] full [of st] st by simp
    then show False
      using body st o J ih by (auto simp: Let_def)
  qed
  then show ?thesis by simp
qed

end
