(* ===== verification/AudioServiceProps.thy ===== *)
theory AudioServiceProps
  imports AudioThreads
begin

text \<open>
  The properties of the IOP audio module, with their witnesses on a concrete service.
\<close>

section \<open>A concrete service\<close>

definition idle_spu :: "unit spu2" where
  "idle_spu = \<lparr>spu2_dev = (), g_active_block = 0, g_running = False, g_buffer_address = 0, g_block_bytes = 0,
    g_callback = 0, g_callback_arg = 0, spu2_initialized = True\<rparr>"

definition idle_service :: "unit audio" where
  "idle_service = (audio_loaded idle_spu)\<lparr>g_initialized := True\<rparr>"

lemma idle_service_ok: "ring_ok idle_service" "queue idle_service = []" "g_initialized idle_service"
  "\<not> g_paused idle_service" "g_queue_limit_frames idle_service = w32 4096" "g_queued_frames idle_service = 0"
  by (simp_all add: idle_service_def audio_loaded_def ring_ok_def queue_def unat_w32)

text \<open>The service with its ring full and playback paused.\<close>

definition paused_service :: "unit audio" where
  "paused_service = idle_service\<lparr>g_queued_frames := w32 4096, g_paused := True\<rparr>"

lemma paused_service_ok: "ring_ok paused_service" "g_paused paused_service" "g_initialized paused_service"
  "g_queue_limit_frames paused_service = w32 4096" "g_queued_frames paused_service = w32 4096"
  using idle_service_ok by (simp_all add: paused_service_def ring_ok_def unat_w32 idle_service_def audio_loaded_def)

section \<open>Properties\<close>

text \<open>
  C15: However the threads of the IOP module interleave (rounds of \<open>audio_submit\<close>, block rendering,
  DMA interrupts, pause, resume, start, stop, volume, latency and flush requests), the frames rendered
  followed by the frames still in the ring are exactly the frames accepted since the last flush, in
  order: none is lost, repeated or reordered; and the ring never holds more than 4096 frames.
\<close>

theorem audio_fifo:
  assumes "service_run ker bus st0 ins outs st" and "ring_ok st0" and "queue st0 = []"
  shows "ins = outs @ queue st \<and> ring_ok st \<and> length ins \<le> length outs + 4096"
  using ring.run_fifo [OF service_run_queue [OF assms(1)] assms(2,3)]
    ring.run_bounded [OF service_run_queue [OF assms(1)] assms(2,3)] by simp

theorem audio_fifo_witness:
  "\<exists>st. service_run quiet_kernel silent_bus idle_service (sent ucast 0 2) [] st \<and>
    sent ucast 0 2 = [] @ queue st \<and> ring_ok st"
proof -
  obtain st where st: "submit_section ucast (w32 2) 0 idle_service = (Some (w32 2), st)"
    using submit_section_space [OF idle_service_ok(1), of 0 "w32 2" 2 ucast] idle_service_ok
    by (auto simp: unat_w32 word_less_nat_alt)
  have "service_run quiet_kernel silent_bus idle_service ([] @ sent ucast 0 (unat (w32 2) - unat (0 :: u32))) [] st"
    by (rule service_run.accepted [OF service_run.loaded _ st]) (simp add: word_less_nat_alt unat_w32)
  then have run: "service_run quiet_kernel silent_bus idle_service (sent ucast 0 2) [] st" by (simp add: unat_w32)
  then show ?thesis using audio_fifo [OF run idle_service_ok(1,2)] by blast
qed

text \<open>
  C16: While blocks are rendered, \<open>audio_submit\<close> returns: every frame is accepted, however full the
  ring was, and the ring then holds the old frames and the new ones in order, less those rendered
  meanwhile.
\<close>

theorem audio_submit_returns:
  assumes "ring_ok st" "g_initialized st" "\<not> g_paused st" "0 < g_queue_limit_frames st" "n \<le> 512"
  shows "\<exists>st' k. audio_submit ker (fill_render_block ker) samples (w32 n) st = Some (int n, st') \<and>
    ring_ok st' \<and> queue st' = drop k (queue st @ sent samples 0 n)"
proof -
  have n: "\<not> EF2_AUDIO_RPC_MAX_FRAMES < w32 n" "unat (w32 n) = n" "sint (w32 n) = int n"
    using assms(5) by (simp_all add: EF2_AUDIO_RPC_MAX_FRAMES_def word_less_nat_alt unat_w32 sint_small)
  show ?thesis
    using submit_loop_returns [OF assms(1,3,4), of 0 "w32 n" ker samples] assms(2) n
    by (auto simp: audio_submit_def)
qed

theorem audio_submit_returns_witness:
  "\<exists>st' k. audio_submit quiet_kernel (fill_render_block quiet_kernel) ucast (w32 512) idle_service = Some (int 512, st') \<and>
    ring_ok st' \<and> queue st' = drop k (queue idle_service @ sent ucast 0 512)"
  by (rule audio_submit_returns) (simp_all add: idle_service_ok word_less_nat_alt unat_w32)

text \<open>
  C17: A submission to a full ring never returns while playback is paused, and neither does it
  before playback is started (when no block is rendered at all): the RPC thread, the only one that could
  serve the resume, start or flush request, waits for space for ever.
\<close>

theorem audio_submit_deadlock:
  assumes "ring_ok st" "g_initialized st" "0 < n" "n \<le> 512"
    and "g_queue_limit_frames st \<le> g_queued_frames st"
  shows "(g_paused st \<longrightarrow> audio_submit ker (play_round ker) samples (w32 n) st = None) \<and>
    audio_submit ker (\<lambda>s. s) samples (w32 n) st = None"
proof -
  have n: "\<not> EF2_AUDIO_RPC_MAX_FRAMES < w32 n" "0 < w32 n"
    using assms(3,4) by (simp_all add: EF2_AUDIO_RPC_MAX_FRAMES_def word_less_nat_alt unat_w32)
  let ?full = "\<lambda>s. unat (g_queue_limit_frames s) \<le> unat (g_queued_frames s)"
  have full: "?full st" using assms(5) by (simp add: word_le_nat_alt)
  have "submit_loop ker (\<lambda>s. s) samples (w32 n) 0 st = None"
    using submit_loop_stuck [of ?full "\<lambda>s. s" ker samples "w32 n" 0 st] full n(2) by fastforce
  moreover have "submit_loop ker (play_round ker) samples (w32 n) 0 st = None" if "g_paused st"
  proof -
    let ?J = "\<lambda>s. ring_ok s \<and> g_paused s \<and> ?full s"
    have "?J (play_round ker s)" if J: "?J s" for s
    proof -
      have "0 = (if g_paused s then 0 else min 512 (unat (g_queued_frames s)))" using J by simp
      note spec = play_round_spec [OF conjunct1 [OF J] this refl, of ker]
      show ?thesis using spec(1-4) J queue_length [of "play_round ker s"] by simp
    qed
    then show ?thesis
      using submit_loop_stuck [of ?J "play_round ker" ker samples "w32 n" 0 st] full n(2) assms(1) that
      by (fastforce simp: ring_ok_frame)
  qed
  ultimately show ?thesis using assms(2) n(1) by (auto simp: audio_submit_def)
qed

theorem audio_submit_deadlock_witness:
  "audio_submit quiet_kernel (play_round quiet_kernel) ucast (w32 1) paused_service = None \<and>
    audio_submit quiet_kernel (\<lambda>s. s) ucast (w32 1) paused_service = None"
  using audio_submit_deadlock [of paused_service 1 quiet_kernel ucast] by (simp add: paused_service_ok)

text \<open>
  C18: A round of the play thread writes only the half of the SPU2 buffer that the DMA is not
  sending: the first 512 frames of the ring (silence when paused or short) as two times 256 left and
  256 right samples; the half being sent keeps every sample.
\<close>

theorem play_round_double_buffer:
  assumes "ring_ok st" and "n = (if g_paused st then 0 else min 512 (unat (g_queued_frames st)))"
    and "active = 1024 * (unat (g_active_block (g_spu2 st)) mod 2)" and "idle = 1024 - active"
    and "i < 1024" and "k < 256"
  shows "g_spu_buffer (play_round ker st) ! (active + i) = g_spu_buffer st ! (active + i) \<and>
    (g_spu_buffer (play_round ker st) ! (idle + k), g_spu_buffer (play_round ker st) ! (idle + 256 + k)) =
        (if k < n then queue st ! k else (0, 0)) \<and>
    (g_spu_buffer (play_round ker st) ! (idle + 512 + k), g_spu_buffer (play_round ker st) ! (idle + 768 + k)) =
        (if k + 256 < n then queue st ! (k + 256) else (0, 0))"
proof -
  have idle: "idle = 1024 * (1 - unat (g_active_block (g_spu2 st)) mod 2)"
    using assms(3,4) by (simp add: diff_mult_distrib2)
  note spec = play_round_spec [OF assms(1,2) idle, of ker]
  have "active = 0 \<and> idle = 1024 \<or> active = 1024 \<and> idle = 0"
    using assms(3,4) by (cases "odd (unat (g_active_block (g_spu2 st)))") (simp_all add: odd_iff_mod_2_eq_one)
  then have "g_spu_buffer (play_round ker st) ! (active + i) = g_spu_buffer st ! (active + i)"
    using spec(5) assms(5) by auto
  then show ?thesis using spec(6) assms(6) by blast
qed

theorem play_round_double_buffer_witness:
  "g_spu_buffer (play_round quiet_kernel idle_service) ! (0 + 5) = g_spu_buffer idle_service ! (0 + 5) \<and>
    (g_spu_buffer (play_round quiet_kernel idle_service) ! (1024 + 7), g_spu_buffer (play_round quiet_kernel idle_service) ! (1024 + 256 + 7)) =
        (if 7 < (0 :: nat) then queue idle_service ! 7 else (0, 0)) \<and>
    (g_spu_buffer (play_round quiet_kernel idle_service) ! (1024 + 512 + 7), g_spu_buffer (play_round quiet_kernel idle_service) ! (1024 + 768 + 7)) =
        (if 7 + 256 < (0 :: nat) then queue idle_service ! (7 + 256) else (0, 0))"
  by (rule play_round_double_buffer)
    (simp_all add: idle_service_ok, simp_all add: idle_service_def audio_loaded_def idle_spu_def)

end
