(* ===== verification/PadInput.thy ===== *)
theory PadInput
  imports Prelude
begin

text \<open>
  The EE view of a controller, \<open>include/ef2/pad.h\<close>, and its helpers in \<open>src/ee/input/pad.c\<close>.  A null
  state is \<open>None\<close>.
\<close>

record ef2_pad_state =
  ps_frame :: u32
  ps_buttons :: u32
  ps_pressed :: u32
  ps_released :: u32
  ps_errors :: u32
  ps_reconnects :: u32
  ps_connected :: u8
  ps_raw_id :: u8
  ps_mode :: u8
  ps_timing_profile :: u8
  ps_rumble_supported :: u8
  ps_rumble_small :: u8
  ps_rumble_large :: u8
  ps_right_x :: u8
  ps_right_y :: u8
  ps_left_x :: u8
  ps_left_y :: u8
  ps_pressure :: "u8 list"

definition valid_mask :: "ef2_pad_state option \<Rightarrow> u32 \<Rightarrow> bool" where
  "valid_mask state bs = (state \<noteq> None \<and> bs \<noteq> 0)"

definition ef2_pad_is_held :: "ef2_pad_state option \<Rightarrow> u32 \<Rightarrow> bool" where
  "ef2_pad_is_held state bs =
    (if \<not> valid_mask state bs then False else ps_buttons (the state) AND bs = bs)"

definition ef2_pad_was_pressed :: "ef2_pad_state option \<Rightarrow> u32 \<Rightarrow> bool" where
  "ef2_pad_was_pressed state bs =
    (if \<not> valid_mask state bs then False else ps_pressed (the state) AND bs = bs)"

definition ef2_pad_was_released :: "ef2_pad_state option \<Rightarrow> u32 \<Rightarrow> bool" where
  "ef2_pad_was_released state bs =
    (if \<not> valid_mask state bs then False else ps_released (the state) AND bs = bs)"

definition ef2_pad_has_analog :: "ef2_pad_state option \<Rightarrow> bool" where
  "ef2_pad_has_analog state =
    (case state of None \<Rightarrow> False
     | Some s \<Rightarrow> if ps_connected s = 0 then False else ps_raw_id s AND 0x0F \<ge> 3)"

definition ef2_pad_has_pressure :: "ef2_pad_state option \<Rightarrow> bool" where
  "ef2_pad_has_pressure state =
    (case state of None \<Rightarrow> False
     | Some s \<Rightarrow> if ps_connected s = 0 then False else ps_raw_id s AND 0x0F \<ge> 9)"

definition ef2_pad_has_rumble :: "ef2_pad_state option \<Rightarrow> bool" where
  "ef2_pad_has_rumble state =
    (case state of None \<Rightarrow> False | Some s \<Rightarrow> ps_connected s \<noteq> 0 \<and> ps_rumble_supported s \<noteq> 0)"

text \<open>C division rounds towards zero: the quotient of a negative numerator is that of its negation.\<close>

definition c_div :: "int \<Rightarrow> int \<Rightarrow> int" where
  "c_div a b = (if a < 0 then - (- a div b) else a div b)"

definition ef2_pad_axis_deadzone :: "u8 \<Rightarrow> u8 \<Rightarrow> int" where
  "ef2_pad_axis_deadzone raw deadzone =
    (let delta = int (unat raw) - 128; dz = int (unat deadzone)
     in if deadzone \<ge> 127 then 0
        else if delta > dz then sint (word_of_int (c_div ((delta - dz) * 32767) (127 - dz)) :: 16 word)
        else if delta < - dz then sint (word_of_int (c_div ((delta + dz) * 32768) (128 - dz)) :: 16 word)
        else 0)"

end
