(* ===== verification/Sio2.thy ===== *)
theory Sio2
  imports IopKernel "HOL-Library.Monad_Syntax"
begin

text \<open>
  The SIO2 driver of the IOP pad module, \<open>src/iop/pad/src/sio2_direct.c\<close>: one transfer of command
  and reply bytes with a controller or a multitap.

  A buffer is the list of its bytes.  The loop that empties the interrupt semaphore ends only when
  the kernel says that the semaphore is empty; a drain that never ends is \<open>None\<close>.
\<close>

record sio2_result =
  recv1 :: u32
  recv2 :: u32
  recv3 :: u32

record 'w sio2 =
  sio2_dev :: 'w
  sio2_transfer_sema :: s32
  sio2_irq_sema :: s32
  sio2_initialized :: bool

definition EF2_SIO2_SEND3 :: "u32 \<Rightarrow> u32" where "EF2_SIO2_SEND3 index = 0xBF808200 + index * 4"
definition EF2_SIO2_SEND12 :: "u32 \<Rightarrow> u32" where "EF2_SIO2_SEND12 index = 0xBF808200 + (0x40 + index * 4)"
definition EF2_SIO2_OUT_FIFO :: u32 where "EF2_SIO2_OUT_FIFO = 0xBF808200 + 0x60"
definition EF2_SIO2_IN_FIFO :: u32 where "EF2_SIO2_IN_FIFO = 0xBF808200 + 0x64"
definition EF2_SIO2_CTRL :: u32 where "EF2_SIO2_CTRL = 0xBF808200 + 0x68"
definition EF2_SIO2_RECV1 :: u32 where "EF2_SIO2_RECV1 = 0xBF808200 + 0x6C"
definition EF2_SIO2_RECV2 :: u32 where "EF2_SIO2_RECV2 = 0xBF808200 + 0x70"
definition EF2_SIO2_RECV3 :: u32 where "EF2_SIO2_RECV3 = 0xBF808200 + 0x74"
definition EF2_SIO2_STAT :: u32 where "EF2_SIO2_STAT = 0xBF808200 + 0x80"

definition ef2_sio2_irq :: "'w iop_kernel \<Rightarrow> 'w bus \<Rightarrow> 'w sio2 \<Rightarrow> s32 \<times> 'w sio2" where
  "ef2_sio2_irq ker bus st =
    (let (status, w) = rd32 bus EF2_SIO2_STAT (sio2_dev st);
         w = wr32 bus EF2_SIO2_STAT status w
     in (1, st\<lparr>sio2_dev := if sio2_irq_sema st \<ge> 0 then iSignalSema ker (sio2_irq_sema st) w else w\<rparr>))"

definition create_sema :: "'w iop_kernel \<Rightarrow> s32 \<Rightarrow> s32 \<Rightarrow> 'w \<Rightarrow> s32 \<times> 'w" where
  "create_sema ker initial maximum =
    CreateSema ker \<lparr>sema_attr = 0, sema_option = 0, sema_initial = initial, sema_max = maximum\<rparr>"

partial_function (option) drain_loop :: "'w iop_kernel \<Rightarrow> s32 \<Rightarrow> 'w \<Rightarrow> 'w option" where
  "drain_loop ker sema w =
    (let (r, w') = PollSema ker sema w in if r \<ge> 0 then drain_loop ker sema w' else Some w')"

definition drain_irq_sema :: "'w iop_kernel \<Rightarrow> 'w sio2 \<Rightarrow> 'w option" where
  "drain_irq_sema ker st = drain_loop ker (sio2_irq_sema st) (sio2_dev st)"

function transfer_wait_loop :: "'w iop_kernel \<Rightarrow> s32 \<Rightarrow> u32 \<Rightarrow> 'w \<Rightarrow> s32 \<times> 'w" where
  "transfer_wait_loop ker sema poll w =
    (if poll < 1000 then
       let (r, w') = PollSema ker sema w
       in if r \<ge> 0 then (0, w') else transfer_wait_loop ker sema (poll + 1) (DelayThread ker 50 w')
     else (-1, w))"
  by pat_completeness auto
termination
  by (relation "measure (\<lambda>(ker, sema, poll, w). unat (1000 - poll))") (use u32_countdown_less [of _ 1000] in auto)

declare transfer_wait_loop.simps [simp del]

definition wait_for_transfer :: "'w iop_kernel \<Rightarrow> s32 \<Rightarrow> 'w \<Rightarrow> s32 \<times> 'w" where
  "wait_for_transfer ker sema w = transfer_wait_loop ker sema 0 w"

definition ef2_sio2_init :: "'w iop_kernel \<Rightarrow> 'w bus \<Rightarrow> 'w sio2 \<Rightarrow> s32 \<times> 'w sio2" where
  "ef2_sio2_init ker bus st =
    (if sio2_initialized st then (0, st)
     else
       let (transfer, w) = create_sema ker 1 1 (sio2_dev st);
           (irq, w) = create_sema ker 0 1 w;
           st = st\<lparr>sio2_transfer_sema := transfer, sio2_irq_sema := irq\<rparr>
       in if transfer < 0 \<or> irq < 0 then (-1, st\<lparr>sio2_dev := w\<rparr>)
          else
            let w = CpuSuspendIntr ker w;
                w = ReleaseIntrHandler ker (IOP_IRQ_SIO2 ker) (DisableIntr ker (IOP_IRQ_SIO2 ker) w);
                (registered, w) = RegisterIntrHandler ker (IOP_IRQ_SIO2 ker) w
            in if registered \<noteq> 0 then (-2, st\<lparr>sio2_dev := CpuResumeIntr ker w\<rparr>)
               else
                 let (enabled, w) = EnableIntr ker (IOP_IRQ_SIO2 ker) w
                 in if enabled \<noteq> 0
                    then (-3, st\<lparr>sio2_dev := CpuResumeIntr ker (ReleaseIntrHandler ker (IOP_IRQ_SIO2 ker) w)\<rparr>)
                    else (0, st\<lparr>sio2_dev := wr32 bus EF2_SIO2_CTRL 0x000003BC (CpuResumeIntr ker w),
                                sio2_initialized := True\<rparr>))"

section \<open>Transfers\<close>

fun fifo_write :: "'w bus \<Rightarrow> u8 list \<Rightarrow> 'w \<Rightarrow> 'w" where
  "fifo_write bus [] w = w"
| "fifo_write bus (b # bs) w = fifo_write bus bs (wr8 bus EF2_SIO2_OUT_FIFO b w)"

function fifo_read_loop :: "'w bus \<Rightarrow> u32 \<Rightarrow> u32 \<Rightarrow> u8 list \<Rightarrow> 'w \<Rightarrow> u8 list \<times> 'w" where
  "fifo_read_loop bus i n output w =
    (if i < n then
       let (b, w') = rd8 bus EF2_SIO2_IN_FIFO w in fifo_read_loop bus (i + 1) n (output[unat i := b]) w'
     else (output, w))"
  by pat_completeness auto
termination
  by (relation "measure (\<lambda>(bus, i, n, out, w). unat (n - i))") (auto simp: u32_countdown_less)

declare fifo_read_loop.simps [simp del]

text \<open>
  The result: the status, the reply bytes and the three receive registers (as they were when
  the transfer fails).  The pointers are the callers' local arrays, never null.
\<close>

definition ef2_sio2_transfer_raw ::
  "'w iop_kernel \<Rightarrow> 'w bus \<Rightarrow> u32 \<Rightarrow> u32 \<Rightarrow> u32 \<Rightarrow> u32 \<Rightarrow> u8 list \<Rightarrow> u32 \<Rightarrow> u8 list \<Rightarrow> sio2_result \<Rightarrow> 'w sio2 \<Rightarrow>
   (s32 \<times> u8 list \<times> sio2_result \<times> 'w sio2) option" where
  "ef2_sio2_transfer_raw ker bus logical_port ctrl1 ctrl2 regdata input n output result st =
    (if \<not> sio2_initialized st \<or> logical_port \<ge> 4 \<or> n = 0 \<or> n > 32 then Some (-1, output, result, st)
     else do {
       let w = WaitSema ker (sio2_transfer_sema st) (sio2_dev st);
       w \<leftarrow> drain_irq_sema ker (st\<lparr>sio2_dev := w\<rparr>);
       let w = writes32 bus (map (\<lambda>i. (EF2_SIO2_SEND12 (word_of_nat i), 0)) [0..<8]) w;
       let w = writes32 bus (map (\<lambda>i. (EF2_SIO2_SEND3 (word_of_nat i), 0)) [0..<16]) w;
       let w = writes32 bus [(EF2_SIO2_SEND12 (logical_port * 2), ctrl1), (EF2_SIO2_SEND12 (logical_port * 2 + 1), ctrl2),
                             (EF2_SIO2_SEND3 0, regdata), (EF2_SIO2_SEND3 1, 0)] w;
       let w = update32 bus EF2_SIO2_CTRL (\<lambda>v. v OR 0xC) w;
       let w = fifo_write bus (take (unat n) input) w;
       let w = update32 bus EF2_SIO2_CTRL (\<lambda>v. v OR 1) w;
       let (wait_result, w) = wait_for_transfer ker (sio2_irq_sema st) w;
       if wait_result < 0
       then Some (-2, output, result,
              st\<lparr>sio2_dev := SignalSema ker (sio2_transfer_sema st) (wr32 bus EF2_SIO2_CTRL 0x000003BC w)\<rparr>)
       else do {
         let (r1, w) = rd32 bus EF2_SIO2_RECV1 w;
         let (r2, w) = rd32 bus EF2_SIO2_RECV2 w;
         let (r3, w) = rd32 bus EF2_SIO2_RECV3 w;
         let (output, w) = fifo_read_loop bus 0 n output w;
         Some (0, output, \<lparr>recv1 = r1, recv2 = r2, recv3 = r3\<rparr>,
           st\<lparr>sio2_dev := SignalSema ker (sio2_transfer_sema st) w\<rparr>) } })"

definition ef2_sio2_transfer_pad ::
  "'w iop_kernel \<Rightarrow> 'w bus \<Rightarrow> u32 \<Rightarrow> u32 \<Rightarrow> u32 \<Rightarrow> u8 list \<Rightarrow> u32 \<Rightarrow> u8 list \<Rightarrow> sio2_result \<Rightarrow> 'w sio2 \<Rightarrow>
   (s32 \<times> u8 list \<times> sio2_result \<times> 'w sio2) option" where
  "ef2_sio2_transfer_pad ker bus port timing_profile stat70_bit input n output result st =
    (if port \<ge> 2 \<or> n < 3 \<or> n > 32 then Some (-1, output, result, st)
     else
       let (ctrl1, ctrl2) =
             (if stat70_bit \<noteq> 0 then (0xFF060505, 0x0002012C)
              else if timing_profile \<noteq> 0 then (0xFF600A0A, 0x00020014)
              else (0xFFC00505, 0x00020014));
           regdata = push_bit 18 (n AND 0x1FF) OR push_bit 8 (n AND 0x1FF) OR 0x40 OR (port AND 3)
       in do {
         (transfer_result, output, result, st) \<leftarrow>
           ef2_sio2_transfer_raw ker bus port ctrl1 ctrl2 regdata input n output result st;
         if transfer_result < 0 then Some (transfer_result, output, result, st)
         else if recv1 result AND push_bit 13 1 \<noteq> 0 then Some (-3, output, result, st)
         else if recv1 result AND push_bit 16 1 \<noteq> 0 then Some (-4, output, result, st)
         else Some (0, output, result, st) })"

definition no_result :: sio2_result where
  "no_result = \<lparr>recv1 = 0, recv2 = 0, recv3 = 0\<rparr>"

definition ef2_sio2_mtap_get_slot_count ::
  "'w iop_kernel \<Rightarrow> 'w bus \<Rightarrow> u32 \<Rightarrow> 'w sio2 \<Rightarrow> (s32 \<times> 'w sio2) option" where
  "ef2_sio2_mtap_get_slot_count ker bus port st =
    (if port \<ge> 2 then Some (-1, st)
     else
       let logical_port = port OR 2; command = [0x21, 0x12, 0, 0, 0, 0]
       in do {
         (transfer_result, output, result, st) \<leftarrow>
           ef2_sio2_transfer_raw ker bus logical_port 0xFF020505 0x00030064 ((logical_port AND 3) OR 0x00180640)
             command 6 (replicate 6 0) no_result st;
         if transfer_result < 0 then Some (transfer_result, st)
         else if recv1 result AND push_bit 16 1 \<noteq> 0 then Some (-3, st)
         else if output ! 5 = 0x66 then Some (-4, st)
         else
           let slots = int (unat (output ! 3))
           in if slots < 1 \<or> slots > 4 then Some (-5, st) else Some (slots, st) })"

text \<open>At most three attempts; \<open>attempts\<close> counts those that are left.\<close>

fun select_slot_loop ::
  "nat \<Rightarrow> 'w iop_kernel \<Rightarrow> 'w bus \<Rightarrow> u32 \<Rightarrow> u32 \<Rightarrow> u8 list \<Rightarrow> u8 list \<Rightarrow> sio2_result \<Rightarrow> 'w sio2 \<Rightarrow> (s32 \<times> 'w sio2) option" where
  "select_slot_loop 0 ker bus logical_port slot command output result st = Some (-4, st)"
| "select_slot_loop (Suc attempts) ker bus logical_port slot command output result st =
    do {
      (transfer_result, output, result, st) \<leftarrow>
        ef2_sio2_transfer_raw ker bus logical_port 0xFF020505 0x00030064 ((logical_port AND 3) OR 0x001C0740)
          command 7 output result st;
      if transfer_result < 0 then select_slot_loop attempts ker bus logical_port slot command output result st
      else if recv1 result AND push_bit 16 1 \<noteq> 0
      then select_slot_loop attempts ker bus logical_port slot command output result st
      else if output ! 5 = 0x66 then Some (-3, st)
      else if output ! 5 = ucast slot then Some (0, st)
      else select_slot_loop attempts ker bus logical_port slot command output result st }"

definition ef2_sio2_mtap_select_slot ::
  "'w iop_kernel \<Rightarrow> 'w bus \<Rightarrow> u32 \<Rightarrow> u32 \<Rightarrow> 'w sio2 \<Rightarrow> (s32 \<times> 'w sio2) option" where
  "ef2_sio2_mtap_select_slot ker bus port slot st =
    (if port \<ge> 2 \<or> slot \<ge> 4 then Some (-1, st)
     else select_slot_loop 3 ker bus (port OR 2) slot [0x21, 0x21, ucast slot, 0, 0, 0, 0] (replicate 7 0) no_result st)"

end
