(* ===== verification/PadService.thy ===== *)
theory PadService
  imports Sio2 ByteMem
begin

text \<open>
  The IOP pad module \<open>src/iop/pad/src/main.c\<close>: controller discovery, polling and configuration on top
  of the SIO2 driver, multitap topology, and the RPC dispatcher.

  A function that gets a pointer to a port state takes the state and returns it updated; the
  32-byte packet buffers are lists.
\<close>

record ef2pad_port_state =
  frame :: u32
  buttons :: u32
  errors :: u32
  reconnects :: u32
  connected :: u8
  pad_id :: u8
  timing_profile :: u8
  stat70_bit :: u8
  config_attempted :: u8
  rumble_supported :: u8
  rumble_small :: u8
  rumble_large :: u8
  right_x :: u8
  right_y :: u8
  left_x :: u8
  left_y :: u8
  pressure :: "u8 list"

record pad_request =
  req_port_mask :: u32
  req_port :: u8
  req_slot :: u8
  req_small_motor :: u8
  req_large_motor :: u8

text \<open>The state as sent to the EE: the fields of \<open>ef2_pad_rpc_port_state\<close>.\<close>

record pad_rpc_state =
  rpc_frame :: u32
  rpc_buttons :: u32
  rpc_errors :: u32
  rpc_reconnects :: u32
  rpc_connected :: u8
  rpc_raw_id :: u8
  rpc_timing_profile :: u8
  rpc_rumble_supported :: u8
  rpc_rumble_small :: u8
  rpc_rumble_large :: u8
  rpc_right_x :: u8
  rpc_right_y :: u8
  rpc_left_x :: u8
  rpc_left_y :: u8
  rpc_pressure :: "u8 list"

record pad_rpc_reply =
  pr_result :: s32
  pr_slot_count :: "u8 list"
  pr_port :: "pad_rpc_state list"
  pr_slot_state :: pad_rpc_state

record 'w pad =
  pad_sio2 :: "'w sio2"
  g_ports :: "ef2pad_port_state list list"
  g_slot_count :: "u8 list"
  g_selected_slot :: "u8 list"
  g_pad_ready_sema :: s32
  g_pad_reply :: pad_rpc_reply

section \<open>Packets\<close>

definition packet_size_for_id :: "u8 \<Rightarrow> u32" where
  "packet_size_for_id n =
    (let sz = ucast (n AND 0x0F) * 2 + 3;
         sz = (if sz < 5 then 5 else sz)
     in if sz > 32 then 32 else sz)"

function shift_loop :: "u32 \<Rightarrow> u8 list \<Rightarrow> u8 list" where
  "shift_loop i buffer =
    (if i > 0 then shift_loop (i - 1) (buffer[unat i := buffer ! unat (i - 1)]) else buffer)"
  by pat_completeness auto
termination
  by (relation "measure (\<lambda>(i, b). unat i)") (auto simp: u32_pred_less word_gt_0)

declare shift_loop.simps [simp del]

definition shift_stat70_reply :: "u8 list \<Rightarrow> u32 \<Rightarrow> u8 list" where
  "shift_stat70_reply buffer n = (if n = 0 then buffer else (shift_loop (n - 1) buffer)[0 := 0xFF])"

definition response_looks_like_pad :: "u8 list \<Rightarrow> u32 \<Rightarrow> bool" where
  "response_looks_like_pad buffer n =
    (if n < 5 then False
     else if buffer ! 1 = 0 \<or> buffer ! 1 = 0xFF then False
     else if buffer ! 2 \<noteq> 0x5A then False
     else True)"

text \<open>A cleared packet with the given first bytes.\<close>

definition packet :: "u8 list \<Rightarrow> u8 list" where
  "packet bytes = bytes @ replicate (32 - length bytes) 0"

text \<open>The result: the status, the reply, its size and the next STAT70 bit.\<close>

definition transfer_poll ::
  "'w iop_kernel \<Rightarrow> 'w bus \<Rightarrow> u32 \<Rightarrow> ef2pad_port_state \<Rightarrow> u8 \<Rightarrow> u8 \<Rightarrow> u8 \<Rightarrow> u32 \<Rightarrow> 'w sio2 \<Rightarrow>
   (s32 \<times> u8 list \<times> u32 \<times> u8 \<times> 'w sio2) option" where
  "transfer_poll ker bus port state id_hint profile stat70 output_size sio =
    (let n = (if id_hint = 0 then 5 else packet_size_for_id id_hint);
         input = (if n \<ge> 9 \<and> id_hint \<noteq> 0 \<and> rumble_supported state \<noteq> 0
                  then packet [1, 0x42, 0, if rumble_small state \<noteq> 0 then 1 else 0, rumble_large state,
                               0xFF, 0xFF, 0xFF, 0xFF]
                  else packet [1, 0x42, 0])
     in do {
       (result, output, transfer_result, sio) \<leftarrow>
         ef2_sio2_transfer_pad ker bus port (ucast profile) (ucast stat70) input n (packet []) no_result sio;
       let next_stat70 = ucast (drop_bit (unat (4 + port)) (recv2 transfer_result) AND 1);
       if result < 0 then Some (result, output, output_size, next_stat70, sio)
       else
         let output = (if stat70 \<noteq> 0 then shift_stat70_reply output n else output)
         in if \<not> response_looks_like_pad output n then Some (-10, output, output_size, next_stat70, sio)
            else Some (0, output, n, next_stat70, sio) })"

definition transfer_command ::
  "'w iop_kernel \<Rightarrow> 'w bus \<Rightarrow> u32 \<Rightarrow> ef2pad_port_state \<Rightarrow> u8 list \<Rightarrow> u32 \<Rightarrow> 'w sio2 \<Rightarrow>
   (s32 \<times> u8 list \<times> ef2pad_port_state \<times> 'w sio2) option" where
  "transfer_command ker bus port state input n sio =
    (let stat70_before = stat70_bit state in do {
       (result, output, transfer_result, sio) \<leftarrow>
         ef2_sio2_transfer_pad ker bus port 0 (ucast stat70_before) input n (packet []) no_result sio;
       if result < 0 then Some (result, output, state, sio)
       else
         let output = (if stat70_before \<noteq> 0 then shift_stat70_reply output n else output)
         in Some (0, output,
              state\<lparr>stat70_bit := ucast (drop_bit (unat (4 + port)) (recv2 transfer_result) AND 1)\<rparr>, sio) })"

section \<open>Configuration\<close>

definition config_delay :: "'w iop_kernel \<Rightarrow> 'w sio2 \<Rightarrow> 'w sio2" where
  "config_delay ker sio = sio\<lparr>sio2_dev := DelayThread ker 2000 (sio2_dev sio)\<rparr>"

definition config_reply_is_config :: "u8 list \<Rightarrow> u32 \<Rightarrow> bool" where
  "config_reply_is_config reply n = (n \<ge> 3 \<and> reply ! 1 = 0xF3)"

definition configure_dualshock ::
  "'w iop_kernel \<Rightarrow> 'w bus \<Rightarrow> u32 \<Rightarrow> ef2pad_port_state \<Rightarrow> 'w sio2 \<Rightarrow> (s32 \<times> ef2pad_port_state \<times> 'w sio2) option" where
  "configure_dualshock ker bus port state sio = do {
     (enter_result, output, state, sio) \<leftarrow>
       transfer_command ker bus port state (packet [1, 0x43, 0, 1]) (packet_size_for_id (pad_id state)) sio;
     if enter_result < 0 then Some (enter_result, state, sio)
     else do {
       let sio = config_delay ker sio;
       (analog_result, output, state, sio) \<leftarrow>
         transfer_command ker bus port state (packet [1, 0x44, 0, 1, 3]) 9 sio;
       let analog_result = (if analog_result = 0 \<and> \<not> config_reply_is_config output 9 then -20 else analog_result);
       let sio = config_delay ker sio;
       (pressure_result, output, state, sio) \<leftarrow>
         transfer_command ker bus port state (packet [1, 0x4F, 0, 0xFF, 0xFF, 0x03]) 9 sio;
       let sio = config_delay ker sio;
       (align_result, output, state, sio) \<leftarrow>
         transfer_command ker bus port state (packet [1, 0x4D, 0, 0, 1, 0xFF, 0xFF, 0xFF, 0xFF]) 9 sio;
       let state = state\<lparr>rumble_supported := if align_result = 0 \<and> config_reply_is_config output 9 then 1 else 0\<rparr>;
       let sio = config_delay ker sio;
       (exit_result, output, state, sio) \<leftarrow>
         transfer_command ker bus port state (packet [1, 0x43, 0, 0, 0x5A, 0x5A, 0x5A, 0x5A, 0x5A]) 9 sio;
       if analog_result < 0 then Some (analog_result, state, sio)
       else if exit_result < 0 then Some (exit_result, state, sio)
       else Some (0, state, sio) } }"

definition should_configure_pad :: "u8 \<Rightarrow> bool" where
  "should_configure_pad n = (n = 0x41 \<or> n = 0x73 \<or> n = 0x79)"

definition parse_reply :: "ef2pad_port_state \<Rightarrow> u8 list \<Rightarrow> u32 \<Rightarrow> ef2pad_port_state" where
  "parse_reply state reply n =
    (let raw_buttons = (ucast (reply ! 3) :: u16) OR push_bit 8 (ucast (reply ! 4));
         state = state\<lparr>buttons := ucast (NOT raw_buttons) AND 0xFFFF,
                       right_x := 0x80, right_y := 0x80, left_x := 0x80, left_y := 0x80,
                       pressure := replicate 12 0\<rparr>;
         state = (if n \<ge> 9
                  then state\<lparr>right_x := reply ! 5, right_y := reply ! 6, left_x := reply ! 7, left_y := reply ! 8\<rparr>
                  else state)
     in if n \<ge> 21 then state\<lparr>pressure := map (\<lambda>i. reply ! (9 + i)) [0..<12]\<rparr> else state)"

section \<open>Discovery\<close>

definition try_profile ::
  "'w iop_kernel \<Rightarrow> 'w bus \<Rightarrow> u32 \<Rightarrow> ef2pad_port_state \<Rightarrow> u8 \<Rightarrow> u8 \<Rightarrow> u8 \<Rightarrow> u32 \<Rightarrow> 'w sio2 \<Rightarrow>
   (s32 \<times> ef2pad_port_state \<times> u8 list \<times> u32 \<times> 'w sio2) option" where
  "try_profile ker bus port state id_hint profile stat70 reply_size sio = do {
     (result, reply, reply_size, next_stat70, sio) \<leftarrow>
       transfer_poll ker bus port state id_hint profile stat70 reply_size sio;
     if result < 0 then Some (result, state, reply, reply_size, sio)
     else Some (0, state\<lparr>stat70_bit := next_stat70, timing_profile := profile, pad_id := reply ! 1\<rparr>,
            reply, reply_size, sio) }"

definition discover_pad ::
  "'w iop_kernel \<Rightarrow> 'w bus \<Rightarrow> u32 \<Rightarrow> ef2pad_port_state \<Rightarrow> u32 \<Rightarrow> 'w sio2 \<Rightarrow>
   (s32 \<times> ef2pad_port_state \<times> u8 list \<times> u32 \<times> 'w sio2) option" where
  "discover_pad ker bus port state reply_size sio = do {
     (result, state, reply, reply_size, sio) \<leftarrow>
       try_profile ker bus port state 0 0 (stat70_bit state) reply_size sio;
     if result = 0 then Some (0, state, reply, reply_size, sio)
     else do {
       (result, state, reply, reply_size, sio) \<leftarrow> try_profile ker bus port state 0 1 0 reply_size sio;
       if result = 0 then Some (0, state, reply, reply_size, sio)
       else try_profile ker bus port state 0 0 1 reply_size sio } }"

definition refresh_topology_port :: "'w iop_kernel \<Rightarrow> 'w bus \<Rightarrow> u32 \<Rightarrow> 'w pad \<Rightarrow> 'w pad option" where
  "refresh_topology_port ker bus port st = do {
     (slots, sio) \<leftarrow> ef2_sio2_mtap_get_slot_count ker bus port (pad_sio2 st);
     let count = (if slots \<ge> 2 \<and> slots \<le> 4 then word_of_int slots else 1);
     Some (st\<lparr>pad_sio2 := sio, g_slot_count := (g_slot_count st)[unat port := count],
              g_selected_slot := (g_selected_slot st)[unat port := 0]\<rparr>) }"

definition refresh_topology :: "'w iop_kernel \<Rightarrow> 'w bus \<Rightarrow> 'w pad \<Rightarrow> 'w pad option" where
  "refresh_topology ker bus st = do {
     st \<leftarrow> refresh_topology_port ker bus 0 st;
     refresh_topology_port ker bus 1 st }"

definition select_endpoint :: "'w iop_kernel \<Rightarrow> 'w bus \<Rightarrow> u32 \<Rightarrow> u32 \<Rightarrow> 'w pad \<Rightarrow> (s32 \<times> 'w pad) option" where
  "select_endpoint ker bus port slot st =
    (if slot \<ge> ucast (g_slot_count st ! unat port) then Some (-1, st)
     else if g_slot_count st ! unat port \<le> 1 then Some (if slot = 0 then 0 else -1, st)
     else if g_selected_slot st ! unat port = ucast slot then Some (0, st)
     else do {
       (result, sio) \<leftarrow> ef2_sio2_mtap_select_slot ker bus port slot (pad_sio2 st);
       let st = st\<lparr>pad_sio2 := sio\<rparr>;
       if result < 0 then do {
         st \<leftarrow> refresh_topology_port ker bus port st;
         if g_slot_count st ! unat port \<le> 1 then Some (if slot = 0 then 0 else -1, st)
         else do {
           (result, sio) \<leftarrow> ef2_sio2_mtap_select_slot ker bus port slot (pad_sio2 st);
           let st = st\<lparr>pad_sio2 := sio\<rparr>;
           if result < 0 then Some (result, st)
           else Some (0, st\<lparr>g_selected_slot := (g_selected_slot st)[unat port := ucast slot]\<rparr>) } }
       else Some (0, st\<lparr>g_selected_slot := (g_selected_slot st)[unat port := ucast slot]\<rparr>) })"

section \<open>Polling\<close>

definition port_state :: "'w pad \<Rightarrow> u32 \<Rightarrow> u32 \<Rightarrow> ef2pad_port_state" where
  "port_state st port slot = g_ports st ! unat port ! unat slot"

definition put_port_state :: "'w pad \<Rightarrow> u32 \<Rightarrow> u32 \<Rightarrow> ef2pad_port_state \<Rightarrow> 'w pad" where
  "put_port_state st port slot state =
    st\<lparr>g_ports := (g_ports st)[unat port := (g_ports st ! unat port)[unat slot := state]]\<rparr>"

text \<open>The transfers of \<open>poll_slot\<close>: the last known profile, the other one, then a new discovery.\<close>

definition poll_transfer ::
  "'w iop_kernel \<Rightarrow> 'w bus \<Rightarrow> u32 \<Rightarrow> ef2pad_port_state \<Rightarrow> 'w sio2 \<Rightarrow>
   (s32 \<times> ef2pad_port_state \<times> u8 list \<times> u32 \<times> 'w sio2) option" where
  "poll_transfer ker bus port state sio =
    (if connected state \<noteq> 0 then do {
       (result, state, reply, reply_size, sio) \<leftarrow>
         try_profile ker bus port state (pad_id state) (timing_profile state) (stat70_bit state) 0 sio;
       (result, state, reply, reply_size, sio) \<leftarrow>
         (if result < 0
          then try_profile ker bus port state (pad_id state) (1 - timing_profile state) 0 reply_size sio
          else Some (result, state, reply, reply_size, sio));
       if result < 0 then discover_pad ker bus port state reply_size sio
       else Some (result, state, reply, reply_size, sio) }
     else discover_pad ker bus port state 0 sio)"

text \<open>The second transfer after a change of identity, with the reply size of the new one.\<close>

definition poll_again ::
  "'w iop_kernel \<Rightarrow> 'w bus \<Rightarrow> u32 \<Rightarrow> u8 \<Rightarrow> ef2pad_port_state \<Rightarrow> u8 list \<Rightarrow> u32 \<Rightarrow> 'w sio2 \<Rightarrow>
   (ef2pad_port_state \<times> u8 list \<times> u32 \<times> 'w sio2) option" where
  "poll_again ker bus port previous_id state reply reply_size sio =
    (if reply ! 1 \<noteq> previous_id \<or> reply_size < packet_size_for_id (reply ! 1) then do {
       let discovered_id = reply ! 1;
       (result, state, full_reply, full_size, sio) \<leftarrow>
         try_profile ker bus port state discovered_id (timing_profile state) (stat70_bit state) 0 sio;
       if result = 0 then Some (state, full_reply, full_size, sio)
       else Some (state\<lparr>pad_id := discovered_id\<rparr>, reply, reply_size, sio) }
     else Some (state, reply, reply_size, sio))"

definition poll_slot :: "'w iop_kernel \<Rightarrow> 'w bus \<Rightarrow> u32 \<Rightarrow> u32 \<Rightarrow> 'w pad \<Rightarrow> (s32 \<times> 'w pad) option" where
  "poll_slot ker bus port slot st = do {
     let state = port_state st port slot;
     let was_connected = connected state;
     let previous_id = pad_id state;
     (result, st) \<leftarrow> select_endpoint ker bus port slot st;
     if result < 0
     then Some (result, put_port_state st port slot (state\<lparr>connected := 0, buttons := 0\<rparr>))
     else do {
       (result, state, reply, reply_size, sio) \<leftarrow> poll_transfer ker bus port state (pad_sio2 st);
       if result < 0
       then Some (result, put_port_state (st\<lparr>pad_sio2 := sio\<rparr>) port slot
              (state\<lparr>errors := errors state + 1, connected := 0, buttons := 0, pad_id := 0, config_attempted := 0,
                     rumble_supported := 0, rumble_small := 0, rumble_large := 0,
                     right_x := 0x80, right_y := 0x80, left_x := 0x80, left_y := 0x80\<rparr>))
       else do {
         (state, reply, reply_size, sio) \<leftarrow> poll_again ker bus port previous_id state reply reply_size sio;
         let state = (if previous_id \<noteq> 0 \<and> pad_id state = 0x41 \<and> previous_id \<noteq> 0x41
                      then state\<lparr>config_attempted := 0\<rparr> else state);
         (state, sio) \<leftarrow>
           (if config_attempted state = 0 \<and> should_configure_pad (pad_id state) then do {
              (_, state, sio) \<leftarrow> configure_dualshock ker bus port (state\<lparr>config_attempted := 1\<rparr>) sio;
              Some (state, sio) }
            else Some (state, sio));
         let state = state\<lparr>connected := 1, frame := frame state + 1\<rparr>;
         let state = (if was_connected = 0 then state\<lparr>reconnects := reconnects state + 1\<rparr> else state);
         Some (0, put_port_state (st\<lparr>pad_sio2 := sio\<rparr>) port slot (parse_reply state reply reply_size)) } } }"

section \<open>The dispatcher\<close>

definition fill_rpc_port :: "ef2pad_port_state \<Rightarrow> pad_rpc_state" where
  "fill_rpc_port source =
    \<lparr>rpc_frame = frame source, rpc_buttons = buttons source, rpc_errors = errors source,
     rpc_reconnects = reconnects source, rpc_connected = connected source, rpc_raw_id = pad_id source,
     rpc_timing_profile = timing_profile source, rpc_rumble_supported = rumble_supported source,
     rpc_rumble_small = rumble_small source, rpc_rumble_large = rumble_large source,
     rpc_right_x = right_x source, rpc_right_y = right_y source, rpc_left_x = left_x source,
     rpc_left_y = left_y source, rpc_pressure = map (\<lambda>i. pressure source ! i) [0..<12]\<rparr>"

definition set_result :: "s32 \<Rightarrow> 'w pad \<Rightarrow> 'w pad" where
  "set_result r st = st\<lparr>g_pad_reply := (g_pad_reply st)\<lparr>pr_result := r\<rparr>\<rparr>"

definition set_slot_state :: "ef2pad_port_state \<Rightarrow> 'w pad \<Rightarrow> 'w pad" where
  "set_slot_state state st = st\<lparr>g_pad_reply := (g_pad_reply st)\<lparr>pr_slot_state := fill_rpc_port state\<rparr>\<rparr>"

definition fill_topology_reply :: "'w pad \<Rightarrow> 'w pad" where
  "fill_topology_reply st =
    st\<lparr>g_pad_reply := (g_pad_reply st)\<lparr>pr_slot_count := [g_slot_count st ! 0, g_slot_count st ! 1]\<rparr>\<rparr>"

definition poll_masked :: "'w iop_kernel \<Rightarrow> 'w bus \<Rightarrow> u32 \<Rightarrow> u32 \<Rightarrow> 'w pad \<Rightarrow> 'w pad option" where
  "poll_masked ker bus mask_bits port st =
    (if mask_bits AND push_bit (unat port) 1 \<noteq> 0
     then do { (_, st) \<leftarrow> poll_slot ker bus port 0 st; Some st }
     else Some st)"

definition set_rumble :: "u32 \<Rightarrow> u32 \<Rightarrow> pad_request \<Rightarrow> 'w pad \<Rightarrow> 'w pad" where
  "set_rumble target_port target_slot request st =
    (if target_port \<ge> 2 \<or> target_slot \<ge> 4 \<or> target_slot \<ge> ucast (g_slot_count st ! unat target_port)
     then set_result (-2) st
     else
       let state = port_state st target_port target_slot
       in if connected state = 0 then set_result (-3) st
          else if rumble_supported state = 0 then set_result (-4) st
          else
            let state = state\<lparr>rumble_small := if req_small_motor request \<noteq> 0 then 1 else 0,
                              rumble_large := req_large_motor request\<rparr>
            in set_slot_state state (put_port_state st target_port target_slot state))"

text \<open>\<open>request\<close> is the struct in the input buffer, 12 bytes.\<close>

definition pad_rpc_function ::
  "'w iop_kernel \<Rightarrow> 'w bus \<Rightarrow> s32 \<Rightarrow> pad_request \<Rightarrow> s32 \<Rightarrow> 'w pad \<Rightarrow> 'w pad option" where
  "pad_rpc_function ker bus function_id request len st =
    (if function_id = 0 then refresh_topology ker bus st
     else if function_id = 1 then
       (if len < 12 then Some (set_result (-1) st)
        else do { st \<leftarrow> poll_masked ker bus (req_port_mask request) 0 st;
                  poll_masked ker bus (req_port_mask request) 1 st })
     else if function_id = 3 then
       (if len < 12 \<or> req_port request \<ge> 2 \<or> req_slot request \<ge> 4 then Some (set_result (-1) st)
        else if req_slot request \<ge> g_slot_count st ! unat (req_port request) then Some (set_result (-2) st)
        else do { (_, st) \<leftarrow> poll_slot ker bus (ucast (req_port request)) (ucast (req_slot request)) st;
                  Some (set_slot_state (port_state st (ucast (req_port request)) (ucast (req_slot request))) st) })
     else if function_id = 4 then refresh_topology ker bus st
     else if function_id = 2 \<or> function_id = 5 then
       (if len < 12 then Some (set_result (-1) st)
        else if function_id = 2 then
          let target_port = (if req_port_mask request AND 1 \<noteq> 0 then 0
                             else if req_port_mask request AND 2 \<noteq> 0 then 1 else 0)
          in Some (set_rumble target_port 0 request st)
        else Some (set_rumble (ucast (req_port request)) (ucast (req_slot request)) request st))
     else Some (set_result (-100) st))"

definition pad_rpc_handler ::
  "'w iop_kernel \<Rightarrow> 'w bus \<Rightarrow> s32 \<Rightarrow> pad_request \<Rightarrow> s32 \<Rightarrow> 'w pad \<Rightarrow> 'w pad option" where
  "pad_rpc_handler ker bus function_id request len st = do {
     st \<leftarrow> pad_rpc_function ker bus function_id request len (set_result 0 st);
     let st = fill_topology_reply st;
     Some (st\<lparr>g_pad_reply := (g_pad_reply st)
       \<lparr>pr_port := [fill_rpc_port (port_state st 0 0), fill_rpc_port (port_state st 1 0)]\<rparr>\<rparr>) }"

section \<open>Module start\<close>

definition fresh_port_state :: ef2pad_port_state where
  "fresh_port_state =
    \<lparr>frame = 0, buttons = 0, errors = 0, reconnects = 0, connected = 0, pad_id = 0, timing_profile = 0,
     stat70_bit = 0, config_attempted = 0, rumble_supported = 0, rumble_small = 0, rumble_large = 0,
     right_x = 0x80, right_y = 0x80, left_x = 0x80, left_y = 0x80, pressure = replicate 12 0\<rparr>"

definition pad_start :: "'w iop_kernel \<Rightarrow> 'w bus \<Rightarrow> 'w pad \<Rightarrow> s32 \<times> 'w pad" where
  "pad_start ker bus st =
    (let sio = pad_sio2 st;
         sio = sio\<lparr>sio2_dev := CpuEnableIntr ker (sio2_dev sio)\<rparr>;
         st = st\<lparr>g_slot_count := [1, 1], g_selected_slot := [0, 0],
                 g_ports := replicate 2 (replicate 4 fresh_port_state)\<rparr>;
         (sio2_result, sio) = ef2_sio2_init ker bus sio
     in if sio2_result < 0 then (MODULE_NO_RESIDENT_END ker, st\<lparr>pad_sio2 := sio\<rparr>)
        else
          let (ready, w) = CreateSema ker \<lparr>sema_attr = 0, sema_option = 0, sema_initial = 0, sema_max = 1\<rparr> (sio2_dev sio);
              st = st\<lparr>pad_sio2 := sio\<lparr>sio2_dev := w\<rparr>, g_pad_ready_sema := ready\<rparr>
          in if ready < 0 then (MODULE_NO_RESIDENT_END ker, st)
             else
               let (thread_id, w) = CreateThread ker
                     \<lparr>thread_attr = TH_C ker, thread_option = 0, thread_entry = Rpc_thread,
                      thread_stacksize = 0x1000, thread_priority = 39\<rparr> w;
                   st = st\<lparr>pad_sio2 := sio\<lparr>sio2_dev := w\<rparr>\<rparr>
               in if thread_id < 0 then (MODULE_NO_RESIDENT_END ker, st)
                  else
                    let (started, w) = StartThread ker thread_id w
                    in if started < 0 then (MODULE_NO_RESIDENT_END ker, st\<lparr>pad_sio2 := sio\<lparr>sio2_dev := w\<rparr>\<rparr>)
                       else (MODULE_RESIDENT_END ker, st\<lparr>pad_sio2 := sio\<lparr>sio2_dev := WaitSema ker ready w\<rparr>\<rparr>))"

end
