(* ===== verification/PadClient.thy ===== *)
theory PadClient
  imports PadInput PadService
begin

text \<open>
  The EE side of the pad RPC, \<open>src/ee/input/iop_backend.c\<close>: module loading and binding, topology,
  polling with edge detection, and rumble.

  The SIF transport and the IOP module loader that it calls (\<open>src/ee/sif/sif.c\<close>) are a record of
  functions on a state \<open>'w\<close>, with one parameter for the requests and one for the replies of the
  service; a call gets the cleared reply buffer and returns what is in it afterwards.
\<close>

record ('w, 'q, 'r) sif_services =
  ef2_sif_init :: "'w \<Rightarrow> s32 \<times> 'w"
  ef2_iop_exec_module_buffer_ex :: "s32 \<Rightarrow> 'w \<Rightarrow> s32 \<times> s32 \<times> 'w"
  ef2_iop_enable_module_buffer :: "'w \<Rightarrow> s32 \<times> 'w"
  ef2_sif_bind :: "u32 \<Rightarrow> 'w \<Rightarrow> s32 \<times> u32 \<times> 'w"
  ef2_sif_call :: "s32 \<Rightarrow> 'q \<Rightarrow> u32 \<Rightarrow> 'r \<Rightarrow> 'w \<Rightarrow> s32 \<times> 'r \<times> 'w"

record 'w pad_client =
  pc_world :: 'w
  pc_request :: pad_request
  pc_reply :: pad_rpc_reply
  g_previous_buttons :: "u32 list list"
  pc_slot_count :: "u32 list"
  g_pad_bound :: bool

definition zero_request :: pad_request where
  "zero_request = \<lparr>req_port_mask = 0, req_port = 0, req_slot = 0, req_small_motor = 0, req_large_motor = 0\<rparr>"

definition zero_rpc_state :: pad_rpc_state where
  "zero_rpc_state = \<lparr>rpc_frame = 0, rpc_buttons = 0, rpc_errors = 0, rpc_reconnects = 0, rpc_connected = 0,
    rpc_raw_id = 0, rpc_timing_profile = 0, rpc_rumble_supported = 0, rpc_rumble_small = 0, rpc_rumble_large = 0,
    rpc_right_x = 0, rpc_right_y = 0, rpc_left_x = 0, rpc_left_y = 0, rpc_pressure = replicate 12 0\<rparr>"

definition zero_reply :: pad_rpc_reply where
  "zero_reply = \<lparr>pr_result = 0, pr_slot_count = [0, 0], pr_port = [zero_rpc_state, zero_rpc_state],
    pr_slot_state = zero_rpc_state\<rparr>"

definition pad_rpc_exchange ::
  "('w, pad_request, pad_rpc_reply) sif_services \<Rightarrow> s32 \<Rightarrow> 'w pad_client \<Rightarrow> s32 \<times> 'w pad_client" where
  "pad_rpc_exchange sif function_id st =
    (let (result, reply, w) = ef2_sif_call sif function_id (pc_request st) 12 zero_reply (pc_world st);
         st = st\<lparr>pc_reply := reply, pc_world := w\<rparr>
     in if result < 0 then (result, st)
        else
          let counts = map (\<lambda>p. if pr_slot_count reply ! p = 0 then 1 else ucast (pr_slot_count reply ! p)) [0, 1]
          in (pr_result reply, st\<lparr>pc_slot_count := counts\<rparr>))"

definition pad_rpc_call ::
  "('w, pad_request, pad_rpc_reply) sif_services \<Rightarrow> s32 \<Rightarrow> u32 \<Rightarrow> 'w pad_client \<Rightarrow> s32 \<times> 'w pad_client" where
  "pad_rpc_call sif function_id port_mask st =
    pad_rpc_exchange sif function_id (st\<lparr>pc_request := zero_request\<lparr>req_port_mask := port_mask\<rparr>\<rparr>)"

definition copy_state :: "u32 \<Rightarrow> u32 \<Rightarrow> pad_rpc_state \<Rightarrow> 'w pad_client \<Rightarrow> ef2_pad_state \<times> 'w pad_client" where
  "copy_state port slot source st =
    (let current_buttons = (if rpc_connected source \<noteq> 0 then rpc_buttons source else 0);
         previous_buttons = g_previous_buttons st ! unat port ! unat slot
     in (\<lparr>ps_frame = rpc_frame source, ps_buttons = current_buttons,
          ps_pressed = current_buttons AND NOT previous_buttons,
          ps_released = previous_buttons AND NOT current_buttons,
          ps_errors = rpc_errors source, ps_reconnects = rpc_reconnects source,
          ps_connected = rpc_connected source, ps_raw_id = rpc_raw_id source,
          ps_mode = drop_bit 4 (rpc_raw_id source), ps_timing_profile = rpc_timing_profile source,
          ps_rumble_supported = rpc_rumble_supported source, ps_rumble_small = rpc_rumble_small source,
          ps_rumble_large = rpc_rumble_large source,
          ps_right_x = rpc_right_x source, ps_right_y = rpc_right_y source,
          ps_left_x = rpc_left_x source, ps_left_y = rpc_left_y source,
          ps_pressure = rpc_pressure source\<rparr>,
         st\<lparr>g_previous_buttons := (g_previous_buttons st)
              [unat port := (g_previous_buttons st ! unat port)[unat slot := current_buttons]]\<rparr>))"

definition ef2_pad_refresh_topology ::
  "('w, pad_request, pad_rpc_reply) sif_services \<Rightarrow> 'w pad_client \<Rightarrow> s32 \<times> 'w pad_client" where
  "ef2_pad_refresh_topology sif st =
    (if \<not> g_pad_bound st then (-1, st)
     else pad_rpc_exchange sif 4 (st\<lparr>pc_request := zero_request\<rparr>))"

text \<open>Loading the module, with one retry after the loader has been patched: an error code or the
  start result of the module.\<close>

definition load_module :: "('w, 'q, 'r) sif_services \<Rightarrow> 'w \<Rightarrow> (s32 + s32) \<times> 'w" where
  "load_module sif w =
    (let (result, module_result, w) = ef2_iop_exec_module_buffer_ex sif (-1) w
     in if result < 0
        then let (patch_result, w) = ef2_iop_enable_module_buffer sif w
             in if patch_result < 0 then (Inl (-2000 + patch_result), w)
                else let (result, module_result, w) = ef2_iop_exec_module_buffer_ex sif (-1) w
                     in if result < 0 then (Inl (-2500 + result), w) else (Inr module_result, w)
        else (Inr module_result, w))"

text \<open>\<open>module_result & 0xFF\<close> on a two's complement integer is its residue modulo 256.\<close>

definition ef2_pad_init ::
  "('w, pad_request, pad_rpc_reply) sif_services \<Rightarrow> 'w pad_client \<Rightarrow> s32 \<times> 'w pad_client" where
  "ef2_pad_init sif st =
    (if g_pad_bound st then (0, st)
     else
       let (result, w) = ef2_sif_init sif (pc_world st)
       in if result < 0 then (-1000 + result, st\<lparr>pc_world := w\<rparr>)
          else
            let (loaded, w) = load_module sif w; st = st\<lparr>pc_world := w\<rparr>
            in case loaded of
                 Inl e \<Rightarrow> (e, st)
               | Inr module_result \<Rightarrow>
                   if module_result \<noteq> 0 then (-2800 - module_result mod 256, st)
                   else
                     let (result, server, w) = ef2_sif_bind sif 0xEF2B0001 w; st = st\<lparr>pc_world := w\<rparr>
                     in if result < 0 \<or> server = 0 then (-3000 + (if result < 0 then result else -9), st)
                        else
                          let st = st\<lparr>g_pad_bound := True, pc_slot_count := [1, 1],
                                      g_previous_buttons := replicate 2 (replicate 4 0)\<rparr>;
                              (result, st) = pad_rpc_call sif 0 0 st
                          in if result < 0 then (-4000 + result, st\<lparr>g_pad_bound := False\<rparr>)
                             else ef2_pad_refresh_topology sif st)"

definition ef2_pad_get_slot_count :: "u32 \<Rightarrow> 'w pad_client \<Rightarrow> s32 \<times> u32 option" where
  "ef2_pad_get_slot_count port st =
    (if \<not> g_pad_bound st \<or> port \<ge> 2 then (-1, None) else (0, Some (pc_slot_count st ! unat port)))"

definition ef2_pad_poll_slot ::
  "('w, pad_request, pad_rpc_reply) sif_services \<Rightarrow> u32 \<Rightarrow> u32 \<Rightarrow> 'w pad_client \<Rightarrow> s32 \<times> ef2_pad_state option \<times> 'w pad_client" where
  "ef2_pad_poll_slot sif port slot st =
    (if \<not> g_pad_bound st \<or> port \<ge> 2 \<or> slot \<ge> 4 then (-1, None, st)
     else if slot \<ge> pc_slot_count st ! unat port then (-2, None, st)
     else
       let st = st\<lparr>pc_request := zero_request\<lparr>req_port := ucast port, req_slot := ucast slot\<rparr>\<rparr>;
           (result, st) = pad_rpc_exchange sif 3 st
       in if result < 0 then (result, None, st)
          else let (state, st) = copy_state port slot (pr_slot_state (pc_reply st)) st in (0, Some state, st))"

definition ef2_pad_poll ::
  "('w, pad_request, pad_rpc_reply) sif_services \<Rightarrow> u32 \<Rightarrow> 'w pad_client \<Rightarrow> s32 \<times> ef2_pad_state option \<times> 'w pad_client" where
  "ef2_pad_poll sif port st = ef2_pad_poll_slot sif port 0 st"

definition ef2_pad_poll_all ::
  "('w, pad_request, pad_rpc_reply) sif_services \<Rightarrow> 'w pad_client \<Rightarrow> s32 \<times> ef2_pad_state list \<times> 'w pad_client" where
  "ef2_pad_poll_all sif st =
    (if \<not> g_pad_bound st then (-1, [], st)
     else
       let (result, st) = pad_rpc_call sif 1 (push_bit 2 1 - 1) st
       in if result < 0 then (result, [], st)
          else
            let (state0, st) = copy_state 0 0 (pr_port (pc_reply st) ! 0) st;
                (state1, st) = copy_state 1 0 (pr_port (pc_reply st) ! 1) st
            in (0, [state0, state1], st))"

definition ef2_pad_set_rumble_slot ::
  "('w, pad_request, pad_rpc_reply) sif_services \<Rightarrow> u32 \<Rightarrow> u32 \<Rightarrow> u8 \<Rightarrow> u8 \<Rightarrow> 'w pad_client \<Rightarrow> s32 \<times> 'w pad_client" where
  "ef2_pad_set_rumble_slot sif port slot small_motor large_motor st =
    (if \<not> g_pad_bound st \<or> port \<ge> 2 \<or> slot \<ge> 4 \<or> slot \<ge> pc_slot_count st ! unat port \<or> small_motor > 1 then (-1, st)
     else pad_rpc_exchange sif 5 (st\<lparr>pc_request := zero_request\<lparr>req_port := ucast port, req_slot := ucast slot,
            req_small_motor := small_motor, req_large_motor := large_motor\<rparr>\<rparr>))"

definition ef2_pad_stop_rumble_slot ::
  "('w, pad_request, pad_rpc_reply) sif_services \<Rightarrow> u32 \<Rightarrow> u32 \<Rightarrow> 'w pad_client \<Rightarrow> s32 \<times> 'w pad_client" where
  "ef2_pad_stop_rumble_slot sif port slot st = ef2_pad_set_rumble_slot sif port slot 0 0 st"

definition ef2_pad_set_rumble ::
  "('w, pad_request, pad_rpc_reply) sif_services \<Rightarrow> u32 \<Rightarrow> u8 \<Rightarrow> u8 \<Rightarrow> 'w pad_client \<Rightarrow> s32 \<times> 'w pad_client" where
  "ef2_pad_set_rumble sif port small_motor large_motor st =
    ef2_pad_set_rumble_slot sif port 0 small_motor large_motor st"

definition ef2_pad_stop_rumble ::
  "('w, pad_request, pad_rpc_reply) sif_services \<Rightarrow> u32 \<Rightarrow> 'w pad_client \<Rightarrow> s32 \<times> 'w pad_client" where
  "ef2_pad_stop_rumble sif port st = ef2_pad_stop_rumble_slot sif port 0 st"

end
