(* ===== verification/OptionPost.thy ===== *)
theory OptionPost
  imports Main "HOL-Library.Monad_Syntax"
begin

text \<open>
  Postconditions of computations in the option type: \<open>returns m P\<close> says that the value of \<open>m\<close>, when
  there is one, satisfies \<open>P\<close>; the rules follow the syntax of the \<open>do\<close> blocks.
\<close>

definition returns :: "'a option \<Rightarrow> ('a \<Rightarrow> bool) \<Rightarrow> bool" where
  "returns m P \<longleftrightarrow> (\<forall>x. m = Some x \<longrightarrow> P x)"

lemma returnsI: "(\<And>x. m = Some x \<Longrightarrow> P x) \<Longrightarrow> returns m P"
  by (simp add: returns_def)

lemma returnsD: "returns m P \<Longrightarrow> m = Some x \<Longrightarrow> P x"
  by (simp add: returns_def)

lemma returns_Some [simp]: "returns (Some x) P = P x"
  by (simp add: returns_def)

lemma returns_None [simp]: "returns None P"
  by (simp add: returns_def)

lemma returns_bind: "returns m Q \<Longrightarrow> (\<And>x. Q x \<Longrightarrow> returns (f x) P) \<Longrightarrow> returns (Option.bind m f) P"
  by (cases m) (simp_all add: returns_def)

lemma returns_if: "(b \<Longrightarrow> returns m P) \<Longrightarrow> (\<not> b \<Longrightarrow> returns m' P) \<Longrightarrow> returns (if b then m else m') P"
  by simp

lemma returns_prod: "(\<And>x y. p = (x, y) \<Longrightarrow> returns (f x y) P) \<Longrightarrow> returns (case p of (x, y) \<Rightarrow> f x y) P"
  by (cases p) simp

lemma returns_let: "(\<And>x. x = e \<Longrightarrow> returns (f x) P) \<Longrightarrow> returns (let x = e in f x) P"
  by (simp add: Let_def)

lemma returns_mono: "returns m Q \<Longrightarrow> (\<And>x. Q x \<Longrightarrow> P x) \<Longrightarrow> returns m P"
  by (auto simp: returns_def)

lemma returns_True [simp]: "returns m (\<lambda>_. True)"
  by (simp add: returns_def)

lemmas returns_rules = returns_if returns_prod returns_let

end
