(* ===== verification/PadSpec.thy ===== *)
theory PadSpec
  imports PadService OptionPost
begin

text \<open>
  What the operations of the pad module return, as postconditions (\<open>OptionPost\<close>): results are never
  positive, an accepted reply identifies a controller, the link fields stay in range, and a poll either
  commits a connected state or a disconnected one.
\<close>

section \<open>Transfers\<close>

lemma transfer_raw_post:
  "returns (ef2_sio2_transfer_raw ker bus port c1 c2 reg input n output res st) (\<lambda>(r, _). r \<in> {0, -1, -2})"
  unfolding ef2_sio2_transfer_raw_def
  by (intro returns_rules returns_bind [where Q = "\<lambda>_. True"]) simp_all

lemma transfer_pad_post:
  "returns (ef2_sio2_transfer_pad ker bus port p s input n output res st) (\<lambda>(r, _). r \<le> 0)"
  unfolding ef2_sio2_transfer_pad_def
  by (intro returns_rules returns_bind [OF transfer_raw_post]) auto

lemma and_one_le: "ucast (x AND 1 :: u32) \<le> (1 :: u8)"
  by (cases "odd x") (simp_all add: and_one_eq odd_iff_mod_2_eq_one)

definition valid_id :: "u8 \<Rightarrow> bool" where
  "valid_id n \<longleftrightarrow> n \<noteq> 0 \<and> n \<noteq> 0xFF"

lemma transfer_poll_post:
  "returns (transfer_poll ker bus port state hint p s sz sio)
    (\<lambda>(r, out, sz', n70, sio'). n70 \<le> 1 \<and> r \<le> 0 \<and> (r = 0 \<longrightarrow> valid_id (out ! 1)))"
  unfolding transfer_poll_def
  by (intro returns_rules returns_bind [OF transfer_pad_post])
    (auto simp: valid_id_def response_looks_like_pad_def and_one_le split: if_splits)

section \<open>Port states\<close>

text \<open>The fields that describe the link, within their ranges.\<close>

definition link_ok :: "ef2pad_port_state \<Rightarrow> bool" where
  "link_ok s \<longleftrightarrow> timing_profile s \<le> 1 \<and> stat70_bit s \<le> 1 \<and> rumble_supported s \<le> 1 \<and> length (pressure s) = 12"

definition port_ok :: "ef2pad_port_state \<Rightarrow> bool" where
  "port_ok s \<longleftrightarrow> link_ok s \<and> (connected s = 0 \<or> connected s = 1 \<and> valid_id (pad_id s))"

text \<open>What a poll keeps until it commits its outcome.\<close>

definition same_counters :: "ef2pad_port_state \<Rightarrow> ef2pad_port_state \<Rightarrow> bool" where
  "same_counters s s' \<longleftrightarrow> frame s' = frame s \<and> errors s' = errors s \<and> reconnects s' = reconnects s \<and>
    connected s' = connected s"

lemma same_counters_refl [simp]: "same_counters s s"
  by (simp add: same_counters_def)

lemma same_counters_trans: "same_counters s s' \<Longrightarrow> same_counters s' s'' \<Longrightarrow> same_counters s s''"
  by (simp add: same_counters_def)

text \<open>The outcome of an attempt: the link stays in range, and success identifies the controller.\<close>

definition attempt :: "ef2pad_port_state \<Rightarrow> s32 \<Rightarrow> ef2pad_port_state \<Rightarrow> u8 list \<Rightarrow> bool" where
  "attempt s r s' reply \<longleftrightarrow> r \<le> 0 \<and> link_ok s' \<and> same_counters s s' \<and>
    (r = 0 \<longrightarrow> pad_id s' = reply ! 1 \<and> valid_id (reply ! 1))"

definition linked :: "ef2pad_port_state \<Rightarrow> ef2pad_port_state \<Rightarrow> bool" where
  "linked s s' \<longleftrightarrow> link_ok s' \<and> same_counters s s'"

lemma attempt_linked: "attempt s r s' reply \<Longrightarrow> linked s s'"
  by (simp add: attempt_def linked_def)

lemma attempt_trans: "linked s s1 \<Longrightarrow> attempt s1 r s2 reply \<Longrightarrow> attempt s r s2 reply"
  by (auto simp: attempt_def linked_def intro: same_counters_trans)

lemma try_profile_post:
  "link_ok s \<Longrightarrow> p \<le> 1 \<Longrightarrow>
   returns (try_profile ker bus port s hint p s70 sz sio) (\<lambda>(r, s', reply, _). attempt s r s' reply)"
  unfolding try_profile_def
  by (intro returns_rules returns_bind [OF transfer_poll_post]) (auto simp: attempt_def link_ok_def same_counters_def)

lemma try_profile_chain:
  "linked s0 s \<Longrightarrow> p \<le> 1 \<Longrightarrow>
   returns (try_profile ker bus port s hint p s70 sz sio) (\<lambda>(r, s', reply, _). attempt s0 r s' reply)"
  by (rule returns_mono [OF try_profile_post]) (auto simp: linked_def intro: attempt_trans [unfolded linked_def])

lemma discover_pad_chain:
  assumes l: "linked s0 s"
  shows "returns (discover_pad ker bus port s sz sio) (\<lambda>(r, s', reply, _). attempt s0 r s' reply)"
proof -
  have third: "returns (if r = 0 then Some (0, s2, reply, sz, sio) else try_profile ker bus port s2 0 0 1 sz sio)
      (\<lambda>(r, s', reply, _). attempt s0 r s' reply)" if "attempt s0 r s2 reply" for r s2 reply sz sio
    using that try_profile_chain [OF attempt_linked [OF that], of 0 ker bus port 0 1 sz sio] by auto
  have second: "returns (if r = 0 then Some (0, s1, reply, sz, sio)
      else do { (r, s2, reply, sz, sio) \<leftarrow> try_profile ker bus port s1 0 1 0 sz sio;
        if r = 0 then Some (0, s2, reply, sz, sio) else try_profile ker bus port s2 0 0 1 sz sio })
      (\<lambda>(r, s', reply, _). attempt s0 r s' reply)" if "attempt s0 r s1 reply" for r s1 reply sz sio
  proof (rule returns_if)
    show "returns (Some (0, s1, reply, sz, sio)) (\<lambda>(r, s', reply, _). attempt s0 r s' reply)" if "r = 0"
      using that \<open>attempt s0 r s1 reply\<close> by simp
  qed (rule returns_bind [OF try_profile_chain [OF attempt_linked [OF that]]], simp, intro returns_prod, rule third, simp)
  show ?thesis
    unfolding discover_pad_def
    by (rule returns_bind [OF try_profile_chain [OF l]], simp, intro returns_prod, rule second, simp)
qed

lemma flip_profile: "link_ok s \<Longrightarrow> 1 - timing_profile s \<le> 1"
proof -
  assume "link_ok s"
  then have "unat (timing_profile s) \<le> 1" by (simp add: link_ok_def word_le_nat_alt)
  then have "timing_profile s = 0 \<or> timing_profile s = 1"
    by (metis One_nat_def le_Suc_eq le_zero_eq unat_1 unat_eq_zero word_unat_eq_iff)
  then show ?thesis by auto
qed

lemma poll_transfer_post:
  assumes "port_ok s"
  shows "returns (poll_transfer ker bus port s sio) (\<lambda>(r, s', reply, _). attempt s r s' reply)"
proof -
  have l: "linked s s" "timing_profile s \<le> 1" using assms by (simp_all add: port_ok_def linked_def link_ok_def)
  have retry: "returns (if r < 0 then try_profile ker bus port s1 (pad_id s1) (1 - timing_profile s1) 0 sz sio
      else Some (r, s1, reply, sz, sio)) (\<lambda>(r, s', reply, _). attempt s r s' reply)"
    if "attempt s r s1 reply" for r s1 reply sz sio
    using that try_profile_chain [OF attempt_linked [OF that], of "1 - timing_profile s1" ker bus port "pad_id s1" 0 sz sio]
      flip_profile [of s1] by (simp add: attempt_def)
  have final: "returns (if r < 0 then discover_pad ker bus port s2 sz sio else Some (r, s2, reply, sz, sio))
      (\<lambda>(r, s', reply, _). attempt s r s' reply)" if "attempt s r s2 reply" for r s2 reply sz sio
    using that discover_pad_chain [OF attempt_linked [OF that], of ker bus port sz sio] by simp
  show ?thesis
    unfolding poll_transfer_def
  proof (rule returns_if)
    show "returns (discover_pad ker bus port s 0 sio) (\<lambda>(r, s', reply, _). attempt s r s' reply)"
      by (rule discover_pad_chain [OF l(1)])
  qed (rule returns_bind [OF try_profile_chain [OF l]], intro returns_prod, rule returns_bind [OF retry],
      simp, intro returns_prod, rule final, simp)
qed

section \<open>Configuration\<close>

definition tuned :: "ef2pad_port_state \<Rightarrow> ef2pad_port_state \<Rightarrow> bool" where
  "tuned s s' \<longleftrightarrow> (link_ok s \<longrightarrow> link_ok s') \<and> same_counters s s' \<and> pad_id s' = pad_id s"

lemma tuned_refl: "tuned s s"
  by (simp add: tuned_def)

lemma tuned_stat70: "tuned s0 s \<Longrightarrow> b \<le> 1 \<Longrightarrow> tuned s0 (s\<lparr>stat70_bit := b\<rparr>)"
  by (simp add: tuned_def link_ok_def same_counters_def)

lemma tuned_rumble: "tuned s0 s \<Longrightarrow> b \<le> 1 \<Longrightarrow> tuned s0 (s\<lparr>rumble_supported := b\<rparr>)"
  by (simp add: tuned_def link_ok_def same_counters_def)

lemma transfer_command_post:
  "tuned s0 s \<Longrightarrow> returns (transfer_command ker bus port s input n sio) (\<lambda>(r, out, s', sio'). tuned s0 s')"
  unfolding transfer_command_def
  by (intro returns_rules returns_bind [OF transfer_pad_post]) (auto intro: tuned_stat70 and_one_le)

lemma command_bind:
  "tuned s0 s \<Longrightarrow> (\<And>r out s' sio'. tuned s0 s' \<Longrightarrow> returns (f (r, out, s', sio')) P) \<Longrightarrow>
   returns (Option.bind (transfer_command ker bus port s input n sio) f) P"
  by (rule returns_bind [OF transfer_command_post]) auto

lemma configure_post: "returns (configure_dualshock ker bus port s sio) (\<lambda>(r, s', _). tuned s s')"
proof -
  have last: "returns (do { (exit_result, output, state, sio) \<leftarrow> transfer_command ker bus port s' input n sio;
       if a < 0 then Some (a, state, sio)
       else if exit_result < 0 then Some (exit_result, state, sio)
       else Some (0, state, sio) }) (\<lambda>(r, s', _). tuned s s')" if "tuned s s'" for a s' input n sio
    by (rule command_bind [OF that]) simp
  have rumble: "tuned s (s'\<lparr>rumble_supported := if b then 1 else 0\<rparr>)" if "tuned s s'" for b s'
    by (rule tuned_rumble [OF that]) simp
  show ?thesis
    unfolding configure_dualshock_def Let_def
    apply (rule command_bind [OF tuned_refl], unfold prod.case, rule returns_if, simp)
    apply (rule command_bind, assumption, unfold prod.case)
    apply (rule command_bind, assumption, unfold prod.case)
    apply (rule command_bind, assumption, unfold prod.case)
    apply (rule last, rule rumble, assumption)
    done
qed

section \<open>The whole state\<close>

definition pad_ok :: "'w pad \<Rightarrow> bool" where
  "pad_ok st \<longleftrightarrow> length (g_ports st) = 2 \<and>
    (\<forall>p < 2. length (g_ports st ! p) = 4 \<and> (\<forall>k < 4. port_ok (g_ports st ! p ! k))) \<and>
    length (g_slot_count st) = 2 \<and> (\<forall>p < 2. 1 \<le> g_slot_count st ! p \<and> g_slot_count st ! p \<le> 4) \<and>
    length (g_selected_slot st) = 2"

text \<open>Changes outside the port states.\<close>

definition same_ports :: "'w pad \<Rightarrow> 'w pad \<Rightarrow> bool" where
  "same_ports st st' \<longleftrightarrow> g_ports st' = g_ports st"

lemma slot_count_post: "returns (ef2_sio2_mtap_get_slot_count ker bus port sio) (\<lambda>(r, _). r \<le> 4)"
  unfolding ef2_sio2_mtap_get_slot_count_def Let_def
  by (rule returns_if, simp, rule returns_bind [OF transfer_raw_post]) auto

lemma refresh_port_post:
  assumes "pad_ok st" "port < 2"
  shows "returns (refresh_topology_port ker bus port st) (\<lambda>st'. pad_ok st' \<and> same_ports st st' \<and> g_pad_reply st' = g_pad_reply st)"
proof -
  have p: "unat port < 2" using assms(2) by (simp add: word_less_nat_alt)
  have c: "1 \<le> (word_of_int slots :: u8) \<and> word_of_int slots \<le> (4 :: u8)" if "2 \<le> slots" "slots \<le> 4" for slots
  proof -
    have "slots = 2 \<or> slots = 3 \<or> slots = 4" using that by linarith
    then show ?thesis by (auto simp: word_le_nat_alt)
  qed
  show ?thesis
    unfolding refresh_topology_port_def
    by (rule returns_bind [OF slot_count_post])
      (use assms(1) p c in \<open>auto simp: pad_ok_def same_ports_def nth_list_update word_le_nat_alt Let_def\<close>)
qed

lemma select_slot_post: "returns (ef2_sio2_mtap_select_slot ker bus port slot sio) (\<lambda>(r, _). r \<le> 0)"
proof -
  have "returns (select_slot_loop n ker bus p slot command out res st) (\<lambda>(r, _). r \<le> 0)" for n p command out res and st :: "'a sio2"
  proof (induction n arbitrary: out res st)
    case (Suc n)
    show ?case
      unfolding select_slot_loop.simps
      by (rule returns_bind [OF transfer_raw_post], intro returns_rules) (simp_all add: Suc.IH)
  qed simp
  then show ?thesis by (simp add: ef2_sio2_mtap_select_slot_def)
qed

lemma pad_ok_frame:
  "pad_ok (st\<lparr>pad_sio2 := sio\<rparr>) = pad_ok st" "same_ports st (st'\<lparr>pad_sio2 := sio\<rparr>) = same_ports st st'"
  "same_ports st (st'\<lparr>g_selected_slot := l\<rparr>) = same_ports st st'"
  "same_ports (st\<lparr>pad_sio2 := sio\<rparr>) st' = same_ports st st'" "same_ports st st"
  by (simp_all add: pad_ok_def same_ports_def)

lemma pad_ok_selected: "pad_ok st \<Longrightarrow> pad_ok (st\<lparr>g_selected_slot := (g_selected_slot st)[i := v]\<rparr>)"
  by (simp add: pad_ok_def)

lemma select_endpoint_post:
  assumes "pad_ok st" "port < 2"
  shows "returns (select_endpoint ker bus port slot st)
    (\<lambda>(r, st'). r \<le> 0 \<and> pad_ok st' \<and> same_ports st st' \<and> g_pad_reply st' = g_pad_reply st)"
proof -
  have second: "returns (if g_slot_count st2 ! unat port \<le> 1 then Some (if slot = 0 then 0 else -1, st2)
      else do { (result, sio) \<leftarrow> ef2_sio2_mtap_select_slot ker bus port slot (pad_sio2 st2);
        let st = st2\<lparr>pad_sio2 := sio\<rparr>;
        if result < 0 then Some (result, st)
        else Some (0, st\<lparr>g_selected_slot := (g_selected_slot st)[unat port := ucast slot]\<rparr>) })
      (\<lambda>(r, st'). r \<le> 0 \<and> pad_ok st' \<and> same_ports st st' \<and> g_pad_reply st' = g_pad_reply st)"
    if "pad_ok st2" "same_ports st st2" "g_pad_reply st2 = g_pad_reply st" for st2
    by (intro returns_if returns_bind [OF select_slot_post])
      (use that in \<open>auto simp: Let_def pad_ok_frame intro!: pad_ok_selected [of "st2\<lparr>pad_sio2 := _\<rparr>", simplified]\<close>)
  have first: "returns (let st1 = st\<lparr>pad_sio2 := sio\<rparr> in
      if result < 0 then do {
         st \<leftarrow> refresh_topology_port ker bus port st1;
         if g_slot_count st ! unat port \<le> 1 then Some (if slot = 0 then 0 else -1, st)
         else do {
           (result, sio) \<leftarrow> ef2_sio2_mtap_select_slot ker bus port slot (pad_sio2 st);
           let st = st\<lparr>pad_sio2 := sio\<rparr>;
           if result < 0 then Some (result, st)
           else Some (0, st\<lparr>g_selected_slot := (g_selected_slot st)[unat port := ucast slot]\<rparr>) } }
       else Some (0, st1\<lparr>g_selected_slot := (g_selected_slot st1)[unat port := ucast slot]\<rparr>))
      (\<lambda>(r, st'). r \<le> 0 \<and> pad_ok st' \<and> same_ports st st' \<and> g_pad_reply st' = g_pad_reply st)" for result sio
  proof (intro returns_let returns_if, goal_cases)
    case (1 st1)
    then have "pad_ok st1" using assms(1) by (simp add: pad_ok_frame)
    then show ?case
      by (rule returns_bind [OF refresh_port_post [OF _ assms(2)]])
        (use 1 second in \<open>auto simp: pad_ok_frame\<close>)
  next
    case (2 st1)
    then show ?case using pad_ok_selected [of st1] assms(1) by (simp add: pad_ok_frame)
  qed
  show ?thesis
    unfolding select_endpoint_def
  proof (intro returns_if)
    show "returns (do { (result, sio) \<leftarrow> ef2_sio2_mtap_select_slot ker bus port slot (pad_sio2 st);
       let st = st\<lparr>pad_sio2 := sio\<rparr>;
       if result < 0 then do {
         st \<leftarrow> refresh_topology_port ker bus port st;
         if g_slot_count st ! unat port \<le> 1 then Some (if slot = 0 then 0 else -1, st)
         else do {
           (result, sio) \<leftarrow> ef2_sio2_mtap_select_slot ker bus port slot (pad_sio2 st);
           let st = st\<lparr>pad_sio2 := sio\<rparr>;
           if result < 0 then Some (result, st)
           else Some (0, st\<lparr>g_selected_slot := (g_selected_slot st)[unat port := ucast slot]\<rparr>) } }
       else Some (0, st\<lparr>g_selected_slot := (g_selected_slot st)[unat port := ucast slot]\<rparr>) })
      (\<lambda>(r, st'). r \<le> 0 \<and> pad_ok st' \<and> same_ports st st' \<and> g_pad_reply st' = g_pad_reply st)"
      by (rule returns_bind [OF select_slot_post], intro returns_prod, rule first)
  qed (use assms in \<open>simp_all add: pad_ok_frame\<close>)
qed

section \<open>Polling\<close>

text \<open>
  What a poll does to the state of its port, from the result \<open>sel\<close> of selecting the endpoint
  and its own result \<open>r\<close>.  An endpoint that cannot be selected is disconnected without an
  error; a controller that does not answer counts one.
\<close>

definition poll_outcome :: "s32 \<Rightarrow> ef2pad_port_state \<Rightarrow> s32 \<Rightarrow> ef2pad_port_state \<Rightarrow> bool" where
  "poll_outcome sel s r s' \<longleftrightarrow>
    (if sel < 0 then r = sel \<and> s' = s\<lparr>connected := 0, buttons := 0\<rparr>
     else if r = 0 then connected s' = 1 \<and> valid_id (pad_id s') \<and> frame s' = frame s + 1 \<and> errors s' = errors s \<and>
       reconnects s' = (if connected s = 0 then reconnects s + 1 else reconnects s)
     else r < 0 \<and> connected s' = 0 \<and> buttons s' = 0 \<and> pad_id s' = 0 \<and> config_attempted s' = 0 \<and>
       rumble_supported s' = 0 \<and> rumble_small s' = 0 \<and> rumble_large s' = 0 \<and>
       right_x s' = 0x80 \<and> right_y s' = 0x80 \<and> left_x s' = 0x80 \<and> left_y s' = 0x80 \<and>
       frame s' = frame s \<and> reconnects s' = reconnects s \<and> errors s' = errors s + 1)"

lemma port_ok_put:
  assumes "pad_ok st" "port < 2" "slot < 4" "port_ok s"
  shows "pad_ok (put_port_state st port slot s)"
proof -
  have "unat port < 2" "unat slot < 4" using assms(2,3) by (simp_all add: word_less_nat_alt)
  then show ?thesis
    using assms(1,4) by (auto simp: pad_ok_def put_port_state_def nth_list_update)
qed

lemma port_ok_get: "pad_ok st \<Longrightarrow> port < 2 \<Longrightarrow> slot < 4 \<Longrightarrow> port_ok (port_state st port slot)"
  by (simp add: pad_ok_def port_state_def word_less_nat_alt)

lemma parse_reply_fields [simp]:
  "connected (parse_reply s reply n) = connected s" "pad_id (parse_reply s reply n) = pad_id s"
  "frame (parse_reply s reply n) = frame s" "errors (parse_reply s reply n) = errors s"
  "reconnects (parse_reply s reply n) = reconnects s" "link_ok s \<Longrightarrow> link_ok (parse_reply s reply n)"
  by (simp_all add: parse_reply_def Let_def link_ok_def)

lemma poll_again_post:
  assumes "attempt s0 0 s reply"
  shows "returns (poll_again ker bus port previous s reply sz sio)
    (\<lambda>(s', reply', _). link_ok s' \<and> same_counters s0 s' \<and> valid_id (pad_id s'))"
proof -
  have p: "timing_profile s \<le> 1" using assms by (simp add: attempt_def link_ok_def)
  show ?thesis
    unfolding poll_again_def Let_def
    by (intro returns_if returns_bind [OF try_profile_chain [OF attempt_linked [OF assms] p]])
      (use assms in \<open>auto simp: attempt_def link_ok_def same_counters_def\<close>)
qed

lemma configured_post:
  "returns (if b then do { (_, s', sio) \<leftarrow> configure_dualshock ker bus port (s\<lparr>config_attempted := 1\<rparr>) sio; Some (s', sio) }
     else Some (s, sio)) (\<lambda>(s', _). (link_ok s \<longrightarrow> link_ok s') \<and> same_counters s s' \<and> pad_id s' = pad_id s)"
  by (intro returns_if returns_bind [OF configure_post])
    (auto simp: tuned_def link_ok_def same_counters_def)

lemma poll_commit:
  fixes st :: "'w pad"
  assumes "link_ok s1" "same_counters s0 s1" "valid_id (pad_id s1)"
  shows "returns (do {
         let state = (if q then s1\<lparr>config_attempted := 0\<rparr> else s1);
         (state, sio) \<leftarrow>
           (if config_attempted state = 0 \<and> should_configure_pad (pad_id state) then do {
              (_, state, sio) \<leftarrow> configure_dualshock ker bus port (state\<lparr>config_attempted := 1\<rparr>) sio;
              Some (state, sio) }
            else Some (state, sio));
         let state = state\<lparr>connected := 1, frame := frame state + 1\<rparr>;
         let state = (if connected s0 = 0 then state\<lparr>reconnects := reconnects state + 1\<rparr> else state);
         Some (0, put_port_state (st\<lparr>pad_sio2 := sio\<rparr>) port slot (parse_reply state reply sz)) })
    (\<lambda>(r, st'). \<exists>s'. r = 0 \<and> st' = put_port_state (st\<lparr>pad_sio2 := pad_sio2 st'\<rparr>) port slot s' \<and> poll_outcome 0 s0 0 s' \<and> port_ok s')"
proof (rule returns_let)
  fix s2 assume s2: "s2 = (if q then s1\<lparr>config_attempted := 0\<rparr> else s1)"
  have l: "link_ok s2 \<and> same_counters s0 s2 \<and> valid_id (pad_id s2)"
    using assms by (simp add: s2 link_ok_def same_counters_def)
  show "returns (do { (state, sio) \<leftarrow>
           (if config_attempted s2 = 0 \<and> should_configure_pad (pad_id s2) then do {
              (_, state, sio) \<leftarrow> configure_dualshock ker bus port (s2\<lparr>config_attempted := 1\<rparr>) sio;
              Some (state, sio) }
            else Some (s2, sio));
         let state = state\<lparr>connected := 1, frame := frame state + 1\<rparr>;
         let state = (if connected s0 = 0 then state\<lparr>reconnects := reconnects state + 1\<rparr> else state);
         Some (0, put_port_state (st\<lparr>pad_sio2 := sio\<rparr>) port slot (parse_reply state reply sz)) })
    (\<lambda>(r, st'). \<exists>s'. r = 0 \<and> st' = put_port_state (st\<lparr>pad_sio2 := pad_sio2 st'\<rparr>) port slot s' \<and> poll_outcome 0 s0 0 s' \<and> port_ok s')"
  proof (rule returns_bind [OF configured_post], intro returns_prod)
    fix x s3 and sio' :: "'w sio2"
    assume "case x of (s', _) \<Rightarrow> (link_ok s2 \<longrightarrow> link_ok s') \<and> same_counters s2 s' \<and> pad_id s' = pad_id s2" and "x = (s3, sio')"
    then have s3: "link_ok s3" "same_counters s0 s3" "valid_id (pad_id s3)"
      using l by (auto intro: same_counters_trans)
    let ?s4 = "s3\<lparr>connected := 1, frame := frame s3 + 1\<rparr>"
    let ?s5 = "if connected s0 = 0 then ?s4\<lparr>reconnects := reconnects ?s4 + 1\<rparr> else ?s4"
    have "link_ok ?s5" using s3(1) by (simp add: link_ok_def)
    then have "poll_outcome 0 s0 0 (parse_reply ?s5 reply sz)" "port_ok (parse_reply ?s5 reply sz)"
      using s3 by (simp_all add: poll_outcome_def port_ok_def same_counters_def)
    then show "returns (let state = s3\<lparr>connected := 1, frame := frame s3 + 1\<rparr>;
         state = (if connected s0 = 0 then state\<lparr>reconnects := reconnects state + 1\<rparr> else state)
       in Some (0, put_port_state (st\<lparr>pad_sio2 := sio'\<rparr>) port slot (parse_reply state reply sz)))
      (\<lambda>(r, st'). \<exists>s'. r = 0 \<and> st' = put_port_state (st\<lparr>pad_sio2 := pad_sio2 st'\<rparr>) port slot s' \<and> poll_outcome 0 s0 0 s' \<and> port_ok s')"
      by (auto simp: Let_def put_port_state_def intro!: exI [of _ "parse_reply ?s5 reply sz"])
  qed
qed

end
