(* ===== verification/PadProps.thy ===== *)
theory PadProps
  imports PadSpec
begin

text \<open>
  The invariant of the pad module over every sequence of requests, and the outcome of a poll.
\<close>

lemma put_port_state_frame [simp]:
  "g_ports (put_port_state st port slot s) = (g_ports st)[unat port := (g_ports st ! unat port)[unat slot := s]]"
  "g_slot_count (put_port_state st port slot s) = g_slot_count st"
  "g_selected_slot (put_port_state st port slot s) = g_selected_slot st"
  "g_pad_reply (put_port_state st port slot s) = g_pad_reply st"
  "pad_sio2 (put_port_state st port slot s) = pad_sio2 st"
  by (simp_all add: put_port_state_def)

lemma commit_post:
  assumes "pad_ok st1" "same_ports st st1" "g_pad_reply st1 = g_pad_reply st" "port < 2" "slot < 4" "\<not> sel < 0"
    and "\<exists>s'. r = 0 \<and> st' = put_port_state (st1\<lparr>pad_sio2 := pad_sio2 st'\<rparr>) port slot s' \<and> poll_outcome 0 s0 0 s' \<and> port_ok s'"
  shows "\<exists>s'. pad_ok st' \<and> g_pad_reply st' = g_pad_reply st \<and>
      g_ports st' = g_ports (put_port_state st port slot s') \<and> poll_outcome sel s0 r s' \<and> port_ok s'"
proof -
  obtain s' where s': "r = 0" "st' = put_port_state (st1\<lparr>pad_sio2 := pad_sio2 st'\<rparr>) port slot s'" "poll_outcome 0 s0 0 s'" "port_ok s'"
    using assms(7) by blast
  have "pad_ok (put_port_state (st1\<lparr>pad_sio2 := pad_sio2 st'\<rparr>) port slot s')"
    by (rule port_ok_put) (use assms s' in \<open>simp_all add: pad_ok_frame\<close>)
  then have "pad_ok st'" using s'(2) by simp
  moreover have "g_pad_reply st' = g_pad_reply st" by (subst s'(2)) (simp add: assms(3))
  moreover have "g_ports st' = g_ports (put_port_state st port slot s')"
    by (subst s'(2)) (use assms(2) in \<open>simp add: same_ports_def\<close>)
  moreover have "poll_outcome sel s0 0 s'" using s'(3) assms(6) by (simp add: poll_outcome_def)
  ultimately show ?thesis using s' by blast
qed

lemma returns_bind_eq:
  "returns m Q \<Longrightarrow> (\<And>x. m = Some x \<Longrightarrow> Q x \<Longrightarrow> returns (f x) P) \<Longrightarrow> returns (Option.bind m f) P"
  by (cases m) (simp_all add: returns_def)

lemma poll_slot_post:
  assumes ok: "pad_ok st" and port: "port < 2" and slot: "slot < 4"
  shows "returns (poll_slot ker bus port slot st)
    (\<lambda>(r, st'). \<exists>sel st1 s'. select_endpoint ker bus port slot st = Some (sel, st1) \<and>
      pad_ok st' \<and> g_pad_reply st' = g_pad_reply st \<and>
      g_ports st' = g_ports (put_port_state st port slot s') \<and>
      poll_outcome sel (port_state st port slot) r s' \<and> port_ok s')"
proof -
  let ?s = "port_state st port slot"
  let ?P = "\<lambda>sel (r, st'). \<exists>s'. pad_ok st' \<and> g_pad_reply st' = g_pad_reply st \<and>
      g_ports st' = g_ports (put_port_state st port slot s') \<and> poll_outcome sel ?s r s' \<and> port_ok s'"
  have s: "port_ok ?s" by (rule port_ok_get [OF ok port slot])
  have post: "?P sel (r, put_port_state st2 port slot s')"
    if "pad_ok st2" "same_ports st st2" "g_pad_reply st2 = g_pad_reply st" "poll_outcome sel ?s r s'" "port_ok s'"
    for sel r st2 s'
    using that port_ok_put [OF that(1) port slot that(5)] by (auto simp: same_ports_def intro!: exI [of _ s'])
  show ?thesis
    unfolding poll_slot_def
    apply (intro returns_let)
    apply (simp only:)
    apply (rule returns_bind_eq [OF select_endpoint_post [OF ok port]])
    apply (rule returns_prod, simp only: prod.case, elim conjE)
    subgoal for state was previous x sel st1
      apply (rule returns_mono [where Q = "?P sel"])
       apply (rule returns_if)
      subgoal
        unfolding returns_Some
        by (rule post) (use s in \<open>simp_all add: poll_outcome_def port_ok_def link_ok_def\<close>)
       apply (rule returns_bind [OF poll_transfer_post [OF s]])
       apply (rule returns_prod, rule returns_prod, rule returns_prod, rule returns_prod, simp only: prod.case)
       apply (rule returns_if)
      subgoal for y r2 a s2 b reply c sz sio
        unfolding returns_Some
        by (rule post)
          (auto simp: pad_ok_frame poll_outcome_def attempt_def same_counters_def port_ok_def link_ok_def)
      subgoal for y r2 a s2 b reply c sz sio
      proof -
        assume st1: "pad_ok st1" "same_ports st st1" "g_pad_reply st1 = g_pad_reply st"
          and sel: "\<not> sel < 0" and "attempt ?s r2 s2 reply" "\<not> r2 < 0"
        then have at: "attempt ?s 0 s2 reply" by (auto simp: attempt_def)
        show ?thesis
          apply (rule returns_bind [OF poll_again_post [OF at]])
          apply (rule returns_prod, rule returns_prod, rule returns_prod, simp only: prod.case, elim conjE)
          apply (rule returns_mono [OF poll_commit [where st = st1]], assumption, assumption, assumption)
          subgoal for z s3 d reply3 e sz3 sio3 w
            by (cases w) (use commit_post [OF st1 port slot sel] in \<open>simp only: prod.case\<close>)
          done
      qed
      subgoal for y by (cases y) auto
      done
    done
qed

lemma u8_one_le_four: "(1 :: u8) \<le> 4"
  by (simp add: word_le_nat_alt)

section \<open>The dispatcher keeps the invariant\<close>

lemma pad_ok_reply [simp]:
  "pad_ok (st\<lparr>g_pad_reply := r\<rparr>) = pad_ok st" "pad_ok (set_result v st) = pad_ok st"
  "pad_ok (set_slot_state s st) = pad_ok st" "pad_ok (fill_topology_reply st) = pad_ok st"
  by (simp_all add: pad_ok_def set_result_def set_slot_state_def fill_topology_reply_def)

lemma refresh_topology_post: "pad_ok st \<Longrightarrow> returns (refresh_topology ker bus st) pad_ok"
  unfolding refresh_topology_def
  by (rule returns_bind [OF refresh_port_post], assumption, simp, elim conjE, rule returns_mono [OF refresh_port_post])
    auto

lemma poll_slot_ok:
  "pad_ok st \<Longrightarrow> port < 2 \<Longrightarrow> slot < 4 \<Longrightarrow> returns (poll_slot ker bus port slot st) (\<lambda>(_, st'). pad_ok st')"
  by (rule returns_mono [OF poll_slot_post]) auto

lemma poll_masked_post:
  "pad_ok st \<Longrightarrow> port < 2 \<Longrightarrow> returns (poll_masked ker bus m port st) pad_ok"
  unfolding poll_masked_def by (intro returns_if returns_bind [OF poll_slot_ok]) auto

lemma set_rumble_ok: "pad_ok st \<Longrightarrow> pad_ok (set_rumble port slot request st)"
proof (cases "port \<ge> 2 \<or> slot \<ge> 4")
  case False
  assume ok: "pad_ok st"
  have "port_ok (port_state st port slot)" by (rule port_ok_get) (use ok False in auto)
  then have "port_ok ((port_state st port slot)\<lparr>rumble_small := a, rumble_large := b\<rparr>)" for a b
    by (simp add: port_ok_def link_ok_def)
  then have "pad_ok (put_port_state st port slot ((port_state st port slot)\<lparr>rumble_small := a, rumble_large := b\<rparr>))" for a b
    by (intro port_ok_put) (use ok False in auto)
  then show ?thesis using ok by (simp add: set_rumble_def Let_def)
qed (auto simp: set_rumble_def)

lemma ucast_u8_less: "ucast (a :: u8) < (ucast b :: u32) \<longleftrightarrow> a < b"
  by (simp add: word_less_nat_alt)

lemma pad_rpc_function_post:
  assumes "pad_ok st"
  shows "returns (pad_rpc_function ker bus f request len st) pad_ok"
proof -
  have slot: "returns (do { (_, st) \<leftarrow> poll_slot ker bus (ucast (req_port request)) (ucast (req_slot request)) st;
      Some (set_slot_state (port_state st (ucast (req_port request)) (ucast (req_slot request))) st) }) pad_ok"
    if "\<not> (len < 12 \<or> req_port request \<ge> 2 \<or> req_slot request \<ge> 4)"
    by (rule returns_bind [OF poll_slot_ok [OF assms]])
      (use that ucast_u8_less [of "req_port request" 2] ucast_u8_less [of "req_slot request" 4] in \<open>auto simp: not_le\<close>)
  have masked: "returns (do { st \<leftarrow> poll_masked ker bus (req_port_mask request) 0 st;
      poll_masked ker bus (req_port_mask request) 1 st }) pad_ok"
    by (rule returns_bind [OF poll_masked_post [OF assms]]) (auto intro: poll_masked_post)
  show ?thesis
    unfolding pad_rpc_function_def Let_def
    by (intro returns_if refresh_topology_post assms slot masked) (use assms in \<open>simp_all add: set_rumble_ok\<close>)
qed

lemma pad_rpc_handler_post:
  "pad_ok st \<Longrightarrow> returns (pad_rpc_handler ker bus f request len st) pad_ok"
  unfolding pad_rpc_handler_def
  by (rule returns_bind [OF pad_rpc_function_post]) (simp_all add: Let_def)

lemma pad_start_ok: "pad_ok (snd (pad_start ker bus st))"
proof -
  have "pad_ok (st\<lparr>g_slot_count := [1, 1], g_selected_slot := [0, 0], g_ports := replicate 2 (replicate 4 fresh_port_state)\<rparr>)"
    by (auto simp: pad_ok_def port_ok_def link_ok_def fresh_port_state_def less_Suc_eq numeral_2_eq_2 u8_one_le_four)
  then show ?thesis
    by (simp add: pad_start_def Let_def case_prod_beta) (simp add: pad_ok_def)
qed

text \<open>The states of the module after its start and any sequence of requests.\<close>

inductive pad_reachable :: "'w iop_kernel \<Rightarrow> 'w bus \<Rightarrow> 'w pad \<Rightarrow> bool" for ker bus where
  started: "pad_start ker bus st0 = (r, st) \<Longrightarrow> pad_reachable ker bus st"
| served: "pad_reachable ker bus st \<Longrightarrow> pad_rpc_handler ker bus f request len st = Some st' \<Longrightarrow> pad_reachable ker bus st'"

section \<open>A concrete module\<close>

definition off_pad :: "unit pad" where
  "off_pad = \<lparr>pad_sio2 = \<lparr>sio2_dev = (), sio2_transfer_sema = 0, sio2_irq_sema = 0, sio2_initialized = False\<rparr>,
    g_ports = replicate 2 (replicate 4 fresh_port_state), g_slot_count = [1, 1], g_selected_slot = [0, 0],
    g_pad_ready_sema = 0, g_pad_reply = \<lparr>pr_result = 0, pr_slot_count = [], pr_port = [],
      pr_slot_state = fill_rpc_port fresh_port_state\<rparr>\<rparr>"

lemma off_pad_ok: "pad_ok off_pad"
  by (auto simp: off_pad_def pad_ok_def port_ok_def link_ok_def fresh_port_state_def less_Suc_eq numeral_2_eq_2 u8_one_le_four)

section \<open>Properties\<close>

text \<open>
  C20: In every state that the pad module can reach, whatever the controllers, the multitap and the
  kernel answer and whatever the requests contain, the tables keep their shape, each port has one to
  four slots, the timing profile and the STAT70 bit stay 0 or 1, and a connected controller has an
  identity other than 0 and 0xFF.
\<close>

theorem pad_module_invariant:
  "pad_reachable ker bus st \<Longrightarrow> pad_ok st"
proof (induction rule: pad_reachable.induct)
  case (started st0 r st)
  then show ?case using pad_start_ok [of ker bus st0] by simp
next
  case (served st f request len st')
  then show ?case using returnsD [OF pad_rpc_handler_post] by blast
qed

theorem pad_module_invariant_witness:
  "pad_ok (snd (pad_start quiet_kernel silent_bus off_pad))"
  by (rule pad_module_invariant [of quiet_kernel silent_bus]) (rule pad_reachable.started [of _ _ off_pad], simp add: prod_eq_iff)

text \<open>
  C21: A poll changes the state of its own slot only.  When it succeeds the controller is connected with
  a valid identity, the frame counter grows by one, the reconnect counter exactly when the controller
  was not connected before, and the error counter not at all.  When the endpoint cannot be selected, the
  controller is disconnected with no button held and nothing else changes, the error counter included.
  When the endpoint is selected and no transfer is answered, exactly one error is counted and the
  identity, the rumble state and the sticks are reset.
\<close>

theorem pad_poll_outcome:
  assumes "pad_ok st" "port < 2" "slot < 4" and "poll_slot ker bus port slot st = Some (r, st')"
    and "select_endpoint ker bus port slot st = Some (sel, st1)"
  shows "poll_outcome sel (port_state st port slot) r (port_state st' port slot) \<and>
    (\<forall>p < 2. \<forall>k < 4. (p, k) \<noteq> (unat port, unat slot) \<longrightarrow> g_ports st' ! p ! k = g_ports st ! p ! k)"
proof -
  obtain s' where s': "g_ports st' = g_ports (put_port_state st port slot s')"
    "poll_outcome sel (port_state st port slot) r s'"
    using returnsD [OF poll_slot_post [OF assms(1-3)] assms(4)] assms(5) by auto
  have i: "unat port < 2" "unat slot < 4" using assms(2,3) by (simp_all add: word_less_nat_alt)
  have "port_state st' port slot = s'"
    unfolding port_state_def s'(1) using assms(1) i by (simp add: pad_ok_def)
  then show ?thesis using s' assms(1) i by (auto simp: pad_ok_def nth_list_update)
qed

theorem pad_poll_outcome_witness:
  "\<exists>r st'. poll_slot quiet_kernel silent_bus 1 0 off_pad = Some (r, st') \<and> r \<noteq> 0 \<and>
    errors (port_state st' 1 0) = 1 \<and> connected (port_state st' 1 0) = 0"
proof -
  obtain r st' where p: "poll_slot quiet_kernel silent_bus 1 0 off_pad = Some (r, st')" "r \<noteq> 0"
    by (simp add: poll_slot_def select_endpoint_def poll_transfer_def discover_pad_def try_profile_def
      transfer_poll_def ef2_sio2_transfer_pad_def ef2_sio2_transfer_raw_def port_state_def Let_def off_pad_def fresh_port_state_def)
  have e: "select_endpoint quiet_kernel silent_bus 1 0 off_pad = Some (0, off_pad)"
    by (simp add: select_endpoint_def off_pad_def)
  have "errors (port_state off_pad 1 0) = 0" by (simp add: port_state_def off_pad_def fresh_port_state_def)
  then show ?thesis
    using pad_poll_outcome [OF off_pad_ok _ _ p(1) e] p by (simp add: poll_outcome_def)
qed

end
