(* ===== verification/PadClientProps.thy ===== *)
theory PadClientProps
  imports PadClient PadProps
begin

text \<open>
  The properties of the controller helpers, and the pad client on top of the pad module.
\<close>

section \<open>Stick axes\<close>

text \<open>The axis value without the conversions to 16 bits.\<close>

definition axis_value :: "int \<Rightarrow> int \<Rightarrow> int" where
  "axis_value delta dz =
    (if dz < delta then (delta - dz) * 32767 div (127 - dz)
     else if delta < - dz then - ((- delta - dz) * 32768 div (128 - dz))
     else 0)"

lemma scaled_range:
  assumes "0 \<le> x" "x \<le> d" "0 < (d :: int)" "0 \<le> m"
  shows "0 \<le> x * m div d" "x * m div d \<le> m"
proof -
  show "0 \<le> x * m div d" using assms by (simp add: pos_imp_zdiv_nonneg_iff)
  have "x * m div d \<le> d * m div d" using assms by (intro zdiv_mono1 mult_right_mono) auto
  then show "x * m div d \<le> m" using assms(3) by simp
qed

lemma axis_range:
  assumes "- 128 \<le> delta" "delta \<le> 127" "0 \<le> dz" "dz < 127"
  shows "- 32768 \<le> axis_value delta dz" "axis_value delta dz \<le> 32767"
  using scaled_range [of "delta - dz" "127 - dz" 32767] scaled_range [of "- delta - dz" "128 - dz" 32768] assms
  by (auto simp: axis_value_def)

lemma sint_16: "- 32768 \<le> v \<Longrightarrow> v \<le> 32767 \<Longrightarrow> sint (word_of_int v :: 16 word) = v"
proof -
  assume "- 32768 \<le> v" "v \<le> 32767"
  then have "signed_take_bit 15 v = v" by (intro signed_take_bit_int_eq_self) auto
  then show ?thesis by (simp add: sint_sbintrunc')
qed

lemma unat_u8: "unat (x :: u8) < 256"
  using unsigned_less [of x, where 'a = nat] by simp

lemma deadzone_value:
  "ef2_pad_axis_deadzone raw deadzone =
    (if deadzone \<ge> 127 then 0 else axis_value (int (unat raw) - 128) (int (unat deadzone)))"
proof (cases "deadzone \<ge> 127")
  case False
  then have "unat deadzone < 127" by (simp add: word_le_nat_alt)
  then have dz: "int (unat deadzone) < 127" by linarith
  let ?d = "int (unat raw) - 128" and ?z = "int (unat deadzone)"
  have d: "- 128 \<le> ?d" "?d \<le> 127" using unat_u8 [of raw] by linarith+
  note range = axis_range [OF d _ dz]
  have neg: "c_div ((?d + ?z) * 32768) (128 - ?z) = - ((- ?d - ?z) * 32768 div (128 - ?z))" if "?d < - ?z"
    using that by (simp add: c_div_def algebra_simps)
  have pos: "c_div ((?d - ?z) * 32767) (127 - ?z) = (?d - ?z) * 32767 div (127 - ?z)" if "?z < ?d"
    using that by (simp add: c_div_def)
  consider "?z < ?d" | "?d < - ?z" | "\<not> ?z < ?d" "\<not> ?d < - ?z" by blast
  then show ?thesis
  proof cases
    case 1
    then show ?thesis using False range pos [OF 1]
      by (simp only: ef2_pad_axis_deadzone_def Let_def axis_value_def if_True if_False simp_thms)
        (subst sint_16, simp_all)
  next
    case 2
    moreover have "0 \<le> ?z" by simp
    ultimately have n: "\<not> ?z < ?d" by linarith
    show ?thesis using False range neg [OF 2] 2 n
      by (simp only: ef2_pad_axis_deadzone_def Let_def axis_value_def if_True if_False simp_thms)
        (subst sint_16, simp_all)
  qed (use False in \<open>simp add: ef2_pad_axis_deadzone_def Let_def axis_value_def\<close>)
qed (simp add: ef2_pad_axis_deadzone_def)

lemma axis_mono:
  assumes "a \<le> b" "0 \<le> dz" "dz < 127"
  shows "axis_value a dz \<le> axis_value b dz"
proof -
  have up: "(a - dz) * 32767 div (127 - dz) \<le> (b - dz) * 32767 div (127 - dz)"
    using assms by (intro zdiv_mono1) auto
  have down: "(- b - dz) * 32768 div (128 - dz) \<le> (- a - dz) * 32768 div (128 - dz)"
    using assms by (intro zdiv_mono1) auto
  have pos: "0 \<le> (b - dz) * 32767 div (127 - dz)" if "dz < b" using that assms by (simp add: pos_imp_zdiv_nonneg_iff)
  have neg: "0 \<le> (- a - dz) * 32768 div (128 - dz)" if "a < - dz" using that assms by (simp add: pos_imp_zdiv_nonneg_iff)
  show ?thesis unfolding axis_value_def using assms up down pos neg by auto
qed

lemma axis_zero:
  assumes "0 \<le> dz" "dz < 127"
  shows "axis_value delta dz = 0 \<longleftrightarrow> \<bar>delta\<bar> \<le> dz"
proof -
  have "0 < x * m div d" if "0 < x" "0 < d" "d \<le> m" for x m d :: int
  proof -
    have "d \<le> x * m" using that mult_mono [of 1 x d m] by simp
    then show ?thesis using that by (simp add: pos_imp_zdiv_pos_iff)
  qed
  from this [of "delta - dz" "127 - dz" 32767] this [of "- delta - dz" "128 - dz" 32768]
  show ?thesis using assms by (auto simp: axis_value_def)
qed

lemma axis_ends:
  assumes "0 \<le> dz" "dz < 127"
  shows "axis_value 127 dz = 32767" "axis_value (- 128) dz = - 32768"
proof -
  have "(127 - dz) * 32767 div (127 - dz) = 32767" "(128 - dz) * 32768 div (128 - dz) = 32768"
    using assms(2) by (intro nonzero_mult_div_cancel_left; simp)+
  then show "axis_value 127 dz = 32767" "axis_value (- 128) dz = - 32768"
    using assms by (simp_all only: axis_value_def) auto
qed

section \<open>Properties\<close>

text \<open>
  C22: The dead zone scaling never wraps.  A dead zone of 127 or more gives 0 for every deflection; a
  smaller one gives 0 exactly for the deflections within it, is monotone in the raw axis, and reaches
  exactly 32767 and -32768 at the ends of the axis.
\<close>

theorem axis_deadzone_scaling:
  "if deadzone \<ge> 127 then ef2_pad_axis_deadzone raw deadzone = 0
   else (ef2_pad_axis_deadzone raw deadzone = 0 \<longleftrightarrow> \<bar>int (unat raw) - 128\<bar> \<le> int (unat deadzone)) \<and>
    (raw \<le> raw' \<longrightarrow> ef2_pad_axis_deadzone raw deadzone \<le> ef2_pad_axis_deadzone raw' deadzone) \<and>
    ef2_pad_axis_deadzone 255 deadzone = 32767 \<and> ef2_pad_axis_deadzone 0 deadzone = -32768"
proof (cases "deadzone \<ge> 127")
  case False
  then have "unat deadzone < 127" by (simp add: word_le_nat_alt)
  then have dz: "0 \<le> int (unat deadzone)" "int (unat deadzone) < 127" by linarith+
  have v: "ef2_pad_axis_deadzone x deadzone = axis_value (int (unat x) - 128) (int (unat deadzone))" for x
    using False by (simp add: deadzone_value)
  have "raw \<le> raw' \<Longrightarrow> int (unat raw) - 128 \<le> int (unat raw') - 128"
    unfolding word_le_nat_alt by linarith
  then show ?thesis
    using False axis_zero [OF dz] axis_mono [OF _ dz] axis_ends [OF dz] v [of 255] v [of 0] unfolding v by simp
qed (simp add: deadzone_value)

theorem axis_deadzone_scaling_witness:
  "ef2_pad_axis_deadzone 200 20 \<noteq> 0 \<and> ef2_pad_axis_deadzone 200 20 \<le> ef2_pad_axis_deadzone 210 20 \<and>
    ef2_pad_axis_deadzone 255 20 = 32767 \<and> ef2_pad_axis_deadzone 0 20 = -32768 \<and> ef2_pad_axis_deadzone 0 127 = 0"
  using axis_deadzone_scaling [of 20 200 210] axis_deadzone_scaling [of 127 0]
  by (simp add: word_le_nat_alt)

section \<open>The client on the module\<close>

text \<open>The RPC of the client answered by the dispatcher of the IOP module.\<close>

definition iop_pad_services :: "'w iop_kernel \<Rightarrow> 'w bus \<Rightarrow> ('w pad, pad_request, pad_rpc_reply) sif_services" where
  "iop_pad_services ker bus = \<lparr>
    ef2_sif_init = (\<lambda>w. (0, w)), ef2_iop_exec_module_buffer_ex = (\<lambda>m w. (0, 0, w)),
    ef2_iop_enable_module_buffer = (\<lambda>w. (0, w)), ef2_sif_bind = (\<lambda>sid w. (0, 1, w)),
    ef2_sif_call = (\<lambda>f q n r w. case pad_rpc_handler ker bus f q (sint n) w of
        None \<Rightarrow> (-1, r, w) | Some w' \<Rightarrow> (0, g_pad_reply w', w'))\<rparr>"

lemma ucast_small: "(port :: u32) < 256 \<Longrightarrow> ucast (ucast port :: u8) = port"
proof -
  assume "port < 256"
  then have "unat port < 256" by (simp add: word_less_nat_alt)
  then have "unat (ucast port :: u8) = unat port" by (simp add: unsigned_ucast_eq take_bit_nat_eq_self)
  then show ?thesis by (simp add: word_unat_eq_iff)
qed

lemma handler_poll_slot:
  assumes "pad_ok m" "port < 2" "slot < 4" "slot < ucast (g_slot_count m ! unat port)"
    and req: "req = zero_request\<lparr>req_port := ucast port, req_slot := ucast slot\<rparr>"
    and poll: "poll_slot ker bus port slot (set_result 0 m) = Some (r, m1)"
  shows "\<exists>m'. pad_rpc_handler ker bus 3 req 12 m = Some m' \<and> g_ports m' = g_ports m1 \<and> g_slot_count m' = g_slot_count m1 \<and>
    pr_result (g_pad_reply m') = 0 \<and> pr_slot_state (g_pad_reply m') = fill_rpc_port (port_state m1 port slot) \<and>
    pr_slot_count (g_pad_reply m') = [g_slot_count m1 ! 0, g_slot_count m1 ! 1]"
proof -
  have small: "port < 256" "slot < 256" using assms(2,3) by (auto intro: less_trans simp: word_less_nat_alt)
  have c: "ucast (ucast port :: u8) = port" "ucast (ucast slot :: u8) = slot" using small by (simp_all add: ucast_small)
  have lt: "(ucast port :: u8) < 2" "(ucast slot :: u8) < 4" "(ucast slot :: u8) < g_slot_count m ! unat port"
    using ucast_u8_less [of "ucast port" 2] ucast_u8_less [of "ucast slot" 4]
      ucast_u8_less [of "ucast slot" "g_slot_count m ! unat port"] assms(2-4) by (simp_all add: c)
  have u: "unat (ucast port :: u8) = unat port" by (metis c(1) unat_ucast_u8)
  have keep: "g_pad_reply m1 = g_pad_reply (set_result 0 m)"
    using returnsD [OF poll_slot_post [of "set_result 0 m" port slot ker bus] poll] assms(1-3) by auto
  have count: "g_slot_count (set_result 0 m) = g_slot_count m" by (simp add: set_result_def)
  have "pad_rpc_function ker bus 3 req 12 (set_result 0 m) = Some (set_slot_state (port_state m1 port slot) m1)"
    using lt poll by (simp add: pad_rpc_function_def req zero_request_def c u count not_le)
  then show ?thesis
    using keep by (simp add: pad_rpc_handler_def Let_def set_slot_state_def fill_topology_reply_def set_result_def)
qed

text \<open>
  C23: The pad client and the pad module together: polling a slot that both sides know gives the
  application the state that the module holds for it after the poll: its buttons (none when
  disconnected), pressed and released exactly the changes since the last poll of that slot, its
  identity and counters.
\<close>

theorem pad_poll_end_to_end:
  assumes "g_pad_bound st" "pad_ok (pc_world st)" "port < 2" "slot < 4"
    and "slot < pc_slot_count st ! unat port" "slot < ucast (g_slot_count (pc_world st) ! unat port)"
    and "poll_slot ker bus port slot (set_result 0 (pc_world st)) = Some (r, m)"
    and "s = port_state m port slot" and "before = g_previous_buttons st ! unat port ! unat slot"
    and "now = (if connected s \<noteq> 0 then buttons s else 0)"
  shows "\<exists>state st'. ef2_pad_poll_slot (iop_pad_services ker bus) port slot st = (0, Some state, st') \<and>
    g_ports (pc_world st') = g_ports m \<and> ps_buttons state = now \<and>
    ps_pressed state = now AND NOT before \<and> ps_released state = before AND NOT now \<and>
    ps_connected state = connected s \<and> ps_raw_id state = pad_id s \<and> ps_frame state = frame s \<and> ps_errors state = errors s \<and>
    g_previous_buttons st' = (g_previous_buttons st)[unat port := (g_previous_buttons st ! unat port)[unat slot := now]]"
proof -
  let ?req = "zero_request\<lparr>req_port := ucast port, req_slot := ucast slot\<rparr>"
  obtain m' where m': "pad_rpc_handler ker bus 3 ?req 12 (pc_world st) = Some m'" "g_ports m' = g_ports m"
    "pr_result (g_pad_reply m') = 0" "pr_slot_state (g_pad_reply m') = fill_rpc_port s"
    using handler_poll_slot [OF assms(2,3,4,6) refl assms(7)] assms(8) by blast
  show ?thesis
    using assms(1-6,9,10) m'
    by (simp add: ef2_pad_poll_slot_def pad_rpc_exchange_def iop_pad_services_def Let_def copy_state_def fill_rpc_port_def not_le)
qed

definition bound_client :: "unit pad pad_client" where
  "bound_client = \<lparr>pc_world = off_pad, pc_request = zero_request, pc_reply = zero_reply,
    g_previous_buttons = replicate 2 (replicate 4 0x4000), pc_slot_count = [1, 1], g_pad_bound = True\<rparr>"

theorem pad_poll_end_to_end_witness:
  "\<exists>state st'. ef2_pad_poll_slot (iop_pad_services quiet_kernel silent_bus) 1 0 bound_client = (0, Some state, st') \<and>
    ps_pressed state = 0 \<and> ps_released state = 0x4000"
proof -
  have "\<exists>m. poll_slot quiet_kernel silent_bus 1 0 (set_result 0 off_pad) = Some (-1, m) \<and> connected (port_state m 1 0) = 0"
    by (simp add: poll_slot_def select_endpoint_def poll_transfer_def discover_pad_def try_profile_def set_result_def
      transfer_poll_def ef2_sio2_transfer_pad_def ef2_sio2_transfer_raw_def port_state_def Let_def off_pad_def fresh_port_state_def
      put_port_state_def)
  then obtain m where m: "poll_slot quiet_kernel silent_bus 1 0 (set_result 0 off_pad) = Some (-1, m)" "connected (port_state m 1 0) = 0"
    by blast
  have b: "g_pad_bound bound_client" "pad_ok (pc_world bound_client)" "(0 :: u32) < pc_slot_count bound_client ! unat (1 :: u32)"
    "(0 :: u32) < ucast (g_slot_count (pc_world bound_client) ! unat (1 :: u32))"
    "poll_slot quiet_kernel silent_bus 1 0 (set_result 0 (pc_world bound_client)) = Some (-1, m)"
    "0x4000 = g_previous_buttons bound_client ! unat (1 :: u32) ! unat (0 :: u32)"
    using off_pad_ok m(1) by (simp_all add: bound_client_def) (simp add: off_pad_def)
  have now: "0 = (if connected (port_state m 1 0) \<noteq> 0 then buttons (port_state m 1 0) else 0)" using m(2) by simp
  obtain state st' where "ef2_pad_poll_slot (iop_pad_services quiet_kernel silent_bus) 1 0 bound_client = (0, Some state, st')"
    "ps_pressed state = 0 AND NOT 0x4000" "ps_released state = 0x4000 AND NOT 0"
    using pad_poll_end_to_end [OF b(1,2) _ _ b(3,4,5) refl b(6) now] by auto
  then show ?thesis by simp
qed

end
