(* ===== verification/AudioClient.thy ===== *)
theory AudioClient
  imports PadClient AudioService
begin

text \<open>
  The EE side of the audio RPC, \<open>src/ee/audio/iop_backend.c\<close>: it loads and binds the IOP module,
  submits samples in requests of at most 512 frames and forwards the controls.
\<close>

text \<open>What a request carries: nothing, the control word, or the submit struct with its frame count.\<close>

datatype audio_request = No_request | Control_request u32 | Submit_request u32 "s16 list"

definition zero_audio_reply :: ef2_audio_rpc_reply where
  "zero_audio_reply = \<lparr>reply_result = 0, reply_queued_frames = 0, reply_capacity_frames = 0, reply_underruns = 0,
    reply_overruns = 0, reply_latency_ms = 0, reply_volume = 0, reply_flags = 0\<rparr>"

record 'w audio_client =
  ac_world :: 'w
  g_submit_frames :: u32
  g_submit_samples :: "s16 list"
  g_control_value :: u32
  g_reply_buffer :: ef2_audio_rpc_reply
  g_audio_bound :: bool

record ef2_audio_device_stats =
  stat_queued_frames :: u32
  stat_capacity_frames :: u32
  stat_underruns :: u32
  stat_overruns :: u32
  stat_latency_ms :: u32
  stat_volume :: u32
  stat_started :: bool
  stat_paused :: bool

type_synonym 'w audio_services = "('w, audio_request, ef2_audio_rpc_reply) sif_services"

definition audio_call :: "'w audio_services \<Rightarrow> s32 \<Rightarrow> audio_request \<Rightarrow> u32 \<Rightarrow> 'w audio_client \<Rightarrow> s32 \<times> 'w audio_client" where
  "audio_call sif function_id request bytes st =
    (let (result, reply, w) = ef2_sif_call sif function_id request bytes zero_audio_reply (ac_world st);
         st = st\<lparr>g_reply_buffer := reply, ac_world := w\<rparr>
     in (result, st))"

definition audio_rpc_simple :: "'w audio_services \<Rightarrow> s32 \<Rightarrow> 'w audio_client \<Rightarrow> s32 \<times> 'w audio_client" where
  "audio_rpc_simple sif function_id st =
    (let (result, st) = audio_call sif function_id No_request 0 st
     in if result < 0 then (result, st) else (reply_result (g_reply_buffer st), st))"

definition audio_rpc_control :: "'w audio_services \<Rightarrow> s32 \<Rightarrow> u32 \<Rightarrow> 'w audio_client \<Rightarrow> s32 \<times> 'w audio_client" where
  "audio_rpc_control sif function_id v st =
    (let st = st\<lparr>g_control_value := v\<rparr>;
         (result, st) = audio_call sif function_id (Control_request v) 4 st
     in if result < 0 then (result, st) else (reply_result (g_reply_buffer st), st))"

definition ef2_audio_device_init :: "'w audio_services \<Rightarrow> 'w audio_client \<Rightarrow> s32 \<times> 'w audio_client" where
  "ef2_audio_device_init sif st =
    (let (result, w) = ef2_sif_init sif (ac_world st)
     in if result < 0 then (-1000 + result, st\<lparr>ac_world := w\<rparr>)
        else
          let (loaded, w) = load_module sif w; st = st\<lparr>ac_world := w\<rparr>
          in case loaded of
               Inl e \<Rightarrow> (e, st)
             | Inr audio_modres \<Rightarrow>
                 if audio_modres \<noteq> 0 then (-2800 - audio_modres mod 256, st)
                 else
                   let (result, server, w) = ef2_sif_bind sif 0xEF2A0001 w; st = st\<lparr>ac_world := w\<rparr>
                   in if result < 0 \<or> server = 0 then (-3000 + (if result < 0 then result else -9), st)
                      else
                        let (result, st) = audio_rpc_simple sif 0 (st\<lparr>g_audio_bound := True\<rparr>)
                        in if result < 0 then (-4000 + result, st) else (0, st))"

text \<open>The copy into the 1024 samples of the submit buffer.\<close>

function submit_fill :: "(u32 \<Rightarrow> s16) \<Rightarrow> u32 \<Rightarrow> u32 \<Rightarrow> u32 \<Rightarrow> s16 list \<Rightarrow> s16 list" where
  "submit_fill samples offset i n buffer =
    (if i < n then submit_fill samples offset (i + 1) n (buffer[unat i := samples (offset * 2 + i)]) else buffer)"
  by pat_completeness auto
termination
  by (relation "measure (\<lambda>(s, f, i, n, b). unat (n - i))") (auto simp: u32_countdown_less)

declare submit_fill.simps [simp del]

function device_submit_loop :: "'w audio_services \<Rightarrow> (u32 \<Rightarrow> s16) \<Rightarrow> u32 \<Rightarrow> u32 \<Rightarrow> 'w audio_client \<Rightarrow> s32 \<times> 'w audio_client" where
  "device_submit_loop sif samples offset frames st =
    (if offset < frames then
       let count = (if frames - offset > EF2_AUDIO_RPC_MAX_FRAMES then EF2_AUDIO_RPC_MAX_FRAMES else frames - offset);
           st = st\<lparr>g_submit_frames := count,
                   g_submit_samples := submit_fill samples offset 0 (count * 2) (g_submit_samples st)\<rparr>;
           bytes = 4 + count * 2 * 2;
           (result, st) = audio_call sif 1 (Submit_request count (g_submit_samples st)) bytes st
       in if result < 0 then (result, st)
          else if reply_result (g_reply_buffer st) < 0 then (reply_result (g_reply_buffer st), st)
          else device_submit_loop sif samples (offset + count) frames st
     else (sint frames, st))"
  by pat_completeness auto
termination
proof (relation "measure (\<lambda>(sif, s, offset, frames, st). unat (frames - offset))", goal_cases)
  case (2 sif samples offset frames st count)
  have "count \<noteq> 0" "count \<le> frames - offset"
    using 2(1,2) by (auto simp: EF2_AUDIO_RPC_MAX_FRAMES_def split: if_splits)
  then have "unat (frames - offset - count) = unat (frames - offset) - unat count" "0 < unat count"
    "unat count \<le> unat (frames - offset)"
    by (auto simp: unat_sub unat_gt_0 word_le_nat_alt)
  then show ?case by (simp add: diff_diff_eq)
qed simp

declare device_submit_loop.simps [simp del]

definition ef2_audio_device_submit_48k_stereo_s16 ::
  "'w audio_services \<Rightarrow> (u32 \<Rightarrow> s16) option \<Rightarrow> u32 \<Rightarrow> 'w audio_client \<Rightarrow> s32 \<times> 'w audio_client" where
  "ef2_audio_device_submit_48k_stereo_s16 sif samples frames st =
    (case samples of
       None \<Rightarrow> (-1, st)
     | Some f \<Rightarrow> if \<not> g_audio_bound st then (-1, st) else device_submit_loop sif f 0 frames st)"

definition audio_guarded :: "'w audio_services \<Rightarrow> s32 \<Rightarrow> 'w audio_client \<Rightarrow> s32 \<times> 'w audio_client" where
  "audio_guarded sif function_id st = (if \<not> g_audio_bound st then (-1, st) else audio_rpc_simple sif function_id st)"

definition ef2_audio_device_start :: "'w audio_services \<Rightarrow> 'w audio_client \<Rightarrow> s32 \<times> 'w audio_client" where
  "ef2_audio_device_start sif st = audio_guarded sif 2 st"
definition ef2_audio_device_pause :: "'w audio_services \<Rightarrow> 'w audio_client \<Rightarrow> s32 \<times> 'w audio_client" where
  "ef2_audio_device_pause sif st = audio_guarded sif 5 st"
definition ef2_audio_device_resume :: "'w audio_services \<Rightarrow> 'w audio_client \<Rightarrow> s32 \<times> 'w audio_client" where
  "ef2_audio_device_resume sif st = audio_guarded sif 6 st"
definition ef2_audio_device_stop :: "'w audio_services \<Rightarrow> 'w audio_client \<Rightarrow> s32 \<times> 'w audio_client" where
  "ef2_audio_device_stop sif st = audio_guarded sif 7 st"
definition ef2_audio_device_flush :: "'w audio_services \<Rightarrow> 'w audio_client \<Rightarrow> s32 \<times> 'w audio_client" where
  "ef2_audio_device_flush sif st = audio_guarded sif 8 st"

definition ef2_audio_device_set_volume :: "'w audio_services \<Rightarrow> u32 \<Rightarrow> 'w audio_client \<Rightarrow> s32 \<times> 'w audio_client" where
  "ef2_audio_device_set_volume sif volume st =
    (if \<not> g_audio_bound st \<or> volume > 0x3FFF then (-1, st) else audio_rpc_control sif 4 volume st)"

definition ef2_audio_device_set_latency_ms :: "'w audio_services \<Rightarrow> u32 \<Rightarrow> 'w audio_client \<Rightarrow> s32 \<times> 'w audio_client" where
  "ef2_audio_device_set_latency_ms sif latency_ms st =
    (if \<not> g_audio_bound st \<or> latency_ms = 0 then (-1, st) else audio_rpc_control sif 9 latency_ms st)"

definition ef2_audio_device_get_stats ::
  "'w audio_services \<Rightarrow> 'w audio_client \<Rightarrow> s32 \<times> ef2_audio_device_stats option \<times> 'w audio_client" where
  "ef2_audio_device_get_stats sif st =
    (if \<not> g_audio_bound st then (-1, None, st)
     else
       let (result, st) = audio_rpc_simple sif 3 st; r = g_reply_buffer st
       in if result < 0 then (result, None, st)
          else (0, Some \<lparr>stat_queued_frames = reply_queued_frames r, stat_capacity_frames = reply_capacity_frames r,
                  stat_underruns = reply_underruns r, stat_overruns = reply_overruns r,
                  stat_latency_ms = reply_latency_ms r, stat_volume = reply_volume r,
                  stat_started = (reply_flags r AND 1 \<noteq> 0), stat_paused = (reply_flags r AND 2 \<noteq> 0)\<rparr>, st))"

end
