(* ===== verification/AudioClientProps.thy ===== *)
theory AudioClientProps
  imports AudioClient
begin

text \<open>
  The audio client hands every sample to the service once and in order.
\<close>

section \<open>Submission in requests\<close>

lemma submit_fill_spec:
  assumes "i \<le> n" "n \<le> length buf" "length buf \<le> 1024"
  shows "length (submit_fill samples off (w32 i) (w32 n) buf) = length buf \<and>
    take i (submit_fill samples off (w32 i) (w32 n) buf) = take i buf \<and>
    take n (submit_fill samples off (w32 i) (w32 n) buf) = take i buf @ map (\<lambda>j. samples (off * 2 + w32 j)) [i..<n]"
  using assms
proof (induction "n - i" arbitrary: i buf)
  case 0
  then show ?case by (subst (1 2 3) submit_fill.simps) simp
next
  case (Suc d)
  then have i: "i < n" by simp
  then have lt: "w32 i < w32 n" "unat (w32 i) = i" using Suc.prems by (simp_all add: w32_less_iff unat_w32)
  let ?buf = "buf[i := samples (off * 2 + w32 i)]"
  have step: "submit_fill samples off (w32 i) (w32 n) buf = submit_fill samples off (w32 (Suc i)) (w32 n) ?buf"
    using lt by (subst submit_fill.simps) (simp add: w32_add_one)
  have ih: "length (submit_fill samples off (w32 (Suc i)) (w32 n) ?buf) = length ?buf \<and>
    take (Suc i) (submit_fill samples off (w32 (Suc i)) (w32 n) ?buf) = take (Suc i) ?buf \<and>
    take n (submit_fill samples off (w32 (Suc i)) (w32 n) ?buf) = take (Suc i) ?buf @ map (\<lambda>j. samples (off * 2 + w32 j)) [Suc i..<n]"
    by (rule Suc.hyps(1)) (use Suc i in auto)
  have t: "take (Suc i) ?buf = take i buf @ [samples (off * 2 + w32 i)]"
    using i Suc.prems by (simp add: take_Suc_conv_app_nth)
  have "take i (submit_fill samples off (w32 (Suc i)) (w32 n) ?buf) =
      take i (take (Suc i) (submit_fill samples off (w32 (Suc i)) (w32 n) ?buf))"
    by (simp add: min_def)
  also have "\<dots> = take i (take (Suc i) ?buf)" using ih by simp
  finally have ti: "take i (submit_fill samples off (w32 (Suc i)) (w32 n) ?buf) = take i buf"
    unfolding t using Suc.prems by simp
  show ?case
    unfolding step using ih t ti i by (simp add: upt_conv_Cons)
qed

definition payload :: "audio_request \<Rightarrow> s16 list" where
  "payload q = (case q of Submit_request n xs \<Rightarrow> take (2 * unat n) xs | _ \<Rightarrow> [])"

text \<open>
  What the client relies on: every submission of a well-formed request succeeds and \<open>log\<close> grows by
  the samples announced.
\<close>

definition accepting :: "'w audio_services \<Rightarrow> ('w \<Rightarrow> s16 list) \<Rightarrow> bool" where
  "accepting sif log \<longleftrightarrow> (\<forall>n xs bytes w. 0 < n \<and> n \<le> 512 \<and> length xs = 1024 \<and> unat bytes = 4 + 4 * unat n \<longrightarrow>
    (case ef2_sif_call sif 1 (Submit_request n xs) bytes zero_audio_reply w of (r, rep, w') \<Rightarrow>
      0 \<le> r \<and> 0 \<le> reply_result rep \<and> log w' = log w @ payload (Submit_request n xs)))"

lemma device_submit_loop_spec:
  assumes acc: "accepting sif log" and n: "n < 2147483648" and off: "off \<le> n" and buf: "length (g_submit_samples st) = 1024"
  shows "\<exists>st'. device_submit_loop sif samples (w32 off) (w32 n) st = (int n, st') \<and>
    log (ac_world st') = log (ac_world st) @ map (\<lambda>j. samples (w32 j)) [2 * off..<2 * n]"
  using off buf
proof (induction "n - off" arbitrary: off st rule: less_induct)
  case less
  have un: "unat (w32 n) = n" using n by (simp add: unat_w32)
  show ?case
  proof (cases "off < n")
    case False
    then have "off = n" using less.prems by simp
    then show ?thesis using un n by (subst device_submit_loop.simps) (simp add: sint_small)
  next
    case True
    define c where "c = min 512 (n - off)"
    have c: "0 < c" "c \<le> 512" "c \<le> n - off" using True by (auto simp: c_def)
    have lt: "w32 off < w32 n" using True n by (simp add: w32_less_iff)
    have diff: "w32 n - w32 off = w32 (n - off)" using less.prems by (simp add: w32_diff)
    have count: "(if w32 n - w32 off > EF2_AUDIO_RPC_MAX_FRAMES then EF2_AUDIO_RPC_MAX_FRAMES else w32 n - w32 off) = w32 c"
      using n w32_less_iff [of 512 "n - off"] unfolding diff by (simp add: EF2_AUDIO_RPC_MAX_FRAMES_def c_def w32_numeral min_def not_less)
    have c2: "w32 c * 2 = w32 (2 * c)" and bytes: "4 + 4 * w32 c = w32 (4 + 4 * c)" by (simp_all add: w32_def mult.commute)
    let ?buf = "submit_fill samples (w32 off) 0 (w32 (2 * c)) (g_submit_samples st)"
    have fill: "length ?buf = 1024" "take (2 * c) ?buf = map (\<lambda>j. samples (w32 off * 2 + w32 j)) [0..<2 * c]"
      using submit_fill_spec [of 0 "2 * c" "g_submit_samples st" samples "w32 off"] less.prems c by auto
    let ?st1 = "st\<lparr>g_submit_frames := w32 c, g_submit_samples := ?buf\<rparr>"
    obtain r rep w' where call: "ef2_sif_call sif 1 (Submit_request (w32 c) ?buf) (w32 (4 + 4 * c)) zero_audio_reply (ac_world st) = (r, rep, w')"
      by (metis prod.exhaust)
    have uc: "unat (w32 c) = c" "unat (w32 (4 + 4 * c)) = 4 + 4 * c" using c by (simp_all add: unat_w32)
    have "0 < w32 c" "w32 c \<le> 512" using c uc by (simp_all add: word_less_nat_alt word_le_nat_alt)
    then have ok: "0 \<le> r" "0 \<le> reply_result rep" "log w' = log (ac_world st) @ take (2 * c) ?buf"
      using acc [unfolded accepting_def, rule_format, of "w32 c" ?buf "w32 (4 + 4 * c)" "ac_world st"] fill(1) uc call
      by (simp_all add: payload_def)
    let ?st2 = "?st1\<lparr>g_reply_buffer := rep, ac_world := w'\<rparr>"
    have step: "device_submit_loop sif samples (w32 off) (w32 n) st = device_submit_loop sif samples (w32 (off + c)) (w32 n) ?st2"
      using lt count call ok(1,2)
      by (subst device_submit_loop.simps) (simp add: Let_def audio_call_def c2 bytes w32_add)
    have "n - (off + c) < n - off" "off + c \<le> n" using c True by auto
    then obtain st' where st': "device_submit_loop sif samples (w32 (off + c)) (w32 n) ?st2 = (int n, st')"
      "log (ac_world st') = log w' @ map (\<lambda>j. samples (w32 j)) [2 * (off + c)..<2 * n]"
      using less.hyps [of "off + c" ?st2] fill(1) by auto
    have "w32 off * 2 + w32 j = w32 (j + 2 * off)" for j by (simp add: w32_def algebra_simps)
    then have "take (2 * c) ?buf = map (\<lambda>j. samples (w32 j)) (map (\<lambda>j. j + 2 * off) [0..<2 * c])"
      using fill(2) by simp
    also have "map (\<lambda>j. j + 2 * off) [0..<2 * c] = [2 * off..<2 * off + 2 * c]"
      by (subst map_add_upt) (simp add: add.commute)
    finally have "take (2 * c) ?buf @ map (\<lambda>j. samples (w32 j)) [2 * (off + c)..<2 * n] =
        map (\<lambda>j. samples (w32 j)) ([2 * off..<2 * off + 2 * c] @ [2 * off + 2 * c..<2 * n])" by simp
    also have "[2 * off..<2 * off + 2 * c] @ [2 * off + 2 * c..<2 * n] = [2 * off..<2 * n]"
      using upt_add_eq_append [of "2 * off" "2 * off + 2 * c" "2 * n - (2 * off + 2 * c)"] c True by simp
    finally show ?thesis using st' step ok(3) by auto
  qed
qed

section \<open>Properties\<close>

text \<open>
  C19: \<open>ef2_audio_device_submit_48k_stereo_s16\<close> cuts any number of frames below 2^31 into requests of
  at most 512 frames, each announced with its exact byte count: a service that accepts such requests
  receives every sample exactly once and in order, and the call returns the number of frames.
\<close>

theorem audio_client_splits:
  assumes "accepting sif log" "n < 2147483648" "g_audio_bound st" "length (g_submit_samples st) = 1024"
  shows "\<exists>st'. ef2_audio_device_submit_48k_stereo_s16 sif (Some samples) (w32 n) st = (int n, st') \<and>
    log (ac_world st') = log (ac_world st) @ map (\<lambda>j. samples (w32 j)) [0..<2 * n]"
  using device_submit_loop_spec [OF assms(1,2) le0 assms(4), of samples] assms(3)
  by (simp add: ef2_audio_device_submit_48k_stereo_s16_def)

text \<open>A service that records the samples it is sent.\<close>

definition recorder :: "s16 list audio_services" where
  "recorder = \<lparr>ef2_sif_init = (\<lambda>w. (0, w)), ef2_iop_exec_module_buffer_ex = (\<lambda>m w. (0, 0, w)),
    ef2_iop_enable_module_buffer = (\<lambda>w. (0, w)), ef2_sif_bind = (\<lambda>sid w. (0, 1, w)),
    ef2_sif_call = (\<lambda>f q n r w. (0, r, w @ payload q))\<rparr>"

definition recording_client :: "s16 list audio_client" where
  "recording_client = \<lparr>ac_world = [], g_submit_frames = 0, g_submit_samples = replicate 1024 0, g_control_value = 0,
    g_reply_buffer = zero_audio_reply, g_audio_bound = True\<rparr>"

theorem audio_client_splits_witness:
  "\<exists>st'. ef2_audio_device_submit_48k_stereo_s16 recorder (Some ucast) (w32 1000) recording_client = (int 1000, st') \<and>
    (\<lambda>w. w) (ac_world st') = (\<lambda>w. w) (ac_world recording_client) @ map (\<lambda>j. ucast (w32 j)) [0..<2 * 1000]"
  by (rule audio_client_splits)
    (simp_all add: accepting_def recorder_def recording_client_def zero_audio_reply_def)

end
