(* ===== verification/StatePost.thy ===== *)
theory StatePost
  imports Prelude "HOL-Library.State_Monad"
begin

text \<open>
  The state monad of the library, with reads and triples: \<open>triple P m Q\<close> says that from a state
  with \<open>P\<close> the computation \<open>m\<close> ends with a value and a state related by \<open>Q\<close>.  The rules follow the
  syntax of the \<open>do\<close> blocks.
\<close>

abbreviation ret :: "'a \<Rightarrow> ('s, 'a) state" where
  "ret \<equiv> State_Monad.return"

definition reads :: "('s \<Rightarrow> 'a) \<Rightarrow> ('s, 'a) state" where
  "reads f = State (\<lambda>s. (f s, s))"

definition modify :: "('s \<Rightarrow> 's) \<Rightarrow> ('s, unit) state" where
  "modify f = State (\<lambda>s. ((), f s))"

lemma run_reads [simp]: "run_state (reads f) s = (f s, s)"
  by (simp add: reads_def)

lemma run_modify [simp]: "run_state (modify f) s = ((), f s)"
  by (simp add: modify_def)

definition triple :: "('s \<Rightarrow> bool) \<Rightarrow> ('s, 'a) state \<Rightarrow> ('a \<Rightarrow> 's \<Rightarrow> bool) \<Rightarrow> bool" where
  "triple P m Q \<longleftrightarrow> (\<forall>s. P s \<longrightarrow> (case run_state m s of (a, s') \<Rightarrow> Q a s'))"

lemma tripleI: "(\<And>s a s'. P s \<Longrightarrow> run_state m s = (a, s') \<Longrightarrow> Q a s') \<Longrightarrow> triple P m Q"
  by (auto simp: triple_def split: prod.split)

lemma tripleD: "triple P m Q \<Longrightarrow> P s \<Longrightarrow> run_state m s = (a, s') \<Longrightarrow> Q a s'"
  by (auto simp: triple_def)

lemma triple_return: "(\<And>s. P s \<Longrightarrow> Q a s) \<Longrightarrow> triple P (ret a) Q"
  by (simp add: triple_def)

lemma triple_reads: "(\<And>s. P s \<Longrightarrow> Q (f s) s) \<Longrightarrow> triple P (reads f) Q"
  by (simp add: triple_def)

lemma triple_modify: "(\<And>s. P s \<Longrightarrow> Q () (f s)) \<Longrightarrow> triple P (modify f) Q"
  by (simp add: triple_def)

lemma triple_bind: "triple P m R \<Longrightarrow> (\<And>a. triple (R a) (f a) Q) \<Longrightarrow> triple P (State_Monad.bind m f) Q"
  by (fastforce simp: triple_def split: prod.splits)

lemma triple_if: "(b \<Longrightarrow> triple P m Q) \<Longrightarrow> (\<not> b \<Longrightarrow> triple P m' Q) \<Longrightarrow> triple P (if b then m else m') Q"
  by simp

lemma triple_prod: "(\<And>x y. p = (x, y) \<Longrightarrow> triple P (f x y) Q) \<Longrightarrow> triple P (case p of (x, y) \<Rightarrow> f x y) Q"
  by (cases p) simp

lemma triple_let: "(\<And>x. x = e \<Longrightarrow> triple P (f x) Q) \<Longrightarrow> triple P (let x = e in f x) Q"
  by (simp add: Let_def)

lemma triple_option: "(o' = None \<Longrightarrow> triple P m Q) \<Longrightarrow> (\<And>x. o' = Some x \<Longrightarrow> triple P (f x) Q) \<Longrightarrow>
    triple P (case o' of None \<Rightarrow> m | Some x \<Rightarrow> f x) Q"
  by (cases o') simp_all

lemma triple_weaken: "triple P m R \<Longrightarrow> (\<And>s. P' s \<Longrightarrow> P s) \<Longrightarrow> (\<And>a s. R a s \<Longrightarrow> Q a s) \<Longrightarrow> triple P' m Q"
  by (fastforce simp: triple_def split: prod.splits)

lemma triple_ex: "(\<And>x. triple (P x) m Q) \<Longrightarrow> triple (\<lambda>s. \<exists>x. P x s) m Q"
  by (fastforce simp: triple_def)

lemma triple_pure: "(b \<Longrightarrow> triple P m Q) \<Longrightarrow> triple (\<lambda>s. b \<and> P s) m Q"
  by (auto simp: triple_def)

lemma triple_then: "triple P m (\<lambda>a s. a = x \<and> P' s) \<Longrightarrow> triple P' (f x) Q \<Longrightarrow> triple P (State_Monad.bind m f) Q"
  by (rule triple_bind) (auto intro: triple_pure)

lemmas triple_rules = triple_if triple_prod triple_let triple_option

text \<open>What every state keeps: the invariant rule of a computation and its postcondition about the value.\<close>

definition keeps :: "('s \<Rightarrow> bool) \<Rightarrow> ('s, 'a) state \<Rightarrow> ('a \<Rightarrow> bool) \<Rightarrow> bool" where
  "keeps I m R \<longleftrightarrow> triple I m (\<lambda>a s. I s \<and> R a)"

lemma keepsI: "(\<And>s a s'. I s \<Longrightarrow> run_state m s = (a, s') \<Longrightarrow> I s' \<and> R a) \<Longrightarrow> keeps I m R"
  by (auto simp: keeps_def intro: tripleI)

lemma keepsD: "keeps I m R \<Longrightarrow> I s \<Longrightarrow> run_state m s = (a, s') \<Longrightarrow> I s' \<and> R a"
  by (auto simp: keeps_def dest: tripleD)

lemma keeps_return: "R a \<Longrightarrow> keeps I (ret a) R"
  by (simp add: keeps_def triple_return)

lemma keeps_reads: "(\<And>s. I s \<Longrightarrow> R (f s)) \<Longrightarrow> keeps I (reads f) R"
  by (simp add: keeps_def triple_reads)

lemma keeps_modify: "(\<And>s. I s \<Longrightarrow> I (f s)) \<Longrightarrow> R () \<Longrightarrow> keeps I (modify f) R"
  by (simp add: keeps_def triple_modify)

lemma keeps_bind: "keeps I m R' \<Longrightarrow> (\<And>a. R' a \<Longrightarrow> keeps I (f a) R) \<Longrightarrow> keeps I (State_Monad.bind m f) R"
  by (rule keepsI) (fastforce dest: keepsD split: prod.splits)

lemma keeps_mono: "keeps I m R' \<Longrightarrow> (\<And>a. R' a \<Longrightarrow> R a) \<Longrightarrow> keeps I m R"
  by (auto simp: keeps_def elim: triple_weaken)

lemma keeps_if: "(b \<Longrightarrow> keeps I m R) \<Longrightarrow> (\<not> b \<Longrightarrow> keeps I m' R) \<Longrightarrow> keeps I (if b then m else m') R"
  by simp

lemma keeps_prod: "(\<And>x y. p = (x, y) \<Longrightarrow> keeps I (f x y) R) \<Longrightarrow> keeps I (case p of (x, y) \<Rightarrow> f x y) R"
  by (cases p) simp

lemma keeps_let: "(\<And>x. x = e \<Longrightarrow> keeps I (f x) R) \<Longrightarrow> keeps I (let x = e in f x) R"
  by (simp add: Let_def)

lemma keeps_option: "(o' = None \<Longrightarrow> keeps I m R) \<Longrightarrow> (\<And>x. o' = Some x \<Longrightarrow> keeps I (f x) R) \<Longrightarrow>
    keeps I (case o' of None \<Rightarrow> m | Some x \<Rightarrow> f x) R"
  by (cases o') simp_all

lemmas keeps_rules = keeps_if keeps_prod keeps_let keeps_option

end
