(* ===== verification/StorageSio2.thy ===== *)
theory StorageSio2
  imports StatePost Sio2
begin

text \<open>
  The SIO2 driver of the IOP storage module, \<open>src/iop/storage/src/sio2_storage.c\<close>: one synchronous
  exchange, polled, with a card on a port.

  The module's operations are computations in the state monad; the state is a record that the users
  of the driver extend by their own variables.  Buffers are the lists of their bytes: \<open>tx\<close> has at
  least \<open>tx_size\<close> bytes and \<open>rx\<close> at least \<open>rx_size\<close>, as every caller's arrays have, and a null pointer
  comes with size 0.  The result is the status and the receive buffer after the call.
\<close>

record 'w storage_sio2 =
  sto_dev :: 'w
  g_sio2_mutex :: s32

definition STO_QUEUE :: "u32 \<Rightarrow> u32" where "STO_QUEUE index = 0xBF808200 + index * 4"
definition STO_PORT_CTRL :: "u32 \<Rightarrow> u32" where "STO_PORT_CTRL index = 0xBF808200 + (0x40 + index * 4)"
definition STO_STAT6C :: u32 where "STO_STAT6C = 0xBF808200 + 0x6C"

definition on_sto :: "('w \<Rightarrow> 'a \<times> 'w) \<Rightarrow> (('w, 'z) storage_sio2_scheme, 'a) state" where
  "on_sto f = State (\<lambda>st. let (a, w) = f (sto_dev st) in (a, st\<lparr>sto_dev := w\<rparr>))"

definition ef2_storage_sio2_init :: "'w iop_kernel \<Rightarrow> (('w, 'z) storage_sio2_scheme, s32) state" where
  "ef2_storage_sio2_init ker = do {
     mutex \<leftarrow> reads g_sio2_mutex;
     if mutex \<ge> 0 then ret 0
     else do {
       mutex \<leftarrow> on_sto (CreateSema ker \<lparr>sema_attr = 0, sema_option = 0, sema_initial = 1, sema_max = 1\<rparr>);
       modify (\<lambda>st. st\<lparr>g_sio2_mutex := mutex\<rparr>);
       ret (if mutex < 0 then -1 else 0) } }"

text \<open>The polling loop: whether the transfer ended before the last poll.\<close>

function exchange_wait_loop :: "'w iop_kernel \<Rightarrow> 'w bus \<Rightarrow> u32 \<Rightarrow> u32 \<Rightarrow> 'w \<Rightarrow> bool \<times> 'w" where
  "exchange_wait_loop ker bus i timeout_polls w =
    (if i < timeout_polls then
       let (status, w) = rd32 bus STO_STAT6C w
       in if status AND push_bit 12 1 \<noteq> 0 then (True, w)
          else exchange_wait_loop ker bus (i + 1) timeout_polls
                 (if i AND 0xFF = 0 then DelayThread ker 10 w else w)
     else (False, w))"
  by pat_completeness auto
termination
  by (relation "measure (\<lambda>(ker, bus, i, n, w). unat (n - i))") (auto simp: u32_countdown_less)

declare exchange_wait_loop.simps [simp del]

definition exchange_transfer ::
  "'w iop_kernel \<Rightarrow> 'w bus \<Rightarrow> s32 \<Rightarrow> u32 \<Rightarrow> u32 \<Rightarrow> u32 \<Rightarrow> u32 \<Rightarrow> u8 list \<Rightarrow> u32 \<Rightarrow> u8 list \<Rightarrow> u32 \<Rightarrow> u32 \<Rightarrow> 'w \<Rightarrow>
   (s32 \<times> u8 list) \<times> 'w" where
  "exchange_transfer ker bus mutex port ctrl1 ctrl2 baud_select tx tx_size rx rx_size timeout_polls w =
    (let w = WaitSema ker mutex w;
         w = writes32 bus (map (\<lambda>i. (STO_QUEUE (word_of_nat i), 0)) [0..<16]) w;
         w = writes32 bus (map (\<lambda>i. (STO_PORT_CTRL (word_of_nat i), 0)) [0..<8]) w;
         queue = (port AND 3) OR push_bit 6 1 OR push_bit 8 (tx_size AND 0x1FF) OR push_bit 18 (rx_size AND 0x1FF)
                 OR push_bit 30 (baud_select AND 1);
         w = writes32 bus [(STO_PORT_CTRL (port * 2), ctrl1), (STO_PORT_CTRL (port * 2 + 1), ctrl2),
                           (STO_QUEUE 0, queue), (STO_QUEUE 1, 0), (EF2_SIO2_CTRL, 0xBC)] w;
         w = update32 bus EF2_SIO2_STAT (\<lambda>v. v) w;
         w = fifo_write bus (take (unat tx_size) tx) w;
         w = update32 bus EF2_SIO2_CTRL (\<lambda>v. v OR 1) w;
         (done, w) = exchange_wait_loop ker bus 0 timeout_polls w
     in if \<not> done then ((-2, rx), SignalSema ker mutex (wr32 bus EF2_SIO2_CTRL 0xBC w))
        else
          let (rx, w) = fifo_read_loop bus 0 rx_size rx w;
              w = update32 bus EF2_SIO2_CTRL (\<lambda>v. v OR 0xC) w
          in ((0, rx), SignalSema ker mutex w))"

definition ef2_storage_sio2_exchange ::
  "'w iop_kernel \<Rightarrow> 'w bus \<Rightarrow> u32 \<Rightarrow> u32 \<Rightarrow> u32 \<Rightarrow> u32 \<Rightarrow> u8 list \<Rightarrow> u32 \<Rightarrow> u8 list \<Rightarrow> u32 \<Rightarrow> u32 \<Rightarrow>
   (('w, 'z) storage_sio2_scheme, s32 \<times> u8 list) state" where
  "ef2_storage_sio2_exchange ker bus port ctrl1 ctrl2 baud_select tx tx_size rx rx_size timeout_polls = do {
     mutex \<leftarrow> reads g_sio2_mutex;
     if mutex < 0 \<or> port \<ge> 4 \<or> tx_size > 256 \<or> rx_size > 256 then ret (-1, rx)
     else on_sto (exchange_transfer ker bus mutex port ctrl1 ctrl2 baud_select tx tx_size rx rx_size
                   (if timeout_polls = 0 then 10000 else timeout_polls)) }"

section \<open>Every exchange\<close>

lemma fifo_read_loop_length [simp]: "length (fst (fifo_read_loop bus i n buf w)) = length buf"
proof (induction bus i n buf w rule: fifo_read_loop.induct)
  case (1 bus i n buf w)
  then show ?case by (subst fifo_read_loop.simps) (auto split: prod.split)
qed

lemma run_on_sto [simp]:
  "run_state (on_sto f) st = (fst (f (sto_dev st)), st\<lparr>sto_dev := snd (f (sto_dev st))\<rparr>)"
  by (simp add: on_sto_def split: prod.split)

lemma exchange_transfer_result:
  assumes "fst (exchange_transfer ker bus mutex port c1 c2 b tx n rx m t w) = (r, rx')"
  shows "r \<in> {0, -2} \<and> length rx' = length rx"
proof -
  have "length rx'' = length rx" if "fifo_read_loop bus 0 m rx v = (rx'', v')" for v rx'' v'
    using fifo_read_loop_length [of bus 0 m rx v] that by simp
  then show ?thesis
    using assms by (auto simp: exchange_transfer_def Let_def split: prod.splits if_splits)
qed

text \<open>An exchange changes only the device, keeps the length of the buffer and has three results.\<close>

lemma keeps_exchange:
  assumes "\<And>st w. I st \<Longrightarrow> I (st\<lparr>sto_dev := w\<rparr>)"
  shows "keeps I (ef2_storage_sio2_exchange ker bus port c1 c2 b tx n rx m t)
    (\<lambda>(r, rx'). r \<in> {0, -1, -2} \<and> length rx' = length rx)"
  by (rule keepsI)
    (use assms in \<open>auto simp: ef2_storage_sio2_exchange_def split: if_splits dest!: exchange_transfer_result\<close>)

end
