(* ===== verification/StorageCard.thy ===== *)
theory StorageCard
  imports StorageSio2
begin

text \<open>
  Memory cards of the IOP storage module: the native-card and the MMCE commands of
  \<open>src/iop/storage/src/storage_backends.c\<close>, each one or more exchanges with its checks.

  A buffer that an exchange fills in part is updated with \<open>splice\<close>.  A \<open>char *\<close> is the list of the
  bytes from the address on, so the path of a request is followed by the data of the request.
\<close>

datatype storage_kind = KIND_NONE | KIND_PS2_MEMORY_CARD | KIND_MMCE | KIND_MX4SIO

record storage_device =
  dev_kind :: storage_kind
  capabilities :: u32
  physical_port :: u32
  page_size :: u32
  erase_block_pages :: u32
  page_count :: u32
  sector_size :: u32
  sector_count :: u32
  protocol_version :: u32
  product_id :: u32
  product_revision :: u32
  card_flags :: u32
  formatted :: s32
  current_card :: u32
  current_channel :: u32
  dev_status :: u32

definition zero_device :: storage_device where
  "zero_device = \<lparr>dev_kind = KIND_NONE, capabilities = 0, physical_port = 0, page_size = 0, erase_block_pages = 0,
    page_count = 0, sector_size = 0, sector_count = 0, protocol_version = 0, product_id = 0, product_revision = 0,
    card_flags = 0, formatted = 0, current_card = 0, current_channel = 0, dev_status = 0\<rparr>"

definition EF2_STORAGE_CAP_MEMORY_CARD :: u32 where "EF2_STORAGE_CAP_MEMORY_CARD = push_bit 0 1"
definition EF2_STORAGE_CAP_GEOMETRY :: u32 where "EF2_STORAGE_CAP_GEOMETRY = push_bit 1 1"
definition EF2_STORAGE_CAP_BLOCK_READ :: u32 where "EF2_STORAGE_CAP_BLOCK_READ = push_bit 2 1"
definition EF2_STORAGE_CAP_BLOCK_WRITE :: u32 where "EF2_STORAGE_CAP_BLOCK_WRITE = push_bit 3 1"
definition EF2_STORAGE_CAP_FILESYSTEM :: u32 where "EF2_STORAGE_CAP_FILESYSTEM = push_bit 4 1"
definition EF2_STORAGE_CAP_VIRTUAL_CARDS :: u32 where "EF2_STORAGE_CAP_VIRTUAL_CARDS = push_bit 5 1"
definition EF2_STORAGE_CAP_GAME_ID :: u32 where "EF2_STORAGE_CAP_GAME_ID = push_bit 6 1"
definition EF2_STORAGE_CAP_PAGE_READ :: u32 where "EF2_STORAGE_CAP_PAGE_READ = push_bit 7 1"

lemmas storage_caps = EF2_STORAGE_CAP_MEMORY_CARD_def EF2_STORAGE_CAP_GEOMETRY_def EF2_STORAGE_CAP_BLOCK_READ_def
  EF2_STORAGE_CAP_BLOCK_WRITE_def EF2_STORAGE_CAP_FILESYSTEM_def EF2_STORAGE_CAP_VIRTUAL_CARDS_def
  EF2_STORAGE_CAP_GAME_ID_def EF2_STORAGE_CAP_PAGE_READ_def

record 'w storage_backend = "'w storage_sio2" +
  g_mx_baud :: u32
  g_mx_card_type :: u32
  g_mx_sector_count :: u32
  g_mx_initialized :: bool
  g_mc_format_page :: "u8 list"

section \<open>Bytes\<close>

definition splice :: "nat \<Rightarrow> 'a list \<Rightarrow> 'a list \<Rightarrow> 'a list" where
  "splice off part xs = take off xs @ part @ drop (off + length part) xs"

lemma splice_length [simp]: "off + length part \<le> length xs \<Longrightarrow> length (splice off part xs) = length xs"
  by (simp add: splice_def)

definition be16 :: "u8 \<Rightarrow> u8 \<Rightarrow> u32" where
  "be16 a b = push_bit 8 (ucast a) OR ucast b"

definition be32 :: "u8 \<Rightarrow> u8 \<Rightarrow> u8 \<Rightarrow> u8 \<Rightarrow> u32" where
  "be32 a b c d = push_bit 24 (ucast a) OR push_bit 16 (ucast b) OR push_bit 8 (ucast c) OR ucast d"

definition be32_bytes :: "u32 \<Rightarrow> u8 list" where
  "be32_bytes v = [ucast (drop_bit 24 v), ucast (drop_bit 16 v), ucast (drop_bit 8 v), ucast v]"

function string_length_loop :: "u8 list \<Rightarrow> u32 \<Rightarrow> u32 \<Rightarrow> u32" where
  "string_length_loop str limit len =
    (if len < limit \<and> str ! unat len \<noteq> 0 then string_length_loop str limit (len + 1) else len)"
  by pat_completeness auto
termination
  by (relation "measure (\<lambda>(str, limit, len). unat (limit - len))") (auto simp: u32_countdown_less)

declare string_length_loop.simps [simp del]

definition string_length :: "u8 list \<Rightarrow> u32 \<Rightarrow> u32" where
  "string_length str limit = string_length_loop str limit 0"

definition xor_edc :: "u8 list \<Rightarrow> u8" where
  "xor_edc data = foldl (XOR) 0 data"

section \<open>Native memory cards\<close>

definition mc_exchange ::
  "'w iop_kernel \<Rightarrow> 'w bus \<Rightarrow> u32 \<Rightarrow> u8 list \<Rightarrow> u32 \<Rightarrow> u32 \<Rightarrow> (('w, 'z) storage_sio2_scheme, s32 \<times> u8 list) state" where
  "mc_exchange ker bus port tx packet_size timeout_polls =
    ef2_storage_sio2_exchange ker bus port 0xFF020405 0x0005FFFF 0 tx packet_size
      (replicate (length tx) 0) packet_size timeout_polls"

definition mc_set_terminator ::
  "'w iop_kernel \<Rightarrow> 'w bus \<Rightarrow> u32 \<Rightarrow> u8 \<Rightarrow> (('w, 'z) storage_sio2_scheme, s32) state" where
  "mc_set_terminator ker bus port terminator = do {
     (result, rx) \<leftarrow> mc_exchange ker bus port [0x81, 0x27, terminator, 0, 0] 5 20000;
     ret (if result < 0 then result
          else if rx ! 3 \<noteq> 0x2B then -20
          else if rx ! 4 \<noteq> terminator then -21
          else 0) }"

text \<open>The result, the result of the terminator handshake, and the device description with the
  geometry filled in.\<close>

definition mc_get_spec ::
  "'w iop_kernel \<Rightarrow> 'w bus \<Rightarrow> u32 \<Rightarrow> storage_device \<Rightarrow> (('w, 'z) storage_sio2_scheme, s32 \<times> s32 \<times> storage_device) state" where
  "mc_get_spec ker bus port info = do {
     term_result \<leftarrow> mc_set_terminator ker bus port 0x5A;
     (result, rx) \<leftarrow> mc_exchange ker bus port ([0x81, 0x26] @ replicate 11 0) 13 20000;
     if result < 0 then ret (result, term_result, info)
     else if rx ! 12 \<noteq> 0x5A \<and> rx ! 12 \<noteq> 0x55 then ret (-10, term_result, info)
     else if xor_edc (take 8 (drop 3 rx)) \<noteq> rx ! 11 then ret (-11, term_result, info)
     else
       let info = info\<lparr>card_flags := ucast (rx ! 2), page_size := be16 (rx ! 4) (rx ! 3),
                       erase_block_pages := be16 (rx ! 6) (rx ! 5),
                       page_count := be32 (rx ! 10) (rx ! 9) (rx ! 8) (rx ! 7)\<rparr>
       in ret (if page_size info = 0 \<or> page_count info = 0 then -12 else 0, term_result, info) }"

definition mc_valid_terminator :: "u8 \<Rightarrow> bool" where
  "mc_valid_terminator v \<longleftrightarrow> v = 0x55 \<or> v = 0x5A"

definition mc_select_read_page ::
  "'w iop_kernel \<Rightarrow> 'w bus \<Rightarrow> storage_device \<Rightarrow> u32 \<Rightarrow> (('w, 'z) storage_sio2_scheme, s32) state" where
  "mc_select_read_page ker bus device page = do {
     let address = [ucast page, ucast (drop_bit 8 page), ucast (drop_bit 16 page), ucast (drop_bit 24 page)];
     (result, rx) \<leftarrow> mc_exchange ker bus (physical_port device)
       ([0x81, 0x23] @ address @ [xor_edc address, 0, 0]) 9 20000;
     ret (if result < 0 then -10
          else if rx ! 7 \<noteq> 0x2B then -11
          else if \<not> mc_valid_terminator (rx ! 8) then -12
          else 0) }"

text \<open>One chunk: the bytes read, when there are any.\<close>

definition mc_read_data_chunk ::
  "'w iop_kernel \<Rightarrow> 'w bus \<Rightarrow> storage_device \<Rightarrow> u32 \<Rightarrow> (('w, 'z) storage_sio2_scheme, s32 \<times> u8 list) state" where
  "mc_read_data_chunk ker bus device n =
    (if n = 0 \<or> n > 32 then ret (-20, [])
     else do {
       (result, rx) \<leftarrow> mc_exchange ker bus (physical_port device)
         ([0x81, 0x43, ucast n] @ replicate 35 0) (n + 6) 40000;
       if result < 0 then ret (-21, [])
       else if rx ! 3 \<noteq> 0x2B then ret (-22, [])
       else if xor_edc (take (unat n) (drop 4 rx)) \<noteq> rx ! (4 + unat n) then ret (-23, [])
       else if \<not> mc_valid_terminator (rx ! (5 + unat n)) then ret (-24, [])
       else ret (0, take (unat n) (drop 4 rx)) })"

definition mc_finish_read ::
  "'w iop_kernel \<Rightarrow> 'w bus \<Rightarrow> storage_device \<Rightarrow> (('w, 'z) storage_sio2_scheme, s32) state" where
  "mc_finish_read ker bus device = do {
     (result, rx) \<leftarrow> mc_exchange ker bus (physical_port device) [0x81, 0x81, 0, 0] 4 20000;
     ret (if result < 0 then -30
          else if rx ! 2 \<noteq> 0x2B then -31
          else if \<not> mc_valid_terminator (rx ! 3) then -32
          else 0) }"

function mc_read_loop ::
  "'w iop_kernel \<Rightarrow> 'w bus \<Rightarrow> storage_device \<Rightarrow> nat \<Rightarrow> u8 list \<Rightarrow> (('w, 'z) storage_sio2_scheme, s32 \<times> u8 list) state" where
  "mc_read_loop ker bus device chunk data =
    (if chunk < 512 then do {
       (result, part) \<leftarrow> mc_read_data_chunk ker bus device 32;
       if result < 0 then ret (result, data)
       else mc_read_loop ker bus device (chunk + 32) (splice chunk part data) }
     else ret (0, data))"
  by pat_completeness auto
termination
  by (relation "measure (\<lambda>(ker, bus, device, chunk, data). 512 - chunk)") auto

declare mc_read_loop.simps [simp del]

definition mc_read_page ::
  "'w iop_kernel \<Rightarrow> 'w bus \<Rightarrow> storage_device \<Rightarrow> u32 \<Rightarrow> u8 list \<Rightarrow> (('w, 'z) storage_sio2_scheme, s32 \<times> u8 list) state" where
  "mc_read_page ker bus device page data =
    (if capabilities device AND EF2_STORAGE_CAP_GEOMETRY = 0 \<or> page_size device \<noteq> 512 \<or> page \<ge> page_count device
     then ret (-2, data)
     else do {
       result \<leftarrow> mc_select_read_page ker bus device page;
       if result < 0 then ret (result, data)
       else do {
         (result, data) \<leftarrow> mc_read_loop ker bus device 0 data;
         if result < 0 then ret (result, data)
         else do {
           result \<leftarrow> mc_finish_read ker bus device;
           ret (result, data) } } })"

definition format_magic :: "u8 list" where
  "format_magic = map of_char ''Sony PS2 Memory Card Format ''"

text \<open>The result and the format state: unknown (-1), unformatted (0) or formatted (1).\<close>

definition mc_check_format ::
  "'w iop_kernel \<Rightarrow> 'w bus \<Rightarrow> storage_device \<Rightarrow> (('w, 'z) storage_backend_scheme, s32 \<times> s32) state" where
  "mc_check_format ker bus device = do {
     buf \<leftarrow> reads g_mc_format_page;
     (result, page) \<leftarrow> mc_read_page ker bus device 0 buf;
     modify (\<lambda>st. st\<lparr>g_mc_format_page := page\<rparr>);
     ret (if result < 0 then (result, -1)
          else (0, if take (length format_magic) page = format_magic then 1 else 0)) }"

end
