(* ===== verification/StorageMmce.thy ===== *)
theory StorageMmce
  imports StorageCard
begin

text \<open>
  The MMCE commands of \<open>src/iop/storage/src/storage_backends.c\<close>: identification, the virtual cards, and
  the file operations of a multi-purpose memory card emulator.
\<close>

definition mmce_exchange ::
  "'w iop_kernel \<Rightarrow> 'w bus \<Rightarrow> u32 \<Rightarrow> u8 list \<Rightarrow> u32 \<Rightarrow> u8 list \<Rightarrow> u32 \<Rightarrow> (('w, 'z) storage_sio2_scheme, s32 \<times> u8 list) state" where
  "mmce_exchange ker bus port tx tx_size rx rx_size =
    ef2_storage_sio2_exchange ker bus port 0xFF020005 0x0005FFFF 0 tx tx_size rx rx_size 200000"

definition mmce_ping ::
  "'w iop_kernel \<Rightarrow> 'w bus \<Rightarrow> u32 \<Rightarrow> storage_device \<Rightarrow> (('w, 'z) storage_sio2_scheme, s32 \<times> storage_device) state" where
  "mmce_ping ker bus port info = do {
     (result, rx) \<leftarrow> mmce_exchange ker bus port [0x8B, 0x01, 0xFF, 0, 0, 0, 0xFF] 7 (replicate 7 0) 7;
     ret (if result < 0 then (result, info)
          else if rx ! 1 \<noteq> 0xAA then (-10, info)
          else (0, info\<lparr>protocol_version := ucast (rx ! 3), product_id := ucast (rx ! 4),
                         product_revision := ucast (rx ! 5)\<rparr>)) }"

definition mmce_get_u16 ::
  "'w iop_kernel \<Rightarrow> 'w bus \<Rightarrow> u32 \<Rightarrow> u8 \<Rightarrow> (('w, 'z) storage_sio2_scheme, s32) state" where
  "mmce_get_u16 ker bus port command = do {
     (result, rx) \<leftarrow> mmce_exchange ker bus port [0x8B, command, 0xFF] 3 (replicate 6 0) 6;
     ret (if result < 0 then result
          else if rx ! 1 \<noteq> 0xAA then -10
          else int (unat (be16 (rx ! 3) (rx ! 4)))) }"

definition mmce_set_packet ::
  "'w iop_kernel \<Rightarrow> 'w bus \<Rightarrow> u32 \<Rightarrow> u8 list \<Rightarrow> u32 \<Rightarrow> (('w, 'z) storage_sio2_scheme, s32) state" where
  "mmce_set_packet ker bus port tx n = do {
     (result, rx) \<leftarrow> mmce_exchange ker bus port tx n (replicate 2 0) 2;
     ret (if result < 0 then result else if rx ! 1 = 0xAA then 0 else -10) }"

definition mmce_pack_open_flags :: "u32 \<Rightarrow> u8" where
  "mmce_pack_open_flags flags =
    (let access = flags AND 3;
         packed = (if access \<noteq> 0 then access - 1 else 0);
         packed = packed OR drop_bit 5 (flags AND 0x100);
         packed = packed OR drop_bit 4 (flags AND 0xE00)
     in ucast packed)"

definition mmce_validate_device :: "storage_device \<Rightarrow> s32" where
  "mmce_validate_device device =
    (if dev_kind device \<noteq> KIND_MMCE \<or> physical_port device < 2 \<or> physical_port device > 3 then -1 else 0)"

definition backend_mmce_status ::
  "'w iop_kernel \<Rightarrow> 'w bus \<Rightarrow> storage_device \<Rightarrow> (('w, 'z) storage_sio2_scheme, s32) state" where
  "backend_mmce_status ker bus device =
    (if mmce_validate_device device < 0 then ret (-1) else mmce_get_u16 ker bus (physical_port device) 0x02)"

definition backend_mmce_get_card ::
  "'w iop_kernel \<Rightarrow> 'w bus \<Rightarrow> storage_device \<Rightarrow> (('w, 'z) storage_sio2_scheme, s32) state" where
  "backend_mmce_get_card ker bus device =
    (if mmce_validate_device device < 0 then ret (-1) else mmce_get_u16 ker bus (physical_port device) 0x03)"

definition backend_mmce_set_card ::
  "'w iop_kernel \<Rightarrow> 'w bus \<Rightarrow> storage_device \<Rightarrow> u32 \<Rightarrow> u32 \<Rightarrow> u32 \<Rightarrow> (('w, 'z) storage_sio2_scheme, s32) state" where
  "backend_mmce_set_card ker bus device type mode card_no =
    (if mmce_validate_device device < 0 \<or> type > 1 \<or> mode > 2 \<or> card_no > 0xFFFF then ret (-1)
     else mmce_set_packet ker bus (physical_port device)
            [0x8B, 0x04, 0xFF, ucast type, ucast mode, ucast (drop_bit 8 card_no), ucast card_no, 0xFF] 8)"

definition backend_mmce_get_channel ::
  "'w iop_kernel \<Rightarrow> 'w bus \<Rightarrow> storage_device \<Rightarrow> (('w, 'z) storage_sio2_scheme, s32) state" where
  "backend_mmce_get_channel ker bus device =
    (if mmce_validate_device device < 0 then ret (-1) else mmce_get_u16 ker bus (physical_port device) 0x05)"

definition backend_mmce_set_channel ::
  "'w iop_kernel \<Rightarrow> 'w bus \<Rightarrow> storage_device \<Rightarrow> u32 \<Rightarrow> u32 \<Rightarrow> (('w, 'z) storage_sio2_scheme, s32) state" where
  "backend_mmce_set_channel ker bus device mode channel =
    (if mmce_validate_device device < 0 \<or> mode > 2 \<or> channel > 0xFFFF then ret (-1)
     else mmce_set_packet ker bus (physical_port device)
            [0x8B, 0x06, 0xFF, ucast mode, ucast (drop_bit 8 channel), ucast channel, 0xFF] 7)"

definition backend_mmce_set_game_id ::
  "'w iop_kernel \<Rightarrow> 'w bus \<Rightarrow> storage_device \<Rightarrow> u8 list \<Rightarrow> (('w, 'z) storage_sio2_scheme, s32) state" where
  "backend_mmce_set_game_id ker bus device game_id =
    (if mmce_validate_device device < 0 then ret (-1)
     else
       let len = string_length game_id (250 - 1)
       in if len + 1 > 250 then ret (-2)
          else mmce_set_packet ker bus (physical_port device)
                 ([0x8B, 0x08, 0xFF, ucast (len + 1)] @ take (unat len) game_id @ [0, 0xFF]) (len + 6))"

section \<open>Files\<close>

definition backend_mmce_open ::
  "'w iop_kernel \<Rightarrow> 'w bus \<Rightarrow> storage_device \<Rightarrow> u8 list \<Rightarrow> u32 \<Rightarrow> (('w, 'z) storage_sio2_scheme, s32) state" where
  "backend_mmce_open ker bus device path flags =
    (if mmce_validate_device device < 0 then ret (-1)
     else do {
       let port = physical_port device;
       let len = string_length path (240 - 1) + 1;
       (result, rx) \<leftarrow> mmce_exchange ker bus port [0x8B, 0x40, 0xFF, mmce_pack_open_flags flags, 0xFF] 5 (replicate 5 0) 5;
       if result < 0 \<or> rx ! 1 \<noteq> 0xAA then ret (-2)
       else do {
         (result, _) \<leftarrow> mmce_exchange ker bus port path len (replicate 240 0) len;
         if result < 0 then ret (-3)
         else do {
           (result, footer) \<leftarrow> mmce_exchange ker bus port [] 0 (replicate 3 0) 3;
           ret (if result < 0 then -4 else if footer ! 1 = 0xFF then -5 else int (unat (footer ! 1))) } } })"

definition backend_mmce_close ::
  "'w iop_kernel \<Rightarrow> 'w bus \<Rightarrow> storage_device \<Rightarrow> s32 \<Rightarrow> (('w, 'z) storage_sio2_scheme, s32) state" where
  "backend_mmce_close ker bus device fd =
    (if mmce_validate_device device < 0 \<or> fd < 0 \<or> fd > 255 then ret (-1)
     else do {
       (result, rx) \<leftarrow> mmce_exchange ker bus (physical_port device)
         [0x8B, 0x41, 0xFF, word_of_int fd, 0xFF, 0xFF] 6 (replicate 6 0) 6;
       ret (if result < 0 \<or> rx ! 1 \<noteq> 0xAA then -2 else if rx ! 4 = 0 then 0 else -3) })"

text \<open>The payload travels in pieces of at most 256 bytes; \<open>off\<close> is the progress of the loop.\<close>

function mmce_receive_loop ::
  "'w iop_kernel \<Rightarrow> 'w bus \<Rightarrow> u32 \<Rightarrow> u32 \<Rightarrow> u32 \<Rightarrow> u8 list \<Rightarrow> (('w, 'z) storage_sio2_scheme, s32 \<times> u8 list) state" where
  "mmce_receive_loop ker bus port off n data =
    (if off < n then do {
       let chunk = (if n - off > 256 then 256 else n - off);
       (result, part) \<leftarrow> mmce_exchange ker bus port [] 0 (take (unat chunk) (drop (unat off) data)) chunk;
       if result < 0 then ret (-3, splice (unat off) part data)
       else mmce_receive_loop ker bus port (off + chunk) n (splice (unat off) part data) }
     else ret (0, data))"
  by pat_completeness auto

function mmce_send_loop ::
  "'w iop_kernel \<Rightarrow> 'w bus \<Rightarrow> u32 \<Rightarrow> u32 \<Rightarrow> u32 \<Rightarrow> u8 list \<Rightarrow> (('w, 'z) storage_sio2_scheme, s32) state" where
  "mmce_send_loop ker bus port off n data =
    (if off < n then do {
       let chunk = (if n - off > 256 then 256 else n - off);
       (result, _) \<leftarrow> mmce_exchange ker bus port (drop (unat off) data) chunk [] 0;
       if result < 0 then ret (-5) else mmce_send_loop ker bus port (off + chunk) n data }
     else ret 0)"
  by pat_completeness auto

lemma chunk_progress:
  fixes off n :: u32
  assumes "off < n" "chunk = (if n - off > 256 then 256 else n - off)"
  shows "unat (n - (off + chunk)) < unat (n - off)"
proof -
  have c: "chunk \<noteq> 0" "chunk \<le> n - off" using assms by (auto simp: not_less)
  have "unat (n - off - chunk) = unat (n - off) - unat chunk" using c(2) by (simp add: unat_sub)
  moreover have "0 < unat chunk" "unat chunk \<le> unat (n - off)"
    using c by (simp_all add: unat_gt_0 word_le_nat_alt)
  ultimately show ?thesis by (simp add: diff_diff_eq)
qed

termination mmce_receive_loop
  by (relation "measure (\<lambda>(ker, bus, port, off, n, data). unat (n - off))") (auto simp: chunk_progress)

termination mmce_send_loop
  by (relation "measure (\<lambda>(ker, bus, port, off, n, data). unat (n - off))") (auto simp: chunk_progress)

declare mmce_receive_loop.simps [simp del] mmce_send_loop.simps [simp del]

text \<open>The byte count that ends a transfer: a signed 32-bit value, clamped to the request.\<close>

definition mmce_count :: "u8 list \<Rightarrow> u32 \<Rightarrow> s32 \<Rightarrow> s32" where
  "mmce_count footer n failed =
    (let bytes = be32 (footer ! 1) (footer ! 2) (footer ! 3) (footer ! 4)
     in if sint bytes < 0 then failed else if bytes > n then sint n else sint bytes)"

definition backend_mmce_read ::
  "'w iop_kernel \<Rightarrow> 'w bus \<Rightarrow> storage_device \<Rightarrow> s32 \<Rightarrow> u8 list \<Rightarrow> u32 \<Rightarrow> (('w, 'z) storage_sio2_scheme, s32 \<times> u8 list) state" where
  "backend_mmce_read ker bus device fd data n =
    (if mmce_validate_device device < 0 \<or> n > 512 \<or> fd < 0 \<or> fd > 255 then ret (-1, data)
     else do {
       let port = physical_port device;
       (result, rx) \<leftarrow> mmce_exchange ker bus port
         ([0x8B, 0x42, 0xFF, 0, word_of_int fd] @ be32_bytes n @ [0xFF]) 10 (replicate 10 0) 10;
       if result < 0 \<or> rx ! 1 \<noteq> 0xAA \<or> rx ! 9 \<noteq> 0 then ret (-2, data)
       else do {
         (result, data) \<leftarrow> mmce_receive_loop ker bus port 0 n data;
         if result < 0 then ret (result, data)
         else do {
           (result, footer) \<leftarrow> mmce_exchange ker bus port [] 0 (replicate 6 0) 6;
           ret (if result < 0 then -4 else mmce_count footer n (-5), data) } } })"

text \<open>Waiting for the device to take data: at most 128 attempts, \<open>attempts\<close> counts those that are left.\<close>

fun mmce_ready_loop ::
  "'w iop_kernel \<Rightarrow> 'w bus \<Rightarrow> u32 \<Rightarrow> nat \<Rightarrow> (('w, 'z) storage_sio2_scheme, s32) state" where
  "mmce_ready_loop ker bus port attempts =
    (if attempts = 0 then ret (-4)
     else do {
       (result, ready) \<leftarrow> mmce_exchange ker bus port [] 0 (replicate 2 0) 2;
       if result < 0 then ret (-3)
       else if ready ! 1 \<noteq> 0 then ret 0
       else do {
         on_sto (\<lambda>w. ((), DelayThread ker 1000 w));
         mmce_ready_loop ker bus port (attempts - 1) } })"

declare mmce_ready_loop.simps [simp del]

definition backend_mmce_write ::
  "'w iop_kernel \<Rightarrow> 'w bus \<Rightarrow> storage_device \<Rightarrow> s32 \<Rightarrow> u8 list \<Rightarrow> u32 \<Rightarrow> (('w, 'z) storage_sio2_scheme, s32) state" where
  "backend_mmce_write ker bus device fd data n =
    (if mmce_validate_device device < 0 \<or> n > 512 \<or> fd < 0 \<or> fd > 255 then ret (-1)
     else do {
       let port = physical_port device;
       (result, rx) \<leftarrow> mmce_exchange ker bus port
         ([0x8B, 0x43, 0xFF, 0, word_of_int fd] @ be32_bytes n @ [0xFF]) 10 (replicate 10 0) 10;
       if result < 0 \<or> rx ! 1 \<noteq> 0xAA \<or> rx ! 9 \<noteq> 0 then ret (-2)
       else do {
         ready \<leftarrow> mmce_ready_loop ker bus port 128;
         if ready < 0 then ret ready
         else do {
           sent \<leftarrow> mmce_send_loop ker bus port 0 n data;
           if sent < 0 then ret sent
           else do {
             (result, footer) \<leftarrow> mmce_exchange ker bus port [] 0 (replicate 6 0) 6;
             ret (if result < 0 then -6 else mmce_count footer n (-7)) } } } })"

definition backend_mmce_lseek ::
  "'w iop_kernel \<Rightarrow> 'w bus \<Rightarrow> storage_device \<Rightarrow> s32 \<Rightarrow> s32 \<Rightarrow> s32 \<Rightarrow> (('w, 'z) storage_sio2_scheme, s32) state" where
  "backend_mmce_lseek ker bus device fd offset whence =
    (if mmce_validate_device device < 0 \<or> fd < 0 \<or> fd > 255 then ret (-1)
     else do {
       (result, rx) \<leftarrow> mmce_exchange ker bus (physical_port device)
         ([0x8B, 0x44, 0xFF, word_of_int fd] @ be32_bytes (word_of_int offset) @ [word_of_int whence]) 9
         (replicate 14 0) 14;
       ret (if result < 0 \<or> rx ! 1 \<noteq> 0xAA then -2
            else sint (be32 (rx ! 9) (rx ! 10) (rx ! 11) (rx ! 12))) })"

end
