(* ===== verification/StorageSd.thy ===== *)
theory StorageSd
  imports StorageCard
begin

text \<open>
  SD cards behind an MX4SIO adapter, \<open>src/iop/storage/src/storage_backends.c\<close>: the SPI commands over SIO2,
  the start-up of a card with its capacity, and the transfer of sectors.
\<close>

definition reverse_bits :: "u8 \<Rightarrow> u8" where
  "reverse_bits v =
    (let v = push_bit 1 (v AND 0x55) OR (drop_bit 1 v AND 0x55);
         v = push_bit 2 (v AND 0x33) OR (drop_bit 2 v AND 0x33)
     in push_bit 4 v OR drop_bit 4 v)"

definition mx_exchange ::
  "'w iop_kernel \<Rightarrow> 'w bus \<Rightarrow> u8 list \<Rightarrow> u32 \<Rightarrow> u8 list \<Rightarrow> u32 \<Rightarrow> (('w, 'z) storage_backend_scheme, s32 \<times> u8 list) state" where
  "mx_exchange ker bus tx tx_size rx rx_size =
    (if tx_size > 256 \<or> rx_size > 256 then ret (-1, rx)
     else do {
       baud \<leftarrow> reads g_mx_baud;
       let ctrl1 = 0x00000505 OR push_bit 16 0x78 OR push_bit 24 baud;
       (result, rx_raw) \<leftarrow> ef2_storage_sio2_exchange ker bus 3 ctrl1 0x0000012C 1
         (map reverse_bits (take (unat tx_size) tx)) tx_size (replicate 256 0) rx_size 100000;
       ret (if result < 0 then (result, rx)
            else (0, splice 0 (map reverse_bits (take (unat rx_size) rx_raw)) rx)) })"

text \<open>The CRC of a command, bit by bit; \<open>n\<close> counts the bits that are left of the byte \<open>v\<close>.\<close>

fun crc7_bit_loop :: "nat \<Rightarrow> u8 \<Rightarrow> u8 \<Rightarrow> u8" where
  "crc7_bit_loop 0 v crc = crc"
| "crc7_bit_loop (Suc n) v crc =
    (let mix = ((crc AND 0x40 \<noteq> 0) \<noteq> (v AND 0x80 \<noteq> 0));
         crc = push_bit 1 crc AND 0x7F;
         crc = (if mix then crc XOR 0x09 else crc)
     in crc7_bit_loop n (push_bit 1 v) crc)"

fun crc7_byte_loop :: "u8 list \<Rightarrow> u8 \<Rightarrow> u8" where
  "crc7_byte_loop [] crc = crc"
| "crc7_byte_loop (v # data) crc = crc7_byte_loop data (crc7_bit_loop 8 v crc)"

definition mx_crc7 :: "u8 list \<Rightarrow> u32 \<Rightarrow> u8" where
  "mx_crc7 data n = crc7_byte_loop (take (unat n) data) 0"

definition mx_dummy :: "'w iop_kernel \<Rightarrow> 'w bus \<Rightarrow> (('w, 'z) storage_backend_scheme, s32) state" where
  "mx_dummy ker bus = do {
     (result, rx) \<leftarrow> mx_exchange ker bus [0xFF] 1 [0xFF] 1;
     ret (if result < 0 then -1 else int (unat (rx ! 0))) }"

definition mx_receive_byte :: "'w iop_kernel \<Rightarrow> 'w bus \<Rightarrow> (('w, 'z) storage_backend_scheme, u8 option) state" where
  "mx_receive_byte ker bus = do {
     (result, rx) \<leftarrow> mx_exchange ker bus [] 0 [0xFF] 1;
     ret (if result < 0 then None else Some (rx ! 0)) }"

text \<open>Polling for an answer; the last argument counts the attempts that are left.\<close>

fun mx_wait_not_equal ::
  "'w iop_kernel \<Rightarrow> 'w bus \<Rightarrow> u8 \<Rightarrow> nat \<Rightarrow> (('w, 'z) storage_backend_scheme, s32) state" where
  "mx_wait_not_equal ker bus v attempts =
    (if attempts = 0 then ret (-2)
     else do {
       rx \<leftarrow> mx_receive_byte ker bus;
       case rx of
         None \<Rightarrow> ret (-1)
       | Some b \<Rightarrow> if b \<noteq> v then ret (int (unat b)) else mx_wait_not_equal ker bus v (attempts - 1) })"

fun mx_wait_equal ::
  "'w iop_kernel \<Rightarrow> 'w bus \<Rightarrow> u8 \<Rightarrow> nat \<Rightarrow> (('w, 'z) storage_backend_scheme, s32) state" where
  "mx_wait_equal ker bus v attempts =
    (if attempts = 0 then ret (-2)
     else do {
       rx \<leftarrow> mx_receive_byte ker bus;
       case rx of
         None \<Rightarrow> ret (-1)
       | Some b \<Rightarrow> if b = v then ret 0 else mx_wait_equal ker bus v (attempts - 1) })"

declare mx_wait_not_equal.simps [simp del] mx_wait_equal.simps [simp del]

definition SD_CMD :: "u8 \<Rightarrow> u8" where "SD_CMD n = n OR 0x40"

definition command_packet :: "u8 \<Rightarrow> u32 \<Rightarrow> u8 list" where
  "command_packet command argument =
    (let head = command # be32_bytes argument in head @ [push_bit 1 (mx_crc7 head 5) OR 1])"

definition mx_send_command ::
  "'w iop_kernel \<Rightarrow> 'w bus \<Rightarrow> u8 \<Rightarrow> u32 \<Rightarrow> (('w, 'z) storage_backend_scheme, s32) state" where
  "mx_send_command ker bus command argument = do {
     _ \<leftarrow> (if command \<noteq> SD_CMD 0 then mx_dummy ker bus else ret 0);
     (result, _) \<leftarrow> mx_exchange ker bus (command_packet command argument) 6 [] 0;
     if result < 0 then ret (-1) else mx_wait_not_equal ker bus 0xFF 256 }"

definition mx_send_command_data ::
  "'w iop_kernel \<Rightarrow> 'w bus \<Rightarrow> u8 \<Rightarrow> u32 \<Rightarrow> u8 list \<Rightarrow> u32 \<Rightarrow> (('w, 'z) storage_backend_scheme, s32 \<times> u8 list) state" where
  "mx_send_command_data ker bus command argument data n = do {
     response \<leftarrow> mx_send_command ker bus command argument;
     if response < 0 then ret (response, data)
     else do {
       (result, data) \<leftarrow> mx_exchange ker bus [] 0 data n;
       if result < 0 then ret (-3, data)
       else do {
         _ \<leftarrow> mx_dummy ker bus;
         ret (response, data) } } }"

definition mx_read_register ::
  "'w iop_kernel \<Rightarrow> 'w bus \<Rightarrow> u8 \<Rightarrow> u8 list \<Rightarrow> (('w, 'z) storage_backend_scheme, s32 \<times> u8 list) state" where
  "mx_read_register ker bus command data = do {
     response \<leftarrow> mx_send_command ker bus command 0;
     if response \<noteq> 0 then ret (-1, data)
     else do {
       found \<leftarrow> mx_wait_equal ker bus 0xFE 4096;
       if found < 0 then ret (-2, data)
       else do {
         (result, data) \<leftarrow> mx_exchange ker bus [] 0 data 18;
         if result < 0 then ret (-3, data)
         else do {
           _ \<leftarrow> mx_dummy ker bus;
           ret (0, data) } } } }"

section \<open>Capacity\<close>

definition mx_csd_sector_count :: "u8 list \<Rightarrow> u32" where
  "mx_csd_sector_count csd =
    (let structure = ucast (drop_bit 6 (csd ! 0)) AND (3 :: u32)
     in if structure = 1 then
          let c_size = push_bit 16 (ucast (csd ! 7 AND 0x3F)) OR push_bit 8 (ucast (csd ! 8)) OR (ucast (csd ! 9) :: u32)
          in (c_size + 1) * 1024
        else if structure = 0 then
          let read_block_shift = ucast (csd ! 5) AND (0x0F :: u32);
              c_size = push_bit 10 (ucast (csd ! 6 AND 0x03)) OR push_bit 2 (ucast (csd ! 7))
                       OR (ucast (drop_bit 6 (csd ! 8)) AND (0x03 :: u32));
              c_size_mult = push_bit 1 (ucast (csd ! 9 AND 0x03)) OR (ucast (drop_bit 7 (csd ! 10)) AND (1 :: u32));
              units = c_size + 1;
              sector_shift = int (unat c_size_mult) + 2 + int (unat read_block_shift) - 9
          in if sector_shift \<ge> 0 then
               if sector_shift \<ge> 32 \<or> units > drop_bit (nat sector_shift) 0xFFFFFFFF then 0
               else push_bit (nat sector_shift) units
             else if sector_shift \<le> -32 then 0
             else drop_bit (nat (- sector_shift)) units
        else 0)"

section \<open>Start-up\<close>

text \<open>The loops that wait for the end of the card's initialisation; the result is the last response.
  \<open>Inl\<close> is the early return of the first one.\<close>

fun mx_acmd41_v2_loop ::
  "'w iop_kernel \<Rightarrow> 'w bus \<Rightarrow> nat \<Rightarrow> s32 \<Rightarrow> (('w, 'z) storage_backend_scheme, s32 + s32) state" where
  "mx_acmd41_v2_loop ker bus attempts response =
    (if attempts = 0 then ret (Inr response)
     else do {
       response \<leftarrow> mx_send_command ker bus (SD_CMD 55) 0;
       if response \<noteq> 1 then ret (Inl (-3))
       else do {
         response \<leftarrow> mx_send_command ker bus (SD_CMD 41) 0x40000000;
         if response = 0 then ret (Inr response) else mx_acmd41_v2_loop ker bus (attempts - 1) response } })"

fun mx_acmd41_v1_loop ::
  "'w iop_kernel \<Rightarrow> 'w bus \<Rightarrow> nat \<Rightarrow> s32 \<Rightarrow> (('w, 'z) storage_backend_scheme, s32) state" where
  "mx_acmd41_v1_loop ker bus attempts response =
    (if attempts = 0 then ret response
     else do {
       response \<leftarrow> mx_send_command ker bus (SD_CMD 55) 0;
       if response = 1 then do {
         response \<leftarrow> mx_send_command ker bus (SD_CMD 41) 0;
         if response = 0 then ret response else mx_acmd41_v1_loop ker bus (attempts - 1) response }
       else mx_acmd41_v1_loop ker bus (attempts - 1) response })"

fun mx_cmd1_loop ::
  "'w iop_kernel \<Rightarrow> 'w bus \<Rightarrow> nat \<Rightarrow> s32 \<Rightarrow> (('w, 'z) storage_backend_scheme, s32) state" where
  "mx_cmd1_loop ker bus attempts response =
    (if attempts = 0 then ret response
     else do {
       response \<leftarrow> mx_send_command ker bus (SD_CMD 1) 0;
       if response = 0 then ret response else mx_cmd1_loop ker bus (attempts - 1) response })"

declare mx_acmd41_v2_loop.simps [simp del] mx_acmd41_v1_loop.simps [simp del] mx_cmd1_loop.simps [simp del]

text \<open>The two families of cards: the result of the branch, 0 to go on.  The card types are 0 (MMC), 1 (SD
  version 1), 2 (SD version 2) and 4 (SDHC).\<close>

definition mx_start_v2 :: "'w iop_kernel \<Rightarrow> 'w bus \<Rightarrow> s32 \<Rightarrow> (('w, 'z) storage_backend_scheme, s32) state" where
  "mx_start_v2 ker bus response = do {
     r \<leftarrow> mx_acmd41_v2_loop ker bus 4096 response;
     case r of
       Inl e \<Rightarrow> ret e
     | Inr response \<Rightarrow>
         if response \<noteq> 0 then ret (-4)
         else do {
           (response, ocr) \<leftarrow> mx_send_command_data ker bus (SD_CMD 58) 0 (replicate 6 0) 6;
           if response \<noteq> 0 then ret (-5)
           else do {
             modify (\<lambda>st. st\<lparr>g_mx_card_type := if ocr ! 0 AND 0x40 \<noteq> 0 then 4 else 2\<rparr>);
             ret 0 } } }"

definition mx_start_v1 :: "'w iop_kernel \<Rightarrow> 'w bus \<Rightarrow> s32 \<Rightarrow> (('w, 'z) storage_backend_scheme, s32) state" where
  "mx_start_v1 ker bus response = do {
     response \<leftarrow> mx_acmd41_v1_loop ker bus 4096 response;
     result \<leftarrow> (if response = 0 then do { modify (\<lambda>st. st\<lparr>g_mx_card_type := 1\<rparr>); ret 0 }
                else do {
                  response \<leftarrow> mx_cmd1_loop ker bus 4096 response;
                  if response \<noteq> 0 then ret (-6)
                  else do { modify (\<lambda>st. st\<lparr>g_mx_card_type := 0\<rparr>); ret 0 } });
     if result < 0 then ret result
     else do {
       _ \<leftarrow> mx_send_command ker bus (SD_CMD 59) 0;
       response \<leftarrow> mx_send_command ker bus (SD_CMD 16) 512;
       ret (if response \<noteq> 0 then -7 else 0) } }"

definition mx_initialize :: "'w iop_kernel \<Rightarrow> 'w bus \<Rightarrow> (('w, 'z) storage_backend_scheme, s32) state" where
  "mx_initialize ker bus = do {
     modify (\<lambda>st. st\<lparr>g_mx_baud := 0x78, g_mx_initialized := False, g_mx_sector_count := 0\<rparr>);
     (result, _) \<leftarrow> mx_exchange ker bus (replicate 10 0xFF) 10 [] 0;
     if result < 0 then ret (-1)
     else do {
       response \<leftarrow> mx_send_command ker bus (SD_CMD 0) 0;
       if response \<noteq> 1 then ret (-2)
       else do {
         (response, ocr) \<leftarrow> mx_send_command_data ker bus (SD_CMD 8) 0x1AA (replicate 6 0) 6;
         result \<leftarrow> (if response = 1 \<and> ocr ! 2 = 0x01 \<and> ocr ! 3 = 0xAA then mx_start_v2 ker bus response
                    else mx_start_v1 ker bus response);
         if result < 0 then ret result
         else do {
           modify (\<lambda>st. st\<lparr>g_mx_baud := 0x02\<rparr>);
           (result, reg) \<leftarrow> mx_read_register ker bus (SD_CMD 9) (replicate 18 0);
           if result < 0 then ret (-8)
           else do {
             modify (\<lambda>st. st\<lparr>g_mx_sector_count := mx_csd_sector_count reg\<rparr>);
             if mx_csd_sector_count reg = 0 then ret (-9)
             else do {
               modify (\<lambda>st. st\<lparr>g_mx_initialized := True\<rparr>);
               ret 0 } } } } } }"

section \<open>Sectors\<close>

definition mx_read_sector ::
  "'w iop_kernel \<Rightarrow> 'w bus \<Rightarrow> u32 \<Rightarrow> u8 list \<Rightarrow> (('w, 'z) storage_backend_scheme, s32 \<times> u8 list) state" where
  "mx_read_sector ker bus sector data = do {
     st \<leftarrow> State_Monad.get;
     if \<not> g_mx_initialized st \<or> sector \<ge> g_mx_sector_count st then ret (-1, data)
     else do {
       let address = (if g_mx_card_type st \<noteq> 4 then push_bit 9 sector else sector);
       idle \<leftarrow> mx_wait_equal ker bus 0xFF 4096;
       if idle < 0 then ret (-2, data)
       else do {
         response \<leftarrow> mx_send_command ker bus (SD_CMD 17) address;
         if response \<noteq> 0 then ret (-3, data)
         else do {
           found \<leftarrow> mx_wait_equal ker bus 0xFE 100000;
           if found < 0 then ret (-4, data)
           else do {
             (result, low) \<leftarrow> mx_exchange ker bus [] 0 (take 256 data) 256;
             let data = splice 0 low data;
             if result < 0 then ret (-5, data)
             else do {
               (result, high) \<leftarrow> mx_exchange ker bus [] 0 (drop 256 data) 256;
               let data = splice 256 high data;
               if result < 0 then ret (-6, data)
               else do {
                 (result, _) \<leftarrow> mx_exchange ker bus [] 0 (replicate 2 0) 2;
                 if result < 0 then ret (-7, data)
                 else do {
                   _ \<leftarrow> mx_dummy ker bus;
                   ret (0, data) } } } } } } } }"

definition mx_write_sector ::
  "'w iop_kernel \<Rightarrow> 'w bus \<Rightarrow> u32 \<Rightarrow> u8 list \<Rightarrow> (('w, 'z) storage_backend_scheme, s32) state" where
  "mx_write_sector ker bus sector data = do {
     st \<leftarrow> State_Monad.get;
     if \<not> g_mx_initialized st \<or> sector \<ge> g_mx_sector_count st then ret (-1)
     else do {
       let address = (if g_mx_card_type st \<noteq> 4 then push_bit 9 sector else sector);
       idle \<leftarrow> mx_wait_equal ker bus 0xFF 4096;
       if idle < 0 then ret (-2)
       else do {
         cmd \<leftarrow> mx_send_command ker bus (SD_CMD 24) address;
         if cmd \<noteq> 0 then ret (-3)
         else do {
           (result, _) \<leftarrow> mx_exchange ker bus [0xFE] 1 [] 0;
           if result < 0 then ret (-4)
           else do {
             (result, _) \<leftarrow> mx_exchange ker bus (take 256 data) 256 [] 0;
             if result < 0 then ret (-5)
             else do {
               (result, _) \<leftarrow> mx_exchange ker bus (drop 256 data) 256 [] 0;
               if result < 0 then ret (-6)
               else do {
                 (result, _) \<leftarrow> mx_exchange ker bus [0xFF, 0xFF] 2 [] 0;
                 if result < 0 then ret (-7)
                 else do {
                   response \<leftarrow> mx_receive_byte ker bus;
                   case response of
                     None \<Rightarrow> ret (-8)
                   | Some b \<Rightarrow>
                       if b AND 0x1F \<noteq> 0x05 then ret (-9)
                       else do {
                         idle \<leftarrow> mx_wait_equal ker bus 0xFF 0x80000;
                         if idle < 0 then ret (-10)
                         else do {
                           _ \<leftarrow> mx_dummy ker bus;
                           ret 0 } } } } } } } } } }"

end
