(* ===== verification/StorageService.thy ===== *)
theory StorageService
  imports StorageMmce StorageSd
begin

text \<open>
  The IOP storage service: the scan for devices and the block operations of
  \<open>src/iop/storage/src/storage_backends.c\<close>, and the dispatcher and start of the module,
  \<open>src/iop/storage/src/main.c\<close>.
\<close>

record scan_diag =
  diag_mmce :: "s32 list"
  diag_terminator :: "s32 list"
  diag_geometry :: "s32 list"
  diag_format :: "s32 list"
  diag_mx4sio :: s32

definition zero_diag :: scan_diag where
  "zero_diag = \<lparr>diag_mmce = [0, 0], diag_terminator = [0, 0], diag_geometry = [0, 0], diag_format = [0, 0], diag_mx4sio = 0\<rparr>"

definition unprobed_diag :: scan_diag where
  "unprobed_diag = \<lparr>diag_mmce = [-127, -127], diag_terminator = [-127, -127], diag_geometry = [-127, -127],
    diag_format = [-127, -127], diag_mx4sio = -127\<rparr>"

section \<open>Scan\<close>

definition scan_value :: "s32 \<Rightarrow> u32" where
  "scan_value v = (if v < 0 then 0 else word_of_int v)"

text \<open>A port that answered the MMCE ping: the description of the device.\<close>

definition scan_mmce ::
  "'w iop_kernel \<Rightarrow> 'w bus \<Rightarrow> u32 \<Rightarrow> storage_device \<Rightarrow> scan_diag \<Rightarrow> (('w, 'z) storage_backend_scheme, storage_device \<times> scan_diag) state" where
  "scan_mmce ker bus port info diag = do {
     let i = unat (port - 2);
     let info = info\<lparr>dev_kind := KIND_MMCE, capabilities := EF2_STORAGE_CAP_MEMORY_CARD OR EF2_STORAGE_CAP_FILESYSTEM
                       OR EF2_STORAGE_CAP_VIRTUAL_CARDS OR EF2_STORAGE_CAP_GAME_ID\<rparr>;
     (mc_result, term_result, info) \<leftarrow> mc_get_spec ker bus port info;
     let diag = diag\<lparr>diag_terminator := (diag_terminator diag)[i := term_result],
                     diag_geometry := (diag_geometry diag)[i := mc_result]\<rparr>;
     (info, diag) \<leftarrow>
       (if mc_result = 0 then do {
          let info = info\<lparr>capabilities := capabilities info OR (EF2_STORAGE_CAP_GEOMETRY OR EF2_STORAGE_CAP_PAGE_READ)\<rparr>;
          (format_result, fmt) \<leftarrow> mc_check_format ker bus info;
          ret (info\<lparr>formatted := fmt\<rparr>, diag\<lparr>diag_format := (diag_format diag)[i := format_result]\<rparr>) }
        else ret (info, diag));
     card_value \<leftarrow> mmce_get_u16 ker bus port 0x03;
     channel_value \<leftarrow> mmce_get_u16 ker bus port 0x05;
     status_value \<leftarrow> mmce_get_u16 ker bus port 0x02;
     ret (info\<lparr>current_card := scan_value card_value, current_channel := scan_value channel_value,
               dev_status := scan_value status_value\<rparr>, diag) }"

text \<open>A port without an MMCE device: a native card, or an SD card on port 3.\<close>

definition scan_card ::
  "'w iop_kernel \<Rightarrow> 'w bus \<Rightarrow> u32 \<Rightarrow> storage_device \<Rightarrow> scan_diag \<Rightarrow>
   (('w, 'z) storage_backend_scheme, storage_device option \<times> scan_diag) state" where
  "scan_card ker bus port info diag = do {
     let i = unat (port - 2);
     (mc_result, term_result, info) \<leftarrow> mc_get_spec ker bus port info;
     let diag = diag\<lparr>diag_terminator := (diag_terminator diag)[i := term_result],
                     diag_geometry := (diag_geometry diag)[i := mc_result]\<rparr>;
     if mc_result = 0 then do {
       let info = info\<lparr>dev_kind := KIND_PS2_MEMORY_CARD, capabilities := EF2_STORAGE_CAP_MEMORY_CARD
                         OR EF2_STORAGE_CAP_GEOMETRY OR EF2_STORAGE_CAP_PAGE_READ\<rparr>;
       (format_result, fmt) \<leftarrow> mc_check_format ker bus info;
       ret (Some (info\<lparr>formatted := fmt\<rparr>), diag\<lparr>diag_format := (diag_format diag)[i := format_result]\<rparr>) }
     else if port = 3 then do {
       mx_result \<leftarrow> mx_initialize ker bus;
       let diag = diag\<lparr>diag_mx4sio := mx_result\<rparr>;
       if mx_result = 0 then do {
         st \<leftarrow> State_Monad.get;
         ret (Some (zero_device\<lparr>formatted := -1, dev_kind := KIND_MX4SIO,
                capabilities := EF2_STORAGE_CAP_BLOCK_READ OR EF2_STORAGE_CAP_BLOCK_WRITE, physical_port := 3,
                sector_size := 512, sector_count := g_mx_sector_count st, product_id := g_mx_card_type st\<rparr>), diag) }
       else ret (None, diag) }
     else ret (None, diag) }"

definition scan_port ::
  "'w iop_kernel \<Rightarrow> 'w bus \<Rightarrow> u32 \<Rightarrow> scan_diag \<Rightarrow> (('w, 'z) storage_backend_scheme, storage_device option \<times> scan_diag) state" where
  "scan_port ker bus port diag = do {
     (mmce_result, info) \<leftarrow> mmce_ping ker bus port (zero_device\<lparr>physical_port := port, formatted := -1\<rparr>);
     let diag = diag\<lparr>diag_mmce := (diag_mmce diag)[unat (port - 2) := mmce_result]\<rparr>;
     if mmce_result = 0 then do {
       (info, diag) \<leftarrow> scan_mmce ker bus port info diag;
       ret (Some info, diag) }
     else scan_card ker bus port info diag }"

text \<open>The loop over the ports 2 and 3: the devices found so far, in order.\<close>

fun scan_loop ::
  "'w iop_kernel \<Rightarrow> 'w bus \<Rightarrow> nat \<Rightarrow> u32 list \<Rightarrow> storage_device list \<Rightarrow> scan_diag \<Rightarrow>
   (('w, 'z) storage_backend_scheme, storage_device list \<times> scan_diag) state" where
  "scan_loop ker bus capacity [] found diag = ret (found, diag)"
| "scan_loop ker bus capacity (port # ports) found diag =
    (if length found < capacity then do {
       (device, diag) \<leftarrow> scan_port ker bus port diag;
       scan_loop ker bus capacity ports (case device of None \<Rightarrow> found | Some info \<Rightarrow> found @ [info]) diag }
     else ret (found, diag))"

text \<open>The result, the devices found (the first entries of the caller's array) and the diagnostics.\<close>

definition ef2_storage_backend_scan ::
  "'w iop_kernel \<Rightarrow> 'w bus \<Rightarrow> nat \<Rightarrow> scan_diag \<Rightarrow>
   (('w, 'z) storage_backend_scheme, s32 \<times> storage_device list \<times> scan_diag) state" where
  "ef2_storage_backend_scan ker bus capacity diag =
    (if capacity = 0 then ret (-1, [], diag)
     else do {
       (found, diag) \<leftarrow> scan_loop ker bus capacity [2, 3] [] unprobed_diag;
       ret (0, found, diag) })"

section \<open>Pages and sectors\<close>

definition backend_read_page ::
  "'w iop_kernel \<Rightarrow> 'w bus \<Rightarrow> storage_device \<Rightarrow> u32 \<Rightarrow> u8 list \<Rightarrow> (('w, 'z) storage_backend_scheme, s32 \<times> u8 list) state" where
  "backend_read_page ker bus device page data =
    (if capabilities device AND EF2_STORAGE_CAP_PAGE_READ = 0 then ret (-2, data)
     else mc_read_page ker bus device page data)"

definition backend_read_sector ::
  "'w iop_kernel \<Rightarrow> 'w bus \<Rightarrow> storage_device \<Rightarrow> u32 \<Rightarrow> u8 list \<Rightarrow> (('w, 'z) storage_backend_scheme, s32 \<times> u8 list) state" where
  "backend_read_sector ker bus device sector data =
    (if dev_kind device \<noteq> KIND_MX4SIO then ret (-2, data) else mx_read_sector ker bus sector data)"

definition backend_write_sector ::
  "'w iop_kernel \<Rightarrow> 'w bus \<Rightarrow> storage_device \<Rightarrow> u32 \<Rightarrow> u8 list \<Rightarrow> (('w, 'z) storage_backend_scheme, s32) state" where
  "backend_write_sector ker bus device sector data =
    (if dev_kind device \<noteq> KIND_MX4SIO then ret (-2) else mx_write_sector ker bus sector data)"

section \<open>The dispatcher\<close>

record storage_request =
  sq_index :: u32
  sq_sector :: u32
  sq_page :: u32
  sq_count :: u32
  sq_fd :: s32
  sq_offset :: s32
  sq_whence :: s32
  sq_value0 :: u32
  sq_value1 :: u32
  sq_value2 :: u32
  sq_data_size :: u32
  sq_path :: "u8 list"
  sq_data :: "u8 list"

record storage_reply =
  sr_result :: s32
  sr_device_count :: u32
  sr_value :: s32
  sr_data_size :: u32
  sr_device :: storage_device
  sr_scan_diag :: scan_diag
  sr_data :: "u8 list"

definition zero_storage_reply :: storage_reply where
  "zero_storage_reply = \<lparr>sr_result = 0, sr_device_count = 0, sr_value = 0, sr_data_size = 0, sr_device = zero_device,
    sr_scan_diag = zero_diag, sr_data = replicate 512 0\<rparr>"

record 'w storage = "'w storage_backend" +
  g_storage_reply :: storage_reply
  g_devices :: "storage_device list"
  g_scan_diag :: scan_diag
  g_device_count :: u32
  g_rpc_ready_sema :: s32

definition device_at :: "u32 \<Rightarrow> 'w storage \<Rightarrow> storage_device option" where
  "device_at index st = (if index < g_device_count st then Some (g_devices st ! unat index) else None)"

definition scan_devices :: "'w iop_kernel \<Rightarrow> 'w bus \<Rightarrow> ('w storage, s32) state" where
  "scan_devices ker bus = do {
     modify (\<lambda>st. st\<lparr>g_devices := replicate 3 zero_device, g_scan_diag := zero_diag, g_device_count := 0\<rparr>);
     (result, found, diag) \<leftarrow> ef2_storage_backend_scan ker bus 3 zero_diag;
     modify (\<lambda>st. st\<lparr>g_devices := splice 0 found (g_devices st), g_scan_diag := diag,
                     g_device_count := word_of_nat (length found)\<rparr>);
     ret result }"

text \<open>A value that is an error when negative.\<close>

definition reply_value :: "s32 \<Rightarrow> storage_reply \<Rightarrow> s32 \<times> storage_reply" where
  "reply_value v reply = (if v < 0 then v else 0, reply\<lparr>sr_value := v\<rparr>)"

definition reply_data :: "s32 \<Rightarrow> u8 list \<Rightarrow> u32 \<Rightarrow> storage_reply \<Rightarrow> s32 \<times> storage_reply" where
  "reply_data result data n reply =
    (result, reply\<lparr>sr_data := data, sr_data_size := if result = 0 then n else sr_data_size reply\<rparr>)"

text \<open>One function of the dispatcher: its result and the reply as far as the function fills it in.
  The device has been looked up; a request shorter than the structure has none.\<close>

definition storage_operation ::
  "'w iop_kernel \<Rightarrow> 'w bus \<Rightarrow> s32 \<Rightarrow> storage_request \<Rightarrow> storage_device \<Rightarrow> storage_reply \<Rightarrow>
   ('w storage, s32 \<times> storage_reply) state" where
  "storage_operation ker bus fn req device reply =
    (if fn = 2 then ret (0, reply\<lparr>sr_device := device\<rparr>)
     else if fn = 16 then
       if sq_data_size req = 0 \<or> sq_data_size req > 512 then ret (-2, reply)
       else do {
         (result, data) \<leftarrow> backend_read_page ker bus device (sq_page req) (sr_data reply);
         ret (reply_data result data (sq_data_size req) reply) }
     else if fn = 3 then do {
       (result, data) \<leftarrow> backend_read_sector ker bus device (sq_sector req) (sr_data reply);
       ret (reply_data result data 512 reply) }
     else if fn = 4 then
       if sq_data_size req \<noteq> 512 then ret (-1, reply)
       else do { result \<leftarrow> backend_write_sector ker bus device (sq_sector req) (sq_data req); ret (result, reply) }
     else if fn = 5 then do { v \<leftarrow> backend_mmce_status ker bus device; ret (reply_value v reply) }
     else if fn = 6 then do { v \<leftarrow> backend_mmce_get_card ker bus device; ret (reply_value v reply) }
     else if fn = 7 then do {
       result \<leftarrow> backend_mmce_set_card ker bus device (sq_value0 req) (sq_value1 req) (sq_value2 req);
       ret (result, reply) }
     else if fn = 8 then do { v \<leftarrow> backend_mmce_get_channel ker bus device; ret (reply_value v reply) }
     else if fn = 9 then do {
       result \<leftarrow> backend_mmce_set_channel ker bus device (sq_value0 req) (sq_value1 req);
       ret (result, reply) }
     else if fn = 10 then do {
       result \<leftarrow> backend_mmce_set_game_id ker bus device (sq_path req @ sq_data req);
       ret (result, reply) }
     else if fn = 11 then do {
       v \<leftarrow> backend_mmce_open ker bus device (sq_path req @ sq_data req) (sq_value0 req);
       ret (reply_value v reply) }
     else if fn = 12 then do { result \<leftarrow> backend_mmce_close ker bus device (sq_fd req); ret (result, reply) }
     else if fn = 13 then
       if sq_data_size req > 512 then ret (-1, reply)
       else do {
         (result, data) \<leftarrow> backend_mmce_read ker bus device (sq_fd req) (sr_data reply) (sq_data_size req);
         ret (if result \<ge> 0 then (0, reply\<lparr>sr_data := data, sr_data_size := word_of_int result\<rparr>)
              else (result, reply\<lparr>sr_data := data\<rparr>)) }
     else if fn = 14 then
       if sq_data_size req > 512 then ret (-1, reply)
       else do {
         v \<leftarrow> backend_mmce_write ker bus device (sq_fd req) (sq_data req) (sq_data_size req);
         ret (reply_value v reply) }
     else do {
       v \<leftarrow> backend_mmce_lseek ker bus device (sq_fd req) (sq_offset req) (sq_whence req);
       ret (reply_value v reply) })"

definition storage_rpc_handler ::
  "'w iop_kernel \<Rightarrow> 'w bus \<Rightarrow> s32 \<Rightarrow> storage_request \<Rightarrow> s32 \<Rightarrow> ('w storage, unit) state" where
  "storage_rpc_handler ker bus fn req len = do {
     device \<leftarrow> (if len \<ge> 796 then reads (device_at (sq_index req)) else ret None);
     (result, reply) \<leftarrow>
       (if fn = 0 then ret (0, zero_storage_reply)
        else if fn = 1 then do { result \<leftarrow> scan_devices ker bus; ret (result, zero_storage_reply) }
        else if fn < 0 \<or> fn > 16 then ret (-100, zero_storage_reply)
        else
          case device of
            None \<Rightarrow> ret (-1, zero_storage_reply)
          | Some device \<Rightarrow> storage_operation ker bus fn req device zero_storage_reply);
     modify (\<lambda>st. st\<lparr>g_storage_reply := reply\<lparr>sr_result := result, sr_device_count := g_device_count st,
                                             sr_scan_diag := g_scan_diag st\<rparr>\<rparr>) }"

definition storage_start :: "'w iop_kernel \<Rightarrow> ('w storage, s32) state" where
  "storage_start ker = do {
     result \<leftarrow> ef2_storage_sio2_init ker;
     if result < 0 then ret (MODULE_NO_RESIDENT_END ker)
     else do {
       sema \<leftarrow> on_sto (CreateSema ker \<lparr>sema_attr = 0, sema_option = 0, sema_initial = 0, sema_max = 1\<rparr>);
       modify (\<lambda>st. st\<lparr>g_rpc_ready_sema := sema\<rparr>);
       if sema < 0 then ret (MODULE_NO_RESIDENT_END ker)
       else do {
         thread \<leftarrow> on_sto (CreateThread ker \<lparr>thread_attr = TH_C ker, thread_option = 0, thread_entry = Rpc_thread,
                      thread_stacksize = 0x1800, thread_priority = 41\<rparr>);
         if thread < 0 then ret (MODULE_NO_RESIDENT_END ker)
         else do {
           started \<leftarrow> on_sto (StartThread ker thread);
           if started < 0 then ret (MODULE_NO_RESIDENT_END ker)
           else do {
             on_sto (\<lambda>w. ((), WaitSema ker sema w));
             ret (MODULE_RESIDENT_END ker) } } } } }"

end
