(* ===== verification/StorageClient.thy ===== *)
theory StorageClient
  imports StorageService PadClient
begin

text \<open>
  The EE side of the storage RPC, \<open>src/ee/storage/storage.c\<close>: device queries, pages, runs of sectors and
  MMCE files.  The SIF transport is the parameter that the pad client uses.

  A buffer of the caller is the list of its bytes, \<open>None\<close> for the null pointer; an access outside it, or
  outside the data of the reply, makes the result \<open>None\<close>.  A pointer that only receives a value is
  whether it is non-null.
\<close>

record 'w storage_client =
  sc_world :: 'w
  sc_request :: storage_request
  sc_reply :: storage_reply
  sc_device_count :: u32
  sc_scan_diag :: scan_diag
  sc_bound :: bool

type_synonym 'w storage_services = "('w, storage_request, storage_reply) sif_services"

definition zero_storage_request :: storage_request where
  "zero_storage_request = \<lparr>sq_index = 0, sq_sector = 0, sq_page = 0, sq_count = 0, sq_fd = 0, sq_offset = 0,
    sq_whence = 0, sq_value0 = 0, sq_value1 = 0, sq_value2 = 0, sq_data_size = 0,
    sq_path = replicate 240 0, sq_data = replicate 512 0\<rparr>"

text \<open>Copies between buffers: \<open>n\<close> bytes of \<open>src\<close> to \<open>dest\<close> at \<open>off\<close>, and \<open>n\<close> bytes of \<open>src\<close> at \<open>off\<close>.\<close>

definition put_bytes :: "u8 list \<Rightarrow> nat \<Rightarrow> u8 list \<Rightarrow> nat \<Rightarrow> u8 list option" where
  "put_bytes src n dest off =
    (if n \<le> length src \<and> off + n \<le> length dest then Some (splice off (take n src) dest) else None)"

definition get_bytes :: "u8 list \<Rightarrow> nat \<Rightarrow> nat \<Rightarrow> u8 list option" where
  "get_bytes src off n = (if off + n \<le> length src then Some (take n (drop off src)) else None)"

text \<open>The copy of a string into an array: at most \<open>capacity - 1\<close> characters and a terminator.\<close>

function copy_string_loop :: "u8 list \<Rightarrow> u8 list \<Rightarrow> u32 \<Rightarrow> u32 \<Rightarrow> u8 list" where
  "copy_string_loop dest source capacity i =
    (if i + 1 < capacity \<and> source ! unat i \<noteq> 0
     then copy_string_loop (dest[unat i := source ! unat i]) source capacity (i + 1)
     else dest[unat i := 0])"
  by pat_completeness auto
termination
proof (relation "measure (\<lambda>(dest, source, capacity, i). unat (capacity - (i + 1)))", goal_cases)
  case (2 dest source capacity i)
  then show ?case using u32_countdown_less [of "i + 1" capacity] by simp
qed simp

declare copy_string_loop.simps [simp del]

definition storage_copy_string :: "u8 list \<Rightarrow> u8 list \<Rightarrow> u32 \<Rightarrow> u8 list" where
  "storage_copy_string dest source capacity =
    (if capacity = 0 then dest else copy_string_loop dest source capacity 0)"

definition storage_rpc :: "'w storage_services \<Rightarrow> s32 \<Rightarrow> 'w storage_client \<Rightarrow> s32 \<times> 'w storage_client" where
  "storage_rpc sif fn st =
    (let (result, reply, w) = ef2_sif_call sif fn (sc_request st) 796 zero_storage_reply (sc_world st);
         st = st\<lparr>sc_reply := reply, sc_world := w\<rparr>
     in if result < 0 then (result, st)
        else (sr_result reply, st\<lparr>sc_device_count := sr_device_count reply, sc_scan_diag := sr_scan_diag reply\<rparr>))"

definition storage_request_rpc ::
  "'w storage_services \<Rightarrow> s32 \<Rightarrow> storage_request \<Rightarrow> 'w storage_client \<Rightarrow> s32 \<times> 'w storage_client" where
  "storage_request_rpc sif fn req st = storage_rpc sif fn (st\<lparr>sc_request := req\<rparr>)"

definition ef2_storage_init :: "'w storage_services \<Rightarrow> 'w storage_client \<Rightarrow> s32 \<times> 'w storage_client" where
  "ef2_storage_init sif st =
    (if sc_bound st then (0, st)
     else
       let (result, w) = ef2_sif_init sif (sc_world st)
       in if result < 0 then (-1000 + result, st\<lparr>sc_world := w\<rparr>)
          else
            let (loaded, w) = load_module sif w; st = st\<lparr>sc_world := w\<rparr>
            in case loaded of
                 Inl e \<Rightarrow> (e, st)
               | Inr module_result \<Rightarrow>
                   if module_result \<noteq> 0 then (-2800 - module_result mod 256, st)
                   else
                     let (result, server, w) = ef2_sif_bind sif 0xEF2C0001 w; st = st\<lparr>sc_world := w\<rparr>
                     in if result < 0 \<or> server = 0 then (-3000 + (if result < 0 then result else -9), st)
                        else
                          let (result, st) = storage_request_rpc sif 0 zero_storage_request (st\<lparr>sc_bound := True\<rparr>)
                          in if result < 0 then (-4000 + result, st\<lparr>sc_bound := False\<rparr>) else (0, st))"

definition ef2_storage_scan :: "'w storage_services \<Rightarrow> 'w storage_client \<Rightarrow> s32 \<times> 'w storage_client" where
  "ef2_storage_scan sif st =
    (let (result, st) = (if sc_bound st then (0, st) else ef2_storage_init sif st)
     in if result < 0 then (result, st) else storage_request_rpc sif 1 zero_storage_request st)"

definition ef2_storage_get_device_count :: "'w storage_client \<Rightarrow> u32" where
  "ef2_storage_get_device_count st = sc_device_count st"

definition ef2_storage_get_scan_diag :: "bool \<Rightarrow> 'w storage_client \<Rightarrow> s32 \<times> scan_diag option" where
  "ef2_storage_get_scan_diag diag st = (if \<not> diag then (-1, None) else (0, Some (sc_scan_diag st)))"

definition ef2_storage_get_device ::
  "'w storage_services \<Rightarrow> u32 \<Rightarrow> bool \<Rightarrow> 'w storage_client \<Rightarrow> s32 \<times> storage_device option \<times> 'w storage_client" where
  "ef2_storage_get_device sif index info st =
    (if \<not> sc_bound st \<or> \<not> info \<or> index \<ge> sc_device_count st then (-1, None, st)
     else
       let (result, st) = storage_request_rpc sif 2 (zero_storage_request\<lparr>sq_index := index\<rparr>) st
       in if result < 0 then (result, None, st) else (0, Some (sr_device (sc_reply st)), st))"

section \<open>Pages and sectors\<close>

definition ef2_storage_read_page ::
  "'w storage_services \<Rightarrow> u32 \<Rightarrow> u32 \<Rightarrow> u8 list option \<Rightarrow> u32 \<Rightarrow> 'w storage_client \<Rightarrow>
   (s32 \<times> u8 list \<times> 'w storage_client) option" where
  "ef2_storage_read_page sif index page dest n st =
    (if \<not> sc_bound st \<or> dest = None \<or> n = 0 \<or> n > 512 then Some (-1, [], st)
     else
       let buf = the dest in
       let (result, st) = storage_request_rpc sif 16
             (zero_storage_request\<lparr>sq_index := index, sq_page := page, sq_data_size := n\<rparr>) st
       in if result < 0 then Some (result, buf, st)
          else if sr_data_size (sc_reply st) \<noteq> n then Some (-2, buf, st)
          else do { buf \<leftarrow> put_bytes (sr_data (sc_reply st)) (unat n) buf 0; Some (0, buf, st) })"

function read_sectors_loop ::
  "'w storage_services \<Rightarrow> u32 \<Rightarrow> u32 \<Rightarrow> u8 list \<Rightarrow> u32 \<Rightarrow> u32 \<Rightarrow> 'w storage_client \<Rightarrow>
   (s32 \<times> u8 list \<times> 'w storage_client) option" where
  "read_sectors_loop sif index sector buf count done st =
    (if done < count then
       let (result, st) = storage_request_rpc sif 3
             (zero_storage_request\<lparr>sq_index := index, sq_sector := sector + done, sq_count := 1\<rparr>) st
       in if result < 0 then Some (if done \<noteq> 0 then sint done else result, buf, st)
          else if sr_data_size (sc_reply st) \<noteq> 512 then Some (if done \<noteq> 0 then sint done else -2, buf, st)
          else do {
            buf \<leftarrow> put_bytes (sr_data (sc_reply st)) 512 buf (unat (done * 512));
            read_sectors_loop sif index sector buf count (done + 1) st }
     else Some (sint done, buf, st))"
  by pat_completeness auto
termination
  by (relation "measure (\<lambda>(sif, index, sector, buf, count, done, st). unat (count - done))")
    (auto simp: u32_countdown_less)

definition ef2_storage_read_sectors ::
  "'w storage_services \<Rightarrow> u32 \<Rightarrow> u32 \<Rightarrow> u8 list option \<Rightarrow> u32 \<Rightarrow> 'w storage_client \<Rightarrow>
   (s32 \<times> u8 list \<times> 'w storage_client) option" where
  "ef2_storage_read_sectors sif index sector dest count st =
    (if \<not> sc_bound st \<or> dest = None \<or> count = 0 then Some (-1, [], st)
     else read_sectors_loop sif index sector (the dest) count 0 st)"

function write_sectors_loop ::
  "'w storage_services \<Rightarrow> u32 \<Rightarrow> u32 \<Rightarrow> u8 list \<Rightarrow> u32 \<Rightarrow> u32 \<Rightarrow> 'w storage_client \<Rightarrow> (s32 \<times> 'w storage_client) option" where
  "write_sectors_loop sif index sector source count done st =
    (if done < count then do {
       data \<leftarrow> get_bytes source (unat (done * 512)) 512;
       let (result, st) = storage_request_rpc sif 4 (zero_storage_request\<lparr>sq_index := index,
             sq_sector := sector + done, sq_count := 1, sq_data_size := 512, sq_data := data\<rparr>) st;
       if result < 0 then Some (if done \<noteq> 0 then sint done else result, st)
       else write_sectors_loop sif index sector source count (done + 1) st }
     else Some (sint done, st))"
  by pat_completeness auto
termination
  by (relation "measure (\<lambda>(sif, index, sector, source, count, done, st). unat (count - done))")
    (auto simp: u32_countdown_less)

definition ef2_storage_write_sectors ::
  "'w storage_services \<Rightarrow> u32 \<Rightarrow> u32 \<Rightarrow> u8 list option \<Rightarrow> u32 \<Rightarrow> 'w storage_client \<Rightarrow> (s32 \<times> 'w storage_client) option" where
  "ef2_storage_write_sectors sif index sector source count st =
    (if \<not> sc_bound st \<or> source = None \<or> count = 0 then Some (-1, st)
     else write_sectors_loop sif index sector (the source) count 0 st)"

declare read_sectors_loop.simps [simp del] write_sectors_loop.simps [simp del]

section \<open>MMCE\<close>

definition mmce_value_call ::
  "'w storage_services \<Rightarrow> s32 \<Rightarrow> u32 \<Rightarrow> 'w storage_client \<Rightarrow> s32 \<times> u32 option \<times> 'w storage_client" where
  "mmce_value_call sif fn index st =
    (if \<not> sc_bound st then (-1, None, st)
     else
       let (result, st) = storage_request_rpc sif fn (zero_storage_request\<lparr>sq_index := index\<rparr>) st
       in if result < 0 then (result, None, st) else (0, Some (word_of_int (sr_value (sc_reply st))), st))"

definition ef2_storage_mmce_get_status ::
  "'w storage_services \<Rightarrow> u32 \<Rightarrow> 'w storage_client \<Rightarrow> s32 \<times> u32 option \<times> 'w storage_client" where
  "ef2_storage_mmce_get_status sif index st = mmce_value_call sif 5 index st"

definition ef2_storage_mmce_get_card ::
  "'w storage_services \<Rightarrow> u32 \<Rightarrow> 'w storage_client \<Rightarrow> s32 \<times> u32 option \<times> 'w storage_client" where
  "ef2_storage_mmce_get_card sif index st = mmce_value_call sif 6 index st"

definition ef2_storage_mmce_set_card ::
  "'w storage_services \<Rightarrow> u32 \<Rightarrow> u32 \<Rightarrow> u32 \<Rightarrow> u32 \<Rightarrow> 'w storage_client \<Rightarrow> s32 \<times> 'w storage_client" where
  "ef2_storage_mmce_set_card sif index type mode card_no st =
    (if \<not> sc_bound st then (-1, st)
     else storage_request_rpc sif 7
            (zero_storage_request\<lparr>sq_index := index, sq_value0 := type, sq_value1 := mode, sq_value2 := card_no\<rparr>) st)"

definition ef2_storage_mmce_get_channel ::
  "'w storage_services \<Rightarrow> u32 \<Rightarrow> 'w storage_client \<Rightarrow> s32 \<times> u32 option \<times> 'w storage_client" where
  "ef2_storage_mmce_get_channel sif index st = mmce_value_call sif 8 index st"

definition ef2_storage_mmce_set_channel ::
  "'w storage_services \<Rightarrow> u32 \<Rightarrow> u32 \<Rightarrow> u32 \<Rightarrow> 'w storage_client \<Rightarrow> s32 \<times> 'w storage_client" where
  "ef2_storage_mmce_set_channel sif index mode channel st =
    (if \<not> sc_bound st then (-1, st)
     else storage_request_rpc sif 9 (zero_storage_request\<lparr>sq_index := index, sq_value0 := mode, sq_value1 := channel\<rparr>) st)"

definition ef2_storage_mmce_set_game_id ::
  "'w storage_services \<Rightarrow> u32 \<Rightarrow> u8 list option \<Rightarrow> 'w storage_client \<Rightarrow> s32 \<times> 'w storage_client" where
  "ef2_storage_mmce_set_game_id sif index game_id st =
    (case game_id of
       None \<Rightarrow> (-1, st)
     | Some str \<Rightarrow>
         if \<not> sc_bound st then (-1, st)
         else storage_request_rpc sif 10 (zero_storage_request\<lparr>sq_index := index,
                sq_path := storage_copy_string (replicate 240 0) str 240\<rparr>) st)"

definition ef2_storage_mmce_open ::
  "'w storage_services \<Rightarrow> u32 \<Rightarrow> u8 list option \<Rightarrow> u32 \<Rightarrow> 'w storage_client \<Rightarrow> s32 \<times> 'w storage_client" where
  "ef2_storage_mmce_open sif index path flags st =
    (case path of
       None \<Rightarrow> (-1, st)
     | Some str \<Rightarrow>
         if \<not> sc_bound st then (-1, st)
         else
           let (result, st) = storage_request_rpc sif 11 (zero_storage_request\<lparr>sq_index := index, sq_value0 := flags,
                 sq_path := storage_copy_string (replicate 240 0) str 240\<rparr>) st
           in if result < 0 then (result, st) else (sr_value (sc_reply st), st))"

definition ef2_storage_mmce_close ::
  "'w storage_services \<Rightarrow> u32 \<Rightarrow> s32 \<Rightarrow> 'w storage_client \<Rightarrow> s32 \<times> 'w storage_client" where
  "ef2_storage_mmce_close sif index fd st =
    (if \<not> sc_bound st then (-1, st)
     else storage_request_rpc sif 12 (zero_storage_request\<lparr>sq_index := index, sq_fd := fd\<rparr>) st)"

text \<open>The transfer loops end because every round moves at least one byte or leaves the loop; the
  service decides how many bytes a round moves, so they are defined without that argument.\<close>

partial_function (option) client_read_loop ::
  "'w storage_services \<Rightarrow> u32 \<Rightarrow> s32 \<Rightarrow> u8 list \<Rightarrow> u32 \<Rightarrow> u32 \<Rightarrow> 'w storage_client \<Rightarrow>
   (s32 \<times> u8 list \<times> 'w storage_client) option" where
  "client_read_loop sif index fd buf n done st =
    (if done < n then
       let chunk = (if n - done > 512 then 512 else n - done);
           (result, st) = storage_request_rpc sif 13
             (zero_storage_request\<lparr>sq_index := index, sq_fd := fd, sq_data_size := chunk\<rparr>) st
       in if result < 0 then Some (if done \<noteq> 0 then sint done else result, buf, st)
          else do {
            buf \<leftarrow> put_bytes (sr_data (sc_reply st)) (unat (sr_data_size (sc_reply st))) buf (unat done);
            if sr_data_size (sc_reply st) < chunk then Some (sint (done + sr_data_size (sc_reply st)), buf, st)
            else client_read_loop sif index fd buf n (done + sr_data_size (sc_reply st)) st }
     else Some (sint done, buf, st))"

definition ef2_storage_mmce_read ::
  "'w storage_services \<Rightarrow> u32 \<Rightarrow> s32 \<Rightarrow> u8 list option \<Rightarrow> u32 \<Rightarrow> 'w storage_client \<Rightarrow>
   (s32 \<times> u8 list \<times> 'w storage_client) option" where
  "ef2_storage_mmce_read sif index fd dest n st =
    (if \<not> sc_bound st \<or> dest = None then Some (-1, [], st) else client_read_loop sif index fd (the dest) n 0 st)"

partial_function (option) client_write_loop ::
  "'w storage_services \<Rightarrow> u32 \<Rightarrow> s32 \<Rightarrow> u8 list \<Rightarrow> u32 \<Rightarrow> u32 \<Rightarrow> 'w storage_client \<Rightarrow> (s32 \<times> 'w storage_client) option" where
  "client_write_loop sif index fd source n done st =
    (if done < n then do {
       let chunk = (if n - done > 512 then 512 else n - done);
       data \<leftarrow> get_bytes source (unat done) (unat chunk);
       let (result, st) = storage_request_rpc sif 14 (zero_storage_request\<lparr>sq_index := index, sq_fd := fd,
             sq_data_size := chunk, sq_data := splice 0 data (replicate 512 0)\<rparr>) st;
       if result < 0 then Some (if done \<noteq> 0 then sint done else result, st)
       else
         let moved = sr_value (sc_reply st)
         in if moved \<le> 0 then Some (sint done, st)
            else if word_of_int moved < chunk then Some (sint (done + word_of_int moved), st)
            else client_write_loop sif index fd source n (done + word_of_int moved) st }
     else Some (sint done, st))"

definition ef2_storage_mmce_write ::
  "'w storage_services \<Rightarrow> u32 \<Rightarrow> s32 \<Rightarrow> u8 list option \<Rightarrow> u32 \<Rightarrow> 'w storage_client \<Rightarrow> (s32 \<times> 'w storage_client) option" where
  "ef2_storage_mmce_write sif index fd source n st =
    (if \<not> sc_bound st \<or> source = None then Some (-1, st) else client_write_loop sif index fd (the source) n 0 st)"

definition ef2_storage_mmce_lseek ::
  "'w storage_services \<Rightarrow> u32 \<Rightarrow> s32 \<Rightarrow> s32 \<Rightarrow> s32 \<Rightarrow> 'w storage_client \<Rightarrow> s32 \<times> 'w storage_client" where
  "ef2_storage_mmce_lseek sif index fd offset whence st =
    (if \<not> sc_bound st then (-1, st)
     else
       let (result, st) = storage_request_rpc sif 15
             (zero_storage_request\<lparr>sq_index := index, sq_fd := fd, sq_offset := offset, sq_whence := whence\<rparr>) st
       in if result < 0 then (result, st) else (sr_value (sc_reply st), st))"

end
