(* ===== verification/StorageSpec.thy ===== *)
theory StorageSpec
  imports StorageClient
begin

text \<open>
  What the operations of the storage module keep: every operation but the start-up of an SD card leaves
  the variables of the module alone, a scan fills the table with well-formed devices, and a reply never
  carries more data than was asked for.
\<close>

section \<open>Operations that only talk to a device\<close>

text \<open>Predicates on the state that do not look at the device, and those that do not look at the page
  buffer either except for its length.\<close>

definition dev_blind :: "(('w, 'z) storage_sio2_scheme \<Rightarrow> bool) \<Rightarrow> bool" where
  "dev_blind I \<longleftrightarrow> (\<forall>st w. I st \<longrightarrow> I (st\<lparr>sto_dev := w\<rparr>))"

definition page_blind :: "(('w, 'z) storage_backend_scheme \<Rightarrow> bool) \<Rightarrow> bool" where
  "page_blind I \<longleftrightarrow> dev_blind I \<and>
    (\<forall>st page. I st \<longrightarrow> length page = length (g_mc_format_page st) \<longrightarrow> I (st\<lparr>g_mc_format_page := page\<rparr>))"

lemma page_blind_dev: "page_blind I \<Longrightarrow> dev_blind I"
  by (simp add: page_blind_def)

named_theorems keeps_io "invariant rules of the storage operations"

lemma keeps_exchange_io [keeps_io]:
  "dev_blind I \<Longrightarrow> keeps I (ef2_storage_sio2_exchange ker bus port c1 c2 b tx n rx m t)
    (\<lambda>(r, rx'). r \<le> 0 \<and> length rx' = length rx)"
  by (rule keeps_mono [OF keeps_exchange]) (auto simp: dev_blind_def)

lemma keeps_on_sto [keeps_io]: "dev_blind I \<Longrightarrow> keeps I (on_sto f) (\<lambda>_. True)"
  by (rule keepsI) (auto simp: dev_blind_def)

lemma keeps_mc_exchange [keeps_io]:
  "dev_blind I \<Longrightarrow> keeps I (mc_exchange ker bus port tx n t) (\<lambda>(r, rx). r \<le> 0 \<and> length rx = length tx)"
  unfolding mc_exchange_def by (rule keeps_mono [OF keeps_exchange_io]) auto

lemma keeps_mmce_exchange [keeps_io]:
  "dev_blind I \<Longrightarrow> keeps I (mmce_exchange ker bus port tx n rx m) (\<lambda>(r, rx'). r \<le> 0 \<and> length rx' = length rx)"
  unfolding mmce_exchange_def by (rule keeps_exchange_io)

section \<open>Native cards\<close>

lemma keeps_set_terminator [keeps_io]:
  "dev_blind I \<Longrightarrow> keeps I (mc_set_terminator ker bus port t) (\<lambda>r. r \<le> 0)"
  unfolding mc_set_terminator_def
  by (intro keeps_bind [OF keeps_mc_exchange] keeps_rules) (auto intro!: keeps_return)

text \<open>A geometry is accepted only with a page size and a page count; nothing but the geometry changes.\<close>

definition same_device :: "storage_device \<Rightarrow> storage_device \<Rightarrow> bool" where
  "same_device info info' \<longleftrightarrow> dev_kind info' = dev_kind info \<and> physical_port info' = physical_port info \<and>
    capabilities info' = capabilities info \<and> formatted info' = formatted info"

lemma keeps_get_spec [keeps_io]:
  "dev_blind I \<Longrightarrow> keeps I (mc_get_spec ker bus port info)
    (\<lambda>(r, t, info'). r \<le> 0 \<and> t \<le> 0 \<and> same_device info info' \<and> (r = 0 \<longrightarrow> page_size info' \<noteq> 0 \<and> page_count info' \<noteq> 0))"
  unfolding mc_get_spec_def
  by (intro keeps_bind [OF keeps_set_terminator] keeps_bind [OF keeps_mc_exchange] keeps_rules)
    (auto intro!: keeps_return simp: Let_def same_device_def)

lemma keeps_select_read_page [keeps_io]:
  "dev_blind I \<Longrightarrow> keeps I (mc_select_read_page ker bus device page) (\<lambda>r. r \<le> 0)"
  unfolding mc_select_read_page_def
  by (intro keeps_bind [OF keeps_mc_exchange] keeps_rules) (auto intro!: keeps_return)

lemma keeps_read_data_chunk [keeps_io]:
  assumes "dev_blind I"
  shows "keeps I (mc_read_data_chunk ker bus device n) (\<lambda>(r, part). r \<le> 0 \<and> (r = 0 \<longrightarrow> length part = unat n))"
proof -
  have "unat n \<le> 32" if "\<not> (n = 0 \<or> n > 32)" using that by (simp add: word_le_nat_alt not_less)
  then show ?thesis
    unfolding mc_read_data_chunk_def
    by (intro keeps_bind [OF keeps_mc_exchange] keeps_rules) (auto intro!: keeps_return simp: assms min_def)
qed

lemma keeps_read_loop [keeps_io]:
  assumes "dev_blind I"
  shows "length data = 512 \<Longrightarrow> chunk mod 32 = 0 \<Longrightarrow>
    keeps I (mc_read_loop ker bus device chunk data) (\<lambda>(r, data'). r \<le> 0 \<and> length data' = 512)"
proof (induction ker bus device chunk data rule: mc_read_loop.induct)
  case (1 ker bus device chunk data)
  have fit: "chunk < 512 \<Longrightarrow> chunk + 32 \<le> 512" using 1(3) by presburger
  have mod: "(chunk + 32) mod 32 = 0" using 1(3) by simp
  show ?case
  proof (subst mc_read_loop.simps, intro keeps_rules keeps_bind [OF keeps_read_data_chunk [OF assms]])
    fix a :: "s32 \<times> u8 list" and result part
    assume a: "chunk < 512" "a = (result, part)" "\<not> result < 0"
      "case a of (r, part) \<Rightarrow> r \<le> 0 \<and> (r = 0 \<longrightarrow> length part = unat (32 :: u32))"
    then have "length (splice chunk part data) = 512" using 1(2) fit by (intro trans [OF splice_length]) auto
    then show "keeps I (mc_read_loop ker bus device (chunk + 32) (splice chunk part data)) (\<lambda>(r, data'). r \<le> 0 \<and> length data' = 512)"
      using 1(1) [OF a(1) a(3)] mod a(2) by simp
  qed (use 1(2) in \<open>auto intro!: keeps_return\<close>)
qed

lemma keeps_finish_read [keeps_io]:
  "dev_blind I \<Longrightarrow> keeps I (mc_finish_read ker bus device) (\<lambda>r. r \<le> 0)"
  unfolding mc_finish_read_def
  by (intro keeps_bind [OF keeps_mc_exchange] keeps_rules) (auto intro!: keeps_return)

lemma keeps_read_page [keeps_io]:
  assumes "dev_blind I" "length data = 512"
  shows "keeps I (mc_read_page ker bus device page data) (\<lambda>(r, data'). r \<le> 0 \<and> length data' = 512)"
  unfolding mc_read_page_def
  by (intro keeps_rules keeps_bind [OF keeps_select_read_page [OF assms(1)]]
      keeps_bind [OF keeps_read_loop [OF assms]] keeps_bind [OF keeps_finish_read [OF assms(1)]])
    (use assms in \<open>auto intro!: keeps_return\<close>)

lemma keeps_check_format [keeps_io]:
  assumes "page_blind I" "\<And>st. I st \<Longrightarrow> length (g_mc_format_page st) = 512"
  shows "keeps I (mc_check_format ker bus device) (\<lambda>(r, fmt). r \<le> 0 \<and> fmt \<in> {-1, 0, 1})"
  unfolding mc_check_format_def
  by (intro keeps_bind [OF keeps_reads [where R = "\<lambda>page. length page = 512"]]
      keeps_bind [OF keeps_read_page [OF page_blind_dev [OF assms(1)]]] keeps_rules
      keeps_bind [OF keeps_modify [where R = "\<lambda>_. True"]])
    (use assms in \<open>auto intro!: keeps_return simp: page_blind_def\<close>)

section \<open>MMCE devices\<close>

lemma keeps_ping [keeps_io]:
  "dev_blind I \<Longrightarrow> keeps I (mmce_ping ker bus port info) (\<lambda>(r, info'). r \<le> 0 \<and> same_device info info')"
  unfolding mmce_ping_def
  by (intro keeps_bind [OF keeps_mmce_exchange] keeps_rules) (auto intro!: keeps_return simp: same_device_def)

lemma be16_less: "uint (be16 a b) < 65536"
proof -
  have "take_bit 16 (be16 a b) = be16 a b"
    by (rule bit_word_eqI) (auto simp: be16_def bit_simps dest: bit_imp_le_length)
  then have "unat (be16 a b) = unat (be16 a b) mod 2 ^ 16" by (metis unat_take_bit)
  moreover have "unat (be16 a b) mod 2 ^ 16 < 2 ^ 16" by (rule mod_less_divisor) simp
  ultimately have "unat (be16 a b) < 65536" by simp
  then show ?thesis by (simp only: of_nat_less_iff [where 'a = int, symmetric]) simp
qed

lemma keeps_get_u16 [keeps_io]:
  "dev_blind I \<Longrightarrow> keeps I (mmce_get_u16 ker bus port command) (\<lambda>r. r < 65536)"
  unfolding mmce_get_u16_def
  by (intro keeps_bind [OF keeps_mmce_exchange] keeps_rules) (auto intro!: keeps_return simp: be16_less)

lemma keeps_set_packet [keeps_io]:
  "dev_blind I \<Longrightarrow> keeps I (mmce_set_packet ker bus port tx n) (\<lambda>r. r \<le> 0)"
  unfolding mmce_set_packet_def
  by (intro keeps_bind [OF keeps_mmce_exchange] keeps_rules) (auto intro!: keeps_return)

lemma keeps_mmce_control [keeps_io]:
  assumes "dev_blind I"
  shows "keeps I (backend_mmce_status ker bus device) (\<lambda>_. True)"
    and "keeps I (backend_mmce_get_card ker bus device) (\<lambda>_. True)"
    and "keeps I (backend_mmce_get_channel ker bus device) (\<lambda>_. True)"
    and "keeps I (backend_mmce_set_card ker bus device t m c) (\<lambda>r. r \<le> 0)"
    and "keeps I (backend_mmce_set_channel ker bus device m c) (\<lambda>r. r \<le> 0)"
    and "keeps I (backend_mmce_set_game_id ker bus device game_id) (\<lambda>r. r \<le> 0)"
  unfolding backend_mmce_status_def backend_mmce_get_card_def backend_mmce_get_channel_def backend_mmce_set_card_def
    backend_mmce_set_channel_def backend_mmce_set_game_id_def
  by (intro keeps_rules keeps_mono [OF keeps_get_u16 [OF assms]] keeps_set_packet [OF assms];
      simp add: keeps_return)+

lemma keeps_open [keeps_io]: "dev_blind I \<Longrightarrow> keeps I (backend_mmce_open ker bus device path flags) (\<lambda>_. True)"
  unfolding backend_mmce_open_def
  by (intro keeps_bind [OF keeps_mmce_exchange] keeps_rules) (auto intro!: keeps_return)

lemma keeps_close [keeps_io]: "dev_blind I \<Longrightarrow> keeps I (backend_mmce_close ker bus device fd) (\<lambda>r. r \<le> 0)"
  unfolding backend_mmce_close_def
  by (intro keeps_bind [OF keeps_mmce_exchange] keeps_rules) (auto intro!: keeps_return)

lemma keeps_lseek [keeps_io]: "dev_blind I \<Longrightarrow> keeps I (backend_mmce_lseek ker bus device fd off whence) (\<lambda>_. True)"
  unfolding backend_mmce_lseek_def
  by (intro keeps_bind [OF keeps_mmce_exchange] keeps_rules) (auto intro!: keeps_return)

lemma keeps_receive_loop [keeps_io]:
  assumes "dev_blind I"
  shows "off \<le> n \<Longrightarrow> unat n \<le> length data \<Longrightarrow>
    keeps I (mmce_receive_loop ker bus port off n data) (\<lambda>(r, data'). r \<le> 0 \<and> length data' = length data)"
proof (induction ker bus port off n data rule: mmce_receive_loop.induct)
  case (1 ker bus port off n data)
  define chunk where "chunk = (if n - off > 256 then 256 else n - off)"
  have step: "unat off + unat chunk \<le> unat n" "off + chunk \<le> n"
  proof -
    have c: "unat chunk \<le> unat n - unat off"
      using 1(2) by (auto simp: chunk_def unat_sub word_less_nat_alt)
    then show "unat off + unat chunk \<le> unat n" using 1(2) by (simp add: word_le_nat_alt)
    then show "off + chunk \<le> n" by (simp add: word_le_nat_alt unat_add_lem [THEN iffD1] le_less_trans [OF _ unat_less_32])
  qed
  show ?case
  proof (subst mmce_receive_loop.simps, unfold chunk_def [symmetric] Let_def,
      intro keeps_rules keeps_bind [OF keeps_mmce_exchange [OF assms]])
    fix a :: "s32 \<times> u8 list" and result part
    assume a: "off < n" "a = (result, part)"
      "case a of (r, rx') \<Rightarrow> r \<le> 0 \<and> length rx' = length (take (unat chunk) (drop (unat off) data))"
    then have len: "length (splice (unat off) part data) = length data"
      using step 1(3) by (intro splice_length) auto
    show "keeps I (ret (- 3, splice (unat off) part data)) (\<lambda>(r :: s32, data'). r \<le> 0 \<and> length data' = length data)"
      using len by (auto intro!: keeps_return)
    show "keeps I (mmce_receive_loop ker bus port (off + chunk) n (splice (unat off) part data))
        (\<lambda>(r, data'). r \<le> 0 \<and> length data' = length data)" if "\<not> result < 0"
      by (rule keeps_mono [OF 1(1) [OF a(1) chunk_def that step(2)]]) (use len 1(3) in auto)
  qed (auto intro!: keeps_return)
qed

lemma mmce_count_le: "\<not> 512 < n \<Longrightarrow> f < 0 \<Longrightarrow> mmce_count footer n f \<le> uint n"
proof -
  assume "\<not> 512 < n" and f: "f < 0"
  then have n: "unat n \<le> 512" by (simp add: word_le_nat_alt not_less)
  have "sint b \<le> uint n" if "b \<le> n" for b
  proof -
    have "uint b \<le> uint n" using that by (simp only: word_le_def)
    moreover have "unat b \<le> 512" using that n by (simp add: word_le_nat_alt)
    ultimately show ?thesis using sint_small [of b] by simp
  qed
  moreover have "f \<le> uint n" using f by (simp add: order_trans [of _ 0])
  ultimately show ?thesis by (auto simp: mmce_count_def Let_def not_less)
qed

lemma unat_le_512: "\<not> 512 < n \<Longrightarrow> unat (n :: u32) \<le> 512"
  by (simp add: word_le_nat_alt not_less)

lemma negative_le_uint: "r < 0 \<Longrightarrow> r \<le> uint (n :: u32)"
  using uint_ge_0 [of n] by linarith

text \<open>A read returns at most the bytes that were asked for, and fills only the caller's buffer.\<close>

lemma keeps_mmce_read [keeps_io]:
  assumes "dev_blind I" "length data = 512"
  shows "keeps I (backend_mmce_read ker bus device fd data n) (\<lambda>(r, data'). r \<le> uint n \<and> length data' = 512)"
  unfolding backend_mmce_read_def Let_def
  by (intro keeps_if keeps_prod keeps_bind [OF keeps_mmce_exchange [OF assms(1)]]
      keeps_bind [OF keeps_receive_loop [OF assms(1)]])
    (auto intro!: keeps_return mmce_count_le intro: negative_le_uint unat_le_512 simp: assms(2))

lemma keeps_ready_loop [keeps_io]:
  "dev_blind I \<Longrightarrow> keeps I (mmce_ready_loop ker bus port attempts) (\<lambda>r. r \<le> 0)"
proof (induction attempts)
  case 0
  show ?case by (subst mmce_ready_loop.simps) (simp add: keeps_return)
next
  case (Suc attempts)
  show ?case
    by (subst mmce_ready_loop.simps)
      (intro keeps_if keeps_prod keeps_bind [OF keeps_mmce_exchange [OF Suc(2)]] keeps_bind [OF keeps_on_sto [OF Suc(2)]],
        auto intro!: keeps_return Suc)
qed

lemma keeps_send_loop [keeps_io]:
  assumes "dev_blind I"
  shows "keeps I (mmce_send_loop ker bus port off n data) (\<lambda>r. r \<le> 0)"
proof (induction ker bus port off n data rule: mmce_send_loop.induct)
  case (1 ker bus port off n data)
  show ?case
    by (subst mmce_send_loop.simps, intro keeps_if keeps_prod keeps_let keeps_bind [OF keeps_mmce_exchange [OF assms]])
      ((rule 1; assumption) | (rule keeps_return; simp))+
qed

lemma keeps_mmce_write [keeps_io]:
  assumes "dev_blind I"
  shows "keeps I (backend_mmce_write ker bus device fd data n) (\<lambda>r. r \<le> uint n)"
  unfolding backend_mmce_write_def Let_def
  by (intro keeps_if keeps_prod keeps_bind [OF keeps_mmce_exchange [OF assms(1)]]
      keeps_bind [OF keeps_ready_loop [OF assms(1)]] keeps_bind [OF keeps_send_loop [OF assms(1)]])
    (auto intro!: keeps_return mmce_count_le intro: negative_le_uint)

section \<open>SD cards\<close>

lemma keeps_mx_exchange [keeps_io]:
  assumes "dev_blind I" "unat n \<le> length rx"
  shows "keeps I (mx_exchange ker bus tx m rx n) (\<lambda>(r, rx'). r \<le> 0 \<and> length rx' = length rx)"
  unfolding mx_exchange_def
proof (intro keeps_if keeps_prod keeps_let keeps_bind [OF keeps_reads [where R = "\<lambda>_. True"]]
    keeps_bind [OF keeps_exchange_io [OF assms(1)]])
  fix a :: "s32 \<times> u8 list" and r raw
  assume "\<not> (256 < m \<or> 256 < n)" "a = (r, raw)"
    "case a of (r, rx') \<Rightarrow> r \<le> 0 \<and> length rx' = length (replicate 256 (0 :: u8))"
  then have "r \<le> 0" "length (splice 0 (map reverse_bits (take (unat n) raw)) rx) = length rx"
    using assms(2) by (auto simp: not_less word_le_nat_alt intro!: splice_length)
  then show "keeps I (ret (if r < 0 then (r, rx) else (0, splice 0 (map reverse_bits (take (unat n) raw)) rx)))
      (\<lambda>(r, rx'). r \<le> 0 \<and> length rx' = length rx)"
    by (auto intro!: keeps_return)
qed (auto intro!: keeps_return)

lemma keeps_dummy [keeps_io]: "dev_blind I \<Longrightarrow> keeps I (mx_dummy ker bus) (\<lambda>_. True)"
  unfolding mx_dummy_def by (intro keeps_bind [OF keeps_mx_exchange] keeps_rules) (auto intro!: keeps_return)

lemma keeps_receive_byte [keeps_io]: "dev_blind I \<Longrightarrow> keeps I (mx_receive_byte ker bus) (\<lambda>_. True)"
  unfolding mx_receive_byte_def by (intro keeps_bind [OF keeps_mx_exchange] keeps_rules) (auto intro!: keeps_return)

lemma keeps_wait_not_equal [keeps_io]:
  "dev_blind I \<Longrightarrow> keeps I (mx_wait_not_equal ker bus v attempts) (\<lambda>_. True)"
proof (induction attempts)
  case 0
  show ?case by (subst mx_wait_not_equal.simps) (simp add: keeps_return)
next
  case (Suc attempts)
  show ?case
    by (subst mx_wait_not_equal.simps)
      (intro keeps_if keeps_option keeps_bind [OF keeps_receive_byte [OF Suc(2)]], auto intro!: keeps_return Suc)
qed

lemma keeps_wait_equal [keeps_io]:
  "dev_blind I \<Longrightarrow> keeps I (mx_wait_equal ker bus v attempts) (\<lambda>r. r \<le> 0)"
proof (induction attempts)
  case 0
  show ?case by (subst mx_wait_equal.simps) (simp add: keeps_return)
next
  case (Suc attempts)
  show ?case
    by (subst mx_wait_equal.simps)
      (intro keeps_if keeps_option keeps_bind [OF keeps_receive_byte [OF Suc(2)]], auto intro!: keeps_return Suc)
qed

lemma keeps_send_command [keeps_io]: "dev_blind I \<Longrightarrow> keeps I (mx_send_command ker bus c a) (\<lambda>_. True)"
  unfolding mx_send_command_def
  by (intro keeps_bind [where R' = "\<lambda>_. True"] keeps_bind [OF keeps_mx_exchange] keeps_rules
      keeps_mono [OF keeps_dummy] keeps_mono [OF keeps_wait_not_equal])
    (auto intro!: keeps_return)

lemma keeps_send_command_data [keeps_io]:
  "dev_blind I \<Longrightarrow> unat n \<le> length data \<Longrightarrow>
    keeps I (mx_send_command_data ker bus c a data n) (\<lambda>(r, data'). length data' = length data)"
  unfolding mx_send_command_data_def
  by (intro keeps_bind [OF keeps_send_command] keeps_bind [OF keeps_mx_exchange] keeps_bind [OF keeps_dummy] keeps_rules)
    (auto intro!: keeps_return)

lemma keeps_read_register [keeps_io]:
  "dev_blind I \<Longrightarrow> length data = 18 \<Longrightarrow> keeps I (mx_read_register ker bus c data) (\<lambda>(r, data'). length data' = 18)"
  unfolding mx_read_register_def
  by (intro keeps_bind [OF keeps_send_command] keeps_bind [OF keeps_wait_equal] keeps_bind [OF keeps_mx_exchange]
      keeps_bind [OF keeps_dummy] keeps_rules)
    (auto intro!: keeps_return)

lemma keeps_get: "keeps I State_Monad.get (\<lambda>_. True)"
  by (rule keepsI) simp

lemma keeps_read_sector [keeps_io]:
  assumes "dev_blind I" "length data = 512"
  shows "keeps I (mx_read_sector ker bus sector data) (\<lambda>(r, data'). r \<le> 0 \<and> length data' = 512)"
proof -
  have low: "length (splice 0 part data) = 512" if "length part = 256" for part :: "u8 list"
    using that assms(2) by simp
  have high: "length (splice 256 part data') = 512" if "length part = 256" "length data' = 512" for part data' :: "u8 list"
    using that by simp
  show ?thesis
    unfolding mx_read_sector_def Let_def
    by (intro keeps_bind [OF keeps_get] keeps_bind [OF keeps_wait_equal] keeps_bind [OF keeps_send_command]
        keeps_bind [OF keeps_mx_exchange] keeps_bind [OF keeps_dummy] keeps_if keeps_prod)
      (auto intro!: keeps_return low high simp: assms)
qed

lemma keeps_write_sector [keeps_io]:
  assumes "dev_blind I"
  shows "keeps I (mx_write_sector ker bus sector data) (\<lambda>r. r \<le> 0)"
  unfolding mx_write_sector_def Let_def
  by (intro keeps_bind [OF keeps_get] keeps_bind [OF keeps_wait_equal] keeps_bind [OF keeps_send_command]
      keeps_bind [OF keeps_mx_exchange] keeps_bind [OF keeps_receive_byte] keeps_bind [OF keeps_dummy]
      keeps_if keeps_prod keeps_option)
    (auto intro!: keeps_return simp: assms)

section \<open>Start-up of an SD card\<close>

text \<open>Predicates that look at neither the device nor the variables of the SD card.\<close>

definition mx_blind :: "(('w, 'z) storage_backend_scheme \<Rightarrow> bool) \<Rightarrow> bool" where
  "mx_blind I \<longleftrightarrow> dev_blind I \<and> (\<forall>st baud card_type count ready. I st \<longrightarrow>
    I (st\<lparr>g_mx_baud := baud\<rparr>) \<and> I (st\<lparr>g_mx_card_type := card_type\<rparr>) \<and> I (st\<lparr>g_mx_sector_count := count\<rparr>) \<and>
    I (st\<lparr>g_mx_initialized := ready\<rparr>))"

lemma mx_blind_dev: "mx_blind I \<Longrightarrow> dev_blind I"
  by (simp add: mx_blind_def)

lemma keeps_mx_modify:
  assumes "mx_blind I"
  shows "keeps I (modify (\<lambda>st. st\<lparr>g_mx_baud := b\<rparr>)) (\<lambda>_. True)"
    and "keeps I (modify (\<lambda>st. st\<lparr>g_mx_card_type := t\<rparr>)) (\<lambda>_. True)"
    and "keeps I (modify (\<lambda>st. st\<lparr>g_mx_sector_count := n\<rparr>)) (\<lambda>_. True)"
    and "keeps I (modify (\<lambda>st. st\<lparr>g_mx_initialized := r\<rparr>)) (\<lambda>_. True)"
    and "keeps I (modify (\<lambda>st. st\<lparr>g_mx_baud := b, g_mx_initialized := r, g_mx_sector_count := n\<rparr>)) (\<lambda>_. True)"
  using assms by (auto intro!: keeps_modify simp: mx_blind_def)

lemma keeps_acmd41_v2:
  "dev_blind I \<Longrightarrow> keeps I (mx_acmd41_v2_loop ker bus attempts response) (\<lambda>r. case r of Inl e \<Rightarrow> e = -3 | Inr _ \<Rightarrow> True)"
proof (induction attempts arbitrary: response)
  case 0
  show ?case by (subst mx_acmd41_v2_loop.simps) (simp add: keeps_return)
next
  case (Suc attempts)
  show ?case
    by (subst mx_acmd41_v2_loop.simps)
      (intro keeps_if keeps_bind [OF keeps_send_command [OF Suc(2)]], auto intro!: keeps_return Suc)
qed

lemma keeps_acmd41_v1: "dev_blind I \<Longrightarrow> keeps I (mx_acmd41_v1_loop ker bus attempts response) (\<lambda>_. True)"
proof (induction attempts arbitrary: response)
  case 0
  show ?case by (subst mx_acmd41_v1_loop.simps) (simp add: keeps_return)
next
  case (Suc attempts)
  show ?case
    by (subst mx_acmd41_v1_loop.simps)
      (intro keeps_if keeps_bind [OF keeps_send_command [OF Suc(2)]], auto intro!: keeps_return Suc)
qed

lemma keeps_cmd1: "dev_blind I \<Longrightarrow> keeps I (mx_cmd1_loop ker bus attempts response) (\<lambda>_. True)"
proof (induction attempts arbitrary: response)
  case 0
  show ?case by (subst mx_cmd1_loop.simps) (simp add: keeps_return)
next
  case (Suc attempts)
  show ?case
    by (subst mx_cmd1_loop.simps)
      (intro keeps_if keeps_bind [OF keeps_send_command [OF Suc(2)]], auto intro!: keeps_return Suc)
qed

lemma keeps_start_v2: "mx_blind I \<Longrightarrow> keeps I (mx_start_v2 ker bus response) (\<lambda>r. r \<le> 0)"
  unfolding mx_start_v2_def
  by (intro keeps_bind [OF keeps_acmd41_v2 [OF mx_blind_dev]])
    (auto split: sum.split intro!: keeps_return keeps_if keeps_prod keeps_bind [OF keeps_send_command_data [OF mx_blind_dev]]
      keeps_bind [OF keeps_mx_modify(2)])

lemma keeps_start_v1: "mx_blind I \<Longrightarrow> keeps I (mx_start_v1 ker bus response) (\<lambda>r. r \<le> 0)"
  unfolding mx_start_v1_def
  by (intro keeps_bind [OF keeps_acmd41_v1 [OF mx_blind_dev]] keeps_bind [where R' = "\<lambda>r :: s32. r \<le> 0"] keeps_if
      keeps_bind [OF keeps_mx_modify(2)] keeps_bind [OF keeps_cmd1 [OF mx_blind_dev]]
      keeps_bind [OF keeps_send_command [OF mx_blind_dev]])
    (auto intro!: keeps_return)

lemma keeps_initialize: 
  assumes "mx_blind I"
  shows "keeps I (mx_initialize ker bus) (\<lambda>r. r \<le> 0)"
  unfolding mx_initialize_def
  by (intro keeps_bind [OF keeps_mx_modify(5) [OF assms]] keeps_bind [OF keeps_mx_exchange [OF mx_blind_dev [OF assms]]]
      keeps_bind [OF keeps_send_command [OF mx_blind_dev [OF assms]]]
      keeps_bind [OF keeps_send_command_data [OF mx_blind_dev [OF assms]]]
      keeps_bind [OF keeps_if [OF keeps_start_v2 [OF assms] keeps_start_v1 [OF assms]]]
      keeps_bind [OF keeps_mx_modify(1) [OF assms]] keeps_bind [OF keeps_mx_modify(3) [OF assms]]
      keeps_bind [OF keeps_mx_modify(4) [OF assms]]
      keeps_bind [OF keeps_read_register [OF mx_blind_dev [OF assms]]] keeps_if keeps_prod)
    (auto intro!: keeps_return)

end
