(* ===== verification/StorageScan.thy ===== *)
theory StorageScan
  imports StorageSpec
begin

text \<open>
  The invariant of the storage module: the device table that a scan fills, and what the dispatcher
  does with it.
\<close>

lemma initialize_ready:
  "run_state (mx_initialize ker bus) s = (0, s') \<Longrightarrow> g_mx_initialized s' \<and> g_mx_sector_count s' \<noteq> 0"
  by (auto simp: mx_initialize_def split: prod.splits if_splits)

section \<open>Devices\<close>

definition has_cap :: "storage_device \<Rightarrow> u32 \<Rightarrow> bool" where
  "has_cap d c \<longleftrightarrow> capabilities d AND c \<noteq> 0"

text \<open>A memory card, native or emulated: pages are readable exactly when the geometry is known, and
  sectors are not.\<close>

definition card_ok :: "storage_device \<Rightarrow> bool" where
  "card_ok d \<longleftrightarrow> dev_kind d \<in> {KIND_PS2_MEMORY_CARD, KIND_MMCE} \<and> physical_port d \<in> {2, 3} \<and> formatted d \<in> {-1, 0, 1} \<and>
    (has_cap d EF2_STORAGE_CAP_PAGE_READ \<longleftrightarrow> has_cap d EF2_STORAGE_CAP_GEOMETRY) \<and>
    (has_cap d EF2_STORAGE_CAP_GEOMETRY \<longrightarrow> page_size d \<noteq> 0 \<and> page_count d \<noteq> 0) \<and>
    \<not> has_cap d EF2_STORAGE_CAP_BLOCK_READ \<and> \<not> has_cap d EF2_STORAGE_CAP_BLOCK_WRITE"

text \<open>An SD card: the only one, on port 3, described as the driver has initialised it.\<close>

definition sd_ok :: "('w, 'z) storage_backend_scheme \<Rightarrow> storage_device \<Rightarrow> bool" where
  "sd_ok st d \<longleftrightarrow> dev_kind d = KIND_MX4SIO \<and> physical_port d = 3 \<and> sector_size d = 512 \<and>
    capabilities d = (EF2_STORAGE_CAP_BLOCK_READ OR EF2_STORAGE_CAP_BLOCK_WRITE) \<and> g_mx_initialized st \<and>
    sector_count d = g_mx_sector_count st \<and> sector_count d \<noteq> 0 \<and> product_id d = g_mx_card_type st"

definition device_ok :: "('w, 'z) storage_backend_scheme \<Rightarrow> storage_device \<Rightarrow> bool" where
  "device_ok st d \<longleftrightarrow> card_ok d \<or> sd_ok st d"

definition devices_ok :: "('w, 'z) storage_backend_scheme \<Rightarrow> storage_device list \<Rightarrow> bool" where
  "devices_ok st ds \<longleftrightarrow> length ds \<le> 2 \<and> distinct (map physical_port ds) \<and> (\<forall>d \<in> set ds. device_ok st d)"

text \<open>Predicates that may be carried through a scan.\<close>

definition scan_frame :: "(('w, 'z) storage_backend_scheme \<Rightarrow> bool) \<Rightarrow> bool" where
  "scan_frame I \<longleftrightarrow> page_blind I \<and> mx_blind I \<and> (\<forall>st. I st \<longrightarrow> length (g_mc_format_page st) = 512)"

lemma scan_frame_dev: "scan_frame I \<Longrightarrow> dev_blind I"
  by (simp add: scan_frame_def page_blind_dev)

lemma scan_frame_format:
  "scan_frame I \<Longrightarrow> keeps I (mc_check_format ker bus device) (\<lambda>(r, fmt). r \<le> 0 \<and> fmt \<in> {-1, 0, 1})"
  by (rule keeps_check_format) (auto simp: scan_frame_def)

section \<open>A scan\<close>

lemma card_ok_values [simp]:
  "card_ok (d\<lparr>current_card := a, current_channel := b, dev_status := c\<rparr>) = card_ok d"
  by (simp add: card_ok_def has_cap_def)

lemma card_okI:
  assumes "dev_kind d = KIND_MMCE \<or> dev_kind d = KIND_PS2_MEMORY_CARD" "physical_port d \<in> {2, 3}" "formatted d \<in> {-1, 0, 1}"
    and "capabilities d = 113 \<or> (capabilities d = 131 \<or> capabilities d = 243) \<and> page_size d \<noteq> 0 \<and> page_count d \<noteq> 0"
  shows "card_ok d"
proof -
  consider "capabilities d = 113" | "capabilities d = 131" "page_size d \<noteq> 0" "page_count d \<noteq> 0"
    | "capabilities d = 243" "page_size d \<noteq> 0" "page_count d \<noteq> 0"
    using assms(4) by blast
  then show ?thesis using assms(1-3) by cases (auto simp: card_ok_def has_cap_def storage_caps)
qed

lemma caps_values:
  "EF2_STORAGE_CAP_MEMORY_CARD OR EF2_STORAGE_CAP_FILESYSTEM OR EF2_STORAGE_CAP_VIRTUAL_CARDS OR EF2_STORAGE_CAP_GAME_ID = 113"
  "113 OR (EF2_STORAGE_CAP_GEOMETRY OR EF2_STORAGE_CAP_PAGE_READ) = 243"
  "EF2_STORAGE_CAP_MEMORY_CARD OR EF2_STORAGE_CAP_GEOMETRY OR EF2_STORAGE_CAP_PAGE_READ = 131"
  by (simp_all add: storage_caps)

lemma scan_mmce_format:
  assumes "scan_frame I" "same_device (info\<lparr>dev_kind := KIND_MMCE, capabilities := 113\<rparr>) info'" "physical_port info \<in> {2, 3}"
    and "formatted info \<in> {-1, 0, 1}" "r = 0 \<longrightarrow> page_size info' \<noteq> 0 \<and> page_count info' \<noteq> 0"
  shows "keeps I (if r = 0 then do {
          let info = info'\<lparr>capabilities := capabilities info' OR (EF2_STORAGE_CAP_GEOMETRY OR EF2_STORAGE_CAP_PAGE_READ)\<rparr>;
          (format_result, fmt) \<leftarrow> mc_check_format ker bus info;
          ret (info\<lparr>formatted := fmt\<rparr>, g format_result) }
        else ret (info', h)) (\<lambda>(d, diag'). card_ok d \<and> physical_port d = physical_port info)"
proof -
  have i: "dev_kind info' = KIND_MMCE" "physical_port info' = physical_port info" "capabilities info' = 113"
    "formatted info' = formatted info"
    using assms(2) by (simp_all add: same_device_def)
  have 1: "card_ok (info'\<lparr>capabilities := 243, formatted := fmt\<rparr>)" if "r = 0" "fmt \<in> {-1, 0, 1}" for fmt
    using that i assms(3,5) by (intro card_okI) auto
  have 2: "card_ok info'" using i assms(3,4) by (intro card_okI) auto
  show ?thesis
    unfolding Let_def i(3) caps_values
    by (intro keeps_if keeps_bind [OF scan_frame_format [OF assms(1)]] keeps_prod) (auto intro!: keeps_return 1 2 simp: i)
qed

lemma keeps_scan_mmce:
  assumes "scan_frame I" "physical_port info \<in> {2, 3}" "formatted info \<in> {-1, 0, 1}"
  shows "keeps I (scan_mmce ker bus port info diag) (\<lambda>(d, diag'). card_ok d \<and> physical_port d = physical_port info)"
proof -
  let ?R = "\<lambda>(d, diag'). card_ok d \<and> physical_port d = physical_port info"
  show ?thesis
    unfolding scan_mmce_def caps_values
    by (intro keeps_let keeps_prod keeps_bind [OF keeps_get_spec [OF scan_frame_dev [OF assms(1)]]] keeps_bind [where R' = ?R]
        keeps_bind [OF keeps_get_u16 [OF scan_frame_dev [OF assms(1)]]] scan_mmce_format [OF assms(1)])
      (use assms in \<open>auto intro!: keeps_return\<close>)
qed

lemma scan_card_spec:
  assumes I: "scan_frame I" and info: "physical_port info = port" "port \<in> {2, 3}"
  shows "triple I (scan_card ker bus port info diag)
    (\<lambda>d st. I st \<and> (\<forall>info. fst d = Some info \<longrightarrow> device_ok st info \<and> physical_port info = port \<and> (port = 2 \<longrightarrow> card_ok info)))"
proof (rule tripleI)
  fix st a st'
  assume pre: "I st" and run: "run_state (scan_card ker bus port info diag) st = (a, st')"
  obtain r t info1 st1 where spec: "run_state (mc_get_spec ker bus port info) st = ((r, t, info1), st1)"
    by (metis prod_cases3 surj_pair)
  have 1: "I st1" "same_device info info1" "r = 0 \<longrightarrow> page_size info1 \<noteq> 0 \<and> page_count info1 \<noteq> 0"
    using keepsD [OF keeps_get_spec [OF scan_frame_dev [OF I]] pre spec] by auto
  show "I st' \<and>
    (\<forall>info. fst a = Some info \<longrightarrow> device_ok st' info \<and> physical_port info = port \<and> (port = 2 \<longrightarrow> card_ok info))"
  proof (cases "r = 0")
    case True
    let ?info = "info1\<lparr>dev_kind := KIND_PS2_MEMORY_CARD, capabilities := EF2_STORAGE_CAP_MEMORY_CARD
      OR EF2_STORAGE_CAP_GEOMETRY OR EF2_STORAGE_CAP_PAGE_READ\<rparr>"
    obtain f fmt st2 where fmt: "run_state (mc_check_format ker bus ?info) st1 = ((f, fmt), st2)"
      by (metis surj_pair)
    have "I st2" "fmt \<in> {-1, 0, 1}" using keepsD [OF scan_frame_format [OF I] 1(1) fmt] by auto
    moreover have "card_ok (?info\<lparr>formatted := fmt\<rparr>)"
      using 1(2,3) True info calculation(2) by (intro card_okI) (auto simp: same_device_def caps_values)
    moreover have "fst a = Some (?info\<lparr>formatted := fmt\<rparr>) \<and> st' = st2"
      using run spec fmt True by (auto simp: scan_card_def Let_def)
    ultimately show ?thesis using 1(2) info(1) by (auto simp: device_ok_def same_device_def)
  next
    case False
    obtain m st2 where mx: "run_state (mx_initialize ker bus) st1 = (m, st2)" by (metis surj_pair)
    have "I st2" using keepsD [OF keeps_initialize _ mx] 1(1) I by (auto simp: scan_frame_def)
    then show ?thesis
      using run spec mx False 1(1) info initialize_ready [of ker bus st1 st2]
      by (auto simp: scan_card_def Let_def device_ok_def sd_ok_def split: if_splits)
  qed
qed

lemma device_ok_frame:
  "card_ok d \<Longrightarrow> device_ok st d"
  by (simp add: device_ok_def)

lemma scan_port_spec:
  assumes I: "scan_frame I" and port: "port \<in> {2, 3}"
  shows "triple I (scan_port ker bus port diag)
    (\<lambda>d st. I st \<and> (\<forall>info. fst d = Some info \<longrightarrow> device_ok st info \<and> physical_port info = port \<and> (port = 2 \<longrightarrow> card_ok info)))"
proof (rule tripleI)
  fix st a st'
  assume pre: "I st" and run: "run_state (scan_port ker bus port diag) st = (a, st')"
  obtain r info st1 where ping: "run_state (mmce_ping ker bus port (zero_device\<lparr>physical_port := port, formatted := -1\<rparr>)) st = ((r, info), st1)"
    by (metis surj_pair)
  have 1: "I st1" "physical_port info = port" "formatted info = -1"
    using keepsD [OF keeps_ping [OF scan_frame_dev [OF I]] pre ping] by (auto simp: same_device_def)
  let ?diag = "diag\<lparr>diag_mmce := (diag_mmce diag)[unat (port - 2) := r]\<rparr>"
  show "I st' \<and>
    (\<forall>info. fst a = Some info \<longrightarrow> device_ok st' info \<and> physical_port info = port \<and> (port = 2 \<longrightarrow> card_ok info))"
  proof (cases "r = 0")
    case True
    obtain d diag' st2 where mmce: "run_state (scan_mmce ker bus port info ?diag) st1 = ((d, diag'), st2)"
      by (metis surj_pair)
    have "I st2 \<and> card_ok d \<and> physical_port d = port"
      using keepsD [OF keeps_scan_mmce [OF I] 1(1) mmce] 1(2,3) port by auto
    then show ?thesis using run ping True mmce by (auto simp: scan_port_def device_ok_def)
  next
    case False
    then have "run_state (scan_card ker bus port info ?diag) st1 = (a, st')" using run ping by (simp add: scan_port_def)
    then show ?thesis using tripleD [OF scan_card_spec [OF I 1(2) port] 1(1)] by blast
  qed
qed

text \<open>A scan of both ports: at most two devices, on different ports.\<close>

lemma backend_scan_spec:
  assumes I: "scan_frame I" and pre: "I st"
    and run: "run_state (ef2_storage_backend_scan ker bus 3 diag) st = ((r, ds, diag'), st')"
  shows "r = 0 \<and> I st' \<and> devices_ok st' ds"
proof -
  obtain d2 diag2 st2 where p2: "run_state (scan_port ker bus 2 unprobed_diag) st = ((d2, diag2), st2)"
    by (metis surj_pair)
  obtain d3 diag3 st3 where p3: "run_state (scan_port ker bus 3 diag2) st2 = ((d3, diag3), st3)"
    by (metis surj_pair)
  have 2: "I st2" "\<And>info. d2 = Some info \<Longrightarrow> card_ok info \<and> physical_port info = 2"
    using tripleD [OF scan_port_spec [OF I] pre p2] by auto
  have 3: "I st3" "\<And>info. d3 = Some info \<Longrightarrow> device_ok st3 info \<and> physical_port info = 3"
    using tripleD [OF scan_port_spec [OF I] 2(1) p3] by auto
  show ?thesis
    using run p2 p3 2(2) 3
    by (auto simp: ef2_storage_backend_scan_def devices_ok_def device_ok_frame split: option.splits)
qed

end
