(* ===== verification/StorageModule.thy ===== *)
theory StorageModule
  imports StorageScan
begin

text \<open>
  The storage module as a whole: its invariant over every reachable state, the shape of its replies, and
  the client on top of it.
\<close>

section \<open>Replies\<close>

text \<open>What a client may rely on in the reply to a request: no more data than the buffer holds or than
  was asked for, and exactly what was asked for where the function succeeded.\<close>

definition reply_ok :: "s32 \<Rightarrow> storage_request \<Rightarrow> s32 \<Rightarrow> storage_reply \<Rightarrow> bool" where
  "reply_ok fn req result reply \<longleftrightarrow> result \<le> 0 \<and> length (sr_data reply) = 512 \<and> sr_data_size reply \<le> 512 \<and>
    (fn = 3 \<longrightarrow> result = 0 \<longrightarrow> sr_data_size reply = 512) \<and>
    (fn = 16 \<longrightarrow> result = 0 \<longrightarrow> sr_data_size reply = sq_data_size req) \<and>
    (fn = 13 \<longrightarrow> sr_data_size reply \<le> sq_data_size req) \<and>
    (fn = 14 \<longrightarrow> sr_value reply \<le> uint (sq_data_size req))"

lemma zero_reply_fields [simp]:
  "sr_data zero_storage_reply = replicate 512 0" "sr_data_size zero_storage_reply = 0" "sr_value zero_storage_reply = 0"
  by (simp_all add: zero_storage_reply_def)

lemma reply_ok_zero: "result \<le> 0 \<Longrightarrow> (fn = 3 \<or> fn = 16 \<longrightarrow> result < 0) \<Longrightarrow> reply_ok fn req result zero_storage_reply"
  by (auto simp: reply_ok_def)

lemma word_of_int_le: "0 \<le> r \<Longrightarrow> r \<le> uint n \<Longrightarrow> word_of_int r \<le> (n :: u32)"
proof -
  assume r: "0 \<le> r" "r \<le> uint n"
  have "uint (word_of_int r :: u32) \<le> r" using r(1) by (simp add: uint_word_of_int zmod_le_nonneg_dividend)
  then show ?thesis using r(2) by (simp only: word_le_def)
qed

lemma le_512_trans: "r \<le> uint (n :: u32) \<Longrightarrow> n \<le> 512 \<Longrightarrow> r \<le> 512"
proof -
  assume r: "r \<le> uint n" and "n \<le> 512"
  then have "uint n \<le> uint (512 :: u32)" by (simp only: word_le_def)
  then show ?thesis using r by simp
qed

lemma keeps_operation:
  assumes I: "dev_blind I" and fn: "2 \<le> fn" "fn \<le> 16"
  shows "keeps I (storage_operation ker bus fn req device zero_storage_reply) (\<lambda>(r, reply). reply_ok fn req r reply)"
proof -
  note io = keeps_mmce_control [OF I] keeps_open [OF I] keeps_close [OF I] keeps_lseek [OF I] keeps_mmce_write [OF I]
    keeps_write_sector [OF I]
  have pg: "keeps I (backend_read_page ker bus device page (replicate 512 0)) (\<lambda>(r, data). r \<le> 0 \<and> length data = 512)" for page
    unfolding backend_read_page_def by (intro keeps_if keeps_read_page [OF I]) (auto intro!: keeps_return)
  have sec_read: "keeps I (backend_read_sector ker bus device n (replicate 512 0)) (\<lambda>(r, data). r \<le> 0 \<and> length data = 512)" for n
    unfolding backend_read_sector_def by (intro keeps_if keeps_read_sector [OF I]) (auto intro!: keeps_return)
  have sec_write: "keeps I (backend_write_sector ker bus device n data) (\<lambda>r. r \<le> 0)" for n data
    unfolding backend_write_sector_def by (intro keeps_if io) (auto intro!: keeps_return)
  have rd: "keeps I (backend_mmce_read ker bus device fd (replicate 512 0) n) (\<lambda>(r, data). r \<le> uint n \<and> length data = 512)" for fd n
    by (rule keeps_mmce_read [OF I]) simp
  show ?thesis
    unfolding storage_operation_def zero_reply_fields
    by (intro keeps_if keeps_prod keeps_bind [OF pg] keeps_bind [OF sec_read] keeps_bind [OF sec_write] keeps_bind [OF rd]
        keeps_bind [OF io(1)] keeps_bind [OF io(2)] keeps_bind [OF io(3)] keeps_bind [OF io(4)] keeps_bind [OF io(5)]
        keeps_bind [OF io(6)] keeps_bind [OF io(7)] keeps_bind [OF io(8)] keeps_bind [OF io(9)] keeps_bind [OF io(10)]
        keeps_return)
      (use fn in \<open>auto intro!: word_of_int_le intro: le_512_trans
        simp: not_less reply_ok_def reply_value_def reply_data_def\<close>)
qed

section \<open>The invariant\<close>

definition storage_ok :: "'w storage \<Rightarrow> bool" where
  "storage_ok st \<longleftrightarrow> length (g_mc_format_page st) = 512 \<and> length (g_devices st) = 3 \<and>
    devices_ok st (take (unat (g_device_count st)) (g_devices st)) \<and> unat (g_device_count st) \<le> 2"

lemma devices_ok_frame [simp]:
  "devices_ok (st\<lparr>sto_dev := w\<rparr>) ds = devices_ok st ds"
  by (simp add: devices_ok_def device_ok_def sd_ok_def)

lemma dev_blind_storage_ok: "dev_blind storage_ok"
  by (simp add: dev_blind_def storage_ok_def)

lemma storage_ok_reply [simp]: "storage_ok (st\<lparr>g_storage_reply := r\<rparr>) = storage_ok st"
  by (simp add: storage_ok_def devices_ok_def device_ok_def sd_ok_def)

lemma scan_devices_spec:
  assumes "storage_ok st" "run_state (scan_devices ker bus) st = (r, st')"
  shows "r = 0 \<and> storage_ok st'"
proof -
  let ?I = "\<lambda>st :: 'a storage. length (g_mc_format_page st) = 512 \<and> length (g_devices st) = 3"
  let ?st = "st\<lparr>g_devices := replicate 3 zero_device, g_scan_diag := zero_diag, g_device_count := 0\<rparr>"
  obtain r1 ds diag st1 where scan: "run_state (ef2_storage_backend_scan ker bus 3 zero_diag) ?st = ((r1, ds, diag), st1)"
    by (metis surj_pair)
  have I: "scan_frame ?I" by (simp add: scan_frame_def page_blind_def dev_blind_def mx_blind_def)
  have 1: "r1 = 0" "?I st1" "devices_ok st1 ds"
    using backend_scan_spec [OF I _ scan] assms(1) by (simp_all add: storage_ok_def)
  have len: "length ds \<le> 2" using 1(3) by (simp add: devices_ok_def)
  then have n: "unat (word_of_nat (length ds) :: u32) = length ds" by (simp add: unat_of_nat take_bit_nat_eq_self)
  have "take (length ds) (splice 0 ds (g_devices st1)) = ds" "length (splice 0 ds (g_devices st1)) = 3"
    using 1(2) len by (simp_all add: splice_def)
  then show ?thesis
    using assms(2) scan 1 len n
    by (auto simp: scan_devices_def storage_ok_def devices_ok_def device_ok_def sd_ok_def)
qed

lemma handler_spec:
  assumes ok: "storage_ok st" and run: "run_state (storage_rpc_handler ker bus fn req len) st = (u, st')"
  shows "storage_ok st' \<and> reply_ok fn req (sr_result (g_storage_reply st')) (g_storage_reply st') \<and>
    sr_device_count (g_storage_reply st') = g_device_count st'"
proof -
  let ?fin = "\<lambda>(result, reply) st. st\<lparr>g_storage_reply := reply\<lparr>sr_result := result, sr_device_count := g_device_count st,
      sr_scan_diag := g_scan_diag st\<rparr>\<rparr>"
  have fin: "storage_ok (?fin p st1) \<and> reply_ok fn req (sr_result (g_storage_reply (?fin p st1))) (g_storage_reply (?fin p st1)) \<and>
      sr_device_count (g_storage_reply (?fin p st1)) = g_device_count (?fin p st1)"
    if "storage_ok st1" "reply_ok fn req (fst p) (snd p)" for p st1
    using that by (cases p) (simp add: reply_ok_def)
  show ?thesis
  proof (cases "fn < 2 \<or> fn > 16 \<or> len < 796 \<or> \<not> sq_index req < g_device_count st")
    case True
    obtain r st1 where scan: "run_state (scan_devices ker bus) st = (r, st1)" by (metis surj_pair)
    have "\<exists>p st1. st' = ?fin p st1 \<and> storage_ok st1 \<and> reply_ok fn req (fst p) (snd p)"
    proof (cases "fn = 1")
      case True
      have "st' = ?fin (r, zero_storage_reply) st1"
        using run scan True by (auto simp: storage_rpc_handler_def Let_def split: if_splits)
      then show ?thesis using scan_devices_spec [OF ok scan] True by (fastforce intro: reply_ok_zero)
    next
      case False
      have "st' = ?fin (if fn = 0 then 0 else if fn < 0 \<or> fn > 16 then -100 else -1, zero_storage_reply) st"
        using run True False by (auto simp: storage_rpc_handler_def device_at_def split: if_splits)
      then show ?thesis using ok by (fastforce intro: reply_ok_zero)
    qed
    then show ?thesis using fin by blast
  next
    case False
    obtain p st1 where oper: "run_state (storage_operation ker bus fn req (g_devices st ! unat (sq_index req)) zero_storage_reply) st = (p, st1)"
      by (metis surj_pair)
    have "storage_ok st1" "reply_ok fn req (fst p) (snd p)"
      using keepsD [OF keeps_operation [OF dev_blind_storage_ok] ok oper] False by (auto split: prod.splits)
    moreover have "st' = ?fin p st1"
      using run oper False by (cases p) (auto simp: storage_rpc_handler_def device_at_def split: if_splits)
    ultimately show ?thesis using fin by blast
  qed
qed

text \<open>The module from its load on: the start, then any requests in any order.\<close>

definition storage_loaded :: "'w storage \<Rightarrow> bool" where
  "storage_loaded st \<longleftrightarrow> g_sio2_mutex st = -1 \<and> g_mx_baud st = 0x78 \<and> g_mx_card_type st = 0 \<and> g_mx_sector_count st = 0 \<and>
    \<not> g_mx_initialized st \<and> g_mc_format_page st = replicate 512 0 \<and> g_storage_reply st = zero_storage_reply \<and>
    g_devices st = replicate 3 zero_device \<and> g_scan_diag st = zero_diag \<and> g_device_count st = 0 \<and> g_rpc_ready_sema st = -1"

inductive storage_reachable :: "'w iop_kernel \<Rightarrow> 'w bus \<Rightarrow> 'w storage \<Rightarrow> bool" for ker bus where
  started: "storage_loaded st \<Longrightarrow> run_state (storage_start ker) st = (r, st') \<Longrightarrow> storage_reachable ker bus st'"
| request: "storage_reachable ker bus st \<Longrightarrow> run_state (storage_rpc_handler ker bus fn req len) st = (u, st') \<Longrightarrow>
    storage_reachable ker bus st'"

lemma start_spec:
  assumes "storage_loaded st" "run_state (storage_start ker) st = (r, st')"
  shows "storage_ok st'"
proof -
  have base: "storage_ok s" if "g_mc_format_page s = replicate 512 0" "g_devices s = replicate 3 zero_device" "g_device_count s = 0" for s :: "'a storage"
    using that by (simp add: storage_ok_def devices_ok_def)
  have "g_mc_format_page st' = g_mc_format_page st \<and> g_devices st' = g_devices st \<and> g_device_count st' = g_device_count st"
    using assms(2) by (auto simp: storage_start_def ef2_storage_sio2_init_def split: if_splits)
  then show ?thesis using assms(1) by (intro base) (auto simp: storage_loaded_def)
qed

lemma reachable_ok: "storage_reachable ker bus st \<Longrightarrow> storage_ok st"
  by (induction rule: storage_reachable.induct) (auto dest: start_spec handler_spec)

end
