(* ===== verification/StorageClientSpec.thy ===== *)
theory StorageClientSpec
  imports StorageModule
begin

text \<open>
  The storage client on the storage module: the RPC answered by the dispatcher, and the transfer loops
  of the client.
\<close>

definition iop_storage_services :: "'w iop_kernel \<Rightarrow> 'w bus \<Rightarrow> 'w storage storage_services" where
  "iop_storage_services ker bus = \<lparr>
    ef2_sif_init = (\<lambda>w. (0, w)), ef2_iop_exec_module_buffer_ex = (\<lambda>m w. (0, 0, w)),
    ef2_iop_enable_module_buffer = (\<lambda>w. (0, w)), ef2_sif_bind = (\<lambda>sid w. (0, 1, w)),
    ef2_sif_call = (\<lambda>f q n r w. let w' = snd (run_state (storage_rpc_handler ker bus f q (sint n)) w)
                                 in (0, g_storage_reply w', w'))\<rparr>"

definition client_ok :: "'w storage storage_client \<Rightarrow> bool" where
  "client_ok st \<longleftrightarrow> sc_bound st \<and> storage_ok (sc_world st)"

lemma module_call:
  assumes "client_ok st"
  obtains st' where "storage_request_rpc (iop_storage_services ker bus) fn req st = (sr_result (sc_reply st'), st')"
    "client_ok st'" "reply_ok fn req (sr_result (sc_reply st')) (sc_reply st')"
proof -
  obtain u w' where run: "run_state (storage_rpc_handler ker bus fn req 796) (sc_world st) = (u, w')"
    by (metis surj_pair)
  have sint: "sint (796 :: u32) = 796" by simp
  have "storage_ok w'" "reply_ok fn req (sr_result (g_storage_reply w')) (g_storage_reply w')"
    using handler_spec [OF _ run] assms by (auto simp: client_ok_def)
  then show ?thesis
    using assms run that
    by (auto simp: storage_request_rpc_def storage_rpc_def iop_storage_services_def client_ok_def sint)
qed

section \<open>Files\<close>

text \<open>A buffer that agrees with another from \<open>k\<close> on.\<close>

definition kept_from :: "nat \<Rightarrow> 'a list \<Rightarrow> 'a list \<Rightarrow> bool" where
  "kept_from k xs ys \<longleftrightarrow> length ys = length xs \<and> drop k ys = drop k xs"

lemma kept_from_refl [simp]: "kept_from k xs xs"
  by (simp add: kept_from_def)

lemma kept_from_mono: "kept_from j xs ys \<Longrightarrow> j \<le> k \<Longrightarrow> kept_from k xs ys"
  unfolding kept_from_def by (metis drop_drop le_add_diff_inverse2)

lemma kept_from_splice:
  assumes "kept_from off xs ys" "off + n \<le> length xs" "n = length part"
  shows "kept_from (off + n) xs (splice off part ys)"
proof -
  have len: "length ys = length xs" and d: "drop (off + n) ys = drop (off + n) xs"
    using kept_from_mono [OF assms(1), of "off + n"] by (simp_all add: kept_from_def)
  have "length (splice off part ys) = length xs" using assms(2,3) len by (intro trans [OF splice_length]) simp_all
  moreover have "drop (off + n) (splice off part ys) = drop (off + n) xs"
    using assms(2,3) len d by (simp add: splice_def)
  ultimately show ?thesis by (simp add: kept_from_def)
qed

lemma sint_of_small: "unat (n :: u32) \<le> 0x7FFFFFFF \<Longrightarrow> d \<le> n \<Longrightarrow> nat (sint d) = unat d"
  using sint_small [of d] by (simp add: word_le_nat_alt)

lemma chunk_step:
  fixes n pos :: u32
  assumes "pos < n" "chunk = (if n - pos > 512 then 512 else n - pos)" "m \<le> chunk"
  shows "unat (pos + m) = unat pos + unat m" "pos + m \<le> n" "unat pos + unat m \<le> unat n" "unat m \<le> 512"
    "m = chunk \<Longrightarrow> unat (n - (pos + m)) < unat (n - pos)"
proof -
  have c: "unat chunk \<le> unat n - unat pos" "unat chunk \<le> 512" "0 < unat chunk"
    using assms(1,2) unat_sub [OF less_imp_le [OF assms(1)]] by (auto simp: word_less_nat_alt)
  have m: "unat m \<le> unat chunk" using assms(3) by (simp add: word_le_nat_alt)
  show s: "unat pos + unat m \<le> unat n" using c(1) m assms(1) by (simp add: word_less_nat_alt)
  then show a: "unat (pos + m) = unat pos + unat m"
    by (simp add: unat_add_lem [THEN iffD1] le_less_trans [OF _ unat_less_32])
  show le: "pos + m \<le> n" using s a by (simp add: word_le_nat_alt)
  show "unat m \<le> 512" using m c(2) by simp
  show "unat (n - (pos + m)) < unat (n - pos)" if "m = chunk"
    using le s a c(3) that assms(1) by (simp add: unat_sub)
qed

lemma read_loop_ends:
  assumes "client_ok st" "pos \<le> n" "unat n \<le> 0x7FFFFFFF" "unat n \<le> length buf" "kept_from (unat pos) buf0 buf"
  shows "\<exists>r buf' st'. client_read_loop (iop_storage_services ker bus) index fd buf n pos st = Some (r, buf', st') \<and>
    client_ok st' \<and> r \<le> int (unat n) \<and> kept_from (nat r) buf0 buf'"
  using assms
proof (induction "unat (n - pos)" arbitrary: pos buf st rule: less_induct)
  case less
  let ?sif = "iop_storage_services ker bus"
  have bound: "nat (sint d) = unat d \<and> sint d \<le> int (unat n)" if "d \<le> n" for d
  proof -
    have "uint d \<le> uint n" using that by (simp only: word_le_def)
    moreover have "sint d = uint d" using that less.prems(3) sint_small [of d] by (simp add: word_le_nat_alt)
    ultimately show ?thesis by simp
  qed
  show ?case
  proof (cases "pos < n")
    case False
    then show ?thesis
      using less.prems bound [of pos] by (subst client_read_loop.simps) simp
  next
    case True
    define chunk where "chunk = (if n - pos > 512 then 512 else n - pos)"
    define req where "req = zero_storage_request\<lparr>sq_index := index, sq_fd := fd, sq_data_size := chunk\<rparr>"
    obtain st1 where call: "storage_request_rpc ?sif 13 req st = (sr_result (sc_reply st1), st1)"
      and st1: "client_ok st1" "reply_ok 13 req (sr_result (sc_reply st1)) (sc_reply st1)"
      using module_call [OF less.prems(1)] by blast
    let ?m = "sr_data_size (sc_reply st1)"
    have m: "?m \<le> chunk" "length (sr_data (sc_reply st1)) = 512" using st1(2) by (auto simp: reply_ok_def req_def)
    note step = chunk_step [OF True chunk_def m(1)]
    let ?buf = "splice (unat pos) (take (unat ?m) (sr_data (sc_reply st1))) buf"
    have put: "put_bytes (sr_data (sc_reply st1)) (unat ?m) buf (unat pos) = Some ?buf"
      using step(3,4) m(2) less.prems(4) by (simp add: put_bytes_def)
    have len: "length ?buf = length buf" using step(3,4) m(2) less.prems(4) by (intro splice_length) simp
    have kept: "kept_from (unat pos + unat ?m) buf0 ?buf"
      using step(3,4) m(2) less.prems(4,5) by (intro kept_from_splice) (auto simp: kept_from_def)
    have unfolded: "client_read_loop ?sif index fd buf n pos st =
        (if sr_result (sc_reply st1) < 0 then Some (if pos \<noteq> 0 then sint pos else sr_result (sc_reply st1), buf, st1)
         else if ?m < chunk then Some (sint (pos + ?m), ?buf, st1)
         else client_read_loop ?sif index fd ?buf n (pos + ?m) st1)"
      by (subst client_read_loop.simps) (simp add: True Let_def call put flip: chunk_def req_def)
    consider "sr_result (sc_reply st1) < 0" | "\<not> sr_result (sc_reply st1) < 0" "?m < chunk"
      | "\<not> sr_result (sc_reply st1) < 0" "?m = chunk"
      using m(1) by fastforce
    then show ?thesis
    proof cases
      case 1
      have "nat (sr_result (sc_reply st1)) = 0" "sr_result (sc_reply st1) \<le> int (unat n)"
        using 1 negative_le_uint [of _ n] by simp_all
      then show ?thesis using 1 st1(1) bound [OF less.prems(2)] less.prems(5) by (auto simp: unfolded)
    next
      case 2
      then show ?thesis using st1(1) bound [OF step(2)] kept step(1) by (simp add: unfolded)
    next
      case 3
      have "unat (n - (pos + ?m)) < unat (n - pos)" by (rule step(5) [OF 3(2)])
      then show ?thesis
        using less.hyps [OF _ st1(1) step(2) less.prems(3)] less.prems(4) len kept step(1) 3 by (simp add: unfolded)
    qed
  qed
qed

lemma write_loop_ends:
  assumes "client_ok st" "pos \<le> n" "unat n \<le> 0x7FFFFFFF" "unat n \<le> length src"
  shows "\<exists>r st'. client_write_loop (iop_storage_services ker bus) index fd src n pos st = Some (r, st') \<and>
    client_ok st' \<and> r \<le> int (unat n)"
  using assms
proof (induction "unat (n - pos)" arbitrary: pos st rule: less_induct)
  case less
  let ?sif = "iop_storage_services ker bus"
  have bound: "sint d \<le> int (unat n)" if "d \<le> n" for d
  proof -
    have "uint d \<le> uint n" using that by (simp only: word_le_def)
    moreover have "sint d = uint d" using that less.prems(3) sint_small [of d] by (simp add: word_le_nat_alt)
    ultimately show ?thesis by simp
  qed
  show ?case
  proof (cases "pos < n")
    case False
    then show ?thesis
      using less.prems bound [of pos] by (subst client_write_loop.simps) simp
  next
    case True
    define chunk where "chunk = (if n - pos > 512 then 512 else n - pos)"
    note all = chunk_step [OF True chunk_def order_refl]
    define data where "data = take (unat chunk) (drop (unat pos) src)"
    define req where "req = zero_storage_request\<lparr>sq_index := index, sq_fd := fd, sq_data_size := chunk,
      sq_data := splice 0 data (replicate 512 0)\<rparr>"
    have get: "get_bytes src (unat pos) (unat chunk) = Some data"
      using all(3) less.prems(4) by (simp add: get_bytes_def data_def)
    obtain st1 where call: "storage_request_rpc ?sif 14 req st = (sr_result (sc_reply st1), st1)"
      and st1: "client_ok st1" "reply_ok 14 req (sr_result (sc_reply st1)) (sc_reply st1)"
      using module_call [OF less.prems(1)] by blast
    let ?v = "sr_value (sc_reply st1)" and ?m = "word_of_int (sr_value (sc_reply st1)) :: u32"
    have v: "?v \<le> uint chunk" using st1(2) by (simp add: reply_ok_def req_def)
    have unfolded: "client_write_loop ?sif index fd src n pos st =
        (if sr_result (sc_reply st1) < 0 then Some (if pos \<noteq> 0 then sint pos else sr_result (sc_reply st1), st1)
         else if ?v \<le> 0 then Some (sint pos, st1)
         else if ?m < chunk then Some (sint (pos + ?m), st1)
         else client_write_loop ?sif index fd src n (pos + ?m) st1)"
      by (subst client_write_loop.simps) (simp add: True Let_def call get flip: chunk_def req_def)
    show ?thesis
    proof (cases "sr_result (sc_reply st1) < 0 \<or> ?v \<le> 0")
      case True
      then show ?thesis
        using st1(1) bound [OF less.prems(2)] negative_le_uint [of _ n] by (auto simp: unfolded)
    next
      case False
      then have m: "?m \<le> chunk" using v by (intro word_of_int_le) simp_all
      note step = chunk_step [OF True chunk_def m]
      show ?thesis
      proof (cases "?m < chunk")
        case True
        then show ?thesis using False st1(1) bound [OF step(2)] by (simp add: unfolded)
      next
        case full: False
        then have "?m = chunk" using m by simp
        then show ?thesis
          using less.hyps [OF step(5) st1(1) step(2) less.prems(3,4)] False full by (simp add: unfolded)
      qed
    qed
  qed
qed

section \<open>Runs of sectors\<close>

text \<open>A service that stores \<open>limit\<close> sectors: \<open>holds w m\<close> says that in the state \<open>w\<close> sector \<open>s\<close> of the
  device contains \<open>m s\<close>.  A read delivers the contents and a write replaces them.\<close>

definition serves_sectors :: "'w storage_services \<Rightarrow> u32 \<Rightarrow> u32 \<Rightarrow> ('w \<Rightarrow> (u32 \<Rightarrow> u8 list) \<Rightarrow> bool) \<Rightarrow> bool" where
  "serves_sectors sif index limit holds \<longleftrightarrow>
    (\<forall>w m s. holds w m \<longrightarrow> s < limit \<longrightarrow> (\<exists>reply w'. ef2_sif_call sif 3
       (zero_storage_request\<lparr>sq_index := index, sq_sector := s, sq_count := 1\<rparr>) 796 zero_storage_reply w = (0, reply, w') \<and>
       sr_result reply = 0 \<and> sr_data_size reply = 512 \<and> sr_data reply = m s \<and> length (m s) = 512 \<and> holds w' m)) \<and>
    (\<forall>w m s data. holds w m \<longrightarrow> s < limit \<longrightarrow> length data = 512 \<longrightarrow> (\<exists>reply w'. ef2_sif_call sif 4
       (zero_storage_request\<lparr>sq_index := index, sq_sector := s, sq_count := 1, sq_data_size := 512, sq_data := data\<rparr>) 796
       zero_storage_reply w = (0, reply, w') \<and> sr_result reply = 0 \<and> holds w' (m(s := data))))"

definition sector_of :: "u8 list \<Rightarrow> nat \<Rightarrow> u8 list" where
  "sector_of src k = take 512 (drop (512 * k) src)"

text \<open>The contents after the first \<open>k\<close> sectors of \<open>src\<close> have been written from \<open>sector\<close> on.\<close>

definition written :: "u32 \<Rightarrow> u8 list \<Rightarrow> nat \<Rightarrow> (u32 \<Rightarrow> u8 list) \<Rightarrow> u32 \<Rightarrow> u8 list" where
  "written sector src k m = (\<lambda>s. if unat (s - sector) < k then sector_of src (unat (s - sector)) else m s)"

lemma written_Suc:
  assumes "k < 4294967296"
  shows "(written sector src k m)(sector + w32 k := sector_of src k) = written sector src (Suc k) m"
proof
  fix s
  have "s = sector + w32 k \<longleftrightarrow> unat (s - sector) = k"
    using assms by (auto simp: unat_w32 diff_eq_eq word_unat_eq_iff [of "s - sector" "w32 k"] add.commute)
  then show "((written sector src k m)(sector + w32 k := sector_of src k)) s = written sector src (Suc k) m s"
    by (auto simp: written_def less_Suc_eq)
qed

lemma sector_in_range:
  assumes "unat sector + n \<le> unat limit" "k < n"
  shows "sector + w32 k < limit"
proof -
  have "unat sector + k < unat limit" using assms by simp
  moreover have "unat (w32 k) = k" using calculation unat_less_32 [of limit] by (intro unat_w32) linarith
  ultimately have "unat (sector + w32 k) = unat sector + k"
    using unat_add_lem [of sector "w32 k"] unat_less_32 [of limit] by simp
  then show ?thesis using \<open>unat sector + k < unat limit\<close> by (simp add: word_less_nat_alt)
qed

lemma write_sectors_loop_stores:
  assumes serves: "serves_sectors sif index limit holds" and fits: "unat sector + n \<le> unat limit" and n: "512 * n < 4294967296" "length src = 512 * n" "n \<le> 0x7FFFFFFF"
  shows "k \<le> n \<Longrightarrow> holds (sc_world st) (written sector src k m) \<Longrightarrow>
    \<exists>st'. write_sectors_loop sif index sector src (w32 n) (w32 k) st = Some (int n, st') \<and> sc_bound st' = sc_bound st \<and>
      holds (sc_world st') (written sector src n m)"
proof (induction "n - k" arbitrary: k st rule: less_induct)
  case less
  have small: "n < 4294967296" "k < 4294967296" using n less.prems(1) by simp_all
  show ?case
  proof (cases "k < n")
    case False
    then show ?thesis
      using less.prems n(3) small by (subst write_sectors_loop.simps) (auto simp: w32_less_iff sint_small unat_w32)
  next
    case True
    let ?data = "sector_of src k"
    let ?req = "zero_storage_request\<lparr>sq_index := index, sq_sector := sector + w32 k, sq_count := 1, sq_data_size := 512, sq_data := ?data\<rparr>"
    have "unat (w32 k * 512) = 512 * k"
      using True n(1) small by (simp add: unat_mult_lem [THEN iffD1] unat_w32 flip: w32_numeral)
    then have get: "get_bytes src (unat (w32 k * 512)) 512 = Some ?data"
      using True n(2) by (simp add: get_bytes_def sector_of_def)
    have s: "sector + w32 k < limit" by (rule sector_in_range [OF fits True])
    have len: "length ?data = 512" using True n(2) by (simp add: sector_of_def)
    obtain reply w' where call: "ef2_sif_call sif 4 ?req 796 zero_storage_reply (sc_world st) = (0, reply, w')"
      "sr_result reply = 0" "holds w' ((written sector src k m)(sector + w32 k := ?data))"
      using serves less.prems(2) s len unfolding serves_sectors_def by blast
    let ?st = "st\<lparr>sc_request := ?req, sc_reply := reply, sc_world := w', sc_device_count := sr_device_count reply,
      sc_scan_diag := sr_scan_diag reply\<rparr>"
    have "write_sectors_loop sif index sector src (w32 n) (w32 k) st = write_sectors_loop sif index sector src (w32 n) (w32 (Suc k)) ?st"
      using True small call(1,2) get
      by (subst write_sectors_loop.simps)
        (simp add: w32_less_iff storage_request_rpc_def storage_rpc_def w32_add_one Let_def)
    moreover have "holds (sc_world ?st) (written sector src (Suc k) m)"
      using call(3) small(2) by (simp add: written_Suc)
    moreover have "n - Suc k < n - k" "Suc k \<le> n" using True by simp_all
    ultimately show ?thesis using less.hyps [of "Suc k" ?st] by auto
  qed
qed

lemma read_sectors_loop_delivers:
  assumes serves: "serves_sectors sif index limit holds" and fits: "unat sector + n \<le> unat limit" and n: "512 * n < 4294967296" "length buf = 512 * n" "n \<le> 0x7FFFFFFF"
  shows "k \<le> n \<Longrightarrow> holds (sc_world st) m \<Longrightarrow> length buf = 512 * n \<Longrightarrow> (\<forall>i < k. sector_of buf i = m (sector + w32 i)) \<Longrightarrow>
    \<exists>buf' st'. read_sectors_loop sif index sector buf (w32 n) (w32 k) st = Some (int n, buf', st') \<and>
      length buf' = 512 * n \<and> (\<forall>i < n. sector_of buf' i = m (sector + w32 i)) \<and> holds (sc_world st') m"
proof (induction "n - k" arbitrary: k st buf rule: less_induct)
  case less
  have small: "n < 4294967296" "k < 4294967296" using n less.prems(1) by simp_all
  show ?case
  proof (cases "k < n")
    case False
    then show ?thesis
      using less.prems n(3) small by (subst read_sectors_loop.simps) (auto simp: w32_less_iff sint_small unat_w32)
  next
    case True
    let ?req = "zero_storage_request\<lparr>sq_index := index, sq_sector := sector + w32 k, sq_count := 1\<rparr>"
    have off: "unat (w32 k * 512) = 512 * k"
      using True n(1) small by (simp add: unat_mult_lem [THEN iffD1] unat_w32 flip: w32_numeral)
    have s: "sector + w32 k < limit" by (rule sector_in_range [OF fits True])
    obtain reply w' where call: "ef2_sif_call sif 3 ?req 796 zero_storage_reply (sc_world st) = (0, reply, w')"
      "sr_result reply = 0" "sr_data_size reply = 512" "sr_data reply = m (sector + w32 k)"
      "length (m (sector + w32 k)) = 512" "holds w' m"
      using serves less.prems(2) s unfolding serves_sectors_def by blast
    let ?buf = "splice (512 * k) (m (sector + w32 k)) buf"
    have put: "put_bytes (sr_data reply) 512 buf (unat (w32 k * 512)) = Some ?buf"
      using True less.prems(3) off call(4,5) by (simp add: put_bytes_def)
    let ?st = "st\<lparr>sc_request := ?req, sc_reply := reply, sc_world := w', sc_device_count := sr_device_count reply,
      sc_scan_diag := sr_scan_diag reply\<rparr>"
    have "read_sectors_loop sif index sector buf (w32 n) (w32 k) st = read_sectors_loop sif index sector ?buf (w32 n) (w32 (Suc k)) ?st"
      using True small call(1-3) put
      by (subst read_sectors_loop.simps)
        (simp add: w32_less_iff storage_request_rpc_def storage_rpc_def w32_add_one Let_def)
    moreover have "\<forall>i < Suc k. sector_of ?buf i = m (sector + w32 i)"
    proof (intro allI impI)
      fix i
      assume "i < Suc k"
      then consider "i < k" | "i = k" by linarith
      then show "sector_of ?buf i = m (sector + w32 i)"
      proof cases
        case 1
        then have "512 * i + 512 \<le> 512 * k" by linarith
        then have "sector_of ?buf i = sector_of buf i"
          using True less.prems(3) by (simp add: sector_of_def splice_def take_drop min_def)
        then show ?thesis using less.prems(4) 1 by simp
      next
        case 2
        then show ?thesis using True less.prems(3) call(5) by (simp add: sector_of_def splice_def)
      qed
    qed
    moreover have "length ?buf = 512 * n" using True less.prems(3) call(5) by (intro trans [OF splice_length]) simp_all
    ultimately show ?thesis using less.hyps [of "Suc k" ?st ?buf] True call(6) by auto
  qed
qed

text \<open>Buffers are equal when their sectors are.\<close>

lemma sectors_eq:
  assumes "length a = 512 * n" "length b = 512 * n" "\<forall>i < n. sector_of a i = sector_of b i"
  shows "a = b"
proof (rule nth_equalityI)
  fix j
  assume j: "j < length a"
  then have "j div 512 < n" using assms(1) by (simp add: less_mult_imp_div_less mult.commute)
  then have "sector_of a (j div 512) ! (j mod 512) = sector_of b (j div 512) ! (j mod 512)" using assms(3) by simp
  moreover have "sector_of xs (j div 512) ! (j mod 512) = xs ! j" if "length xs = 512 * n" for xs
  proof -
    have "512 * (j div 512) + j mod 512 = j" by simp
    moreover have "512 * (j div 512) \<le> length xs" using j that assms(1) by linarith
    ultimately show ?thesis by (simp add: sector_of_def)
  qed
  ultimately show "a ! j = b ! j" using assms(1,2) by simp
qed (use assms in simp)

end
