(* ===== verification/StoragePages.thy ===== *)
theory StoragePages
  imports StorageScan
begin

text \<open>
  Reading a page of a native memory card: what a card answers to the three commands, the driver on such
  a card, and a card on a simulated port that answers in this way.
\<close>

section \<open>The protocol of a card\<close>

definition select_packet :: "u32 \<Rightarrow> u8 list" where
  "select_packet page =
    (let address = [ucast page, ucast (drop_bit 8 page), ucast (drop_bit 16 page), ucast (drop_bit 24 page)]
     in [0x81, 0x23] @ address @ [xor_edc address, 0, 0])"

definition data_packet :: "u8 list" where
  "data_packet = [0x81, 0x43, 32] @ replicate 35 0"

definition finish_packet :: "u8 list" where
  "finish_packet = [0x81, 0x81, 0, 0]"

text \<open>An exchange of a packet on a port, as the card commands make it.\<close>

definition card_transfer ::
  "'w iop_kernel \<Rightarrow> 'w bus \<Rightarrow> s32 \<Rightarrow> u32 \<Rightarrow> u8 list \<Rightarrow> u32 \<Rightarrow> u32 \<Rightarrow> 'w \<Rightarrow> (s32 \<times> u8 list) \<times> 'w" where
  "card_transfer ker bus mutex port tx n polls w =
    exchange_transfer ker bus mutex port 0xFF020405 0x0005FFFF 0 tx n (replicate (length tx) 0) n polls w"

text \<open>A card with the contents \<open>pages\<close>: it acknowledges the selection of a page, then delivers the page in
  order, every piece with the exclusive-or of its bytes, and acknowledges the end.  \<open>at page off w\<close> says
  that the next byte delivered is byte \<open>off\<close> of \<open>page\<close>.\<close>

definition serves_pages ::
  "'w iop_kernel \<Rightarrow> 'w bus \<Rightarrow> s32 \<Rightarrow> u32 \<Rightarrow> (u32 \<Rightarrow> u8 list) \<Rightarrow> (u32 \<Rightarrow> nat \<Rightarrow> 'w \<Rightarrow> bool) \<Rightarrow> bool" where
  "serves_pages ker bus mutex port pages at \<longleftrightarrow>
    (\<forall>page w. \<exists>rx w'. card_transfer ker bus mutex port (select_packet page) 9 20000 w = ((0, rx), w') \<and>
       rx ! 7 = 0x2B \<and> mc_valid_terminator (rx ! 8) \<and> at page 0 w') \<and>
    (\<forall>page off w. at page off w \<longrightarrow> off < 512 \<longrightarrow>
      (\<exists>rx w'. card_transfer ker bus mutex port data_packet 38 40000 w = ((0, rx), w') \<and>
       rx ! 3 = 0x2B \<and> take 32 (drop 4 rx) = take 32 (drop off (pages page)) \<and>
       rx ! 36 = xor_edc (take 32 (drop off (pages page))) \<and> mc_valid_terminator (rx ! 37) \<and> at page (off + 32) w')) \<and>
    (\<forall>w. \<exists>rx w'. card_transfer ker bus mutex port finish_packet 4 20000 w = ((0, rx), w') \<and>
       rx ! 2 = 0x2B \<and> mc_valid_terminator (rx ! 3))"

section \<open>The driver on such a card\<close>

lemma run_mc_exchange:
  assumes "0 \<le> g_sio2_mutex st" "port < 4" "n \<le> 256" "t \<noteq> 0"
  shows "run_state (mc_exchange ker bus port tx n t) st =
    (let (r, w) = card_transfer ker bus (g_sio2_mutex st) port tx n t (sto_dev st) in (r, st\<lparr>sto_dev := w\<rparr>))"
proof -
  have "\<not> 4 \<le> port" "\<not> 256 < n" using assms(2,3) by auto
  then show ?thesis
    using assms(1,4) by (simp add: mc_exchange_def ef2_storage_sio2_exchange_def card_transfer_def split: prod.split)
qed

lemma select_on_card:
  assumes "serves_pages ker bus (g_sio2_mutex st) (physical_port device) pages at" "0 \<le> g_sio2_mutex st" "physical_port device < 4"
  obtains w where "run_state (mc_select_read_page ker bus device page) st = (0, st\<lparr>sto_dev := w\<rparr>)" "at page 0 w"
proof -
  obtain rx w where rx: "card_transfer ker bus (g_sio2_mutex st) (physical_port device) (select_packet page) 9 20000 (sto_dev st) = ((0, rx), w)"
    "rx ! 7 = 0x2B" "mc_valid_terminator (rx ! 8)" "at page 0 w"
    using assms(1) unfolding serves_pages_def by blast
  then have "run_state (mc_select_read_page ker bus device page) st = (0, st\<lparr>sto_dev := w\<rparr>)"
    using run_mc_exchange [OF assms(2,3), of 9 20000] by (simp add: mc_select_read_page_def Let_def select_packet_def)
  then show ?thesis using that rx(4) by blast
qed

lemma chunk_on_card:
  assumes "serves_pages ker bus (g_sio2_mutex st) (physical_port device) pages at" "0 \<le> g_sio2_mutex st" "physical_port device < 4"
    and "at page off (sto_dev st)" "off < 512"
  obtains w where "run_state (mc_read_data_chunk ker bus device 32) st = ((0, take 32 (drop off (pages page))), st\<lparr>sto_dev := w\<rparr>)"
    "at page (off + 32) w"
proof -
  obtain rx w where rx: "card_transfer ker bus (g_sio2_mutex st) (physical_port device) data_packet 38 40000 (sto_dev st) = ((0, rx), w)"
    "rx ! 3 = 0x2B" "take 32 (drop 4 rx) = take 32 (drop off (pages page))" "rx ! 36 = xor_edc (take 32 (drop off (pages page)))"
    "mc_valid_terminator (rx ! 37)" "at page (off + 32) w"
    using assms(1,4,5) unfolding serves_pages_def by blast
  then have "run_state (mc_read_data_chunk ker bus device 32) st = ((0, take 32 (drop off (pages page))), st\<lparr>sto_dev := w\<rparr>)"
    using run_mc_exchange [OF assms(2,3), of 38 40000] by (simp add: mc_read_data_chunk_def data_packet_def)
  then show ?thesis using that rx(6) by blast
qed

lemma finish_on_card:
  assumes "serves_pages ker bus (g_sio2_mutex st) (physical_port device) pages at" "0 \<le> g_sio2_mutex st" "physical_port device < 4"
  obtains w where "run_state (mc_finish_read ker bus device) st = (0, st\<lparr>sto_dev := w\<rparr>)"
proof -
  obtain rx w where rx: "card_transfer ker bus (g_sio2_mutex st) (physical_port device) finish_packet 4 20000 (sto_dev st) = ((0, rx), w)"
    "rx ! 2 = 0x2B" "mc_valid_terminator (rx ! 3)"
    using assms(1) unfolding serves_pages_def by blast
  then have "run_state (mc_finish_read ker bus device) st = (0, st\<lparr>sto_dev := w\<rparr>)"
    using run_mc_exchange [OF assms(2,3), of 4 20000] by (simp add: mc_finish_read_def finish_packet_def)
  then show ?thesis using that by blast
qed

lemma read_loop_on_card:
  assumes serves: "serves_pages ker bus mutex (physical_port device) pages at" "0 \<le> mutex" "physical_port device < 4"
    and page: "length (pages page) = 512"
  shows "chunk \<le> 512 \<Longrightarrow> chunk mod 32 = 0 \<Longrightarrow> length data = 512 \<Longrightarrow> take chunk data = take chunk (pages page) \<Longrightarrow>
    g_sio2_mutex st = mutex \<Longrightarrow> at page chunk (sto_dev st) \<Longrightarrow>
    \<exists>w. run_state (mc_read_loop ker bus device chunk data) st = ((0, pages page), st\<lparr>sto_dev := w\<rparr>)"
proof (induction "512 - chunk" arbitrary: chunk data st rule: less_induct)
  case less
  show ?case
  proof (cases "chunk < 512")
    case False
    then show ?thesis using less.prems page
      by (subst mc_read_loop.simps) (auto intro!: exI [of _ "sto_dev st"])
  next
    case True
    then have fit: "chunk + 32 \<le> 512" "(chunk + 32) mod 32 = 0" using less.prems(2) by presburger+
    have s: "serves_pages ker bus (g_sio2_mutex st) (physical_port device) pages at" "0 \<le> g_sio2_mutex st"
      using serves(1,2) less.prems(5) by simp_all
    let ?part = "take 32 (drop chunk (pages page))"
    obtain w where part: "run_state (mc_read_data_chunk ker bus device 32) st = ((0, ?part), st\<lparr>sto_dev := w\<rparr>)" "at page (chunk + 32) w"
      using chunk_on_card [OF s serves(3) less.prems(6) True] by blast
    have len: "length ?part = 32" using fit page by simp
    have "take (chunk + 32) (splice chunk ?part data) = take (chunk + 32) (pages page)"
      using less.prems(3,4) fit len by (simp add: splice_def take_add)
    moreover have "length (splice chunk ?part data) = 512"
      using less.prems(3) fit len by (intro trans [OF splice_length]) simp_all
    moreover have "512 - (chunk + 32) < 512 - chunk" using True by simp
    ultimately obtain w' where
      "run_state (mc_read_loop ker bus device (chunk + 32) (splice chunk ?part data)) (st\<lparr>sto_dev := w\<rparr>)
        = ((0, pages page), st\<lparr>sto_dev := w'\<rparr>)"
      using less.hyps [of "chunk + 32" "splice chunk ?part data" "st\<lparr>sto_dev := w\<rparr>"] fit part(2) less.prems(5) by auto
    then show ?thesis using True part(1) by (intro exI [of _ w'], subst mc_read_loop.simps) simp
  qed
qed

lemma read_page_on_card:
  assumes serves: "serves_pages ker bus (g_sio2_mutex st) (physical_port device) pages at" "0 \<le> g_sio2_mutex st" "physical_port device < 4"
    and page: "length (pages page) = 512" "page < page_count device" "page_size device = 512" "has_cap device EF2_STORAGE_CAP_GEOMETRY"
    and data: "length data = 512"
  shows "\<exists>w. run_state (mc_read_page ker bus device page data) st = ((0, pages page), st\<lparr>sto_dev := w\<rparr>)"
proof -
  obtain w where w: "run_state (mc_select_read_page ker bus device page) st = (0, st\<lparr>sto_dev := w\<rparr>)" "at page 0 w"
    using select_on_card [OF serves] by blast
  obtain w' where w': "run_state (mc_read_loop ker bus device 0 data) (st\<lparr>sto_dev := w\<rparr>) = ((0, pages page), st\<lparr>sto_dev := w'\<rparr>)"
    using read_loop_on_card [OF serves page(1), of 0 data "st\<lparr>sto_dev := w\<rparr>"] data w(2) by auto
  obtain w'' where w'': "run_state (mc_finish_read ker bus device) (st\<lparr>sto_dev := w'\<rparr>) = (0, st\<lparr>sto_dev := w''\<rparr>)"
    using finish_on_card [of ker bus "st\<lparr>sto_dev := w'\<rparr>" device pages at] serves by auto
  show ?thesis
    using w w' w'' page(2-4) by (intro exI [of _ w'']) (simp add: mc_read_page_def has_cap_def leD)
qed

section \<open>A card on a simulated port\<close>

text \<open>A port whose device takes the bytes of a packet and answers when the transfer is started: the
  device \<open>f\<close> maps its state and the packet to the answer and the next state.  A write of the control
  register without the start bit empties both queues.\<close>

record 'c fifo_port =
  fp_card :: 'c
  fp_out :: "u8 list"
  fp_in :: "u8 list"

definition fifo_bus :: "('c \<Rightarrow> u8 list \<Rightarrow> u8 list \<times> 'c) \<Rightarrow> 'c fifo_port bus" where
  "fifo_bus f = \<lparr>
     rd8 = (\<lambda>a w. (hd (fp_in w), w\<lparr>fp_in := tl (fp_in w)\<rparr>)),
     rd16 = (\<lambda>a w. (0, w)),
     rd32 = (\<lambda>a w. (if a = STO_STAT6C then push_bit 12 1 else 0, w)),
     wr8 = (\<lambda>a v w. w\<lparr>fp_out := fp_out w @ [v]\<rparr>),
     wr16 = (\<lambda>a v w. w),
     wr32 = (\<lambda>a v w. if a \<noteq> EF2_SIO2_CTRL then w
                     else if v AND 1 = 0 then w\<lparr>fp_out := [], fp_in := []\<rparr>
                     else let (answer, c) = f (fp_card w) (fp_out w) in \<lparr>fp_card = c, fp_out = [], fp_in = answer\<rparr>)\<rparr>"

lemma fifo_bus_simps [simp]:
  "rd8 (fifo_bus f) a w = (hd (fp_in w), w\<lparr>fp_in := tl (fp_in w)\<rparr>)"
  "rd32 (fifo_bus f) a w = (if a = STO_STAT6C then push_bit 12 1 else 0, w)"
  "wr8 (fifo_bus f) a b w = w\<lparr>fp_out := fp_out w @ [b]\<rparr>"
  "wr32 (fifo_bus f) a v w = (if a \<noteq> EF2_SIO2_CTRL then w
     else if v AND 1 = 0 then w\<lparr>fp_out := [], fp_in := []\<rparr>
     else let (answer, c) = f (fp_card w) (fp_out w) in \<lparr>fp_card = c, fp_out = [], fp_in = answer\<rparr>)"
  by (simp_all add: fifo_bus_def)

lemma fifo_write_bus [simp]: "fifo_write (fifo_bus f) bs w = w\<lparr>fp_out := fp_out w @ bs\<rparr>"
  by (induction bs arbitrary: w) simp_all

lemma writes32_bus: "(\<forall>(a, v) \<in> set avs. a \<noteq> EF2_SIO2_CTRL) \<Longrightarrow> writes32 (fifo_bus f) avs w = w"
  by (induction avs) auto

lemma fifo_read_bus:
  assumes "m \<le> length buf" "m \<le> length (fp_in w)" "m < 4294967296"
  shows "k \<le> m \<Longrightarrow> fifo_read_loop (fifo_bus f) (w32 k) (w32 m) (take k (fp_in w) @ drop k buf) (w\<lparr>fp_in := drop k (fp_in w)\<rparr>) =
    (take m (fp_in w) @ drop m buf, w\<lparr>fp_in := drop m (fp_in w)\<rparr>)"
proof (induction "m - k" arbitrary: k rule: less_induct)
  case less
  show ?case
  proof (cases "k < m")
    case False
    then show ?thesis using less.prems assms(3) by (subst fifo_read_loop.simps) (simp add: w32_less_iff)
  next
    case True
    let ?i = "fp_in w"
    have "drop k buf = buf ! k # drop (Suc k) buf" using True assms(1) by (simp add: Cons_nth_drop_Suc)
    then have "(take k ?i @ drop k buf)[k := ?i ! k] = take (Suc k) ?i @ drop (Suc k) buf"
      using True assms(1,2) by (simp add: list_update_append take_Suc_conv_app_nth)
    moreover have "hd (drop k ?i) = ?i ! k" "tl (drop k ?i) = drop (Suc k) ?i"
      using True assms(2) by (simp_all add: hd_drop_conv_nth tl_drop drop_Suc)
    moreover have "w32 k < w32 m" "w32 k + 1 = w32 (Suc k)" "unat (w32 k) = k"
      using True assms(3) by (simp_all add: w32_less_iff w32_add_one unat_w32)
    ultimately show ?thesis using True less.hyps [of "Suc k"] by (subst fifo_read_loop.simps) simp
  qed
qed

lemma fifo_wait [simp]: "0 < t \<Longrightarrow> exchange_wait_loop ker (fifo_bus f) 0 t w = (True, w)"
  by (subst exchange_wait_loop.simps) simp

lemma fifo_exchange:
  assumes answer: "f (fp_card w) (take (unat n) tx) = (answer, c)" and port: "port \<in> {2, 3}" and t: "0 < t"
    and m: "unat m \<le> length rx" "unat m \<le> length answer"
  shows "exchange_transfer quiet_kernel (fifo_bus f) mutex port c1 c2 b tx n rx m t w =
    ((0, take (unat m) answer @ drop (unat m) rx), \<lparr>fp_card = c, fp_out = [], fp_in = []\<rparr>)"
proof -
  have q: "writes32 (fifo_bus f) (map (\<lambda>i. (STO_QUEUE (word_of_nat i), 0)) [0..<16]) w = w" for w
    by (rule writes32_bus) (simp add: STO_QUEUE_def EF2_SIO2_CTRL_def upt_conv_Cons)
  have p: "writes32 (fifo_bus f) (map (\<lambda>i. (STO_PORT_CTRL (word_of_nat i), 0)) [0..<8]) w = w" for w
    by (rule writes32_bus) (simp add: STO_PORT_CTRL_def EF2_SIO2_CTRL_def upt_conv_Cons)
  have a: "STO_PORT_CTRL (port * 2) \<noteq> EF2_SIO2_CTRL" "STO_PORT_CTRL (port * 2 + 1) \<noteq> EF2_SIO2_CTRL"
    "STO_QUEUE 0 \<noteq> EF2_SIO2_CTRL" "STO_QUEUE 1 \<noteq> EF2_SIO2_CTRL" "STO_STAT6C \<noteq> EF2_SIO2_CTRL" "STO_STAT6C \<noteq> EF2_SIO2_STAT"
    "EF2_SIO2_STAT \<noteq> EF2_SIO2_CTRL"
    using port by (auto simp: STO_PORT_CTRL_def STO_QUEUE_def EF2_SIO2_CTRL_def EF2_SIO2_STAT_def STO_STAT6C_def)
  show ?thesis
    using fifo_read_bus [of "unat m" rx "\<lparr>fp_card = c, fp_out = [], fp_in = answer\<rparr>" 0 f] answer t m a a [symmetric] unsigned_less [where 'a = nat and w = m]
    by (simp add: exchange_transfer_def quiet_kernel_def Let_def q p update32_def)
qed

text \<open>A card with the contents \<open>pages\<close>, at a page and a byte of it.\<close>

definition page_card :: "(u32 \<Rightarrow> u8 list) \<Rightarrow> u32 \<times> nat \<Rightarrow> u8 list \<Rightarrow> u8 list \<times> (u32 \<times> nat)" where
  "page_card pages c tx =
    (let (page, off) = c; part = take 32 (drop off (pages page))
     in if tx ! 1 = 0x23 then (replicate 7 0 @ [0x2B, 0x55], be32 (tx ! 5) (tx ! 4) (tx ! 3) (tx ! 2), 0)
        else if tx ! 1 = 0x43 then (replicate 3 0 @ [0x2B] @ part @ [xor_edc part, 0x55], page, off + 32)
        else ([0, 0, 0x2B, 0x55], c))"

lemma be32_ucast: "be32 (ucast (drop_bit 24 v)) (ucast (drop_bit 16 v)) (ucast (drop_bit 8 v)) (ucast v) = v"
proof (rule bit_word_eqI)
  fix n :: nat
  consider "n < 8" | "8 \<le> n" "n < 16" | "16 \<le> n" "n < 24" | "24 \<le> n" by linarith
  then show "bit (be32 (ucast (drop_bit 24 v)) (ucast (drop_bit 16 v)) (ucast (drop_bit 8 v)) (ucast v)) n = bit v n"
    if "n < LENGTH(32)" using that by cases (auto simp: be32_def bit_simps)
qed

lemma page_card_serves:
  assumes pages: "\<And>page. length (pages page) = 512" and port: "port \<in> {2, 3}"
  shows "serves_pages quiet_kernel (fifo_bus (page_card pages)) mutex port pages
    (\<lambda>page off w. fp_card w = (page, off) \<and> 32 dvd off)"
proof -
  let ?f = "page_card pages"
  have select: "card_transfer quiet_kernel (fifo_bus ?f) mutex port (select_packet page) 9 20000 w =
      ((0, replicate 7 0 @ [0x2B, 0x55]), \<lparr>fp_card = (page, 0), fp_out = [], fp_in = []\<rparr>)" for page w
    using be32_ucast [of page]
    by (subst card_transfer_def, subst fifo_exchange [OF _ port]) (auto simp: page_card_def select_packet_def Let_def split: prod.split)
  have data: "card_transfer quiet_kernel (fifo_bus ?f) mutex port data_packet 38 40000 w =
      ((0, replicate 3 0 @ [0x2B] @ part @ [xor_edc part, 0x55]), \<lparr>fp_card = (page, off + 32), fp_out = [], fp_in = []\<rparr>)"
    if "fp_card w = (page, off)" "part = take 32 (drop off (pages page))" "length part = 32" for page off part w
    using that
    by (subst card_transfer_def, subst fifo_exchange [OF _ port]) (auto simp: page_card_def data_packet_def Let_def split: prod.split)
  have finish: "card_transfer quiet_kernel (fifo_bus ?f) mutex port finish_packet 4 20000 w =
      ((0, [0, 0, 0x2B, 0x55]), \<lparr>fp_card = fp_card w, fp_out = [], fp_in = []\<rparr>)" for w
    by (subst card_transfer_def, subst fifo_exchange [OF _ port]) (auto simp: page_card_def finish_packet_def Let_def split: prod.split)
  have part: "length (take 32 (drop off (pages page))) = 32" if "32 dvd off" "off < 512" for off page
    using that pages by auto
  show ?thesis
    unfolding serves_pages_def
  proof (intro conjI allI impI, goal_cases)
    case (1 page w)
    then show ?case by (simp add: select mc_valid_terminator_def numeral_nat)
  next
    case (2 page off w)
    let ?part = "take 32 (drop off (pages page))"
    have "length ?part = 32" using 2 part by blast
    then show ?case using 2 data [of w page off ?part] by (simp add: mc_valid_terminator_def nth_append)
  next
    case (3 w)
    then show ?case by (simp add: finish mc_valid_terminator_def numeral_nat)
  qed
qed

end
