(* ===== verification/StorageSdSpec.thy ===== *)
theory StorageSdSpec
  imports StorageSd
begin

text \<open>
  The arithmetic of the SD protocol: the CRC of a command as polynomial division, the order of the bits
  on the wire, and the capacity as the fields of the card's CSD register.
\<close>

section \<open>Multiples of the generator\<close>

text \<open>Polynomials over the two-element field as natural numbers.  The multiples of \<open>x^7 + x^3 + 1\<close> are
  closed under multiplication by \<open>x\<close> and addition of the generator, and nothing else is one.\<close>

inductive_set crc7_words :: "nat set" where
  zero: "0 \<in> crc7_words"
| shift: "c \<in> crc7_words \<Longrightarrow> 2 * c \<in> crc7_words"
| add: "c \<in> crc7_words \<Longrightarrow> (2 * c) XOR 0x89 \<in> crc7_words"

inductive_cases crc7_wordsE: "c \<in> crc7_words"

lemma crc7_even: "2 * c \<in> crc7_words \<Longrightarrow> c \<in> crc7_words"
proof -
  assume "2 * c \<in> crc7_words"
  moreover have "2 * c \<noteq> (2 * d) XOR 0x89" for d
  proof
    assume "2 * c = (2 * d) XOR 0x89"
    then have "odd (2 * c)" by (simp only: even_xor_iff) simp
    then show False by simp
  qed
  ultimately show ?thesis by (cases rule: crc7_wordsE) (auto intro: crc7_words.zero)
qed

lemma crc7_push_bit: "push_bit k c \<in> crc7_words \<Longrightarrow> c \<in> crc7_words"
proof (induction k)
  case (Suc k)
  have "push_bit (Suc k) c = 2 * push_bit k c" by (simp add: push_bit_eq_mult)
  then show ?case using Suc crc7_even by metis
qed simp

lemma drop_bit_8_add: "drop_bit 8 ((2 * c) XOR 0x89) = drop_bit 8 (2 * (c :: nat))"
  by (simp add: drop_bit_xor)

lemma crc7_degree: "c \<in> crc7_words \<Longrightarrow> c = 0 \<or> 128 \<le> c"
proof (induction rule: crc7_words.induct)
  case (add c)
  then consider "c = 0" | "128 \<le> c" by blast
  then show ?case
  proof cases
    case 2
    have "drop_bit 8 ((2 * c) XOR 0x89) = (2 * c) div 256" unfolding drop_bit_8_add by (simp add: drop_bit_eq_div)
    then have "((2 * c) XOR 0x89) div 256 \<noteq> 0" using 2 by (simp add: drop_bit_eq_div)
    then have "256 \<le> (2 * c) XOR 0x89" by (metis div_less not_less)
    then show ?thesis by linarith
  qed simp
qed auto

lemma xor_double: "(2 * a) XOR (2 * b) = 2 * (a XOR (b :: nat))"
  by (rule bit_eqI) (auto simp: bit_simps bit_double_iff)

lemma crc7_split:
  assumes "b \<in> crc7_words"
  obtains "b = 0" | d where "d \<in> crc7_words" "b = 2 * d" | d where "d \<in> crc7_words" "b = (2 * d) XOR 0x89"
  using assms by (rule crc7_words.cases) (auto intro: that)

lemma crc7_xor: "a \<in> crc7_words \<Longrightarrow> b \<in> crc7_words \<Longrightarrow> a XOR b \<in> crc7_words"
proof (induction a arbitrary: b rule: crc7_words.induct)
  case zero
  then show ?case by simp
next
  case (shift c)
  show ?case
  proof (rule crc7_split [OF shift.prems])
    assume "b = 0"
    then show ?thesis using shift.hyps by (simp add: crc7_words.shift)
  next
    fix d assume "d \<in> crc7_words" "b = 2 * d"
    then show ?thesis using crc7_words.shift [OF shift.IH [of d]] by (simp add: xor_double)
  next
    fix d assume d: "d \<in> crc7_words" "b = (2 * d) XOR 0x89"
    then have "2 * c XOR b = 2 * (c XOR d) XOR 0x89" by (simp only: xor_double [symmetric] xor.assoc)
    then show ?thesis using crc7_words.add [OF shift.IH [OF d(1)]] by simp
  qed
next
  case (add c)
  show ?case
  proof (rule crc7_split [OF add.prems])
    assume "b = 0"
    then show ?thesis using crc7_words.add [OF add.hyps] by simp
  next
    fix d assume d: "d \<in> crc7_words" "b = 2 * d"
    then have "(2 * c XOR 0x89) XOR b = 2 * (c XOR d) XOR 0x89" by (metis xor_double xor.assoc xor.commute)
    then show ?thesis using crc7_words.add [OF add.IH [OF d(1)]] by simp
  next
    fix d assume d: "d \<in> crc7_words" "b = (2 * d) XOR 0x89"
    have "(2 * c XOR 0x89) XOR b = (2 * c XOR 2 * d) XOR (0x89 XOR 0x89)"
      unfolding d(2) by (simp only: xor.assoc xor.left_commute)
    then have "(2 * c XOR 0x89) XOR b = 2 * (c XOR d)" by (simp add: xor_double)
    then show ?thesis using crc7_words.shift [OF add.IH [OF d(1)]] by simp
  qed
qed

section \<open>The CRC loops\<close>

text \<open>The bits of a byte list as one number, the first byte first.\<close>

definition bits_of :: "u8 list \<Rightarrow> nat" where
  "bits_of data = foldl (\<lambda>n b. n * 256 + unat b) 0 data"

lemma foldl_bits: "foldl (\<lambda>n b. n * 256 + unat b) n data = n * 256 ^ length data + bits_of data"
proof (induction data arbitrary: n)
  case Nil
  then show ?case by (simp add: bits_of_def)
next
  case (Cons b data)
  have "bits_of (b # data) = unat b * 256 ^ length data + bits_of data"
    using Cons [of "unat b"] by (simp add: bits_of_def)
  then show ?case using Cons [of "n * 256 + unat b"] by (simp add: algebra_simps)
qed

lemma bits_of_Nil [simp]: "bits_of [] = 0"
  by (simp add: bits_of_def)

lemma bits_of_Cons: "bits_of (b # data) = unat b * 256 ^ length data + bits_of data"
  using foldl_bits [of "unat b" data] by (simp add: bits_of_def)

lemma bits_of_append: "bits_of (xs @ ys) = bits_of xs * 256 ^ length ys + bits_of ys"
  unfolding bits_of_def [of "xs @ ys"] foldl_append foldl_bits [of _ ys] by (simp add: bits_of_def)

text \<open>One bit: the message grows by a bit and the register follows, a multiple stays a multiple.\<close>

definition crc7_step :: "bool \<Rightarrow> u8 \<Rightarrow> u8" where
  "crc7_step b crc = (let c = push_bit 1 crc AND 0x7F in if (crc AND 0x40 \<noteq> 0) \<noteq> b then c XOR 0x09 else c)"

lemma u8_bit_cases: "n < 8 \<Longrightarrow> n = 0 \<or> n = 1 \<or> n = 2 \<or> n = 3 \<or> n = 4 \<or> n = 5 \<or> n = 6 \<or> n = (7 :: nat)"
  by linarith

lemma and_bit_ne_0: "(w :: u8) AND 0x40 \<noteq> 0 \<longleftrightarrow> bit w 6" "w AND 0x80 \<noteq> 0 \<longleftrightarrow> bit w 7"
  by (simp_all add: bit_iff_and_push_bit_not_eq_0)

lemma bit_double_u8: "0 < n \<Longrightarrow> n < 8 \<Longrightarrow> bit (w * 2 :: u8) n = bit w (n - 1)"
  using bit_push_bit_iff [of 1 w n] by (simp add: push_bit_eq_mult mult.commute)

lemma crc7_step_xor:
  assumes "\<not> bit crc 7"
  shows "push_bit 1 crc XOR (if b then 0x80 else 0) XOR crc7_step b crc = (if bit crc 6 \<noteq> b then 0x89 else (0 :: u8))"
    "\<not> bit (crc7_step b crc) 7"
proof -
  show "push_bit 1 crc XOR (if b then 0x80 else 0) XOR crc7_step b crc = (if bit crc 6 \<noteq> b then 0x89 else (0 :: u8))"
  proof (rule bit_word_eqI)
    fix n
    assume "n < LENGTH(8)"
    then have "n = 0 \<or> n = 1 \<or> n = 2 \<or> n = 3 \<or> n = 4 \<or> n = 5 \<or> n = 6 \<or> n = 7" using u8_bit_cases by simp
    then show "bit (push_bit 1 crc XOR (if b then 0x80 else 0) XOR crc7_step b crc) n = bit (if bit crc 6 \<noteq> b then 0x89 else (0 :: u8)) n"
      using assms
      by (elim disjE; cases b; cases "bit crc 6"; simp add: crc7_step_def and_bit_ne_0 Let_def bit_simps bit_double_u8)
  qed
  show "\<not> bit (crc7_step b crc) 7"
    by (simp add: crc7_step_def Let_def bit_simps)
qed

lemma xor_cancel: "a XOR (a XOR b) = (b :: nat)"
  by (simp flip: xor.assoc)

lemma crc7_step_word:
  assumes "\<not> bit crc 7" "push_bit 7 m XOR unat crc \<in> crc7_words"
  shows "push_bit 7 (2 * m + of_bool b) XOR unat (crc7_step b crc) \<in> crc7_words"
proof -
  have "crc = take_bit 7 crc"
  proof (rule bit_word_eqI)
    fix n
    assume "n < LENGTH(8)"
    then show "bit crc n = bit (take_bit 7 crc) n" using u8_bit_cases [of n] assms(1) by (auto simp: bit_simps)
  qed
  then have "unat crc = unat crc mod 2 ^ 7" by (metis unat_take_bit)
  moreover have "unat crc mod 2 ^ 7 < 2 ^ 7" by (rule mod_less_divisor) simp
  ultimately have less: "unat crc < 128" by simp
  have "unat (push_bit 1 crc) = 2 * unat crc"
    using less unat_mult_lem [of 2 crc] by (simp add: push_bit_eq_mult mult.commute)
  then have n: "2 * unat crc XOR (if b then 128 else 0) XOR unat (crc7_step b crc) = (if bit crc 6 \<noteq> b then 0x89 else 0)"
    using arg_cong [OF crc7_step_xor(1) [OF assms(1)], of unat b] by (simp add: unsigned_xor_eq split: if_splits)
  have "(2 * push_bit 7 m) AND 2 ^ 7 = 0"
    by (rule bit_eqI) (auto simp: bit_simps bit_double_iff bit_exp_iff simp del: power_numeral)
  then have "2 * push_bit 7 m + 128 = 2 * push_bit 7 m XOR 128" by (simp add: disjunctive_add_eq_xor)
  then have m: "push_bit 7 (2 * m + of_bool b) = 2 * push_bit 7 m XOR (if b then 128 else 0)"
    by (simp add: push_bit_eq_mult algebra_simps)
  have "push_bit 7 (2 * m + of_bool b) XOR unat (crc7_step b crc)
      = 2 * (push_bit 7 m XOR unat crc) XOR (2 * unat crc XOR (if b then 128 else 0) XOR unat (crc7_step b crc))"
    unfolding m xor_double [symmetric] by (simp add: xor.assoc xor.left_commute xor.commute xor_cancel)
  then show ?thesis using assms(2) n by (auto intro: crc7_words.shift crc7_words.add)
qed

text \<open>The loops take the bits of every byte from the top.\<close>

lemma crc7_bit_loop_word:
  assumes "n \<le> 8" "\<not> bit crc 7" "push_bit 7 m XOR unat crc \<in> crc7_words"
  shows "\<not> bit (crc7_bit_loop n v crc) 7 \<and>
    push_bit 7 (m * 2 ^ n + unat v div 2 ^ (8 - n)) XOR unat (crc7_bit_loop n v crc) \<in> crc7_words"
  using assms
proof (induction n arbitrary: v crc m)
  case 0
  have "unat v div 256 = 0" using unsigned_less [of v, where 'a = nat] by simp
  then show ?case using 0 by simp
next
  case (Suc n)
  let ?crc = "crc7_step (bit v 7) crc" and ?v = "push_bit 1 v"
  have loop: "crc7_bit_loop (Suc n) v crc = crc7_bit_loop n ?v ?crc"
    by (simp add: crc7_step_def and_bit_ne_0 Let_def)
  define r where "r = unat v mod 128"
  have v: "unat v = of_bool (bit v 7) * 128 + r" "r < 128"
  proof -
    have "unat v div 128 = of_bool (bit v 7)"
    proof -
      have "unat v < 256" using unsigned_less [of v, where 'a = nat] by simp
      then have "unat v div 128 < 2" by (simp add: less_mult_imp_div_less)
      moreover have "bit v 7 = odd (unat v div 128)"
        using bit_iff_odd [of "unat v" 7] by (simp add: bit_unsigned_iff)
      ultimately show ?thesis by (auto elim!: oddE evenE)
    qed
    then show "unat v = of_bool (bit v 7) * 128 + r" unfolding r_def by (metis div_mult_mod_eq)
    show "r < 128" by (simp add: r_def)
  qed
  have pow: "(128 :: nat) = 2 ^ n * 2 ^ (7 - n)" "(2 :: nat) ^ (8 - n) = 2 * 2 ^ (7 - n)"
    using Suc.prems(1) by (simp_all flip: power_add power_Suc)
  have "unat ?v = 2 * r"
  proof -
    have "unat ?v = (2 * unat v) mod 256" by (simp add: push_bit_eq_mult unat_word_ariths mult.commute)
    then show ?thesis using v by (cases "bit v 7") simp_all
  qed
  then have "unat ?v div 2 ^ (8 - n) = r div 2 ^ (7 - n)" using pow(2) by simp
  moreover have "unat v div 2 ^ (7 - n) = of_bool (bit v 7) * 2 ^ n + r div 2 ^ (7 - n)"
    unfolding v(1) pow(1) by (simp add: div_mult_self3 mult.assoc)
  ultimately have "m * 2 ^ Suc n + unat v div 2 ^ (8 - Suc n) = (2 * m + of_bool (bit v 7)) * 2 ^ n + unat ?v div 2 ^ (8 - n)"
    using Suc.prems(1) by (simp add: algebra_simps)
  then show ?case
    using Suc.IH [of ?crc "2 * m + of_bool (bit v 7)" ?v] crc7_step_word [OF Suc.prems(2,3)] crc7_step_xor(2) [OF Suc.prems(2)] Suc.prems(1)
    unfolding loop by simp
qed

lemma crc7_byte_loop_word:
  assumes "\<not> bit crc 7" "push_bit 7 m XOR unat crc \<in> crc7_words"
  shows "\<not> bit (crc7_byte_loop data crc) 7 \<and>
    push_bit 7 (m * 256 ^ length data + bits_of data) XOR unat (crc7_byte_loop data crc) \<in> crc7_words"
  using assms
proof (induction data arbitrary: crc m)
  case (Cons v data)
  have "\<not> bit (crc7_bit_loop 8 v crc) 7" "push_bit 7 (m * 256 + unat v) XOR unat (crc7_bit_loop 8 v crc) \<in> crc7_words"
    using crc7_bit_loop_word [OF _ Cons.prems, of 8 v] by simp_all
  then show ?case using Cons.IH [of "crc7_bit_loop 8 v crc" "m * 256 + unat v"]
    by (simp add: bits_of_Cons algebra_simps)
qed simp

section \<open>The command packet\<close>

lemma mx_crc7_word:
  assumes "length data = unat n"
  shows "unat (mx_crc7 data n) < 128" "push_bit 7 (bits_of data) XOR unat (mx_crc7 data n) \<in> crc7_words"
proof -
  have w: "\<not> bit (mx_crc7 data n) 7 \<and> push_bit 7 (bits_of data) XOR unat (mx_crc7 data n) \<in> crc7_words"
    using crc7_byte_loop_word [of 0 0 data] assms by (simp add: mx_crc7_def crc7_words.zero)
  then show "push_bit 7 (bits_of data) XOR unat (mx_crc7 data n) \<in> crc7_words" by simp
  have "unat (mx_crc7 data n) < 256" using unsigned_less [of "mx_crc7 data n", where 'a = nat] by simp
  then have "unat (mx_crc7 data n) div 128 < 2" by (simp add: less_mult_imp_div_less)
  moreover have "even (unat (mx_crc7 data n) div 128)"
    using bit_iff_odd [of "unat (mx_crc7 data n)" 7] w by (simp add: bit_unsigned_iff)
  ultimately have "unat (mx_crc7 data n) div 128 = 0" by (metis One_nat_def less_2_cases odd_one)
  then show "unat (mx_crc7 data n) < 128" by (simp add: div_eq_0_iff)
qed

lemma command_packet_bits:
  "bits_of (command_packet c a) = 2 * (push_bit 7 (bits_of (c # be32_bytes a)) XOR unat (mx_crc7 (c # be32_bytes a) 5)) + 1"
proof -
  let ?head = "c # be32_bytes a"
  let ?crc = "mx_crc7 ?head 5"
  have len: "length ?head = unat (5 :: u32)" by (simp add: be32_bytes_def)
  have crc: "unat ?crc < 128" by (rule mx_crc7_word(1) [OF len])
  have "unat (push_bit 1 ?crc OR 1) = 2 * unat ?crc + 1"
  proof -
    have double: "unat (push_bit 1 ?crc) = 2 * unat ?crc"
      using crc unat_mult_lem [of 2 ?crc] by (simp add: push_bit_eq_mult mult.commute)
    have "unat (push_bit 1 ?crc OR 1) = unat (push_bit 1 ?crc) OR 1" by (simp add: unsigned_or_eq)
    then show ?thesis unfolding double by (simp add: or_one_eq del: One_nat_def)
  qed
  moreover have "push_bit 7 (bits_of ?head) + unat ?crc = push_bit 7 (bits_of ?head) XOR unat ?crc"
  proof -
    have "unat ?crc = take_bit 7 (unat ?crc)" using crc by (simp add: take_bit_nat_eq_self)
    then have "bit (unat ?crc) n \<Longrightarrow> n < 7" for n by (metis bit_take_bit_iff)
    then have "push_bit 7 (bits_of ?head) AND unat ?crc = 0"
      by (intro bit_eqI) (auto simp: bit_and_iff bit_push_bit_iff not_le)
    then show ?thesis by (simp add: disjunctive_add_eq_xor)
  qed
  moreover have "bits_of (command_packet c a) = bits_of ?head * 256 + unat (push_bit 1 ?crc OR 1)"
  proof -
    have "command_packet c a = ?head @ [push_bit 1 ?crc OR 1]" by (simp add: command_packet_def Let_def)
    then show ?thesis by (simp only: bits_of_append) (simp add: bits_of_Cons)
  qed
  ultimately show ?thesis by (simp only: push_bit_eq_mult) simp
qed

section \<open>Bits on the wire\<close>

lemma reverse_bits_bit: "n < 8 \<Longrightarrow> bit (reverse_bits v) n = bit v (7 - n)"
  by (drule u8_bit_cases) (elim disjE; simp add: reverse_bits_def Let_def bit_simps bit_double_u8)

lemma reverse_bits_twice: "reverse_bits (reverse_bits v) = v"
  by (rule bit_word_eqI) (simp add: reverse_bits_bit)

section \<open>Fields of the CSD register\<close>

text \<open>The register is sent with its most significant byte first; bit \<open>k\<close> is in byte \<open>15 - k div 8\<close>.\<close>

definition csd_bit :: "u8 list \<Rightarrow> nat \<Rightarrow> bool" where
  "csd_bit csd k = bit (csd ! (15 - k div 8)) (k mod 8)"

definition csd_field :: "u8 list \<Rightarrow> nat \<Rightarrow> nat \<Rightarrow> nat" where
  "csd_field csd hi lo = horner_sum of_bool 2 (map (csd_bit csd) [lo..<Suc hi])"

lemma csd_field_less: "lo \<le> hi \<Longrightarrow> csd_field csd hi lo < 2 ^ (Suc hi - lo)"
  using horner_sum_of_bool_2_less [of "map (csd_bit csd) [lo..<Suc hi]", where 'a = nat]
  by (simp add: csd_field_def del: upt_Suc)

lemma bit_csd_field: "bit (csd_field csd hi lo) n \<longleftrightarrow> n < Suc hi - lo \<and> csd_bit csd (lo + n)"
  unfolding csd_field_def by (auto simp: bit_horner_sum_bit_iff simp del: upt_Suc)

lemma word_csd_field:
  assumes "Suc hi - lo \<le> 32" "\<And>n. n < 32 \<Longrightarrow> bit w n \<longleftrightarrow> n < Suc hi - lo \<and> csd_bit csd (lo + n)"
  shows "unat (w :: u32) = csd_field csd hi lo"
proof (rule bit_eqI)
  fix n
  show "bit (unat w) n = bit (csd_field csd hi lo) n"
  proof (cases "n < 32")
    case True
    then show ?thesis using assms(2) by (simp add: bit_unsigned_iff bit_csd_field)
  next
    case False
    then show ?thesis using assms(1) by (auto simp: bit_unsigned_iff bit_csd_field dest: bit_imp_le_length)
  qed
qed

lemma u32_bit_cases: "n < 32 \<Longrightarrow> n < 8 \<or> (\<exists>k < 8. n = 8 + k) \<or> (\<exists>k < 8. n = 16 + k) \<or> (\<exists>k < 8. n = 24 + (k :: nat))"
  by presburger

lemma csd_c_size_2:
  "unat (push_bit 16 (ucast (csd ! 7 AND 0x3F)) OR push_bit 8 (ucast (csd ! 8)) OR (ucast (csd ! 9)) :: u32) = csd_field csd 69 48"
proof (rule word_csd_field)
  fix n :: nat
  assume "n < 32"
  then consider "n < 8" | k where "k < 8" "n = 8 + k" | k where "k < 8" "n = 16 + k" | k where "k < 8" "n = 24 + k"
    using u32_bit_cases by blast
  then show "bit (push_bit 16 (ucast (csd ! 7 AND 0x3F)) OR push_bit 8 (ucast (csd ! 8)) OR (ucast (csd ! 9)) :: u32) n =
      (n < Suc 69 - 48 \<and> csd_bit csd (48 + n))"
    by cases (auto simp: csd_bit_def bit_simps dest: bit_imp_le_length u8_bit_cases)
qed simp

lemma csd_structure:
  "unat (ucast (drop_bit 6 (csd ! 0)) AND 3 :: u32) = csd_field csd 127 126"
proof (rule word_csd_field)
  fix n :: nat
  assume "n < 32"
  then consider "n < 8" | k where "k < 8" "n = 8 + k" | k where "k < 8" "n = 16 + k" | k where "k < 8" "n = 24 + k"
    using u32_bit_cases by blast
  then show "bit (ucast (drop_bit 6 (csd ! 0)) AND 3 :: u32) n = (n < Suc 127 - 126 \<and> csd_bit csd (126 + n))"
    by cases (auto simp: csd_bit_def bit_simps dest: bit_imp_le_length dest!: u8_bit_cases)
qed simp

lemma csd_read_bl_len:
  "unat (ucast (csd ! 5) AND 0x0F :: u32) = csd_field csd 83 80"
proof (rule word_csd_field)
  fix n :: nat
  assume "n < 32"
  then consider "n < 8" | k where "k < 8" "n = 8 + k" | k where "k < 8" "n = 16 + k" | k where "k < 8" "n = 24 + k"
    using u32_bit_cases by blast
  then show "bit (ucast (csd ! 5) AND 0x0F :: u32) n = (n < Suc 83 - 80 \<and> csd_bit csd (80 + n))"
    by cases (auto simp: csd_bit_def bit_simps dest: bit_imp_le_length dest!: u8_bit_cases)
qed simp

lemma csd_c_size_1:
  "unat (push_bit 10 (ucast (csd ! 6 AND 0x03)) OR push_bit 2 (ucast (csd ! 7)) OR (ucast (drop_bit 6 (csd ! 8)) AND 0x03) :: u32) = csd_field csd 73 62"
proof (rule word_csd_field)
  fix n :: nat
  assume "n < 32"
  then consider "n < 8" | k where "k < 8" "n = 8 + k" | k where "k < 8" "n = 16 + k" | k where "k < 8" "n = 24 + k"
    using u32_bit_cases by blast
  then show "bit (push_bit 10 (ucast (csd ! 6 AND 0x03)) OR push_bit 2 (ucast (csd ! 7)) OR (ucast (drop_bit 6 (csd ! 8)) AND 0x03) :: u32) n = (n < Suc 73 - 62 \<and> csd_bit csd (62 + n))"
    by cases (auto simp: csd_bit_def bit_simps dest: bit_imp_le_length dest!: u8_bit_cases)
qed simp

lemma csd_c_size_mult:
  "unat (push_bit 1 (ucast (csd ! 9 AND 0x03)) OR (ucast (drop_bit 7 (csd ! 10)) AND 1) :: u32) = csd_field csd 49 47"
proof (rule word_csd_field)
  fix n :: nat
  assume n: "n < 32"
  have "csd ! 9 AND 0x03 = take_bit 2 (csd ! 9)" by (simp add: take_bit_eq_mask mask_eq_exp_minus_1)
  then have high: "bit (ucast (csd ! 9 AND 0x03) :: u32) m \<longleftrightarrow> m < 2 \<and> bit (csd ! 9) m" for m
    by (auto simp: bit_simps dest: bit_imp_le_length)
  have low: "bit (ucast (drop_bit 7 (csd ! 10)) AND 1 :: u32) n \<longleftrightarrow> n = 0 \<and> bit (csd ! 10) 7"
    by (auto simp: bit_simps bit_1_iff)
  consider "n = 0" | "n = 1" | "n = 2" | "2 < n" by linarith
  then show "bit (push_bit 1 (ucast (csd ! 9 AND 0x03)) OR (ucast (drop_bit 7 (csd ! 10)) AND 1) :: u32) n =
      (n < Suc 49 - 47 \<and> csd_bit csd (47 + n))"
    unfolding bit_or_iff low bit_push_bit_iff high using n by cases (auto simp: csd_bit_def)
qed simp

section \<open>The capacity\<close>

lemma unat_add_1: "unat (x :: u32) < 4294967295 \<Longrightarrow> unat (x + 1) = unat x + 1"
  using unat_add_lem [of x 1] by simp

lemma sectors_shift:
  assumes units: "unat u \<le> 4096" and e: "e \<le> 24"
  shows "unat (let s = int e - 9 in
      if s \<ge> 0 then if s \<ge> 32 \<or> u > drop_bit (nat s) 0xFFFFFFFF then 0 else push_bit (nat s) u
      else if s \<le> -32 then 0 else drop_bit (nat (- s)) (u :: u32)) = unat u * 2 ^ e div 512"
proof (cases "9 \<le> e")
  case True
  define k where "k = e - 9"
  have k: "nat (int e - 9) = k" "e = k + 9" "k \<le> 15" using True e by (simp_all add: k_def)
  have pow: "(2 :: nat) ^ k \<le> 2 ^ 15" using k(3) by (intro power_increasing) simp_all
  have "unat u * 2 ^ k \<le> 4096 * 2 ^ 15" by (intro mult_le_mono units pow)
  then have fit: "unat u * 2 ^ k < 4294967296" by simp
  then have "unat u \<le> unat (drop_bit k (0xFFFFFFFF :: u32))"
    by (simp add: unat_drop_bit_div less_eq_div_iff_mult_less_eq)
  then have small: "\<not> u > drop_bit k 0xFFFFFFFF" by (simp add: word_le_nat_alt not_less)
  have two: "unat (2 ^ k :: u32) = 2 ^ k" using k(3) proof -
    have "(2 :: nat) ^ k < 2 ^ 32" using k(3) by (intro power_strict_increasing) simp_all
    then have "unat (w32 (2 ^ k)) = 2 ^ k" by (intro unat_w32) simp
    then show ?thesis by (simp add: w32_def)
  qed
  have "unat (push_bit k u) = unat u * 2 ^ k"
    using fit two unat_mult_lem [of u "2 ^ k"] by (simp add: push_bit_eq_mult)
  moreover have "unat u * 2 ^ e div 512 = unat u * 2 ^ k" unfolding k(2) by (simp add: power_add)
  ultimately show ?thesis using True small k by (simp add: Let_def)
next
  case False
  have "nat (- (int e - 9)) = 9 - e" using False by simp
  moreover have "unat u * 2 ^ e div 512 = unat u div 2 ^ (9 - e)"
  proof -
    have "(512 :: nat) = 2 ^ (9 - e) * 2 ^ e" using False by (simp flip: power_add)
    moreover have "unat u * 2 ^ e div (2 ^ (9 - e) * 2 ^ e) = unat u div 2 ^ (9 - e)" by simp
    ultimately show ?thesis by metis
  qed
  ultimately show ?thesis using False by (simp add: Let_def unat_drop_bit_div)
qed

text \<open>The sector count as the SD specification defines it from the fields of the register.\<close>

definition csd_sectors :: "u8 list \<Rightarrow> nat" where
  "csd_sectors csd =
    (if csd_field csd 127 126 = 1 then (csd_field csd 69 48 + 1) * 1024
     else if csd_field csd 127 126 = 0
     then (csd_field csd 73 62 + 1) * 2 ^ (csd_field csd 49 47 + 2 + csd_field csd 83 80) div 512
     else 0)"

lemma sector_count_csd: "unat (mx_csd_sector_count csd) = csd_sectors csd mod 2 ^ 32"
proof -
  note f = csd_structure [of csd] csd_read_bl_len [of csd] csd_c_size_1 [of csd] csd_c_size_mult [of csd] csd_c_size_2 [of csd]
  define st rbl c1 cm c2 where v: "st = (ucast (drop_bit 6 (csd ! 0)) AND 3 :: u32)" "rbl = (ucast (csd ! 5) AND 0x0F :: u32)"
    "c1 = (push_bit 10 (ucast (csd ! 6 AND 0x03)) OR push_bit 2 (ucast (csd ! 7)) OR (ucast (drop_bit 6 (csd ! 8)) AND 0x03) :: u32)"
    "cm = (push_bit 1 (ucast (csd ! 9 AND 0x03)) OR (ucast (drop_bit 7 (csd ! 10)) AND 1) :: u32)"
    "c2 = (push_bit 16 (ucast (csd ! 7 AND 0x3F)) OR push_bit 8 (ucast (csd ! 8)) OR (ucast (csd ! 9)) :: u32)"
  note f' = f [folded v]
  have less: "unat rbl < 16" "unat c1 < 4096" "unat cm < 8" "unat c2 < 4194304"
    using csd_field_less [of 80 83 csd] csd_field_less [of 62 73 csd] csd_field_less [of 47 49 csd] csd_field_less [of 48 69 csd]
    by (simp_all add: f')
  have st: "st = 1 \<longleftrightarrow> csd_field csd 127 126 = 1" "st = 0 \<longleftrightarrow> csd_field csd 127 126 = 0"
    by (simp_all add: f'(1) [symmetric] word_unat_eq_iff)
  let ?shift = "let s = int (unat cm + 2 + unat rbl) - 9 in
      if s \<ge> 0 then if s \<ge> 32 \<or> c1 + 1 > drop_bit (nat s) 0xFFFFFFFF then 0 else push_bit (nat s) (c1 + 1)
      else if s \<le> -32 then 0 else drop_bit (nat (- s)) (c1 + 1)"
  define sh where "sh = ?shift"
  have code: "mx_csd_sector_count csd = (if st = 1 then (c2 + 1) * 1024 else if st = 0 then sh else 0)"
    by (simp add: mx_csd_sector_count_def Let_def v sh_def)
  have c1: "unat (c1 + 1) = unat c1 + 1" "unat (c1 + 1) \<le> 4096" using less(2) by (simp_all add: unat_add_1)
  have sh: "unat sh = (unat c1 + 1) * 2 ^ (unat cm + 2 + unat rbl) div 512"
  proof -
    have "unat cm + 2 + unat rbl \<le> 24" using less(1,3) by linarith
    then show ?thesis unfolding sh_def c1(1) [symmetric] by (rule sectors_shift [OF c1(2)])
  qed
  have fit: "(unat c1 + 1) * 2 ^ (unat cm + 2 + unat rbl) div 512 < 2 ^ 32"
  proof -
    have "(unat c1 + 1) * 2 ^ (unat cm + 2 + unat rbl) \<le> 4096 * 2 ^ 24"
      using less by (intro mult_le_mono power_increasing) simp_all
    then show ?thesis by simp
  qed
  have c2: "unat ((c2 + 1) * 1024) = (unat c2 + 1) * 1024 mod 2 ^ 32"
  proof -
    have "unat (c2 + 1) = unat c2 + 1" using less(4) by (intro unat_add_1) simp
    moreover have "unat ((c2 + 1) * 1024) = unat (c2 + 1) * unat (1024 :: u32) mod 2 ^ 32"
      using unat_word_ariths(2) [of "c2 + 1" 1024] by simp
    ultimately show ?thesis by simp
  qed
  consider "st = 1" | "st \<noteq> 1" "st = 0" | "st \<noteq> 1" "st \<noteq> 0" by blast
  then show ?thesis
  proof cases
    case 1
    then have "unat st = 1" by simp
    then show ?thesis unfolding code csd_sectors_def f' [symmetric] by (simp only: if_P 1 c2)
  next
    case 2
    then have "unat st \<noteq> 1" "unat st = 0" by simp_all
    then show ?thesis
      unfolding code csd_sectors_def f' [symmetric] if_not_P [OF 2(1)] if_P [OF 2(2)] sh
      by (simp only: if_P if_False mod_less [OF fit] zero_neq_one)
  next
    case 3
    then have n: "unat st \<noteq> 1" "unat st \<noteq> 0" by (simp_all add: word_unat_eq_iff)
    show ?thesis
      unfolding code csd_sectors_def f' [symmetric] if_not_P [OF 3(1)] if_not_P [OF 3(2)] if_not_P [OF n(1)] if_not_P [OF n(2)] by simp
  qed
qed

end
