(* ===== verification/StorageBlocks.thy ===== *)
theory StorageBlocks
  imports StoragePages StorageSdSpec
begin

text \<open>
  Sectors of an SD card: the block protocol of a card as a step relation, and the driver on a card that
  follows it.
\<close>

section \<open>The protocol of a card\<close>

text \<open>What a card expects next, with the delays (in polls) that it still takes.\<close>

datatype sd_phase =
    Sd_idle | Sd_answer nat sd_phase
  | Sd_token nat u32 | Sd_low u32 | Sd_high u32 | Sd_crc
  | Sd_start u32 | Sd_write_low u32 | Sd_write_high u32 "u8 list" | Sd_write_crc u32 "u8 list" | Sd_accept | Sd_busy nat

type_synonym sectors = "u32 \<Rightarrow> u8 list"

definition sd_address :: "u32 \<Rightarrow> u32 \<Rightarrow> u32" where
  "sd_address card_type s = (if card_type \<noteq> 4 then push_bit 9 s else s)"

text \<open>One transfer: the host sends \<open>tx\<close> and takes \<open>n\<close> bytes \<open>rx\<close>.  The delays are the card's choice,
  below the numbers of polls that the driver allows.\<close>

inductive sd_step :: "u32 \<Rightarrow> u32 \<Rightarrow> sd_phase \<Rightarrow> sectors \<Rightarrow> u8 list \<Rightarrow> nat \<Rightarrow> u8 list \<Rightarrow> sd_phase \<Rightarrow> sectors \<Rightarrow> bool"
  for card_type count where
  poll: "sd_step card_type count Sd_idle m [] 1 [0xFF] Sd_idle m"
| dummy: "sd_step card_type count Sd_idle m [0xFF] 1 [b] Sd_idle m"
| read: "s < count \<Longrightarrow> k < 256 \<Longrightarrow> j < 100000 \<Longrightarrow>
    sd_step card_type count Sd_idle m (command_packet (SD_CMD 17) (sd_address card_type s)) 0 [] (Sd_answer k (Sd_token j s)) m"
| write_command: "s < count \<Longrightarrow> k < 256 \<Longrightarrow>
    sd_step card_type count Sd_idle m (command_packet (SD_CMD 24) (sd_address card_type s)) 0 [] (Sd_answer k (Sd_start s)) m"
| answer_wait: "sd_step card_type count (Sd_answer (Suc k) p) m [] 1 [0xFF] (Sd_answer k p) m"
| answer: "sd_step card_type count (Sd_answer 0 p) m [] 1 [0] p m"
| token_wait: "b \<noteq> 0xFE \<Longrightarrow> sd_step card_type count (Sd_token (Suc j) s) m [] 1 [b] (Sd_token j s) m"
| token: "sd_step card_type count (Sd_token 0 s) m [] 1 [0xFE] (Sd_low s) m"
| low: "sd_step card_type count (Sd_low s) m [] 256 (take 256 (m s)) (Sd_high s) m"
| high: "sd_step card_type count (Sd_high s) m [] 256 (drop 256 (m s)) Sd_crc m"
| crc: "length c = 2 \<Longrightarrow> sd_step card_type count Sd_crc m [] 2 c Sd_idle m"
| start: "sd_step card_type count (Sd_start s) m [0xFE] 0 [] (Sd_write_low s) m"
| write_low: "length d = 256 \<Longrightarrow> sd_step card_type count (Sd_write_low s) m d 0 [] (Sd_write_high s d) m"
| write_high: "length e = 256 \<Longrightarrow> sd_step card_type count (Sd_write_high s d) m e 0 [] (Sd_write_crc s (d @ e)) m"
| write_crc: "sd_step card_type count (Sd_write_crc s d) m [a, b] 0 [] Sd_accept (m(s := d))"
| accept: "b AND 0x1F = 5 \<Longrightarrow> k < 0x80000 \<Longrightarrow> sd_step card_type count Sd_accept m [] 1 [b] (Sd_busy k) m"
| busy: "b \<noteq> 0xFF \<Longrightarrow> sd_step card_type count (Sd_busy (Suc k)) m [] 1 [b] (Sd_busy k) m"
| ready: "sd_step card_type count (Sd_busy 0) m [] 1 [0xFF] Sd_idle m"

inductive_cases step_idle_poll: "sd_step card_type count Sd_idle m [] n rx p' m'"
inductive_cases step_idle_dummy: "sd_step card_type count Sd_idle m [a] n rx p' m'"
inductive_cases step_idle: "sd_step card_type count Sd_idle m tx n rx p' m'"
inductive_cases step_answer: "sd_step card_type count (Sd_answer k p) m tx n rx p' m'"
inductive_cases step_token: "sd_step card_type count (Sd_token j s) m tx n rx p' m'"
inductive_cases step_data: "sd_step card_type count (Sd_low s) m tx n rx p' m'" "sd_step card_type count (Sd_high s) m tx n rx p' m'"
  "sd_step card_type count Sd_crc m tx n rx p' m'"
inductive_cases step_write: "sd_step card_type count (Sd_start s) m tx n rx p' m'"
  "sd_step card_type count (Sd_write_low s) m tx n rx p' m'" "sd_step card_type count (Sd_write_high s d) m tx n rx p' m'"
  "sd_step card_type count (Sd_write_crc s d) m tx n rx p' m'" "sd_step card_type count Sd_accept m tx n rx p' m'"
inductive_cases step_busy: "sd_step card_type count (Sd_busy k) m tx n rx p' m'"

text \<open>A transfer as the driver makes it, both directions with the bits of every byte reversed.\<close>

definition sd_transfer ::
  "'w iop_kernel \<Rightarrow> 'w bus \<Rightarrow> s32 \<Rightarrow> u32 \<Rightarrow> u8 list \<Rightarrow> nat \<Rightarrow> 'w \<Rightarrow> (s32 \<times> u8 list) \<times> 'w" where
  "sd_transfer ker bus mutex baud tx n w =
    (let ((r, raw), w) = exchange_transfer ker bus mutex 3 (0x00000505 OR push_bit 16 0x78 OR push_bit 24 baud) 0x0000012C 1
           (map reverse_bits tx) (w32 (length tx)) (replicate 256 0) (w32 n) 100000 w
     in ((r, map reverse_bits (take n raw)), w))"

definition serves_blocks ::
  "'w iop_kernel \<Rightarrow> 'w bus \<Rightarrow> s32 \<Rightarrow> u32 \<Rightarrow> u32 \<Rightarrow> u32 \<Rightarrow> (sd_phase \<Rightarrow> sectors \<Rightarrow> 'w \<Rightarrow> bool) \<Rightarrow> bool" where
  "serves_blocks ker bus mutex baud card_type count at \<longleftrightarrow>
    (\<forall>p m tx n w. at p m w \<longrightarrow> (\<exists>rx p' m'. sd_step card_type count p m tx n rx p' m') \<longrightarrow>
      (\<exists>rx p' m' w'. sd_transfer ker bus mutex baud tx n w = ((0, rx), w') \<and>
        sd_step card_type count p m tx n rx p' m' \<and> at p' m' w'))"

section \<open>The driver on such a card\<close>

text \<open>The states of the driver that differ from \<open>st\<close> only in the device, with the card in a phase.\<close>

definition card_in ::
  "(sd_phase \<Rightarrow> sectors \<Rightarrow> 'w \<Rightarrow> bool) \<Rightarrow> ('w, 'z) storage_backend_scheme \<Rightarrow> sd_phase \<Rightarrow> sectors \<Rightarrow>
   ('w, 'z) storage_backend_scheme \<Rightarrow> bool" where
  "card_in at st0 p m st \<longleftrightarrow> (\<exists>w. st = st0\<lparr>sto_dev := w\<rparr> \<and> at p m w)"

definition ready_for :: "'w iop_kernel \<Rightarrow> 'w bus \<Rightarrow> u32 \<Rightarrow> (sd_phase \<Rightarrow> sectors \<Rightarrow> 'w \<Rightarrow> bool) \<Rightarrow> ('w, 'z) storage_backend_scheme \<Rightarrow> bool" where
  "ready_for ker bus count at st0 \<longleftrightarrow>
    serves_blocks ker bus (g_sio2_mutex st0) (g_mx_baud st0) (g_mx_card_type st0) count at \<and> 0 \<le> g_sio2_mutex st0"

lemma run_mx_exchange:
  assumes "0 \<le> g_sio2_mutex st" "length tx = unat tn" "tn \<le> 256" "n \<le> 256"
  shows "run_state (mx_exchange ker bus tx tn rx (w32 n)) st =
    (case sd_transfer ker bus (g_sio2_mutex st) (g_mx_baud st) tx n (sto_dev st) of
       ((r, part), w) \<Rightarrow> (if r < 0 then (r, rx) else (0, splice 0 part rx), st\<lparr>sto_dev := w\<rparr>))"
proof -
  have "unat (w32 n) = n" "\<not> 256 < w32 n" using assms(4) by (simp_all add: unat_w32 w32_less_iff flip: w32_numeral)
  then show ?thesis
    using assms
    by (auto simp: mx_exchange_def ef2_storage_sio2_exchange_def sd_transfer_def w32_def not_less Let_def split: prod.split)
qed

lemma exchange_step:
  assumes ready: "ready_for ker bus count at st0" and len: "length tx = unat tn" "tn \<le> 256" "n \<le> 256" "n = unat rn"
    and legal: "sd_step (g_mx_card_type st0) count p m tx n rx0 p0 m0"
  shows "triple (card_in at st0 p m) (mx_exchange ker bus tx tn buf rn)
    (\<lambda>a st. fst a = 0 \<and> (\<exists>rx p' m'. snd a = splice 0 rx buf \<and> sd_step (g_mx_card_type st0) count p m tx n rx p' m' \<and> card_in at st0 p' m' st))"
proof (rule tripleI)
  fix st a st'
  assume "card_in at st0 p m st" and run: "run_state (mx_exchange ker bus tx tn buf rn) st = (a, st')"
  then obtain w where w: "st = st0\<lparr>sto_dev := w\<rparr>" "at p m w" by (auto simp: card_in_def)
  obtain rx p' m' w' where t: "sd_transfer ker bus (g_sio2_mutex st0) (g_mx_baud st0) tx n w = ((0, rx), w')"
    "sd_step (g_mx_card_type st0) count p m tx n rx p' m'" "at p' m' w'"
    using ready w(2) legal unfolding ready_for_def serves_blocks_def by blast
  have "run_state (mx_exchange ker bus tx tn buf rn) st = ((0, splice 0 rx buf), st0\<lparr>sto_dev := w'\<rparr>)"
    using run_mx_exchange [of st tx tn n ker bus buf] ready len t(1) w(1) by (simp add: ready_for_def)
  then show "fst a = 0 \<and> (\<exists>rx p' m'. snd a = splice 0 rx buf \<and> sd_step (g_mx_card_type st0) count p m tx n rx p' m' \<and> card_in at st0 p' m' st')"
    using run t(2,3) by (auto simp: card_in_def)
qed

lemma step_length: "sd_step card_type count p m tx n rx p' m' \<Longrightarrow> n \<noteq> 256 \<Longrightarrow> length rx = n"
  by (induction rule: sd_step.induct) auto

lemma exchange_bind:
  assumes "ready_for ker bus count at st0" "sd_step (g_mx_card_type st0) count p m tx n rx0 p0 m0"
    and "length tx = unat tn" "tn \<le> 256" "n \<le> 256" "n = unat rn"
    and "\<And>rx p' m'. sd_step (g_mx_card_type st0) count p m tx n rx p' m' \<Longrightarrow> triple (card_in at st0 p' m') (f (0, splice 0 rx buf)) Q"
  shows "triple (card_in at st0 p m) (State_Monad.bind (mx_exchange ker bus tx tn buf rn) f) Q"
proof (rule triple_bind [OF exchange_step [OF assms(1,3-6,2)]])
  fix a
  show "triple (\<lambda>st. fst a = 0 \<and> (\<exists>rx p' m'. snd a = splice 0 rx buf \<and> sd_step (g_mx_card_type st0) count p m tx n rx p' m' \<and>
      card_in at st0 p' m' st)) (f a) Q"
    using assms(7) by (cases a) (auto intro!: triple_pure triple_ex)
qed

lemma receive_step:
  assumes "ready_for ker bus count at st0" "sd_step (g_mx_card_type st0) count p m [] 1 rx0 p0 m0"
  shows "triple (card_in at st0 p m) (mx_receive_byte ker bus)
    (\<lambda>a st. \<exists>b p' m'. a = Some b \<and> sd_step (g_mx_card_type st0) count p m [] 1 [b] p' m' \<and> card_in at st0 p' m' st)"
proof -
  have *: "\<exists>b. rx = [b]" if "sd_step (g_mx_card_type st0) count p m [] 1 rx p' m'" for rx p' m'
    using step_length [OF that] by (auto simp: length_Suc_conv)
  show ?thesis
    unfolding mx_receive_byte_def
  proof (rule exchange_bind [OF assms])
    fix rx p' m'
    assume step: "sd_step (g_mx_card_type st0) count p m [] 1 rx p' m'"
    then obtain b where b: "rx = [b]" using * by blast
    show "triple (card_in at st0 p' m') (case (0 :: s32, splice 0 rx [0xFF]) of (result, rx) \<Rightarrow> ret (if result < 0 then None else Some (rx ! 0)))
      (\<lambda>a st. \<exists>b p' m'. a = Some b \<and> sd_step (g_mx_card_type st0) count p m [] 1 [b] p' m' \<and> card_in at st0 p' m' st)"
      using step unfolding b by (auto intro!: triple_return simp: splice_def)
  qed simp_all
qed

lemma wait_equal_unfold:
  assumes "ready_for ker bus count at st0" "sd_step (g_mx_card_type st0) count p m [] 1 rx0 p0 m0" "0 < n"
    and "\<And>b p' m'. sd_step (g_mx_card_type st0) count p m [] 1 [b] p' m' \<Longrightarrow>
      triple (card_in at st0 p' m') (if b = v then ret 0 else mx_wait_equal ker bus v (n - 1)) Q"
  shows "triple (card_in at st0 p m) (mx_wait_equal ker bus v n) Q"
proof -
  have "n \<noteq> 0" using assms(3) by simp
  then show ?thesis
    unfolding mx_wait_equal.simps [of _ _ _ n] if_not_P [OF \<open>n \<noteq> 0\<close>]
    by (intro triple_bind [OF receive_step [OF assms(1,2)]] triple_ex triple_pure) (simp only: option.case assms(4))
qed

lemma wait_not_equal_unfold:
  assumes "ready_for ker bus count at st0" "sd_step (g_mx_card_type st0) count p m [] 1 rx0 p0 m0" "0 < n"
    and "\<And>b p' m'. sd_step (g_mx_card_type st0) count p m [] 1 [b] p' m' \<Longrightarrow>
      triple (card_in at st0 p' m') (if b \<noteq> v then ret (int (unat b)) else mx_wait_not_equal ker bus v (n - 1)) Q"
  shows "triple (card_in at st0 p m) (mx_wait_not_equal ker bus v n) Q"
proof -
  have "n \<noteq> 0" using assms(3) by simp
  then show ?thesis
    unfolding mx_wait_not_equal.simps [of _ _ _ n] if_not_P [OF \<open>n \<noteq> 0\<close>]
    by (intro triple_bind [OF receive_step [OF assms(1,2)]] triple_ex triple_pure) (simp only: option.case assms(4))
qed


section \<open>Waiting\<close>

lemma wait_idle:
  assumes "ready_for ker bus count at st0" "0 < n"
  shows "triple (card_in at st0 Sd_idle m) (mx_wait_equal ker bus 0xFF n) (\<lambda>a st. a = 0 \<and> card_in at st0 Sd_idle m st)"
  by (rule wait_equal_unfold [OF assms(1) sd_step.poll assms(2)]) (auto elim!: step_idle intro!: triple_return simp: command_packet_def Let_def)

lemma wait_token:
  assumes "ready_for ker bus count at st0"
  shows "j < n \<Longrightarrow> triple (card_in at st0 (Sd_token j s) m) (mx_wait_equal ker bus 0xFE n) (\<lambda>a st. a = 0 \<and> card_in at st0 (Sd_low s) m st)"
proof (induction j arbitrary: n)
  case 0
  then show ?case
    by (intro wait_equal_unfold [OF assms sd_step.token]) (auto elim!: step_token intro!: triple_return)
next
  case (Suc j)
  then show ?case
    by (intro wait_equal_unfold [OF assms sd_step.token_wait [of 0]]) (auto elim!: step_token intro!: triple_return)
qed

lemma wait_busy:
  assumes "ready_for ker bus count at st0"
  shows "k < n \<Longrightarrow> triple (card_in at st0 (Sd_busy k) m) (mx_wait_equal ker bus 0xFF n) (\<lambda>a st. a = 0 \<and> card_in at st0 Sd_idle m st)"
proof (induction k arbitrary: n)
  case 0
  then show ?case
    by (intro wait_equal_unfold [OF assms sd_step.ready]) (auto elim!: step_busy intro!: triple_return)
next
  case (Suc k)
  then show ?case
    by (intro wait_equal_unfold [OF assms sd_step.busy [of 0]]) (auto elim!: step_busy intro!: triple_return)
qed

lemma wait_answer:
  assumes "ready_for ker bus count at st0"
  shows "k < n \<Longrightarrow> triple (card_in at st0 (Sd_answer k p) m) (mx_wait_not_equal ker bus 0xFF n) (\<lambda>a st. a = 0 \<and> card_in at st0 p m st)"
proof (induction k arbitrary: n)
  case 0
  then show ?case
    by (intro wait_not_equal_unfold [OF assms sd_step.answer]) (auto elim!: step_answer intro!: triple_return)
next
  case (Suc k)
  then show ?case
    by (intro wait_not_equal_unfold [OF assms sd_step.answer_wait]) (auto elim!: step_answer intro!: triple_return)
qed

lemma dummy_idle:
  assumes "ready_for ker bus count at st0"
  shows "triple (card_in at st0 Sd_idle m) (mx_dummy ker bus) (\<lambda>a st. card_in at st0 Sd_idle m st)"
  unfolding mx_dummy_def
  by (rule exchange_bind [OF assms sd_step.dummy])
    (auto elim!: step_idle intro!: triple_return simp: command_packet_def be32_bytes_def Let_def)

section \<open>Commands\<close>

lemma be32_bytes_inject: "be32_bytes a = be32_bytes b \<Longrightarrow> a = b"
proof -
  have "be32 (be32_bytes v ! 0) (be32_bytes v ! 1) (be32_bytes v ! 2) (be32_bytes v ! 3) = v" for v
    by (simp add: be32_bytes_def be32_ucast)
  then show "be32_bytes a = be32_bytes b \<Longrightarrow> a = b" by metis
qed

lemma command_packet_inject: "command_packet c a = command_packet d b \<longleftrightarrow> c = d \<and> a = b"
  by (auto simp: command_packet_def Let_def dest: be32_bytes_inject)

text \<open>On a byte-addressed card the address of a sector must not wrap.\<close>

definition addresses_fit :: "u32 \<Rightarrow> u32 \<Rightarrow> bool" where
  "addresses_fit card_type count \<longleftrightarrow> card_type = 4 \<or> unat count \<le> 2 ^ 23"

lemma sd_address_inject:
  assumes "addresses_fit t count" "s < count" "s' < count" "sd_address t s = sd_address t s'"
  shows "s = s'"
proof (cases "t = 4")
  case False
  have "unat (push_bit 9 x) = unat x * 512" if "x < count" for x :: u32
  proof -
    have "unat x < 2 ^ 23" using that assms(1) False by (auto simp: addresses_fit_def word_less_nat_alt)
    then have "unat x * 512 < 4294967296" by simp
    then show ?thesis using unat_mult_lem [of x 512] by (simp add: push_bit_eq_mult)
  qed
  then have "unat s * 512 = unat s' * 512" using assms False by (metis sd_address_def)
  then show ?thesis by (simp add: word_unat_eq_iff)
qed (use assms in \<open>simp add: sd_address_def\<close>)

lemma SD_CMD_values: "SD_CMD 17 = 0x51" "SD_CMD 24 = 0x58" "SD_CMD 0 = 0x40"
  by (simp_all add: SD_CMD_def)

lemma packet_length: "length (command_packet c a) = 6"
  by (simp add: command_packet_def Let_def be32_bytes_def)

lemma step_command:
  assumes "sd_step t count Sd_idle m (command_packet c a) 0 rx p' m'"
  shows "m' = m \<and> (c = SD_CMD 17 \<and> (\<exists>s k j. s < count \<and> a = sd_address t s \<and> k < 256 \<and> j < 100000 \<and> p' = Sd_answer k (Sd_token j s)) \<or>
    c = SD_CMD 24 \<and> (\<exists>s k. s < count \<and> a = sd_address t s \<and> k < 256 \<and> p' = Sd_answer k (Sd_start s)))"
  using assms by (rule step_idle) (auto simp: command_packet_inject)

lemma SD_CMD_distinct: "SD_CMD 17 \<noteq> SD_CMD 24" "SD_CMD 17 \<noteq> SD_CMD 0" "SD_CMD 24 \<noteq> SD_CMD 0"
  by (simp_all add: SD_CMD_def)

lemma step_read_command:
  assumes "sd_step t count Sd_idle m (command_packet (SD_CMD 17) (sd_address t s)) 0 rx p' m'" "addresses_fit t count" "s < count"
  shows "\<exists>k p. k < 256 \<and> p' = Sd_answer k p \<and> m' = m \<and> (\<exists>j < 100000. p = Sd_token j s)"
  using step_command [OF assms(1)] SD_CMD_distinct(1) sd_address_inject [OF assms(2,3)] by metis

lemma step_write_command:
  assumes "sd_step t count Sd_idle m (command_packet (SD_CMD 24) (sd_address t s)) 0 rx p' m'" "addresses_fit t count" "s < count"
  shows "\<exists>k p. k < 256 \<and> p' = Sd_answer k p \<and> m' = m \<and> p = Sd_start s"
  using step_command [OF assms(1)] SD_CMD_distinct(1) sd_address_inject [OF assms(2,3)] by metis

lemma send_command_on_card:
  assumes ready: "ready_for ker bus count at st0" and c: "c \<noteq> SD_CMD 0"
    and legal: "sd_step (g_mx_card_type st0) count Sd_idle m (command_packet c a) 0 rx0 p0 m0"
    and answer: "\<And>rx p' m'. sd_step (g_mx_card_type st0) count Sd_idle m (command_packet c a) 0 rx p' m' \<Longrightarrow>
      \<exists>k p. k < 256 \<and> p' = Sd_answer k p \<and> m' = m \<and> R p"
  shows "triple (card_in at st0 Sd_idle m) (mx_send_command ker bus c a) (\<lambda>v st. v = 0 \<and> (\<exists>p. R p \<and> card_in at st0 p m st))"
proof -
  have wait: "triple (card_in at st0 p' m') (mx_wait_not_equal ker bus 0xFF 256) (\<lambda>v st. v = 0 \<and> (\<exists>p. R p \<and> card_in at st0 p m st))"
    if step: "sd_step (g_mx_card_type st0) count Sd_idle m (command_packet c a) 0 rx p' m'" for rx p' m'
  proof -
    obtain k p where "k < 256" "p' = Sd_answer k p" "m' = m" "R p" using answer [OF step] by blast
    then show ?thesis by (auto intro!: triple_weaken [OF wait_answer [OF ready]])
  qed
  have packet: "triple (card_in at st0 Sd_idle m) (do { (result, _) \<leftarrow> mx_exchange ker bus (command_packet c a) 6 [] 0;
      if result < 0 then ret (-1) else mx_wait_not_equal ker bus 0xFF 256 }) (\<lambda>v st. v = 0 \<and> (\<exists>p. R p \<and> card_in at st0 p m st))"
    by (rule exchange_bind [OF ready legal]) (simp_all add: packet_length wait)
  show ?thesis
    unfolding mx_send_command_def if_P [OF c]
    by (rule triple_bind [OF dummy_idle [OF ready]]) (rule packet)
qed

section \<open>Sectors\<close>

lemma triple_get_card:
  "(\<And>w. triple (card_in at st0 p m) (f (st0\<lparr>sto_dev := w\<rparr>)) Q) \<Longrightarrow> triple (card_in at st0 p m) (State_Monad.bind State_Monad.get f) Q"
proof (rule tripleI)
  fix st a st'
  assume f: "\<And>w. triple (card_in at st0 p m) (f (st0\<lparr>sto_dev := w\<rparr>)) Q" and st: "card_in at st0 p m st"
    and run: "run_state (State_Monad.bind State_Monad.get f) st = (a, st')"
  obtain w where "st = st0\<lparr>sto_dev := w\<rparr>" using st by (auto simp: card_in_def)
  then show "Q a st'" using tripleD [OF f [of w] st] run by simp
qed

lemma read_sector_on_card:
  assumes ready: "ready_for ker bus count at st0" and fit: "addresses_fit (g_mx_card_type st0) count"
    and st: "g_mx_initialized st0" "g_mx_sector_count st0 = count" and s: "s < count" "length (m s) = 512" and data: "length data = 512"
  shows "triple (card_in at st0 Sd_idle m) (mx_read_sector ker bus s data) (\<lambda>a st. a = (0, m s) \<and> card_in at st0 Sd_idle m st)"
proof -
  let ?Q = "\<lambda>a st. a = (0, m s) \<and> card_in at st0 Sd_idle m st"
  have cmd: "triple (card_in at st0 Sd_idle m) (mx_send_command ker bus (SD_CMD 17) (sd_address (g_mx_card_type st0) s))
      (\<lambda>v st. v = 0 \<and> (\<exists>p. (\<exists>j < 100000. p = Sd_token j s) \<and> card_in at st0 p m st))"
    by (rule send_command_on_card [OF ready SD_CMD_distinct(2) sd_step.read [OF s(1), of 0 0] step_read_command [OF _ fit s(1)]]) simp_all
  have parts: "splice 0 (take 256 (m s)) (take 256 data) = take 256 (m s)" "splice 0 (drop 256 (m s)) (drop 256 data) = drop 256 (m s)"
    "splice 0 (drop 256 (m s)) (drop 256 (splice 0 (take 256 (m s)) data)) = drop 256 (m s)"
    "splice 256 (drop 256 (m s)) (splice 0 (take 256 (m s)) data) = m s"
    using s(2) data by (simp_all add: splice_def)
  have rest: "triple (card_in at st0 (Sd_low s) m) (do {
             (result, low) \<leftarrow> mx_exchange ker bus [] 0 (take 256 data) 256;
             let data = splice 0 low data;
             if result < 0 then ret (-5, data)
             else do {
               (result, high) \<leftarrow> mx_exchange ker bus [] 0 (drop 256 data) 256;
               let data = splice 256 high data;
               if result < 0 then ret (-6, data)
               else do {
                 (result, _) \<leftarrow> mx_exchange ker bus [] 0 (replicate 2 0) 2;
                 if result < 0 then ret (-7, data)
                 else do {
                   _ \<leftarrow> mx_dummy ker bus;
                   ret (0, data) } } } }) ?Q"
    by (auto simp: parts Let_def elim!: step_data intro!: exchange_bind [OF ready sd_step.low]
        exchange_bind [OF ready sd_step.high] exchange_bind [OF ready sd_step.crc [of "[0, 0]"]]
        triple_bind [OF dummy_idle [OF ready]] triple_return)
  have found: "triple (\<lambda>st. \<exists>p. (\<exists>j < 100000. p = Sd_token j s) \<and> card_in at st0 p m st) (mx_wait_equal ker bus 0xFE 100000)
      (\<lambda>a st. a = 0 \<and> card_in at st0 (Sd_low s) m st)"
    by (auto intro!: triple_ex triple_pure wait_token [OF ready])
  have valid: "\<not> count \<le> s" using s(1) by simp
  show ?thesis
    unfolding mx_read_sector_def
    apply (rule triple_get_card)
    apply (simp add: st valid Let_def flip: sd_address_def)
    apply (rule triple_then [OF wait_idle [OF ready]], simp, simp)
    apply (rule triple_then [OF cmd], simp)
    apply (rule triple_then [OF found], simp)
    apply (rule rest)
    done
qed

lemma write_sector_on_card:
  assumes ready: "ready_for ker bus count at st0" and fit: "addresses_fit (g_mx_card_type st0) count"
    and st: "g_mx_initialized st0" "g_mx_sector_count st0 = count" and s: "s < count" and data: "length data = 512"
  shows "triple (card_in at st0 Sd_idle m) (mx_write_sector ker bus s data) (\<lambda>a st. a = 0 \<and> card_in at st0 Sd_idle (m(s := data)) st)"
proof -
  let ?Q = "\<lambda>(a :: s32) st. a = 0 \<and> card_in at st0 Sd_idle (m(s := data)) st"
  have cmd: "triple (card_in at st0 Sd_idle m) (mx_send_command ker bus (SD_CMD 24) (sd_address (g_mx_card_type st0) s))
      (\<lambda>v st. v = 0 \<and> (\<exists>p. p = Sd_start s \<and> card_in at st0 p m st))"
    by (rule send_command_on_card [OF ready SD_CMD_distinct(3) sd_step.write_command [OF s(1), of 0] step_write_command [OF _ fit s(1)]]) simp_all
  have busy: "triple (card_in at st0 (Sd_busy k) m') (do {
         idle \<leftarrow> mx_wait_equal ker bus 0xFF 0x80000;
         if idle < 0 then ret (-10)
         else do { _ \<leftarrow> mx_dummy ker bus; ret 0 } }) (\<lambda>(a :: s32) st. a = 0 \<and> card_in at st0 Sd_idle m' st)"
    if "k < 0x80000" for k m'
    apply (rule triple_then [OF wait_busy [OF ready that]], simp)
    by (auto intro!: triple_bind [OF dummy_idle [OF ready]] triple_return)
  have accept: "triple (card_in at st0 Sd_accept m') (do {
       response \<leftarrow> mx_receive_byte ker bus;
       case response of
         None \<Rightarrow> ret (-8)
       | Some b \<Rightarrow>
           if b AND 0x1F \<noteq> 0x05 then ret (-9)
           else do {
             idle \<leftarrow> mx_wait_equal ker bus 0xFF 0x80000;
             if idle < 0 then ret (-10)
             else do { _ \<leftarrow> mx_dummy ker bus; ret 0 } } }) (\<lambda>(a :: s32) st. a = 0 \<and> card_in at st0 Sd_idle m' st)" for m'
    apply (rule triple_bind [OF receive_step [OF ready sd_step.accept [of 5 0]]], simp, simp)
    by (auto intro!: triple_ex triple_pure busy elim!: step_write)
  have halves: "length (take 256 data) = 256" "length (drop 256 data) = 256" using data by simp_all
  have rest: "triple (card_in at st0 (Sd_start s) m) (do {
           (result, _) \<leftarrow> mx_exchange ker bus [0xFE] 1 [] 0;
           if result < 0 then ret (-4)
           else do {
             (result, _) \<leftarrow> mx_exchange ker bus (take 256 data) 256 [] 0;
             if result < 0 then ret (-5)
             else do {
               (result, _) \<leftarrow> mx_exchange ker bus (drop 256 data) 256 [] 0;
               if result < 0 then ret (-6)
               else do {
                 (result, _) \<leftarrow> mx_exchange ker bus [0xFF, 0xFF] 2 [] 0;
                 if result < 0 then ret (-7)
                 else do {
                   response \<leftarrow> mx_receive_byte ker bus;
                   case response of
                     None \<Rightarrow> ret (-8)
                   | Some b \<Rightarrow>
                       if b AND 0x1F \<noteq> 0x05 then ret (-9)
                       else do {
                         idle \<leftarrow> mx_wait_equal ker bus 0xFF 0x80000;
                         if idle < 0 then ret (-10)
                         else do { _ \<leftarrow> mx_dummy ker bus; ret 0 } } } } } } }) ?Q"
    using accept halves
    by (auto simp: data elim!: step_write intro!: exchange_bind [OF ready sd_step.start]
        exchange_bind [OF ready sd_step.write_low [OF halves(1)]] exchange_bind [OF ready sd_step.write_high [OF halves(2)]]
        exchange_bind [OF ready sd_step.write_crc])
  have valid: "\<not> count \<le> s" using s(1) by simp
  show ?thesis
    unfolding mx_write_sector_def
    apply (rule triple_get_card)
    apply (simp add: st valid Let_def flip: sd_address_def)
    apply (rule triple_then [OF wait_idle [OF ready]], simp, simp)
    apply (rule triple_then [OF cmd], simp)
    apply (rule rest)
    done
qed

end
