(* ===== verification/StorageSectors.thy ===== *)
theory StorageSectors
  imports StorageClientSpec StorageBlocks
begin

text \<open>
  The sectors of an SD card seen through the dispatcher and the RPC, and a card on a simulated port.
\<close>

section \<open>The module on a card\<close>

text \<open>The module after a scan that has found the card at \<open>index\<close>.\<close>

definition card_found ::
  "'w iop_kernel \<Rightarrow> 'w bus \<Rightarrow> u32 \<Rightarrow> (sd_phase \<Rightarrow> sectors \<Rightarrow> 'w \<Rightarrow> bool) \<Rightarrow> u32 \<Rightarrow> 'w storage \<Rightarrow> bool" where
  "card_found ker bus count at index st \<longleftrightarrow>
    ready_for ker bus count at st \<and> addresses_fit (g_mx_card_type st) count \<and> g_mx_initialized st \<and> g_mx_sector_count st = count \<and>
    index < g_device_count st \<and> dev_kind (g_devices st ! unat index) = KIND_MX4SIO"

text \<open>The states that differ only in the device and the last reply, with the card idle.\<close>

definition holds_sectors ::
  "u32 \<Rightarrow> (sd_phase \<Rightarrow> sectors \<Rightarrow> 'w \<Rightarrow> bool) \<Rightarrow> 'w storage \<Rightarrow> 'w storage \<Rightarrow> sectors \<Rightarrow> bool" where
  "holds_sectors count at st0 st m \<longleftrightarrow>
    (\<exists>w r. st = st0\<lparr>sto_dev := w, g_storage_reply := r\<rparr> \<and> at Sd_idle m w) \<and> (\<forall>s < count. length (m s) = 512)"

lemma holds_card_in:
  assumes "holds_sectors count at st0 st m"
  shows "card_in at st Sd_idle m st"
  using assms by (auto simp: holds_sectors_def card_in_def intro!: exI [of _ "sto_dev st"])

lemma holds_found: "holds_sectors count at st0 st m \<Longrightarrow> card_found ker bus count at index st0 \<Longrightarrow> card_found ker bus count at index st"
  by (auto simp: holds_sectors_def card_found_def ready_for_def)

lemma holds_reply:
  assumes "card_in at st Sd_idle m' st1" "holds_sectors count at st0 st m" "\<forall>s < count. length (m' s) = 512"
  shows "holds_sectors count at st0 (st1\<lparr>g_storage_reply := r\<rparr>) m'"
proof -
  obtain w where w: "st1 = st\<lparr>sto_dev := w\<rparr>" "at Sd_idle m' w" using assms(1) unfolding card_in_def by blast
  obtain w0 r0 where "st = st0\<lparr>sto_dev := w0, g_storage_reply := r0\<rparr>" using assms(2) unfolding holds_sectors_def by blast
  then have "st1\<lparr>g_storage_reply := r\<rparr> = st0\<lparr>sto_dev := w, g_storage_reply := r\<rparr>" unfolding w(1) by simp
  then show ?thesis unfolding holds_sectors_def using w(2) assms(3) by blast
qed

lemma run_triple:
  assumes "triple P m (\<lambda>a st. a = x \<and> Q st)" "P st"
  obtains st' where "run_state m st = (x, st')" "Q st'"
proof -
  obtain a st' where run: "run_state m st = (a, st')" by (metis surj_pair)
  then show thesis using tripleD [OF assms run] that by simp
qed

lemma module_read_sector:
  assumes found: "card_found ker bus count at index st0" and holds: "holds_sectors count at st0 st m" and s: "s < count"
  obtains st' where
    "run_state (storage_rpc_handler ker bus 3 (zero_storage_request\<lparr>sq_index := index, sq_sector := s, sq_count := 1\<rparr>) 796) st = ((), st')"
    "sr_result (g_storage_reply st') = 0" "sr_data_size (g_storage_reply st') = 512" "sr_data (g_storage_reply st') = m s"
    "holds_sectors count at st0 st' m"
proof -
  note f = holds_found [OF holds found]
  have len: "length (m s) = 512" using holds s by (simp add: holds_sectors_def)
  obtain st1 where run: "run_state (mx_read_sector ker bus s (replicate 512 0)) st = ((0, m s), st1)" "card_in at st Sd_idle m st1"
    using run_triple [OF read_sector_on_card [of ker bus count at st s m "replicate 512 0"] holds_card_in [OF holds]] f s len
    by (auto simp: card_found_def)
  have "holds_sectors count at st0 (st1\<lparr>g_storage_reply := r\<rparr>) m" for r
    using holds_reply [OF run(2) holds] holds by (simp add: holds_sectors_def)
  then show ?thesis
    using that run f
    by (auto simp: storage_rpc_handler_def storage_operation_def backend_read_sector_def reply_data_def device_at_def card_found_def
        zero_storage_request_def)
qed

lemma module_write_sector:
  assumes found: "card_found ker bus count at index st0" and holds: "holds_sectors count at st0 st m" and s: "s < count"
    and data: "length data = 512"
  obtains st' where
    "run_state (storage_rpc_handler ker bus 4 (zero_storage_request\<lparr>sq_index := index, sq_sector := s, sq_count := 1,
      sq_data_size := 512, sq_data := data\<rparr>) 796) st = ((), st')"
    "sr_result (g_storage_reply st') = 0" "holds_sectors count at st0 st' (m(s := data))"
proof -
  note f = holds_found [OF holds found]
  obtain st1 where run: "run_state (mx_write_sector ker bus s data) st = (0, st1)" "card_in at st Sd_idle (m(s := data)) st1"
    using run_triple [OF write_sector_on_card [of ker bus count at st s data m] holds_card_in [OF holds]] f s data
    by (auto simp: card_found_def)
  have "holds_sectors count at st0 (st1\<lparr>g_storage_reply := r\<rparr>) (m(s := data))" for r
    using holds_reply [OF run(2) holds] holds data by (simp add: holds_sectors_def)
  then show ?thesis
    using that run f
    by (auto simp: storage_rpc_handler_def storage_operation_def backend_write_sector_def device_at_def card_found_def
        zero_storage_request_def)
qed

lemma module_serves_sectors:
  assumes "card_found ker bus count at index st0"
  shows "serves_sectors (iop_storage_services ker bus) index count (holds_sectors count at st0)"
  unfolding serves_sectors_def
proof (intro conjI allI impI, goal_cases)
  case (1 w m s)
  have "length (m s) = 512" using 1 by (simp add: holds_sectors_def)
  moreover obtain w' where "run_state (storage_rpc_handler ker bus 3 (zero_storage_request\<lparr>sq_index := index, sq_sector := s, sq_count := 1\<rparr>) 796) w = ((), w')"
    "sr_result (g_storage_reply w') = 0" "sr_data_size (g_storage_reply w') = 512" "sr_data (g_storage_reply w') = m s"
    "holds_sectors count at st0 w' m"
    using module_read_sector [OF assms 1] by blast
  ultimately show ?case by (simp add: iop_storage_services_def)
next
  case (2 w m s data)
  obtain w' where "run_state (storage_rpc_handler ker bus 4 (zero_storage_request\<lparr>sq_index := index, sq_sector := s, sq_count := 1,
      sq_data_size := 512, sq_data := data\<rparr>) 796) w = ((), w')"
    "sr_result (g_storage_reply w') = 0" "holds_sectors count at st0 w' (m(s := data))"
    using module_write_sector [OF assms 2] by blast
  then show ?case by (simp add: iop_storage_services_def)
qed

section \<open>A card on a simulated port\<close>

text \<open>A card that never makes the host wait.  The packets arrive and the answers leave with the bits of
  every byte reversed.\<close>

fun block_card :: "u32 \<Rightarrow> u32 \<Rightarrow> sd_phase \<times> sectors \<Rightarrow> u8 list \<Rightarrow> u8 list \<times> (sd_phase \<times> sectors)" where
  "block_card t count (Sd_idle, m) tx =
    (if length tx = 6 then
       let a = be32 (tx ! 1) (tx ! 2) (tx ! 3) (tx ! 4); s = (if t \<noteq> 4 then drop_bit 9 a else a)
       in if tx ! 0 = SD_CMD 17 then ([], Sd_answer 0 (Sd_token 0 s), m) else ([], Sd_answer 0 (Sd_start s), m)
     else ([0xFF], Sd_idle, m))"
| "block_card t count (Sd_answer (Suc k) p, m) tx = ([0xFF], Sd_answer k p, m)"
| "block_card t count (Sd_answer 0 p, m) tx = ([0], p, m)"
| "block_card t count (Sd_token (Suc j) s, m) tx = ([0], Sd_token j s, m)"
| "block_card t count (Sd_token 0 s, m) tx = ([0xFE], Sd_low s, m)"
| "block_card t count (Sd_low s, m) tx = (take 256 (m s), Sd_high s, m)"
| "block_card t count (Sd_high s, m) tx = (drop 256 (m s), Sd_crc, m)"
| "block_card t count (Sd_crc, m) tx = ([0, 0], Sd_idle, m)"
| "block_card t count (Sd_start s, m) tx = ([], Sd_write_low s, m)"
| "block_card t count (Sd_write_low s, m) tx = ([], Sd_write_high s tx, m)"
| "block_card t count (Sd_write_high s d, m) tx = ([], Sd_write_crc s (d @ tx), m)"
| "block_card t count (Sd_write_crc s d, m) tx = ([], Sd_accept, m(s := d))"
| "block_card t count (Sd_accept, m) tx = ([5], Sd_busy 0, m)"
| "block_card t count (Sd_busy (Suc k), m) tx = ([0], Sd_busy k, m)"
| "block_card t count (Sd_busy 0, m) tx = ([0xFF], Sd_idle, m)"

definition wire_card :: "u32 \<Rightarrow> u32 \<Rightarrow> sd_phase \<times> sectors \<Rightarrow> u8 list \<Rightarrow> u8 list \<times> (sd_phase \<times> sectors)" where
  "wire_card t count c tx = (let (answer, c) = block_card t count c (map reverse_bits tx) in (map reverse_bits answer, c))"

lemma reverse_reverse [simp]: "reverse_bits \<circ> reverse_bits = id"
  by (rule ext) (simp add: reverse_bits_twice)

fun phase_ok :: "sd_phase \<Rightarrow> bool" where
  "phase_ok (Sd_answer k p) = phase_ok p"
| "phase_ok (Sd_write_high s d) = (length d = 256)"
| "phase_ok (Sd_write_crc s d) = (length d = 512)"
| "phase_ok p = True"

lemma sd_address_decode:
  assumes "addresses_fit t count" "s < count"
  shows "(if t \<noteq> 4 then drop_bit 9 (sd_address t s) else sd_address t s) = s"
proof (cases "t = 4")
  case False
  then have "unat s < 2 ^ 23" using assms by (auto simp: addresses_fit_def word_less_nat_alt)
  then have s: "take_bit 23 s = s" by (simp add: word_unat_eq_iff unat_take_bit take_bit_nat_eq_self)
  have "drop_bit 9 (push_bit 9 s) = take_bit 23 s"
    by (rule bit_word_eqI) (auto simp: bit_simps)
  then show ?thesis using False s by (simp add: sd_address_def)
qed (simp add: sd_address_def)

lemma be32_packet: "be32 (command_packet c a ! 1) (command_packet c a ! 2) (command_packet c a ! 3) (command_packet c a ! 4) = a"
  "command_packet c a ! 0 = c"
  by (simp_all add: command_packet_def Let_def be32_bytes_def be32_ucast)

lemmas sd_intros = sd_step.intros [unfolded One_nat_def]

lemma card_step:
  assumes "sd_step t count p m tx n rx p' m'" "addresses_fit t count" "phase_ok p" "\<forall>s. length (m s) = 512"
  shows "case block_card t count (p, m) tx of (rx, p', m') \<Rightarrow>
    sd_step t count p m tx n rx p' m' \<and> length rx = n \<and> phase_ok p' \<and> (\<forall>s. length (m' s) = 512)"
  using assms
proof (induction rule: sd_step.induct)
  case (read s k j m)
  then show ?case
    using sd_address_decode [of t count s] by (auto simp: packet_length be32_packet be32_packet [unfolded One_nat_def] Let_def intro!: sd_intros)
next
  case (write_command s k m)
  then show ?case
    using sd_address_decode [of t count s] SD_CMD_distinct(1) by (auto simp: packet_length be32_packet be32_packet [unfolded One_nat_def] Let_def intro!: sd_intros)
qed (auto intro!: sd_intros)

lemma block_card_serves:
  assumes fit: "addresses_fit t count"
  shows "serves_blocks quiet_kernel (fifo_bus (wire_card t count)) mutex baud t count
    (\<lambda>p m w. fp_card w = (p, m) \<and> phase_ok p \<and> (\<forall>s. length (m s) = 512))"
  unfolding serves_blocks_def
proof (intro allI impI, elim exE conjE)
  fix p m tx n and w :: "(sd_phase \<times> sectors) fifo_port" and rx0 p0 m0
  assume card: "fp_card w = (p, m)" "phase_ok p" "\<forall>s. length (m s) = 512" and step: "sd_step t count p m tx n rx0 p0 m0"
  obtain rx p' m' where b: "block_card t count (p, m) tx = (rx, p', m')" by (metis prod_cases3)
  have s: "sd_step t count p m tx n rx p' m'" "length rx = n" "phase_ok p'" "\<forall>s. length (m' s) = 512"
    using card_step [OF step fit card(2,3)] b by auto
  have sizes: "n \<le> 256" "length tx \<le> 256"
    using step by (induction rule: sd_step.induct) (simp_all add: packet_length)
  have un: "unat (w32 n) = n" "unat (w32 (length tx)) = length tx" using sizes by (simp_all add: unat_w32)
  have "sd_transfer quiet_kernel (fifo_bus (wire_card t count)) mutex baud tx n w =
    ((0, rx), \<lparr>fp_card = (p', m'), fp_out = [], fp_in = []\<rparr>)"
    unfolding sd_transfer_def
    by (subst fifo_exchange [where answer = "map reverse_bits rx" and c = "(p', m')"])
      (use b s(2) sizes un card(1) in \<open>simp_all add: wire_card_def\<close>)
  then show "\<exists>rx p' m' w'. sd_transfer quiet_kernel (fifo_bus (wire_card t count)) mutex baud tx n w = ((0, rx), w') \<and>
      sd_step t count p m tx n rx p' m' \<and> fp_card w' = (p', m') \<and> phase_ok p' \<and> (\<forall>s. length (m' s) = 512)"
    using s by auto
qed

end
