(* ===== verification/StorageProps.thy ===== *)
theory StorageProps
  imports StorageClientSpec StorageSectors
begin

text \<open>The properties of the storage service: module, SD card, memory card and client.\<close>

section \<open>A module for concrete runs\<close>

definition loaded_module :: "'w \<Rightarrow> 'w storage" where
  "loaded_module w = \<lparr>sto_dev = w, g_sio2_mutex = -1, g_mx_baud = 0x78, g_mx_card_type = 0, g_mx_sector_count = 0,
     g_mx_initialized = False, g_mc_format_page = replicate 512 0, g_storage_reply = zero_storage_reply,
     g_devices = replicate 3 zero_device, g_scan_diag = zero_diag, g_device_count = 0, g_rpc_ready_sema = -1\<rparr>"

definition started_module :: "'w \<Rightarrow> 'w storage" where
  "started_module w = (loaded_module w)\<lparr>g_sio2_mutex := 1, g_rpc_ready_sema := 1\<rparr>"

lemma started_reachable: "storage_reachable quiet_kernel bus (started_module w)"
proof (rule storage_reachable.started)
  show "storage_loaded (loaded_module w)" by (simp add: storage_loaded_def loaded_module_def)
  show "run_state (storage_start quiet_kernel) (loaded_module w) = (0, started_module w)"
    by (simp add: storage_start_def ef2_storage_sio2_init_def quiet_kernel_def loaded_module_def started_module_def)
qed

definition bound_storage_client :: "'w storage \<Rightarrow> 'w storage storage_client" where
  "bound_storage_client m = \<lparr>sc_world = m, sc_request = zero_storage_request, sc_reply = zero_storage_reply,
     sc_device_count = g_device_count m, sc_scan_diag = g_scan_diag m, sc_bound = True\<rparr>"

section \<open>The module\<close>

text \<open>
  C24: after any request, in any order and whatever the devices answer, the device table describes at most
  two devices on different ports, memory cards with a usable geometry exactly when they can read pages and
  at most one SD card, which is the one the driver has initialised; and the reply never announces more data
  than its buffer holds or than was asked for, and exactly what was asked for after a successful block read.
\<close>

theorem storage_module_invariant:
  assumes "storage_reachable ker bus st"
    and "run_state (storage_rpc_handler ker bus fn req len) st = (u, st')"
  shows "length (g_devices st') = 3 \<and> unat (g_device_count st') \<le> 2 \<and>
    devices_ok st' (take (unat (g_device_count st')) (g_devices st')) \<and>
    reply_ok fn req (sr_result (g_storage_reply st')) (g_storage_reply st') \<and>
    sr_device_count (g_storage_reply st') = g_device_count st'"
  using handler_spec [OF reachable_ok [OF assms(1)] assms(2)] by (simp add: storage_ok_def)

theorem storage_module_invariant_witness:
  "\<exists>st'. run_state (storage_rpc_handler quiet_kernel silent_bus 1 zero_storage_request 796) (started_module ()) = ((), st') \<and>
    unat (g_device_count st') \<le> 2 \<and> devices_ok st' (take (unat (g_device_count st')) (g_devices st'))"
proof -
  obtain st' where run: "run_state (storage_rpc_handler quiet_kernel silent_bus 1 zero_storage_request 796) (started_module ()) = ((), st')"
    by (metis surj_pair unit_eq)
  show ?thesis using storage_module_invariant [OF started_reachable run] run by blast
qed

text \<open>
  C25: a read or a write of a file through the client and the module always returns, whatever the card
  answers: with an error, or with a count of at most the bytes asked for; a read changes no byte of the
  caller's buffer beyond the bytes it reports, and none outside the buffer.
\<close>

theorem storage_file_transfers_end:
  assumes "sc_bound st" "storage_reachable ker bus (sc_world st)" "unat n \<le> 0x7FFFFFFF" "unat n \<le> length buf"
  shows "(\<exists>r buf' st'. ef2_storage_mmce_read (iop_storage_services ker bus) index fd (Some buf) n st = Some (r, buf', st') \<and>
      r \<le> int (unat n) \<and> length buf' = length buf \<and> drop (nat r) buf' = drop (nat r) buf) \<and>
    (\<exists>r st'. ef2_storage_mmce_write (iop_storage_services ker bus) index fd (Some buf) n st = Some (r, st') \<and> r \<le> int (unat n))"
proof -
  have ok: "client_ok st" using assms(1,2) reachable_ok by (simp add: client_ok_def)
  have zero: "unat (0 :: u32) = 0" "(0 :: u32) \<le> n" by simp_all
  obtain r buf' st' where "client_read_loop (iop_storage_services ker bus) index fd buf n 0 st = Some (r, buf', st')"
    "r \<le> int (unat n)" "kept_from (nat r) buf buf'"
    using read_loop_ends [OF ok zero(2) assms(3,4) kept_from_refl] by blast
  moreover obtain r' st'' where "client_write_loop (iop_storage_services ker bus) index fd buf n 0 st = Some (r', st'')" "r' \<le> int (unat n)"
    using write_loop_ends [OF ok zero(2) assms(3,4)] by blast
  ultimately show ?thesis
    using assms(1) by (auto simp: ef2_storage_mmce_read_def ef2_storage_mmce_write_def kept_from_def)
qed

theorem storage_file_transfers_end_witness:
  "\<exists>r buf' st'. ef2_storage_mmce_read (iop_storage_services quiet_kernel silent_bus) 0 3 (Some (replicate 1000 0xAA)) 700
      (bound_storage_client (started_module ())) = Some (r, buf', st') \<and> r \<le> 700 \<and> length buf' = 1000"
  using storage_file_transfers_end [of "bound_storage_client (started_module ())" quiet_kernel silent_bus 700 "replicate 1000 0xAA" 0 3]
  by (auto simp: started_reachable bound_storage_client_def)

section \<open>SD cards\<close>

text \<open>
  C26: what the client has written to a run of sectors of an SD card it reads back, through the RPC, the
  dispatcher and the driver, and every other sector keeps its contents; for every card that follows the
  block protocol \<open>sd_step\<close>, with any delays below the driver's polling limits.
\<close>

theorem storage_sectors_roundtrip:
  assumes "card_found ker bus count at index st0" "sc_bound c" "holds_sectors count at st0 (sc_world c) m"
    and "0 < n" "512 * n < 4294967296" "unat sector + n \<le> unat count" "length src = 512 * n" "length buf = 512 * n"
  shows "\<exists>c1 c2. ef2_storage_write_sectors (iop_storage_services ker bus) index sector (Some src) (w32 n) c = Some (int n, c1) \<and>
    holds_sectors count at st0 (sc_world c1) (written sector src n m) \<and>
    ef2_storage_read_sectors (iop_storage_services ker bus) index sector (Some buf) (w32 n) c1 = Some (int n, src, c2) \<and>
    holds_sectors count at st0 (sc_world c2) (written sector src n m)"
proof -
  let ?m = "written sector src n m"
  note serves = module_serves_sectors [OF assms(1)]
  have small: "n \<le> 0x7FFFFFFF" "n < 4294967296" using assms(5) by simp_all
  have nz: "w32 n \<noteq> 0" using assms(4) small(2) by (simp add: w32_eq_0_iff)
  have start: "holds_sectors count at st0 (sc_world c) (written sector src 0 m)" using assms(3) by (simp add: written_def)
  obtain c1 where stores: "write_sectors_loop (iop_storage_services ker bus) index sector src (w32 n) (w32 0) c = Some (int n, c1)"
    "sc_bound c1 = sc_bound c" "holds_sectors count at st0 (sc_world c1) ?m"
    using write_sectors_loop_stores [OF serves assms(6,5,7) small(1) _ start] by auto
  obtain buf' c2 where read: "read_sectors_loop (iop_storage_services ker bus) index sector buf (w32 n) (w32 0) c1 = Some (int n, buf', c2)"
    "length buf' = 512 * n" "\<forall>i < n. sector_of buf' i = ?m (sector + w32 i)" "holds_sectors count at st0 (sc_world c2) ?m"
    using read_sectors_loop_delivers [OF serves assms(6,5,8) small(1) _ stores(3) assms(8), of 0] by auto
  have "\<forall>i < n. ?m (sector + w32 i) = sector_of src i"
    using small(2) by (simp add: written_def unat_w32)
  then have "buf' = src" using sectors_eq [OF read(2) assms(7)] read(3) by simp
  then show ?thesis
    using stores read assms(2) nz by (auto simp: ef2_storage_write_sectors_def ef2_storage_read_sectors_def)
qed

text \<open>A module that has found a block-addressed card of eight sectors on port 3.\<close>

definition sd_module :: "(sd_phase \<times> sectors) fifo_port storage" where
  "sd_module = (started_module \<lparr>fp_card = (Sd_idle, \<lambda>s. replicate 512 0), fp_out = [], fp_in = []\<rparr>)\<lparr>g_mx_baud := 2,
     g_mx_card_type := 4, g_mx_sector_count := 8, g_mx_initialized := True, g_device_count := 1,
     g_devices := [zero_device\<lparr>dev_kind := KIND_MX4SIO, physical_port := 3, sector_size := 512, sector_count := 8\<rparr>, zero_device, zero_device]\<rparr>"

theorem storage_sectors_roundtrip_witness:
  "\<exists>c1 c2. ef2_storage_write_sectors (iop_storage_services quiet_kernel (fifo_bus (wire_card 4 8))) 0 3 (Some (replicate 1024 7)) 2
      (bound_storage_client sd_module) = Some (2, c1) \<and>
    ef2_storage_read_sectors (iop_storage_services quiet_kernel (fifo_bus (wire_card 4 8))) 0 3 (Some (replicate 1024 0)) 2 c1
      = Some (2, replicate 1024 7, c2)"
proof -
  let ?at = "\<lambda>p m (w :: (sd_phase \<times> sectors) fifo_port). fp_card w = (p, m) \<and> phase_ok p \<and> (\<forall>s. length (m s) = 512)"
  have "addresses_fit 4 8" by (simp add: addresses_fit_def)
  then have "card_found quiet_kernel (fifo_bus (wire_card 4 8)) 8 ?at 0 sd_module"
    using block_card_serves [of 4 8] by (simp add: card_found_def ready_for_def sd_module_def started_module_def loaded_module_def)
  moreover have "holds_sectors 8 ?at sd_module (sc_world (bound_storage_client sd_module)) (\<lambda>s. replicate 512 0)"
    by (auto simp: holds_sectors_def bound_storage_client_def sd_module_def started_module_def loaded_module_def
        intro!: exI [of _ "\<lparr>fp_card = (Sd_idle, \<lambda>s. replicate 512 0), fp_out = [], fp_in = []\<rparr>"] exI [of _ zero_storage_reply])
  ultimately show ?thesis
    using storage_sectors_roundtrip [of quiet_kernel "fifo_bus (wire_card 4 8)" 8 ?at 0 sd_module "bound_storage_client sd_module"
        "\<lambda>s. replicate 512 0" 2 3 "replicate 1024 7" "replicate 1024 0"]
    by (auto simp: bound_storage_client_def w32_numeral)
qed

text \<open>
  C27: every command packet ends with a one bit, its 47 bits before that are a multiple of the generator
  x^7 + x^3 + 1, and no packet with a burst of up to seven wrong bits is one: the card notices it.
\<close>

theorem sd_command_crc:
  assumes "0 < e" "e < 128"
  shows "odd (bits_of (command_packet c a)) \<and> bits_of (command_packet c a) div 2 \<in> crc7_words \<and>
    bits_of (command_packet c a) div 2 XOR push_bit k e \<notin> crc7_words"
proof -
  let ?p = "push_bit 7 (bits_of (c # be32_bytes a)) XOR unat (mx_crc7 (c # be32_bytes a) 5)"
  have bits: "bits_of (command_packet c a) = 2 * ?p + 1" by (rule command_packet_bits)
  have word: "?p \<in> crc7_words" by (rule mx_crc7_word) (simp add: be32_bytes_def)
  have "?p XOR push_bit k e \<notin> crc7_words"
  proof
    assume "?p XOR push_bit k e \<in> crc7_words"
    from crc7_xor [OF word this] have "push_bit k e \<in> crc7_words" by (simp add: xor_cancel)
    then show False using crc7_push_bit crc7_degree assms by force
  qed
  then show ?thesis using word by (simp add: bits)
qed

theorem sd_command_crc_witness:
  "bits_of (command_packet (SD_CMD 17) 42) div 2 XOR push_bit 20 0x55 \<notin> crc7_words"
  using sd_command_crc [where e = "0x55" and c = "SD_CMD 17" and a = 42 and k = 20] by simp

text \<open>
  The number of sectors computed from the card's CSD register is the one the register's fields define,
  for both versions of the register, reduced to 32 bits.
\<close>

theorem sd_capacity_exact: "unat (mx_csd_sector_count csd) = csd_sectors csd mod 2 ^ 32"
  by (rule sector_count_csd)

section \<open>Memory cards\<close>

text \<open>
  C28: a page read from a memory card that follows the protocol \<open>serves_pages\<close> is the page, every byte in
  its place, and the format check reports a formatted card exactly when page 0 begins with the magic text.
\<close>

theorem mc_read_page_exact:
  assumes "serves_pages ker bus (g_sio2_mutex st) (physical_port device) pages at" "0 \<le> g_sio2_mutex st" "physical_port device < 4"
    and "length (pages page) = 512" "length (pages 0) = 512" "page < page_count device" "page_size device = 512"
    and "has_cap device EF2_STORAGE_CAP_GEOMETRY" "length data = 512" "length (g_mc_format_page st) = 512"
  shows "(\<exists>w. run_state (mc_read_page ker bus device page data) st = ((0, pages page), st\<lparr>sto_dev := w\<rparr>)) \<and>
    (\<exists>w. run_state (mc_check_format ker bus device) st =
      ((0, if take 28 (pages 0) = format_magic then 1 else 0), st\<lparr>sto_dev := w, g_mc_format_page := pages 0\<rparr>))"
proof -
  have "0 < page_count device" using assms(6) by (auto simp: word_less_nat_alt)
  then obtain w where "run_state (mc_read_page ker bus device 0 (g_mc_format_page st)) st = ((0, pages 0), st\<lparr>sto_dev := w\<rparr>)"
    using read_page_on_card [OF assms(1-3,5) _ assms(7,8,10)] by blast
  moreover have "length format_magic = 28" by (simp add: format_magic_def)
  ultimately have "run_state (mc_check_format ker bus device) st =
      ((0, if take 28 (pages 0) = format_magic then 1 else 0), st\<lparr>sto_dev := w, g_mc_format_page := pages 0\<rparr>)"
    by (simp add: mc_check_format_def)
  then show ?thesis using read_page_on_card [OF assms(1-4,6-9)] by blast
qed

text \<open>A card of 16384 pages on port 2, every byte of a page being the low byte of its number.\<close>

definition low_bytes :: "u32 \<Rightarrow> u8 list" where
  "low_bytes page = replicate 512 (ucast page)"

definition page_device :: storage_device where
  "page_device = zero_device\<lparr>dev_kind := KIND_PS2_MEMORY_CARD, capabilities := 131, physical_port := 2, page_size := 512,
     page_count := 16384\<rparr>"

theorem mc_read_page_exact_witness:
  "\<exists>w. run_state (mc_read_page quiet_kernel (fifo_bus (page_card low_bytes)) page_device 300 (replicate 512 0))
      (started_module \<lparr>fp_card = (0, 0), fp_out = [], fp_in = []\<rparr>)
    = ((0, replicate 512 44), (started_module \<lparr>fp_card = (0, 0), fp_out = [], fp_in = []\<rparr>)\<lparr>sto_dev := w\<rparr>)"
proof -
  have "serves_pages quiet_kernel (fifo_bus (page_card low_bytes)) 1 2 low_bytes (\<lambda>page off w. fp_card w = (page, off) \<and> 32 dvd off)"
    by (rule page_card_serves) (simp_all add: low_bytes_def)
  moreover have "low_bytes 300 = replicate 512 44" "length (low_bytes 300) = 512" "length (low_bytes 0) = 512"
    by (simp_all add: low_bytes_def)
  moreover have "physical_port page_device = 2" "page_count page_device = 16384" "page_size page_device = 512"
    "has_cap page_device EF2_STORAGE_CAP_GEOMETRY"
    by (simp_all add: page_device_def has_cap_def storage_caps)
  moreover have "g_sio2_mutex (started_module w) = 1" "length (g_mc_format_page (started_module w)) = 512" for w :: "(u32 \<times> nat) fifo_port"
    by (simp_all add: started_module_def loaded_module_def)
  ultimately show ?thesis
    using mc_read_page_exact [of quiet_kernel "fifo_bus (page_card low_bytes)" "started_module \<lparr>fp_card = (0, 0), fp_out = [], fp_in = []\<rparr>"
        page_device low_bytes "\<lambda>page off w. fp_card w = (page, off) \<and> 32 dvd off" 300 "replicate 512 0"]
    by simp
qed

end
