(* ===== verification/MemoryCard.thy ===== *)
theory MemoryCard
  imports PadClient
begin

text \<open>
  The client of the memory card server in the console's ROM, \<open>src/ee/storage/memorycard.c\<close>: loading the
  ROM modules with a fallback family, binding, initialisation and slot information.

  The SIF transport is the record of the other clients, extended by the loader of ROM modules; a request
  is a descriptor, and a call returns the first word of the reply together with the type and the free
  clusters that the server has written to the end parameter when the descriptor names it.  The memory
  of the model has no cache, so the write-back before the call and the uncached view after it are left
  out.
\<close>

record mc_desc_param =
  desc_fd :: s32
  desc_port :: s32
  desc_slot :: s32
  desc_size :: s32
  desc_offset :: s32
  desc_origin :: s32
  desc_param :: bool

record mc_answer =
  mc_reply0 :: s32
  end_type :: s32
  end_free_clusters :: s32

record ('w, 'q, 'r) mc_services = "('w, 'q, 'r) sif_services" +
  ef2_iop_load_module_ex :: "string \<Rightarrow> s32 \<Rightarrow> 'w \<Rightarrow> s32 \<times> s32 \<times> 'w"

type_synonym 'w memory_card_services = "('w, mc_desc_param, mc_answer) mc_services"

datatype mc_module_set = MODULE_SET_NONE | MODULE_SET_CLASSIC | MODULE_SET_X

record mc_diag =
  module_set :: mc_module_set
  sio2_load :: s32
  sio2_start :: s32
  mcman_load :: s32
  mcman_start :: s32
  mcserv_load :: s32
  mcserv_start :: s32
  bind_result :: s32

record mc_info =
  mci_result :: s32
  mci_type :: s32
  mci_free_clusters :: s32
  mci_formatted :: s32

record 'w memory_card =
  mc_world :: 'w
  g_mc_desc :: mc_desc_param
  g_mc_answer :: mc_answer
  g_mc_initialized :: bool
  g_mc_diag :: mc_diag

definition zero_desc :: mc_desc_param where
  "zero_desc = \<lparr>desc_fd = 0, desc_port = 0, desc_slot = 0, desc_size = 0, desc_offset = 0, desc_origin = 0, desc_param = False\<rparr>"

definition zero_answer :: mc_answer where
  "zero_answer = \<lparr>mc_reply0 = 0, end_type = 0, end_free_clusters = 0\<rparr>"

definition ef2_mc_bind :: "'w memory_card_services \<Rightarrow> 'w memory_card \<Rightarrow> s32 \<times> 'w memory_card" where
  "ef2_mc_bind sif st =
    (let (result, server, w) = ef2_sif_bind sif 0x80000400 (mc_world st); st = st\<lparr>mc_world := w\<rparr>
     in if result < 0 then (result, st) else if server = 0 then (-6, st) else (0, st))"

definition ef2_mc_load_rom_modules ::
  "'w memory_card_services \<Rightarrow> mc_module_set \<Rightarrow> string \<Rightarrow> string \<Rightarrow> string \<Rightarrow> 'w memory_card \<Rightarrow> 'w memory_card" where
  "ef2_mc_load_rom_modules sif modules sio2 mcman mcserv st =
    (let (l1, s1, w) = ef2_iop_load_module_ex sif sio2 (-1) (mc_world st);
         (l2, s2, w) = ef2_iop_load_module_ex sif mcman (-1) w;
         (l3, s3, w) = ef2_iop_load_module_ex sif mcserv (-1) w
     in st\<lparr>mc_world := w, g_mc_diag := (g_mc_diag st)\<lparr>module_set := modules, sio2_load := l1, sio2_start := s1,
            mcman_load := l2, mcman_start := s2, mcserv_load := l3, mcserv_start := s3\<rparr>\<rparr>)"

definition mc_call ::
  "'w memory_card_services \<Rightarrow> s32 \<Rightarrow> mc_desc_param \<Rightarrow> 'w memory_card \<Rightarrow> s32 \<times> 'w memory_card" where
  "mc_call sif command desc st =
    (let (result, answer, w) = ef2_sif_call sif command desc 64 zero_answer (mc_world st)
     in (result, st\<lparr>g_mc_desc := desc, g_mc_answer := answer, mc_world := w\<rparr>))"

definition fresh_mc_diag :: mc_diag where
  "fresh_mc_diag = \<lparr>module_set = MODULE_SET_NONE, sio2_load = -1, sio2_start = -1, mcman_load = -1, mcman_start = -1,
    mcserv_load = -1, mcserv_start = -1, bind_result = -1\<rparr>"

definition mc_bind_diag :: "'w memory_card_services \<Rightarrow> 'w memory_card \<Rightarrow> s32 \<times> 'w memory_card" where
  "mc_bind_diag sif st =
    (let (result, st) = ef2_mc_bind sif st in (result, st\<lparr>g_mc_diag := (g_mc_diag st)\<lparr>bind_result := result\<rparr>\<rparr>))"

definition ef2_mc_init :: "'w memory_card_services \<Rightarrow> 'w memory_card \<Rightarrow> s32 \<times> 'w memory_card" where
  "ef2_mc_init sif st =
    (if g_mc_initialized st then (0, st)
     else
       let st = st\<lparr>g_mc_diag := fresh_mc_diag\<rparr>;
           (result, w) = ef2_sif_init sif (mc_world st); st = st\<lparr>mc_world := w\<rparr>
       in if result < 0 then (-100 + result, st)
          else
            let st = ef2_mc_load_rom_modules sif MODULE_SET_CLASSIC ''rom0:SIO2MAN'' ''rom0:MCMAN'' ''rom0:MCSERV'' st;
                (result, st) = mc_bind_diag sif st;
                (result, st) =
                  (if result < 0
                   then mc_bind_diag sif
                          (ef2_mc_load_rom_modules sif MODULE_SET_X ''rom0:XSIO2MAN'' ''rom0:XMCMAN'' ''rom0:XMCSERV'' st)
                   else (result, st))
            in if result < 0 then (-200 + result, st)
               else
                 let (result, st) = mc_call sif 0x70 (zero_desc\<lparr>desc_offset := -217\<rparr>) st
                 in if result < 0 then (-300 + result, st)
                    else if mc_reply0 (g_mc_answer st) < 0 then (-400 + mc_reply0 (g_mc_answer st), st)
                    else (0, st\<lparr>g_mc_initialized := True\<rparr>))"

text \<open>The result and the information as the call leaves it; \<open>info\<close> is whether the pointer is non-null.\<close>

definition ef2_mc_get_info ::
  "'w memory_card_services \<Rightarrow> s32 \<Rightarrow> s32 \<Rightarrow> bool \<Rightarrow> 'w memory_card \<Rightarrow> s32 \<times> mc_info option \<times> 'w memory_card" where
  "ef2_mc_get_info sif port slot info st =
    (if \<not> info then (-1000, None, st)
     else
       let fresh = \<lparr>mci_result = -1000, mci_type = 0, mci_free_clusters = 0, mci_formatted = 0\<rparr>;
           (result, st) = ef2_mc_init sif st
       in if result < 0 then (result, Some (fresh\<lparr>mci_result := result\<rparr>), st)
          else if port < 0 \<or> port > 1 \<or> slot < 0 then (-1001, Some fresh, st)
          else
            let (result, st) = mc_call sif 0x78 (zero_desc\<lparr>desc_port := port, desc_slot := slot, desc_size := 1,
                  desc_offset := 1, desc_origin := 1, desc_param := True\<rparr>) st
            in if result < 0 then (-1100 + result, Some (fresh\<lparr>mci_result := -1100 + result\<rparr>), st)
               else
                 let answer = g_mc_answer st; r = mc_reply0 answer
                 in (r, Some \<lparr>mci_result = r, mci_type = end_type answer, mci_free_clusters = end_free_clusters answer,
                              mci_formatted = if end_type answer = 0 \<or> r = -2 then 0 else 1\<rparr>, st))"

definition ef2_mc_get_diag :: "bool \<Rightarrow> 'w memory_card \<Rightarrow> s32 \<times> mc_diag option" where
  "ef2_mc_get_diag diag st = (if \<not> diag then (-1, None) else (0, Some (g_mc_diag st)))"

end
