(* ===== verification/EeMachine.thy ===== *)
theory EeMachine
  imports StatePost Bus
begin

text \<open>
  The machine that the graphics code of the EE drives: device registers, memory, the cycle counter, the
  data cache, and the assembly routines of \<open>src/ee/gs/gif.S\<close> and of the kernel glue, as functions on an
  arbitrary machine state; and the profile counters of \<open>src/ee/kernel/profile.c\<close>.

  A packet is an array at an address: the code stores its quadwords in memory and hands the address on.
  The \<open>sync\<close> and \<open>nop\<close> instructions order accesses that the model makes in program order anyway and are
  left out.
\<close>

record gif_qword =
  lo :: u64
  hi :: u64

text \<open>Beside the registers: memory words and quadwords, \<open>ef2_cpu_count\<close>, a data cache instruction for
  the line at an address, the two routines of \<open>gif.S\<close>, the system call that sets the video mode, the
  version of the ROM, and the addresses that the linker and the stack give to the packet arrays and to
  the palette buffer.\<close>

record 'w ee = "'w bus" +
  rd64 :: "u32 \<Rightarrow> 'w \<Rightarrow> u64 \<times> 'w"
  wr64 :: "u32 \<Rightarrow> u64 \<Rightarrow> 'w \<Rightarrow> 'w"
  ld_word :: "u32 \<Rightarrow> 'w \<Rightarrow> u32"
  st_word :: "u32 \<Rightarrow> u32 \<Rightarrow> 'w \<Rightarrow> 'w"
  st_qword :: "u32 \<Rightarrow> gif_qword \<Rightarrow> 'w \<Rightarrow> 'w"
  ef2_cpu_count :: "'w \<Rightarrow> u32 \<times> 'w"
  cache_line :: "u32 \<Rightarrow> 'w \<Rightarrow> 'w"
  ef2_gif_reset :: "'w \<Rightarrow> 'w"
  ef2_gif_send_qwords :: "u32 \<Rightarrow> u32 \<Rightarrow> 'w \<Rightarrow> 'w"
  ef2_kernel_set_gs_crt :: "s32 \<Rightarrow> s32 \<Rightarrow> s32 \<Rightarrow> 'w \<Rightarrow> 'w"
  ef2_iop_get_romver :: "'w \<Rightarrow> (s32 \<times> string) \<times> 'w"
  packet_at :: u32
  clut_stage_at :: u32

text \<open>The addition of two \<open>int\<close> values as the target makes it; beyond the range it wraps (in C its
  behaviour is undefined there).\<close>

definition add_s32 :: "s32 \<Rightarrow> s32 \<Rightarrow> s32" where
  "add_s32 a b = sint (word_of_int (a + b) :: u32)"

lemma add_s32_small: "-2147483648 \<le> a + b \<Longrightarrow> a + b < 2147483648 \<Longrightarrow> add_s32 a b = a + b"
proof -
  assume "-2147483648 \<le> a + b" "a + b < 2147483648"
  then have "signed_take_bit 31 (a + b) = a + b" by (intro signed_take_bit_int_eq_self) auto
  then show ?thesis by (simp add: add_s32_def sint_sbintrunc' del: of_int_add)
qed

section \<open>Profile counters\<close>

record profile_counter =
  samples :: u32
  last_ticks :: u32
  min_ticks :: u32
  max_ticks :: u32
  total_ticks :: u64

definition ef2_profile_reset :: "profile_counter option \<Rightarrow> profile_counter option" where
  "ef2_profile_reset counter = map_option (\<lambda>c. c\<lparr>samples := 0, last_ticks := 0, min_ticks := 0, max_ticks := 0, total_ticks := 0\<rparr>) counter"

definition zero_counter :: profile_counter where
  "zero_counter = \<lparr>samples = 0, last_ticks = 0, min_ticks = 0, max_ticks = 0, total_ticks = 0\<rparr>"

definition ef2_profile_record :: "profile_counter \<Rightarrow> u32 \<Rightarrow> profile_counter" where
  "ef2_profile_record c ticks =
    (let c = (if samples c = 0 then c\<lparr>min_ticks := ticks, max_ticks := ticks\<rparr>
              else
                let c = (if ticks < min_ticks c then c\<lparr>min_ticks := ticks\<rparr> else c)
                in if ticks > max_ticks c then c\<lparr>max_ticks := ticks\<rparr> else c)
     in c\<lparr>last_ticks := ticks, total_ticks := total_ticks c + ucast ticks, samples := samples c + 1\<rparr>)"

definition ef2_cpu_count_elapsed :: "u32 \<Rightarrow> u32 \<Rightarrow> u32" where
  "ef2_cpu_count_elapsed start stop = stop - start"

section \<open>The data cache\<close>

text \<open>\<open>src/ee/kernel/cache.c\<close>: the first and the last address are multiples of the line size, \<open>n\<close> is the
  number of lines between them.\<close>

fun cache_lines :: "('w, 'z) ee_scheme \<Rightarrow> nat \<Rightarrow> u32 \<Rightarrow> 'w \<Rightarrow> 'w" where
  "cache_lines ee 0 address w = w"
| "cache_lines ee (Suc n) address w = cache_lines ee n (address + 64) (cache_line ee address w)"

definition ef2_cache_writeback_invalidate_range :: "('w, 'z) ee_scheme \<Rightarrow> u32 \<Rightarrow> u32 \<Rightarrow> 'w \<Rightarrow> 'w" where
  "ef2_cache_writeback_invalidate_range ee ptr n w =
    (if ptr = 0 \<or> n = 0 then w
     else
       let address = ptr AND NOT 63; stop = (ptr + n + 63) AND NOT 63
       in cache_lines ee (if address < stop then unat (stop - address) div 64 else 0) address w)"

end
