(* ===== verification/GifDma.thy ===== *)
theory GifDma
  imports EeMachine
begin

text \<open>
  Sending packets to the graphics synthesizer, \<open>src/ee/gs/gif_dma.c\<close>: the DMA channel of the GIF with its
  bounded waits and statistics.
\<close>

definition EF2_D2_CHCR :: u32 where "EF2_D2_CHCR = 0x1000A000"
definition EF2_D2_MADR :: u32 where "EF2_D2_MADR = 0x1000A010"
definition EF2_D2_QWC :: u32 where "EF2_D2_QWC = 0x1000A020"
definition EF2_D2_TADR :: u32 where "EF2_D2_TADR = 0x1000A030"
definition EF2_D_CTRL :: u32 where "EF2_D_CTRL = 0x1000E000"
definition EF2_D_STAT :: u32 where "EF2_D_STAT = 0x1000E010"
definition EF2_DMAC_STR :: u32 where "EF2_DMAC_STR = 0x100"
definition EF2_GIF_DMA_DEFAULT_TIMEOUT :: u32 where "EF2_GIF_DMA_DEFAULT_TIMEOUT = 0x01000000"

record gif_dma_stats =
  submissions :: u32
  completions :: u32
  qwords_submitted :: u32
  wait_calls :: u32
  timeouts :: u32
  transfer_ticks :: profile_counter
  wait_ticks :: profile_counter

record 'w gif_dma =
  ee_world :: 'w
  g_gif_dma_initialized :: bool
  g_gif_dma_active :: bool
  g_gif_dma_active_start :: u32
  g_gif_dma_stats :: gif_dma_stats

definition on_ee :: "('w \<Rightarrow> 'a \<times> 'w) \<Rightarrow> (('w, 'z) gif_dma_scheme, 'a) state" where
  "on_ee f = State (\<lambda>st. let (a, w) = f (ee_world st) in (a, st\<lparr>ee_world := w\<rparr>))"

definition do_ee :: "('w \<Rightarrow> 'w) \<Rightarrow> (('w, 'z) gif_dma_scheme, unit) state" where
  "do_ee f = modify (\<lambda>st. st\<lparr>ee_world := f (ee_world st)\<rparr>)"

lemma run_on_ee [simp]:
  "run_state (on_ee f) st = (fst (f (ee_world st)), st\<lparr>ee_world := snd (f (ee_world st))\<rparr>)"
  by (simp add: on_ee_def split: prod.split)

lemma run_do_ee [simp]: "run_state (do_ee f) st = ((), st\<lparr>ee_world := f (ee_world st)\<rparr>)"
  by (simp add: do_ee_def)

definition ef2_gif_dma_reset_stats :: "('w, 'y) ee_scheme \<Rightarrow> (('w, 'z) gif_dma_scheme, unit) state" where
  "ef2_gif_dma_reset_stats ee = do {
     modify (\<lambda>st. st\<lparr>g_gif_dma_stats := \<lparr>submissions = 0, completions = 0, qwords_submitted = 0, wait_calls = 0,
       timeouts = 0, transfer_ticks = zero_counter, wait_ticks = zero_counter\<rparr>\<rparr>);
     active \<leftarrow> reads g_gif_dma_active;
     if active then do {
       now \<leftarrow> on_ee (ef2_cpu_count ee);
       modify (\<lambda>st. st\<lparr>g_gif_dma_active_start := now\<rparr>) }
     else ret () }"

definition ef2_gif_dma_get_stats :: "bool \<Rightarrow> ('w, 'z) gif_dma_scheme \<Rightarrow> s32 \<times> gif_dma_stats option" where
  "ef2_gif_dma_get_stats stats st = (if \<not> stats then (-1, None) else (0, Some (g_gif_dma_stats st)))"

lemma countdown_pred: "t \<noteq> 1 \<Longrightarrow> unat (t - 2) < unat (t - 1 :: u32)"
  using u32_pred_less [of "t - 1"] by simp

text \<open>The wait for the channel: whether it became idle before the count ran out.\<close>

function dma_wait_loop :: "('w, 'y) ee_scheme \<Rightarrow> u32 \<Rightarrow> 'w \<Rightarrow> bool \<times> 'w" where
  "dma_wait_loop ee timeout w =
    (let (chcr, w) = rd32 ee EF2_D2_CHCR w
     in if chcr AND EF2_DMAC_STR = 0 then (True, w)
        else if timeout - 1 = 0 then (False, w)
        else dma_wait_loop ee (timeout - 1) w)"
  by pat_completeness auto
termination
  by (relation "measure (\<lambda>(ee, t, w). unat (t - 1))") (auto simp: countdown_pred)

declare dma_wait_loop.simps [simp del]

definition stat_add :: "(gif_dma_stats \<Rightarrow> gif_dma_stats) \<Rightarrow> (('w, 'z) gif_dma_scheme, unit) state" where
  "stat_add f = modify (\<lambda>st. st\<lparr>g_gif_dma_stats := f (g_gif_dma_stats st)\<rparr>)"

definition ef2_gif_dma_wait :: "('w, 'y) ee_scheme \<Rightarrow> u32 \<Rightarrow> (('w, 'z) gif_dma_scheme, s32) state" where
  "ef2_gif_dma_wait ee timeout = do {
     wait_start \<leftarrow> on_ee (ef2_cpu_count ee);
     stat_add (\<lambda>s. s\<lparr>wait_calls := wait_calls s + 1\<rparr>);
     idle \<leftarrow> on_ee (dma_wait_loop ee (if timeout = 0 then EF2_GIF_DMA_DEFAULT_TIMEOUT else timeout));
     now \<leftarrow> on_ee (ef2_cpu_count ee);
     stat_add (\<lambda>s. s\<lparr>wait_ticks := ef2_profile_record (wait_ticks s) (ef2_cpu_count_elapsed wait_start now)\<rparr>);
     if \<not> idle then do {
       stat_add (\<lambda>s. s\<lparr>timeouts := timeouts s + 1\<rparr>);
       ret (-1) }
     else do {
       st \<leftarrow> State_Monad.get;
       if g_gif_dma_active st then do {
         stat_add (\<lambda>s. s\<lparr>transfer_ticks := ef2_profile_record (transfer_ticks s)
           (ef2_cpu_count_elapsed (g_gif_dma_active_start st) now)\<rparr>);
         stat_add (\<lambda>s. s\<lparr>completions := completions s + 1\<rparr>);
         modify (\<lambda>st. st\<lparr>g_gif_dma_active := False\<rparr>);
         ret 0 }
       else ret 0 } }"

definition ef2_gif_dma_init :: "('w, 'y) ee_scheme \<Rightarrow> (('w, 'z) gif_dma_scheme, s32) state" where
  "ef2_gif_dma_init ee = do {
     initialized \<leftarrow> reads g_gif_dma_initialized;
     if initialized then ret 0
     else do {
       result \<leftarrow> ef2_gif_dma_wait ee EF2_GIF_DMA_DEFAULT_TIMEOUT;
       if result < 0 then ret (-1)
       else do {
         do_ee (wr32 ee EF2_D2_CHCR 0);
         do_ee (wr32 ee EF2_D2_MADR 0);
         do_ee (wr32 ee EF2_D2_QWC 0);
         do_ee (wr32 ee EF2_D2_TADR 0);
         do_ee (wr32 ee EF2_D_STAT (push_bit 2 1));
         ctrl \<leftarrow> on_ee (rd32 ee EF2_D_CTRL);
         do_ee (wr32 ee EF2_D_CTRL (ctrl OR 1));
         modify (\<lambda>st. st\<lparr>g_gif_dma_initialized := True\<rparr>);
         ret 0 } } }"

text \<open>\<open>packet\<close> is the address of the quadwords.\<close>

definition ef2_gif_dma_submit_qwords :: "('w, 'y) ee_scheme \<Rightarrow> u32 \<Rightarrow> u32 \<Rightarrow> (('w, 'z) gif_dma_scheme, s32) state" where
  "ef2_gif_dma_submit_qwords ee packet count =
    (if count = 0 then ret 0
     else if packet = 0 then ret (-1)
     else if packet AND 0x0F \<noteq> 0 then ret (-2)
     else if count > 0xFFFF then ret (-3)
     else do {
       result \<leftarrow> ef2_gif_dma_init ee;
       if result < 0 then ret (-4)
       else do {
         result \<leftarrow> ef2_gif_dma_wait ee EF2_GIF_DMA_DEFAULT_TIMEOUT;
         if result < 0 then ret (-5)
         else do {
           do_ee (ef2_cache_writeback_invalidate_range ee packet (push_bit 4 count));
           do_ee (wr32 ee EF2_D_STAT (push_bit 2 1));
           do_ee (wr32 ee EF2_D2_QWC (count AND 0xFFFF));
           do_ee (wr32 ee EF2_D2_MADR (packet AND 0x7FFFFFFF));
           now \<leftarrow> on_ee (ef2_cpu_count ee);
           modify (\<lambda>st. st\<lparr>g_gif_dma_active_start := now, g_gif_dma_active := True\<rparr>);
           stat_add (\<lambda>s. s\<lparr>submissions := submissions s + 1, qwords_submitted := qwords_submitted s + count\<rparr>);
           do_ee (wr32 ee EF2_D2_CHCR 0x101);
           ret 0 } } })"

definition ef2_gif_dma_send_qwords :: "('w, 'y) ee_scheme \<Rightarrow> u32 \<Rightarrow> u32 \<Rightarrow> (('w, 'z) gif_dma_scheme, s32) state" where
  "ef2_gif_dma_send_qwords ee packet count = do {
     result \<leftarrow> ef2_gif_dma_submit_qwords ee packet count;
     if result < 0 then ret result else ef2_gif_dma_wait ee EF2_GIF_DMA_DEFAULT_TIMEOUT }"

end
