(* ===== verification/GsRegs.thy ===== *)
theory GsRegs
  imports GifDma
begin

text \<open>
  The registers of the graphics synthesizer, \<open>include/ef2/gs.h\<close> and \<open>include/ef2/gif.h\<close>: addresses,
  formats and the packing of their fields.
\<close>

definition EF2_GS_REG_PMODE :: u32 where "EF2_GS_REG_PMODE = 0x12000000"
definition EF2_GS_REG_DISPFB2 :: u32 where "EF2_GS_REG_DISPFB2 = 0x12000090"
definition EF2_GS_REG_DISPLAY2 :: u32 where "EF2_GS_REG_DISPLAY2 = 0x120000A0"
definition EF2_GS_REG_BGCOLOR :: u32 where "EF2_GS_REG_BGCOLOR = 0x120000E0"
definition EF2_GS_REG_CSR :: u32 where "EF2_GS_REG_CSR = 0x12001000"
definition EF2_GS_REG_IMR :: u32 where "EF2_GS_REG_IMR = 0x12001010"

definition EF2_GS_CSR_VSINT :: u64 where "EF2_GS_CSR_VSINT = push_bit 3 1"
definition EF2_GS_CSR_RESET :: u64 where "EF2_GS_CSR_RESET = push_bit 9 1"

definition EF2_GS_PSMCT32 :: u8 where "EF2_GS_PSMCT32 = 0"
definition EF2_GS_PSMCT16 :: u8 where "EF2_GS_PSMCT16 = 0x02"
definition EF2_GS_PSMT8 :: u8 where "EF2_GS_PSMT8 = 0x13"
definition EF2_GS_PSMT4 :: u8 where "EF2_GS_PSMT4 = 0x14"

definition EF2_GS_VRAM_BYTES :: u32 where "EF2_GS_VRAM_BYTES = 4 * 1024 * 1024"

definition EF2_GS_ADDR_PRIM :: u64 where "EF2_GS_ADDR_PRIM = 0x00"
definition EF2_GS_ADDR_RGBAQ :: u64 where "EF2_GS_ADDR_RGBAQ = 0x01"
definition EF2_GS_ADDR_UV :: u64 where "EF2_GS_ADDR_UV = 0x03"
definition EF2_GS_ADDR_XYZ2 :: u64 where "EF2_GS_ADDR_XYZ2 = 0x05"
definition EF2_GS_ADDR_TEX0_1 :: u64 where "EF2_GS_ADDR_TEX0_1 = 0x06"
definition EF2_GS_ADDR_TEX1_1 :: u64 where "EF2_GS_ADDR_TEX1_1 = 0x14"
definition EF2_GS_ADDR_XYOFFSET_1 :: u64 where "EF2_GS_ADDR_XYOFFSET_1 = 0x18"
definition EF2_GS_ADDR_PRMODECONT :: u64 where "EF2_GS_ADDR_PRMODECONT = 0x1A"
definition EF2_GS_ADDR_TEXFLUSH :: u64 where "EF2_GS_ADDR_TEXFLUSH = 0x3F"
definition EF2_GS_ADDR_SCISSOR_1 :: u64 where "EF2_GS_ADDR_SCISSOR_1 = 0x40"
definition EF2_GS_ADDR_ALPHA_1 :: u64 where "EF2_GS_ADDR_ALPHA_1 = 0x42"
definition EF2_GS_ADDR_TEST_1 :: u64 where "EF2_GS_ADDR_TEST_1 = 0x47"
definition EF2_GS_ADDR_FRAME_1 :: u64 where "EF2_GS_ADDR_FRAME_1 = 0x4C"
definition EF2_GS_ADDR_BITBLTBUF :: u64 where "EF2_GS_ADDR_BITBLTBUF = 0x50"
definition EF2_GS_ADDR_TRXPOS :: u64 where "EF2_GS_ADDR_TRXPOS = 0x51"
definition EF2_GS_ADDR_TRXREG :: u64 where "EF2_GS_ADDR_TRXREG = 0x52"
definition EF2_GS_ADDR_TRXDIR :: u64 where "EF2_GS_ADDR_TRXDIR = 0x53"

definition EF2_GS_PRIM_LINE :: u8 where "EF2_GS_PRIM_LINE = 0x01"
definition EF2_GS_PRIM_SPRITE :: u8 where "EF2_GS_PRIM_SPRITE = 0x06"

definition EF2_GIF_REG_AD :: u64 where "EF2_GIF_REG_AD = 0x0E"
definition EF2_GIF_FLG_PACKED :: u8 where "EF2_GIF_FLG_PACKED = 0"
definition EF2_GIF_FLG_IMAGE :: u8 where "EF2_GIF_FLG_IMAGE = 2"

definition ef2_gif_pack_tag :: "u16 \<Rightarrow> u8 \<Rightarrow> u8 \<Rightarrow> u16 \<Rightarrow> u8 \<Rightarrow> u8 \<Rightarrow> u64" where
  "ef2_gif_pack_tag nloop eop pre prim flg nreg =
    ucast (nloop AND 0x7FFF) OR push_bit 15 (ucast (eop AND 1)) OR push_bit 46 (ucast (pre AND 1))
    OR push_bit 47 (ucast (prim AND 0x07FF)) OR push_bit 58 (ucast (flg AND 3)) OR push_bit 60 (ucast (nreg AND 0x0F))"

section \<open>Display\<close>

definition ef2_gs_pack_bgcolor :: "u8 \<Rightarrow> u8 \<Rightarrow> u8 \<Rightarrow> u64" where
  "ef2_gs_pack_bgcolor r g b = ucast r OR push_bit 8 (ucast g) OR push_bit 16 (ucast b)"

definition ef2_gs_pack_pmode :: "u8 \<Rightarrow> u8 \<Rightarrow> u8 \<Rightarrow> u8 \<Rightarrow> u8 \<Rightarrow> u8 \<Rightarrow> u64" where
  "ef2_gs_pack_pmode en1 en2 mmod amod slbg alpha =
    ucast (en1 AND 1) OR push_bit 1 (ucast (en2 AND 1)) OR push_bit 2 1 OR push_bit 5 (ucast (mmod AND 1))
    OR push_bit 6 (ucast (amod AND 1)) OR push_bit 7 (ucast (slbg AND 1)) OR push_bit 8 (ucast alpha)"

definition ef2_gs_pack_dispfb :: "u16 \<Rightarrow> u8 \<Rightarrow> u8 \<Rightarrow> u16 \<Rightarrow> u16 \<Rightarrow> u64" where
  "ef2_gs_pack_dispfb fbp fbw psm dbx dby =
    ucast (fbp AND 0x01FF) OR push_bit 9 (ucast (fbw AND 0x3F)) OR push_bit 15 (ucast (psm AND 0x1F))
    OR push_bit 32 (ucast (dbx AND 0x07FF)) OR push_bit 43 (ucast (dby AND 0x07FF))"

definition ef2_gs_pack_display :: "u16 \<Rightarrow> u16 \<Rightarrow> u8 \<Rightarrow> u8 \<Rightarrow> u16 \<Rightarrow> u16 \<Rightarrow> u64" where
  "ef2_gs_pack_display dx dy magh magv dw dh =
    ucast (dx AND 0x0FFF) OR push_bit 12 (ucast (dy AND 0x07FF)) OR push_bit 23 (ucast (magh AND 0x0F))
    OR push_bit 27 (ucast (magv AND 0x03)) OR push_bit 32 (ucast (dw AND 0x0FFF)) OR push_bit 44 (ucast (dh AND 0x07FF))"

section \<open>Drawing\<close>

definition ef2_gs_pack_frame :: "u16 \<Rightarrow> u8 \<Rightarrow> u8 \<Rightarrow> u32 \<Rightarrow> u64" where
  "ef2_gs_pack_frame fbp fbw psm mask' =
    ucast (fbp AND 0x01FF) OR push_bit 16 (ucast (fbw AND 0x3F)) OR push_bit 24 (ucast (psm AND 0x3F))
    OR push_bit 32 (ucast mask')"

definition ef2_gs_pack_xyoffset :: "u16 \<Rightarrow> u16 \<Rightarrow> u64" where
  "ef2_gs_pack_xyoffset x y = ucast x OR push_bit 32 (ucast y)"

definition ef2_gs_pack_scissor :: "u16 \<Rightarrow> u16 \<Rightarrow> u16 \<Rightarrow> u16 \<Rightarrow> u64" where
  "ef2_gs_pack_scissor x0 x1 y0 y1 =
    ucast (x0 AND 0x07FF) OR push_bit 16 (ucast (x1 AND 0x07FF)) OR push_bit 32 (ucast (y0 AND 0x07FF))
    OR push_bit 48 (ucast (y1 AND 0x07FF))"

definition ef2_gs_pack_prim :: "u8 \<Rightarrow> u64" where
  "ef2_gs_pack_prim prim = ucast (prim AND 0x07)"

definition ef2_gs_pack_prim_ex :: "u8 \<Rightarrow> u8 \<Rightarrow> u8 \<Rightarrow> u8 \<Rightarrow> u8 \<Rightarrow> u8 \<Rightarrow> u8 \<Rightarrow> u8 \<Rightarrow> u8 \<Rightarrow> u64" where
  "ef2_gs_pack_prim_ex prim iip tme fge abe aa1 fst' ctxt fix' =
    ucast (prim AND 0x07) OR push_bit 3 (ucast (iip AND 1)) OR push_bit 4 (ucast (tme AND 1))
    OR push_bit 5 (ucast (fge AND 1)) OR push_bit 6 (ucast (abe AND 1)) OR push_bit 7 (ucast (aa1 AND 1))
    OR push_bit 8 (ucast (fst' AND 1)) OR push_bit 9 (ucast (ctxt AND 1)) OR push_bit 10 (ucast (fix' AND 1))"

definition ef2_gs_pack_uv :: "u16 \<Rightarrow> u16 \<Rightarrow> u64" where
  "ef2_gs_pack_uv u v = ucast (u AND 0x3FFF) OR push_bit 16 (ucast (v AND 0x3FFF))"

definition ef2_gs_pack_tex0 :: "u16 \<Rightarrow> u8 \<Rightarrow> u8 \<Rightarrow> u8 \<Rightarrow> u8 \<Rightarrow> u8 \<Rightarrow> u8 \<Rightarrow> u64" where
  "ef2_gs_pack_tex0 tbp0 tbw psm tw th tcc tfx =
    ucast (tbp0 AND 0x3FFF) OR push_bit 14 (ucast (tbw AND 0x3F)) OR push_bit 20 (ucast (psm AND 0x3F))
    OR push_bit 26 (ucast (tw AND 0x0F)) OR push_bit 30 (ucast (th AND 0x0F)) OR push_bit 34 (ucast (tcc AND 1))
    OR push_bit 35 (ucast (tfx AND 3))"

definition ef2_gs_pack_tex0_clut ::
  "u16 \<Rightarrow> u8 \<Rightarrow> u8 \<Rightarrow> u8 \<Rightarrow> u8 \<Rightarrow> u8 \<Rightarrow> u8 \<Rightarrow> u16 \<Rightarrow> u8 \<Rightarrow> u8 \<Rightarrow> u8 \<Rightarrow> u8 \<Rightarrow> u64" where
  "ef2_gs_pack_tex0_clut tbp0 tbw psm tw th tcc tfx cbp cpsm csm csa cld =
    ucast (tbp0 AND 0x3FFF) OR push_bit 14 (ucast (tbw AND 0x3F)) OR push_bit 20 (ucast (psm AND 0x3F))
    OR push_bit 26 (ucast (tw AND 0x0F)) OR push_bit 30 (ucast (th AND 0x0F)) OR push_bit 34 (ucast (tcc AND 1))
    OR push_bit 35 (ucast (tfx AND 3)) OR push_bit 37 (ucast (cbp AND 0x3FFF)) OR push_bit 51 (ucast (cpsm AND 0x0F))
    OR push_bit 55 (ucast (csm AND 1)) OR push_bit 56 (ucast (csa AND 0x1F)) OR push_bit 61 (ucast (cld AND 7))"

definition ef2_gs_pack_alpha :: "u8 \<Rightarrow> u8 \<Rightarrow> u8 \<Rightarrow> u8 \<Rightarrow> u8 \<Rightarrow> u64" where
  "ef2_gs_pack_alpha a b c d fix' =
    ucast (a AND 3) OR push_bit 2 (ucast (b AND 3)) OR push_bit 4 (ucast (c AND 3)) OR push_bit 6 (ucast (d AND 3))
    OR push_bit 32 (ucast fix')"

definition ef2_gs_pack_rgbaq :: "u8 \<Rightarrow> u8 \<Rightarrow> u8 \<Rightarrow> u8 \<Rightarrow> u64" where
  "ef2_gs_pack_rgbaq r g b a =
    ucast r OR push_bit 8 (ucast g) OR push_bit 16 (ucast b) OR push_bit 24 (ucast a) OR push_bit 32 0x3F800000"

definition ef2_gs_pack_xyz :: "u16 \<Rightarrow> u16 \<Rightarrow> u32 \<Rightarrow> u64" where
  "ef2_gs_pack_xyz x y z = ucast x OR push_bit 16 (ucast y) OR push_bit 32 (ucast z)"

section \<open>Transfers\<close>

definition ef2_gs_pack_bitbltbuf :: "u16 \<Rightarrow> u8 \<Rightarrow> u8 \<Rightarrow> u64" where
  "ef2_gs_pack_bitbltbuf dbp dbw dpsm =
    push_bit 32 (ucast (dbp AND 0x3FFF)) OR push_bit 48 (ucast (dbw AND 0x3F)) OR push_bit 56 (ucast (dpsm AND 0x3F))"

definition ef2_gs_pack_trxpos :: "u16 \<Rightarrow> u16 \<Rightarrow> u64" where
  "ef2_gs_pack_trxpos dx dy = push_bit 32 (ucast (dx AND 0x07FF)) OR push_bit 48 (ucast (dy AND 0x07FF))"

definition ef2_gs_pack_trxreg :: "u16 \<Rightarrow> u16 \<Rightarrow> u64" where
  "ef2_gs_pack_trxreg width height = ucast (width AND 0x0FFF) OR push_bit 32 (ucast (height AND 0x0FFF))"

end
