(* ===== verification/Video.thy ===== *)
theory Video
  imports GsRegs
begin

text \<open>
  The video library, \<open>src/ee/gs/video.c\<close>, first part: its state, the packets to the graphics synthesizer,
  the display, double buffering and the flat drawing operations.

  Enumerations that the code checks are integers.  A pointer argument that only receives a value is left
  out where it is never null in the library, and is whether it is non-null otherwise.  \<open>reserved\<close> padding
  is left out.
\<close>

definition EF2_VIDEO_AUTO :: s32 where "EF2_VIDEO_AUTO = 0x00"
definition EF2_VIDEO_NTSC :: s32 where "EF2_VIDEO_NTSC = 0x02"
definition EF2_VIDEO_PAL :: s32 where "EF2_VIDEO_PAL = 0x03"
definition EF2_VIDEO_FIELD :: s32 where "EF2_VIDEO_FIELD = 0"
definition EF2_VIDEO_FB_RGBA32 :: s32 where "EF2_VIDEO_FB_RGBA32 = 0"
definition EF2_VIDEO_FB_RGB16 :: s32 where "EF2_VIDEO_FB_RGB16 = 1"

definition EF2_GS_TEXTURE_PAGE_BYTES :: u32 where "EF2_GS_TEXTURE_PAGE_BYTES = 8192"
definition EF2_GIF_IMAGE_MAX_QWORDS :: u32 where "EF2_GIF_IMAGE_MAX_QWORDS = 0x7FFF"

record video_config =
  cfg_standard :: s32
  cfg_interlaced :: u8
  cfg_field_mode :: s32
  cfg_format :: s32
  cfg_width :: u16
  cfg_height :: u16

record video_layout =
  lay_format :: s32
  lay_width :: u16
  lay_height :: u16
  lay_buffer_width :: u8
  lay_psm :: u8
  lay_bytes_per_buffer :: u32
  lay_buffer_base :: "u32 list"
  lay_texture_start :: u32

record 'w video = "'w gif_dma" +
  ef2_video_width :: u16
  ef2_video_height :: u16
  ef2_video_active_config :: video_config
  ef2_video_active_layout :: video_layout
  ef2_video_gif_dma_available :: u32
  ef2_video_gif_dma_fallbacks :: u32
  ef2_video_texture_start :: u32
  ef2_video_texture_cursor :: u32
  ef2_video_framebuffer_bytes :: u32
  ef2_video_framebuffer_base :: "u32 list"
  ef2_video_display_buffer :: u32
  ef2_video_draw_buffer :: u32
  ef2_video_double_buffered :: u32
  ef2_video_present_count :: u32
  ef2_video_vsync_timeouts :: u32
  ef2_video_vsync_wait_ticks :: profile_counter

definition video_off :: "'w video \<Rightarrow> bool" where
  "video_off st \<longleftrightarrow> ef2_video_width st = 0 \<or> ef2_video_height st = 0"

section \<open>Small helpers\<close>

definition ef2_video_frame_fbp :: "u32 \<Rightarrow> 'w video \<Rightarrow> u16" where
  "ef2_video_frame_fbp index st = ucast (ef2_video_framebuffer_base st ! unat (index AND 1) div 8192)"

definition ef2_video_draw_fbp :: "'w video \<Rightarrow> u16" where
  "ef2_video_draw_fbp st = ef2_video_frame_fbp (ef2_video_draw_buffer st) st"

definition ef2_video_program_display_buffer :: "('w, 'y) ee_scheme \<Rightarrow> u32 \<Rightarrow> ('w video, unit) state" where
  "ef2_video_program_display_buffer ee index = do {
     st \<leftarrow> State_Monad.get;
     do_ee (wr64 ee EF2_GS_REG_DISPFB2 (ef2_gs_pack_dispfb (ef2_video_frame_fbp index st)
       (lay_buffer_width (ef2_video_active_layout st)) (lay_psm (ef2_video_active_layout st)) 0 0)) }"

definition ef2_video_standard_valid :: "s32 \<Rightarrow> bool" where
  "ef2_video_standard_valid standard \<longleftrightarrow> standard = EF2_VIDEO_NTSC \<or> standard = EF2_VIDEO_PAL"

text \<open>The pixel format and the height of a page, \<open>None\<close> for an unknown format.\<close>

definition ef2_video_framebuffer_format_info :: "s32 \<Rightarrow> (u8 \<times> u16) option" where
  "ef2_video_framebuffer_format_info format =
    (if format = EF2_VIDEO_FB_RGBA32 then Some (EF2_GS_PSMCT32, 32)
     else if format = EF2_VIDEO_FB_RGB16 then Some (EF2_GS_PSMCT16, 64)
     else None)"

definition ef2_video_detect_standard :: "('w, 'y) ee_scheme \<Rightarrow> bool \<Rightarrow> ('w video, s32 \<times> s32 option) state" where
  "ef2_video_detect_standard ee standard =
    (if \<not> standard then ret (-1, None)
     else do {
       (result, romver) \<leftarrow> on_ee (ef2_iop_get_romver ee);
       ret (if result < 0 then (-2, None)
            else (0, Some (if romver ! 4 = CHR ''E'' then EF2_VIDEO_PAL else EF2_VIDEO_NTSC))) })"

definition ef2_gif_ad :: "u64 \<Rightarrow> u64 \<Rightarrow> gif_qword" where
  "ef2_gif_ad data address = \<lparr>lo = data, hi = address\<rparr>"

definition ef2_align_up_u32 :: "u32 \<Rightarrow> u32 \<Rightarrow> u32" where
  "ef2_align_up_u32 v alignment = (v + alignment - 1) AND NOT (alignment - 1)"

lemma word_countdown_less: "i < n \<Longrightarrow> unat (n - (i + 1)) < unat (n - i :: 'a :: len word)"
proof -
  assume "i < n"
  then have "n - i \<noteq> 0" by auto
  then have "unat (n - i - 1) < unat (n - i)"
    by (metis unat_minus_one unat_gt_0 diff_less zero_less_one)
  then show ?thesis by (simp add: diff_diff_eq)
qed

lemma exponent_less: "e < 15 \<Longrightarrow> unat (14 - e) < unat (15 - e :: u8)"
  using word_countdown_less [of e 15] by simp

function log2_ceil_loop :: "u16 \<Rightarrow> u32 \<Rightarrow> u8 \<Rightarrow> u8" where
  "log2_ceil_loop v pow exponent =
    (if pow < ucast v \<and> exponent < 15 then log2_ceil_loop v (push_bit 1 pow) (exponent + 1) else exponent)"
  by pat_completeness auto
termination
  by (relation "measure (\<lambda>(v, p, e). unat (15 - e))") (auto simp: exponent_less)

declare log2_ceil_loop.simps [simp del]

definition ef2_log2_ceil_u16 :: "u16 \<Rightarrow> u8" where
  "ef2_log2_ceil_u16 v = log2_ceil_loop v 1 0"

definition ef2_clamp_s32 :: "s32 \<Rightarrow> s32 \<Rightarrow> s32 \<Rightarrow> s32" where
  "ef2_clamp_s32 v low high = (if v < low then low else if v > high then high else v)"

text \<open>A coordinate in sixteenths of a pixel.\<close>

definition fixed4 :: "s32 \<Rightarrow> u16" where
  "fixed4 x = ucast (push_bit 4 (word_of_int x :: u32))"

section \<open>Packets\<close>

definition ef2_video_submit_qwords :: "('w, 'y) ee_scheme \<Rightarrow> u32 \<Rightarrow> u32 \<Rightarrow> ('w video, s32) state" where
  "ef2_video_submit_qwords ee packet count = do {
     available \<leftarrow> reads ef2_video_gif_dma_available;
     sent \<leftarrow> (if available \<noteq> 0 then do {
                result \<leftarrow> ef2_gif_dma_send_qwords ee packet count;
                if result = 0 then ret True
                else do {
                  modify (\<lambda>st. st\<lparr>ef2_video_gif_dma_fallbacks := ef2_video_gif_dma_fallbacks st + 1,
                                  ef2_video_gif_dma_available := 0\<rparr>);
                  ret False } }
              else ret False);
     if sent then ret 0
     else do {
       do_ee (ef2_gif_send_qwords ee packet count);
       ret 0 } }"

fun put_qwords :: "('w, 'y) ee_scheme \<Rightarrow> u32 \<Rightarrow> gif_qword list \<Rightarrow> 'w \<Rightarrow> 'w" where
  "put_qwords ee address [] w = w"
| "put_qwords ee address (q # qs) w = put_qwords ee (address + 16) qs (st_qword ee address q w)"

text \<open>A packet in a local array: the quadwords are stored, then submitted.\<close>

definition send_packet :: "('w, 'y) ee_scheme \<Rightarrow> gif_qword list \<Rightarrow> ('w video, s32) state" where
  "send_packet ee qs = do {
     do_ee (put_qwords ee (packet_at ee) qs);
     ef2_video_submit_qwords ee (packet_at ee) (word_of_nat (length qs)) }"

text \<open>The first quadword of a packet of \<open>n\<close> register writes, and the writes that set up the drawing
  environment.\<close>

definition packed_tag :: "u16 \<Rightarrow> gif_qword" where
  "packed_tag n = \<lparr>lo = ef2_gif_pack_tag n 1 0 0 EF2_GIF_FLG_PACKED 1, hi = EF2_GIF_REG_AD\<rparr>"

definition draw_environment :: "'w video \<Rightarrow> gif_qword list" where
  "draw_environment st =
    [ef2_gif_ad (ef2_gs_pack_frame (ef2_video_draw_fbp st) (lay_buffer_width (ef2_video_active_layout st))
       (lay_psm (ef2_video_active_layout st)) 0) EF2_GS_ADDR_FRAME_1,
     ef2_gif_ad (ef2_gs_pack_xyoffset 0 0) EF2_GS_ADDR_XYOFFSET_1,
     ef2_gif_ad (ef2_gs_pack_scissor 0 (ef2_video_width st - 1) 0 (ef2_video_height st - 1)) EF2_GS_ADDR_SCISSOR_1,
     ef2_gif_ad 0 EF2_GS_ADDR_TEST_1]"

definition two_vertex_packet ::
  "u8 \<Rightarrow> s32 \<Rightarrow> s32 \<Rightarrow> s32 \<Rightarrow> s32 \<Rightarrow> u8 \<Rightarrow> u8 \<Rightarrow> u8 \<Rightarrow> 'w video \<Rightarrow> gif_qword list" where
  "two_vertex_packet primitive x0 y0 x1 y1 r g b st =
    [packed_tag 8] @ draw_environment st @
    [ef2_gif_ad (ef2_gs_pack_prim primitive) EF2_GS_ADDR_PRIM,
     ef2_gif_ad (ef2_gs_pack_rgbaq r g b 0x80) EF2_GS_ADDR_RGBAQ,
     ef2_gif_ad (ef2_gs_pack_xyz (fixed4 x0) (fixed4 y0) 0) EF2_GS_ADDR_XYZ2,
     ef2_gif_ad (ef2_gs_pack_xyz (fixed4 x1) (fixed4 y1) 0) EF2_GS_ADDR_XYZ2]"

definition ef2_video_draw_two_vertex ::
  "('w, 'y) ee_scheme \<Rightarrow> u8 \<Rightarrow> s32 \<Rightarrow> s32 \<Rightarrow> s32 \<Rightarrow> s32 \<Rightarrow> u8 \<Rightarrow> u8 \<Rightarrow> u8 \<Rightarrow> ('w video, s32) state" where
  "ef2_video_draw_two_vertex ee primitive x0 y0 x1 y1 r g b = do {
     st \<leftarrow> State_Monad.get;
     if video_off st then ret (-1)
     else
       let w = uint (ef2_video_width st); h = uint (ef2_video_height st)
       in send_packet ee (two_vertex_packet primitive (ef2_clamp_s32 x0 0 w) (ef2_clamp_s32 y0 0 h)
            (ef2_clamp_s32 x1 0 w) (ef2_clamp_s32 y1 0 h) r g b st) }"

section \<open>Queries\<close>

definition ef2_video_set_background :: "('w, 'y) ee_scheme \<Rightarrow> u8 \<Rightarrow> u8 \<Rightarrow> u8 \<Rightarrow> ('w video, unit) state" where
  "ef2_video_set_background ee r g b = do_ee (wr64 ee EF2_GS_REG_BGCOLOR (ef2_gs_pack_bgcolor r g b))"

definition ef2_video_get_config :: "bool \<Rightarrow> 'w video \<Rightarrow> s32 \<times> video_config option" where
  "ef2_video_get_config config st =
    (if \<not> config \<or> video_off st then (-1, None) else (0, Some (ef2_video_active_config st)))"

definition ef2_video_get_framebuffer_layout :: "bool \<Rightarrow> 'w video \<Rightarrow> s32 \<times> video_layout option" where
  "ef2_video_get_framebuffer_layout layout st =
    (if \<not> layout \<or> video_off st then (-1, None) else (0, Some (ef2_video_active_layout st)))"

definition ef2_video_get_size :: "bool \<Rightarrow> bool \<Rightarrow> 'w video \<Rightarrow> s32 \<times> (u16 \<times> u16) option" where
  "ef2_video_get_size width height st =
    (if \<not> width \<or> \<not> height \<or> video_off st then (-1, None)
     else (0, Some (ef2_video_width st, ef2_video_height st)))"

definition ef2_video_get_transport_stats :: "bool \<Rightarrow> 'w video \<Rightarrow> s32 \<times> (u32 \<times> u32) option" where
  "ef2_video_get_transport_stats stats st =
    (if \<not> stats then (-1, None) else (0, Some (ef2_video_gif_dma_available st, ef2_video_gif_dma_fallbacks st)))"

record video_frame_stats =
  fs_double_buffered :: u32
  fs_display_buffer :: u32
  fs_draw_buffer :: u32
  fs_presents :: u32
  fs_vsync_timeouts :: u32
  fs_vsync_wait_ticks :: profile_counter

definition ef2_video_get_frame_stats :: "bool \<Rightarrow> 'w video \<Rightarrow> s32 \<times> video_frame_stats option" where
  "ef2_video_get_frame_stats stats st =
    (if \<not> stats then (-1, None)
     else (0, Some \<lparr>fs_double_buffered = ef2_video_double_buffered st, fs_display_buffer = ef2_video_display_buffer st,
       fs_draw_buffer = ef2_video_draw_buffer st, fs_presents = ef2_video_present_count st,
       fs_vsync_timeouts = ef2_video_vsync_timeouts st, fs_vsync_wait_ticks = ef2_video_vsync_wait_ticks st\<rparr>))"

section \<open>Frames\<close>

definition ef2_video_set_double_buffering :: "u32 \<Rightarrow> ('w video, s32) state" where
  "ef2_video_set_double_buffering enabled = do {
     st \<leftarrow> State_Monad.get;
     if video_off st then ret (-1)
     else if enabled \<noteq> 0 then
       if ef2_video_double_buffered st = 0 then do {
         modify (\<lambda>st. st\<lparr>ef2_video_double_buffered := 1, ef2_video_draw_buffer := 1 - ef2_video_display_buffer st\<rparr>);
         ret 0 }
       else ret 0
     else do {
       modify (\<lambda>st. st\<lparr>ef2_video_double_buffered := 0, ef2_video_draw_buffer := ef2_video_display_buffer st\<rparr>);
       ret 0 } }"

text \<open>The wait for the vertical sync: whether it came before the count ran out.\<close>

function vsync_wait_loop :: "('w, 'y) ee_scheme \<Rightarrow> u32 \<Rightarrow> 'w \<Rightarrow> bool \<times> 'w" where
  "vsync_wait_loop ee timeout w =
    (let (csr, w) = rd64 ee EF2_GS_REG_CSR w
     in if csr AND EF2_GS_CSR_VSINT \<noteq> 0 then (True, w)
        else if timeout - 1 = 0 then (False, w)
        else vsync_wait_loop ee (timeout - 1) w)"
  by pat_completeness auto
termination
  by (relation "measure (\<lambda>(ee, t, w). unat (t - 1))") (auto simp: countdown_pred)

declare vsync_wait_loop.simps [simp del]

definition ef2_video_wait_vsync :: "('w, 'y) ee_scheme \<Rightarrow> u32 \<Rightarrow> ('w video, s32) state" where
  "ef2_video_wait_vsync ee timeout = do {
     st \<leftarrow> State_Monad.get;
     if video_off st then ret (-1)
     else do {
       profile_start \<leftarrow> on_ee (ef2_cpu_count ee);
       do_ee (wr64 ee EF2_GS_REG_CSR EF2_GS_CSR_VSINT);
       seen \<leftarrow> on_ee (vsync_wait_loop ee (if timeout = 0 then 0x04000000 else timeout));
       now \<leftarrow> on_ee (ef2_cpu_count ee);
       modify (\<lambda>st. st\<lparr>ef2_video_vsync_wait_ticks :=
         ef2_profile_record (ef2_video_vsync_wait_ticks st) (ef2_cpu_count_elapsed profile_start now)\<rparr>);
       if \<not> seen then do {
         modify (\<lambda>st. st\<lparr>ef2_video_vsync_timeouts := ef2_video_vsync_timeouts st + 1\<rparr>);
         ret (-2) }
       else ret 0 } }"

definition ef2_video_present :: "('w, 'y) ee_scheme \<Rightarrow> ('w video, s32) state" where
  "ef2_video_present ee = do {
     st \<leftarrow> State_Monad.get;
     if video_off st then ret (-1)
     else do {
       result \<leftarrow> ef2_video_wait_vsync ee 0;
       if result < 0 then ret result
       else do {
         st \<leftarrow> State_Monad.get;
         (if ef2_video_double_buffered st \<noteq> 0 then do {
            modify (\<lambda>s. s\<lparr>ef2_video_display_buffer := ef2_video_draw_buffer st\<rparr>);
            ef2_video_program_display_buffer ee (ef2_video_draw_buffer st);
            modify (\<lambda>s. s\<lparr>ef2_video_draw_buffer := ef2_video_display_buffer st\<rparr>) }
          else ret ());
         modify (\<lambda>s. s\<lparr>ef2_video_present_count := ef2_video_present_count s + 1\<rparr>);
         ret 0 } } }"

section \<open>Flat drawing\<close>

definition ef2_video_draw_rect ::
  "('w, 'y) ee_scheme \<Rightarrow> s32 \<Rightarrow> s32 \<Rightarrow> s32 \<Rightarrow> s32 \<Rightarrow> u8 \<Rightarrow> u8 \<Rightarrow> u8 \<Rightarrow> ('w video, s32) state" where
  "ef2_video_draw_rect ee x y width height r g b = do {
     st \<leftarrow> State_Monad.get;
     let sw = uint (ef2_video_width st);
     let sh = uint (ef2_video_height st);
     if width \<le> 0 \<or> height \<le> 0 then ret (-1)
     else if x \<ge> sw \<or> y \<ge> sh \<or> add_s32 x width \<le> 0 \<or> add_s32 y height \<le> 0 then ret 0
     else
       let right = ef2_clamp_s32 (add_s32 x width) 0 sw; bottom = ef2_clamp_s32 (add_s32 y height) 0 sh;
           x = ef2_clamp_s32 x 0 sw; y = ef2_clamp_s32 y 0 sh
       in if right \<le> x \<or> bottom \<le> y then ret 0
          else ef2_video_draw_two_vertex ee EF2_GS_PRIM_SPRITE x y right bottom r g b }"

definition ef2_video_draw_line ::
  "('w, 'y) ee_scheme \<Rightarrow> s32 \<Rightarrow> s32 \<Rightarrow> s32 \<Rightarrow> s32 \<Rightarrow> u8 \<Rightarrow> u8 \<Rightarrow> u8 \<Rightarrow> ('w video, s32) state" where
  "ef2_video_draw_line ee x0 y0 x1 y1 r g b = do {
     st \<leftarrow> State_Monad.get;
     if video_off st then ret (-1) else ef2_video_draw_two_vertex ee EF2_GS_PRIM_LINE x0 y0 x1 y1 r g b }"

definition ef2_video_clear :: "('w, 'y) ee_scheme \<Rightarrow> u8 \<Rightarrow> u8 \<Rightarrow> u8 \<Rightarrow> ('w video, s32) state" where
  "ef2_video_clear ee r g b = do {
     st \<leftarrow> State_Monad.get;
     if video_off st then ret (-1)
     else ef2_video_draw_rect ee 0 0 (uint (ef2_video_width st)) (uint (ef2_video_height st)) r g b }"

section \<open>Initialisation\<close>

text \<open>The height of the picture and its position on the screen.\<close>

definition video_mode :: "s32 \<Rightarrow> u16 \<times> u16 \<times> u16" where
  "video_mode standard = (if standard = EF2_VIDEO_PAL then (512, 680, 72) else (448, 656, 36))"

definition video_size_valid :: "u16 \<Rightarrow> u16 \<Rightarrow> u16 \<Rightarrow> bool" where
  "video_size_valid width height default_height \<longleftrightarrow>
    \<not> (width < 160 \<or> width > 1024 \<or> width AND 63 \<noteq> 0 \<or> height = 0 \<or> height > default_height \<or>
       2560 mod (ucast width :: u32) \<noteq> 0 \<or> (ucast default_height :: u32) mod ucast height \<noteq> 0) \<and>
    (let horizontal_scale = 2560 div (ucast width :: u32); vertical_scale = (ucast default_height :: u32) div ucast height
     in \<not> (horizontal_scale = 0 \<or> horizontal_scale > 16 \<or> vertical_scale = 0 \<or> vertical_scale > 4))"

definition video_framebuffer_size :: "u16 \<Rightarrow> u16 \<Rightarrow> u16 \<Rightarrow> u32" where
  "video_framebuffer_size width height page_height =
    (ucast width + 63) div 64 * ((ucast height + ucast page_height - 1) div ucast page_height) * EF2_GS_TEXTURE_PAGE_BYTES"

text \<open>What an accepted configuration sets.\<close>

definition video_commit ::
  "s32 \<Rightarrow> video_config \<Rightarrow> u16 \<Rightarrow> u16 \<Rightarrow> u8 \<Rightarrow> u32 \<Rightarrow> 'w video \<Rightarrow> 'w video" where
  "video_commit standard config width height psm' n st =
    st\<lparr>ef2_video_framebuffer_bytes := n, ef2_video_framebuffer_base := [0, n],
       ef2_video_display_buffer := 0, ef2_video_draw_buffer := 0, ef2_video_double_buffered := 0,
       ef2_video_present_count := 0, ef2_video_vsync_timeouts := 0,
       ef2_video_active_config := \<lparr>cfg_standard = standard, cfg_interlaced = cfg_interlaced config,
         cfg_field_mode = cfg_field_mode config, cfg_format = cfg_format config, cfg_width = width, cfg_height = height\<rparr>,
       ef2_video_active_layout := \<lparr>lay_format = cfg_format config, lay_width = width, lay_height = height,
         lay_buffer_width = ucast (width div 64), lay_psm = psm', lay_bytes_per_buffer = n, lay_buffer_base = [0, n],
         lay_texture_start = n * 2\<rparr>,
       ef2_video_vsync_wait_ticks := zero_counter,
       ef2_video_texture_start := n * 2, ef2_video_texture_cursor := n * 2\<rparr>"

text \<open>The programming of the hardware for it.\<close>

definition video_program :: "('w, 'y) ee_scheme \<Rightarrow> s32 \<Rightarrow> u16 \<Rightarrow> u16 \<Rightarrow> u16 \<Rightarrow> ('w video, s32) state" where
  "video_program ee standard default_height dx dy = do {
     do_ee (wr64 ee EF2_GS_REG_PMODE 0);
     do_ee (wr64 ee EF2_GS_REG_CSR EF2_GS_CSR_RESET);
     do_ee (wr64 ee EF2_GS_REG_CSR 0);
     do_ee (wr64 ee EF2_GS_REG_IMR 0x00007F00);
     do_ee (ef2_gif_reset ee);
     modify (\<lambda>st. st\<lparr>ef2_video_gif_dma_fallbacks := 0\<rparr>);
     result \<leftarrow> ef2_gif_dma_init ee;
     modify (\<lambda>st. st\<lparr>ef2_video_gif_dma_available := if result = 0 then 1 else 0\<rparr>);
     do_ee (ef2_kernel_set_gs_crt ee 1 standard EF2_VIDEO_FIELD);
     ef2_video_set_background ee 0 0 0;
     st \<leftarrow> State_Monad.get;
     ef2_video_program_display_buffer ee (ef2_video_display_buffer st);
     do_ee (wr64 ee EF2_GS_REG_DISPLAY2 (ef2_gs_pack_display dx dy
       (ucast (2560 div (ucast (ef2_video_width st) :: u32) - 1))
       (ucast ((ucast default_height :: u32) div ucast (ef2_video_height st) - 1)) 2559 (default_height - 1)));
     result \<leftarrow> ef2_video_clear ee 0 0 0;
     if result \<noteq> 0 then ret (-7)
     else do {
       do_ee (wr64 ee EF2_GS_REG_PMODE (ef2_gs_pack_pmode 0 1 1 1 0 0xFF));
       ret 0 } }"

definition ef2_video_init :: "('w, 'y) ee_scheme \<Rightarrow> video_config option \<Rightarrow> ('w video, s32) state" where
  "ef2_video_init ee config =
    (case config of
       None \<Rightarrow> ret (-1)
     | Some config \<Rightarrow> do {
         standard \<leftarrow> (if cfg_standard config = EF2_VIDEO_AUTO then do {
                         (result, detected) \<leftarrow> ef2_video_detect_standard ee True;
                         ret (if result < 0 then EF2_VIDEO_NTSC else the detected) }
                       else ret (cfg_standard config));
         if \<not> ef2_video_standard_valid standard then ret (-2)
         else if cfg_interlaced config = 0 \<or> cfg_field_mode config \<noteq> EF2_VIDEO_FIELD then ret (-3)
         else
           case ef2_video_framebuffer_format_info (cfg_format config) of
             None \<Rightarrow> ret (-4)
           | Some (psm', page_height) \<Rightarrow>
               let (default_height, dx, dy) = video_mode standard;
                   width = (if cfg_width config \<noteq> 0 then cfg_width config else 640);
                   height = (if cfg_height config \<noteq> 0 then cfg_height config else default_height);
                   n = video_framebuffer_size width height page_height
               in do {
                 modify (\<lambda>st. st\<lparr>ef2_video_width := width, ef2_video_height := height\<rparr>);
                 if \<not> video_size_valid width height default_height then ret (-5)
                 else if n = 0 \<or> n * 2 > EF2_GS_VRAM_BYTES then ret (-6)
                 else do {
                   modify (video_commit standard config width height psm' n);
                   video_program ee standard default_height dx dy } } })"

end
