(* ===== verification/VideoTexture.thy ===== *)
theory VideoTexture
  imports Video
begin

text \<open>
  The video library, second part: textures.  The allocator in the memory of the graphics synthesizer, the
  uploads in three formats and the textured drawing operations.
\<close>

record video_texture =
  vram_address :: u16
  clut_address :: u16
  tex_width :: u16
  tex_height :: u16
  tex_buffer_width :: u8
  tex_psm :: u8
  clut_psm :: u8
  width_log2 :: u8
  height_log2 :: u8
  valid :: u8
  indexed :: u8

section \<open>Transfers\<close>

text \<open>The data of an image in pieces; \<open>pixels\<close> is their address.\<close>

definition image_chunk :: "u32 \<Rightarrow> u32" where
  "image_chunk remaining = (if remaining > EF2_GIF_IMAGE_MAX_QWORDS then EF2_GIF_IMAGE_MAX_QWORDS else remaining)"

lemma image_chunk_less: "remaining \<noteq> 0 \<Longrightarrow> unat (remaining - image_chunk remaining) < unat remaining"
proof -
  assume r: "remaining \<noteq> 0"
  have c: "image_chunk remaining \<le> remaining" "image_chunk remaining \<noteq> 0"
    using r by (auto simp: image_chunk_def EF2_GIF_IMAGE_MAX_QWORDS_def)
  have "0 < unat (image_chunk remaining)" using c(2) by (simp add: unat_gt_0)
  moreover have "0 < unat remaining" using r by (simp add: unat_gt_0)
  ultimately show ?thesis using unat_sub [OF c(1)] by simp
qed

function image_loop :: "('w, 'y) ee_scheme \<Rightarrow> u32 \<Rightarrow> u32 \<Rightarrow> u32 \<Rightarrow> ('w video, s32) state" where
  "image_loop ee pixels offset remaining =
    (if remaining \<noteq> 0 then do {
       let chunk = image_chunk remaining;
       result \<leftarrow> send_packet ee [\<lparr>lo = ef2_gif_pack_tag (ucast chunk) 1 0 0 EF2_GIF_FLG_IMAGE 0, hi = 0\<rparr>];
       if result < 0 then ret (-3)
       else do {
         result \<leftarrow> ef2_video_submit_qwords ee (pixels + offset * 16) chunk;
         if result < 0 then ret (-4)
         else image_loop ee pixels (offset + chunk) (remaining - chunk) } }
     else ret 0)"
  by pat_completeness auto
termination
  by (relation "measure (\<lambda>(ee, pixels, offset, remaining). unat remaining)") (auto simp: image_chunk_less)

declare image_loop.simps [simp del]

definition ef2_video_upload_image ::
  "('w, 'y) ee_scheme \<Rightarrow> u16 \<Rightarrow> u8 \<Rightarrow> u8 \<Rightarrow> u16 \<Rightarrow> u16 \<Rightarrow> u32 \<Rightarrow> u32 \<Rightarrow> ('w video, s32) state" where
  "ef2_video_upload_image ee destination destination_width psm width height pixels transfer_bytes =
    (if pixels = 0 \<or> transfer_bytes = 0 \<or> transfer_bytes AND 0x0F \<noteq> 0 then ret (-1)
     else do {
       result \<leftarrow> send_packet ee
         [packed_tag 4,
          ef2_gif_ad (ef2_gs_pack_bitbltbuf destination destination_width psm) EF2_GS_ADDR_BITBLTBUF,
          ef2_gif_ad (ef2_gs_pack_trxpos 0 0) EF2_GS_ADDR_TRXPOS,
          ef2_gif_ad (ef2_gs_pack_trxreg width height) EF2_GS_ADDR_TRXREG,
          ef2_gif_ad 0 EF2_GS_ADDR_TRXDIR];
       if result < 0 then ret (-2) else image_loop ee pixels 0 (drop_bit 4 transfer_bytes) })"

definition ef2_video_flush_texture_cache :: "('w, 'y) ee_scheme \<Rightarrow> ('w video, s32) state" where
  "ef2_video_flush_texture_cache ee = send_packet ee [packed_tag 1, ef2_gif_ad 0 EF2_GS_ADDR_TEXFLUSH]"

text \<open>The order of the palette entries in memory, and the copy of a palette into the staging buffer.\<close>

definition csm1_index :: "u32 \<Rightarrow> u32" where
  "csm1_index i = (i AND NOT 0x18) OR push_bit 1 (i AND 0x08) OR drop_bit 1 (i AND 0x10)"

definition ef2_video_prepare_csm1_clut :: "('w, 'y) ee_scheme \<Rightarrow> u32 \<Rightarrow> ('w video, unit) state" where
  "ef2_video_prepare_csm1_clut ee palette =
    do_ee (\<lambda>w. foldl (\<lambda>w i. st_word ee (clut_stage_at ee + csm1_index (word_of_nat i) * 4)
                               (ld_word ee (palette + word_of_nat i * 4) w) w) w [0..<256])"

section \<open>The allocator\<close>

definition ef2_video_reset_texture_allocator :: "('w video, unit) state" where
  "ef2_video_reset_texture_allocator = modify (\<lambda>st. st\<lparr>ef2_video_texture_cursor := ef2_video_texture_start st\<rparr>)"

definition ef2_video_get_texture_vram_free :: "'w video \<Rightarrow> u32" where
  "ef2_video_get_texture_vram_free st =
    (if ef2_video_texture_cursor st \<ge> EF2_GS_VRAM_BYTES then 0 else EF2_GS_VRAM_BYTES - ef2_video_texture_cursor st)"

text \<open>The result of an upload and the texture description as the call leaves it; \<open>texture\<close> is its content
  before, \<open>None\<close> for the null pointer.  \<open>pixels\<close>, \<open>indices\<close> and \<open>palette\<close> are addresses.\<close>

definition texture_size_invalid :: "u16 \<Rightarrow> u16 \<Rightarrow> bool" where
  "texture_size_invalid width height \<longleftrightarrow> width = 0 \<or> height = 0 \<or> width > 1024 \<or> height > 1024"

definition ef2_video_upload_rgba32 ::
  "('w, 'y) ee_scheme \<Rightarrow> video_texture option \<Rightarrow> u32 \<Rightarrow> u16 \<Rightarrow> u16 \<Rightarrow> ('w video, s32 \<times> video_texture option) state" where
  "ef2_video_upload_rgba32 ee texture pixels width height = do {
     old_cursor \<leftarrow> reads ef2_video_texture_cursor;
     let transfer_bytes = ucast width * ucast height * 4;
     let padded_width = ef2_align_up_u32 (ucast width) 64;
     let padded_height = ef2_align_up_u32 (ucast height) 32;
     let allocation_bytes = padded_width * padded_height * 4;
     let cursor = ef2_align_up_u32 old_cursor EF2_GS_TEXTURE_PAGE_BYTES;
     if texture = None \<or> pixels = 0 \<or> texture_size_invalid width height then ret (-1, texture)
     else if pixels AND 0x0F \<noteq> 0 then ret (-2, texture)
     else if transfer_bytes AND 0x0F \<noteq> 0 then ret (-3, texture)
     else if cursor > EF2_GS_VRAM_BYTES \<or> allocation_bytes > EF2_GS_VRAM_BYTES - cursor then ret (-4, texture)
     else do {
       let t = \<lparr>vram_address = ucast (cursor div 256), clut_address = 0, tex_width = width, tex_height = height,
                tex_buffer_width = ucast (padded_width div 64), tex_psm = EF2_GS_PSMCT32, clut_psm = 0,
                width_log2 = ef2_log2_ceil_u16 width, height_log2 = ef2_log2_ceil_u16 height, valid = 0, indexed = 0\<rparr>;
       result \<leftarrow> ef2_video_upload_image ee (vram_address t) (tex_buffer_width t) EF2_GS_PSMCT32 width height pixels transfer_bytes;
       if result < 0 then ret (-5, Some t)
       else do {
         result \<leftarrow> ef2_video_flush_texture_cache ee;
         if result < 0 then ret (-6, Some t)
         else do {
           modify (\<lambda>st. st\<lparr>ef2_video_texture_cursor := cursor + allocation_bytes\<rparr>);
           ret (0, Some (t\<lparr>valid := 1\<rparr>)) } } } }"

definition ef2_video_upload_indexed8 ::
  "('w, 'y) ee_scheme \<Rightarrow> video_texture option \<Rightarrow> u32 \<Rightarrow> u32 \<Rightarrow> u16 \<Rightarrow> u16 \<Rightarrow>
   ('w video, s32 \<times> video_texture option) state" where
  "ef2_video_upload_indexed8 ee texture indices palette width height = do {
     old_cursor \<leftarrow> reads ef2_video_texture_cursor;
     let index_bytes = ucast width * ucast height;
     let padded_width = ef2_align_up_u32 (ucast width) 128;
     let padded_height = ef2_align_up_u32 (ucast height) 64;
     let texture_bytes = padded_width * padded_height;
     let texture_cursor = ef2_align_up_u32 old_cursor EF2_GS_TEXTURE_PAGE_BYTES;
     let clut_cursor = ef2_align_up_u32 (texture_cursor + texture_bytes) 256;
     let end_cursor = clut_cursor + 1024;
     if texture = None \<or> indices = 0 \<or> palette = 0 \<or> texture_size_invalid width height then ret (-1, texture)
     else if indices AND 0x0F \<noteq> 0 \<or> palette AND 0x0F \<noteq> 0 then ret (-2, texture)
     else if index_bytes AND 0x0F \<noteq> 0 then ret (-3, texture)
     else if end_cursor > EF2_GS_VRAM_BYTES then ret (-4, texture)
     else do {
       let t = \<lparr>vram_address = ucast (texture_cursor div 256), clut_address = ucast (clut_cursor div 256), tex_width = width,
                tex_height = height, tex_buffer_width = ucast (padded_width div 64), tex_psm = EF2_GS_PSMT8,
                clut_psm = EF2_GS_PSMCT32, width_log2 = ef2_log2_ceil_u16 width, height_log2 = ef2_log2_ceil_u16 height,
                valid = 0, indexed = 1\<rparr>;
       result \<leftarrow> ef2_video_upload_image ee (vram_address t) (tex_buffer_width t) EF2_GS_PSMT8 width height indices index_bytes;
       if result < 0 then ret (-5, Some t)
       else do {
         ef2_video_prepare_csm1_clut ee palette;
         result \<leftarrow> ef2_video_upload_image ee (clut_address t) 1 EF2_GS_PSMCT32 16 16 (clut_stage_at ee) 1024;
         if result < 0 then ret (-6, Some t)
         else do {
           result \<leftarrow> ef2_video_flush_texture_cache ee;
           if result < 0 then ret (-7, Some t)
           else do {
             modify (\<lambda>st. st\<lparr>ef2_video_texture_cursor := end_cursor\<rparr>);
             ret (0, Some (t\<lparr>valid := 1\<rparr>)) } } } } }"

definition ef2_video_upload_indexed4 ::
  "('w, 'y) ee_scheme \<Rightarrow> video_texture option \<Rightarrow> u32 \<Rightarrow> u32 \<Rightarrow> u16 \<Rightarrow> u16 \<Rightarrow>
   ('w video, s32 \<times> video_texture option) state" where
  "ef2_video_upload_indexed4 ee texture packed_indices palette width height = do {
     old_cursor \<leftarrow> reads ef2_video_texture_cursor;
     let pixel_count = ucast width * ucast height;
     let packed_bytes = drop_bit 1 (pixel_count + 1);
     let padded_width = ef2_align_up_u32 (ucast width) 128;
     let padded_height = ef2_align_up_u32 (ucast height) 128;
     let texture_bytes = drop_bit 1 (padded_width * padded_height);
     let texture_cursor = ef2_align_up_u32 old_cursor EF2_GS_TEXTURE_PAGE_BYTES;
     let clut_cursor = ef2_align_up_u32 (texture_cursor + texture_bytes) 256;
     let end_cursor = clut_cursor + 256;
     if texture = None \<or> packed_indices = 0 \<or> palette = 0 \<or> texture_size_invalid width height then ret (-1, texture)
     else if packed_indices AND 0x0F \<noteq> 0 \<or> palette AND 0x0F \<noteq> 0 then ret (-2, texture)
     else if packed_bytes AND 0x0F \<noteq> 0 then ret (-3, texture)
     else if end_cursor > EF2_GS_VRAM_BYTES then ret (-4, texture)
     else do {
       let t = \<lparr>vram_address = ucast (texture_cursor div 256), clut_address = ucast (clut_cursor div 256), tex_width = width,
                tex_height = height, tex_buffer_width = ucast (padded_width div 64), tex_psm = EF2_GS_PSMT4,
                clut_psm = EF2_GS_PSMCT32, width_log2 = ef2_log2_ceil_u16 width, height_log2 = ef2_log2_ceil_u16 height,
                valid = 0, indexed = 1\<rparr>;
       result \<leftarrow> ef2_video_upload_image ee (vram_address t) (tex_buffer_width t) EF2_GS_PSMT4 width height packed_indices packed_bytes;
       if result < 0 then ret (-5, Some t)
       else do {
         result \<leftarrow> ef2_video_upload_image ee (clut_address t) 1 EF2_GS_PSMCT32 8 2 palette 64;
         if result < 0 then ret (-6, Some t)
         else do {
           result \<leftarrow> ef2_video_flush_texture_cache ee;
           if result < 0 then ret (-7, Some t)
           else do {
             modify (\<lambda>st. st\<lparr>ef2_video_texture_cursor := end_cursor\<rparr>);
             ret (0, Some (t\<lparr>valid := 1\<rparr>)) } } } } }"

text \<open>The packing of 4-bit indices, two to a byte; the result and the destination array.\<close>

function pack_indices4_loop :: "u8 list \<Rightarrow> u8 list \<Rightarrow> u32 \<Rightarrow> u32 \<Rightarrow> u8 list" where
  "pack_indices4_loop packed indices pairs pair =
    (if pair < pairs then
       let low = indices ! unat (pair * 2) AND 0x0F; high = indices ! unat (pair * 2 + 1) AND 0x0F
       in pack_indices4_loop (packed[unat pair := low OR push_bit 4 high]) indices pairs (pair + 1)
     else packed)"
  by pat_completeness auto
termination
  by (relation "measure (\<lambda>(packed, indices, pairs, pair). unat (pairs - pair))") (auto simp: u32_countdown_less)

declare pack_indices4_loop.simps [simp del]

definition ef2_video_pack_indices4 :: "u8 list option \<Rightarrow> u32 \<Rightarrow> u8 list option \<Rightarrow> u32 \<Rightarrow> s32 \<times> u8 list option" where
  "ef2_video_pack_indices4 packed packed_size indices pixel_count =
    (case (packed, indices) of
       (Some buf, Some src) \<Rightarrow>
         let required = drop_bit 1 (pixel_count + 1)
         in if packed_size < required then (-2, packed)
            else
              let buf = pack_indices4_loop buf src (drop_bit 1 pixel_count) 0;
                  buf = (if pixel_count AND 1 \<noteq> 0
                         then buf[unat (drop_bit 1 pixel_count) := src ! unat (pixel_count - 1) AND 0x0F] else buf)
              in (sint required, Some buf)
     | _ \<Rightarrow> (-1, packed))"

section \<open>Textured drawing\<close>

definition texture_unusable :: "video_texture \<Rightarrow> bool" where
  "texture_unusable t \<longleftrightarrow> valid t = 0 \<or> (tex_psm t \<noteq> EF2_GS_PSMCT32 \<and> tex_psm t \<noteq> EF2_GS_PSMT8 \<and> tex_psm t \<noteq> EF2_GS_PSMT4)"

text \<open>The rectangle leaves the picture.\<close>

definition outside_picture :: "s32 \<Rightarrow> s32 \<Rightarrow> s32 \<Rightarrow> s32 \<Rightarrow> 'w video \<Rightarrow> bool" where
  "outside_picture x y width height st \<longleftrightarrow> x < 0 \<or> y < 0 \<or>
    add_s32 x width > uint (ef2_video_width st) \<or> add_s32 y height > uint (ef2_video_height st)"

definition texture_tex0 :: "video_texture \<Rightarrow> u8 \<Rightarrow> u64" where
  "texture_tex0 t tfx =
    (if indexed t \<noteq> 0
     then ef2_gs_pack_tex0_clut (vram_address t) (tex_buffer_width t) (tex_psm t) (width_log2 t) (height_log2 t) 1 tfx
            (clut_address t) (clut_psm t) 0 0 1
     else ef2_gs_pack_tex0 (vram_address t) (tex_buffer_width t) (tex_psm t) (width_log2 t) (height_log2 t) 1 tfx)"

definition region_packet ::
  "video_texture \<Rightarrow> u16 \<Rightarrow> u16 \<Rightarrow> u16 \<Rightarrow> u16 \<Rightarrow> s32 \<Rightarrow> s32 \<Rightarrow> s32 \<Rightarrow> s32 \<Rightarrow> u8 \<Rightarrow> u8 \<Rightarrow> u8 \<Rightarrow> u8 \<Rightarrow> u8 \<Rightarrow> 'w video \<Rightarrow>
   gif_qword list" where
  "region_packet t sx sy sw sh x y right bottom r g b a blend st =
    [packed_tag 14] @ draw_environment st @
    [ef2_gif_ad (texture_tex0 t 0) EF2_GS_ADDR_TEX0_1,
     ef2_gif_ad 0 EF2_GS_ADDR_TEX1_1,
     ef2_gif_ad 1 EF2_GS_ADDR_PRMODECONT,
     ef2_gif_ad (ef2_gs_pack_alpha 0 1 0 1 0x80) EF2_GS_ADDR_ALPHA_1,
     ef2_gif_ad (ef2_gs_pack_prim_ex EF2_GS_PRIM_SPRITE 0 1 0 (if blend \<noteq> 0 then 1 else 0) 0 1 0 0) EF2_GS_ADDR_PRIM,
     ef2_gif_ad (ef2_gs_pack_rgbaq r g b a) EF2_GS_ADDR_RGBAQ,
     ef2_gif_ad (ef2_gs_pack_uv (ucast (push_bit 4 (ucast sx :: u32))) (ucast (push_bit 4 (ucast sy :: u32)))) EF2_GS_ADDR_UV,
     ef2_gif_ad (ef2_gs_pack_xyz (fixed4 x) (fixed4 y) 0) EF2_GS_ADDR_XYZ2,
     ef2_gif_ad (ef2_gs_pack_uv (ucast (push_bit 4 (ucast sx + ucast sw :: u32)))
       (ucast (push_bit 4 (ucast sy + ucast sh :: u32)))) EF2_GS_ADDR_UV,
     ef2_gif_ad (ef2_gs_pack_xyz (fixed4 right) (fixed4 bottom) 0) EF2_GS_ADDR_XYZ2]"

definition ef2_video_draw_texture_region ::
  "('w, 'y) ee_scheme \<Rightarrow> video_texture option \<Rightarrow> u16 \<Rightarrow> u16 \<Rightarrow> u16 \<Rightarrow> u16 \<Rightarrow> s32 \<Rightarrow> s32 \<Rightarrow> s32 \<Rightarrow> s32 \<Rightarrow>
   u8 \<Rightarrow> u8 \<Rightarrow> u8 \<Rightarrow> u8 \<Rightarrow> u8 \<Rightarrow> ('w video, s32) state" where
  "ef2_video_draw_texture_region ee texture source_x source_y source_width source_height x y width height r g b a blend = do {
     st \<leftarrow> State_Monad.get;
     case texture of
       None \<Rightarrow> ret (-1)
     | Some t \<Rightarrow>
         if texture_unusable t \<or> source_width = 0 \<or> source_height = 0 \<or> width \<le> 0 \<or> height \<le> 0 then ret (-1)
         else if (ucast source_x + ucast source_width :: u32) > ucast (tex_width t) \<or>
                 (ucast source_y + ucast source_height :: u32) > ucast (tex_height t) then ret (-2)
         else if outside_picture x y width height st then ret (-3)
         else send_packet ee (region_packet t source_x source_y source_width source_height x y (add_s32 x width) (add_s32 y height)
                r g b a blend st) }"

definition texture_packet :: "video_texture \<Rightarrow> s32 \<Rightarrow> s32 \<Rightarrow> s32 \<Rightarrow> s32 \<Rightarrow> 'w video \<Rightarrow> gif_qword list" where
  "texture_packet t x y right bottom st =
    [packed_tag 13] @ draw_environment st @
    [ef2_gif_ad (texture_tex0 t 1) EF2_GS_ADDR_TEX0_1,
     ef2_gif_ad 0 EF2_GS_ADDR_TEX1_1,
     ef2_gif_ad 1 EF2_GS_ADDR_PRMODECONT,
     ef2_gif_ad (ef2_gs_pack_prim_ex EF2_GS_PRIM_SPRITE 0 1 0 0 0 1 0 0) EF2_GS_ADDR_PRIM,
     ef2_gif_ad (ef2_gs_pack_rgbaq 0x80 0x80 0x80 0x80) EF2_GS_ADDR_RGBAQ,
     ef2_gif_ad (ef2_gs_pack_uv 0 0) EF2_GS_ADDR_UV,
     ef2_gif_ad (ef2_gs_pack_xyz (fixed4 x) (fixed4 y) 0) EF2_GS_ADDR_XYZ2,
     ef2_gif_ad (ef2_gs_pack_uv (ucast (push_bit 4 (ucast (tex_width t) :: u32))) (ucast (push_bit 4 (ucast (tex_height t) :: u32))))
       EF2_GS_ADDR_UV,
     ef2_gif_ad (ef2_gs_pack_xyz (fixed4 right) (fixed4 bottom) 0) EF2_GS_ADDR_XYZ2]"

definition ef2_video_draw_texture ::
  "('w, 'y) ee_scheme \<Rightarrow> video_texture option \<Rightarrow> s32 \<Rightarrow> s32 \<Rightarrow> s32 \<Rightarrow> s32 \<Rightarrow> ('w video, s32) state" where
  "ef2_video_draw_texture ee texture x y width height = do {
     st \<leftarrow> State_Monad.get;
     case texture of
       None \<Rightarrow> ret (-1)
     | Some t \<Rightarrow>
         if texture_unusable t \<or> width \<le> 0 \<or> height \<le> 0 then ret (-1)
         else if outside_picture x y width height st then ret (-2)
         else send_packet ee (texture_packet t x y (add_s32 x width) (add_s32 y height) st) }"

end
