(* ===== verification/VideoSpec.thy ===== *)
theory VideoSpec
  imports VideoTexture
begin

text \<open>
  What the operations of the video library keep: the transport to the graphics synthesizer changes
  nothing else and never fails.
\<close>

section \<open>The transport\<close>

text \<open>The state without the machine and the state of the transport.\<close>

definition still :: "'w video \<Rightarrow> 'w video" where
  "still st = st\<lparr>ee_world := undefined, g_gif_dma_initialized := False, g_gif_dma_active := False,
    g_gif_dma_active_start := 0, g_gif_dma_stats := undefined, ef2_video_gif_dma_available := 0,
    ef2_video_gif_dma_fallbacks := 0\<rparr>"

lemma still_transport [simp]:
  "still (st\<lparr>ee_world := w\<rparr>) = still st" "still (st\<lparr>g_gif_dma_initialized := i\<rparr>) = still st"
  "still (st\<lparr>g_gif_dma_active := a\<rparr>) = still st" "still (st\<lparr>g_gif_dma_active_start := n\<rparr>) = still st"
  "still (st\<lparr>g_gif_dma_stats := s\<rparr>) = still st" "still (st\<lparr>ef2_video_gif_dma_available := v\<rparr>) = still st"
  "still (st\<lparr>ef2_video_gif_dma_fallbacks := f\<rparr>) = still st"
  by (simp_all add: still_def)

text \<open>A computation that leaves everything else as it is.\<close>

definition transports :: "('w video, 'a) state \<Rightarrow> ('a \<Rightarrow> bool) \<Rightarrow> bool" where
  "transports m R \<longleftrightarrow> (\<forall>st. still (snd (run_state m st)) = still st \<and> R (fst (run_state m st)))"

lemma transportsI: "(\<And>st. still (snd (run_state m st)) = still st \<and> R (fst (run_state m st))) \<Longrightarrow> transports m R"
  by (simp add: transports_def)

lemma transportsD: "transports m R \<Longrightarrow> run_state m st = (a, st') \<Longrightarrow> still st' = still st \<and> R a"
  by (auto simp: transports_def dest: spec [of _ st])

lemma transports_run:
  assumes "transports m R"
  shows "still (snd (run_state m st)) = still st" "R (fst (run_state m st))"
  using assms by (simp_all add: transports_def)

lemma transports_return: "R a \<Longrightarrow> transports (ret a) R"
  by (simp add: transports_def)

lemma transports_bind: "transports m R' \<Longrightarrow> (\<And>a. R' a \<Longrightarrow> transports (f a) R) \<Longrightarrow> transports (State_Monad.bind m f) R"
  by (simp add: transports_def split: prod.split) (metis fst_conv snd_conv)

lemma transports_if: "(b \<Longrightarrow> transports m R) \<Longrightarrow> (\<not> b \<Longrightarrow> transports m' R) \<Longrightarrow> transports (if b then m else m') R"
  by simp

lemma transports_let: "(\<And>x. x = e \<Longrightarrow> transports (f x) R) \<Longrightarrow> transports (let x = e in f x) R"
  by (simp add: Let_def)

lemma transports_mono: "transports m R' \<Longrightarrow> (\<And>a. R' a \<Longrightarrow> R a) \<Longrightarrow> transports m R"
  by (simp add: transports_def)

lemma transports_reads: "transports (reads f) (\<lambda>_. True)"
  by (simp add: transports_def)

lemma transports_get: "transports State_Monad.get (\<lambda>_. True)"
  by (simp add: transports_def)

lemma transports_on_ee: "transports (on_ee f) (\<lambda>_. True)"
  by (simp add: transports_def)

lemma transports_do_ee: "transports (do_ee f) (\<lambda>_. True)"
  by (simp add: transports_def)

lemma transports_stat_add: "transports (stat_add f) (\<lambda>_. True)"
  by (simp add: transports_def stat_add_def)

lemma transports_modify: "(\<And>st. still (f st) = still st) \<Longrightarrow> transports (modify f) (\<lambda>_. True)"
  by (simp add: transports_def)

lemmas transports_rules = transports_if transports_let

lemmas transports_steps = transports_bind [OF transports_reads] transports_bind [OF transports_get]
  transports_bind [OF transports_on_ee] transports_bind [OF transports_do_ee] transports_bind [OF transports_stat_add]
  transports_bind [OF transports_modify]

lemma transports_wait: "transports (ef2_gif_dma_wait ee t) (\<lambda>r. r \<in> {0, -1})"
  unfolding ef2_gif_dma_wait_def by (intro transports_rules transports_steps transports_return) simp_all

lemma transports_dma_init: "transports (ef2_gif_dma_init ee) (\<lambda>r. r \<in> {0, -1})"
  unfolding ef2_gif_dma_init_def
  by (intro transports_rules transports_steps transports_return transports_bind [OF transports_wait]) simp_all

lemma transports_dma_submit: "transports (ef2_gif_dma_submit_qwords ee packet n) (\<lambda>r. r \<le> 0)"
  unfolding ef2_gif_dma_submit_qwords_def
  by (intro transports_rules transports_steps transports_return transports_bind [OF transports_wait]
      transports_bind [OF transports_dma_init]) simp_all

lemma transports_dma_send: "transports (ef2_gif_dma_send_qwords ee packet n) (\<lambda>r. r \<le> 0)"
  unfolding ef2_gif_dma_send_qwords_def
  by (intro transports_rules transports_return transports_bind [OF transports_dma_submit] transports_mono [OF transports_wait]) auto

lemma transports_submit: "transports (ef2_video_submit_qwords ee packet n) (\<lambda>r. r = 0)"
  unfolding ef2_video_submit_qwords_def
  by (intro transports_steps transports_bind [where R' = "\<lambda>_ :: bool. True"] transports_rules transports_return
      transports_bind [OF transports_dma_send]) simp_all

lemma transports_send: "transports (send_packet ee qs) (\<lambda>r. r = 0)"
  unfolding send_packet_def by (intro transports_steps transports_submit)

section \<open>Uploads\<close>

lemma transports_image_loop: "transports (image_loop ee pixels offset remaining) (\<lambda>r. r = 0)"
proof (induction "unat remaining" arbitrary: offset remaining rule: less_induct)
  case less
  have rest: "transports (image_loop ee pixels offset' (remaining - image_chunk remaining)) (\<lambda>r. r = 0)" if "remaining \<noteq> 0" for offset'
    using less image_chunk_less [OF that] by blast
  show ?case
    by (subst image_loop.simps)
      (intro transports_rules transports_return transports_bind [OF transports_send] transports_bind [OF transports_submit]; simp add: rest)
qed

lemma transports_upload_image:
  "pixels \<noteq> 0 \<Longrightarrow> n \<noteq> 0 \<Longrightarrow> n AND 0x0F = 0 \<Longrightarrow> transports (ef2_video_upload_image ee d dw psm w h pixels n) (\<lambda>r. r = 0)"
  unfolding ef2_video_upload_image_def
  by (intro transports_rules transports_return transports_bind [OF transports_send] transports_image_loop) auto

lemma transports_flush: "transports (ef2_video_flush_texture_cache ee) (\<lambda>r. r = 0)"
  unfolding ef2_video_flush_texture_cache_def by (rule transports_send)

lemma transports_clut: "transports (ef2_video_prepare_csm1_clut ee palette) (\<lambda>_. True)"
  unfolding ef2_video_prepare_csm1_clut_def by (rule transports_do_ee)

section \<open>Drawing\<close>

lemma transports_two_vertex: "transports (ef2_video_draw_two_vertex ee p x0 y0 x1 y1 r g b) (\<lambda>_. True)"
  unfolding ef2_video_draw_two_vertex_def
  by (intro transports_steps transports_rules transports_return transports_mono [OF transports_send]) simp_all

lemma transports_rect: "transports (ef2_video_draw_rect ee x y w h r g b) (\<lambda>_. True)"
  unfolding ef2_video_draw_rect_def
  by (intro transports_steps transports_rules transports_return transports_two_vertex) simp_all

lemma transports_line: "transports (ef2_video_draw_line ee x0 y0 x1 y1 r g b) (\<lambda>_. True)"
  unfolding ef2_video_draw_line_def by (intro transports_steps transports_rules transports_return transports_two_vertex) simp_all

lemma transports_clear: "transports (ef2_video_clear ee r g b) (\<lambda>_. True)"
  unfolding ef2_video_clear_def by (intro transports_steps transports_rules transports_return transports_rect) simp_all

lemma transports_region: "transports (ef2_video_draw_texture_region ee t sx sy sw sh x y w h r g b a blend) (\<lambda>_. True)"
  unfolding ef2_video_draw_texture_region_def
  by (cases t) (auto intro!: transports_steps transports_rules transports_return transports_mono [OF transports_send])

lemma transports_texture: "transports (ef2_video_draw_texture ee t x y w h) (\<lambda>_. True)"
  unfolding ef2_video_draw_texture_def
  by (cases t) (auto intro!: transports_steps transports_rules transports_return transports_mono [OF transports_send])

lemma transports_background: "transports (ef2_video_set_background ee r g b) (\<lambda>_. True)"
  unfolding ef2_video_set_background_def by (rule transports_do_ee)

lemma transports_display: "transports (ef2_video_program_display_buffer ee i) (\<lambda>_. True)"
  unfolding ef2_video_program_display_buffer_def by (intro transports_steps transports_do_ee)

lemma transports_program: "transports (video_program ee standard h dx dy) (\<lambda>_. True)"
  unfolding video_program_def
  by (intro transports_steps transports_rules transports_return transports_bind [OF transports_dma_init]
      transports_bind [OF transports_background] transports_bind [OF transports_display] transports_bind [OF transports_clear]) simp_all

end
