(* ===== verification/VideoMemory.thy ===== *)
theory VideoMemory
  imports VideoSpec
begin

text \<open>
  The memory of the graphics synthesizer: the bytes that a texture takes, and the three uploads, which
  either change nothing or place the new texture between the old and the new cursor.
\<close>

section \<open>Textures in memory\<close>

text \<open>The ranges of bytes that a texture takes: its pixels in whole pages of its format, and its palette.\<close>

definition pad_to :: "nat \<Rightarrow> nat \<Rightarrow> nat" where
  "pad_to n m = (n + m - 1) div m * m"

definition texture_ranges :: "video_texture \<Rightarrow> (nat \<times> nat) list" where
  "texture_ranges t =
    (let w = unat (tex_width t); h = unat (tex_height t); a = 256 * unat (vram_address t); c = 256 * unat (clut_address t)
     in if tex_psm t = EF2_GS_PSMCT32 then [(a, a + pad_to w 64 * pad_to h 32 * 4)]
        else if tex_psm t = EF2_GS_PSMT8 then [(a, a + pad_to w 128 * pad_to h 64), (c, c + 1024)]
        else [(a, a + pad_to w 128 * pad_to h 128 div 2), (c, c + 256)])"

text \<open>Ranges one after the other, without overlap, between two bounds.\<close>

definition ranges_ok :: "nat \<Rightarrow> (nat \<times> nat) list \<Rightarrow> nat \<Rightarrow> bool" where
  "ranges_ok a rs b \<longleftrightarrow> a \<le> b \<and> sorted_wrt (\<lambda>r s. snd r \<le> fst s) rs \<and> (\<forall>(s, e) \<in> set rs. a \<le> s \<and> s < e \<and> e \<le> b)"

lemma ranges_ok_Nil [simp]: "ranges_ok a [] b \<longleftrightarrow> a \<le> b"
  by (simp add: ranges_ok_def)

lemma ranges_ok_append: "ranges_ok a xs m \<Longrightarrow> ranges_ok m ys b \<Longrightarrow> ranges_ok a (xs @ ys) b"
  by (fastforce simp: ranges_ok_def sorted_wrt_append)

lemma ranges_ok_widen: "ranges_ok a rs b \<Longrightarrow> a' \<le> a \<Longrightarrow> b \<le> b' \<Longrightarrow> ranges_ok a' rs b'"
  by (auto simp: ranges_ok_def)

lemma pad_to_ge: "0 < m \<Longrightarrow> n \<le> pad_to n m"
proof -
  assume "0 < m"
  then have "n + m - 1 < Suc ((n + m - 1) div m) * m" using dividend_less_div_times [of m "n + m - 1"] by simp
  then show ?thesis unfolding pad_to_def by simp
qed

lemma pad_to_le: "0 < m \<Longrightarrow> m dvd b \<Longrightarrow> n \<le> b \<Longrightarrow> pad_to n m \<le> b"
proof -
  assume m: "0 < m" and d: "m dvd b" and "n \<le> b"
  obtain k where k: "b = m * k" using d by blast
  have "n + m - 1 < Suc k * m" using \<open>n \<le> b\<close> m by (simp add: k algebra_simps)
  then have "(n + m - 1) div m < Suc k" using m by (simp add: div_less_iff_less_mult)
  then show ?thesis by (simp add: pad_to_def k mult.commute)
qed

lemma pad_to_dvd: "m dvd pad_to n m"
  by (simp add: pad_to_def)

lemma unat_video_align_up:
  assumes "unat v + 2 ^ k \<le> 4294967296" "k < 32"
  shows "unat (ef2_align_up_u32 v (2 ^ k)) = pad_to (unat v) (2 ^ k)"
proof -
  have "(2 :: nat) ^ k < 2 ^ 32" using assms(2) by (rule power_strict_increasing) simp
  then have two: "unat (2 ^ k :: u32) = 2 ^ k"
    using unat_of_nat [where 'a = 32, of "2 ^ k"] by (simp add: take_bit_nat_eq_self)
  have "unat (v + 2 ^ k) = unat v + 2 ^ k \<or> unat v + 2 ^ k = 4294967296"
    using assms by (auto simp: unat_word_ariths two)
  then have "unat (v + 2 ^ k - 1) = unat v + 2 ^ k - 1"
  proof
    assume e: "unat (v + 2 ^ k) = unat v + 2 ^ k"
    then have "0 < unat (v + 2 ^ k)" by simp
    then have "v + 2 ^ k \<noteq> 0" by (simp add: unat_gt_0)
    then show ?thesis by (simp add: unat_minus_one e)
  next
    assume e: "unat v + 2 ^ k = 4294967296"
    then have "unat (v + 2 ^ k) = 0" by (simp add: unat_word_ariths two)
    then have "v + 2 ^ k = 0" by (simp add: unat_eq_zero)
    then show ?thesis by (simp add: e unsigned_minus_1_eq_mask mask_eq_exp_minus_1)
  qed
  moreover have "(2 ^ k - 1 :: u32) = mask k" by (simp add: mask_eq_decr_exp)
  ultimately show ?thesis by (simp add: ef2_align_up_u32_def unat_and_not_mask pad_to_def)
qed


section \<open>Allocation\<close>

text \<open>A computation that, from a state whose frozen part is \<open>S\<close>, fails and leaves it as it is, or makes a
  texture \<open>t\<close> and sets the cursor of the texture memory to \<open>c\<close>, which are related by \<open>P\<close>.\<close>

definition allocates ::
  "'w video \<Rightarrow> ('w video, s32 \<times> video_texture option) state \<Rightarrow> (u32 \<Rightarrow> video_texture \<Rightarrow> bool) \<Rightarrow> bool" where
  "allocates S m P \<longleftrightarrow> (\<forall>st r texture st'. still st = S \<longrightarrow> run_state m st = ((r, texture), st') \<longrightarrow>
     (r < 0 \<and> still st' = S) \<or>
     (\<exists>c t. r = 0 \<and> texture = Some t \<and> P c t \<and> still st' = S\<lparr>ef2_video_texture_cursor := c\<rparr>))"

lemma allocates_fail: "r < 0 \<Longrightarrow> allocates S (ret (r, texture)) P"
  by (simp add: allocates_def)

lemma allocates_done:
  "P c t \<Longrightarrow> allocates S (State_Monad.bind (modify (\<lambda>st. st\<lparr>ef2_video_texture_cursor := c\<rparr>)) (\<lambda>_. ret (0, Some t))) P"
  by (auto simp: allocates_def still_def)

lemma allocates_bind:
  assumes "transports m R'" "\<And>a. R' a \<Longrightarrow> allocates S (f a) P"
  shows "allocates S (State_Monad.bind m f) P"
  unfolding allocates_def
proof (intro allI impI)
  fix st r texture st'
  assume S: "still st = S" and run: "run_state (State_Monad.bind m f) st = ((r, texture), st')"
  obtain a sta where a: "run_state m st = (a, sta)" by fastforce
  have "still sta = S" "R' a" using transportsD [OF assms(1) a] S by auto
  moreover have "run_state (f a) sta = ((r, texture), st')" using run by (simp add: a)
  ultimately show "(r < 0 \<and> still st' = S) \<or>
     (\<exists>c t. r = 0 \<and> texture = Some t \<and> P c t \<and> still st' = S\<lparr>ef2_video_texture_cursor := c\<rparr>)"
    using assms(2) [of a] unfolding allocates_def by blast
qed

lemma still_cursor [simp]: "ef2_video_texture_cursor (still st) = ef2_video_texture_cursor st"
  by (simp add: still_def)

lemma allocates_cursor:
  "allocates S (f (ef2_video_texture_cursor S)) P \<Longrightarrow> allocates S (State_Monad.bind (reads ef2_video_texture_cursor) f) P"
  unfolding allocates_def
proof (intro allI impI)
  fix st r texture st'
  assume f: "\<forall>st r texture st'. still st = S \<longrightarrow>
      run_state (f (ef2_video_texture_cursor S)) st = ((r, texture), st') \<longrightarrow>
      r < 0 \<and> still st' = S \<or>
      (\<exists>c t. r = 0 \<and> texture = Some t \<and> P c t \<and> still st' = S\<lparr>ef2_video_texture_cursor := c\<rparr>)"
    and S: "still st = S"
    and run: "run_state (State_Monad.bind (reads ef2_video_texture_cursor) f) st = ((r, texture), st')"
  have "run_state (f (ef2_video_texture_cursor S)) st = ((r, texture), st')" using run S by auto
  then show "r < 0 \<and> still st' = S \<or>
      (\<exists>c t. r = 0 \<and> texture = Some t \<and> P c t \<and> still st' = S\<lparr>ef2_video_texture_cursor := c\<rparr>)"
    using f S by blast
qed

lemma allocates_if: "(b \<Longrightarrow> allocates S m P) \<Longrightarrow> (\<not> b \<Longrightarrow> allocates S m' P) \<Longrightarrow> allocates S (if b then m else m') P"
  by simp

lemma allocates_let: "(\<And>x. x = e \<Longrightarrow> allocates S (f x) P) \<Longrightarrow> allocates S (let x = e in f x) P"
  by (simp add: Let_def)

lemma transports_upload: "transports (ef2_video_upload_image ee d dw psm w h pixels n) (\<lambda>_. True)"
  unfolding ef2_video_upload_image_def
  by (intro transports_rules transports_return transports_bind [OF transports_send]
      transports_mono [OF transports_image_loop]) auto

lemmas allocates_rules = allocates_if allocates_let allocates_fail allocates_done allocates_bind [OF transports_upload]
  allocates_bind [OF transports_flush] allocates_bind [OF transports_clut]

text \<open>A texture lies in the memory between the old and the new cursor, in whole units of the hardware.\<close>

definition fits :: "u32 \<Rightarrow> u32 \<Rightarrow> video_texture \<Rightarrow> bool" where
  "fits old c t \<longleftrightarrow> ranges_ok (unat old) (texture_ranges t) (unat c) \<and> c \<le> EF2_GS_VRAM_BYTES"

lemma unat_side [simp]: "unat (ucast (w :: u16) :: u32) = unat w"
  by (simp add: unsigned_ucast_eq take_bit_nat_eq_self_iff less_trans [OF unsigned_less])

lemma unat_padded:
  assumes "w \<le> (1024 :: u16)" "k \<le> 10"
  shows "unat (ef2_align_up_u32 (ucast w) (2 ^ k)) = pad_to (unat w) (2 ^ k)"
    and "pad_to (unat w) (2 ^ k) \<le> 1024"
proof -
  have w: "unat w \<le> 1024" using assms(1) by (simp add: word_le_nat_alt)
  have p: "(2 :: nat) ^ k \<le> 2 ^ 10" using assms(2) by (rule power_increasing) simp
  show "unat (ef2_align_up_u32 (ucast w) (2 ^ k)) = pad_to (unat w) (2 ^ k)"
    using w p assms(2) unat_video_align_up [of "ucast w" k] by simp
  have "(2 :: nat) ^ k dvd 2 ^ 10" using assms(2) by (rule le_imp_power_dvd)
  then show "pad_to (unat w) (2 ^ k) \<le> 1024" using w by (intro pad_to_le) auto
qed

lemma unat_page:
  assumes "c \<le> EF2_GS_VRAM_BYTES"
  shows "unat (ef2_align_up_u32 c EF2_GS_TEXTURE_PAGE_BYTES) = pad_to (unat c) 8192"
    and "pad_to (unat c) 8192 \<le> 4194304"
proof -
  have c: "unat c \<le> 4194304" using assms by (simp add: word_le_nat_alt EF2_GS_VRAM_BYTES_def)
  show "unat (ef2_align_up_u32 c EF2_GS_TEXTURE_PAGE_BYTES) = pad_to (unat c) 8192"
    using c unat_video_align_up [of c 13] by (simp add: EF2_GS_TEXTURE_PAGE_BYTES_def)
  show "pad_to (unat c) 8192 \<le> 4194304" using c by (intro pad_to_le) auto
qed


lemma pad_to_pos: "0 < n \<Longrightarrow> 0 < m \<Longrightarrow> 0 < pad_to n m"
  using pad_to_ge [of m n] by simp

lemma unat_mult_u32: "unat a * unat b < 4294967296 \<Longrightarrow> unat (a * b :: u32) = unat a * unat b"
  by (simp add: unat_word_ariths)

lemma unat_add_u32: "unat a + unat b < 4294967296 \<Longrightarrow> unat (a + b :: u32) = unat a + unat b"
  by (simp add: unat_word_ariths)

text \<open>A page address in units of 256 bytes fits its field.\<close>

lemma block_address:
  assumes "unat (c :: u32) < 4194304" "256 dvd unat c"
  shows "256 * unat (ucast (c div 256) :: u16) = unat c" "unat (ucast (c div 256) :: u16) < 16384"
proof -
  have "unat (c div 256) = unat c div 256" by (simp add: unat_div)
  moreover have d: "unat c div 256 < 16384" using assms(1) by simp
  ultimately have u: "unat (ucast (c div 256) :: u16) = unat c div 256"
    by (simp add: unsigned_ucast_eq take_bit_nat_eq_self)
  show "256 * unat (ucast (c div 256) :: u16) = unat c" using assms(2) u by simp
  show "unat (ucast (c div 256) :: u16) < 16384" using d u by simp
qed

lemma fits_rgba32:
  assumes old: "old \<le> EF2_GS_VRAM_BYTES" and size: "\<not> texture_size_invalid w h"
    and cursor: "cursor = ef2_align_up_u32 old EF2_GS_TEXTURE_PAGE_BYTES"
    and pw: "pw = ef2_align_up_u32 (ucast w) 64" and ph: "ph = ef2_align_up_u32 (ucast h) 32"
    and bytes: "bytes = pw * ph * 4"
    and room: "\<not> (cursor > EF2_GS_VRAM_BYTES \<or> bytes > EF2_GS_VRAM_BYTES - cursor)"
    and t: "vram_address t = ucast (cursor div 256)" "tex_width t = w" "tex_height t = h" "tex_psm t = EF2_GS_PSMCT32"
  shows "fits old (cursor + bytes) t"
proof -
  have wh: "w \<le> 1024" "h \<le> 1024" "0 < unat w" "0 < unat h"
    using size by (auto simp: texture_size_invalid_def unat_gt_0)
  define n where "n = pad_to (unat w) 64 * pad_to (unat h) 32"
  have p: "unat pw = pad_to (unat w) 64" "unat ph = pad_to (unat h) 32" "pad_to (unat w) 64 \<le> 1024" "pad_to (unat h) 32 \<le> 1024"
    using unat_padded [OF wh(1), of 6] unat_padded [OF wh(2), of 5] by (simp_all add: pw ph)
  have c: "unat cursor = pad_to (unat old) 8192" using unat_page [OF old] by (simp add: cursor)
  have n: "n \<le> 1024 * 1024" unfolding n_def using p(3,4) by (rule mult_le_mono)
  have n0: "0 < n" using wh by (simp add: pad_to_pos n_def)
  have m: "unat (pw * ph) = n" using n by (simp add: unat_mult_u32 p n_def)
  have m4: "unat bytes = n * 4" using n unat_mult_u32 [of "pw * ph" 4] by (simp add: m bytes)
  have "unat cursor \<le> 4194304" "unat bytes \<le> 4194304 - unat cursor"
    using room by (auto simp: EF2_GS_VRAM_BYTES_def word_le_nat_alt not_less unat_sub)
  then have le: "unat cursor + n * 4 \<le> 4194304" by (simp add: m4)
  have e: "unat (cursor + bytes) = unat cursor + n * 4"
    using unat_add_u32 [of cursor bytes] le by (simp add: m4)
  have "256 dvd unat cursor" unfolding c by (rule dvd_trans [OF _ pad_to_dvd]) simp
  moreover have "unat cursor < 4194304" using le n0 by linarith
  ultimately have a: "256 * unat (vram_address t) = unat cursor" unfolding t by (intro block_address)
  have "unat old \<le> unat cursor" unfolding c by (rule pad_to_ge) simp
  then show ?thesis
    using le n0 by (simp add: fits_def texture_ranges_def Let_def t(2-4) a ranges_ok_def e EF2_GS_VRAM_BYTES_def word_le_nat_alt n_def)
qed

lemma rgba32_allocates:
  assumes "ef2_video_texture_cursor S \<le> EF2_GS_VRAM_BYTES"
  shows "allocates S (ef2_video_upload_rgba32 ee texture pixels w h) (fits (ef2_video_texture_cursor S))"
  unfolding ef2_video_upload_rgba32_def
  by (intro allocates_rules allocates_cursor fits_rgba32 [OF assms]) auto


lemma fits_indexed:
  assumes old: "old \<le> EF2_GS_VRAM_BYTES"
    and cursor: "cursor = ef2_align_up_u32 old EF2_GS_TEXTURE_PAGE_BYTES"
    and clut: "clut = ef2_align_up_u32 (cursor + bytes) 256"
    and stop: "stop = clut + entries" and room: "\<not> stop > EF2_GS_VRAM_BYTES"
    and entries: "0 < unat entries" "unat entries \<le> 1024"
    and bytes: "0 < unat bytes" "unat bytes \<le> 1024 * 1024"
    and t: "vram_address t = ucast (cursor div 256)" "clut_address t = ucast (clut div 256)"
      "texture_ranges t = [(256 * unat (vram_address t), 256 * unat (vram_address t) + unat bytes),
         (256 * unat (clut_address t), 256 * unat (clut_address t) + unat entries)]"
  shows "fits old stop t"
proof -
  have c: "unat cursor = pad_to (unat old) 8192" "unat cursor \<le> 4194304" using unat_page [OF old] by (simp_all add: cursor)
  have b: "unat (cursor + bytes) = unat cursor + unat bytes" using c bytes by (simp add: unat_add_u32)
  have l: "unat clut = pad_to (unat (cursor + bytes)) 256"
    using c bytes unat_video_align_up [of "cursor + bytes" 8] by (simp add: clut b)
  have "pad_to (unat (cursor + bytes)) 256 \<le> 6 * 1024 * 1024" using c bytes b by (intro pad_to_le) auto
  then have e: "unat stop = unat clut + unat entries" using l entries by (simp add: stop unat_add_u32)
  then have le: "unat clut + unat entries \<le> 4194304" using room by (simp add: EF2_GS_VRAM_BYTES_def word_le_nat_alt not_less)
  have g: "unat cursor + unat bytes \<le> unat clut" unfolding l by (simp add: pad_to_ge flip: b)
  have "256 dvd unat cursor" unfolding c by (rule dvd_trans [OF _ pad_to_dvd]) simp
  then have a: "256 * unat (vram_address t) = unat cursor" unfolding t using g le entries bytes by (intro block_address) auto
  have "256 dvd unat clut" unfolding l by (rule pad_to_dvd)
  then have a': "256 * unat (clut_address t) = unat clut" unfolding t using le entries by (intro block_address) auto
  have "unat old \<le> unat cursor" unfolding c by (rule pad_to_ge) simp
  then show ?thesis
    using le g entries bytes by (simp add: fits_def t(3) a a' ranges_ok_def e EF2_GS_VRAM_BYTES_def word_le_nat_alt)
qed

lemma texture_bytes:
  assumes size: "\<not> texture_size_invalid w h" and k: "k \<le> 10" "l \<le> 10"
  shows "unat (ef2_align_up_u32 (ucast w) (2 ^ k) * ef2_align_up_u32 (ucast h) (2 ^ l)) = pad_to (unat w) (2 ^ k) * pad_to (unat h) (2 ^ l)"
    and "pad_to (unat w) (2 ^ k) * pad_to (unat h) (2 ^ l) \<le> 1024 * 1024"
    and "2 ^ k * 2 ^ l \<le> pad_to (unat w) (2 ^ k) * pad_to (unat h) (2 ^ l)"
proof -
  have wh: "w \<le> 1024" "h \<le> 1024" "0 < unat w" "0 < unat h"
    using size by (auto simp: texture_size_invalid_def unat_gt_0)
  show n: "pad_to (unat w) (2 ^ k) * pad_to (unat h) (2 ^ l) \<le> 1024 * 1024"
    using unat_padded(2) [OF wh(1) k(1)] unat_padded(2) [OF wh(2) k(2)] by (rule mult_le_mono)
  then show "unat (ef2_align_up_u32 (ucast w) (2 ^ k) * ef2_align_up_u32 (ucast h) (2 ^ l)) = pad_to (unat w) (2 ^ k) * pad_to (unat h) (2 ^ l)"
    using unat_padded(1) [OF wh(1) k(1)] unat_padded(1) [OF wh(2) k(2)] by (simp add: unat_mult_u32)
  have "2 ^ k \<le> pad_to (unat w) (2 ^ k)" "2 ^ l \<le> pad_to (unat h) (2 ^ l)"
    using wh by (auto intro!: dvd_imp_le [OF pad_to_dvd] pad_to_pos)
  then show "2 ^ k * 2 ^ l \<le> pad_to (unat w) (2 ^ k) * pad_to (unat h) (2 ^ l)" by (rule mult_le_mono)
qed

lemma indexed8_allocates:
  assumes "ef2_video_texture_cursor S \<le> EF2_GS_VRAM_BYTES"
  shows "allocates S (ef2_video_upload_indexed8 ee texture indices palette w h) (fits (ef2_video_texture_cursor S))"
  unfolding ef2_video_upload_indexed8_def
proof (intro allocates_rules allocates_cursor)
  fix index_bytes pw ph bytes cursor clut stop t r and r' r'' :: s32
  assume e: "pw = ef2_align_up_u32 (ucast w) 128" "ph = ef2_align_up_u32 (ucast h) 64" "bytes = pw * ph"
      "cursor = ef2_align_up_u32 (ef2_video_texture_cursor S) EF2_GS_TEXTURE_PAGE_BYTES"
      "clut = ef2_align_up_u32 (cursor + bytes) 256" "stop = clut + 1024"
    and size: "\<not> (texture = None \<or> indices = 0 \<or> palette = 0 \<or> texture_size_invalid w h)"
    and room: "\<not> stop > EF2_GS_VRAM_BYTES"
    and t: "t = \<lparr>vram_address = ucast (cursor div 256), clut_address = ucast (clut div 256), tex_width = w,
                tex_height = h, tex_buffer_width = ucast (pw div 64), tex_psm = EF2_GS_PSMT8,
                clut_psm = EF2_GS_PSMCT32, width_log2 = ef2_log2_ceil_u16 w, height_log2 = ef2_log2_ceil_u16 h,
                valid = 0, indexed = 1\<rparr>"
  have "\<not> texture_size_invalid w h" using size by blast
  note n = texture_bytes [OF this, of 7 6]
  have b: "unat bytes = pad_to (unat w) 128 * pad_to (unat h) 64" "unat bytes \<le> 1024 * 1024" "0 < unat bytes"
    using n by (simp_all add: e del: nat_0_less_mult_iff)
  show "fits (ef2_video_texture_cursor S) stop (t\<lparr>valid := 1\<rparr>)"
    by (intro fits_indexed [OF assms e(4-6) room _ _ b(3,2)])
      (simp_all add: t texture_ranges_def Let_def b(1) EF2_GS_PSMT8_def EF2_GS_PSMCT32_def)
qed auto

lemma indexed4_allocates:
  assumes "ef2_video_texture_cursor S \<le> EF2_GS_VRAM_BYTES"
  shows "allocates S (ef2_video_upload_indexed4 ee texture indices palette w h) (fits (ef2_video_texture_cursor S))"
  unfolding ef2_video_upload_indexed4_def
proof (intro allocates_rules allocates_cursor)
  fix count packed pw ph bytes cursor clut stop t r and r' r'' :: s32
  assume e: "pw = ef2_align_up_u32 (ucast w) 128" "ph = ef2_align_up_u32 (ucast h) 128" "bytes = drop_bit 1 (pw * ph)"
      "cursor = ef2_align_up_u32 (ef2_video_texture_cursor S) EF2_GS_TEXTURE_PAGE_BYTES"
      "clut = ef2_align_up_u32 (cursor + bytes) 256" "stop = clut + 256"
    and size: "\<not> (texture = None \<or> indices = 0 \<or> palette = 0 \<or> texture_size_invalid w h)"
    and room: "\<not> stop > EF2_GS_VRAM_BYTES"
    and t: "t = \<lparr>vram_address = ucast (cursor div 256), clut_address = ucast (clut div 256), tex_width = w,
                tex_height = h, tex_buffer_width = ucast (pw div 64), tex_psm = EF2_GS_PSMT4,
                clut_psm = EF2_GS_PSMCT32, width_log2 = ef2_log2_ceil_u16 w, height_log2 = ef2_log2_ceil_u16 h,
                valid = 0, indexed = 1\<rparr>"
  have "\<not> texture_size_invalid w h" using size by blast
  note n = texture_bytes [OF this, of 7 7]
  have "unat (pw * ph) = pad_to (unat w) 128 * pad_to (unat h) 128" using n(1) by (simp add: e)
  then have b1: "unat bytes = pad_to (unat w) 128 * pad_to (unat h) 128 div 2"
    using unat_drop_bit_div [of 1 "pw * ph"] by (simp add: e(3))
  have b: "unat bytes \<le> 1024 * 1024" "0 < unat bytes" using n(2,3) by (simp_all add: b1)
  show "fits (ef2_video_texture_cursor S) stop (t\<lparr>valid := 1\<rparr>)"
    by (intro fits_indexed [OF assms e(4-6) room _ _ b(2,1)])
      (simp_all add: t texture_ranges_def Let_def b1 EF2_GS_PSMT8_def EF2_GS_PSMT4_def EF2_GS_PSMCT32_def)
qed auto

end
