(* ===== verification/VideoModule.thy ===== *)
theory VideoModule
  imports VideoMemory
begin

text \<open>
  The video library as a whole: what an initialisation leaves, the calls of the library as steps, and the
  invariant of the frame buffers and of the texture memory that every sequence of calls keeps.
\<close>

section \<open>Initialisation\<close>

text \<open>As \<open>transports\<close>, from a given frozen part.\<close>

definition stays :: "'w video \<Rightarrow> ('w video, 'a) state \<Rightarrow> ('a \<Rightarrow> bool) \<Rightarrow> bool" where
  "stays S m R \<longleftrightarrow> (\<forall>st. still st = S \<longrightarrow> still (snd (run_state m st)) = S \<and> R (fst (run_state m st)))"

lemma stays_transports: "transports m R \<Longrightarrow> stays S m R"
  by (simp add: stays_def transports_def)

lemma stays_return: "R a \<Longrightarrow> stays S (ret a) R"
  by (simp add: stays_def)

lemma stays_bind: "stays S m R' \<Longrightarrow> (\<And>a. R' a \<Longrightarrow> stays S (f a) R) \<Longrightarrow> stays S (State_Monad.bind m f) R"
  by (simp add: stays_def split: prod.split) (metis fst_conv snd_conv)

lemma stays_if: "(b \<Longrightarrow> stays S m R) \<Longrightarrow> (\<not> b \<Longrightarrow> stays S m' R) \<Longrightarrow> stays S (if b then m else m') R"
  by simp

lemma stays_get: "(\<And>st. still st = S \<Longrightarrow> stays S (f st) R) \<Longrightarrow> stays S (State_Monad.bind State_Monad.get f) R"
  by (simp add: stays_def)

lemma still_size [simp]: "ef2_video_width (still st) = ef2_video_width st" "ef2_video_height (still st) = ef2_video_height st"
  by (simp_all add: still_def)

lemma still_eq_size:
  "still st = S \<Longrightarrow> ef2_video_width st = ef2_video_width S" "still st = S \<Longrightarrow> ef2_video_height st = ef2_video_height S"
  by auto

lemma u16_small: "uint (x :: u16) < 65536" "0 \<le> uint (x :: u16)"
  using unsigned_less [of x, where 'a = int] by simp_all

lemma add_s32_zero: "add_s32 0 (uint (x :: u16)) = uint x"
  using u16_small [of x] add_s32_small [of 0 "uint x"] by linarith

lemma clear_run:
  assumes "\<not> video_off st"
  shows "run_state (ef2_video_clear ee r g b) st =
    run_state (send_packet ee (two_vertex_packet EF2_GS_PRIM_SPRITE 0 0
      (uint (ef2_video_width st)) (uint (ef2_video_height st)) r g b st)) st"
proof -
  have p: "0 < uint (ef2_video_width st)" "0 < uint (ef2_video_height st)"
    using assms by (simp_all add: video_off_def order_less_le unsigned_eq_0_iff)
  then show ?thesis
    using assms by (simp add: ef2_video_clear_def ef2_video_draw_rect_def ef2_video_draw_two_vertex_def Let_def
        add_s32_zero ef2_clamp_s32_def)
qed

lemma clear_sent: "\<not> video_off S \<Longrightarrow> stays S (ef2_video_clear ee r g b) (\<lambda>r. r = 0)"
  by (auto simp: stays_def video_off_def clear_run transports_run [OF transports_send])

lemma program_sent: "\<not> video_off S \<Longrightarrow> stays S (video_program ee standard h dx dy) (\<lambda>r. r = 0)"
  unfolding video_program_def
  by (intro stays_bind [OF stays_transports [OF transports_do_ee]] stays_bind [OF stays_transports [OF transports_modify]]
      stays_bind [OF stays_transports [OF transports_dma_init]] stays_bind [OF stays_transports [OF transports_background]]
      stays_get stays_bind [OF stays_transports [OF transports_display]] stays_bind [OF clear_sent] stays_if stays_return) auto


text \<open>An accepted size has frame buffers of at most one megabyte and three quarters, in whole pages.\<close>

lemma video_size_bounds:
  assumes "video_size_valid w h dh" "dh \<le> 512"
  shows "w \<noteq> 0" "h \<noteq> 0" "unat w \<le> 1024" "unat h \<le> 512"
  using assms by (auto simp: video_size_valid_def word_le_nat_alt word_less_nat_alt)

lemma framebuffer_bounds:
  assumes "video_size_valid w h dh" "dh \<le> 512" "ph = 32 \<or> ph = 64"
  shows "0 < unat (video_framebuffer_size w h ph)" "unat (video_framebuffer_size w h ph) \<le> 2097152"
    "8192 dvd unat (video_framebuffer_size w h ph)"
proof -
  note b = video_size_bounds [OF assms(1,2)]
  have w0: "0 < unat w" and h0: "0 < unat h" using b by (simp_all add: unat_gt_0)
  have p: "unat ph = 32 \<or> unat ph = 64" using assms(3) by auto
  define c where "c = (ucast w + 63) div (64 :: u32)"
  define r where "r = (ucast h + ucast ph - 1) div (ucast ph :: u32)"
  have c: "unat c = (unat w + 63) div 64" using b by (simp add: c_def unat_div unat_add_u32)
  have "unat (ucast h + ucast ph :: u32) = unat h + unat ph" using b p by (auto simp: unat_add_u32)
  moreover have "(ucast h + ucast ph :: u32) \<noteq> 0"
    using calculation h0 by (metis add_gr_0 unat_gt_0)
  ultimately have "unat (ucast h + ucast ph - 1 :: u32) = unat h + unat ph - 1" by (simp add: unat_minus_one)
  then have r: "unat r = (unat h + unat ph - 1) div unat ph" by (simp add: r_def unat_div)
  have "unat c \<le> 16" "0 < unat c" using b w0 by (simp_all add: c)
  moreover have "unat r \<le> 16" "0 < unat r" using b h0 p by (auto simp: r)
  note cr = calculation this
  define n where "n = unat c * unat r"
  have n: "n \<le> 16 * 16" "0 < n" unfolding n_def using cr by (simp_all only: mult_le_mono nat_0_less_mult_iff simp_thms)
  have "unat (c * r) = n" using n by (simp add: unat_mult_u32 n_def)
  then have "unat (c * r * 8192) = n * 8192" using n unat_mult_u32 [of "c * r" 8192] by simp
  moreover have "video_framebuffer_size w h ph = c * r * 8192"
    by (simp add: video_framebuffer_size_def c_def r_def EF2_GS_TEXTURE_PAGE_BYTES_def)
  ultimately have "unat (video_framebuffer_size w h ph) = n * 8192" by simp
  then show "0 < unat (video_framebuffer_size w h ph)" "unat (video_framebuffer_size w h ph) \<le> 2097152"
    "8192 dvd unat (video_framebuffer_size w h ph)" using n by simp_all
qed

text \<open>The cases of an initialisation: refused before anything is set; refused after the size is set; accepted.\<close>

definition init_cases :: "'w video \<Rightarrow> s32 \<Rightarrow> 'w video \<Rightarrow> bool" where
  "init_cases st r st' \<longleftrightarrow>
    (r \<in> {-1, -2, -3, -4} \<and> still st' = still st) \<or>
    (\<exists>w h. r = -5 \<and> still st' = still (st\<lparr>ef2_video_width := w, ef2_video_height := h\<rparr>)) \<or>
    (\<exists>standard config w h psm' n. r = 0 \<and>
       still st' = still (video_commit standard config w h psm' n (st\<lparr>ef2_video_width := w, ef2_video_height := h\<rparr>)) \<and>
       0 < unat n \<and> unat n \<le> 2097152 \<and> 8192 dvd unat n)"

lemma staysD: "stays (still st) m R \<Longrightarrow> still (snd (run_state m st)) = still st \<and> R (fst (run_state m st))"
  by (simp add: stays_def)

lemma still_set_size: "still sta = still st \<Longrightarrow>
  still (sta\<lparr>ef2_video_width := w, ef2_video_height := h\<rparr>) = still (st\<lparr>ef2_video_width := w, ef2_video_height := h\<rparr>)"
proof -
  assume s: "still sta = still st"
  have c: "still (x\<lparr>ef2_video_width := w, ef2_video_height := h\<rparr>) = (still x)\<lparr>ef2_video_width := w, ef2_video_height := h\<rparr>"
    for x :: "'a video" by (simp add: still_def)
  show ?thesis by (simp only: c s)
qed

lemma still_commit: "still sta = still st \<Longrightarrow>
  still (video_commit standard config w h p n sta) = still (video_commit standard config w h p n st)"
proof -
  assume s: "still sta = still st"
  have c: "still (video_commit standard config w h p n x) = video_commit standard config w h p n (still x)" for x :: "'a video"
    by (simp add: still_def video_commit_def)
  show ?thesis by (simp only: c s)
qed


lemma init_run:
  assumes "run_state (ef2_video_init ee config) st = (r, st')"
  shows "init_cases st r st'"
proof (cases config)
  case None
  then show ?thesis using assms by (auto simp: ef2_video_init_def init_cases_def)
next
  case (Some config)
  let ?detect = "if cfg_standard config = EF2_VIDEO_AUTO then do {
       (result, detected) \<leftarrow> ef2_video_detect_standard ee True;
       ret (if result < 0 then EF2_VIDEO_NTSC else the detected) }
     else ret (cfg_standard config)"
  obtain standard sta where d: "run_state ?detect st = (standard, sta)" by fastforce
  have s: "still sta = still st"
    using d by (auto simp: ef2_video_detect_standard_def split: if_splits prod.splits)
  show ?thesis
  proof (cases "ef2_video_standard_valid standard \<and> \<not> (cfg_interlaced config = 0 \<or> cfg_field_mode config \<noteq> EF2_VIDEO_FIELD) \<and>
      ef2_video_framebuffer_format_info (cfg_format config) \<noteq> None")
    case False
    consider "\<not> ef2_video_standard_valid standard"
      | "ef2_video_standard_valid standard" "cfg_interlaced config = 0 \<or> cfg_field_mode config \<noteq> EF2_VIDEO_FIELD"
      | "ef2_video_standard_valid standard" "\<not> (cfg_interlaced config = 0 \<or> cfg_field_mode config \<noteq> EF2_VIDEO_FIELD)"
        "ef2_video_framebuffer_format_info (cfg_format config) = None"
      using False by blast
    then have "r \<in> {-2, -3, -4} \<and> st' = sta" using assms by cases (simp_all add: ef2_video_init_def Some d)
    then show ?thesis using s by (auto simp: init_cases_def)
  next
    case True
    then obtain p ph where info: "ef2_video_framebuffer_format_info (cfg_format config) = Some (p, ph)" by auto
    then have ph: "ph = 32 \<or> ph = 64" by (auto simp: ef2_video_framebuffer_format_info_def split: if_splits)
    obtain dh dx dy where mode: "video_mode standard = (dh, dx, dy)" by (metis surj_pair)
    then have dh: "dh \<le> 512" by (auto simp: video_mode_def split: if_splits)
    define w where "w = (if cfg_width config \<noteq> 0 then cfg_width config else 640)"
    define h where "h = (if cfg_height config \<noteq> 0 then cfg_height config else dh)"
    define n where "n = video_framebuffer_size w h ph"
    define stb where "stb = sta\<lparr>ef2_video_width := w, ef2_video_height := h\<rparr>"
    have stb: "still stb = still (st\<lparr>ef2_video_width := w, ef2_video_height := h\<rparr>)"
      unfolding stb_def by (rule still_set_size [OF s])
    show ?thesis
    proof (cases "video_size_valid w h dh")
      case False
      then have "r = -5 \<and> st' = stb"
        using assms True by (simp add: ef2_video_init_def Some d info mode Let_def w_def h_def stb_def)
      then show ?thesis using stb by (auto simp: init_cases_def)
    next
      case valid: True
      note n = framebuffer_bounds [OF valid dh ph, folded n_def]
      have "unat (n * 2) = unat n * 2" using n unat_mult_u32 [of n 2] by simp
      then have room: "\<not> (n = 0 \<or> n * 2 > EF2_GS_VRAM_BYTES)"
        using n by (auto simp: EF2_GS_VRAM_BYTES_def word_less_nat_alt)
      let ?c = "video_commit standard config w h p n stb"
      have "\<not> video_off ?c"
        using video_size_bounds [OF valid dh] by (simp add: video_off_def video_commit_def stb_def)
      then have "\<not> video_off (still ?c)" by (simp add: video_off_def)
      from staysD [OF program_sent [OF this]] have "still st' = still ?c \<and> r = 0"
        if "run_state (video_program ee standard dh dx dy) ?c = (r, st')"
        using that by (metis fst_conv snd_conv)
      moreover have "run_state (video_program ee standard dh dx dy) ?c = (r, st')"
        using assms True valid room by (simp add: ef2_video_init_def Some d info mode Let_def w_def h_def stb_def n_def)
      ultimately have "still st' = still ?c \<and> r = 0" by blast
      moreover note still_commit [OF stb, of standard config w h p n]
      ultimately have "r = 0" "still st' = still (video_commit standard config w h p n
          (st\<lparr>ef2_video_width := w, ef2_video_height := h\<rparr>))" by simp_all
      then show ?thesis using n unfolding init_cases_def by blast
    qed
  qed
qed


section \<open>The module\<close>

text \<open>The state when the program starts, the calls of the library, and the textures that live in its
  memory: an accepted initialisation and a reset of the allocator drop them, an upload adds one.\<close>

definition zero_video :: "'w \<Rightarrow> 'w video" where
  "zero_video w = \<lparr>ee_world = w, g_gif_dma_initialized = False, g_gif_dma_active = False, g_gif_dma_active_start = 0,
     g_gif_dma_stats = \<lparr>submissions = 0, completions = 0, qwords_submitted = 0, wait_calls = 0, timeouts = 0,
       transfer_ticks = zero_counter, wait_ticks = zero_counter\<rparr>,
     ef2_video_width = 0, ef2_video_height = 0,
     ef2_video_active_config = \<lparr>cfg_standard = 0, cfg_interlaced = 0, cfg_field_mode = 0, cfg_format = 0, cfg_width = 0, cfg_height = 0\<rparr>,
     ef2_video_active_layout = \<lparr>lay_format = 0, lay_width = 0, lay_height = 0, lay_buffer_width = 0, lay_psm = 0,
       lay_bytes_per_buffer = 0, lay_buffer_base = [0, 0], lay_texture_start = 0\<rparr>,
     ef2_video_gif_dma_available = 0, ef2_video_gif_dma_fallbacks = 0, ef2_video_texture_start = 0,
     ef2_video_texture_cursor = 0, ef2_video_framebuffer_bytes = 0, ef2_video_framebuffer_base = [0, 0],
     ef2_video_display_buffer = 0, ef2_video_draw_buffer = 0, ef2_video_double_buffered = 0, ef2_video_present_count = 0,
     ef2_video_vsync_timeouts = 0, ef2_video_vsync_wait_ticks = zero_counter\<rparr>"

datatype video_call =
    Call_init "video_config option"
  | Call_double_buffering u32
  | Call_wait_vsync u32
  | Call_present
  | Call_background u8 u8 u8
  | Call_clear u8 u8 u8
  | Call_rect s32 s32 s32 s32 u8 u8 u8
  | Call_line s32 s32 s32 s32 u8 u8 u8
  | Call_texture "video_texture option" s32 s32 s32 s32
  | Call_region "video_texture option" u16 u16 u16 u16 s32 s32 s32 s32 u8 u8 u8 u8 u8
  | Call_reset_textures
  | Call_rgba32 "video_texture option" u32 u16 u16
  | Call_indexed8 "video_texture option" u32 u32 u16 u16
  | Call_indexed4 "video_texture option" u32 u32 u16 u16

definition uploaded :: "video_texture list \<Rightarrow> (s32 \<times> video_texture option) \<times> 'w video \<Rightarrow> 'w video \<times> video_texture list" where
  "uploaded ts result = (case result of ((r, texture), st) \<Rightarrow> (st, if r = 0 then ts @ [the texture] else ts))"

fun video_call_run :: "('w, 'y) ee_scheme \<Rightarrow> video_call \<Rightarrow> 'w video \<times> video_texture list \<Rightarrow> 'w video \<times> video_texture list" where
  "video_call_run ee (Call_init config) (st, ts) =
    (case run_state (ef2_video_init ee config) st of (r, st) \<Rightarrow> (st, if r = 0 then [] else ts))"
| "video_call_run ee (Call_double_buffering enabled) (st, ts) = (snd (run_state (ef2_video_set_double_buffering enabled) st), ts)"
| "video_call_run ee (Call_wait_vsync timeout) (st, ts) = (snd (run_state (ef2_video_wait_vsync ee timeout) st), ts)"
| "video_call_run ee Call_present (st, ts) = (snd (run_state (ef2_video_present ee) st), ts)"
| "video_call_run ee (Call_background r g b) (st, ts) = (snd (run_state (ef2_video_set_background ee r g b) st), ts)"
| "video_call_run ee (Call_clear r g b) (st, ts) = (snd (run_state (ef2_video_clear ee r g b) st), ts)"
| "video_call_run ee (Call_rect x y w h r g b) (st, ts) = (snd (run_state (ef2_video_draw_rect ee x y w h r g b) st), ts)"
| "video_call_run ee (Call_line x0 y0 x1 y1 r g b) (st, ts) = (snd (run_state (ef2_video_draw_line ee x0 y0 x1 y1 r g b) st), ts)"
| "video_call_run ee (Call_texture t x y w h) (st, ts) = (snd (run_state (ef2_video_draw_texture ee t x y w h) st), ts)"
| "video_call_run ee (Call_region t sx sy sw sh x y w h r g b a blend) (st, ts) =
    (snd (run_state (ef2_video_draw_texture_region ee t sx sy sw sh x y w h r g b a blend) st), ts)"
| "video_call_run ee Call_reset_textures (st, ts) = (snd (run_state ef2_video_reset_texture_allocator st), [])"
| "video_call_run ee (Call_rgba32 t pixels w h) (st, ts) = uploaded ts (run_state (ef2_video_upload_rgba32 ee t pixels w h) st)"
| "video_call_run ee (Call_indexed8 t indices palette w h) (st, ts) =
    uploaded ts (run_state (ef2_video_upload_indexed8 ee t indices palette w h) st)"
| "video_call_run ee (Call_indexed4 t indices palette w h) (st, ts) =
    uploaded ts (run_state (ef2_video_upload_indexed4 ee t indices palette w h) st)"

definition video_session :: "('w, 'y) ee_scheme \<Rightarrow> 'w \<Rightarrow> video_call list \<Rightarrow> 'w video \<times> video_texture list" where
  "video_session ee w calls = foldl (\<lambda>s call. video_call_run ee call s) (zero_video w, []) calls"

text \<open>The two frame buffers are whole pages at the start of the memory, the textures lie behind them one
  after the other up to the cursor, and drawing goes to the displayed frame buffer exactly when double
  buffering is off.\<close>

definition video_ok :: "'w video \<times> video_texture list \<Rightarrow> bool" where
  "video_ok s \<longleftrightarrow> (case s of (st, ts) \<Rightarrow>
     ef2_video_framebuffer_base st = [0, ef2_video_framebuffer_bytes st] \<and>
     8192 dvd unat (ef2_video_framebuffer_bytes st) \<and>
     unat (ef2_video_texture_start st) = 2 * unat (ef2_video_framebuffer_bytes st) \<and>
     ranges_ok (unat (ef2_video_texture_start st)) (concat (map texture_ranges ts)) (unat (ef2_video_texture_cursor st)) \<and>
     ef2_video_texture_cursor st \<le> EF2_GS_VRAM_BYTES \<and>
     ef2_video_display_buffer st \<le> 1 \<and>
     ef2_video_draw_buffer st = (if ef2_video_double_buffered st = 0 then ef2_video_display_buffer st
                                 else 1 - ef2_video_display_buffer st))"

lemma video_ok_zero: "video_ok (zero_video w, [])"
  by (simp add: video_ok_def zero_video_def EF2_GS_VRAM_BYTES_def)

text \<open>The invariant is one of the frozen part.\<close>

lemma video_ok_still [simp]: "video_ok (still st, ts) = video_ok (st, ts)"
  by (simp add: video_ok_def still_def)

lemma video_ok_kept: "video_ok (st, ts) \<Longrightarrow> still st' = still st \<Longrightarrow> video_ok (st', ts)"
  by (metis video_ok_still)

lemma video_ok_transports: "video_ok (st, ts) \<Longrightarrow> transports m R \<Longrightarrow> video_ok (snd (run_state m st), ts)"
  by (simp add: video_ok_kept transports_run(1))

lemma video_ok_init: "video_ok (st, ts) \<Longrightarrow> run_state (ef2_video_init ee config) st = (r, st') \<Longrightarrow> video_ok (st', if r = 0 then [] else ts)"
proof -
  assume ok: "video_ok (st, ts)" and run: "run_state (ef2_video_init ee config) st = (r, st')"
  consider "r < 0" "still st' = still st"
    | w h where "r < 0" "still st' = still (st\<lparr>ef2_video_width := w, ef2_video_height := h\<rparr>)"
    | standard config w h psm' n where "r = 0"
       "still st' = still (video_commit standard config w h psm' n (st\<lparr>ef2_video_width := w, ef2_video_height := h\<rparr>))"
       "unat n \<le> 2097152" "8192 dvd unat n"
    using init_run [OF run] unfolding init_cases_def by auto
  then show ?thesis
  proof cases
    case 1
    then show ?thesis using video_ok_kept [OF ok] by simp
  next
    case 2
    have "video_ok (st\<lparr>ef2_video_width := w, ef2_video_height := h\<rparr>, ts)" using ok by (auto simp: video_ok_def)
    then show ?thesis using 2 video_ok_kept by simp
  next
    case 3
    have n: "unat (n * 2) = unat n * 2" using 3 unat_mult_u32 [of n 2] by simp
    have "video_ok (video_commit standard config w h psm' n (st\<lparr>ef2_video_width := w, ef2_video_height := h\<rparr>), [])"
      using 3 n by (simp add: video_ok_def video_commit_def EF2_GS_VRAM_BYTES_def word_le_nat_alt)
    then show ?thesis using 3 video_ok_kept by simp
  qed
qed

lemma video_ok_allocates:
  assumes ok: "video_ok (st, ts)" and m: "allocates (still st) m (fits (ef2_video_texture_cursor (still st)))"
  shows "video_ok (uploaded ts (run_state m st))"
proof -
  obtain r texture st' where run: "run_state m st = ((r, texture), st')" by (metis surj_pair)
  consider "r < 0" "still st' = still st"
    | c t where "r = 0" "texture = Some t" "fits (ef2_video_texture_cursor st) c t" "still st' = still st\<lparr>ef2_video_texture_cursor := c\<rparr>"
    using m run unfolding allocates_def still_cursor by blast
  then show ?thesis
  proof cases
    case 1
    then show ?thesis using video_ok_kept [OF ok] by (simp add: uploaded_def run)
  next
    case 2
    have s: "still st\<lparr>ef2_video_texture_cursor := c\<rparr> = still (st\<lparr>ef2_video_texture_cursor := c\<rparr>)" by (simp add: still_def)
    have "video_ok (st\<lparr>ef2_video_texture_cursor := c\<rparr>, ts @ [t])"
      using ok 2(3) by (auto simp: video_ok_def fits_def intro: ranges_ok_append)
    then show ?thesis using 2 s video_ok_kept by (simp add: uploaded_def run)
  qed
qed

lemma video_ok_double: "video_ok (st, ts) \<Longrightarrow> video_ok (snd (run_state (ef2_video_set_double_buffering enabled) st), ts)"
  by (auto simp: video_ok_def ef2_video_set_double_buffering_def)

lemma video_ok_vsync: "video_ok (st, ts) \<Longrightarrow> video_ok (snd (run_state (ef2_video_wait_vsync ee timeout) st), ts)"
  by (auto simp: video_ok_def ef2_video_wait_vsync_def split: prod.splits)

lemma other_buffer: "d \<le> 1 \<Longrightarrow> 1 - d \<le> (1 :: u32)"
  by (simp add: word_le_nat_alt unat_sub)

lemma video_ok_present: "video_ok (st, ts) \<Longrightarrow> video_ok (snd (run_state (ef2_video_present ee) st), ts)"
proof -
  assume ok: "video_ok (st, ts)"
  obtain r sta where run: "run_state (ef2_video_wait_vsync ee 0) st = (r, sta)" by fastforce
  have "video_ok (sta, ts)" using video_ok_vsync [OF ok, of ee 0] by (simp add: run)
  then show ?thesis using ok
    by (auto simp: ef2_video_present_def run video_ok_def ef2_video_program_display_buffer_def other_buffer)
qed

lemma video_ok_reset: "video_ok (st, ts) \<Longrightarrow> video_ok (snd (run_state ef2_video_reset_texture_allocator st), [])"
  by (auto simp: video_ok_def ef2_video_reset_texture_allocator_def ranges_ok_def word_le_nat_alt)

lemma video_ok_cursor: "video_ok (st, ts) \<Longrightarrow> ef2_video_texture_cursor (still st) \<le> EF2_GS_VRAM_BYTES"
  by (simp add: video_ok_def)

lemmas video_ok_steps = video_ok_double video_ok_vsync video_ok_present video_ok_reset
  video_ok_transports [OF _ transports_background] video_ok_transports [OF _ transports_clear]
  video_ok_transports [OF _ transports_rect] video_ok_transports [OF _ transports_line]
  video_ok_transports [OF _ transports_texture] video_ok_transports [OF _ transports_region]
  video_ok_allocates [OF _ rgba32_allocates [OF video_ok_cursor]] video_ok_allocates [OF _ indexed8_allocates [OF video_ok_cursor]]
  video_ok_allocates [OF _ indexed4_allocates [OF video_ok_cursor]]

lemma video_ok_call: "video_ok s \<Longrightarrow> video_ok (video_call_run ee call s)"
  by (cases s; cases call) (auto simp: video_ok_steps video_ok_init split: prod.split)

lemma video_ok_calls: "video_ok s \<Longrightarrow> video_ok (foldl (\<lambda>s call. video_call_run ee call s) s calls)"
  by (induction calls arbitrary: s) (simp_all add: video_ok_call del: split_paired_All)

end
