(* ===== verification/VideoPackets.thy ===== *)
theory VideoPackets
  imports VideoModule
begin

text \<open>
  The packet of a filled sprite as numbers: which registers it writes and with which values, read off
  the layout of the registers of the graphics synthesizer.
\<close>

unbundle bit_operations_syntax

section \<open>Fields of a register\<close>

text \<open>Fields of a register that do not overlap add up.\<close>

lemma unat_or_push:
  assumes "unat (a :: u64) < 2 ^ k" "unat a + 2 ^ k * unat b < 2 ^ 64"
  shows "unat (a OR push_bit k b) = unat a + 2 ^ k * unat b"
proof -
  have "take_bit k a = a" using assms(1) by (simp add: unat_take_bit word_unat_eq_iff take_bit_nat_eq_self)
  moreover have "take_bit k a AND push_bit k b = 0" by (rule bit_word_eqI) (auto simp: bit_simps)
  ultimately have add: "a OR push_bit k b = a + push_bit k b" by (simp add: disjunctive_add_eq_or)
  have "2 ^ k * unat b < 2 ^ 64" using assms(2) by linarith
  moreover have "unat (push_bit k b) = take_bit 64 (push_bit k (unat b))"
    by (simp add: unsigned_push_bit_eq)
  ultimately have "unat (push_bit k b) = 2 ^ k * unat b"
    by (simp only: push_bit_eq_mult take_bit_nat_eq_self mult.commute)
  then show ?thesis using add assms(2) by (simp add: unat_word_ariths del: push_bit_numeral)
qed

lemma unat_field8: "unat (ucast (x :: u8) :: u64) = unat x" "unat x < 256"
  using unsigned_less [of x, where 'a = nat] by (simp_all add: unsigned_ucast_eq take_bit_nat_eq_self)

lemma unat_field16: "unat (ucast (x :: u16) :: u64) = unat x" "unat x < 65536"
  using unsigned_less [of x, where 'a = nat] by (simp_all add: unsigned_ucast_eq take_bit_nat_eq_self)

lemma unat_pack_xyz: "unat (ef2_gs_pack_xyz x y 0) = unat x + 65536 * unat y"
  using unat_or_push [of "ucast x" 16 "ucast y"] unat_field16 [of x] unat_field16 [of y]
  by (simp add: ef2_gs_pack_xyz_def)

lemma unat_pack_rgbaq:
  "unat (ef2_gs_pack_rgbaq r g b a) =
    unat r + 256 * unat g + 65536 * unat b + 16777216 * unat a + 4294967296 * 0x3F800000"
proof -
  note f = unat_field8 [of r] unat_field8 [of g] unat_field8 [of b] unat_field8 [of a]
  have 1: "unat (ucast r OR push_bit 8 (ucast g) :: u64) = unat r + 256 * unat g"
    using unat_or_push [of "ucast r" 8 "ucast g"] f by simp
  have 2: "unat ((ucast r OR push_bit 8 (ucast g)) OR push_bit 16 (ucast b) :: u64) = unat r + 256 * unat g + 65536 * unat b"
    using unat_or_push [of "ucast r OR push_bit 8 (ucast g)" 16 "ucast b"] f 1 by simp
  have 3: "unat (((ucast r OR push_bit 8 (ucast g)) OR push_bit 16 (ucast b)) OR push_bit 24 (ucast a) :: u64) =
      unat r + 256 * unat g + 65536 * unat b + 16777216 * unat a"
    using unat_or_push [of "(ucast r OR push_bit 8 (ucast g)) OR push_bit 16 (ucast b)" 24 "ucast a"] f 2 by simp
  show ?thesis
    using unat_or_push [of "((ucast r OR push_bit 8 (ucast g)) OR push_bit 16 (ucast b)) OR push_bit 24 (ucast a)" 32 "0x3F800000"] f 3
    by (simp add: ef2_gs_pack_rgbaq_def or.assoc)
qed

lemma unat_mask_u8: "unat (ucast ((x :: u8) AND 0x3F) :: u64) = unat x mod 64"
proof -
  have "(0x3F :: u8) = mask 6" by (simp add: mask_eq_exp_minus_1)
  then show ?thesis by (simp only: unat_field8 unat_and_mask) simp
qed

lemma unat_mask_u16:
  "unat (ucast ((x :: u16) AND 0x01FF) :: u64) = unat x mod 512"
  "unat (ucast ((x :: u16) AND 0x07FF) :: u64) = unat x mod 2048"
proof -
  have "(0x01FF :: u16) = mask 9" "(0x07FF :: u16) = mask 11" by (simp_all add: mask_eq_exp_minus_1)
  then show "unat (ucast ((x :: u16) AND 0x01FF) :: u64) = unat x mod 512"
    "unat (ucast ((x :: u16) AND 0x07FF) :: u64) = unat x mod 2048"
    by (simp only: unat_field16 unat_and_mask, simp)+
qed

lemma unat_pack_frame:
  "unat (ef2_gs_pack_frame fbp fbw psm 0) =
    unat fbp mod 512 + 65536 * (unat fbw mod 64) + 16777216 * (unat psm mod 64)"
proof -
  have b: "unat fbp mod 512 < 512" "unat fbw mod 64 < 64" "unat psm mod 64 < 64" by simp_all
  have 1: "unat (ucast (fbp AND 0x01FF) OR push_bit 16 (ucast (fbw AND 0x3F)) :: u64) =
      unat fbp mod 512 + 65536 * (unat fbw mod 64)"
    using unat_or_push [of "ucast (fbp AND 0x01FF)" 16 "ucast (fbw AND 0x3F)"] b
    by (simp add: unat_mask_u8 unat_mask_u16)
  show ?thesis
    using unat_or_push [of "ucast (fbp AND 0x01FF) OR push_bit 16 (ucast (fbw AND 0x3F))" 24 "ucast (psm AND 0x3F)"] b 1
    by (simp add: ef2_gs_pack_frame_def unat_mask_u8 or.assoc)
qed

lemma unat_pack_scissor:
  "unat (ef2_gs_pack_scissor 0 x1 0 y1) = 65536 * (unat x1 mod 2048) + 2 ^ 48 * (unat y1 mod 2048)"
proof -
  have b: "unat x1 mod 2048 < 2048" "unat y1 mod 2048 < 2048" by simp_all
  have 1: "unat (push_bit 16 (ucast (x1 AND 0x07FF)) :: u64) = 65536 * (unat x1 mod 2048)"
    using unat_or_push [of 0 16 "ucast (x1 AND 0x07FF)"] b by (simp add: unat_mask_u16)
  show ?thesis
    using unat_or_push [of "push_bit 16 (ucast (x1 AND 0x07FF))" 48 "ucast (y1 AND 0x07FF)"] b 1
    by (simp add: ef2_gs_pack_scissor_def unat_mask_u16)
qed

lemma uint_fixed4: "int (unat (fixed4 x)) = 16 * x mod 65536"
proof -
  have "fixed4 x = push_bit 4 (word_of_int x)"
    unfolding fixed4_def by (rule bit_word_eqI) (auto simp: bit_simps)
  also have "\<dots> = word_of_int (16 * x)" by (simp add: push_bit_eq_mult mult.commute)
  finally have "uint (fixed4 x) = uint (word_of_int (16 * x) :: u16)" by (rule arg_cong)
  also have "\<dots> = 16 * x mod 65536" by (simp only: uint_word_of_int) simp
  finally show ?thesis by simp
qed

section \<open>The quadwords of a sprite\<close>

lemma put_qwords_fold:
  "put_qwords ee a qs w = fold (\<lambda>(i, q). st_qword ee (a + 16 * word_of_nat i) q) (enumerate 0 qs) w"
proof -
  have "put_qwords ee (a + 16 * word_of_nat k) qs w = fold (\<lambda>(i, q). st_qword ee (a + 16 * word_of_nat i) q) (enumerate k qs) w" for k
  proof (induction qs arbitrary: k w)
    case (Cons q qs)
    show ?case using Cons.IH [of "Suc k"] by (simp add: algebra_simps)
  qed simp
  from this [of 0] show ?thesis by simp
qed

text \<open>
  What a packet that fills a sprite from \<open>(x0, y0)\<close> up to \<open>(x1, y1)\<close> holds, as numbers: the
  registers that its quadwords address, and the value of each.
\<close>

definition sprite_quadwords :: "int \<Rightarrow> int \<Rightarrow> int \<Rightarrow> int \<Rightarrow> u8 \<Rightarrow> u8 \<Rightarrow> u8 \<Rightarrow> 'w video \<Rightarrow> (int \<times> int) list" where
  "sprite_quadwords x0 y0 x1 y1 r g b st =
    [(0x0E, 8 + 2 ^ 15 + 2 ^ 60),
     (0x4C, uint (ef2_video_framebuffer_base st ! (unat (ef2_video_draw_buffer st) mod 2)) div 8192 mod 512 +
        2 ^ 16 * (uint (lay_buffer_width (ef2_video_active_layout st)) mod 64) +
        2 ^ 24 * (uint (lay_psm (ef2_video_active_layout st)) mod 64)),
     (0x18, 0),
     (0x40, 2 ^ 16 * ((uint (ef2_video_width st) - 1) mod 2048) + 2 ^ 48 * ((uint (ef2_video_height st) - 1) mod 2048)),
     (0x47, 0),
     (0x00, 6),
     (0x01, uint r + 2 ^ 8 * uint g + 2 ^ 16 * uint b + 2 ^ 24 * 0x80 + 2 ^ 32 * 0x3F800000),
     (0x05, 16 * x0 mod 65536 + 2 ^ 16 * (16 * y0 mod 65536)),
     (0x05, 16 * x1 mod 65536 + 2 ^ 16 * (16 * y1 mod 65536))]"

lemma uint_unat_eq: "unat x = n \<Longrightarrow> uint x = int n"
  by auto

lemma two_vertex_quadwords:
  assumes "\<not> video_off st"
  shows "map (\<lambda>q. (uint (hi q), uint (lo q))) (two_vertex_packet EF2_GS_PRIM_SPRITE x0 y0 x1 y1 r g b st) =
    sprite_quadwords x0 y0 x1 y1 r g b st"
proof -
  have xyz: "uint (ef2_gs_pack_xyz (fixed4 x) (fixed4 y) 0) = 16 * x mod 65536 + 2 ^ 16 * (16 * y mod 65536)" for x y
    using uint_unat_eq [OF unat_pack_xyz [of "fixed4 x" "fixed4 y"]] uint_fixed4 [of x] uint_fixed4 [of y] by simp
  have rgb: "uint (ef2_gs_pack_rgbaq r g b 0x80) = uint r + 2 ^ 8 * uint g + 2 ^ 16 * uint b + 2 ^ 24 * 0x80 + 2 ^ 32 * 0x3F800000"
    using uint_unat_eq [OF unat_pack_rgbaq [of r g b "0x80"]] by simp
  have one: "int (unat (w - 1)) = uint w - 1" if "w \<noteq> 0" for w :: u16
  proof -
    have "unat (w - 1) = unat w - 1" "0 < unat w" using that by (simp_all add: unat_minus_one unat_gt_0)
    then have "int (unat (w - 1)) = int (unat w) - 1" by simp
    then show ?thesis by simp
  qed
  have scissor: "uint (ef2_gs_pack_scissor 0 (ef2_video_width st - 1) 0 (ef2_video_height st - 1)) =
      2 ^ 16 * ((uint (ef2_video_width st) - 1) mod 2048) + 2 ^ 48 * ((uint (ef2_video_height st) - 1) mod 2048)"
    using uint_unat_eq [OF unat_pack_scissor [of "ef2_video_width st - 1" "ef2_video_height st - 1"]]
      one [of "ef2_video_width st"] one [of "ef2_video_height st"] assms
    by (simp add: video_off_def zmod_int)
  let ?base = "ef2_video_framebuffer_base st ! (unat (ef2_video_draw_buffer st) mod 2)"
  have "unat (ef2_video_draw_buffer st AND 1) = unat (ef2_video_draw_buffer st) mod 2"
    by (simp add: and_one_eq unat_mod)
  then have "unat (ef2_video_draw_fbp st) = unat ?base div 8192 mod 65536"
    by (simp add: ef2_video_draw_fbp_def ef2_video_frame_fbp_def unsigned_ucast_eq take_bit_eq_mod unat_div)
  then have "unat (ef2_video_draw_fbp st) mod 512 = unat ?base div 8192 mod 512"
    by (simp add: mod_mod_cancel)
  then have frame: "uint (ef2_gs_pack_frame (ef2_video_draw_fbp st) fbw psm 0) =
      uint ?base div 8192 mod 512 + 2 ^ 16 * (uint fbw mod 64) + 2 ^ 24 * (uint psm mod 64)" for fbw psm
    using uint_unat_eq [OF unat_pack_frame [of "ef2_video_draw_fbp st" fbw psm]]
    by (simp add: zmod_int zdiv_int)
  have tag: "uint (ef2_gif_pack_tag 8 1 0 0 EF2_GIF_FLG_PACKED 1) = 8 + 2 ^ 15 + 2 ^ 60"
    by (simp add: ef2_gif_pack_tag_def EF2_GIF_FLG_PACKED_def)
  have offset: "uint (ef2_gs_pack_xyoffset 0 0) = 0" "uint (ef2_gs_pack_prim 6) = 6"
    by (simp_all add: ef2_gs_pack_xyoffset_def ef2_gs_pack_prim_def)
  show ?thesis
    unfolding two_vertex_packet_def draw_environment_def packed_tag_def sprite_quadwords_def ef2_gif_ad_def
    by (simp add: xyz [simplified] rgb [simplified] scissor [simplified] frame [simplified] tag [simplified] offset
      EF2_GIF_REG_AD_def EF2_GS_ADDR_FRAME_1_def EF2_GS_ADDR_XYOFFSET_1_def EF2_GS_ADDR_SCISSOR_1_def
      EF2_GS_ADDR_TEST_1_def EF2_GS_ADDR_PRIM_def EF2_GS_ADDR_RGBAQ_def EF2_GS_ADDR_XYZ2_def EF2_GS_PRIM_SPRITE_def)
qed

definition sprite_packet :: "int \<Rightarrow> int \<Rightarrow> int \<Rightarrow> int \<Rightarrow> u8 \<Rightarrow> u8 \<Rightarrow> u8 \<Rightarrow> 'w video \<Rightarrow> gif_qword list" where
  "sprite_packet x0 y0 x1 y1 r g b st =
    map (\<lambda>(h, l). \<lparr>lo = word_of_int l, hi = word_of_int h\<rparr>) (sprite_quadwords x0 y0 x1 y1 r g b st)"

lemma two_vertex_sprite:
  assumes "\<not> video_off st"
  shows "two_vertex_packet EF2_GS_PRIM_SPRITE x0 y0 x1 y1 r g b st = sprite_packet x0 y0 x1 y1 r g b st"
proof -
  have "map (\<lambda>q. \<lparr>lo = lo q, hi = hi q\<rparr>) xs = xs" for xs by (rule map_idI) simp
  then show ?thesis
    unfolding sprite_packet_def two_vertex_quadwords [OF assms, symmetric] by (simp add: o_def)
qed

end
