(* ===== verification/VideoProps.thy ===== *)
theory VideoProps
  imports VideoPackets
begin

text \<open>
  The properties of the video library.
\<close>

text \<open>A machine without behaviour and a picture of 640 by 448, for concrete runs.\<close>

definition quiet_ee :: "unit ee" where
  "quiet_ee = \<lparr>rd8 = (\<lambda>a w. (0, w)), rd16 = (\<lambda>a w. (0, w)), rd32 = (\<lambda>a w. (0, w)), wr8 = (\<lambda>a v w. w),
     wr16 = (\<lambda>a v w. w), wr32 = (\<lambda>a v w. w), rd64 = (\<lambda>a w. (0, w)), wr64 = (\<lambda>a v w. w), ld_word = (\<lambda>a w. 0),
     st_word = (\<lambda>a v w. w), st_qword = (\<lambda>a q w. w), ef2_cpu_count = (\<lambda>w. (0, w)), cache_line = (\<lambda>a w. w),
     ef2_gif_reset = (\<lambda>w. w), ef2_gif_send_qwords = (\<lambda>p n w. w), ef2_kernel_set_gs_crt = (\<lambda>i m f w. w),
     ef2_iop_get_romver = (\<lambda>w. ((-1, []), w)), packet_at = 0x100000, clut_stage_at = 0x200000\<rparr>"

definition small_picture :: "unit video" where
  "small_picture = (zero_video ())\<lparr>ef2_video_width := 640, ef2_video_height := 448\<rparr>"

lemma small_picture_size [simp]: "ef2_video_width small_picture = 640" "ef2_video_height small_picture = 448" "\<not> video_off small_picture"
  by (simp_all add: small_picture_def video_off_def)

text \<open>C29: After every sequence of calls of the video library, from the start of the program and with
  every behaviour of the hardware, the two frame buffers are whole pages at the start of the video
  memory, the textures that were uploaded since the last accepted initialisation or reset lie behind them
  one after the other, without overlap, up to the cursor, the cursor is within the memory, and drawing
  goes to the displayed frame buffer exactly when double buffering is off.\<close>

theorem video_module_invariant: "video_ok (video_session ee w calls)"
  unfolding video_session_def by (rule video_ok_calls [OF video_ok_zero])

text \<open>C30: A filled rectangle whose coordinates do not overflow is sent as one sprite over the
  intersection of the rectangle with the picture, and nothing is sent when that is empty.  The packet is
  given as numbers: the two vertices are the corners of the intersection in sixteenths of a pixel, the
  colour is the one asked for, and the drawing environment is that of the frame buffer drawn to.  The
  nine quadwords are stored one after the other and submitted.\<close>

theorem draw_rect_clips:
  assumes "\<not> video_off st" "0 < width" "0 < height"
    and "-2147483648 \<le> x" "x + width < 2147483648" "-2147483648 \<le> y" "y + height < 2147483648"
  shows "run_state (ef2_video_draw_rect ee x y width height r g b) st =
    (let left = max x 0; top = max y 0; right = min (x + width) (uint (ef2_video_width st));
         bottom = min (y + height) (uint (ef2_video_height st))
     in if left < right \<and> top < bottom
        then run_state (ef2_video_submit_qwords ee (packet_at ee) 9)
          (st\<lparr>ee_world := fold (\<lambda>(i, q). st_qword ee (packet_at ee + 16 * word_of_nat i) q)
             (enumerate 0 (sprite_packet left top right bottom r g b st)) (ee_world st)\<rparr>)
        else (0, st))"
proof -
  have s: "add_s32 x width = x + width" "add_s32 y height = y + height"
    using assms by (simp_all add: add_s32_small)
  have on: "ef2_video_width st \<noteq> 0" "ef2_video_height st \<noteq> 0" using assms(1) by (simp_all add: video_off_def)
  then have p: "0 < uint (ef2_video_width st)" "0 < uint (ef2_video_height st)"
    by (simp_all add: order_less_le unsigned_eq_0_iff)
  have send: "run_state (ef2_video_submit_qwords ee (packet_at ee) 9)
      (st\<lparr>ee_world := fold (\<lambda>(i, q). st_qword ee (packet_at ee + 16 * word_of_nat i) q)
         (enumerate 0 (sprite_packet x0 y0 x1 y1 r g b st)) (ee_world st)\<rparr>) =
      run_state (send_packet ee (two_vertex_packet EF2_GS_PRIM_SPRITE x0 y0 x1 y1 r g b st)) st" for x0 y0 x1 y1
  proof -
    have "length (sprite_packet x0 y0 x1 y1 r g b st) = 9" by (simp add: sprite_packet_def sprite_quadwords_def)
    then show ?thesis
      by (simp add: send_packet_def two_vertex_sprite [OF assms(1)] put_qwords_fold do_ee_def)
  qed
  show ?thesis
  proof (cases "x < uint (ef2_video_width st) \<and> y < uint (ef2_video_height st) \<and> 0 < x + width \<and> 0 < y + height")
    case True
    then show ?thesis
      unfolding send using assms(2,3) p on
      by (simp add: ef2_video_draw_rect_def ef2_video_draw_two_vertex_def video_off_def Let_def s ef2_clamp_s32_def
          max_def min_def)
  next
    case False
    then show ?thesis using assms(2,3) p by (auto simp: ef2_video_draw_rect_def Let_def s)
  qed
qed

text \<open>A machine that tapes the quadwords it stores.\<close>

definition tape_ee :: "gif_qword list ee" where
  "tape_ee = \<lparr>rd8 = (\<lambda>a w. (0, w)), rd16 = (\<lambda>a w. (0, w)), rd32 = (\<lambda>a w. (0, w)), wr8 = (\<lambda>a v w. w),
     wr16 = (\<lambda>a v w. w), wr32 = (\<lambda>a v w. w), rd64 = (\<lambda>a w. (0, w)), wr64 = (\<lambda>a v w. w), ld_word = (\<lambda>a w. 0),
     st_word = (\<lambda>a v w. w), st_qword = (\<lambda>a q w. w @ [q]), ef2_cpu_count = (\<lambda>w. (0, w)), cache_line = (\<lambda>a w. w),
     ef2_gif_reset = (\<lambda>w. w), ef2_gif_send_qwords = (\<lambda>p n w. w), ef2_kernel_set_gs_crt = (\<lambda>i m f w. w),
     ef2_iop_get_romver = (\<lambda>w. ((-1, []), w)), packet_at = 0x100000, clut_stage_at = 0x200000\<rparr>"

definition taped_picture :: "gif_qword list video" where
  "taped_picture = (zero_video [])\<lparr>ef2_video_width := 640, ef2_video_height := 448\<rparr>"

theorem draw_rect_clips_witness:
  "fst (run_state (ef2_video_draw_rect tape_ee 600 (-10) 100 20 1 2 3) taped_picture) = 0 \<and>
   drop 7 (ee_world (snd (run_state (ef2_video_draw_rect tape_ee 600 (-10) 100 20 1 2 3) taped_picture))) =
     [\<lparr>lo = 16 * 600, hi = 5\<rparr>, \<lparr>lo = 16 * 640 + 65536 * (16 * 10), hi = 5\<rparr>]"
proof -
  have p: "\<not> video_off taped_picture" "uint (ef2_video_width taped_picture) = 640"
    "uint (ef2_video_height taped_picture) = 448" "ee_world taped_picture = []"
    "ef2_video_gif_dma_available taped_picture = 0"
    by (simp_all add: taped_picture_def zero_video_def video_off_def)
  have run: "run_state (ef2_video_draw_rect tape_ee 600 (-10) 100 20 1 2 3) taped_picture =
      run_state (ef2_video_submit_qwords tape_ee (packet_at tape_ee) 9)
        (taped_picture\<lparr>ee_world := fold (\<lambda>(i, q). st_qword tape_ee (packet_at tape_ee + 16 * word_of_nat i) q)
          (enumerate 0 (sprite_packet 600 0 640 10 1 2 3 taped_picture)) (ee_world taped_picture)\<rparr>)"
    using draw_rect_clips [OF p(1), of 100 20 600 "-10" tape_ee 1 2 3] by (simp add: p)
  have "st_qword tape_ee = (\<lambda>a q w. w @ [q])" "ef2_gif_send_qwords tape_ee = (\<lambda>p n w. w)" by (simp_all add: tape_ee_def)
  then show ?thesis
    unfolding run by (simp add: sprite_packet_def sprite_quadwords_def ef2_video_submit_qwords_def p do_ee_def)
qed

lemma unat_u16_32 [simp]: "unat (ucast (w :: u16) :: u32) = unat w"
  by (rule unat_side)

lemma fixed4_side: "unat (ucast (push_bit 4 (ucast (w :: u16) :: u32)) :: u16) mod 16384 = 16 * unat w mod 16384"
proof -
  have w: "unat w < 65536" using unsigned_less [of w, where 'a = nat] by simp
  have "unat (push_bit 4 (ucast w :: u32)) = 16 * unat w"
    using w by (simp add: push_bit_eq_mult unat_word_ariths mult.commute)
  then show ?thesis by (simp add: unsigned_ucast_eq take_bit_eq_mod mod_mod_cancel)
qed

lemma unat_pack_uv: "unat (ef2_gs_pack_uv u v) = unat u mod 16384 + 65536 * (unat v mod 16384)"
proof -
  define a where "a = (ucast (u AND 0x3FFF) :: u64)"
  define b where "b = (ucast (v AND 0x3FFF) :: u64)"
  have m: "(0x3FFF :: u16) = mask 14" by (simp add: mask_eq_exp_minus_1)
  have ab: "unat a = unat u mod 16384" "unat b = unat v mod 16384"
    by (simp_all add: a_def b_def m unat_and_mask unsigned_ucast_eq take_bit_nat_eq_self)
  have "unat a < 2 ^ 16" by (simp add: ab)
  then have "take_bit 16 a = a" by (simp add: unat_take_bit word_unat_eq_iff)
  moreover have "take_bit 16 a AND push_bit 16 b = 0" by (rule bit_word_eqI) (auto simp: bit_simps)
  ultimately have "a OR push_bit 16 b = a + push_bit 16 b" by (simp add: disjunctive_add_eq_or)
  moreover have "unat (a + push_bit 16 b) = unat a + 65536 * unat b"
    by (simp add: push_bit_eq_mult unat_word_ariths ab mult.commute)
  ultimately show ?thesis by (simp add: ef2_gs_pack_uv_def ab flip: a_def b_def)
qed

text \<open>The end coordinates of a texture that is drawn whole are its size in sixteenths, modulo 1024
  pixels: they are 0 for a side of 1024, a size that the uploads accept.\<close>

theorem texture_end_coordinates:
  "unat (lo (texture_packet t x y right bottom st ! 12)) =
    16 * unat (tex_width t) mod 16384 + 65536 * (16 * unat (tex_height t) mod 16384)"
proof -
  have e: "lo (texture_packet t x y right bottom st ! 12) =
    ef2_gs_pack_uv (ucast (push_bit 4 (ucast (tex_width t) :: u32))) (ucast (push_bit 4 (ucast (tex_height t) :: u32)))"
    by (simp add: texture_packet_def draw_environment_def ef2_gif_ad_def)
  show ?thesis unfolding e by (simp add: unat_pack_uv fixed4_side)
qed


text \<open>A configuration whose size is not valid is refused, but the size stays: the picture has the
  refused size from then on, with the frame buffers as they were.\<close>

theorem video_init_keeps_refused_size:
  assumes "cfg_standard config = EF2_VIDEO_NTSC" "cfg_interlaced config \<noteq> 0" "cfg_field_mode config = EF2_VIDEO_FIELD"
    and "cfg_format config = EF2_VIDEO_FB_RGBA32" "cfg_width config \<noteq> 0" "cfg_height config \<noteq> 0"
    and "\<not> video_size_valid (cfg_width config) (cfg_height config) 448"
  shows "fst (run_state (ef2_video_init ee (Some config)) st) = -5 \<and>
    ef2_video_get_size True True (snd (run_state (ef2_video_init ee (Some config)) st)) =
      (0, Some (cfg_width config, cfg_height config)) \<and>
    ef2_video_get_framebuffer_layout True (snd (run_state (ef2_video_init ee (Some config)) st)) =
      (0, Some (ef2_video_active_layout st))"
proof -
  have valid: "ef2_video_standard_valid EF2_VIDEO_NTSC" "EF2_VIDEO_NTSC \<noteq> EF2_VIDEO_AUTO"
    by (simp_all add: ef2_video_standard_valid_def EF2_VIDEO_NTSC_def EF2_VIDEO_AUTO_def)
  have mode: "video_mode EF2_VIDEO_NTSC = (448, 656, 36)"
    by (simp add: video_mode_def EF2_VIDEO_NTSC_def EF2_VIDEO_PAL_def)
  have info: "ef2_video_framebuffer_format_info EF2_VIDEO_FB_RGBA32 = Some (EF2_GS_PSMCT32, 32)"
    by (simp add: ef2_video_framebuffer_format_info_def)
  have run: "run_state (ef2_video_init ee (Some config)) st =
      (-5, st\<lparr>ef2_video_width := cfg_width config, ef2_video_height := cfg_height config\<rparr>)"
    using assms by (simp add: ef2_video_init_def valid mode info Let_def)
  show ?thesis
    using assms by (simp add: run ef2_video_get_size_def ef2_video_get_framebuffer_layout_def video_off_def)
qed


definition odd_config :: video_config where
  "odd_config = \<lparr>cfg_standard = EF2_VIDEO_NTSC, cfg_interlaced = 1, cfg_field_mode = EF2_VIDEO_FIELD,
     cfg_format = EF2_VIDEO_FB_RGBA32, cfg_width = 960, cfg_height = 448\<rparr>"

theorem video_init_keeps_refused_size_witness:
  "fst (run_state (ef2_video_init quiet_ee (Some odd_config)) small_picture) = -5 \<and>
    ef2_video_get_size True True (snd (run_state (ef2_video_init quiet_ee (Some odd_config)) small_picture)) =
      (0, Some (960, 448))"
  using video_init_keeps_refused_size [of odd_config quiet_ee small_picture]
  by (simp add: odd_config_def video_size_valid_def)

section \<open>Packed indices\<close>

text \<open>The index at a position of a packed array.\<close>

definition nibble :: "u8 list \<Rightarrow> nat \<Rightarrow> u8" where
  "nibble bs i = (if even i then bs ! (i div 2) AND 0x0F else drop_bit 4 (bs ! (i div 2)))"


definition pair_byte :: "u8 list \<Rightarrow> nat \<Rightarrow> u8" where
  "pair_byte src p = (src ! (2 * p) AND 0x0F) OR push_bit 4 (src ! (2 * p + 1) AND 0x0F)"

lemma pair_byte_nibbles: "pair_byte src p AND 0x0F = src ! (2 * p) AND 0x0F" "drop_bit 4 (pair_byte src p) = src ! (2 * p + 1) AND 0x0F"
proof -
  have m: "(0x0F :: u8) = mask 4" by (simp add: mask_eq_exp_minus_1)
  show "pair_byte src p AND 0x0F = src ! (2 * p) AND 0x0F" "drop_bit 4 (pair_byte src p) = src ! (2 * p + 1) AND 0x0F"
    unfolding pair_byte_def m by (rule bit_word_eqI; auto simp: bit_simps)+
qed

lemma pack_loop:
  assumes "unat pairs < 2147483648" "unat pairs \<le> length packed" "pair \<le> pairs"
  shows "pack_indices4_loop packed src pairs pair =
    take (unat pair) packed @ map (pair_byte src) [unat pair..<unat pairs] @ drop (unat pairs) packed"
  using assms
proof (induction packed src pairs pair rule: pack_indices4_loop.induct)
  case (1 packed src pairs pair)
  show ?case
  proof (cases "pair < pairs")
    case False
    then have "pair = pairs" using "1.prems" by simp
    then show ?thesis by (simp add: pack_indices4_loop.simps)
  next
    case True
    then have lt: "unat pair < unat pairs" by (simp add: word_less_nat_alt)
    have u: "unat (pair * 2) = 2 * unat pair" "unat (pair * 2 + 1) = 2 * unat pair + 1" "unat (pair + 1) = unat pair + 1"
      using lt "1.prems"(1) by (simp_all add: unat_word_ariths)
    have b: "src ! unat (pair * 2) AND 15 OR push_bit 4 (src ! unat (pair * 2 + 1) AND 15) = pair_byte src (unat pair)"
      by (simp add: pair_byte_def u)
    have "pair + 1 \<le> pairs" using lt u by (simp add: word_le_nat_alt)
    then have "pack_indices4_loop packed src pairs pair =
        take (unat pair + 1) (packed[unat pair := pair_byte src (unat pair)]) @
        map (pair_byte src) [unat pair + 1..<unat pairs] @ drop (unat pairs) (packed[unat pair := pair_byte src (unat pair)])"
      using "1.IH" [OF True refl refl] "1.prems" True by (subst pack_indices4_loop.simps) (simp add: Let_def u(3) flip: b)
    moreover have "take (unat pair + 1) (packed[unat pair := pair_byte src (unat pair)]) = take (unat pair) packed @ [pair_byte src (unat pair)]"
      using lt "1.prems"(2) by (simp add: take_Suc_conv_app_nth)
    moreover have "[unat pair..<unat pairs] = unat pair # [unat pair + 1..<unat pairs]" using lt by (simp add: upt_conv_Cons)
    ultimately show ?thesis using lt by (simp del: upt_Suc)
  qed
qed


text \<open>The bytes of a packing: whole pairs, and a last byte for an odd number.\<close>

definition packed_bytes :: "u8 list \<Rightarrow> u8 list \<Rightarrow> nat \<Rightarrow> u8 list" where
  "packed_bytes buf src n =
    (let bs = map (pair_byte src) [0..<n div 2] @ drop (n div 2) buf
     in if odd n then bs[n div 2 := src ! (n - 1) AND 0x0F] else bs)"

lemma packed_bytes_nibble:
  assumes "(n + 1) div 2 \<le> length buf" "i < n"
  shows "nibble (packed_bytes buf src n) i = src ! i AND 0x0F"
proof (cases "i div 2 < n div 2")
  case True
  then have "packed_bytes buf src n ! (i div 2) = pair_byte src (i div 2)"
    by (simp add: packed_bytes_def Let_def nth_append)
  then show ?thesis by (cases "even i") (simp_all add: nibble_def pair_byte_nibbles)
next
  case False
  then have "odd n" "i = n - 1" "even i" using assms(2) by presburger+
  moreover have "(n - 1) div 2 = n div 2" using \<open>odd n\<close> by presburger
  ultimately have "packed_bytes buf src n ! (i div 2) = src ! i AND 0x0F"
    using assms by (simp add: packed_bytes_def Let_def)
  then show ?thesis using \<open>even i\<close> by (simp add: nibble_def and.assoc)
qed

lemma pack_run:
  assumes "unat count < 4294967295" "(unat count + 1) div 2 \<le> length buf" "length buf = unat room"
  shows "ef2_video_pack_indices4 (Some buf) room (Some src) count =
    (int ((unat count + 1) div 2), Some (packed_bytes buf src (unat count)))"
proof -
  have c1: "unat (count + 1) = unat count + 1" using assms(1) by (simp add: unat_word_ariths)
  have d: "unat (drop_bit 1 (count + 1)) = (unat count + 1) div 2" "unat (drop_bit 1 count) = unat count div 2"
    by (simp_all only: unat_drop_bit_div c1 power_one_right)
  have s: "sint (drop_bit 1 (count + 1)) = int ((unat count + 1) div 2)"
    using sint_small [of "drop_bit 1 (count + 1)"] assms(1) unfolding d by linarith
  have odd_count: "count AND 1 \<noteq> 0 \<longleftrightarrow> odd (unat count)" using and_mask_dvd_nat [of 1 count] by simp
  have pred: "unat (count - 1) = unat count - 1" if "odd (unat count)"
  proof -
    have "count \<noteq> 0" using that by (metis unat_0 even_zero)
    then show ?thesis by (rule unat_minus_one)
  qed
  have "\<not> room < drop_bit 1 (count + 1)" unfolding word_less_nat_alt d using assms by linarith
  moreover have "unat count div 2 < 2147483648" "unat count div 2 \<le> length buf" using assms by auto
  ultimately show ?thesis using assms(1)
    by (simp add: ef2_video_pack_indices4_def Let_def pack_loop packed_bytes_def s odd_count pred d
        del: One_nat_def)
qed

text \<open>Packing 4-bit indices into a buffer that has room for them keeps every index: read back in
  order they are the low four bits of the given bytes; the result is the number of bytes used.\<close>

theorem pack_indices4_roundtrip:
  assumes "unat count < 4294967295" "unat count \<le> length src" "(unat count + 1) div 2 \<le> length buf" "length buf = unat room"
  shows "\<exists>bytes. ef2_video_pack_indices4 (Some buf) room (Some src) count = (int ((unat count + 1) div 2), Some bytes) \<and>
    length bytes = length buf \<and> map (nibble bytes) [0..<unat count] = map (\<lambda>x. x AND 0x0F) (take (unat count) src)"
proof (intro exI conjI)
  show "ef2_video_pack_indices4 (Some buf) room (Some src) count =
      (int ((unat count + 1) div 2), Some (packed_bytes buf src (unat count)))"
    using assms by (intro pack_run) auto
  show "length (packed_bytes buf src (unat count)) = length buf"
    using assms(3) by (auto simp: packed_bytes_def Let_def)
  show "map (nibble (packed_bytes buf src (unat count))) [0..<unat count] = map (\<lambda>x. x AND 0x0F) (take (unat count) src)"
    using assms(2,3) by (intro nth_equalityI) (simp_all add: packed_bytes_nibble)
qed

theorem pack_indices4_roundtrip_witness:
  "map (nibble (the (snd (ef2_video_pack_indices4 (Some [0, 0, 0, 0]) 4 (Some [1, 18, 15, 4, 7]) 5)))) [0..<5] =
    [1, 2, 15, 4, 7]"
proof -
  obtain bytes where "ef2_video_pack_indices4 (Some [0, 0, 0, 0]) 4 (Some [1, 18, 15, 4, 7]) 5 = (3, Some bytes)"
    and "map (nibble bytes) [0..<unat (5 :: u32)] = map (\<lambda>x. x AND 0x0F) (take (unat (5 :: u32)) [1, 18, 15, 4, 7])"
    using pack_indices4_roundtrip [of 5 "[1, 18, 15, 4, 7]" "[0, 0, 0, 0]" 4] by fastforce
  then show ?thesis by simp
qed

end
