(* ===== verification/EeKernel.thy ===== *)
theory EeKernel
  imports EeMachine
begin

text \<open>
  The kernel of the EE as the SDK uses it: the system calls of \<open>include/ef2/kernel.h\<close> that the modelled
  files make, the status register and the interrupt enable instructions, and bytes of memory.
\<close>

text \<open>The descriptor of a transfer to the IOP, with the contents that it carries where the model needs
  them.\<close>

record sif_dma_transfer =
  tr_src :: u32
  tr_dest :: u32
  tr_size :: u32
  tr_attr :: u32
  tr_words :: "u32 list"

record 'w ee_kernel = "'w ee" +
  ld_byte :: "u32 \<Rightarrow> 'w \<Rightarrow> u8"
  st_byte :: "u32 \<Rightarrow> u8 \<Rightarrow> 'w \<Rightarrow> 'w"
  read_status :: "'w \<Rightarrow> u32 \<times> 'w"
  write_status :: "u32 \<Rightarrow> 'w \<Rightarrow> 'w"
  di :: "'w \<Rightarrow> 'w"
  ei :: "'w \<Rightarrow> 'w"
  ef2_kernel_flush_cache :: "s32 \<Rightarrow> 'w \<Rightarrow> 'w"
  ef2_kernel_add_dmac_handler :: "s32 \<Rightarrow> 'w \<Rightarrow> s32 \<times> 'w"
  ef2_kernel_add_intc_handler2 :: "s32 \<Rightarrow> u32 \<Rightarrow> s32 \<Rightarrow> u32 \<Rightarrow> 'w \<Rightarrow> s32 \<times> 'w"
  ef2_kernel_remove_intc_handler :: "s32 \<Rightarrow> s32 \<Rightarrow> 'w \<Rightarrow> s32 \<times> 'w"
  ef2_kernel_enable_intc :: "s32 \<Rightarrow> 'w \<Rightarrow> s32 \<times> 'w"
  ef2_kernel_disable_intc :: "s32 \<Rightarrow> 'w \<Rightarrow> s32 \<times> 'w"
  ef2_kernel_add_dmac_handler2 :: "s32 \<Rightarrow> u32 \<Rightarrow> s32 \<Rightarrow> u32 \<Rightarrow> 'w \<Rightarrow> s32 \<times> 'w"
  ef2_kernel_remove_dmac_handler :: "s32 \<Rightarrow> s32 \<Rightarrow> 'w \<Rightarrow> s32 \<times> 'w"
  ef2_kernel_enable_dmac :: "s32 \<Rightarrow> 'w \<Rightarrow> s32 \<times> 'w"
  ef2_kernel_disable_dmac :: "s32 \<Rightarrow> 'w \<Rightarrow> s32 \<times> 'w"
  ef2_kernel_sif_set_dma :: "sif_dma_transfer list \<Rightarrow> 'w \<Rightarrow> s32 \<times> 'w"
  ef2_kernel_sif_dma_stat :: "s32 \<Rightarrow> 'w \<Rightarrow> s32 \<times> 'w"
  ef2_kernel_sif_set_dchain :: "'w \<Rightarrow> 'w"
  ef2_kernel_isif_set_dchain :: "'w \<Rightarrow> 'w"
  ef2_kernel_sif_get_reg :: "u32 \<Rightarrow> 'w \<Rightarrow> u32 \<times> 'w"
  ef2_kernel_sif_set_reg :: "u32 \<Rightarrow> u32 \<Rightarrow> 'w \<Rightarrow> 'w"

end
