(* ===== verification/SifTransport.thy ===== *)
theory SifTransport
  imports EeKernel
begin

text \<open>
  The transport to the IOP, \<open>src/ee/sif/sif.c\<close>, first part: commands, the interrupt handler that receives
  them, and remote procedure calls.

  A packet of the pool is the list of its 16 words, which the C code reads through overlapping structures.
  A pointer to one is its index; its address appears only in the words that are sent.  The client
  structures live at addresses, in the map \<open>rpc_clients\<close>.

  The hardware receives a packet at any time.  \<open>arrivals\<close> are the packets that have come since the last
  look; the handler runs on them one by one at the points where the code waits or takes a packet from the
  pool, which is where it could notice them.  A handler reads its packet from an array on the stack, of
  which only the received words are written: \<open>stack_words\<close> is what the rest holds.
\<close>

definition EF2_SIF_CMD_SYSTEM :: u32 where "EF2_SIF_CMD_SYSTEM = 0x80000000"
definition EF2_SIF_CMD_CHANGE_SADDR :: u32 where "EF2_SIF_CMD_CHANGE_SADDR = 0x80000000"
definition EF2_SIF_CMD_INIT_CMD :: u32 where "EF2_SIF_CMD_INIT_CMD = 0x80000002"
definition EF2_SIF_CMD_RPC_BIND :: u32 where "EF2_SIF_CMD_RPC_BIND = 0x80000009"
definition EF2_SIF_CMD_RPC_CALL :: u32 where "EF2_SIF_CMD_RPC_CALL = 0x8000000A"

definition EF2_SIF_REG_SUBADDR :: u32 where "EF2_SIF_REG_SUBADDR = 2"
definition EF2_SIF_REG_SMFLAG :: u32 where "EF2_SIF_REG_SMFLAG = 4"
definition EF2_SIF_SYSREG_SUBADDR :: u32 where "EF2_SIF_SYSREG_SUBADDR = 0x80000000"
definition EF2_SIF_SYSREG_MAINADDR :: u32 where "EF2_SIF_SYSREG_MAINADDR = 0x80000001"
definition EF2_SIF_SYSREG_RPCINIT :: u32 where "EF2_SIF_SYSREG_RPCINIT = 0x80000002"

definition EF2_SIF_STAT_CMDINIT :: u32 where "EF2_SIF_STAT_CMDINIT = 0x00020000"

definition EF2_DMAC_SIF0 :: s32 where "EF2_DMAC_SIF0 = 5"
definition EF2_DMAC_COMM_STAT :: u32 where "EF2_DMAC_COMM_STAT = 0x1000E010"
definition EF2_DMAC_SIF0_CHCR :: u32 where "EF2_DMAC_SIF0_CHCR = 0x1000C000"
definition EF2_DMAC_STAT_SIF0 :: u32 where "EF2_DMAC_STAT_SIF0 = 0x20"
definition EF2_DMAC_CHCR_STR :: u32 where "EF2_DMAC_CHCR_STR = 0x100"

definition EF2_RPC_PACKET_SIZE :: u32 where "EF2_RPC_PACKET_SIZE = 64"
definition EF2_RPC_ALLOC :: u32 where "EF2_RPC_ALLOC = 0x01"

definition SIF_WAIT_LIMIT :: u32 where "SIF_WAIT_LIMIT = 0x02000000"

text \<open>The handlers that the table of system commands can hold.\<close>

datatype sif_sys_handler = Cmd_change_addr | Cmd_set_sreg | Cmd_rpc_end

text \<open>A client: its server, its buffers, the pool packet in use and the identifier of its last call.\<close>

record rpc_client =
  hdr_pkt :: "nat option"
  hdr_rpc_id :: u32
  hdr_sema_id :: s32
  command :: u32
  client_buf :: u32
  client_cbuf :: u32
  client_server :: u32

definition zero_client :: rpc_client where
  "zero_client = \<lparr>hdr_pkt = None, hdr_rpc_id = 0, hdr_sema_id = 0, command = 0, client_buf = 0, client_cbuf = 0,
     client_server = 0\<rparr>"

record 'w sif_machine = "'w ee_kernel" +
  arrivals :: "'w \<Rightarrow> u32 list list \<times> 'w"
  stack_words :: "u32 list"
  cmd_packet_at :: u32
  cmd_data_at :: u32
  rpc_packets_at :: u32

record 'w sif =
  sif_world :: 'w
  g_cmd_packet_buffer :: "u32 list"
  cmd_pktbuf :: u32
  cmd_iopbuf :: u32
  g_sys_handlers :: "sif_sys_handler option list"
  sys_handler_count :: u32
  g_sregs :: "u32 list"
  g_sif0_handler_id :: s32
  g_sif_initialized :: bool
  g_rpc_packets :: "u32 list list"
  g_rpc_next_id :: u32
  g_rpc_wait_done :: bool
  rpc_clients :: "u32 \<Rightarrow> rpc_client"
  g_heap_bound :: bool
  g_loadfile_bound :: bool

definition on_iop :: "('w \<Rightarrow> 'a \<times> 'w) \<Rightarrow> ('w sif, 'a) state" where
  "on_iop f = State (\<lambda>st. let (a, w) = f (sif_world st) in (a, st\<lparr>sif_world := w\<rparr>))"

definition do_iop :: "('w \<Rightarrow> 'w) \<Rightarrow> ('w sif, unit) state" where
  "do_iop f = modify (\<lambda>st. st\<lparr>sif_world := f (sif_world st)\<rparr>)"

lemma run_on_iop [simp]:
  "run_state (on_iop f) st = (fst (f (sif_world st)), st\<lparr>sif_world := snd (f (sif_world st))\<rparr>)"
  by (simp add: on_iop_def split: prod.split)

lemma run_do_iop [simp]: "run_state (do_iop f) st = ((), st\<lparr>sif_world := f (sif_world st)\<rparr>)"
  by (simp add: do_iop_def)

definition ef2_uncached :: "u32 \<Rightarrow> u32" where
  "ef2_uncached ptr = ptr OR 0x20000000"

definition packet_address :: "('w, 'y) sif_machine_scheme \<Rightarrow> nat \<Rightarrow> u32" where
  "packet_address ker i = ef2_uncached (rpc_packets_at ker + word_of_nat i * EF2_RPC_PACKET_SIZE)"

definition client_update :: "u32 \<Rightarrow> (rpc_client \<Rightarrow> rpc_client) \<Rightarrow> 'w sif \<Rightarrow> 'w sif" where
  "client_update c f st = st\<lparr>rpc_clients := (rpc_clients st)(c := f (rpc_clients st c))\<rparr>"

section \<open>Commands\<close>

text \<open>The words 0 to 3 of a packet are its header: sizes, destination, command, option.\<close>

definition ef2_cmd_set_sizes :: "u32 \<Rightarrow> u32 \<Rightarrow> u32" where
  "ef2_cmd_set_sizes packet_size data_size = (packet_size AND 0xFF) OR push_bit 8 (data_size AND 0xFFFFFF)"

definition ef2_cmd_packet_size :: "u32 list \<Rightarrow> u32" where
  "ef2_cmd_packet_size words = words ! 0 AND 0xFF"

text \<open>The result is the identifier of the transfer, 0 for a failure; the words of the packet come back
  with their header.\<close>

definition ef2_sif_send_cmd ::
  "('w, 'y) sif_machine_scheme \<Rightarrow> u32 \<Rightarrow> u32 \<Rightarrow> u32 list \<Rightarrow> u32 \<Rightarrow> u32 \<Rightarrow> u32 \<Rightarrow> u32 \<Rightarrow> ('w sif, s32 \<times> u32 list) state" where
  "ef2_sif_send_cmd ker cid packet words packet_size extra_src extra_dest extra_size = do {
     iopbuf \<leftarrow> reads cmd_iopbuf;
     if packet_size = 0 \<or> packet_size > 112 \<or> iopbuf = 0 then ret (0, words)
     else do {
       let words = words[0 := ef2_cmd_set_sizes packet_size extra_size, 1 := (if extra_size \<noteq> 0 then extra_dest else 0), 2 := cid];
       let extra = (if extra_size \<noteq> 0
         then [\<lparr>tr_src = extra_src, tr_dest = extra_dest, tr_size = extra_size, tr_attr = 0, tr_words = []\<rparr>] else []);
       (if extra_size \<noteq> 0 then do_iop (ef2_cache_writeback_invalidate_range ker extra_src extra_size) else ret ());
       do_iop (ef2_cache_writeback_invalidate_range ker packet packet_size);
       transfer \<leftarrow> on_iop (ef2_kernel_sif_set_dma ker
         (extra @ [\<lparr>tr_src = packet, tr_dest = iopbuf, tr_size = packet_size, tr_attr = 0x44, tr_words = words\<rparr>]));
       ret (transfer, words) } }"

text \<open>The three handlers, on the words of the packet.\<close>

definition ef2_cmd_change_addr :: "u32 list \<Rightarrow> 'w sif \<Rightarrow> 'w sif" where
  "ef2_cmd_change_addr words st = st\<lparr>cmd_iopbuf := words ! 4\<rparr>"

definition ef2_cmd_set_sreg :: "u32 list \<Rightarrow> 'w sif \<Rightarrow> 'w sif" where
  "ef2_cmd_set_sreg words st =
    (if words ! 4 < 32 then st\<lparr>g_sregs := (g_sregs st)[unat (words ! 4) := words ! 5]\<rparr> else st)"

text \<open>Words 4, 5 and 6 of a pool packet: the record with the flag of the allocation, its own address and
  the identifier of the call.\<close>

definition ef2_rpc_packet_free :: "nat \<Rightarrow> 'w sif \<Rightarrow> 'w sif" where
  "ef2_rpc_packet_free i st =
    (let p = g_rpc_packets st ! i
     in st\<lparr>g_rpc_packets := (g_rpc_packets st)[i := p[6 := 0, 4 := p ! 4 AND NOT EF2_RPC_ALLOC]]\<rparr>)"

text \<open>Words 7 to 11 of an end packet: the client, the command it ends, and the server with its buffers.\<close>

definition ef2_cmd_rpc_end :: "u32 list \<Rightarrow> 'w sif \<Rightarrow> 'w sif" where
  "ef2_cmd_rpc_end words st =
    (let client = words ! 7;
         st = (if client \<noteq> 0 then
             let st = (if words ! 8 = EF2_SIF_CMD_RPC_BIND
                       then client_update client (\<lambda>c. c\<lparr>client_server := words ! 9, client_buf := words ! 10, client_cbuf := words ! 11\<rparr>) st
                       else st)
             in case hdr_pkt (rpc_clients st client) of
                  Some i \<Rightarrow> client_update client (\<lambda>c. c\<lparr>hdr_pkt := None\<rparr>) (ef2_rpc_packet_free i st)
                | None \<Rightarrow> st
           else st)
     in st\<lparr>g_rpc_wait_done := True\<rparr>)"

fun run_handler :: "sif_sys_handler \<Rightarrow> u32 list \<Rightarrow> 'w sif \<Rightarrow> 'w sif" where
  "run_handler Cmd_change_addr words st = ef2_cmd_change_addr words st"
| "run_handler Cmd_set_sreg words st = ef2_cmd_set_sreg words st"
| "run_handler Cmd_rpc_end words st = ef2_cmd_rpc_end words st"

definition ef2_sif_irq_handler :: "('w, 'y) sif_machine_scheme \<Rightarrow> 'w sif \<Rightarrow> 'w sif" where
  "ef2_sif_irq_handler ker st =
    (let source = g_cmd_packet_buffer st; n = ef2_cmd_packet_size source
     in if n = 0 \<or> n > 128 then st
        else
          let source = source[0 := source ! 0 AND NOT 0xFF];
              words = drop_bit 2 (n + 3);
              packet = take (unat words) source @ drop (unat words) (stack_words ker);
              st = st\<lparr>g_cmd_packet_buffer := source, sif_world := ef2_kernel_isif_set_dchain ker (sif_world st)\<rparr>;
              cid = packet ! 2;
              index = cid AND NOT EF2_SIF_CMD_SYSTEM
          in if cid AND EF2_SIF_CMD_SYSTEM \<noteq> 0 \<and> index < sys_handler_count st
             then (case g_sys_handlers st ! unat index of
                     Some handler \<Rightarrow> run_handler handler packet st
                   | None \<Rightarrow> st)
             else st)"

text \<open>The hardware writes a packet over the start of the buffer and raises the interrupt.\<close>

definition receive_packet :: "('w, 'y) sif_machine_scheme \<Rightarrow> u32 list \<Rightarrow> 'w sif \<Rightarrow> 'w sif" where
  "receive_packet ker p st =
    (if g_sif0_handler_id st < 0 then st
     else ef2_sif_irq_handler ker (st\<lparr>g_cmd_packet_buffer := take 32 p @ drop (length p) (g_cmd_packet_buffer st)\<rparr>))"

definition sif_interrupts :: "('w, 'y) sif_machine_scheme \<Rightarrow> ('w sif, unit) state" where
  "sif_interrupts ker = do {
     ps \<leftarrow> on_iop (arrivals ker);
     modify (fold (receive_packet ker) ps) }"

function wait_flag_loop :: "('w, 'y) sif_machine_scheme \<Rightarrow> ('w sif \<Rightarrow> bool) \<Rightarrow> u32 \<Rightarrow> ('w sif, s32) state" where
  "wait_flag_loop ker flag outer =
    (if outer < SIF_WAIT_LIMIT then do {
       sif_interrupts ker;
       set \<leftarrow> reads flag;
       if set then ret 0 else wait_flag_loop ker flag (outer + 1) }
     else ret (-1))"
  by pat_completeness auto
termination
  by (relation "measure (\<lambda>(ker, flag, outer). unat (SIF_WAIT_LIMIT - outer))") (auto simp: u32_countdown_less)

declare wait_flag_loop.simps [simp del]

definition ef2_wait_flag :: "('w, 'y) sif_machine_scheme \<Rightarrow> ('w sif \<Rightarrow> bool) \<Rightarrow> ('w sif, s32) state" where
  "ef2_wait_flag ker flag = wait_flag_loop ker flag 0"

section \<open>The packet pool\<close>

definition packet_busy :: "u32 list \<Rightarrow> bool" where
  "packet_busy p \<longleftrightarrow> p ! 4 AND EF2_RPC_ALLOC \<noteq> 0"

definition first_free :: "u32 list list \<Rightarrow> nat option" where
  "first_free ps = List.find (\<lambda>i. \<not> packet_busy (ps ! i)) [0..<8]"

definition fresh_packet :: "('w, 'y) sif_machine_scheme \<Rightarrow> nat \<Rightarrow> u32 \<Rightarrow> u32 list" where
  "fresh_packet ker i rid =
    (replicate 16 0)[4 := push_bit 16 (word_of_nat i) OR 0x04 OR EF2_RPC_ALLOC, 6 := rid, 5 := packet_address ker i]"

definition ef2_rpc_alloc_packet :: "('w, 'y) sif_machine_scheme \<Rightarrow> ('w sif, nat option) state" where
  "ef2_rpc_alloc_packet ker = do {
     sif_interrupts ker;
     do_iop (di ker);
     st \<leftarrow> State_Monad.get;
     found \<leftarrow> (case first_free (g_rpc_packets st) of
       Some i \<Rightarrow> do {
         let rid = g_rpc_next_id st;
         modify (\<lambda>st. st\<lparr>g_rpc_next_id := (if rid + 1 = 0 then 1 else rid + 1),
           g_rpc_packets := (g_rpc_packets st)[i := fresh_packet ker i rid]\<rparr>);
         ret (Some i) }
     | None \<Rightarrow> ret None);
     do_iop (ei ker);
     ret found }"


section \<open>Initialisation\<close>

text \<open>The packet that announces the receive buffer, a local structure of five words.\<close>

definition sif_zero_words :: "nat \<Rightarrow> u32 list" where
  "sif_zero_words n = replicate n 0"

definition send_change :: "('w, 'y) sif_machine_scheme \<Rightarrow> u32 \<Rightarrow> ('w sif, s32) state" where
  "send_change ker cid = do {
     pktbuf \<leftarrow> reads cmd_pktbuf;
     (result, words) \<leftarrow> ef2_sif_send_cmd ker cid (packet_at ker) ((sif_zero_words 5)[4 := pktbuf]) 20 0 0 0;
     ret result }"

text \<open>Whether the IOP has announced its command buffer before the count ran out.\<close>

function cmd_init_loop :: "('w, 'y) sif_machine_scheme \<Rightarrow> u32 \<Rightarrow> 'w \<Rightarrow> bool \<times> 'w" where
  "cmd_init_loop ker i w =
    (if i < SIF_WAIT_LIMIT then
       let (flag, w) = ef2_kernel_sif_get_reg ker EF2_SIF_REG_SMFLAG w
       in if flag AND EF2_SIF_STAT_CMDINIT \<noteq> 0 then (True, w) else cmd_init_loop ker (i + 1) w
     else (False, w))"
  by pat_completeness auto
termination
  by (relation "measure (\<lambda>(ker, i, w). unat (SIF_WAIT_LIMIT - i))") (auto simp: u32_countdown_less)

declare cmd_init_loop.simps [simp del]

text \<open>The tables as the initialisation sets them up.\<close>

definition fresh_command_data :: "('w, 'y) sif_machine_scheme \<Rightarrow> 'w sif \<Rightarrow> 'w sif" where
  "fresh_command_data ker st =
    st\<lparr>g_cmd_packet_buffer := replicate 32 0, cmd_pktbuf := ef2_uncached (cmd_packet_at ker), cmd_iopbuf := 0,
       g_sys_handlers := (replicate 32 None)[0 := Some Cmd_change_addr, 1 := Some Cmd_set_sreg, 8 := Some Cmd_rpc_end],
       sys_handler_count := 32, g_sregs := replicate 32 0\<rparr>"

definition ef2_sif_init_cmd :: "('w, 'y) sif_machine_scheme \<Rightarrow> ('w sif, s32) state" where
  "ef2_sif_init_cmd ker = do {
     installed \<leftarrow> reads g_sif0_handler_id;
     if installed \<ge> 0 then ret 0
     else do {
       modify (fresh_command_data ker);
       do_iop (ef2_kernel_flush_cache ker 0);
       stat \<leftarrow> on_iop (rd32 ker EF2_DMAC_COMM_STAT);
       (if stat AND EF2_DMAC_STAT_SIF0 \<noteq> 0 then do_iop (wr32 ker EF2_DMAC_COMM_STAT EF2_DMAC_STAT_SIF0) else ret ());
       chcr \<leftarrow> on_iop (rd32 ker EF2_DMAC_SIF0_CHCR);
       (if chcr AND EF2_DMAC_CHCR_STR = 0 then do_iop (ef2_kernel_sif_set_dchain ker) else ret ());
       handler \<leftarrow> on_iop (ef2_kernel_add_dmac_handler ker EF2_DMAC_SIF0);
       modify (\<lambda>st. st\<lparr>g_sif0_handler_id := handler\<rparr>);
       if handler < 0 then ret (-1)
       else do {
         enabled \<leftarrow> on_iop (ef2_kernel_enable_dmac ker EF2_DMAC_SIF0);
         if enabled < 0 then ret (-2)
         else do {
           iopbuf \<leftarrow> on_iop (ef2_kernel_sif_get_reg ker EF2_SIF_SYSREG_SUBADDR);
           modify (\<lambda>st. st\<lparr>cmd_iopbuf := iopbuf\<rparr>);
           if iopbuf \<noteq> 0 then do {
             sent \<leftarrow> send_change ker EF2_SIF_CMD_CHANGE_SADDR;
             ret (if sent = 0 then -3 else 0) }
           else do {
             ready \<leftarrow> on_iop (cmd_init_loop ker 0);
             if \<not> ready then ret (-4)
             else do {
               iopbuf \<leftarrow> on_iop (ef2_kernel_sif_get_reg ker EF2_SIF_REG_SUBADDR);
               modify (\<lambda>st. st\<lparr>cmd_iopbuf := iopbuf\<rparr>);
               if iopbuf = 0 then ret (-5)
               else do {
                 do_iop (ef2_kernel_sif_set_reg ker EF2_SIF_SYSREG_SUBADDR iopbuf);
                 do_iop (ef2_kernel_sif_set_reg ker EF2_SIF_SYSREG_MAINADDR (cmd_data_at ker));
                 sent \<leftarrow> send_change ker EF2_SIF_CMD_INIT_CMD;
                 ret (if sent = 0 then -6 else 0) } } } } } } }"

definition ef2_sif_init_rpc :: "('w, 'y) sif_machine_scheme \<Rightarrow> ('w sif, s32) state" where
  "ef2_sif_init_rpc ker = do {
     started \<leftarrow> on_iop (ef2_kernel_sif_get_reg ker EF2_SIF_SYSREG_RPCINIT);
     if started \<noteq> 0 then ret 0
     else do {
       (sent, words) \<leftarrow> ef2_sif_send_cmd ker EF2_SIF_CMD_INIT_CMD (packet_at ker) ((sif_zero_words 4)[3 := 1]) 16 0 0 0;
       if sent = 0 then ret (-1)
       else do {
         waited \<leftarrow> ef2_wait_flag ker (\<lambda>st. g_sregs st ! 0 \<noteq> 0);
         if waited < 0 then ret (-2)
         else do {
           do_iop (ef2_kernel_sif_set_reg ker EF2_SIF_SYSREG_RPCINIT 1);
           ret 0 } } } }"

definition ef2_sif_init :: "('w, 'y) sif_machine_scheme \<Rightarrow> ('w sif, s32) state" where
  "ef2_sif_init ker = do {
     done' \<leftarrow> reads g_sif_initialized;
     if done' then ret 0
     else do {
       modify (\<lambda>st. st\<lparr>g_rpc_packets := map (\<lambda>p. p[4 := 0, 6 := 0]) (g_rpc_packets st)\<rparr>);
       result \<leftarrow> ef2_sif_init_cmd ker;
       if result < 0 then ret (result - 100)
       else do {
         result \<leftarrow> ef2_sif_init_rpc ker;
         if result < 0 then ret (result - 200)
         else do {
           modify (\<lambda>st. st\<lparr>g_sif_initialized := True\<rparr>);
           ret 0 } } } }"

section \<open>Remote procedure calls\<close>

text \<open>A packet of the pool is sent with its words, which keep the header.\<close>

definition send_pool_packet ::
  "('w, 'y) sif_machine_scheme \<Rightarrow> u32 \<Rightarrow> nat \<Rightarrow> u32 \<Rightarrow> u32 \<Rightarrow> u32 \<Rightarrow> ('w sif, s32) state" where
  "send_pool_packet ker cid i extra_src extra_dest extra_size = do {
     packets \<leftarrow> reads g_rpc_packets;
     (sent, words) \<leftarrow> ef2_sif_send_cmd ker cid (packet_address ker i) (packets ! i) EF2_RPC_PACKET_SIZE extra_src extra_dest extra_size;
     modify (\<lambda>st. st\<lparr>g_rpc_packets := (g_rpc_packets st)[i := words]\<rparr>);
     ret sent }"

text \<open>The assignments to the client and to its new packet.\<close>

definition attach_packet ::
  "u32 \<Rightarrow> nat \<Rightarrow> (rpc_client \<Rightarrow> rpc_client) \<Rightarrow> (u32 list \<Rightarrow> u32 list) \<Rightarrow> 'w sif \<Rightarrow> 'w sif" where
  "attach_packet client i f g st =
    (client_update client f st)\<lparr>g_rpc_packets := (g_rpc_packets st)[i := g (g_rpc_packets st ! i)]\<rparr>"

text \<open>What a call gives up when its packet could not be sent.\<close>

definition drop_packet :: "u32 \<Rightarrow> nat \<Rightarrow> 'w sif \<Rightarrow> 'w sif" where
  "drop_packet client i st = client_update client (\<lambda>c. c\<lparr>hdr_pkt := None\<rparr>) (ef2_rpc_packet_free i st)"

fun bind_loop :: "('w, 'y) sif_machine_scheme \<Rightarrow> u32 \<Rightarrow> u32 \<Rightarrow> nat \<Rightarrow> ('w sif, s32) state" where
  "bind_loop ker client sid 0 = ret (-5)"
| "bind_loop ker client sid (Suc attempts) = do {
     found \<leftarrow> ef2_rpc_alloc_packet ker;
     case found of
       None \<Rightarrow> ret (-2)
     | Some i \<Rightarrow> do {
         st \<leftarrow> State_Monad.get;
         modify (attach_packet client i
           (\<lambda>c. c\<lparr>command := 0, client_server := 0, client_buf := 0, client_cbuf := 0,
              hdr_pkt := Some i, hdr_rpc_id := g_rpc_packets st ! i ! 6, hdr_sema_id := -1\<rparr>)
           (\<lambda>p. p[7 := client, 8 := sid]));
         modify (\<lambda>st. st\<lparr>g_rpc_wait_done := False\<rparr>);
         sent \<leftarrow> send_pool_packet ker EF2_SIF_CMD_RPC_BIND i 0 0 0;
         if sent = 0 then do {
           modify (drop_packet client i);
           ret (-3) }
         else do {
           waited \<leftarrow> ef2_wait_flag ker g_rpc_wait_done;
           if waited < 0 then ret (-4)
           else do {
             st \<leftarrow> State_Monad.get;
             if client_server (rpc_clients st client) \<noteq> 0 then ret 0 else bind_loop ker client sid attempts } } } }"

definition ef2_sif_bind :: "('w, 'y) sif_machine_scheme \<Rightarrow> u32 \<Rightarrow> u32 \<Rightarrow> ('w sif, s32) state" where
  "ef2_sif_bind ker client sid = (if client = 0 then ret (-1) else bind_loop ker client sid 4096)"

text \<open>Words 7 to 13 of a call packet: the client, the function, the size sent, the receive buffer with its
  size, the mode and the server.\<close>

definition ef2_sif_call ::
  "('w, 'y) sif_machine_scheme \<Rightarrow> u32 \<Rightarrow> u32 \<Rightarrow> u32 \<Rightarrow> u32 \<Rightarrow> u32 \<Rightarrow> u32 \<Rightarrow> ('w sif, s32) state" where
  "ef2_sif_call ker client fn send_buffer send_size receive_buffer receive_size = do {
     st \<leftarrow> State_Monad.get;
     if client = 0 \<or> client_server (rpc_clients st client) = 0 then ret (-1)
     else do {
       found \<leftarrow> ef2_rpc_alloc_packet ker;
       case found of
         None \<Rightarrow> ret (-2)
       | Some i \<Rightarrow> do {
           st \<leftarrow> State_Monad.get;
           modify (attach_packet client i
             (\<lambda>c. c\<lparr>hdr_pkt := Some i, hdr_rpc_id := g_rpc_packets st ! i ! 6, hdr_sema_id := -1\<rparr>)
             (\<lambda>p. p[7 := client, 8 := fn, 9 := send_size, 10 := receive_buffer,
                11 := receive_size, 12 := 1, 13 := client_server (rpc_clients st client)]));
           (if send_size \<noteq> 0 then do_iop (ef2_cache_writeback_invalidate_range ker send_buffer send_size) else ret ());
           (if receive_size \<noteq> 0 then do_iop (ef2_cache_writeback_invalidate_range ker receive_buffer receive_size) else ret ());
           modify (\<lambda>st. st\<lparr>g_rpc_wait_done := False\<rparr>);
           sent \<leftarrow> send_pool_packet ker EF2_SIF_CMD_RPC_CALL i send_buffer (client_buf (rpc_clients st client)) send_size;
           if sent = 0 then do {
             modify (drop_packet client i);
             ret (-3) }
           else do {
             waited \<leftarrow> ef2_wait_flag ker g_rpc_wait_done;
             ret (if waited < 0 then -4 else 0) } } } }"

end
