(* ===== verification/SifModules.thy ===== *)
theory SifModules
  imports SifTransport
begin

text \<open>
  The transport to the IOP, second part: memory on the IOP, reading it through the window, the tables of
  its loaded modules, the patch of an old module loader, and loading modules.

  Structures that are shared with the IOP lie in the memory of the EE at addresses of \<open>iop_machine\<close>.
  What is read from the IOP into a local array is the list of its bytes.  The wait for the end of a
  transfer has no bound: \<open>None\<close> means that it does not end.
\<close>

definition EF2_IOP_HEAP_SID :: u32 where "EF2_IOP_HEAP_SID = 0x80000003"
definition EF2_LOADFILE_SID :: u32 where "EF2_LOADFILE_SID = 0x80000006"
definition EF2_LF_MOD_LOAD :: u32 where "EF2_LF_MOD_LOAD = 0"
definition EF2_LF_MOD_BUF_LOAD :: u32 where "EF2_LF_MOD_BUF_LOAD = 6"
definition EF2_LF_PATH_MAX :: u32 where "EF2_LF_PATH_MAX = 252"
definition EF2_IOP_WINDOW_BASE :: u32 where "EF2_IOP_WINDOW_BASE = 0xBC000000"

record 'w iop_machine = "'w sif_machine" +
  heap_client_at :: u32
  loadfile_client_at :: u32
  heap_arg_at :: u32
  heap_load_arg_at :: u32
  load_arg_at :: u32
  load_buffer_arg_at :: u32
  local_block_at :: u32

section \<open>Memory of the EE\<close>

fun ef2_zero :: "('w, 'y) ee_kernel_scheme \<Rightarrow> u32 \<Rightarrow> nat \<Rightarrow> 'w \<Rightarrow> 'w" where
  "ef2_zero ker ptr 0 w = w"
| "ef2_zero ker ptr (Suc n) w = ef2_zero ker (ptr + 1) n (st_byte ker ptr 0 w)"

text \<open>\<open>src\<close> is the source string up to its terminator.\<close>

fun ef2_copy_string_loop :: "('w, 'y) ee_kernel_scheme \<Rightarrow> u32 \<Rightarrow> u32 \<Rightarrow> u8 list \<Rightarrow> u32 \<Rightarrow> 'w \<Rightarrow> 'w" where
  "ef2_copy_string_loop ker dest i [] capacity w = st_byte ker (dest + i) 0 w"
| "ef2_copy_string_loop ker dest i (c # src) capacity w =
    (if i + 1 < capacity \<and> c \<noteq> 0 then ef2_copy_string_loop ker dest (i + 1) src capacity (st_byte ker (dest + i) c w)
     else st_byte ker (dest + i) 0 w)"

definition ef2_copy_string :: "('w, 'y) ee_kernel_scheme \<Rightarrow> u32 \<Rightarrow> u8 list \<Rightarrow> u32 \<Rightarrow> 'w \<Rightarrow> 'w" where
  "ef2_copy_string ker dest src capacity w = (if capacity = 0 then w else ef2_copy_string_loop ker dest 0 src capacity w)"

definition ascii :: "string \<Rightarrow> u8 list" where
  "ascii s = map of_char s"

section \<open>Memory of the IOP\<close>

definition ef2_bind_heap :: "('w, 'y) iop_machine_scheme \<Rightarrow> ('w sif, s32) state" where
  "ef2_bind_heap ker = do {
     bound \<leftarrow> reads g_heap_bound;
     if bound then ret 0
     else do {
       modify (client_update (heap_client_at ker) (\<lambda>c. zero_client));
       result \<leftarrow> ef2_sif_bind ker (heap_client_at ker) EF2_IOP_HEAP_SID;
       if result < 0 then ret (-1)
       else do {
         modify (\<lambda>st. st\<lparr>g_heap_bound := True\<rparr>);
         ret 0 } } }"

definition ef2_bind_loadfile :: "('w, 'y) iop_machine_scheme \<Rightarrow> ('w sif, s32) state" where
  "ef2_bind_loadfile ker = do {
     bound \<leftarrow> reads g_loadfile_bound;
     if bound then ret 0
     else do {
       modify (client_update (loadfile_client_at ker) (\<lambda>c. zero_client));
       result \<leftarrow> ef2_sif_bind ker (loadfile_client_at ker) EF2_LOADFILE_SID;
       if result < 0 then ret (-1)
       else do {
         modify (\<lambda>st. st\<lparr>g_loadfile_bound := True\<rparr>);
         ret 0 } } }"

definition ef2_iop_alloc :: "('w, 'y) iop_machine_scheme \<Rightarrow> u32 \<Rightarrow> ('w sif, u32) state" where
  "ef2_iop_alloc ker n = do {
     bound \<leftarrow> ef2_bind_heap ker;
     if bound < 0 then ret 0
     else do {
       do_iop (ef2_zero ker (heap_arg_at ker) 16);
       do_iop (st_word ker (heap_arg_at ker) n);
       result \<leftarrow> ef2_sif_call ker (heap_client_at ker) 1 (heap_arg_at ker) 4 (heap_arg_at ker) 4;
       if result < 0 then ret 0
       else reads (\<lambda>st. ld_word ker (heap_arg_at ker) (sif_world st)) } }"

definition ef2_iop_free :: "('w, 'y) iop_machine_scheme \<Rightarrow> u32 \<Rightarrow> ('w sif, s32) state" where
  "ef2_iop_free ker ptr = do {
     bound \<leftarrow> ef2_bind_heap ker;
     if bound < 0 then ret (-1)
     else do {
       do_iop (ef2_zero ker (heap_arg_at ker) 16);
       do_iop (st_word ker (heap_arg_at ker) ptr);
       result \<leftarrow> ef2_sif_call ker (heap_client_at ker) 2 (heap_arg_at ker) 4 (heap_arg_at ker) 4;
       if result < 0 then ret (-2)
       else reads (\<lambda>st. sint (ld_word ker (heap_arg_at ker) (sif_world st))) } }"

partial_function (option) dma_stat_loop :: "('w, 'y) iop_machine_scheme \<Rightarrow> s32 \<Rightarrow> 'w \<Rightarrow> 'w option" where
  "dma_stat_loop ker transfer w =
    (let (stat, w) = ef2_kernel_sif_dma_stat ker transfer w
     in if stat \<ge> 0 then dma_stat_loop ker transfer w else Some w)"

text \<open>\<open>words\<close> are the contents where the source is a local array.\<close>

definition ef2_sif_dma_to_iop ::
  "('w, 'y) iop_machine_scheme \<Rightarrow> u32 \<Rightarrow> u32 list \<Rightarrow> u32 \<Rightarrow> u32 \<Rightarrow> 'w sif \<Rightarrow> (s32 \<times> 'w sif) option" where
  "ef2_sif_dma_to_iop ker source words dest n st =
    (let w = ef2_cache_writeback_invalidate_range ker source n (sif_world st);
         (transfer, w) = ef2_kernel_sif_set_dma ker
           [\<lparr>tr_src = source, tr_dest = dest, tr_size = n, tr_attr = 0, tr_words = words\<rparr>] w
     in if transfer \<le> 0 then Some (-1, st\<lparr>sif_world := w\<rparr>)
        else map_option (\<lambda>w. (0, st\<lparr>sif_world := w\<rparr>)) (dma_stat_loop ker transfer w))"

section \<open>The window\<close>

text \<open>Little-endian words in an array of bytes.\<close>

definition word_at :: "u8 list \<Rightarrow> nat \<Rightarrow> u32" where
  "word_at bs i = ucast (bs ! i) OR push_bit 8 (ucast (bs ! (i + 1))) OR push_bit 16 (ucast (bs ! (i + 2)))
     OR push_bit 24 (ucast (bs ! (i + 3)))"

definition word_bytes :: "u32 \<Rightarrow> u8 list" where
  "word_bytes v = [ucast v, ucast (drop_bit 8 v), ucast (drop_bit 16 v), ucast (drop_bit 24 v)]"

definition words_of :: "u8 list \<Rightarrow> u32 list" where
  "words_of bs = map (\<lambda>i. word_at bs (4 * i)) [0..<length bs div 4]"

fun bytes_match_loop :: "u8 list \<Rightarrow> u8 list \<Rightarrow> nat \<Rightarrow> nat \<Rightarrow> bool" where
  "bytes_match_loop left right i 0 = True"
| "bytes_match_loop left right i (Suc n) = (if left ! i \<noteq> right ! i then False else bytes_match_loop left right (i + 1) n)"

definition ef2_bytes_match :: "u8 list \<Rightarrow> u8 list \<Rightarrow> nat \<Rightarrow> bool" where
  "ef2_bytes_match left right count = bytes_match_loop left right 0 count"

definition ef2_iop_window_enter :: "('w, 'y) ee_kernel_scheme \<Rightarrow> 'w \<Rightarrow> 'w" where
  "ef2_iop_window_enter ker w =
    (let (status, w) = read_status ker (di ker w) in write_status ker (status AND NOT 0x18) w)"

definition ef2_iop_window_exit :: "('w, 'y) ee_kernel_scheme \<Rightarrow> 'w \<Rightarrow> 'w" where
  "ef2_iop_window_exit ker w =
    (let (status, w) = read_status ker w in ei ker (write_status ker (status OR 0x10) w))"

fun window_bytes :: "('w, 'y) ee_kernel_scheme \<Rightarrow> u32 \<Rightarrow> nat \<Rightarrow> 'w \<Rightarrow> u8 list \<times> 'w" where
  "window_bytes ker address 0 w = ([], w)"
| "window_bytes ker address (Suc n) w =
    (let (b, w) = rd8 ker (EF2_IOP_WINDOW_BASE + address) w; (bs, w) = window_bytes ker (address + 1) n w in (b # bs, w))"

definition ef2_iop_read :: "('w, 'y) ee_kernel_scheme \<Rightarrow> u32 \<Rightarrow> nat \<Rightarrow> ('w sif, s32 \<times> u8 list) state" where
  "ef2_iop_read ker address n =
    (if n = 0 then ret (-1, [])
     else do {
       do_iop (ef2_iop_window_enter ker);
       bs \<leftarrow> on_iop (window_bytes ker address n);
       do_iop (ef2_iop_window_exit ker);
       ret (0, bs) })"

text \<open>The version text of the ROM: 14 characters, to which the C code adds the terminator; \<open>romver\<close> is
  whether the destination is non-null.\<close>

definition ef2_iop_get_romver :: "('w, 'y) iop_machine_scheme \<Rightarrow> bool \<Rightarrow> u32 \<Rightarrow> ('w sif, s32 \<times> u8 list) state" where
  "ef2_iop_get_romver ker romver capacity =
    (if \<not> romver \<or> capacity < 15 then ret (-1, [])
     else do {
       result \<leftarrow> ef2_sif_init ker;
       if result < 0 then ret (-2, [])
       else do {
         address \<leftarrow> ef2_iop_alloc ker 256;
         if address = 0 then ret (-3, [])
         else do {
           do_iop (ef2_zero ker (heap_load_arg_at ker) 256);
           do_iop (st_word ker (heap_load_arg_at ker) address);
           do_iop (ef2_copy_string ker (heap_load_arg_at ker + 4) (ascii ''rom:ROMVER'') EF2_LF_PATH_MAX);
           result \<leftarrow> ef2_sif_call ker (heap_client_at ker) 3 (heap_load_arg_at ker) 256 (heap_load_arg_at ker) 4;
           if result < 0 then do {
             freed \<leftarrow> ef2_iop_free ker address;
             ret (-4, []) }
           else do {
             result \<leftarrow> reads (\<lambda>st. sint (ld_word ker (heap_load_arg_at ker) (sif_world st)));
             if result < 0 then do {
               freed \<leftarrow> ef2_iop_free ker address;
               ret (-5 + result, []) }
             else do {
               (result, bs) \<leftarrow> ef2_iop_read ker address 14;
               freed \<leftarrow> ef2_iop_free ker address;
               ret (if result < 0 then (-6, []) else (0, bs)) } } } } })"

section \<open>Modules of the IOP\<close>

text \<open>The fields of a module entry of 48 bytes that the code uses.\<close>

definition mi_next :: "u8 list \<Rightarrow> u32" where "mi_next info = word_at info 0"
definition mi_name :: "u8 list \<Rightarrow> u32" where "mi_name info = word_at info 4"
definition mi_text_start :: "u8 list \<Rightarrow> u32" where "mi_text_start info = word_at info 24"
definition mi_text_size :: "u8 list \<Rightarrow> u32" where "mi_text_size info = word_at info 28"

fun find_module_loop :: "('w, 'y) ee_kernel_scheme \<Rightarrow> u8 list \<Rightarrow> nat \<Rightarrow> u32 \<Rightarrow> nat \<Rightarrow> ('w sif, s32 \<times> u8 list) state" where
  "find_module_loop ker name name_length address 0 = ret (-3, [])"
| "find_module_loop ker name name_length address (Suc passes) = do {
     (result, info) \<leftarrow> ef2_iop_read ker address 48;
     if result < 0 then ret (-1, [])
     else do {
       (result, module_name) \<leftarrow> (if mi_name info \<noteq> 0 then ef2_iop_read ker (mi_name info) 64 else ret (0, []));
       if result < 0 then ret (-2, [])
       else if mi_name info \<noteq> 0 \<and> name_length < 64 \<and> ef2_bytes_match module_name name name_length \<and> module_name ! name_length = 0
       then ret (0, info)
       else if mi_next info = 0 then ret (-3, [])
       else find_module_loop ker name name_length (mi_next info) passes } }"

definition ef2_iop_find_module :: "('w, 'y) ee_kernel_scheme \<Rightarrow> u8 list \<Rightarrow> nat \<Rightarrow> ('w sif, s32 \<times> u8 list) state" where
  "ef2_iop_find_module ker name name_length = find_module_loop ker name name_length 0x800 128"

text \<open>The export table of the loader in the last bytes of its text: the address of its fourth function.\<close>

function scan_exports :: "u8 list \<Rightarrow> nat \<Rightarrow> u32" where
  "scan_exports scan i =
    (if i + 88 \<le> 512 then
       if word_at scan i = 0x830 \<and> ef2_bytes_match (drop (i + 12) scan) (ascii ''loadcore'') 8 then word_at scan (i + 20 + 4 * 3)
       else scan_exports scan (i + 4)
     else 0)"
  by pat_completeness auto
termination
  by (relation "measure (\<lambda>(scan, i). 512 - i)") auto

declare scan_exports.simps [simp del]

text \<open>The address that a pair of instructions \<open>lui\<close>, \<open>addiu\<close> makes.\<close>

definition lui_addiu :: "u32 \<Rightarrow> u32 \<Rightarrow> u32" where
  "lui_addiu high low = push_bit 16 (high AND 0xFFFF) + scast (ucast (low AND 0xFFFF) :: u16)"

fun modload_loop :: "('w, 'y) ee_kernel_scheme \<Rightarrow> u32 \<Rightarrow> nat \<Rightarrow> ('w sif, s32 \<times> u32 \<times> u32) state" where
  "modload_loop ker current 0 = ret (-12, 0, 0)"
| "modload_loop ker current (Suc passes) =
    (if current = 0 then ret (-12, 0, 0)
     else do {
       (result, library) \<leftarrow> ef2_iop_read ker current 100;
       if result < 0 then ret (-10, 0, 0)
       else if ef2_bytes_match (drop 12 library) (ascii ''modload'') 7
       then ret (if word_at library (20 + 4 * 8) = 0 \<or> word_at library (20 + 4 * 10) = 0 then (-11, 0, 0)
                 else (0, word_at library (20 + 4 * 8), word_at library (20 + 4 * 10)))
       else modload_loop ker (word_at library 0) passes })"

text \<open>The result with \<open>start_module\<close> and \<open>load_module_buffer\<close>.\<close>

definition ef2_iop_find_modload_exports :: "('w, 'y) ee_kernel_scheme \<Rightarrow> ('w sif, s32 \<times> u32 \<times> u32) state" where
  "ef2_iop_find_modload_exports ker = do {
     (result, list_head) \<leftarrow> ef2_iop_read ker 0x800 48;
     if result < 0 then ret (-1, 0, 0)
     else if mi_next list_head = 0 then ret (-2, 0, 0)
     else do {
       (result, loadcore) \<leftarrow> ef2_iop_read ker (mi_next list_head) 48;
       if result < 0 then ret (-3, 0, 0)
       else do {
         let loadcore_end = mi_text_start loadcore + mi_text_size loadcore;
         if loadcore_end < 512 then ret (-4, 0, 0)
         else do {
           (result, scan) \<leftarrow> ef2_iop_read ker (loadcore_end - 512) 512;
           if result < 0 then ret (-5, 0, 0)
           else do {
             let get_internal = scan_exports scan 0;
             if get_internal = 0 then ret (-6, 0, 0)
             else do {
               (result, code) \<leftarrow> ef2_iop_read ker get_internal 8;
               if result < 0 then ret (-7, 0, 0)
               else if word_at code 0 AND 0xFFFF0000 \<noteq> 0x3C020000 \<or> word_at code 4 AND 0xFFFF0000 \<noteq> 0x24420000
               then ret (-8, 0, 0)
               else do {
                 (result, export_list) \<leftarrow> ef2_iop_read ker (lui_addiu (word_at code 0) (word_at code 4)) 8;
                 if result < 0 then ret (-9, 0, 0)
                 else modload_loop ker (word_at export_list 0) 128 } } } } } } }"

text \<open>A word is written to the IOP with the block of 64 bytes around it.  An address that is not a multiple
  of four traps on the hardware.\<close>

definition ef2_iop_write_word_dma :: "('w, 'y) iop_machine_scheme \<Rightarrow> u32 \<Rightarrow> u32 \<Rightarrow> 'w sif \<Rightarrow> (s32 \<times> 'w sif) option" where
  "ef2_iop_write_word_dma ker address v st =
    (let aligned = address AND NOT 63; offset = address AND 63
     in if offset > 60 then Some (-1, st)
        else case run_state (ef2_iop_read ker aligned 64) st of ((result, block), st) \<Rightarrow>
          if result < 0 then Some (-2, st)
          else
            let block = take (unat offset) block @ word_bytes v @ drop (unat offset + 4) block
            in ef2_sif_dma_to_iop ker (local_block_at ker) (words_of block) aligned 64 st)"

definition patch_template :: "u32 list" where
  "patch_template = [
     0x27BDFFD8, 0xAFB00018, 0xAFBF0020, 0x00808021, 0x8C840000, 0x0C000000, 0xAFB1001C, 0x3C110000,
     0x04400008, 0x36310000, 0x00402021, 0x26250008, 0x8E060004, 0x26070104, 0x26280004, 0x0C000000,
     0xAFA80010, 0xAE220000, 0x02201021, 0x8FBF0020, 0x8FB1001C, 0x8FB00018, 0x03E00008, 0x27BD0028,
     0x00000000, 0x00000000, 0x7962424C, 0x00004545, 0x00000000, 0x00000000, 0x00000000, 0x00000000]"

text \<open>The patch with the addresses filled in: two calls, and the two halves of the address of the result.\<close>

definition module_patch :: "u32 \<Rightarrow> u32 \<Rightarrow> u32 \<Rightarrow> u32 list" where
  "module_patch start_module load_module_buffer result_address =
    patch_template
      [5 := 0x0C000000 OR (drop_bit 2 load_module_buffer AND 0x03FFFFFF),
       7 := 0x3C110000 OR (drop_bit 16 result_address AND 0xFFFF),
       9 := 0x36310000 OR (result_address AND 0xFFFF),
       15 := 0x0C000000 OR (drop_bit 2 start_module AND 0x03FFFFFF)]"

definition dispatch_known :: "u32 list \<Rightarrow> bool" where
  "dispatch_known d \<longleftrightarrow> d ! 0 = 0x27BDFFE8 \<and> d ! 1 = 0x2C820006 \<and> d ! 2 = 0x14400003 \<and> d ! 3 = 0xAFBF0010 \<and>
     d ! 5 = 0x00001021 \<and> d ! 6 = 0x00041080"

text \<open>The part after the checks: memory for the patch, its transfer, the entry in the jump table and the
  new limit of the dispatcher.\<close>

definition install_patch :: "('w, 'y) iop_machine_scheme \<Rightarrow> u32 \<Rightarrow> u32 \<Rightarrow> u32 \<Rightarrow> u32 \<Rightarrow> 'w sif \<Rightarrow> (s32 \<times> 'w sif) option" where
  "install_patch ker start_module load_module_buffer jump_table_end dispatch_address st =
    (case run_state (ef2_iop_alloc ker 128) st of (patch_address, st) \<Rightarrow>
       if patch_address = 0 then Some (-304, st)
       else do {
         (result, st) \<leftarrow> ef2_sif_dma_to_iop ker (local_block_at ker)
           (module_patch start_module load_module_buffer (patch_address + 96)) patch_address 128 st;
         if result < 0 then Some (-305, st)
         else do {
           (result, st) \<leftarrow> ef2_iop_write_word_dma ker jump_table_end patch_address st;
           if result < 0 then Some (-306, st)
           else do {
             (result, st) \<leftarrow> ef2_iop_write_word_dma ker (dispatch_address + 4) 0x2C820007 st;
             Some (if result < 0 then -307 else 0, st) } } })"

definition ef2_iop_enable_module_buffer :: "('w, 'y) iop_machine_scheme \<Rightarrow> 'w sif \<Rightarrow> (s32 \<times> 'w sif) option" where
  "ef2_iop_enable_module_buffer ker st =
    (case run_state (ef2_iop_find_modload_exports ker) st of ((result, start_module, load_module_buffer), st) \<Rightarrow>
       if result < 0 then Some (-100 + result, st)
       else case run_state (ef2_iop_find_module ker (ascii ''LoadModuleByEE'') 14) st of ((result, loadfile), st) \<Rightarrow>
         if result < 0 then Some (-200 + result, st)
         else if mi_text_size loadfile < 0x544 then Some (-301, st)
         else
           let dispatch_address = mi_text_start loadfile + 0x4C4
           in case run_state (ef2_iop_read ker dispatch_address 128) st of ((result, bs), st) \<Rightarrow>
             let dispatch = words_of bs
             in if result < 0 then Some (-302, st)
                else if dispatch ! 1 = 0x2C820007 then Some (0, st)
                else if \<not> dispatch_known dispatch then Some (-303, st)
                else install_patch ker start_module load_module_buffer
                       (lui_addiu (dispatch ! 7) (dispatch ! 9) + 0x18) dispatch_address st)"

section \<open>Loading\<close>

text \<open>The result and what \<open>module_result\<close> receives.\<close>

definition ef2_iop_load_module_ex :: "('w, 'y) iop_machine_scheme \<Rightarrow> u8 list option \<Rightarrow> ('w sif, s32 \<times> s32) state" where
  "ef2_iop_load_module_ex ker path =
    (case path of
       None \<Rightarrow> ret (-1, -1)
     | Some path \<Rightarrow> do {
         bound \<leftarrow> ef2_bind_loadfile ker;
         if bound < 0 then ret (-2, -1)
         else do {
           do_iop (ef2_zero ker (load_arg_at ker) 512);
           do_iop (ef2_copy_string ker (load_arg_at ker + 8) path EF2_LF_PATH_MAX);
           do_iop (st_word ker (load_arg_at ker) 0);
           result \<leftarrow> ef2_sif_call ker (loadfile_client_at ker) EF2_LF_MOD_LOAD (load_arg_at ker) 512 (load_arg_at ker) 8;
           if result < 0 then ret (-3, -1)
           else reads (\<lambda>st. (sint (ld_word ker (load_arg_at ker) (sif_world st)),
                             sint (ld_word ker (load_arg_at ker + 4) (sif_world st)))) } })"

definition ef2_iop_load_module :: "('w, 'y) iop_machine_scheme \<Rightarrow> u8 list option \<Rightarrow> ('w sif, s32) state" where
  "ef2_iop_load_module ker path = do { (result, started) \<leftarrow> ef2_iop_load_module_ex ker path; ret result }"

text \<open>After the transfer of the module: the request, and the check that an answer has replaced it.\<close>

definition exec_transferred :: "('w, 'y) iop_machine_scheme \<Rightarrow> u32 \<Rightarrow> ('w sif, s32 \<times> s32) state" where
  "exec_transferred ker address = do {
     do_iop (ef2_zero ker (load_buffer_arg_at ker) 512);
     do_iop (st_word ker (load_buffer_arg_at ker) address);
     do_iop (st_word ker (load_buffer_arg_at ker + 4) 0);
     result \<leftarrow> ef2_sif_call ker (loadfile_client_at ker) EF2_LF_MOD_BUF_LOAD (load_buffer_arg_at ker) 512 (load_buffer_arg_at ker) 8;
     st \<leftarrow> State_Monad.get;
     let result = (if result \<ge> 0 \<and> ld_word ker (load_buffer_arg_at ker) (sif_world st) = address then -6 else result);
     freed \<leftarrow> ef2_iop_free ker address;
     if result < 0 then ret (if result = -6 then -6 else -5, -1)
     else reads (\<lambda>st. (sint (ld_word ker (load_buffer_arg_at ker) (sif_world st)),
                       sint (ld_word ker (load_buffer_arg_at ker + 4) (sif_world st)))) }"

text \<open>\<open>module\<close> is the address of the image.\<close>

definition ef2_iop_exec_module_buffer_ex ::
  "('w, 'y) iop_machine_scheme \<Rightarrow> u32 \<Rightarrow> u32 \<Rightarrow> 'w sif \<Rightarrow> ((s32 \<times> s32) \<times> 'w sif) option" where
  "ef2_iop_exec_module_buffer_ex ker module n st =
    (if module = 0 \<or> n = 0 then Some ((-1, -1), st)
     else case run_state (ef2_bind_loadfile ker) st of (bound, st) \<Rightarrow>
       if bound < 0 then Some ((-2, -1), st)
       else case run_state (ef2_bind_heap ker) st of (bound, st) \<Rightarrow>
         if bound < 0 then Some ((-2, -1), st)
         else case run_state (ef2_iop_alloc ker ((n + 15) AND NOT 15)) st of (address, st) \<Rightarrow>
           if address = 0 then Some ((-3, -1), st)
           else do {
             (result, st) \<leftarrow> ef2_sif_dma_to_iop ker module [] address n st;
             Some (if result < 0 then ((-4, -1), snd (run_state (ef2_iop_free ker address) st))
                   else run_state (exec_transferred ker address) st) })"

definition ef2_iop_exec_module_buffer :: "('w, 'y) iop_machine_scheme \<Rightarrow> u32 \<Rightarrow> u32 \<Rightarrow> 'w sif \<Rightarrow> (s32 \<times> 'w sif) option" where
  "ef2_iop_exec_module_buffer ker module n st =
    map_option (\<lambda>((result, started), st). (result, st)) (ef2_iop_exec_module_buffer_ex ker module n st)"

end
