(* ===== verification/SifSpec.thy ===== *)
theory SifSpec
  imports SifModules
begin

text \<open>
  The invariant of the packet pool, under every behaviour of the IOP.
\<close>

section \<open>The invariant\<close>

text \<open>A packet that a client waits for is allocated and names the client: two clients never share one.\<close>

definition waits :: "'w sif \<Rightarrow> u32 \<Rightarrow> nat \<Rightarrow> bool" where
  "waits st c i \<longleftrightarrow> hdr_pkt (rpc_clients st c) = Some i"

definition pool_ok :: "'w sif \<Rightarrow> bool" where
  "pool_ok st \<longleftrightarrow> length (g_rpc_packets st) = 8 \<and> (\<forall>i < 8. length (g_rpc_packets st ! i) = 16) \<and>
     (\<forall>c i. waits st c i \<longrightarrow> i < 8 \<and> packet_busy (g_rpc_packets st ! i) \<and> g_rpc_packets st ! i ! 7 = c)"

lemma pool_okD:
  assumes "pool_ok st"
  shows "length (g_rpc_packets st) = 8" "i < 8 \<Longrightarrow> length (g_rpc_packets st ! i) = 16"
    "waits st c i \<Longrightarrow> i < 8" "waits st c i \<Longrightarrow> packet_busy (g_rpc_packets st ! i)"
    "waits st c i \<Longrightarrow> g_rpc_packets st ! i ! 7 = c"
  using assms by (auto simp: pool_ok_def)

text \<open>The invariant looks at the packets and the clients only.\<close>

lemma pool_ok_cong: "g_rpc_packets st' = g_rpc_packets st \<Longrightarrow> rpc_clients st' = rpc_clients st \<Longrightarrow> pool_ok st' = pool_ok st"
  by (simp add: pool_ok_def waits_def)

lemma waits_cong: "rpc_clients st' = rpc_clients st \<Longrightarrow> waits st' c i = waits st c i"
  by (simp add: waits_def)

lemma client_update_simps [simp]:
  "g_rpc_packets (client_update c f st) = g_rpc_packets st"
  "rpc_clients (client_update c f st) = (rpc_clients st)(c := f (rpc_clients st c))"
  by (simp_all add: client_update_def)

text \<open>Freeing the packet of a client.\<close>

lemma pool_ok_drop:
  assumes ok: "pool_ok st" and w: "waits st c i"
  shows "pool_ok (drop_packet c i st)"
proof -
  let ?p = "g_rpc_packets st ! i"
  have i: "i < 8" using pool_okD(3) [OF ok w] .
  have packets: "g_rpc_packets (drop_packet c i st) = (g_rpc_packets st)[i := ?p[6 := 0, 4 := ?p ! 4 AND NOT EF2_RPC_ALLOC]]"
    by (simp add: drop_packet_def ef2_rpc_packet_free_def Let_def)
  have clients: "rpc_clients (drop_packet c i st) = (rpc_clients st)(c := (rpc_clients st c)\<lparr>hdr_pkt := None\<rparr>)"
    by (simp add: drop_packet_def ef2_rpc_packet_free_def Let_def)
  have other: "waits (drop_packet c i st) d j \<Longrightarrow> waits st d j \<and> d \<noteq> c" for d j
    by (auto simp: waits_def clients split: if_splits)
  have "j \<noteq> i" if "waits (drop_packet c i st) d j" for d j
    using other [OF that] pool_okD(5) [OF ok w] pool_okD(5) [OF ok, of d j] by auto
  then have keep: "g_rpc_packets (drop_packet c i st) ! j = g_rpc_packets st ! j" if "waits (drop_packet c i st) d j" for d j
    using that by (metis packets nth_list_update_neq)
  show ?thesis
    unfolding pool_ok_def
  proof (intro conjI allI impI)
    show "length (g_rpc_packets (drop_packet c i st)) = 8" using pool_okD(1) [OF ok] by (simp add: packets)
    show "length (g_rpc_packets (drop_packet c i st) ! j) = 16" if "j < 8" for j
      using pool_okD(1,2) [OF ok] i that by (cases "j = i") (simp_all add: packets)
  next
    fix d j
    assume wd: "waits (drop_packet c i st) d j"
    then have "waits st d j" using other by blast
    then show "j < 8" "packet_busy (g_rpc_packets (drop_packet c i st) ! j)" "g_rpc_packets (drop_packet c i st) ! j ! 7 = d"
      using pool_okD(3-5) [OF ok] keep [OF wd] by simp_all
  qed
qed

lemma rpc_end_drop:
  "ef2_cmd_rpc_end words st = (let client = words ! 7;
     st = (if client \<noteq> 0 then
         let st = (if words ! 8 = EF2_SIF_CMD_RPC_BIND
                   then client_update client (\<lambda>c. c\<lparr>client_server := words ! 9, client_buf := words ! 10, client_cbuf := words ! 11\<rparr>) st
                   else st)
         in case hdr_pkt (rpc_clients st client) of Some i \<Rightarrow> drop_packet client i st | None \<Rightarrow> st
       else st)
     in st\<lparr>g_rpc_wait_done := True\<rparr>)"
  unfolding ef2_cmd_rpc_end_def drop_packet_def by (rule refl)

lemma pool_ok_client:
  assumes "pool_ok st" "hdr_pkt (f (rpc_clients st c)) = hdr_pkt (rpc_clients st c)"
  shows "pool_ok (client_update c f st)"
  using assms by (auto simp: pool_ok_def waits_def)

lemma pool_ok_rpc_end: "pool_ok st \<Longrightarrow> pool_ok (ef2_cmd_rpc_end words st)"
proof -
  assume ok: "pool_ok st"
  define st1 where "st1 = (if words ! 8 = EF2_SIF_CMD_RPC_BIND
    then client_update (words ! 7) (\<lambda>c. c\<lparr>client_server := words ! 9, client_buf := words ! 10, client_cbuf := words ! 11\<rparr>) st
    else st)"
  have "pool_ok st1" using ok by (simp add: st1_def pool_ok_client)
  then have "pool_ok (case hdr_pkt (rpc_clients st1 (words ! 7)) of Some i \<Rightarrow> drop_packet (words ! 7) i st1 | None \<Rightarrow> st1)"
    by (auto simp: waits_def intro: pool_ok_drop split: option.split)
  then show ?thesis using ok
    by (simp add: rpc_end_drop Let_def st1_def [symmetric] pool_ok_cong [of "_\<lparr>g_rpc_wait_done := True\<rparr>"])
qed

lemma pool_ok_handler: "pool_ok st \<Longrightarrow> pool_ok (run_handler h words st)"
proof (cases h)
  case Cmd_rpc_end
  then show "pool_ok st \<Longrightarrow> ?thesis" by (simp add: pool_ok_rpc_end)
qed (simp_all add: ef2_cmd_change_addr_def ef2_cmd_set_sreg_def pool_ok_def waits_def)

lemma pool_ok_irq: "pool_ok st \<Longrightarrow> pool_ok (ef2_sif_irq_handler ker st)"
  by (auto simp: ef2_sif_irq_handler_def Let_def pool_ok_cong [of "_\<lparr>g_cmd_packet_buffer := _, sif_world := _\<rparr>"]
      intro!: pool_ok_handler split: option.split)

lemma pool_ok_receive: "pool_ok st \<Longrightarrow> pool_ok (receive_packet ker p st)"
  by (auto simp: receive_packet_def pool_ok_cong [of "_\<lparr>g_cmd_packet_buffer := _\<rparr>"] intro!: pool_ok_irq)

lemma pool_ok_receive_all: "pool_ok st \<Longrightarrow> pool_ok (fold (receive_packet ker) ps st)"
  by (induction ps arbitrary: st) (simp_all add: pool_ok_receive)


section \<open>Calls\<close>

lemma keeps_on_iop: "keeps pool_ok (on_iop f) (\<lambda>_. True)"
  by (rule keepsI) (auto simp: pool_ok_cong [of "_\<lparr>sif_world := _\<rparr>"])

lemma keeps_do_iop: "keeps pool_ok (do_iop f) (\<lambda>_. True)"
  by (rule keepsI) (auto simp: pool_ok_cong [of "_\<lparr>sif_world := _\<rparr>"])

lemma keeps_sif_get: "keeps pool_ok State_Monad.get (\<lambda>_. True)"
  by (rule keepsI) auto

lemma keeps_reads_any: "keeps pool_ok (reads f) (\<lambda>_. True)"
  by (rule keepsI) auto

lemmas keeps_steps = keeps_bind [OF keeps_on_iop] keeps_bind [OF keeps_do_iop] keeps_bind [OF keeps_sif_get]
  keeps_bind [OF keeps_reads_any]

lemma keeps_interrupts: "keeps pool_ok (sif_interrupts ker) (\<lambda>_. True)"
  unfolding sif_interrupts_def by (intro keeps_steps keeps_modify pool_ok_receive_all)

lemma keeps_wait: "keeps pool_ok (wait_flag_loop ker flag outer) (\<lambda>r. r \<in> {0, -1})"
proof (induction "unat (SIF_WAIT_LIMIT - outer)" arbitrary: outer rule: less_induct)
  case less
  have rest: "keeps pool_ok (wait_flag_loop ker flag (outer + 1)) (\<lambda>r. r \<in> {0, -1})" if "outer < SIF_WAIT_LIMIT"
    using less u32_countdown_less [OF that] by blast
  show ?case
    by (subst wait_flag_loop.simps)
      (intro keeps_if keeps_return keeps_steps keeps_bind [OF keeps_interrupts] rest; simp)
qed

text \<open>A computation that leaves packets and clients as they are.\<close>

definition quiet :: "('w sif, 'a) state \<Rightarrow> bool" where
  "quiet m \<longleftrightarrow> (\<forall>st. g_rpc_packets (snd (run_state m st)) = g_rpc_packets st \<and>
     rpc_clients (snd (run_state m st)) = rpc_clients st)"

lemma quiet_return: "quiet (ret a)" and quiet_on: "quiet (on_iop f)" and quiet_do: "quiet (do_iop g)"
  and quiet_reads: "quiet (reads h)"
  by (simp_all add: quiet_def)

lemma quiet_bind: "quiet m \<Longrightarrow> (\<And>a. quiet (f a)) \<Longrightarrow> quiet (State_Monad.bind m f)"
  by (simp add: quiet_def split: prod.split) (metis fst_conv snd_conv)

lemma quiet_if: "(b \<Longrightarrow> quiet m) \<Longrightarrow> (\<not> b \<Longrightarrow> quiet m') \<Longrightarrow> quiet (if b then m else m')"
  by simp

lemma quiet_let: "(\<And>x. quiet (f x)) \<Longrightarrow> quiet (let x = e in f x)"
  by simp

lemma quiet_prod: "(\<And>x y. quiet (f x y)) \<Longrightarrow> quiet (case p of (x, y) \<Rightarrow> f x y)"
  by (cases p) simp

lemmas quiet_rules = quiet_return quiet_on quiet_do quiet_reads quiet_bind quiet_if quiet_let quiet_prod

lemma quiet_send: "quiet (ef2_sif_send_cmd ker cid packet words n src dest extra)"
  unfolding ef2_sif_send_cmd_def by (intro quiet_rules)

lemma send_words:
  "snd (fst (run_state (ef2_sif_send_cmd ker cid packet words n src dest extra) st)) = words \<or>
   (\<exists>a b c. snd (fst (run_state (ef2_sif_send_cmd ker cid packet words n src dest extra) st)) = words[0 := a, 1 := b, 2 := c])"
  by (auto simp: ef2_sif_send_cmd_def Let_def split: prod.split)

lemma quiet_keeps: "quiet m \<Longrightarrow> keeps pool_ok m (\<lambda>_. True)"
proof (rule keepsI)
  fix s a s'
  assume q: "quiet m" and ok: "pool_ok s" and run: "run_state m s = (a, s')"
  have "g_rpc_packets s' = g_rpc_packets s" "rpc_clients s' = rpc_clients s"
    using q run unfolding quiet_def by (metis snd_conv)+
  then show "pool_ok s' \<and> True" using pool_ok_cong ok by blast
qed

text \<open>The states between the allocation of a packet, its attachment to a client and the wait.\<close>

definition pool_taken :: "nat \<Rightarrow> 'w sif \<Rightarrow> bool" where
  "pool_taken i st \<longleftrightarrow> pool_ok st \<and> i < 8 \<and> packet_busy (g_rpc_packets st ! i) \<and> (\<forall>c. \<not> waits st c i)"

definition pool_held :: "u32 \<Rightarrow> nat \<Rightarrow> 'w sif \<Rightarrow> bool" where
  "pool_held c i st \<longleftrightarrow> pool_ok st \<and> waits st c i"

lemma first_free_Some: "first_free ps = Some i \<Longrightarrow> i < 8 \<and> \<not> packet_busy (ps ! i)"
  by (auto simp: first_free_def find_Some_iff)

lemma fresh_packet_busy: "packet_busy (fresh_packet ker i rid)" "length (fresh_packet ker i rid) = 16"
proof -
  have "bit (push_bit 16 (word_of_nat i) OR 0x04 OR EF2_RPC_ALLOC :: u32) 0"
    by (simp add: EF2_RPC_ALLOC_def bit_simps)
  then have "(push_bit 16 (word_of_nat i) OR 0x04 OR EF2_RPC_ALLOC) AND EF2_RPC_ALLOC \<noteq> (0 :: u32)"
    by (simp add: EF2_RPC_ALLOC_def and_one_eq bit_0 odd_iff_mod_2_eq_one)
  then show "packet_busy (fresh_packet ker i rid)" by (simp add: packet_busy_def fresh_packet_def)
qed (simp add: fresh_packet_def)

lemma triple_alloc:
  "triple pool_ok (ef2_rpc_alloc_packet ker) (\<lambda>found st. case found of None \<Rightarrow> pool_ok st | Some i \<Rightarrow> pool_taken i st)"
proof (rule tripleI)
  fix s found s'
  assume ok: "pool_ok s" and run: "run_state (ef2_rpc_alloc_packet ker) s = (found, s')"
  obtain s1 where s1: "run_state (sif_interrupts ker) s = ((), s1)"
    by (metis (full_types) old.unit.exhaust surj_pair)
  have ok1: "pool_ok s1" using keepsD [OF keeps_interrupts ok s1] by blast
  show "case found of None \<Rightarrow> pool_ok s' | Some i \<Rightarrow> pool_taken i s'"
  proof (cases "first_free (g_rpc_packets s1)")
    case None
    then have "found = None" "g_rpc_packets s' = g_rpc_packets s1" "rpc_clients s' = rpc_clients s1"
      using run by (auto simp: ef2_rpc_alloc_packet_def s1)
    then show ?thesis using ok1 pool_ok_cong by auto
  next
    case (Some i)
    note free = first_free_Some [OF this]
    obtain rid where s': "found = Some i" "g_rpc_packets s' = (g_rpc_packets s1)[i := fresh_packet ker i rid]"
        "rpc_clients s' = rpc_clients s1"
      using run Some by (auto simp: ef2_rpc_alloc_packet_def s1 Let_def)
    have no: "\<not> waits s1 c i" for c using pool_okD(4) [OF ok1] free by blast
    then show ?thesis
      using ok1 free s' by (auto simp: pool_taken_def pool_ok_def waits_def nth_list_update fresh_packet_busy)
  qed
qed


lemma pool_attach:
  assumes taken: "pool_taken i st" and f: "\<And>cl. hdr_pkt (f cl) = Some i"
    and g: "\<And>p. length p = 16 \<Longrightarrow> length (g p) = 16 \<and> g p ! 7 = c \<and> g p ! 4 = p ! 4"
  shows "pool_held c i (attach_packet c i f g st)"
proof -
  have ok: "pool_ok st" and i: "i < 8" "packet_busy (g_rpc_packets st ! i)" and no: "\<not> waits st d i" for d
    using taken by (auto simp: pool_taken_def)
  let ?st = "attach_packet c i f g st"
  have packets: "g_rpc_packets ?st = (g_rpc_packets st)[i := g (g_rpc_packets st ! i)]"
    and clients: "rpc_clients ?st = (rpc_clients st)(c := f (rpc_clients st c))"
    by (simp_all add: attach_packet_def)
  have gi: "length (g (g_rpc_packets st ! i)) = 16" "g (g_rpc_packets st ! i) ! 7 = c" "packet_busy (g (g_rpc_packets st ! i))"
    using g [OF pool_okD(2) [OF ok i(1)]] i(2) by (auto simp: packet_busy_def)
  have w: "waits ?st d j \<longleftrightarrow> (if d = c then j = i else waits st d j)" for d j
    using f by (auto simp: waits_def clients)
  have "j \<noteq> i" if "waits st d j" for d j using that no by blast
  then show ?thesis
    using pool_okD [OF ok] i gi
    by (auto simp: pool_held_def pool_ok_def w packets nth_list_update split: if_splits)
qed

lemma triple_held_quiet: "quiet m \<Longrightarrow> triple (pool_held c i) m (\<lambda>_. pool_held c i)"
  by (auto simp: triple_def quiet_def pool_held_def pool_ok_def waits_def split: prod.split) (metis fst_conv snd_conv)+

lemma triple_held_send: "triple (pool_held c i) (send_pool_packet ker cid i src dest extra) (\<lambda>_. pool_held c i)"
proof (rule tripleI)
  fix s a s'
  assume held: "pool_held c i s" and run: "run_state (send_pool_packet ker cid i src dest extra) s = (a, s')"
  let ?p = "g_rpc_packets s ! i"
  let ?m = "ef2_sif_send_cmd ker cid (packet_address ker i) ?p EF2_RPC_PACKET_SIZE src dest extra"
  obtain sent words s1 where m: "run_state ?m s = ((sent, words), s1)" by (metis surj_pair)
  have q: "g_rpc_packets s1 = g_rpc_packets s" "rpc_clients s1 = rpc_clients s"
    using quiet_send m unfolding quiet_def by (metis snd_conv)+
  have s': "g_rpc_packets s' = (g_rpc_packets s)[i := words]" "rpc_clients s' = rpc_clients s"
    using run q by (auto simp: send_pool_packet_def m)
  have ok: "pool_ok s" and w: "waits s c i" using held by (auto simp: pool_held_def)
  have i: "i < 8" "length ?p = 16" using pool_okD [OF ok] w by auto
  have "words = ?p \<or> (\<exists>a b c. words = ?p[0 := a, 1 := b, 2 := c])" using send_words [of ker cid "packet_address ker i" ?p] m by (metis fst_conv snd_conv)
  then have words: "length words = 16" "words ! 4 = ?p ! 4" "words ! 7 = ?p ! 7" using i by auto
  then have eq: "packet_busy (g_rpc_packets s' ! j) = packet_busy (g_rpc_packets s ! j)"
      "g_rpc_packets s' ! j ! 7 = g_rpc_packets s ! j ! 7" "length (g_rpc_packets s' ! j) = length (g_rpc_packets s ! j)" for j
    using i pool_okD(1) [OF ok] by (auto simp: s'(1) nth_list_update packet_busy_def)
  have len: "length (g_rpc_packets s') = length (g_rpc_packets s)" by (simp add: s'(1))
  show "pool_held c i s'"
    using held by (simp add: pool_held_def pool_ok_def waits_cong [OF s'(2)] eq len)
qed

lemma triple_held_drop: "triple (pool_held c i) (modify (drop_packet c i)) (\<lambda>_. pool_ok)"
  by (rule triple_modify) (auto simp: pool_held_def pool_ok_drop)

lemma triple_ok: "keeps pool_ok m R \<Longrightarrow> triple pool_ok m (\<lambda>_. pool_ok)"
  by (auto simp: keeps_def elim: triple_weaken)

lemma triple_held_ok: "triple pool_ok m (\<lambda>_. pool_ok) \<Longrightarrow> triple (pool_held c i) m (\<lambda>_. pool_ok)"
  by (auto simp: triple_def pool_held_def)

text \<open>The rest of a call, after its packet is attached.\<close>

lemma triple_sent:
  assumes "triple pool_ok m (\<lambda>_. pool_ok)"
  shows "triple (pool_held c i) (do {
      sent \<leftarrow> send_pool_packet ker cid i src dest extra;
      if sent = 0 then do { modify (drop_packet c i); ret r } else m }) (\<lambda>_. pool_ok)"
  by (rule triple_bind [OF triple_held_send], rule triple_if,
      rule triple_bind [OF triple_held_drop], rule triple_return, assumption, rule triple_held_ok, rule assms)

lemma quiet_flag: "quiet (modify (\<lambda>st. st\<lparr>g_rpc_wait_done := b\<rparr>))"
  by (simp add: quiet_def)

lemma triple_taken_get: "(\<And>st. triple (pool_taken i) (f st) Q) \<Longrightarrow> triple (pool_taken i) (State_Monad.bind State_Monad.get f) Q"
  by (auto simp: triple_def)

text \<open>What follows the allocation, for a packet and without one.\<close>

lemma triple_with_packet:
  assumes "triple pool_ok m (\<lambda>_. pool_ok)" "\<And>i. triple (pool_taken i) (f i) (\<lambda>_. pool_ok)"
  shows "triple pool_ok (State_Monad.bind (ef2_rpc_alloc_packet ker) (\<lambda>found. case found of None \<Rightarrow> m | Some i \<Rightarrow> f i)) (\<lambda>_. pool_ok)"
proof (rule triple_bind [OF triple_alloc])
  fix found
  show "triple (\<lambda>st. case found of None \<Rightarrow> pool_ok st | Some i \<Rightarrow> pool_taken i st)
      (case found of None \<Rightarrow> m | Some i \<Rightarrow> f i) (\<lambda>_. pool_ok)"
    using assms by (cases found) simp_all
qed

lemma triple_attach:
  assumes "\<And>cl. hdr_pkt (f cl) = Some i" "\<And>p. length p = 16 \<Longrightarrow> length (g p) = 16 \<and> g p ! 7 = c \<and> g p ! 4 = p ! 4"
    and "triple (pool_held c i) m Q"
  shows "triple (pool_taken i) (State_Monad.bind (modify (attach_packet c i f g)) (\<lambda>_. m)) Q"
proof (rule triple_bind)
  show "triple (pool_taken i) (modify (attach_packet c i f g)) (\<lambda>_. pool_held c i)"
    by (rule triple_modify) (rule pool_attach [OF _ assms(1,2)])
qed (rule assms(3))

lemma triple_quiet_then: "quiet m \<Longrightarrow> triple (pool_held c i) n Q \<Longrightarrow> triple (pool_held c i) (State_Monad.bind m (\<lambda>_. n)) Q"
  by (rule triple_bind [OF triple_held_quiet])

lemma triple_wait: "(\<And>r. triple pool_ok (f r) (\<lambda>_. pool_ok)) \<Longrightarrow> triple pool_ok (State_Monad.bind (ef2_wait_flag ker flag) f) (\<lambda>_. pool_ok)"
  unfolding ef2_wait_flag_def by (rule triple_bind [OF triple_ok [OF keeps_wait]])

lemma triple_ret_ok: "triple pool_ok (ret a) (\<lambda>_. pool_ok)"
  by (rule triple_return)

lemma triple_get_ok: "(\<And>st. triple pool_ok (f st) Q) \<Longrightarrow> triple pool_ok (State_Monad.bind State_Monad.get f) Q"
  by (auto simp: triple_def)

lemma triple_keeps: "keeps I m (\<lambda>_. True) \<longleftrightarrow> triple I m (\<lambda>_. I)"
  by (simp add: keeps_def)

lemma keeps_call: "keeps pool_ok (ef2_sif_call ker client fn sb ss rb rs) (\<lambda>_. True)"
  unfolding ef2_sif_call_def triple_keeps
  by (intro triple_get_ok triple_if triple_ret_ok triple_with_packet triple_taken_get triple_attach triple_quiet_then
      quiet_if quiet_return quiet_do quiet_flag triple_sent triple_wait) auto

lemma keeps_bind_loop: "keeps pool_ok (bind_loop ker client sid n) (\<lambda>_. True)"
proof (induction n)
  case (Suc n)
  then show ?case
    unfolding bind_loop.simps triple_keeps
    by (intro triple_get_ok triple_if triple_ret_ok triple_with_packet triple_taken_get triple_attach triple_quiet_then
        quiet_if quiet_return quiet_do quiet_flag triple_sent triple_wait) auto
qed (simp add: triple_keeps triple_ret_ok)

lemma keeps_bind_server: "keeps pool_ok (ef2_sif_bind ker client sid) (\<lambda>_. True)"
  unfolding ef2_sif_bind_def by (intro keeps_if keeps_return keeps_bind_loop) auto


section \<open>Sessions\<close>

text \<open>The operations of an application; \<open>Op_interrupt\<close> is a moment at which packets arrive.\<close>

datatype sif_op =
    Op_interrupt
  | Op_bind u32 u32
  | Op_call u32 u32 u32 u32 u32 u32
  | Op_alloc u32
  | Op_free u32
  | Op_load "u8 list option"

fun sif_op_run :: "('w, 'y) iop_machine_scheme \<Rightarrow> sif_op \<Rightarrow> 'w sif \<Rightarrow> 'w sif" where
  "sif_op_run ker Op_interrupt st = snd (run_state (sif_interrupts ker) st)"
| "sif_op_run ker (Op_bind client sid) st = snd (run_state (ef2_sif_bind ker client sid) st)"
| "sif_op_run ker (Op_call client fn sb ss rb rs) st = snd (run_state (ef2_sif_call ker client fn sb ss rb rs) st)"
| "sif_op_run ker (Op_alloc n) st = snd (run_state (ef2_iop_alloc ker n) st)"
| "sif_op_run ker (Op_free ptr) st = snd (run_state (ef2_iop_free ker ptr) st)"
| "sif_op_run ker (Op_load path) st = snd (run_state (ef2_iop_load_module_ex ker path) st)"

definition zero_sif :: "'w \<Rightarrow> 'w sif" where
  "zero_sif w = \<lparr>sif_world = w, g_cmd_packet_buffer = replicate 32 0, cmd_pktbuf = 0, cmd_iopbuf = 0,
     g_sys_handlers = replicate 32 None, sys_handler_count = 0, g_sregs = replicate 32 0, g_sif0_handler_id = -1,
     g_sif_initialized = False, g_rpc_packets = replicate 8 (replicate 16 0), g_rpc_next_id = 1, g_rpc_wait_done = False,
     rpc_clients = (\<lambda>_. zero_client), g_heap_bound = False, g_loadfile_bound = False\<rparr>"

lemma pool_ok_zero: "pool_ok (zero_sif w)"
  by (simp add: pool_ok_def waits_def zero_sif_def zero_client_def)

lemma keeps_quiet_bind: "quiet m \<Longrightarrow> (\<And>a. keeps pool_ok (f a) R) \<Longrightarrow> keeps pool_ok (State_Monad.bind m f) R"
  by (rule keeps_bind [OF quiet_keeps])

lemma pool_ok_zero_client: "pool_ok st \<Longrightarrow> pool_ok (client_update c (\<lambda>_. zero_client) st)"
  by (auto simp: pool_ok_def waits_def zero_client_def split: if_splits)

lemma keeps_zero_client: "keeps pool_ok (modify (client_update c (\<lambda>_. zero_client))) (\<lambda>_. True)"
  by (rule keeps_modify) (simp_all add: pool_ok_zero_client)

lemma keeps_flags: "keeps pool_ok (modify (\<lambda>st. st\<lparr>g_heap_bound := b\<rparr>)) (\<lambda>_. True)"
  "keeps pool_ok (modify (\<lambda>st. st\<lparr>g_loadfile_bound := b\<rparr>)) (\<lambda>_. True)"
  "keeps pool_ok (modify (\<lambda>st. st\<lparr>g_sif_initialized := b\<rparr>)) (\<lambda>_. True)"
  by (auto intro!: keeps_modify simp: pool_ok_def waits_def)

lemmas keeps_ops = keeps_rules keeps_return keeps_steps keeps_bind [OF keeps_bind_server] keeps_bind [OF keeps_call]
  keeps_bind [OF keeps_zero_client] keeps_bind [OF keeps_flags(1)] keeps_bind [OF keeps_flags(2)] keeps_reads_any

lemma keeps_bind_heap: "keeps pool_ok (ef2_bind_heap ker) (\<lambda>_. True)"
  unfolding ef2_bind_heap_def by (intro keeps_ops) auto

lemma keeps_bind_loadfile: "keeps pool_ok (ef2_bind_loadfile ker) (\<lambda>_. True)"
  unfolding ef2_bind_loadfile_def by (intro keeps_ops) auto

lemma keeps_iop_alloc: "keeps pool_ok (ef2_iop_alloc ker n) (\<lambda>_. True)"
  unfolding ef2_iop_alloc_def by (intro keeps_bind [OF keeps_bind_heap] keeps_ops) auto

lemma keeps_iop_free: "keeps pool_ok (ef2_iop_free ker ptr) (\<lambda>_. True)"
  unfolding ef2_iop_free_def by (intro keeps_bind [OF keeps_bind_heap] keeps_ops) auto

lemma keeps_load: "keeps pool_ok (ef2_iop_load_module_ex ker path) (\<lambda>_. True)"
  unfolding ef2_iop_load_module_ex_def by (intro keeps_option keeps_bind [OF keeps_bind_loadfile] keeps_ops) auto

lemma keeps_iop_read: "keeps pool_ok (ef2_iop_read ker address n) (\<lambda>_. True)"
  unfolding ef2_iop_read_def by (intro keeps_ops) auto

text \<open>An initialisation resets the packets; it keeps the invariant while no client waits.\<close>

lemma quiet_change: "quiet (send_change ker cid)"
  unfolding send_change_def by (intro quiet_rules quiet_send)

lemma quiet_init_steps:
  "quiet (modify (fresh_command_data ker))" "quiet (modify (\<lambda>st. st\<lparr>g_sif0_handler_id := h\<rparr>))"
  "quiet (modify (\<lambda>st. st\<lparr>cmd_iopbuf := a\<rparr>))" "quiet (modify (\<lambda>st. st\<lparr>g_sif_initialized := b\<rparr>))"
  by (simp_all add: quiet_def fresh_command_data_def)

lemma quiet_init_cmd: "quiet (ef2_sif_init_cmd ker)"
  unfolding ef2_sif_init_cmd_def by (intro quiet_rules quiet_change quiet_init_steps)

lemma keeps_init_rpc: "keeps pool_ok (ef2_sif_init_rpc ker) (\<lambda>_. True)"
  unfolding ef2_sif_init_rpc_def ef2_wait_flag_def
  by (intro keeps_ops keeps_quiet_bind [OF quiet_send] keeps_bind [OF keeps_wait]) auto

lemma pool_ok_reset:
  assumes "pool_ok st" "\<And>c i. \<not> waits st c i"
  shows "pool_ok (st\<lparr>g_rpc_packets := map (\<lambda>p. p[4 := 0, 6 := 0]) (g_rpc_packets st)\<rparr>)"
  using assms by (auto simp: pool_ok_def waits_def)

lemma keeps_snd: "keeps I m R \<Longrightarrow> I st \<Longrightarrow> I (snd (run_state m st))"
  by (cases "run_state m st") (auto dest: keepsD)

lemma pool_ok_init:
  assumes "pool_ok st" "\<And>c i. \<not> waits st c i"
  shows "pool_ok (snd (run_state (ef2_sif_init ker) st))"
proof -
  let ?rest = "do {
       result \<leftarrow> ef2_sif_init_cmd ker;
       if result < 0 then ret (result - 100)
       else do {
         result \<leftarrow> ef2_sif_init_rpc ker;
         if result < 0 then ret (result - 200)
         else do {
           modify (\<lambda>st. st\<lparr>g_sif_initialized := True\<rparr>);
           ret 0 } } }"
  have k: "keeps pool_ok ?rest (\<lambda>_. True)"
    by (intro keeps_quiet_bind [OF quiet_init_cmd] keeps_if keeps_return keeps_bind [OF keeps_init_rpc]
        keeps_quiet_bind [OF quiet_init_steps(4)]) auto
  let ?st = "st\<lparr>g_rpc_packets := map (\<lambda>p. p[4 := 0, 6 := 0]) (g_rpc_packets st)\<rparr>"
  have "snd (run_state (ef2_sif_init ker) st) = (if g_sif_initialized st then st else snd (run_state ?rest ?st))"
    by (simp add: ef2_sif_init_def)
  moreover have "pool_ok (snd (run_state ?rest ?st))" by (rule keeps_snd [OF k pool_ok_reset [OF assms]])
  ultimately show ?thesis using assms(1) by simp
qed

definition sif_session :: "('w, 'y) iop_machine_scheme \<Rightarrow> 'w \<Rightarrow> sif_op list \<Rightarrow> 'w sif" where
  "sif_session ker w ops = fold (sif_op_run ker) ops (snd (run_state (ef2_sif_init ker) (zero_sif w)))"

lemmas keeps_session = keeps_snd [OF keeps_interrupts] keeps_snd [OF keeps_bind_server] keeps_snd [OF keeps_call]
  keeps_snd [OF keeps_iop_alloc] keeps_snd [OF keeps_iop_free] keeps_snd [OF keeps_load]

lemma pool_ok_op: "pool_ok st \<Longrightarrow> pool_ok (sif_op_run ker op st)"
  by (cases op) (simp_all add: keeps_session)

lemma pool_ok_ops: "pool_ok st \<Longrightarrow> pool_ok (fold (sif_op_run ker) ops st)"
  by (induction ops arbitrary: st) (simp_all add: pool_ok_op)

lemma zero_sif_waits: "\<not> waits (zero_sif w) c i"
  by (simp add: waits_def zero_sif_def zero_client_def)

lemma pool_ok_session: "pool_ok (sif_session ker w ops)"
  unfolding sif_session_def by (intro pool_ok_ops pool_ok_init pool_ok_zero) (simp add: zero_sif_waits)

end
