(* ===== verification/SifProps.thy ===== *)
theory SifProps
  imports SifSpec
begin

text \<open>
  The properties of the transport to the IOP.
\<close>

text \<open>C31: After an initialisation and any operations, with every behaviour of the kernel and the IOP and
  packets that arrive at any time, a packet that a client waits for is allocated and names that client:
  two clients never share one.\<close>

theorem sif_packet_pool: "pool_ok (sif_session ker w ops)"
  by (rule pool_ok_session)

section \<open>A scripted machine\<close>

text \<open>A machine whose only behaviour is the packets that arrive: one batch at every look.\<close>

definition next_batch :: "'a list list \<Rightarrow> 'a list \<times> 'a list list" where
  "next_batch w = (case w of [] \<Rightarrow> ([], []) | ps # w \<Rightarrow> (ps, w))"

lemma next_batch_simps [simp]: "next_batch [] = ([], [])" "next_batch (ps # w) = (ps, w)"
  by (simp_all add: next_batch_def)

definition script_machine :: "u32 list list list iop_machine" where
  "script_machine = \<lparr>rd8 = (\<lambda>a w. (0, w)), rd16 = (\<lambda>a w. (0, w)), rd32 = (\<lambda>a w. (0, w)), wr8 = (\<lambda>a v w. w),
     wr16 = (\<lambda>a v w. w), wr32 = (\<lambda>a v w. w), rd64 = (\<lambda>a w. (0, w)), wr64 = (\<lambda>a v w. w), ld_word = (\<lambda>a w. 0),
     st_word = (\<lambda>a v w. w), st_qword = (\<lambda>a q w. w), ef2_cpu_count = (\<lambda>w. (0, w)), cache_line = (\<lambda>a w. w),
     ef2_gif_reset = (\<lambda>w. w), ef2_gif_send_qwords = (\<lambda>p n w. w), ef2_kernel_set_gs_crt = (\<lambda>i m f w. w),
     ee.ef2_iop_get_romver = (\<lambda>w. ((-1, []), w)), packet_at = 0x100000, clut_stage_at = 0x200000,
     ld_byte = (\<lambda>a w. 0), st_byte = (\<lambda>a v w. w), read_status = (\<lambda>w. (0, w)), write_status = (\<lambda>v w. w),
     di = (\<lambda>w. w), ei = (\<lambda>w. w), ef2_kernel_flush_cache = (\<lambda>n w. w),
     ef2_kernel_add_dmac_handler = (\<lambda>c w. (0, w)), ef2_kernel_add_intc_handler2 = (\<lambda>c h n a w. (0, w)),
     ef2_kernel_remove_intc_handler = (\<lambda>c i w. (0, w)), ef2_kernel_enable_intc = (\<lambda>c w. (0, w)),
     ef2_kernel_disable_intc = (\<lambda>c w. (0, w)), ef2_kernel_add_dmac_handler2 = (\<lambda>c h n a w. (0, w)),
     ef2_kernel_remove_dmac_handler = (\<lambda>c i w. (0, w)), ef2_kernel_enable_dmac = (\<lambda>c w. (0, w)),
     ef2_kernel_disable_dmac = (\<lambda>c w. (0, w)), ef2_kernel_sif_set_dma = (\<lambda>ts w. (1, w)),
     ef2_kernel_sif_dma_stat = (\<lambda>i w. (-1, w)), ef2_kernel_sif_set_dchain = (\<lambda>w. w), ef2_kernel_isif_set_dchain = (\<lambda>w. w),
     ef2_kernel_sif_get_reg = (\<lambda>r w. (1, w)), ef2_kernel_sif_set_reg = (\<lambda>r v w. w),
     arrivals = next_batch, stack_words = replicate 32 0, cmd_packet_at = 0x300000, cmd_data_at = 0x300100,
     rpc_packets_at = 0x300200, heap_client_at = 0x300400, loadfile_client_at = 0x300440, heap_arg_at = 0x300480,
     heap_load_arg_at = 0x300500, load_arg_at = 0x300600, load_buffer_arg_at = 0x300800, local_block_at = 0x300A00\<rparr>"

lemma script_cache [simp]: "ef2_cache_writeback_invalidate_range script_machine p n w = w"
proof -
  have "cache_lines script_machine k a w = w" for k a by (induction k arbitrary: a) (simp_all add: script_machine_def)
  then show ?thesis by (simp add: ef2_cache_writeback_invalidate_range_def Let_def)
qed

lemma script_simps [simp]:
  "arrivals script_machine = next_batch" "di script_machine w = w" "ei script_machine w = w"
  "ef2_kernel_sif_set_dma script_machine ts w = (1, w)" "ef2_kernel_isif_set_dchain script_machine w = w"
  "stack_words script_machine = replicate 32 0"
  by (simp_all add: script_machine_def)

section \<open>A failed initialisation\<close>

lemma run_optional [simp]:
  "run_state (if b then do_iop f else ret ()) st = ((), if b then st\<lparr>sif_world := f (sif_world st)\<rparr> else st)"
  by simp

lemma first_init:
  assumes "\<not> g_sif_initialized st" "g_sif0_handler_id st < 0"
    and "\<And>w. 0 \<le> fst (ef2_kernel_add_dmac_handler ker EF2_DMAC_SIF0 w)" "\<And>w. fst (ef2_kernel_enable_dmac ker EF2_DMAC_SIF0 w) < 0"
  shows "\<exists>st1. run_state (ef2_sif_init ker) st = (-102, st1) \<and>
    \<not> g_sif_initialized st1 \<and> 0 \<le> g_sif0_handler_id st1 \<and> cmd_iopbuf st1 = 0"
  using assms by (simp add: ef2_sif_init_def ef2_sif_init_cmd_def fresh_command_data_def not_less [symmetric])

text \<open>When enabling the DMA channel fails, the initialisation reports -102; tried again on a machine
  whose RPC service had been started before, it reports success although there is no command buffer, and
  from then on no packet can be sent.\<close>

theorem sif_init_retry:
  assumes "\<not> g_sif_initialized st" "g_sif0_handler_id st < 0"
    and "\<And>w. 0 \<le> fst (ef2_kernel_add_dmac_handler ker EF2_DMAC_SIF0 w)" "\<And>w. fst (ef2_kernel_enable_dmac ker EF2_DMAC_SIF0 w) < 0"
    and "\<And>w. fst (ef2_kernel_sif_get_reg ker EF2_SIF_SYSREG_RPCINIT w) \<noteq> 0"
  shows "(let (first, st1) = run_state (ef2_sif_init ker) st; (second, st2) = run_state (ef2_sif_init ker) st1;
      (sent, st3) = run_state (ef2_sif_send_cmd ker cid packet words n src dest extra) st2
    in first = -102 \<and> second = 0 \<and> g_sif_initialized st2 \<and> fst sent = 0)"
proof -
  obtain st1 where r1: "run_state (ef2_sif_init ker) st = (-102, st1)"
      "\<not> g_sif_initialized st1" "0 \<le> g_sif0_handler_id st1" "cmd_iopbuf st1 = 0"
    using first_init [OF assms(1-4)] by blast
  obtain st2 where r2: "run_state (ef2_sif_init ker) st1 = (0, st2)" "g_sif_initialized st2" "cmd_iopbuf st2 = 0"
    using r1 assms(5) by (auto simp: ef2_sif_init_def ef2_sif_init_cmd_def ef2_sif_init_rpc_def)
  have "fst (fst (run_state (ef2_sif_send_cmd ker cid packet words n src dest extra) st2)) = 0"
    using r2(3) by (simp add: ef2_sif_send_cmd_def)
  then show ?thesis using r2 by (auto simp: r1(1) Let_def split: prod.split)
qed


definition broken_machine :: "u32 list list list iop_machine" where
  "broken_machine = script_machine\<lparr>ef2_kernel_enable_dmac := \<lambda>c w. (-1, w)\<rparr>"

theorem sif_init_retry_witness:
  "let (first, st1) = run_state (ef2_sif_init broken_machine) (zero_sif []);
       (second, st2) = run_state (ef2_sif_init broken_machine) st1;
       (sent, st3) = run_state (ef2_sif_send_cmd broken_machine 1 2 [] 64 0 0 0) st2
   in first = -102 \<and> second = 0 \<and> g_sif_initialized st2 \<and> fst sent = 0"
  by (rule sif_init_retry) (simp_all add: zero_sif_def broken_machine_def script_machine_def)


section \<open>Replies\<close>

text \<open>The packet with which the IOP ends a call of a client.\<close>

definition end_packet :: "u32 \<Rightarrow> u32 list" where
  "end_packet c = [48, 0, 0x80000008, 0, 0, 0, 0, c, EF2_SIF_CMD_RPC_CALL, 0, 0, 0]"

definition commands_ready :: "'w sif \<Rightarrow> bool" where
  "commands_ready st \<longleftrightarrow> 0 \<le> g_sif0_handler_id st \<and> cmd_iopbuf st \<noteq> 0 \<and> sys_handler_count st = 32 \<and>
     g_sys_handlers st ! 8 = Some Cmd_rpc_end \<and> length (g_cmd_packet_buffer st) = 32"

lemma receive_end:
  assumes "commands_ready st"
  shows "receive_packet script_machine (end_packet c) st =
    ef2_cmd_rpc_end ((end_packet c)[0 := 0] @ replicate 20 0)
      (st\<lparr>g_cmd_packet_buffer := (end_packet c)[0 := 0] @ drop 12 (g_cmd_packet_buffer st)\<rparr>)"
  using assms
  by (simp add: commands_ready_def receive_packet_def ef2_sif_irq_handler_def ef2_cmd_packet_size_def end_packet_def
      Let_def EF2_SIF_CMD_SYSTEM_def, simp add: eval_nat_numeral)


lemma quiet_arrivals:
  assumes "fst (next_batch (sif_world st)) = []"
  shows "run_state (sif_interrupts script_machine) st = ((), st\<lparr>sif_world := snd (next_batch (sif_world st))\<rparr>)"
  using assms by (simp add: sif_interrupts_def)

definition call_words :: "u32 \<Rightarrow> nat \<Rightarrow> u32 \<Rightarrow> u32 \<Rightarrow> u32 \<Rightarrow> u32 \<Rightarrow> 'w sif \<Rightarrow> u32 list" where
  "call_words c i fn ss rb rs st = (fresh_packet script_machine i (g_rpc_next_id st))
     [7 := c, 8 := fn, 9 := ss, 10 := rb, 11 := rs, 12 := 1, 13 := client_server (rpc_clients st c),
      0 := ef2_cmd_set_sizes 64 ss, 1 := (if ss \<noteq> 0 then client_buf (rpc_clients st c) else 0), 2 := EF2_SIF_CMD_RPC_CALL]"

definition call_state :: "u32 \<Rightarrow> nat \<Rightarrow> u32 \<Rightarrow> u32 \<Rightarrow> u32 \<Rightarrow> u32 \<Rightarrow> u32 list list list sif \<Rightarrow> u32 list list list sif" where
  "call_state c i fn ss rb rs st = st\<lparr>
     g_rpc_next_id := (if g_rpc_next_id st + 1 = 0 then 1 else g_rpc_next_id st + 1),
     rpc_clients := (rpc_clients st)(c := (rpc_clients st c)\<lparr>hdr_pkt := Some i, hdr_rpc_id := g_rpc_next_id st, hdr_sema_id := -1\<rparr>),
     g_rpc_wait_done := False, sif_world := snd (next_batch (sif_world st)),
     g_rpc_packets := (g_rpc_packets st)[i := call_words c i fn ss rb rs st]\<rparr>"

lemma call_run:
  assumes "commands_ready st" "c \<noteq> 0" "client_server (rpc_clients st c) \<noteq> 0" "first_free (g_rpc_packets st) = Some i"
    and "fst (next_batch (sif_world st)) = []" "length (g_rpc_packets st) = 8"
  shows "run_state (ef2_sif_call script_machine c fn sb ss rb rs) st =
      (case run_state (ef2_wait_flag script_machine g_rpc_wait_done) (call_state c i fn ss rb rs st) of
         (waited, st') \<Rightarrow> (if waited < 0 then -4 else 0, st'))"
proof -
  have i: "i < 8" using first_free_Some [OF assms(4)] by blast
  have alloc: "run_state (ef2_rpc_alloc_packet script_machine) st = (Some i,
      st\<lparr>sif_world := snd (next_batch (sif_world st)),
        g_rpc_next_id := (if g_rpc_next_id st + 1 = 0 then 1 else g_rpc_next_id st + 1),
        g_rpc_packets := (g_rpc_packets st)[i := fresh_packet script_machine i (g_rpc_next_id st)]\<rparr>)"
    using assms(4,5) by (simp add: ef2_rpc_alloc_packet_def quiet_arrivals Let_def)
  have fresh: "fresh_packet script_machine i r ! 6 = r" for r by (simp add: fresh_packet_def)
  show ?thesis
    using assms i
    by (cases "ss = 0"; cases "rs = 0")
      (simp_all add: ef2_sif_call_def alloc send_pool_packet_def ef2_sif_send_cmd_def Let_def fresh
        commands_ready_def EF2_RPC_PACKET_SIZE_def attach_packet_def client_update_def call_state_def call_words_def)
qed


lemma call_words_facts:
  "packet_busy (call_words c i fn ss rb rs st)" "length (call_words c i fn ss rb rs st) = 16" "call_words c i fn ss rb rs st ! 7 = c"
  using fresh_packet_busy [of script_machine i "g_rpc_next_id st"]
  by (simp_all add: call_words_def packet_busy_def nth_list_update)

text \<open>C32: A reply is not matched to its call.  While a client waits for the end of its call, the late end
  of a call of any other client makes the call return success, although its own packet is still out.\<close>

theorem sif_call_takes_any_reply:
  assumes "commands_ready st" "pool_ok st" "c \<noteq> 0" "client_server (rpc_clients st c) \<noteq> 0"
    and "first_free (g_rpc_packets st) = Some i" "d \<noteq> c" "sif_world st = [[], [end_packet d]]"
  shows "(let (result, st') = run_state (ef2_sif_call script_machine c fn sb ss rb rs) st
    in result = 0 \<and> waits st' c i \<and> packet_busy (g_rpc_packets st' ! i))"
proof -
  let ?s = "call_state c i fn ss rb rs st"
  have i: "i < 8" "\<not> packet_busy (g_rpc_packets st ! i)" using first_free_Some [OF assms(5)] by auto
  have len: "length (g_rpc_packets st) = 8" using pool_okD(1) [OF assms(2)] .
  have ready: "commands_ready (?s\<lparr>sif_world := []\<rparr>)" using assms(1) by (simp add: commands_ready_def call_state_def)
  define st' where "st' = ef2_cmd_rpc_end ((end_packet d)[0 := 0] @ replicate 20 0)
      (?s\<lparr>sif_world := [], g_cmd_packet_buffer := (end_packet d)[0 := 0] @ drop 12 (g_cmd_packet_buffer ?s)\<rparr>)"
  have w: "sif_world ?s = [[end_packet d]]" using assms(7) by (simp add: call_state_def)
  have "receive_packet script_machine (end_packet d) (?s\<lparr>sif_world := []\<rparr>) = st'"
    unfolding st'_def using receive_end [OF ready] by simp
  then have int: "run_state (sif_interrupts script_machine) ?s = ((), st')" by (simp add: sif_interrupts_def w)
  have wait_done: "g_rpc_wait_done st'" by (simp add: st'_def ef2_cmd_rpc_end_def Let_def)
  have "run_state (ef2_wait_flag script_machine g_rpc_wait_done) ?s = (0, st')"
    unfolding ef2_wait_flag_def by (subst wait_flag_loop.simps) (simp add: int wait_done SIF_WAIT_LIMIT_def)
  then have run: "run_state (ef2_sif_call script_machine c fn sb ss rb rs) st = (0, st')"
    using call_run [OF assms(1,3,4,5) _ len] assms(7) by simp
  have j: "j \<noteq> i \<and> j < 8" if "hdr_pkt (rpc_clients st d) = Some j" for j
    using pool_okD(3,4) [OF assms(2), of d j] i that by (auto simp: waits_def)
  have "waits st' c i \<and> packet_busy (g_rpc_packets st' ! i)"
    using assms(6) i len j
    by (auto simp: st'_def ef2_cmd_rpc_end_def end_packet_def Let_def EF2_SIF_CMD_RPC_BIND_def EF2_SIF_CMD_RPC_CALL_def
        ef2_rpc_packet_free_def client_update_def waits_def call_state_def call_words_facts split: option.split)
  then show ?thesis by (simp add: run)
qed


definition bound_sif :: "u32 list list list \<Rightarrow> u32 list list list sif" where
  "bound_sif w = (zero_sif w)\<lparr>g_sif0_handler_id := 0, cmd_iopbuf := 4, sys_handler_count := 32,
     g_sys_handlers := (replicate 32 None)[8 := Some Cmd_rpc_end],
     rpc_clients := (\<lambda>_. zero_client)(1 := zero_client\<lparr>client_server := 8\<rparr>)\<rparr>"

lemma bound_sif_facts [simp]:
  "commands_ready (bound_sif w)" "pool_ok (bound_sif w)" "client_server (rpc_clients (bound_sif w) 1) = 8"
  "first_free (g_rpc_packets (bound_sif w)) = Some 0" "sif_world (bound_sif w) = w"
  by (simp_all add: bound_sif_def commands_ready_def pool_ok_def waits_def zero_sif_def zero_client_def first_free_def
      packet_busy_def upt_rec [of 0])

theorem sif_call_takes_any_reply_witness:
  "(let (result, st') = run_state (ef2_sif_call script_machine 1 3 0 0 0 0) (bound_sif [[], [end_packet 2]])
    in result = 0 \<and> waits st' 1 0 \<and> packet_busy (g_rpc_packets st' ! 0))"
  by (rule sif_call_takes_any_reply) simp_all

section \<open>Calls without an answer\<close>

lemma wait_silent:
  assumes "\<And>w. fst (arrivals ker w) = []" "\<not> g_rpc_wait_done st"
  shows "\<exists>w. run_state (wait_flag_loop ker g_rpc_wait_done outer) st = (-1, st\<lparr>sif_world := w\<rparr>)"
  using assms(2)
proof (induction "unat (SIF_WAIT_LIMIT - outer)" arbitrary: outer st rule: less_induct)
  case less
  have int: "run_state (sif_interrupts ker) st = ((), st\<lparr>sif_world := snd (arrivals ker (sif_world st))\<rparr>)"
    by (simp add: sif_interrupts_def assms(1))
  show ?case
  proof (cases "outer < SIF_WAIT_LIMIT")
    case True
    obtain w where "run_state (wait_flag_loop ker g_rpc_wait_done (outer + 1))
        (st\<lparr>sif_world := snd (arrivals ker (sif_world st))\<rparr>) = (-1, st\<lparr>sif_world := w\<rparr>)"
      using less.hyps [of "outer + 1" "st\<lparr>sif_world := snd (arrivals ker (sif_world st))\<rparr>"]
        u32_countdown_less [OF True] less.prems by auto
    then show ?thesis using True less.prems int by (subst wait_flag_loop.simps) auto
  next
    case False
    then show ?thesis by (subst wait_flag_loop.simps) (auto intro: exI [of _ "sif_world st"])
  qed
qed

text \<open>What a call that is not answered leaves: one packet more in use, if there was a free one.\<close>

definition lost_packet :: "nat \<Rightarrow> 'w sif \<Rightarrow> 'w sif \<Rightarrow> bool" where
  "lost_packet i st st' \<longleftrightarrow> cmd_iopbuf st' = cmd_iopbuf st \<and>
     (\<forall>d. client_server (rpc_clients st' d) = client_server (rpc_clients st d)) \<and>
     length (g_rpc_packets st') = length (g_rpc_packets st) \<and> packet_busy (g_rpc_packets st' ! i) \<and>
     (\<forall>j. j \<noteq> i \<longrightarrow> g_rpc_packets st' ! j = g_rpc_packets st ! j)"

lemma silent_alloc:
  assumes "\<And>w. fst (arrivals ker w) = []"
  shows "\<exists>w. run_state (ef2_rpc_alloc_packet ker) st = (case first_free (g_rpc_packets st) of
      None \<Rightarrow> (None, st\<lparr>sif_world := w\<rparr>)
    | Some i \<Rightarrow> (Some i, st\<lparr>sif_world := w,
        g_rpc_next_id := (if g_rpc_next_id st + 1 = 0 then 1 else g_rpc_next_id st + 1),
        g_rpc_packets := (g_rpc_packets st)[i := fresh_packet ker i (g_rpc_next_id st)]\<rparr>))"
proof -
  have int: "run_state (sif_interrupts ker) st = ((), st\<lparr>sif_world := snd (arrivals ker (sif_world st))\<rparr>)"
    by (simp add: sif_interrupts_def assms(1))
  show ?thesis
    by (cases "first_free (g_rpc_packets st)") (auto simp: ef2_rpc_alloc_packet_def int Let_def
        intro!: exI [of _ "ei ker (di ker (snd (arrivals ker (sif_world st))))"])
qed

lemma silent_call_sent:
  assumes "\<And>w. fst (arrivals ker w) = []" "\<And>ts w. fst (ef2_kernel_sif_set_dma ker ts w) \<noteq> 0" "cmd_iopbuf st \<noteq> 0"
    and "c \<noteq> 0" "client_server (rpc_clients st c) \<noteq> 0" "length (g_rpc_packets st) = 8"
    and "first_free (g_rpc_packets st) = Some i"
  shows "\<exists>st'. run_state (ef2_sif_call ker c fn sb ss rb rs) st = (-4, st') \<and> lost_packet i st st'"
proof -
  have i: "i < 8" using first_free_Some [OF assms(7)] by blast
  obtain w where alloc: "run_state (ef2_rpc_alloc_packet ker) st = (Some i, st\<lparr>sif_world := w,
        g_rpc_next_id := (if g_rpc_next_id st + 1 = 0 then 1 else g_rpc_next_id st + 1),
        g_rpc_packets := (g_rpc_packets st)[i := fresh_packet ker i (g_rpc_next_id st)]\<rparr>)"
    using silent_alloc [OF assms(1), of st] assms(7) by auto
  have "\<exists>w. run_state (ef2_wait_flag ker g_rpc_wait_done) s = (-1, s\<lparr>sif_world := w\<rparr>)" if "\<not> g_rpc_wait_done s" for s
    unfolding ef2_wait_flag_def by (rule wait_silent [OF assms(1) that])
  then obtain f where wait: "\<And>s. \<not> g_rpc_wait_done s \<Longrightarrow>
      run_state (ef2_wait_flag ker g_rpc_wait_done) s = (-1, s\<lparr>sif_world := f s\<rparr>)" by metis
  have busy: "packet_busy ((fresh_packet ker i r)[7 := c, 8 := fn, 9 := ss, 10 := rb, 11 := rs, 12 := 1, 13 := sv, 0 := x, 1 := y, 2 := z])"
    for r sv x y z
    using fresh_packet_busy [of ker i r] by (simp add: packet_busy_def)
  show ?thesis
    using i assms(2-6) busy
    by (cases "ss = 0"; cases "rs = 0")
      (auto simp: ef2_sif_call_def alloc send_pool_packet_def ef2_sif_send_cmd_def Let_def EF2_RPC_PACKET_SIZE_def
        attach_packet_def client_update_def wait lost_packet_def)
qed

lemma silent_call_refused:
  assumes "\<And>w. fst (arrivals ker w) = []" "c \<noteq> 0" "client_server (rpc_clients st c) \<noteq> 0"
    and "first_free (g_rpc_packets st) = None"
  shows "\<exists>w. run_state (ef2_sif_call ker c fn sb ss rb rs) st = (-2, st\<lparr>sif_world := w\<rparr>)"
proof -
  obtain w where "run_state (ef2_rpc_alloc_packet ker) st = (None, st\<lparr>sif_world := w\<rparr>)"
    using silent_alloc [OF assms(1), of st] assms(4) by auto
  then show ?thesis using assms(2,3) by (auto simp: ef2_sif_call_def intro!: exI [of _ w])
qed

fun sif_calls ::
  "('w, 'y) sif_machine_scheme \<Rightarrow> (u32 \<times> u32 \<times> u32 \<times> u32 \<times> u32 \<times> u32) list \<Rightarrow> 'w sif \<Rightarrow> s32 list \<times> 'w sif" where
  "sif_calls ker [] st = ([], st)"
| "sif_calls ker ((c, fn, sb, ss, rb, rs) # calls) st =
    (let (r, st) = run_state (ef2_sif_call ker c fn sb ss rb rs) st; (rest, st) = sif_calls ker calls st
     in (r # rest, st))"

definition free_packets :: "'w sif \<Rightarrow> nat set" where
  "free_packets st = {j. j < 8 \<and> \<not> packet_busy (g_rpc_packets st ! j)}"

lemma silent_calls:
  assumes "\<And>w. fst (arrivals ker w) = []" "\<And>ts w. fst (ef2_kernel_sif_set_dma ker ts w) \<noteq> 0"
  shows "cmd_iopbuf st \<noteq> 0 \<Longrightarrow> length (g_rpc_packets st) = 8 \<Longrightarrow>
    (\<forall>q \<in> set calls. fst q \<noteq> 0 \<and> client_server (rpc_clients st (fst q)) \<noteq> 0) \<Longrightarrow>
    fst (sif_calls ker calls st) = map (\<lambda>j. if j < card (free_packets st) then -4 else -2) [0..<length calls]"
proof (induction calls arbitrary: st)
  case (Cons q calls)
  obtain c fn sb ss rb rs where q: "q = (c, fn, sb, ss, rb, rs)" by (cases q) auto
  have bound: "c \<noteq> 0" "client_server (rpc_clients st c) \<noteq> 0" using Cons.prems(3) by (simp_all add: q)
  have upt: "[0..<Suc (length calls)] = 0 # map Suc [0..<length calls]"
    by (simp add: upt_conv_Cons map_Suc_upt del: upt_Suc)
  show ?case
  proof (cases "first_free (g_rpc_packets st)")
    case None
    then have none: "free_packets st = {}" by (auto simp: first_free_def find_None_iff free_packets_def)
    obtain w where w: "run_state (ef2_sif_call ker c fn sb ss rb rs) st = (-2, st\<lparr>sif_world := w\<rparr>)"
      using silent_call_refused [OF assms(1) bound None] by blast
    moreover have "free_packets (st\<lparr>sif_world := w\<rparr>) = {}" using none by (simp add: free_packets_def)
    ultimately show ?thesis
      using Cons.IH [of "st\<lparr>sif_world := w\<rparr>"] Cons.prems none
      by (auto simp: q upt o_def split: prod.split simp del: upt_Suc)
  next
    case (Some i)
    obtain st' where st': "run_state (ef2_sif_call ker c fn sb ss rb rs) st = (-4, st')" "lost_packet i st st'"
      using silent_call_sent [OF assms Cons.prems(1) bound Cons.prems(2) Some] by blast
    note i = first_free_Some [OF Some]
    have "free_packets st' = free_packets st - {i}"
      using st'(2) Cons.prems(2) by (auto simp: lost_packet_def free_packets_def nth_list_update)
    moreover have "i \<in> free_packets st" "finite (free_packets st)" using i by (simp_all add: free_packets_def)
    ultimately have "card (free_packets st) = Suc (card (free_packets st'))" by (metis card_Suc_Diff1)
    then show ?thesis
      using Cons.IH [of st'] Cons.prems st'
      by (auto simp: q upt o_def lost_packet_def split: prod.split simp del: upt_Suc)
  qed
qed simp

text \<open>C33: While the IOP sends nothing and the kernel accepts every transfer, every call of a bound client
  still returns, whatever its function and buffers are: with -4 after a bounded wait, without giving its
  packet back, as long as the pool has a free packet, and with -2 from then on.  From a fresh pool, eight
  calls of any clients empty it for all of them.\<close>

theorem sif_call_timeouts_exhaust:
  assumes "\<And>w. fst (arrivals ker w) = []" "\<And>ts w. fst (ef2_kernel_sif_set_dma ker ts w) \<noteq> 0"
    and "cmd_iopbuf st \<noteq> 0" "length (g_rpc_packets st) = 8"
    and "\<forall>q \<in> set calls. fst q \<noteq> 0 \<and> client_server (rpc_clients st (fst q)) \<noteq> 0"
    and "free = card {j. j < 8 \<and> \<not> packet_busy (g_rpc_packets st ! j)}"
  shows "fst (sif_calls ker calls st) = map (\<lambda>j. if j < free then -4 else -2) [0..<length calls]"
  using silent_calls [OF assms(1-5)] by (simp add: assms(6) free_packets_def)

definition deaf_machine :: "u32 list list list iop_machine" where
  "deaf_machine = script_machine\<lparr>arrivals := Pair []\<rparr>"

definition two_clients :: "u32 list list list sif" where
  "two_clients = (bound_sif [])\<lparr>rpc_clients := (\<lambda>_. zero_client)(1 := zero_client\<lparr>client_server := 8\<rparr>, 2 := zero_client\<lparr>client_server := 9\<rparr>)\<rparr>"

theorem sif_call_timeouts_exhaust_witness:
  "fst (sif_calls deaf_machine (replicate 7 (1, 3, 0x1000, 16, 0x2000, 4) @ [(2, 5, 0, 0, 0, 0), (2, 5, 0, 0, 0, 0), (1, 3, 0, 0, 0, 0)]) two_clients) =
     [-4, -4, -4, -4, -4, -4, -4, -4, -2, -2]"
proof -
  have "{j. j < 8 \<and> \<not> packet_busy (g_rpc_packets two_clients ! j)} = {..<8}"
    by (auto simp: two_clients_def bound_sif_def zero_sif_def packet_busy_def)
  then have "8 = card {j. j < 8 \<and> \<not> packet_busy (g_rpc_packets two_clients ! j)}" by simp
  from sif_call_timeouts_exhaust [OF _ _ _ _ _ this, of deaf_machine
      "replicate 7 (1, 3, 0x1000, 16, 0x2000, 4) @ [(2, 5, 0, 0, 0, 0), (2, 5, 0, 0, 0, 0), (1, 3, 0, 0, 0, 0)]"]
  show ?thesis
    by (simp add: deaf_machine_def script_machine_def upt_rec) (simp add: two_clients_def bound_sif_def zero_sif_def zero_client_def)
qed

section \<open>The module patch\<close>

text \<open>What the processor of the IOP makes of the instructions: the target of a jump at an address, and the
  value of a pair of \<open>lui\<close> and \<open>ori\<close>.\<close>

definition jump_target :: "u32 \<Rightarrow> u32 \<Rightarrow> u32" where
  "jump_target pc word = (pc AND 0xF0000000) OR push_bit 2 (word AND 0x03FFFFFF)"

definition lui_ori :: "u32 \<Rightarrow> u32 \<Rightarrow> u32" where
  "lui_ori high low = push_bit 16 (high AND 0xFFFF) OR (low AND 0xFFFF)"

lemma low_field:
  "take_bit k (push_bit k (a :: u32) OR take_bit k x) = take_bit k x"
  by (auto intro!: bit_word_eqI simp: bit_simps)

lemma high_field: "k \<le> n \<Longrightarrow> drop_bit n (push_bit k (a :: u32) OR take_bit k x) = drop_bit n (push_bit k a)"
  by (auto intro!: bit_word_eqI simp: bit_simps)

lemma jump_field:
  assumes "4 dvd unat a" "unat a < 0x10000000"
  shows "push_bit 2 (take_bit 26 (drop_bit 2 a)) = (a :: u32)"
proof -
  have "unat (drop_bit 2 a) = unat a div 4" by (simp add: unat_drop_bit_div)
  then have "take_bit 26 (drop_bit 2 a) = drop_bit 2 a" using assms(2) by (simp add: word_unat_eq_iff unat_take_bit)
  moreover have "take_bit 2 a = 0" using assms(1) by (simp add: word_unat_eq_iff unat_take_bit mod_eq_0_iff_dvd)
  then have "push_bit 2 (drop_bit 2 a) = a" by (metis add.right_neutral bits_ident)
  ultimately show ?thesis by simp
qed

lemma halves: "push_bit 16 (take_bit 16 (drop_bit 16 r)) OR take_bit 16 r = (r :: u32)"
  by (rule bit_word_eqI) (auto simp: bit_simps)

lemma fields: "(0x03FFFFFF :: u32) = mask 26" "(0xFFFF :: u32) = mask 16" "(0x0C000000 :: u32) = push_bit 26 3"
  "(0x3C110000 :: u32) = push_bit 16 0x3C11" "(0x36310000 :: u32) = push_bit 16 0x3631"
  by (simp_all add: mask_eq_exp_minus_1 push_bit_eq_mult)

text \<open>C34: The patched loader calls the two functions of the module manager and stores the result where the
  patch was loaded: its instructions are \<open>jal\<close>, \<open>jal\<close> and a \<open>lui\<close>, \<open>ori\<close> pair with these addresses, for
  functions at word addresses in the lowest 256 megabytes, which is where the memory of the IOP is.\<close>

theorem module_patch_encodes:
  assumes "4 dvd unat start_module" "unat start_module < 0x10000000" "4 dvd unat load_module_buffer"
    and "unat load_module_buffer < 0x10000000" "pc AND 0xF0000000 = 0"
  shows "jump_target pc (module_patch start_module load_module_buffer result_address ! 5) = load_module_buffer \<and>
    jump_target pc (module_patch start_module load_module_buffer result_address ! 15) = start_module \<and>
    lui_ori (module_patch start_module load_module_buffer result_address ! 7)
      (module_patch start_module load_module_buffer result_address ! 9) = result_address \<and>
    map (drop_bit 26) (map ((!) (module_patch start_module load_module_buffer result_address)) [5, 7, 9, 15]) = [3, 15, 13, 3]"
proof -
  let ?p = "module_patch start_module load_module_buffer result_address"
  have p: "?p ! 5 = push_bit 26 3 OR take_bit 26 (drop_bit 2 load_module_buffer)"
      "?p ! 15 = push_bit 26 3 OR take_bit 26 (drop_bit 2 start_module)"
      "?p ! 7 = push_bit 16 0x3C11 OR take_bit 16 (drop_bit 16 result_address)"
      "?p ! 9 = push_bit 16 0x3631 OR take_bit 16 result_address"
    unfolding module_patch_def fields by (simp_all add: patch_template_def take_bit_eq_mask del: push_bit_numeral)
  have "drop_bit 26 (push_bit 16 0x3C11 :: u32) = 15" "drop_bit 26 (push_bit 16 0x3631 :: u32) = 13"
      "drop_bit 26 (push_bit 26 3 :: u32) = 3"
    by simp_all
  then show ?thesis
    unfolding jump_target_def lui_ori_def fields take_bit_eq_mask [symmetric] p list.map
    using assms(5) by (simp only: low_field high_field jump_field [OF assms(1,2)] jump_field [OF assms(3,4)] halves) simp
qed

theorem module_patch_encodes_witness:
  "jump_target 0x1000 (module_patch 0x2340 0x4568 0x98764 ! 5) = 0x4568 \<and> jump_target 0x1000 (module_patch 0x2340 0x4568 0x98764 ! 15) = 0x2340"
  using module_patch_encodes [of "0x2340" "0x4568" "0x1000" "0x98764"] by simp

end
