(* ===== verification/InterruptControl.thy ===== *)
theory InterruptControl
  imports EeKernel OptionPost "HOL-Library.Monad_Syntax"
begin

text \<open>
  The interrupt control of the EE, \<open>src/ee/kernel/interrupt.c\<close>: suspending and resuming the delivery of
  interrupts, and the calls into the kernel that are made with interrupts off.

  The instruction \<open>di\<close> need not take effect at once, so the code repeats it until the status register
  shows interrupts off; \<open>None\<close> means that this never happens.  A handler is its address.
\<close>

definition EF2_STATUS_EIE :: u32 where "EF2_STATUS_EIE = 0x00010000"

definition ef2_interrupt_read_status :: "('w, 'y) ee_kernel_scheme \<Rightarrow> 'w \<Rightarrow> u32 \<times> 'w" where
  "ef2_interrupt_read_status ker = read_status ker"

partial_function (option) suspend_loop :: "('w, 'y) ee_kernel_scheme \<Rightarrow> 'w \<Rightarrow> 'w option" where
  "suspend_loop ker w =
    (let w = di ker w; (status, w) = ef2_interrupt_read_status ker w
     in if status AND EF2_STATUS_EIE \<noteq> 0 then suspend_loop ker w else Some w)"

definition ef2_interrupt_suspend :: "('w, 'y) ee_kernel_scheme \<Rightarrow> 'w \<Rightarrow> (bool \<times> 'w) option" where
  "ef2_interrupt_suspend ker w =
    (let (status, w) = ef2_interrupt_read_status ker w; enabled = (status AND EF2_STATUS_EIE \<noteq> 0)
     in if enabled then map_option (\<lambda>w. (enabled, w)) (suspend_loop ker w) else Some (enabled, w))"

definition ef2_interrupt_resume :: "('w, 'y) ee_kernel_scheme \<Rightarrow> bool \<Rightarrow> 'w \<Rightarrow> 'w" where
  "ef2_interrupt_resume ker enabled w = (if enabled then ei ker w else w)"

text \<open>A call between suspending and resuming, the body that the operations share.\<close>

definition masked_call :: "('w, 'y) ee_kernel_scheme \<Rightarrow> ('w \<Rightarrow> 'a \<times> 'w) \<Rightarrow> 'w \<Rightarrow> ('a \<times> 'w) option" where
  "masked_call ker f w = do {
     (enabled, w) \<leftarrow> ef2_interrupt_suspend ker w;
     let (result, w) = f w;
     Some (result, ef2_interrupt_resume ker enabled w) }"

definition ef2_interrupt_add_intc ::
  "('w, 'y) ee_kernel_scheme \<Rightarrow> s32 \<Rightarrow> u32 \<Rightarrow> u32 \<Rightarrow> s32 \<Rightarrow> 'w \<Rightarrow> (s32 \<times> 'w) option" where
  "ef2_interrupt_add_intc ker source handler arg after w =
    (if handler = 0 then Some (-1, w)
     else masked_call ker (ef2_kernel_add_intc_handler2 ker source handler after arg) w)"

definition ef2_interrupt_remove_intc :: "('w, 'y) ee_kernel_scheme \<Rightarrow> s32 \<Rightarrow> s32 \<Rightarrow> 'w \<Rightarrow> (s32 \<times> 'w) option" where
  "ef2_interrupt_remove_intc ker source handler_id w =
    masked_call ker (ef2_kernel_remove_intc_handler ker source handler_id) w"

definition ef2_interrupt_enable_intc :: "('w, 'y) ee_kernel_scheme \<Rightarrow> s32 \<Rightarrow> 'w \<Rightarrow> (s32 \<times> 'w) option" where
  "ef2_interrupt_enable_intc ker source w = masked_call ker (ef2_kernel_enable_intc ker source) w"

definition ef2_interrupt_disable_intc :: "('w, 'y) ee_kernel_scheme \<Rightarrow> s32 \<Rightarrow> 'w \<Rightarrow> (s32 \<times> 'w) option" where
  "ef2_interrupt_disable_intc ker source w = masked_call ker (ef2_kernel_disable_intc ker source) w"

definition ef2_interrupt_add_dmac ::
  "('w, 'y) ee_kernel_scheme \<Rightarrow> s32 \<Rightarrow> u32 \<Rightarrow> u32 \<Rightarrow> s32 \<Rightarrow> 'w \<Rightarrow> (s32 \<times> 'w) option" where
  "ef2_interrupt_add_dmac ker source handler arg after w =
    (if handler = 0 then Some (-1, w)
     else masked_call ker (ef2_kernel_add_dmac_handler2 ker source handler after arg) w)"

definition ef2_interrupt_remove_dmac :: "('w, 'y) ee_kernel_scheme \<Rightarrow> s32 \<Rightarrow> s32 \<Rightarrow> 'w \<Rightarrow> (s32 \<times> 'w) option" where
  "ef2_interrupt_remove_dmac ker source handler_id w =
    masked_call ker (ef2_kernel_remove_dmac_handler ker source handler_id) w"

definition ef2_interrupt_enable_dmac :: "('w, 'y) ee_kernel_scheme \<Rightarrow> s32 \<Rightarrow> 'w \<Rightarrow> (s32 \<times> 'w) option" where
  "ef2_interrupt_enable_dmac ker source w = masked_call ker (ef2_kernel_enable_dmac ker source) w"

definition ef2_interrupt_disable_dmac :: "('w, 'y) ee_kernel_scheme \<Rightarrow> s32 \<Rightarrow> 'w \<Rightarrow> (s32 \<times> 'w) option" where
  "ef2_interrupt_disable_dmac ker source w = masked_call ker (ef2_kernel_disable_dmac ker source) w"

section \<open>The delivery of interrupts around a call\<close>

definition interrupts_on :: "('w, 'y) ee_kernel_scheme \<Rightarrow> 'w \<Rightarrow> bool" where
  "interrupts_on ker w \<longleftrightarrow> fst (read_status ker w) AND EF2_STATUS_EIE \<noteq> 0"

text \<open>What the code relies on: reading the register changes nothing, \<open>ei\<close> turns interrupts on, and \<open>di\<close>
  turns them off when it is tried often enough.\<close>

definition status_register :: "('w, 'y) ee_kernel_scheme \<Rightarrow> bool" where
  "status_register ker \<longleftrightarrow> (\<forall>w. snd (read_status ker w) = w \<and> interrupts_on ker (ei ker w) \<and>
     (\<exists>n. \<not> interrupts_on ker ((di ker ^^ Suc n) w)))"

lemma status_registerD:
  assumes "status_register ker"
  shows "snd (read_status ker w) = w" "interrupts_on ker (ei ker w)"
    "\<exists>n. \<not> interrupts_on ker ((di ker ^^ Suc n) w)"
  using assms by (auto simp: status_register_def prod_eq_iff)

lemma suspend_loop_ends:
  assumes "status_register ker"
  shows "\<not> interrupts_on ker ((di ker ^^ Suc n) w) \<Longrightarrow>
    \<exists>k \<le> n. suspend_loop ker w = Some ((di ker ^^ Suc k) w) \<and> \<not> interrupts_on ker ((di ker ^^ Suc k) w)"
proof (induction n arbitrary: w)
  case 0
  then show ?case
    by (subst suspend_loop.simps)
      (subst (asm) interrupts_on_def, auto simp: ef2_interrupt_read_status_def status_registerD(1) [OF assms] Let_def split_beta interrupts_on_def)
next
  case (Suc n)
  show ?case
  proof (cases "interrupts_on ker (di ker w)")
    case True
    have "\<not> interrupts_on ker ((di ker ^^ Suc n) (di ker w))" using Suc.prems by (simp add: funpow_swap1)
    then obtain k where k: "k \<le> n" "suspend_loop ker (di ker w) = Some ((di ker ^^ Suc k) (di ker w))"
        "\<not> interrupts_on ker ((di ker ^^ Suc k) (di ker w))"
      using Suc.IH by blast
    have "suspend_loop ker w = suspend_loop ker (di ker w)"
      using True by (subst suspend_loop.simps)
        (simp add: ef2_interrupt_read_status_def status_registerD(1) [OF assms] Let_def split_beta interrupts_on_def)
    then show ?thesis using k by (intro exI [of _ "Suc k"]) (simp add: funpow_swap1)
  next
    case False
    then have "suspend_loop ker w = Some (di ker w)"
      by (subst suspend_loop.simps)
        (simp add: ef2_interrupt_read_status_def status_registerD(1) [OF assms] Let_def split_beta interrupts_on_def)
    then show ?thesis using False by (intro exI [of _ 0]) simp
  qed
qed

lemma suspend_ends:
  assumes "status_register ker"
  shows "\<exists>w1. ef2_interrupt_suspend ker w = Some (interrupts_on ker w, w1) \<and> \<not> interrupts_on ker w1 \<and>
    (\<exists>k. w1 = (di ker ^^ k) w \<and> (k = 0 \<longleftrightarrow> \<not> interrupts_on ker w))"
proof (cases "interrupts_on ker w")
  case True
  obtain n where "\<not> interrupts_on ker ((di ker ^^ Suc n) w)" using status_registerD(3) [OF assms] by blast
  then obtain k where "suspend_loop ker w = Some ((di ker ^^ Suc k) w)" "\<not> interrupts_on ker ((di ker ^^ Suc k) w)"
    using suspend_loop_ends [OF assms] by blast
  then show ?thesis
    using True by (intro exI [of _ "(di ker ^^ Suc k) w"])
      (auto simp: ef2_interrupt_suspend_def ef2_interrupt_read_status_def status_registerD(1) [OF assms] Let_def split_beta interrupts_on_def
        intro!: exI [of _ "Suc k"])
next
  case False
  then show ?thesis
    by (intro exI [of _ w])
      (auto simp: ef2_interrupt_suspend_def ef2_interrupt_read_status_def status_registerD(1) [OF assms] Let_def split_beta interrupts_on_def
        intro!: exI [of _ 0])
qed

text \<open>The operations, the call that each makes, and the null handlers that are refused.\<close>

datatype irq_op =
    Irq_add_intc s32 u32 u32 s32
  | Irq_remove_intc s32 s32
  | Irq_enable_intc s32
  | Irq_disable_intc s32
  | Irq_add_dmac s32 u32 u32 s32
  | Irq_remove_dmac s32 s32
  | Irq_enable_dmac s32
  | Irq_disable_dmac s32

fun irq_run :: "('w, 'y) ee_kernel_scheme \<Rightarrow> irq_op \<Rightarrow> 'w \<Rightarrow> (s32 \<times> 'w) option" where
  "irq_run ker (Irq_add_intc source handler arg after) = ef2_interrupt_add_intc ker source handler arg after"
| "irq_run ker (Irq_remove_intc source handler_id) = ef2_interrupt_remove_intc ker source handler_id"
| "irq_run ker (Irq_enable_intc source) = ef2_interrupt_enable_intc ker source"
| "irq_run ker (Irq_disable_intc source) = ef2_interrupt_disable_intc ker source"
| "irq_run ker (Irq_add_dmac source handler arg after) = ef2_interrupt_add_dmac ker source handler arg after"
| "irq_run ker (Irq_remove_dmac source handler_id) = ef2_interrupt_remove_dmac ker source handler_id"
| "irq_run ker (Irq_enable_dmac source) = ef2_interrupt_enable_dmac ker source"
| "irq_run ker (Irq_disable_dmac source) = ef2_interrupt_disable_dmac ker source"

fun irq_call :: "('w, 'y) ee_kernel_scheme \<Rightarrow> irq_op \<Rightarrow> 'w \<Rightarrow> s32 \<times> 'w" where
  "irq_call ker (Irq_add_intc source handler arg after) = ef2_kernel_add_intc_handler2 ker source handler after arg"
| "irq_call ker (Irq_remove_intc source handler_id) = ef2_kernel_remove_intc_handler ker source handler_id"
| "irq_call ker (Irq_enable_intc source) = ef2_kernel_enable_intc ker source"
| "irq_call ker (Irq_disable_intc source) = ef2_kernel_disable_intc ker source"
| "irq_call ker (Irq_add_dmac source handler arg after) = ef2_kernel_add_dmac_handler2 ker source handler after arg"
| "irq_call ker (Irq_remove_dmac source handler_id) = ef2_kernel_remove_dmac_handler ker source handler_id"
| "irq_call ker (Irq_enable_dmac source) = ef2_kernel_enable_dmac ker source"
| "irq_call ker (Irq_disable_dmac source) = ef2_kernel_disable_dmac ker source"

fun irq_refused :: "irq_op \<Rightarrow> bool" where
  "irq_refused (Irq_add_intc source handler arg after) = (handler = 0)"
| "irq_refused (Irq_add_dmac source handler arg after) = (handler = 0)"
| "irq_refused _ = False"

lemmas irq_defs = ef2_interrupt_add_intc_def ef2_interrupt_remove_intc_def ef2_interrupt_enable_intc_def
  ef2_interrupt_disable_intc_def ef2_interrupt_add_dmac_def ef2_interrupt_remove_dmac_def ef2_interrupt_enable_dmac_def
  ef2_interrupt_disable_dmac_def

lemma irq_run_masked: "irq_run ker op w = (if irq_refused op then Some (-1, w) else masked_call ker (irq_call ker op) w)"
  by (cases op) (simp_all add: irq_defs)

lemma masked_call_ends:
  assumes "status_register ker" "\<And>w. \<not> interrupts_on ker w \<Longrightarrow> \<not> interrupts_on ker (snd (f w))"
  shows "\<exists>k w2. masked_call ker f w = Some (fst (f ((di ker ^^ k) w)), w2) \<and> \<not> interrupts_on ker ((di ker ^^ k) w) \<and>
    interrupts_on ker w2 = interrupts_on ker w \<and>
    w2 = (if interrupts_on ker w then ei ker (snd (f ((di ker ^^ k) w))) else snd (f w))"
proof -
  obtain k where k: "ef2_interrupt_suspend ker w = Some (interrupts_on ker w, (di ker ^^ k) w)"
      "\<not> interrupts_on ker ((di ker ^^ k) w)" "k = 0 \<longleftrightarrow> \<not> interrupts_on ker w"
    using suspend_ends [OF assms(1), of w] by blast
  show ?thesis
    using k assms(2) [OF k(2)] status_registerD(2) [OF assms(1)]
    by (auto simp: masked_call_def ef2_interrupt_resume_def split_beta intro!: exI [of _ k])
qed

end
