(* ===== verification/Timer.thy ===== *)
theory Timer
  imports Bus
begin

text \<open>
  The three timers of the EE, \<open>src/ee/kernel/timer.c\<close>, over a device with 32-bit registers.  A timer and a
  clock are the values of their enumerations; a null configuration is \<open>None\<close>.
\<close>

record timer_config =
  tc_clock :: u32
  tc_compare :: u16
  tc_flags :: u32

definition EF2_TIMER_BUS_CLOCK_HZ :: u32 where "EF2_TIMER_BUS_CLOCK_HZ = 147456000"
definition EF2_TIMER_BUS_DIV16_HZ :: u32 where "EF2_TIMER_BUS_DIV16_HZ = 9216000"
definition EF2_TIMER_BUS_DIV256_HZ :: u32 where "EF2_TIMER_BUS_DIV256_HZ = 576000"

definition EF2_TIMER_CLOCK_HBLANK :: u32 where "EF2_TIMER_CLOCK_HBLANK = 3"

definition EF2_TIMER_FLAG_ZERO_ON_COMPARE :: u32 where "EF2_TIMER_FLAG_ZERO_ON_COMPARE = 1"
definition EF2_TIMER_FLAG_IRQ_COMPARE :: u32 where "EF2_TIMER_FLAG_IRQ_COMPARE = 2"
definition EF2_TIMER_FLAG_IRQ_OVERFLOW :: u32 where "EF2_TIMER_FLAG_IRQ_OVERFLOW = 4"
definition EF2_TIMER_EVENT_COMPARE :: u32 where "EF2_TIMER_EVENT_COMPARE = 1"
definition EF2_TIMER_EVENT_OVERFLOW :: u32 where "EF2_TIMER_EVENT_OVERFLOW = 2"

definition EF2_TIMER_MODE_CLOCK_MASK :: u32 where "EF2_TIMER_MODE_CLOCK_MASK = 0x003"
definition EF2_TIMER_MODE_ZERO_RETURN :: u32 where "EF2_TIMER_MODE_ZERO_RETURN = 0x040"
definition EF2_TIMER_MODE_ENABLE :: u32 where "EF2_TIMER_MODE_ENABLE = 0x080"
definition EF2_TIMER_MODE_COMPARE_IRQ :: u32 where "EF2_TIMER_MODE_COMPARE_IRQ = 0x100"
definition EF2_TIMER_MODE_OVERFLOW_IRQ :: u32 where "EF2_TIMER_MODE_OVERFLOW_IRQ = 0x200"
definition EF2_TIMER_MODE_COMPARE_FLAG :: u32 where "EF2_TIMER_MODE_COMPARE_FLAG = 0x400"
definition EF2_TIMER_MODE_OVERFLOW_FLAG :: u32 where "EF2_TIMER_MODE_OVERFLOW_FLAG = 0x800"
definition EF2_TIMER_MODE_EVENT_MASK :: u32 where
  "EF2_TIMER_MODE_EVENT_MASK = EF2_TIMER_MODE_COMPARE_FLAG OR EF2_TIMER_MODE_OVERFLOW_FLAG"

definition EF2_TIMER_BASE :: "u32 \<Rightarrow> u32" where "EF2_TIMER_BASE timer = 0x10000000 + timer * 0x800"
definition EF2_TIMER_COUNT :: "u32 \<Rightarrow> u32" where "EF2_TIMER_COUNT timer = EF2_TIMER_BASE timer"
definition EF2_TIMER_MODE :: "u32 \<Rightarrow> u32" where "EF2_TIMER_MODE timer = EF2_TIMER_BASE timer + 0x10"
definition EF2_TIMER_COMP :: "u32 \<Rightarrow> u32" where "EF2_TIMER_COMP timer = EF2_TIMER_BASE timer + 0x20"

definition ef2_timer_valid :: "u32 \<Rightarrow> bool" where
  "ef2_timer_valid timer \<longleftrightarrow> timer \<le> 2"

definition ef2_timer_mode_control :: "u32 \<Rightarrow> u32" where
  "ef2_timer_mode_control mode = mode AND NOT EF2_TIMER_MODE_EVENT_MASK"

definition config_mode :: "timer_config \<Rightarrow> u32" where
  "config_mode config =
    (let mode = tc_clock config AND EF2_TIMER_MODE_CLOCK_MASK;
         mode = (if tc_flags config AND EF2_TIMER_FLAG_ZERO_ON_COMPARE \<noteq> 0 then mode OR EF2_TIMER_MODE_ZERO_RETURN else mode);
         mode = (if tc_flags config AND EF2_TIMER_FLAG_IRQ_COMPARE \<noteq> 0 then mode OR EF2_TIMER_MODE_COMPARE_IRQ else mode)
     in if tc_flags config AND EF2_TIMER_FLAG_IRQ_OVERFLOW \<noteq> 0 then mode OR EF2_TIMER_MODE_OVERFLOW_IRQ else mode)"

definition ef2_timer_configure :: "('w, 'y) bus_scheme \<Rightarrow> u32 \<Rightarrow> timer_config option \<Rightarrow> 'w \<Rightarrow> s32 \<times> 'w" where
  "ef2_timer_configure bus timer config w =
    (case config of
       None \<Rightarrow> (-1, w)
     | Some config \<Rightarrow>
         if \<not> ef2_timer_valid timer then (-1, w)
         else if tc_clock config > EF2_TIMER_CLOCK_HBLANK then (-2, w)
         else if timer = 2 \<and> tc_clock config = EF2_TIMER_CLOCK_HBLANK then (-3, w)
         else
           let w = wr32 bus (EF2_TIMER_COUNT timer) 0 w;
               w = wr32 bus (EF2_TIMER_COMP timer) (ucast (tc_compare config)) w;
               w = wr32 bus (EF2_TIMER_MODE timer)
                 (config_mode config OR EF2_TIMER_MODE_COMPARE_FLAG OR EF2_TIMER_MODE_OVERFLOW_FLAG) w
           in (0, w))"

definition ef2_timer_start :: "('w, 'y) bus_scheme \<Rightarrow> u32 \<Rightarrow> 'w \<Rightarrow> s32 \<times> 'w" where
  "ef2_timer_start bus timer w =
    (if \<not> ef2_timer_valid timer then (-1, w)
     else
       let (mode, w) = rd32 bus (EF2_TIMER_MODE timer) w
       in (0, wr32 bus (EF2_TIMER_MODE timer) (ef2_timer_mode_control mode OR EF2_TIMER_MODE_ENABLE) w))"

definition ef2_timer_stop :: "('w, 'y) bus_scheme \<Rightarrow> u32 \<Rightarrow> 'w \<Rightarrow> s32 \<times> 'w" where
  "ef2_timer_stop bus timer w =
    (if \<not> ef2_timer_valid timer then (-1, w)
     else
       let (mode, w) = rd32 bus (EF2_TIMER_MODE timer) w
       in (0, wr32 bus (EF2_TIMER_MODE timer) (ef2_timer_mode_control mode AND NOT EF2_TIMER_MODE_ENABLE) w))"

definition ef2_timer_set_count :: "('w, 'y) bus_scheme \<Rightarrow> u32 \<Rightarrow> u16 \<Rightarrow> 'w \<Rightarrow> s32 \<times> 'w" where
  "ef2_timer_set_count bus timer count w =
    (if \<not> ef2_timer_valid timer then (-1, w) else (0, wr32 bus (EF2_TIMER_COUNT timer) (ucast count) w))"

definition ef2_timer_get_count :: "('w, 'y) bus_scheme \<Rightarrow> u32 \<Rightarrow> 'w \<Rightarrow> u16 \<times> 'w" where
  "ef2_timer_get_count bus timer w =
    (if \<not> ef2_timer_valid timer then (0, w)
     else let (count, w) = rd32 bus (EF2_TIMER_COUNT timer) w in (ucast count, w))"

definition ef2_timer_get_compare :: "('w, 'y) bus_scheme \<Rightarrow> u32 \<Rightarrow> 'w \<Rightarrow> u16 \<times> 'w" where
  "ef2_timer_get_compare bus timer w =
    (if \<not> ef2_timer_valid timer then (0, w)
     else let (comp, w) = rd32 bus (EF2_TIMER_COMP timer) w in (ucast comp, w))"

definition mode_events :: "u32 \<Rightarrow> u32" where
  "mode_events mode =
    (let events = (if mode AND EF2_TIMER_MODE_COMPARE_FLAG \<noteq> 0 then EF2_TIMER_EVENT_COMPARE else 0)
     in if mode AND EF2_TIMER_MODE_OVERFLOW_FLAG \<noteq> 0 then events OR EF2_TIMER_EVENT_OVERFLOW else events)"

definition ef2_timer_get_events :: "('w, 'y) bus_scheme \<Rightarrow> u32 \<Rightarrow> 'w \<Rightarrow> u32 \<times> 'w" where
  "ef2_timer_get_events bus timer w =
    (if \<not> ef2_timer_valid timer then (0, w)
     else let (mode, w) = rd32 bus (EF2_TIMER_MODE timer) w in (mode_events mode, w))"

definition ack_flags :: "u32 \<Rightarrow> u32" where
  "ack_flags events =
    (if events AND EF2_TIMER_EVENT_COMPARE \<noteq> 0 then EF2_TIMER_MODE_COMPARE_FLAG else 0) OR
    (if events AND EF2_TIMER_EVENT_OVERFLOW \<noteq> 0 then EF2_TIMER_MODE_OVERFLOW_FLAG else 0)"

definition ef2_timer_ack :: "('w, 'y) bus_scheme \<Rightarrow> u32 \<Rightarrow> u32 \<Rightarrow> 'w \<Rightarrow> s32 \<times> 'w" where
  "ef2_timer_ack bus timer events w =
    (if \<not> ef2_timer_valid timer then (-1, w)
     else
       let (mode, w) = rd32 bus (EF2_TIMER_MODE timer) w
       in (0, wr32 bus (EF2_TIMER_MODE timer) (ef2_timer_mode_control mode OR ack_flags events) w))"

definition ef2_timer_clock_hz :: "u32 \<Rightarrow> u32 \<Rightarrow> u32" where
  "ef2_timer_clock_hz clock hblank_hz =
    (if clock = 0 then EF2_TIMER_BUS_CLOCK_HZ
     else if clock = 1 then EF2_TIMER_BUS_DIV16_HZ
     else if clock = 2 then EF2_TIMER_BUS_DIV256_HZ
     else if clock = EF2_TIMER_CLOCK_HBLANK then hblank_hz
     else 0)"

definition ef2_timer_elapsed16 :: "u16 \<Rightarrow> u16 \<Rightarrow> u16" where
  "ef2_timer_elapsed16 start end' = end' - start"

section \<open>The device\<close>

text \<open>The mode register of a timer as the hardware has it, \<open>mode t w\<close>: it reads back its control bits;
  writing a one to an event flag clears the flag and writing a zero leaves it; and while the code works,
  at every access, further events may be raised.\<close>

definition timer_device :: "('w, 'y) bus_scheme \<Rightarrow> (u32 \<Rightarrow> 'w \<Rightarrow> u32) \<Rightarrow> bool" where
  "timer_device bus mode \<longleftrightarrow>
    (\<forall>t w. ef2_timer_valid t \<longrightarrow> fst (rd32 bus (EF2_TIMER_MODE t) w) = mode t w) \<and>
    (\<forall>t a w. \<exists>raised. mode t (snd (rd32 bus a w)) = mode t w OR (raised AND EF2_TIMER_MODE_EVENT_MASK)) \<and>
    (\<forall>t v w. ef2_timer_valid t \<longrightarrow> mode t (wr32 bus (EF2_TIMER_MODE t) v w) =
       ef2_timer_mode_control v OR (mode t w AND EF2_TIMER_MODE_EVENT_MASK AND NOT v)) \<and>
    (\<forall>t a v w. a \<noteq> EF2_TIMER_MODE t \<longrightarrow> (\<exists>raised. mode t (wr32 bus a v w) = mode t w OR (raised AND EF2_TIMER_MODE_EVENT_MASK)))"

definition pending :: "u32 \<Rightarrow> u32" where
  "pending mode = mode AND EF2_TIMER_MODE_EVENT_MASK"

lemma timer_mask: "EF2_TIMER_MODE_EVENT_MASK = 0xC00"
  by (simp add: EF2_TIMER_MODE_EVENT_MASK_def EF2_TIMER_MODE_COMPARE_FLAG_def EF2_TIMER_MODE_OVERFLOW_FLAG_def)

text \<open>Setting and clearing of fields, bit by bit.\<close>

lemma control_or: "ef2_timer_mode_control (a OR b) = ef2_timer_mode_control a OR ef2_timer_mode_control b"
  by (rule bit_word_eqI) (auto simp: ef2_timer_mode_control_def bit_simps)

lemma control_events: "ef2_timer_mode_control (x AND EF2_TIMER_MODE_EVENT_MASK) = 0"
  "ef2_timer_mode_control (x AND EF2_TIMER_MODE_EVENT_MASK AND y) = 0"
  by (rule bit_word_eqI, auto simp: ef2_timer_mode_control_def bit_simps)+

lemma control_twice: "ef2_timer_mode_control (ef2_timer_mode_control x) = ef2_timer_mode_control x"
  by (rule bit_word_eqI) (auto simp: ef2_timer_mode_control_def bit_simps)

lemma pending_or: "pending (a OR b) = pending a OR pending b"
  by (rule bit_word_eqI) (auto simp: pending_def bit_simps)

lemma pending_control: "pending (ef2_timer_mode_control x) = 0"
  by (rule bit_word_eqI) (auto simp: pending_def ef2_timer_mode_control_def bit_simps)

text \<open>Reading the mode, changing it and writing it back with chosen flags.\<close>

lemma mode_update:
  assumes "timer_device bus mode" "ef2_timer_valid t" "pending change = 0" "ef2_timer_mode_control flags = 0"
  shows "\<exists>w1. snd (rd32 bus (EF2_TIMER_MODE t) w) = w1 \<and> fst (rd32 bus (EF2_TIMER_MODE t) w) = mode t w \<and>
    ef2_timer_mode_control (mode t (wr32 bus (EF2_TIMER_MODE t) (change OR flags) w1)) = change \<and>
    pending (mode t (wr32 bus (EF2_TIMER_MODE t) (change OR flags) w1)) = pending (mode t w1) AND NOT flags \<and>
    pending (mode t w) AND NOT (pending (mode t w1)) = 0"
proof -
  let ?w1 = "snd (rd32 bus (EF2_TIMER_MODE t) w)"
  have dev: "fst (rd32 bus (EF2_TIMER_MODE t) w) = mode t w"
      "mode t (wr32 bus (EF2_TIMER_MODE t) v w') = ef2_timer_mode_control v OR (mode t w' AND EF2_TIMER_MODE_EVENT_MASK AND NOT v)" for v w'
    using assms(1,2) by (simp_all add: timer_device_def)
  obtain r where r: "mode t ?w1 = mode t w OR (r AND EF2_TIMER_MODE_EVENT_MASK)"
    using assms(1) unfolding timer_device_def by blast
  have change: "ef2_timer_mode_control change = change"
    using assms(3) by (intro bit_word_eqI) (auto simp: pending_def ef2_timer_mode_control_def bit_simps bit_eq_iff)
  have "pending (mode t ?w1 AND EF2_TIMER_MODE_EVENT_MASK AND NOT (change OR flags)) = pending (mode t ?w1) AND NOT flags"
    using assms(3) by (intro bit_word_eqI) (auto simp: pending_def bit_simps bit_eq_iff)
  moreover have "pending (mode t w) AND NOT (pending (mode t ?w1)) = 0"
    unfolding r by (rule bit_word_eqI) (auto simp: pending_def bit_simps)
  ultimately show ?thesis
    by (simp add: dev control_or control_twice control_events change assms(3,4) pending_or pending_control)
qed

section \<open>Operations on the mode\<close>

datatype timer_op =
    Timer_configure "timer_config option"
  | Timer_start
  | Timer_stop
  | Timer_ack u32

fun timer_run :: "('w, 'y) bus_scheme \<Rightarrow> u32 \<Rightarrow> timer_op \<Rightarrow> 'w \<Rightarrow> s32 \<times> 'w" where
  "timer_run bus t (Timer_configure config) w = ef2_timer_configure bus t config w"
| "timer_run bus t Timer_start w = ef2_timer_start bus t w"
| "timer_run bus t Timer_stop w = ef2_timer_stop bus t w"
| "timer_run bus t (Timer_ack events) w = ef2_timer_ack bus t events w"

text \<open>What is refused, what becomes of the control bits, and the events that are cleared on purpose.\<close>

fun timer_refusal :: "u32 \<Rightarrow> timer_op \<Rightarrow> s32" where
  "timer_refusal t (Timer_configure None) = -1"
| "timer_refusal t (Timer_configure (Some config)) =
    (if 2 < t then -1 else if 3 < tc_clock config then -2 else if t = 2 \<and> tc_clock config = 3 then -3 else 0)"
| "timer_refusal t _ = (if 2 < t then -1 else 0)"

fun timer_control :: "timer_op \<Rightarrow> u32 \<Rightarrow> u32" where
  "timer_control (Timer_configure (Some config)) control = config_mode config"
| "timer_control Timer_start control = control OR EF2_TIMER_MODE_ENABLE"
| "timer_control Timer_stop control = control AND NOT EF2_TIMER_MODE_ENABLE"
| "timer_control _ control = control"

fun timer_clears :: "timer_op \<Rightarrow> u32" where
  "timer_clears (Timer_configure config) = EF2_TIMER_MODE_EVENT_MASK"
| "timer_clears (Timer_ack events) = ack_flags events"
| "timer_clears _ = 0"

lemma pending_and: "pending (a AND b) = pending a AND b"
  by (simp add: pending_def ac_simps)

lemma pending_flags: "pending EF2_TIMER_MODE_ENABLE = 0" "pending EF2_TIMER_MODE_ZERO_RETURN = 0"
  "pending EF2_TIMER_MODE_COMPARE_IRQ = 0" "pending EF2_TIMER_MODE_OVERFLOW_IRQ = 0" "pending EF2_TIMER_MODE_CLOCK_MASK = 0"
  by (simp_all add: pending_def timer_mask EF2_TIMER_MODE_ENABLE_def EF2_TIMER_MODE_ZERO_RETURN_def
      EF2_TIMER_MODE_COMPARE_IRQ_def EF2_TIMER_MODE_OVERFLOW_IRQ_def EF2_TIMER_MODE_CLOCK_MASK_def)

lemma control_flags: "ef2_timer_mode_control (ack_flags events) = 0" "ef2_timer_mode_control EF2_TIMER_MODE_EVENT_MASK = 0"
  "ef2_timer_mode_control 0 = 0"
  by (simp_all add: ack_flags_def ef2_timer_mode_control_def timer_mask EF2_TIMER_MODE_COMPARE_FLAG_def EF2_TIMER_MODE_OVERFLOW_FLAG_def)

lemma pending_config: "pending (config_mode config) = 0"
proof -
  have "pending (tc_clock config AND EF2_TIMER_MODE_CLOCK_MASK) = 0"
    by (subst and.commute) (simp add: pending_and pending_flags)
  then show ?thesis by (simp add: config_mode_def Let_def pending_or pending_flags)
qed

definition mode_step :: "(u32 \<Rightarrow> 'w \<Rightarrow> u32) \<Rightarrow> u32 \<Rightarrow> timer_op \<Rightarrow> 'w \<Rightarrow> 'w \<Rightarrow> 'w \<Rightarrow> bool" where
  "mode_step mode t op w w1 w2 \<longleftrightarrow>
     ef2_timer_mode_control (mode t w2) = timer_control op (ef2_timer_mode_control (mode t w)) \<and>
     pending (mode t w) AND NOT (pending (mode t w1)) = 0 \<and>
     pending (mode t w2) = pending (mode t w1) AND NOT (timer_clears op)"

lemma mode_step_rmw:
  assumes "timer_device bus mode" "ef2_timer_valid t" "pending (timer_control op (ef2_timer_mode_control (mode t w))) = 0"
    and "ef2_timer_mode_control (timer_clears op) = 0"
    and "timer_run bus t op w = (let (m, w1) = rd32 bus (EF2_TIMER_MODE t) w
      in (0, wr32 bus (EF2_TIMER_MODE t) (timer_control op (ef2_timer_mode_control m) OR timer_clears op) w1))"
  shows "\<exists>w1 v. timer_run bus t op w = (0, wr32 bus (EF2_TIMER_MODE t) v w1) \<and> mode_step mode t op w w1 (wr32 bus (EF2_TIMER_MODE t) v w1)"
  using mode_update [OF assms(1-4)] by (auto simp: assms(5) mode_step_def split_beta intro!: exI)

lemma mode_step_configure:
  assumes "timer_device bus mode" "timer_refusal t (Timer_configure (Some config)) = 0"
  shows "\<exists>w1 v. timer_run bus t (Timer_configure (Some config)) w = (0, wr32 bus (EF2_TIMER_MODE t) v w1) \<and>
    mode_step mode t (Timer_configure (Some config)) w w1 (wr32 bus (EF2_TIMER_MODE t) v w1)"
proof -
  let ?w1 = "wr32 bus (EF2_TIMER_COMP t) (ucast (tc_compare config)) (wr32 bus (EF2_TIMER_COUNT t) 0 w)"
  let ?v = "config_mode config OR EF2_TIMER_MODE_EVENT_MASK"
  have valid: "ef2_timer_valid t" using assms(2) by (auto simp: ef2_timer_valid_def split: if_splits)
  have dev: "mode t (wr32 bus (EF2_TIMER_MODE t) v w') = ef2_timer_mode_control v OR (mode t w' AND EF2_TIMER_MODE_EVENT_MASK AND NOT v)" for v w'
    using assms(1) valid by (simp add: timer_device_def)
  have other: "EF2_TIMER_COUNT t \<noteq> EF2_TIMER_MODE t" "EF2_TIMER_COMP t \<noteq> EF2_TIMER_MODE t"
    by (simp_all add: EF2_TIMER_COUNT_def EF2_TIMER_COMP_def EF2_TIMER_MODE_def)
  obtain r1 r2 where "mode t (wr32 bus (EF2_TIMER_COUNT t) 0 w) = mode t w OR (r1 AND EF2_TIMER_MODE_EVENT_MASK)"
      "mode t ?w1 = mode t (wr32 bus (EF2_TIMER_COUNT t) 0 w) OR (r2 AND EF2_TIMER_MODE_EVENT_MASK)"
    using assms(1) other unfolding timer_device_def by meson
  then have w1: "pending (mode t w) AND NOT (pending (mode t ?w1)) = 0"
    by (intro bit_word_eqI) (auto simp: pending_def bit_simps)
  have config: "ef2_timer_mode_control (config_mode config) = config_mode config"
    using pending_config [of config] by (intro bit_word_eqI) (auto simp: pending_def ef2_timer_mode_control_def bit_simps bit_eq_iff)
  have zero: "pending (mode t ?w1 AND EF2_TIMER_MODE_EVENT_MASK AND NOT ?v) = 0" "pending x AND NOT EF2_TIMER_MODE_EVENT_MASK = 0" for x
    by (rule bit_word_eqI, auto simp: pending_def bit_simps)+
  have "mode_step mode t (Timer_configure (Some config)) w ?w1 (wr32 bus (EF2_TIMER_MODE t) ?v ?w1)"
    using w1 zero by (simp add: mode_step_def dev control_or control_twice control_events config control_flags pending_or pending_control
        pending_config)
  moreover have "timer_run bus t (Timer_configure (Some config)) w = (0, wr32 bus (EF2_TIMER_MODE t) ?v ?w1)"
    using assms(2) by (auto simp: ef2_timer_configure_def ef2_timer_valid_def EF2_TIMER_CLOCK_HBLANK_def Let_def or.assoc
        EF2_TIMER_MODE_EVENT_MASK_def split: if_splits)
  ultimately show ?thesis by blast
qed

lemmas rmw_simps = ef2_timer_valid_def not_less pending_or pending_and pending_control pending_flags control_flags
  ef2_timer_start_def ef2_timer_stop_def ef2_timer_ack_def

lemma mode_step_valid:
  assumes "timer_device bus mode" "timer_refusal t op = 0"
  shows "\<exists>w1 v. timer_run bus t op w = (0, wr32 bus (EF2_TIMER_MODE t) v w1) \<and> mode_step mode t op w w1 (wr32 bus (EF2_TIMER_MODE t) v w1)"
proof (cases op)
  case (Timer_configure c)
  then show ?thesis using mode_step_configure [OF assms(1)] assms(2) by (cases c) auto
next
  case Timer_start
  then show ?thesis using assms by (intro mode_step_rmw) (simp_all add: rmw_simps split: if_splits)
next
  case Timer_stop
  then show ?thesis using assms by (intro mode_step_rmw) (simp_all add: rmw_simps split: if_splits)
next
  case (Timer_ack events)
  then show ?thesis using assms by (intro mode_step_rmw) (simp_all add: rmw_simps split: if_splits)
qed

lemma timer_refused: "timer_refusal t op \<noteq> 0 \<Longrightarrow> timer_run bus t op w = (timer_refusal t op, w)"
  by (cases "(t, op)" rule: timer_refusal.cases)
    (auto simp: ef2_timer_configure_def ef2_timer_valid_def EF2_TIMER_CLOCK_HBLANK_def ef2_timer_start_def ef2_timer_stop_def ef2_timer_ack_def
      split: if_splits)

lemma valid_cases: "ef2_timer_valid t \<Longrightarrow> t = 0 \<or> t = 1 \<or> t = 2"
proof -
  assume "ef2_timer_valid t"
  then have "unat t \<le> 2" by (simp add: ef2_timer_valid_def word_le_nat_alt)
  then consider "unat t = 0" | "unat t = 1" | "unat t = 2" by linarith
  then show ?thesis by cases (simp_all add: word_unat_eq_iff)
qed

lemma mode_addresses: "ef2_timer_valid t \<Longrightarrow> ef2_timer_valid u \<Longrightarrow> EF2_TIMER_MODE t = EF2_TIMER_MODE u \<longleftrightarrow> t = u"
  by (drule valid_cases, drule valid_cases) (auto simp: EF2_TIMER_MODE_def EF2_TIMER_BASE_def)

text \<open>Accesses to anything but the mode of a timer keep its control bits.\<close>

lemma control_other:
  assumes "timer_device bus mode"
  shows "ef2_timer_mode_control (mode u (snd (rd32 bus a w))) = ef2_timer_mode_control (mode u w)"
    "a \<noteq> EF2_TIMER_MODE u \<Longrightarrow> ef2_timer_mode_control (mode u (wr32 bus a v w)) = ef2_timer_mode_control (mode u w)"
proof -
  obtain r where "mode u (snd (rd32 bus a w)) = mode u w OR (r AND EF2_TIMER_MODE_EVENT_MASK)"
    using assms unfolding timer_device_def by blast
  then show "ef2_timer_mode_control (mode u (snd (rd32 bus a w))) = ef2_timer_mode_control (mode u w)"
    by (simp add: control_or control_events)
  assume "a \<noteq> EF2_TIMER_MODE u"
  then obtain r where "mode u (wr32 bus a v w) = mode u w OR (r AND EF2_TIMER_MODE_EVENT_MASK)"
    using assms unfolding timer_device_def by blast
  then show "ef2_timer_mode_control (mode u (wr32 bus a v w)) = ef2_timer_mode_control (mode u w)"
    by (simp add: control_or control_events)
qed

lemma register_addresses: "ef2_timer_valid t \<Longrightarrow> ef2_timer_valid u \<Longrightarrow>
    EF2_TIMER_COUNT t \<noteq> EF2_TIMER_MODE u \<and> EF2_TIMER_COMP t \<noteq> EF2_TIMER_MODE u"
  by (drule valid_cases, drule valid_cases) (auto simp: EF2_TIMER_MODE_def EF2_TIMER_COUNT_def EF2_TIMER_COMP_def EF2_TIMER_BASE_def)

lemma timer_others:
  assumes "timer_device bus mode" "ef2_timer_valid u" "u \<noteq> t"
  shows "ef2_timer_mode_control (mode u (snd (timer_run bus t op w))) = ef2_timer_mode_control (mode u w)"
proof (cases "ef2_timer_valid t")
  case True
  then have "EF2_TIMER_MODE t \<noteq> EF2_TIMER_MODE u" "EF2_TIMER_COUNT t \<noteq> EF2_TIMER_MODE u" "EF2_TIMER_COMP t \<noteq> EF2_TIMER_MODE u"
    using mode_addresses register_addresses assms(2,3) by metis+
  then show ?thesis
    using control_other [OF assms(1), where u = u]
    by (cases op) (auto simp: ef2_timer_configure_def ef2_timer_start_def ef2_timer_stop_def ef2_timer_ack_def split_beta Let_def
        split: option.split)
next
  case False
  then show ?thesis
    by (cases op) (auto simp: ef2_timer_configure_def ef2_timer_start_def ef2_timer_stop_def ef2_timer_ack_def split: option.split)
qed

end
