(* ===== verification/KernelProps.thy ===== *)
theory KernelProps
  imports InterruptControl Timer SifProps
begin

text \<open>
  The properties of the interrupt control and of the timers.
\<close>

text \<open>C35: Every operation of the interrupt control ends.  A null handler is refused with -1 and nothing
  happens; otherwise the kernel is called once, with interrupts off, its result is returned, and
  afterwards interrupts are on exactly if they were on before, so that the operations may be used inside
  a section that has suspended them.\<close>

theorem interrupt_calls_masked:
  assumes "status_register ker" "\<And>w. \<not> interrupts_on ker w \<Longrightarrow> \<not> interrupts_on ker (snd (irq_call ker op w))"
  shows "if irq_refused op then irq_run ker op w = Some (-1, w)
    else \<exists>k w2. irq_run ker op w = Some (fst (irq_call ker op ((di ker ^^ k) w)), w2) \<and>
      \<not> interrupts_on ker ((di ker ^^ k) w) \<and> interrupts_on ker w2 = interrupts_on ker w \<and>
      w2 = (if interrupts_on ker w then ei ker (snd (irq_call ker op ((di ker ^^ k) w))) else snd (irq_call ker op w))"
  unfolding irq_run_masked using masked_call_ends [where f = "irq_call ker op" and w = w, OF assms] by auto

text \<open>A machine on which \<open>di\<close> must be tried as often as its script is long.\<close>

definition slow_di_machine :: "u32 list list list iop_machine" where
  "slow_di_machine = script_machine\<lparr>read_status := \<lambda>w. (if w = [] then 0 else EF2_STATUS_EIE, w), di := tl, ei := \<lambda>w. [[]],
     ef2_kernel_enable_intc := \<lambda>source w. (1, w)\<rparr>"

lemma slow_di_register: "status_register slow_di_machine" "interrupts_on slow_di_machine w \<longleftrightarrow> w \<noteq> []"
proof -
  show on: "interrupts_on slow_di_machine w \<longleftrightarrow> w \<noteq> []" for w
    by (simp add: interrupts_on_def slow_di_machine_def EF2_STATUS_EIE_def)
  have "(tl ^^ Suc (length w)) w = []" for w :: "u32 list list list"
    by (induction w) (simp_all add: funpow_swap1)
  then have "\<exists>n. \<not> interrupts_on slow_di_machine ((di slow_di_machine ^^ Suc n) w)" for w
    unfolding on by (simp add: slow_di_machine_def del: funpow.simps) blast
  then show "status_register slow_di_machine" by (simp add: status_register_def on) (simp add: slow_di_machine_def)
qed

theorem interrupt_calls_masked_witness:
  "\<exists>k w2. irq_run slow_di_machine (Irq_enable_intc 2) [[], []] = Some (1, w2) \<and> (tl ^^ k) [[], []] = ([] :: u32 list list list) \<and> w2 = [[]]"
  using interrupt_calls_masked [OF slow_di_register(1), of "Irq_enable_intc 2" "[[], []]"]
  by (simp add: slow_di_register(2)) (simp add: slow_di_machine_def)

section \<open>The timers bit by bit\<close>

text \<open>The mode register of a timer as the hardware has it, \<open>mode t w\<close>: it lies at \<open>0x10000010\<close> and
  every \<open>0x800\<close> bytes from there; bits 10 and 11 are the event flags, which a written one clears and a
  written zero leaves; the other bits read back as written; and at every other access, further events may
  be raised.\<close>

definition timer_hardware :: "('w, 'y) bus_scheme \<Rightarrow> (u32 \<Rightarrow> 'w \<Rightarrow> u32) \<Rightarrow> bool" where
  "timer_hardware bus mode \<longleftrightarrow>
    (\<forall>t w. t \<le> 2 \<longrightarrow> fst (rd32 bus (0x10000010 + t * 0x800) w) = mode t w) \<and>
    (\<forall>t a w. \<exists>raised. mode t (snd (rd32 bus a w)) = mode t w OR (raised AND 0xC00)) \<and>
    (\<forall>t v w. t \<le> 2 \<longrightarrow> mode t (wr32 bus (0x10000010 + t * 0x800) v w) =
       (v AND NOT 0xC00) OR (mode t w AND 0xC00 AND NOT v)) \<and>
    (\<forall>t a v w. a \<noteq> 0x10000010 + t * 0x800 \<longrightarrow> (\<exists>raised. mode t (wr32 bus a v w) = mode t w OR (raised AND 0xC00)))"

lemma timer_hardware_device: "timer_hardware bus mode \<Longrightarrow> timer_device bus mode"
proof -
  have "EF2_TIMER_MODE t = 0x10000010 + t * 0x800" for t by (simp add: EF2_TIMER_MODE_def EF2_TIMER_BASE_def)
  then show "timer_hardware bus mode \<Longrightarrow> timer_device bus mode"
    by (simp add: timer_hardware_def timer_device_def timer_mask ef2_timer_valid_def ef2_timer_mode_control_def)
qed

text \<open>The bits of the mode that an operation leaves, from those before: bits 0 and 1 select the clock, bit 6
  restarts the count on a compare, bit 7 lets it count, and bits 8 and 9 request an interrupt for a
  compare and for an overflow.\<close>

fun mode_bit :: "timer_op \<Rightarrow> u32 \<Rightarrow> nat \<Rightarrow> bool" where
  "mode_bit (Timer_configure (Some config)) old k =
    (if k \<in> {0, 1} then bit (tc_clock config) k
     else if k = 6 then bit (tc_flags config) 0
     else if k = 8 then bit (tc_flags config) 1
     else if k = 9 then bit (tc_flags config) 2
     else False)"
| "mode_bit (Timer_configure None) old k = bit old k"
| "mode_bit Timer_start old k = (k = 7 \<or> bit old k)"
| "mode_bit Timer_stop old k = (k \<noteq> 7 \<and> bit old k)"
| "mode_bit (Timer_ack events) old k = bit old k"

text \<open>The event flags that an operation clears: bit 10 for a compare, bit 11 for an overflow.\<close>

fun cleared_bit :: "timer_op \<Rightarrow> nat \<Rightarrow> bool" where
  "cleared_bit (Timer_configure config) k = True"
| "cleared_bit (Timer_ack events) k = (if k = 10 then bit events 0 else bit events 1)"
| "cleared_bit Timer_start k = False"
| "cleared_bit Timer_stop k = False"

lemma bit_power: "m < 32 \<Longrightarrow> bit (2 ^ m :: u32) k \<longleftrightarrow> k = m"
  by (auto simp: bit_exp_iff)

lemma bit_numerals:
  "bit (0x3 :: u32) k \<longleftrightarrow> k \<in> {0, 1}" "bit (0x40 :: u32) k \<longleftrightarrow> k = 6" "bit (0x80 :: u32) k \<longleftrightarrow> k = 7"
  "bit (0x100 :: u32) k \<longleftrightarrow> k = 8" "bit (0x200 :: u32) k \<longleftrightarrow> k = 9" "bit (0xC00 :: u32) k \<longleftrightarrow> k \<in> {10, 11}"
  "bit (0x400 :: u32) k \<longleftrightarrow> k = 10" "bit (0x800 :: u32) k \<longleftrightarrow> k = 11"
proof -
  have "(0x3 :: u32) = 2 ^ 0 OR 2 ^ 1" "(0xC00 :: u32) = 2 ^ 10 OR 2 ^ 11" by simp_all
  then show "bit (0x3 :: u32) k \<longleftrightarrow> k \<in> {0, 1}" "bit (0xC00 :: u32) k \<longleftrightarrow> k \<in> {10, 11}"
    by (simp_all only: bit_or_iff bit_power) auto
  show "bit (0x40 :: u32) k \<longleftrightarrow> k = 6" "bit (0x80 :: u32) k \<longleftrightarrow> k = 7" "bit (0x100 :: u32) k \<longleftrightarrow> k = 8"
    "bit (0x200 :: u32) k \<longleftrightarrow> k = 9" "bit (0x400 :: u32) k \<longleftrightarrow> k = 10" "bit (0x800 :: u32) k \<longleftrightarrow> k = 11"
    using bit_power [of 6 k] bit_power [of 7 k] bit_power [of 8 k] bit_power [of 9 k] bit_power [of 10 k] bit_power [of 11 k]
    by (simp_all del: bit_numeral_word_iff)
qed

lemma flag_bits:
  "x AND 1 \<noteq> (0 :: u32) \<longleftrightarrow> bit x 0" "x AND 2 \<noteq> (0 :: u32) \<longleftrightarrow> bit x 1" "x AND 4 \<noteq> (0 :: u32) \<longleftrightarrow> bit x 2"
  using and_exp_eq_0_iff_not_bit [of x 0] and_exp_eq_0_iff_not_bit [of x 1] and_exp_eq_0_iff_not_bit [of x 2]
  by (simp_all only: power_0 power_one_right not_not) simp

lemma config_bit:
  "bit (config_mode config) k = mode_bit (Timer_configure (Some config)) 0 k"
proof -
  have "bit (if b then x OR y else x) k = (bit x k \<or> b \<and> bit y k)" for b and x y :: u32
    by (simp add: bit_or_iff)
  then show ?thesis
    unfolding config_mode_def Let_def EF2_TIMER_MODE_CLOCK_MASK_def EF2_TIMER_FLAG_ZERO_ON_COMPARE_def
      EF2_TIMER_FLAG_IRQ_COMPARE_def EF2_TIMER_FLAG_IRQ_OVERFLOW_def EF2_TIMER_MODE_ZERO_RETURN_def
      EF2_TIMER_MODE_COMPARE_IRQ_def EF2_TIMER_MODE_OVERFLOW_IRQ_def flag_bits
    by (simp only: bit_and_iff bit_numerals) auto
qed

lemma control_keeps: "k \<notin> {10, 11} \<Longrightarrow> bit (ef2_timer_mode_control x) k = bit x k"
  unfolding ef2_timer_mode_control_def timer_mask bit_and_iff bit_not_iff bit_numerals
  by (auto dest: bit_imp_possible_bit)

lemma pending_keeps: "k \<in> {10, 11} \<Longrightarrow> bit (pending x) k = bit x k"
  by (simp only: pending_def timer_mask bit_and_iff bit_numerals simp_thms)

lemma control_bit:
  assumes "timer_refusal t op = 0" "k \<notin> {10, 11}"
  shows "bit (timer_control op (ef2_timer_mode_control old)) k = mode_bit op old k"
proof (cases op)
  case (Timer_configure c)
  then show ?thesis using assms config_bit by (cases c) simp_all
next
  case Timer_start
  then show ?thesis
    using control_keeps [OF assms(2)] by (simp only: timer_control.simps EF2_TIMER_MODE_ENABLE_def bit_or_iff bit_numerals) auto
next
  case Timer_stop
  then show ?thesis
    using control_keeps [OF assms(2)]
    by (simp only: timer_control.simps EF2_TIMER_MODE_ENABLE_def bit_and_iff bit_not_iff bit_numerals)
      (auto dest: bit_imp_possible_bit)
next
  case (Timer_ack events)
  then show ?thesis using control_keeps [OF assms(2)] by simp
qed

lemma clears_bit: "k \<in> {10, 11} \<Longrightarrow> bit (timer_clears op) k = cleared_bit op k"
proof (cases op)
  case (Timer_ack events)
  assume "k \<in> {10, 11}"
  then show ?thesis
    unfolding Timer_ack timer_clears.simps ack_flags_def EF2_TIMER_EVENT_COMPARE_def
      EF2_TIMER_EVENT_OVERFLOW_def EF2_TIMER_MODE_COMPARE_FLAG_def EF2_TIMER_MODE_OVERFLOW_FLAG_def flag_bits bit_or_iff
    using bit_numerals(7,8) [of k] by (auto simp del: bit_numeral_word_iff)
next
  case (Timer_configure c)
  assume "k \<in> {10, 11}"
  then show ?thesis unfolding Timer_configure timer_clears.simps timer_mask cleared_bit.simps bit_numerals by simp
qed simp_all

text \<open>C36: The mode of a timer is changed without losing an event.  For every order of the hardware's
  events and the accesses, configuring, starting, stopping and acknowledging leave exactly the control
  bits that \<open>mode_bit\<close> names, and of the events raised until their last access, which include those
  pending before, clear exactly those that \<open>cleared_bit\<close> names: configuring both, acknowledging the ones
  asked for, starting and stopping none.  The control bits of the other timers stay.  What is refused
  changes nothing.\<close>

theorem timer_events_kept:
  assumes "timer_hardware bus mode"
  shows "if timer_refusal t op \<noteq> 0 then timer_run bus t op w = (timer_refusal t op, w)
    else \<exists>w1 v. let w2 = wr32 bus (0x10000010 + t * 0x800) v w1 in timer_run bus t op w = (0, w2) \<and>
      (\<forall>k. k \<notin> {10, 11} \<longrightarrow> bit (mode t w2) k = mode_bit op (mode t w) k) \<and>
      (\<forall>k \<in> {10, 11}. (bit (mode t w) k \<longrightarrow> bit (mode t w1) k) \<and>
         bit (mode t w2) k = (bit (mode t w1) k \<and> \<not> cleared_bit op k)) \<and>
      (\<forall>u k. u \<le> 2 \<longrightarrow> u \<noteq> t \<longrightarrow> k \<notin> {10, 11} \<longrightarrow> bit (mode u w2) k = bit (mode u w) k)"
proof (cases "timer_refusal t op = 0")
  case True
  note dev = timer_hardware_device [OF assms]
  have reg: "EF2_TIMER_MODE t = 0x10000010 + t * 0x800" by (simp add: EF2_TIMER_MODE_def EF2_TIMER_BASE_def)
  obtain w1 v where run: "timer_run bus t op w = (0, wr32 bus (EF2_TIMER_MODE t) v w1)"
      "mode_step mode t op w w1 (wr32 bus (EF2_TIMER_MODE t) v w1)"
    using mode_step_valid [OF dev True] by blast
  let ?w2 = "wr32 bus (EF2_TIMER_MODE t) v w1"
  note control = control_keeps and event = pending_keeps
  have "bit (mode t ?w2) k = mode_bit op (mode t w) k" if k: "k \<notin> {10, 11}" for k
    using run(2) control [OF k, of "mode t ?w2"] control_bit [OF True k, of "mode t w"] by (simp add: mode_step_def)
  moreover have "(bit (mode t w) k \<longrightarrow> bit (mode t w1) k) \<and> bit (mode t ?w2) k = (bit (mode t w1) k \<and> \<not> cleared_bit op k)"
    if k: "k \<in> {10, 11}" for k
  proof -
    have possible: "possible_bit TYPE(32 word) k" and zero: "\<not> bit (0 :: u32) k" using k by auto
    have "bit (pending (mode t w) AND NOT (pending (mode t w1))) k = bit (0 :: u32) k"
      "bit (pending (mode t ?w2)) k = bit (pending (mode t w1) AND NOT (timer_clears op)) k"
      using run(2) by (simp_all add: mode_step_def)
    then show ?thesis
      unfolding bit_and_iff bit_not_iff event [OF k] clears_bit [OF k] using possible zero by blast
  qed
  moreover have "bit (mode u ?w2) k = bit (mode u w) k" if "u \<le> 2" "u \<noteq> t" and k: "k \<notin> {10, 11}" for u k
    using timer_others [OF dev _ that(2), of op w] that(1) control [OF k, of "mode u ?w2"] control [OF k, of "mode u w"]
    by (simp add: run(1) ef2_timer_valid_def)
  ultimately show ?thesis using True run(1) unfolding Let_def reg
    by (auto intro!: exI [of _ w1] exI [of _ v])
qed (simp add: timer_refused)

text \<open>A device in which an overflow of timer 1 is raised at every read.\<close>

definition eager_mode :: "u32 \<Rightarrow> (u32 \<Rightarrow> u32) \<Rightarrow> u32" where
  "eager_mode t w = w (EF2_TIMER_MODE t)"

definition eager_timers :: "(u32 \<Rightarrow> u32) bus" where
  "eager_timers = \<lparr>rd8 = (\<lambda>a w. (0, w)), rd16 = (\<lambda>a w. (0, w)),
     rd32 = (\<lambda>a w. (w a, w(EF2_TIMER_MODE 1 := w (EF2_TIMER_MODE 1) OR EF2_TIMER_MODE_OVERFLOW_FLAG))),
     wr8 = (\<lambda>a v w. w), wr16 = (\<lambda>a v w. w),
     wr32 = (\<lambda>a v w. w(a := ef2_timer_mode_control v OR (w a AND EF2_TIMER_MODE_EVENT_MASK AND NOT v)))\<rparr>"

lemma eager_device: "timer_hardware eager_timers eager_mode"
proof -
  have a: "EF2_TIMER_MODE t = 0x10000010 + t * 0x800" for t by (simp add: EF2_TIMER_MODE_def EF2_TIMER_BASE_def)
  have "0x800 AND 0xC00 = (0x800 :: u32)" "0 AND 0xC00 = (0 :: u32)" by simp_all
  then show ?thesis
    unfolding timer_hardware_def eager_timers_def eager_mode_def a EF2_TIMER_MODE_OVERFLOW_FLAG_def timer_mask
      ef2_timer_mode_control_def
    by (auto intro: exI [of _ "0x800"] exI [of _ 0])
qed

theorem timer_events_kept_witness:
  "\<exists>w2. timer_run eager_timers 1 (Timer_ack EF2_TIMER_EVENT_COMPARE) (\<lambda>_. 0x480) = (0, w2) \<and>
    bit (eager_mode 1 w2) 7 \<and> \<not> bit (eager_mode 1 w2) 10"
proof -
  have b: "bit (0x480 :: u32) 7" "bit (1 :: u32) 0" by simp_all
  from timer_events_kept [OF eager_device, of 1 "Timer_ack EF2_TIMER_EVENT_COMPARE" "\<lambda>_. 0x480"]
  obtain w1 v where "let w2 = wr32 eager_timers (0x10000010 + 1 * 0x800) v w1 in
      timer_run eager_timers 1 (Timer_ack EF2_TIMER_EVENT_COMPARE) (\<lambda>_. 0x480) = (0, w2) \<and>
      (\<forall>k. k \<notin> {10, 11} \<longrightarrow> bit (eager_mode 1 w2) k = bit (0x480 :: u32) k) \<and>
      (\<forall>k \<in> {10, 11}. bit (eager_mode 1 w2) k = (bit (eager_mode 1 w1) k \<and>
         \<not> cleared_bit (Timer_ack EF2_TIMER_EVENT_COMPARE) k))"
    by (auto simp: eager_mode_def Let_def)
  then show ?thesis using b by (auto simp: Let_def EF2_TIMER_EVENT_COMPARE_def)
qed

end
