(* ===== verification/Crash.thy ===== *)
theory Crash
  imports VideoTexture DebugSpec EeKernel
begin

text \<open>
  The crash screen, \<open>src/ee/runtime/crash.c\<close>: the report of an exception in the debug log, the picture with
  the registers and the recent log, and the handlers of the exceptions.

  The array of pixels is a list; its address, and those of the other arrays and of the handler, are in
  \<open>crash_kernel\<close>.  A line in an automatic array is the list of the characters written so far, with the
  number that it can take before the terminator.  \<open>ef2_crash_dispatch\<close> never returns: the model gives the
  state in which it stays in its last loop.
\<close>

record crash_frame =
  cf_gpr :: "u64 list"
  cf_status :: u32
  cf_cause :: u32
  cf_epc :: u32
  cf_error_epc :: u32
  cf_badvaddr :: u32

record 'w crash_kernel = "'w ee_kernel" +
  ef2_kernel_set_vtlb_refill_handler :: "s32 \<Rightarrow> u32 \<Rightarrow> 'w \<Rightarrow> 'w"
  ef2_kernel_set_v_common_handler :: "s32 \<Rightarrow> u32 \<Rightarrow> 'w \<Rightarrow> 'w"
  crash_vector_at :: u32
  crash_pixels_at :: u32
  crash_recent_at :: u32
  crash_line_at :: u32

record ('b, 'w) crash =
  g_crash_installed :: bool
  g_crash_active :: bool
  g_crash_pixels :: "u32 list"
  crash_mem :: mem
  crash_log :: "'b debug_log"
  crash_video :: "'w video"

definition EF2_CRASH_GPR_GP :: nat where "EF2_CRASH_GPR_GP = 28"
definition EF2_CRASH_GPR_SP :: nat where "EF2_CRASH_GPR_SP = 29"
definition EF2_CRASH_GPR_RA :: nat where "EF2_CRASH_GPR_RA = 31"

definition EF2_CRASH_LOG_BYTES :: u32 where "EF2_CRASH_LOG_BYTES = 1024"
definition EF2_CRASH_SCREEN_W :: u32 where "EF2_CRASH_SCREEN_W = 320"
definition EF2_CRASH_SCREEN_H :: u32 where "EF2_CRASH_SCREEN_H = 224"

section \<open>The font\<close>

definition g_font_digits :: "u8 list list" where
  "g_font_digits = [
     [7,5,5,5,7], [2,6,2,2,7], [7,1,7,4,7], [7,1,7,1,7], [5,5,7,1,1],
     [7,4,7,1,7], [7,4,7,5,7], [7,1,1,1,1], [7,5,7,5,7], [7,5,7,1,7]]"

definition g_font_letters :: "u8 list list" where
  "g_font_letters = [
     [2,5,7,5,5], [6,5,6,5,6], [7,4,4,4,7], [6,5,5,5,6], [7,4,6,4,7], [7,4,6,4,4], [7,4,5,5,7],
     [5,5,7,5,5], [7,2,2,2,7], [1,1,1,5,7], [5,5,6,5,5], [4,4,4,4,7], [5,7,7,5,5], [5,7,7,7,5],
     [7,5,5,5,7], [7,5,7,4,4], [7,5,5,7,1], [6,5,6,5,5], [7,4,7,1,7], [7,2,2,2,2], [5,5,5,5,7],
     [5,5,5,5,2], [5,5,7,7,5], [5,5,2,5,5], [5,5,2,2,2], [7,1,2,4,7]]"

text \<open>The glyphs of the other characters.\<close>

definition font_symbol :: "u8 \<Rightarrow> u8 list" where
  "font_symbol c =
    (if c = of_char CHR ''['' then [6,4,4,4,6]
     else if c = of_char CHR '']'' then [3,1,1,1,3]
     else if c = of_char CHR ''='' then [0,7,0,7,0]
     else if c = of_char CHR ''-'' then [0,0,7,0,0]
     else if c = of_char CHR '':'' then [0,2,0,2,0]
     else if c = of_char CHR ''.'' then [0,0,0,0,2]
     else if c = of_char CHR ''/'' then [1,1,2,4,4]
     else if c = of_char CHR ''_'' then [0,0,0,0,7]
     else if c = of_char CHR ''<'' then [1,2,4,2,1]
     else if c = of_char CHR ''>'' then [4,2,1,2,4]
     else if c = of_char CHR ''#'' then [5,7,5,7,5]
     else if c = of_char CHR '' '' then [0,0,0,0,0]
     else [7,1,2,0,2])"

definition glyph_row :: "u8 \<Rightarrow> nat \<Rightarrow> u8" where
  "glyph_row character row =
    (if row \<ge> 5 then 0
     else
       let c = (if character \<ge> of_char CHR ''a'' \<and> character \<le> of_char CHR ''z''
                then character - of_char CHR ''a'' + of_char CHR ''A'' else character)
       in if c \<ge> of_char CHR ''0'' \<and> c \<le> of_char CHR ''9'' then g_font_digits ! unat (c - of_char CHR ''0'') ! row
          else if c \<ge> of_char CHR ''A'' \<and> c \<le> of_char CHR ''Z'' then g_font_letters ! unat (c - of_char CHR ''A'') ! row
          else font_symbol c ! row)"

section \<open>Drawing\<close>

definition pixel_put :: "u32 \<Rightarrow> u32 \<Rightarrow> u32 \<Rightarrow> u32 list \<Rightarrow> u32 list" where
  "pixel_put x y color px =
    (if x \<ge> EF2_CRASH_SCREEN_W \<or> y \<ge> EF2_CRASH_SCREEN_H then px else px[unat (y * EF2_CRASH_SCREEN_W + x) := color])"

definition screen_fill :: "u32 \<Rightarrow> u32 list" where
  "screen_fill color = replicate (unat (EF2_CRASH_SCREEN_W * EF2_CRASH_SCREEN_H)) color"

definition draw_row :: "u32 \<Rightarrow> u32 \<Rightarrow> u8 \<Rightarrow> u32 \<Rightarrow> u32 list \<Rightarrow> u32 list" where
  "draw_row x y bits color px =
    fold (\<lambda>column px. if bits AND push_bit (2 - column) 1 \<noteq> 0 then pixel_put (x + word_of_nat column) y color px else px) [0..<3] px"

definition draw_character :: "u32 \<Rightarrow> u32 \<Rightarrow> u8 \<Rightarrow> u32 \<Rightarrow> u32 list \<Rightarrow> u32 list" where
  "draw_character x y character color px =
    fold (\<lambda>row px. draw_row x (y + word_of_nat row) (glyph_row character row) color px) [0..<5] px"

text \<open>\<open>text\<close> is the string, which ends at its end or at a zero.\<close>

fun draw_text_loop :: "u32 \<Rightarrow> u32 \<Rightarrow> u32 \<Rightarrow> u32 \<Rightarrow> u32 \<Rightarrow> u32 \<Rightarrow> u8 list \<Rightarrow> u32 list \<Rightarrow> u32 list" where
  "draw_text_loop start_x color max_columns x y column [] px = px"
| "draw_text_loop start_x color max_columns x y column (c # text) px =
    (if c = 0 \<or> \<not> y + 5 < EF2_CRASH_SCREEN_H then px
     else if c = 13 then draw_text_loop start_x color max_columns x y column text px
     else if c = 10 then draw_text_loop start_x color max_columns start_x (y + 6) 0 text px
     else if column \<ge> max_columns then
       draw_text_loop start_x color max_columns (start_x + 4) (y + 6) 1 text (draw_character start_x (y + 6) c color px)
     else draw_text_loop start_x color max_columns (x + 4) y (column + 1) text (draw_character x y c color px))"

definition draw_text :: "u32 \<Rightarrow> u32 \<Rightarrow> u8 list \<Rightarrow> u32 \<Rightarrow> u32 \<Rightarrow> u32 list \<Rightarrow> u32 list" where
  "draw_text x y text color max_columns px = draw_text_loop x color max_columns x y 0 text px"

section \<open>Lines\<close>

definition append_char :: "nat \<Rightarrow> u8 list \<Rightarrow> u8 \<Rightarrow> u8 list" where
  "append_char room line c = (if length line < room then line @ [c] else line)"

fun append_text :: "nat \<Rightarrow> u8 list \<Rightarrow> u8 list \<Rightarrow> u8 list" where
  "append_text room line [] = line"
| "append_text room line (c # text) = (if c = 0 then line else append_text room (append_char room line c) text)"

definition hex_digits :: "u8 list" where
  "hex_digits = chars ''0123456789ABCDEF''"

definition append_hex32 :: "nat \<Rightarrow> u8 list \<Rightarrow> u32 \<Rightarrow> u8 list" where
  "append_hex32 room line v =
    fold (\<lambda>shift line. append_char room line (hex_digits ! unat (drop_bit shift v AND 0x0F)))
      [28, 24, 20, 16, 12, 8, 4, 0] (append_text room line (chars ''0x''))"

definition exception_code :: "crash_frame \<Rightarrow> u32" where
  "exception_code frame = drop_bit 2 (cf_cause frame) AND 0x1F"

definition frame_gpr :: "crash_frame \<Rightarrow> nat \<Rightarrow> u32" where
  "frame_gpr frame i = ucast (cf_gpr frame ! i)"

definition crash_log_line :: "crash_frame \<Rightarrow> u8 list" where
  "crash_log_line frame =
    (let line = append_hex32 255 (append_text 255 [] (chars ''[EF2][CRASH] EXC='')) (exception_code frame);
         line = append_hex32 255 (append_text 255 line (chars '' CAUSE='')) (cf_cause frame);
         line = append_hex32 255 (append_text 255 line (chars '' EPC='')) (cf_epc frame);
         line = append_hex32 255 (append_text 255 line (chars '' BADV='')) (cf_badvaddr frame);
         line = append_hex32 255 (append_text 255 line (chars '' SP='')) (frame_gpr frame EF2_CRASH_GPR_SP);
         line = append_hex32 255 (append_text 255 line (chars '' RA='')) (frame_gpr frame EF2_CRASH_GPR_RA);
         line = append_hex32 255 (append_text 255 line (chars '' GP='')) (frame_gpr frame EF2_CRASH_GPR_GP)
     in append_char 255 line 10)"

definition crash_log_frame :: "'b bus \<Rightarrow> ('w, 'y) crash_kernel_scheme \<Rightarrow> crash_frame \<Rightarrow> ('b, 'w) crash \<Rightarrow> ('b, 'w) crash" where
  "crash_log_frame bus ker frame st =
    (let line = crash_log_line frame;
         m = put_bytes (crash_mem st) (unat (crash_line_at ker)) (line @ [0]);
         (written, log) = ef2_debug_write_raw bus m (crash_line_at ker) (word_of_nat (length line)) (crash_log st)
     in st\<lparr>crash_mem := m, crash_log := log\<rparr>)"

definition draw_register_line :: "u32 \<Rightarrow> u8 list \<Rightarrow> u32 \<Rightarrow> u32 list \<Rightarrow> u32 list" where
  "draw_register_line y label v px =
    draw_text 8 y (append_hex32 31 (append_char 31 (append_text 31 [] label) (of_char CHR '' '')) v) 0x80FFFFFF 76 px"

text \<open>The start of the last lines, as an offset into the text \<open>buffer\<close> with its terminator.\<close>

fun recent_loop :: "u8 list \<Rightarrow> nat \<Rightarrow> u32 \<Rightarrow> nat" where
  "recent_loop buffer 0 lines = 0"
| "recent_loop buffer (Suc cursor) lines =
    (if lines = 0 then Suc cursor
     else recent_loop buffer cursor (if buffer ! cursor = 10 then lines - 1 else lines))"

definition recent_log_start :: "u8 list \<Rightarrow> nat \<Rightarrow> u32 \<Rightarrow> nat" where
  "recent_log_start buffer n lines =
    (let cursor = recent_loop buffer n lines in if cursor \<noteq> 0 \<and> buffer ! cursor = 10 then cursor + 1 else cursor)"

section \<open>The screen\<close>

text \<open>The picture, given the recent log.\<close>

definition crash_picture :: "crash_frame \<Rightarrow> u8 list \<Rightarrow> u32 list" where
  "crash_picture frame recent =
    (let px = screen_fill 0x80000038;
         px = draw_text 8 6 (chars ''EF2 CRASH'') 0x8000D8FF 76 px;
         px = draw_register_line 20 (chars ''EXC'') (exception_code frame) px;
         px = draw_register_line 28 (chars ''CAUSE'') (cf_cause frame) px;
         px = draw_register_line 36 (chars ''EPC'') (cf_epc frame) px;
         px = draw_register_line 44 (chars ''BADV'') (cf_badvaddr frame) px;
         px = draw_register_line 52 (chars ''SP'') (frame_gpr frame EF2_CRASH_GPR_SP) px;
         px = draw_register_line 60 (chars ''RA'') (frame_gpr frame EF2_CRASH_GPR_RA) px;
         px = draw_register_line 68 (chars ''GP'') (frame_gpr frame EF2_CRASH_GPR_GP) px;
         px = draw_text 8 84 (chars ''RECENT RAM LOG'') 0x8000D8FF 76 px
     in draw_text 8 94 recent 0x80E8E8E8 76 px)"

text \<open>What the video library does with the picture.\<close>

definition crash_show :: "('w, 'y) crash_kernel_scheme \<Rightarrow> u16 \<Rightarrow> u16 \<Rightarrow> ('w video, unit) state" where
  "crash_show ker width height = do {
     ef2_video_reset_texture_allocator;
     (result, texture) \<leftarrow> ef2_video_upload_rgba32 ker
       (Some \<lparr>vram_address = 0, clut_address = 0, tex_width = 0, tex_height = 0, tex_buffer_width = 0, tex_psm = 0, clut_psm = 0,
          width_log2 = 0, height_log2 = 0, valid = 0, indexed = 0\<rparr>)
       (crash_pixels_at ker) (ucast EF2_CRASH_SCREEN_W) (ucast EF2_CRASH_SCREEN_H);
     if result = 0 then do {
       drawn \<leftarrow> ef2_video_draw_texture ker texture 0 0 (uint width) (uint height);
       ret () }
     else do {
       cleared \<leftarrow> ef2_video_clear ker 120 0 0;
       ret () } }"

definition crash_draw_screen :: "('w, 'y) crash_kernel_scheme \<Rightarrow> crash_frame \<Rightarrow> ('b, 'w) crash \<Rightarrow> ('b, 'w) crash" where
  "crash_draw_screen ker frame st =
    (case ef2_video_get_size True True (crash_video st) of
       (result, None) \<Rightarrow> st
     | (result, Some (width, height)) \<Rightarrow>
         let video = snd (run_state (ef2_video_set_double_buffering 0) (crash_video st));
             (recent_length, m) = ef2_debug_copy_recent (crash_log st) (crash_recent_at ker) EF2_CRASH_LOG_BYTES (crash_mem st);
             buffer = bytes_at m (unat (crash_recent_at ker)) (unat EF2_CRASH_LOG_BYTES);
             recent = drop (recent_log_start buffer (unat recent_length) 20) buffer
         in st\<lparr>g_crash_pixels := crash_picture frame recent, crash_mem := m,
               crash_video := snd (run_state (crash_show ker width height) video)\<rparr>)"

section \<open>Handlers\<close>

definition ef2_crash_install :: "('w, 'y) crash_kernel_scheme \<Rightarrow> ('b, 'w) crash \<Rightarrow> s32 \<times> ('b, 'w) crash" where
  "ef2_crash_install ker st =
    (if g_crash_installed st then (0, st)
     else
       let w = ee_world (crash_video st);
           w = fold (\<lambda>cause. ef2_kernel_set_vtlb_refill_handler ker cause (crash_vector_at ker)) [1, 2, 3] w;
           w = fold (\<lambda>cause. ef2_kernel_set_v_common_handler ker cause (crash_vector_at ker)) [4, 5, 6, 7] w;
           w = fold (\<lambda>cause. ef2_kernel_set_v_common_handler ker cause (crash_vector_at ker)) [10, 11, 12, 13] w;
           w = ef2_kernel_flush_cache ker 0 w;
           w = ef2_kernel_flush_cache ker 2 w
       in (0, st\<lparr>crash_video := (crash_video st)\<lparr>ee_world := w\<rparr>, g_crash_installed := True\<rparr>))"

definition ef2_crash_is_installed :: "('b, 'w) crash \<Rightarrow> bool" where
  "ef2_crash_is_installed st = g_crash_installed st"

text \<open>The statements of the dispatcher that change the state, one after the other: an exception between two
  of them enters the dispatcher again.\<close>

definition crash_steps ::
  "'b bus \<Rightarrow> ('w, 'y) crash_kernel_scheme \<Rightarrow> crash_frame option \<Rightarrow> (('b, 'w) crash \<Rightarrow> ('b, 'w) crash) list" where
  "crash_steps bus ker frame =
    (\<lambda>st. st\<lparr>g_crash_active := True\<rparr>) #
    (case frame of
       None \<Rightarrow> []
     | Some frame \<Rightarrow> [crash_log_frame bus ker frame, crash_draw_screen ker frame])"

definition ef2_crash_dispatch ::
  "'b bus \<Rightarrow> ('w, 'y) crash_kernel_scheme \<Rightarrow> crash_frame option \<Rightarrow> ('b, 'w) crash \<Rightarrow> ('b, 'w) crash" where
  "ef2_crash_dispatch bus ker frame st =
    (if g_crash_active st then st else fold (\<lambda>step. step) (crash_steps bus ker frame) st)"

end
