(* ===== verification/CrashSpec.thy ===== *)
theory CrashSpec
  imports Crash
begin

text \<open>
  What the crash screen shows: where a text puts its pixels, the text of the lines, and the last lines of
  the log.
\<close>

section \<open>Pixels\<close>

definition pix :: "u32 list \<Rightarrow> nat \<Rightarrow> nat \<Rightarrow> u32" where
  "pix px x y = px ! (y * 320 + x)"

lemma pixel_put_length [simp]: "length (pixel_put x y c px) = length px"
  by (simp add: pixel_put_def)

lemma pix_pixel_put:
  assumes "length px = 71680" "X < 320" "Y < 224"
  shows "pix (pixel_put x y c px) X Y = (if X = unat x \<and> Y = unat y then c else pix px X Y)"
proof (cases "x \<ge> 320 \<or> y \<ge> 224")
  case True
  then show ?thesis
    using assms by (auto simp: pixel_put_def EF2_CRASH_SCREEN_W_def EF2_CRASH_SCREEN_H_def word_le_nat_alt)
next
  case False
  then have b: "unat x < 320" "unat y < 224" by (auto simp: word_le_nat_alt)
  then have "unat (y * 320 + x) = unat y * 320 + unat x" by (simp add: unat_word_ariths)
  moreover have "Y * 320 + X = unat y * 320 + unat x \<longleftrightarrow> X = unat x \<and> Y = unat y"
    using assms(2) b(1) by (metis Nat.add_0_right div_less div_mult_self3 mod_less mod_mult_self3 zero_neq_numeral)
  ultimately show ?thesis
    using assms b False by (auto simp: pixel_put_def pix_def EF2_CRASH_SCREEN_W_def EF2_CRASH_SCREEN_H_def nth_list_update)
qed

lemma unat_add_nat: "unat x + k < 4294967296 \<Longrightarrow> unat (x + word_of_nat k :: u32) = unat x + k"
  by (simp add: unat_word_ariths unat_of_nat)

lemma draw_row_length [simp]: "length (draw_row x y bits c px) = length px"
  by (simp add: draw_row_def eval_nat_numeral)

lemma draw_character_length [simp]: "length (draw_character x y glyph c px) = length px"
  by (simp add: draw_character_def eval_nat_numeral)

definition dot :: "u8 \<Rightarrow> nat \<Rightarrow> bool" where
  "dot bits column \<longleftrightarrow> bits AND push_bit (2 - column) 1 \<noteq> 0"

lemma pix_columns:
  assumes "X < 320" "Y < 224" "unat x + 3 \<le> 320"
  shows "length px = 71680 \<Longrightarrow> set columns \<subseteq> {..<3} \<Longrightarrow>
    pix (fold (\<lambda>column px. if bits AND push_bit (2 - column) 1 \<noteq> 0 then pixel_put (x + word_of_nat column) y c px else px) columns px) X Y =
    (if Y = unat y \<and> (\<exists>column \<in> set columns. X = unat x + column \<and> dot bits column) then c else pix px X Y)"
proof (induction columns arbitrary: px)
  case (Cons column columns)
  have x: "unat (x + word_of_nat column) = unat x + column" using Cons.prems(2) assms(3) by (intro unat_add_nat) auto
  let ?px = "if bits AND push_bit (2 - column) 1 \<noteq> 0 then pixel_put (x + word_of_nat column) y c px else px"
  have d: "pix ?px X Y = (if Y = unat y \<and> X = unat x + column \<and> dot bits column then c else pix px X Y)"
    unfolding if_distrib [of "\<lambda>px. pix px X Y"] pix_pixel_put [OF Cons.prems(1) assms(1,2)] x dot_def by auto
  have "length ?px = 71680" "set columns \<subseteq> {..<3}" using Cons.prems by auto
  note ih = Cons.IH [OF this]
  show ?case unfolding fold.simps o_apply ih d by auto
qed simp

lemma pix_draw_row:
  assumes "length px = 71680" "X < 320" "Y < 224" "unat x + 3 \<le> 320"
  shows "pix (draw_row x y bits c px) X Y = (if Y = unat y \<and> unat x \<le> X \<and> X < unat x + 3 \<and> dot bits (X - unat x) then c else pix px X Y)"
proof -
  have "(\<exists>column \<in> set [0..<3]. X = unat x + column \<and> P column) \<longleftrightarrow> unat x \<le> X \<and> X < unat x + 3 \<and> P (X - unat x)" for P
    by (auto simp: le_iff_add)
  then show ?thesis using pix_columns [OF assms(2-4,1), of "[0..<3]"] by (simp add: draw_row_def atLeast0LessThan)
qed

lemma pix_rows:
  assumes "X < 320" "Y < 224" "unat x + 3 \<le> 320" "unat y \<le> 224"
  shows "length px = 71680 \<Longrightarrow> set rows \<subseteq> {..<5} \<Longrightarrow>
    pix (fold (\<lambda>row px. draw_row x (y + word_of_nat row) (bits row) c px) rows px) X Y =
    (if unat x \<le> X \<and> X < unat x + 3 \<and> (\<exists>row \<in> set rows. Y = unat y + row \<and> dot (bits row) (X - unat x)) then c else pix px X Y)"
proof (induction rows arbitrary: px)
  case (Cons row rows)
  have y: "unat (y + word_of_nat row) = unat y + row" using Cons.prems(2) assms(4) by (intro unat_add_nat) auto
  let ?px = "draw_row x (y + word_of_nat row) (bits row) c px"
  have d: "pix ?px X Y = (if Y = unat y + row \<and> unat x \<le> X \<and> X < unat x + 3 \<and> dot (bits row) (X - unat x) then c else pix px X Y)"
    using pix_draw_row [OF Cons.prems(1) assms(1,2,3), of "y + word_of_nat row" "bits row" c] by (simp only: y)
  have ih: "pix (fold (\<lambda>row px. draw_row x (y + word_of_nat row) (bits row) c px) rows ?px) X Y =
    (if unat x \<le> X \<and> X < unat x + 3 \<and> (\<exists>row \<in> set rows. Y = unat y + row \<and> dot (bits row) (X - unat x)) then c else pix ?px X Y)"
    using Cons.prems by (intro Cons.IH) auto
  show ?case unfolding fold.simps o_apply ih d by auto
qed simp

lemma pix_draw_character:
  assumes "length px = 71680" "X < 320" "Y < 224" "unat x + 3 \<le> 320" "unat y \<le> 224"
  shows "pix (draw_character x y glyph c px) X Y =
    (if unat y \<le> Y \<and> Y < unat y + 5 \<and> unat x \<le> X \<and> X < unat x + 3 \<and> dot (glyph_row glyph (Y - unat y)) (X - unat x) then c
     else pix px X Y)"
proof -
  have "(\<exists>row \<in> set [0..<5]. Y = unat y + row \<and> P row) \<longleftrightarrow> unat y \<le> Y \<and> Y < unat y + 5 \<and> P (Y - unat y)" for P
    by (auto simp: le_iff_add)
  then show ?thesis using pix_rows [OF assms(2-5,1), of "[0..<5]"] by (simp add: draw_character_def atLeast0LessThan)
qed

text \<open>Whatever its column, a character stays in its five rows.\<close>

lemma pix_row_outside:
  assumes "length px = 71680" "X < 320" "Y < 224" "Y \<noteq> unat y"
  shows "pix (draw_row x y bits c px) X Y = pix px X Y"
  using assms by (simp add: draw_row_def upt_rec pix_pixel_put)

lemma pix_character_outside:
  assumes "length px = 71680" "X < 320" "Y < 224" "unat y \<le> 224" "Y < unat y \<or> unat y + 5 \<le> Y"
  shows "pix (draw_character x y glyph c px) X Y = pix px X Y"
proof -
  have "unat (y + word_of_nat k) = unat y + k" if "k < 5" for k
    using assms(4) that by (intro unat_add_nat) auto
  then have "Y \<noteq> unat (y + word_of_nat k)" if "k < 5" for k using assms(5) that by fastforce
  from this [of 0] this [of 1] this [of 2] this [of 3] this [of 4]
  have "Y \<noteq> unat y" "Y \<noteq> unat (y + 1)" "Y \<noteq> unat (y + 2)" "Y \<noteq> unat (y + 3)" "Y \<noteq> unat (y + 4)" by simp_all
  then show ?thesis using assms(1-3) by (simp add: draw_character_def upt_rec pix_row_outside)
qed

section \<open>Text\<close>

lemma draw_text_loop_length [simp]: "length (draw_text_loop sx c n x y k cs px) = length px"
  by (induction sx c n x y k cs px rule: draw_text_loop.induct) auto

lemma draw_text_length [simp]: "length (draw_text x y cs c n px) = length px"
  by (simp add: draw_text_def)

lemma next_row: "y + 5 < EF2_CRASH_SCREEN_H \<Longrightarrow> unat y \<le> 224 \<Longrightarrow> unat (y + 6) = unat y + 6 \<and> unat y < 219"
proof -
  assume a: "y + 5 < EF2_CRASH_SCREEN_H" "unat y \<le> 224"
  have "unat (y + 5) = unat y + 5" "unat (y + 6) = unat y + 6" using a(2) by (simp_all add: unat_word_ariths)
  then show ?thesis using a(1) by (simp add: EF2_CRASH_SCREEN_H_def word_less_nat_alt)
qed

text \<open>A cs leaves the rows above it alone.\<close>

lemma pix_text_above:
  assumes "length px = 71680" "X < 320" "unat y \<le> 224" "Y < unat y"
  shows "pix (draw_text_loop sx c n x y k cs px) X Y = pix px X Y"
  using assms
proof (induction sx c n x y k cs px rule: draw_text_loop.induct)
  case (2 sx c n x y k glyph cs px)
  show ?case
  proof (cases "glyph = 0 \<or> \<not> y + 5 < EF2_CRASH_SCREEN_H")
    case False
    then have "unat (y + 6) = unat y + 6" "unat y < 219" using next_row [of y] 2(7) by auto
    then show ?thesis
      using False 2 by (auto simp: pix_character_outside)
  qed auto
qed simp

text \<open>A line: no control characters, and room for its characters on the screen.\<close>

definition line_text :: "u8 list \<Rightarrow> bool" where
  "line_text cs \<longleftrightarrow> set cs \<inter> {0, 10, 13} = {}"

lemma line_text_simps [simp]: "line_text []" "line_text (c # cs) \<longleftrightarrow> c \<noteq> 0 \<and> c \<noteq> 10 \<and> c \<noteq> 13 \<and> line_text cs"
  by (auto simp: line_text_def)

lemma pix_line:
  assumes "length px = 71680" "X < 320" "Y < 224" "line_text cs" "unat x + 4 * length cs \<le> 320" "unat y < 219"
    and "unat k + length cs \<le> 76"
  shows "pix (draw_text_loop sx c 76 x y k cs px) X Y =
    (if unat y \<le> Y \<and> Y < unat y + 5 \<and> unat x \<le> X \<and> X < unat x + 4 * length cs \<and> (X - unat x) mod 4 < 3 \<and>
        dot (glyph_row (cs ! ((X - unat x) div 4)) (Y - unat y)) ((X - unat x) mod 4) then c else pix px X Y)"
  using assms
proof (induction cs arbitrary: px x k)
  case (Cons glyph cs)
  have y: "y + 5 < EF2_CRASH_SCREEN_H"
    using Cons.prems(6) by (simp add: EF2_CRASH_SCREEN_H_def word_less_nat_alt unat_word_ariths)
  have k: "\<not> k \<ge> 76" "unat (k + 1) = unat k + 1"
    using Cons.prems(7) by (simp_all add: word_le_nat_alt unat_word_ariths)
  have x: "unat (x + 4) = unat x + 4" using Cons.prems(5) by (simp add: unat_word_ariths)
  let ?px = "draw_character x y glyph c px"
  have glyph: "pix ?px X Y = (if unat y \<le> Y \<and> Y < unat y + 5 \<and> unat x \<le> X \<and> X < unat x + 3 \<and> dot (glyph_row glyph (Y - unat y)) (X - unat x) then c
     else pix px X Y)"
    using Cons.prems by (intro pix_draw_character) auto
  have rest: "draw_text_loop sx c 76 x y k (glyph # cs) px = draw_text_loop sx c 76 (x + 4) y (k + 1) cs ?px"
    using Cons.prems(4) y k(1) by simp
  have ih: "pix (draw_text_loop sx c 76 (x + 4) y (k + 1) cs ?px) X Y =
    (if unat y \<le> Y \<and> Y < unat y + 5 \<and> unat x + 4 \<le> X \<and> X < unat x + 4 + 4 * length cs \<and> (X - (unat x + 4)) mod 4 < 3 \<and>
        dot (glyph_row (cs ! ((X - (unat x + 4)) div 4)) (Y - unat y)) ((X - (unat x + 4)) mod 4) then c else pix ?px X Y)"
    using Cons.IH [of ?px "x + 4" "k + 1"] Cons.prems by (simp add: x k(2))
  consider "X < unat x + 4" | d where "X = unat x + 4 + d"
    by (metis le_Suc_ex not_less)
  then show ?case
  proof cases
    case 1
    then have "X - unat x < 4" "X < unat x + 3 \<longleftrightarrow> X - unat x < 3 \<or> X < unat x" by auto
    then show ?thesis unfolding rest ih glyph using 1 by auto
  next
    case 2
    have "(4 + d) div 4 = Suc (d div 4)" "(4 + d) mod 4 = d mod 4" by simp_all
    then show ?thesis unfolding rest ih glyph using 2 by auto
  qed
qed auto

section \<open>The text of a line\<close>

definition hex8 :: "u32 \<Rightarrow> u8 list" where
  "hex8 v = map (\<lambda>shift. hex_digits ! unat (drop_bit shift v AND 0x0F)) [28, 24, 20, 16, 12, 8, 4, 0]"

lemma append_text_fits: "0 \<notin> set cs \<Longrightarrow> length line + length cs \<le> room \<Longrightarrow> append_text room line cs = line @ cs"
  by (induction room line cs rule: append_text.induct) (auto simp: append_char_def)

lemma append_chars_fit:
  "length line + length ks \<le> room \<Longrightarrow> fold (\<lambda>k line. append_char room line (f k)) ks line = line @ map f ks"
  by (induction ks arbitrary: line) (simp_all add: append_char_def)

lemma append_hex32_fits:
  assumes "length line + 10 \<le> room"
  shows "append_hex32 room line v = line @ chars ''0x'' @ hex8 v"
proof -
  have "append_text room line (chars ''0x'') = line @ chars ''0x''"
    using assms by (intro append_text_fits) (simp_all add: chars_def)
  moreover have "length (line @ chars ''0x'') + length [28, 24, 20, 16, 12, 8, 4, 0 :: nat] \<le> room"
    using assms by (simp add: chars_def)
  ultimately show ?thesis unfolding append_hex32_def hex8_def by (simp only: append_chars_fit append_assoc)
qed

lemma hex8_length [simp]: "length (hex8 v) = 8"
  by (simp add: hex8_def)

lemma nibble: "x AND 0x0F = (take_bit 4 x :: u32)" "unat (take_bit 4 (x :: u32)) < 16"
proof -
  show "x AND 0x0F = take_bit 4 x" by (simp add: take_bit_eq_mask mask_eq_exp_minus_1)
  show "unat (take_bit 4 x) < 16" by (simp add: unat_take_bit)
qed

lemma hex8_nth: "j < 8 \<Longrightarrow> hex8 v ! j = hex_digits ! unat (take_bit 4 (drop_bit (28 - 4 * j) v))"
  by (auto simp: hex8_def nibble less_Suc_eq eval_nat_numeral)

lemma hex_digits_facts: "length hex_digits = 16" "line_text hex_digits"
  by (simp_all add: hex_digits_def chars_def)

lemma hex8_set: "set (hex8 v) \<subseteq> set hex_digits"
  by (auto simp: hex8_def nibble hex_digits_facts intro!: nth_mem)

lemma line_text_hex8 [simp]: "line_text (hex8 v)"
  using hex8_set [of v] hex_digits_facts(2) by (auto simp: line_text_def)

lemma line_text_append [simp]: "line_text (a @ b) \<longleftrightarrow> line_text a \<and> line_text b"
  by (auto simp: line_text_def)

text \<open>The digits of a word determine it.\<close>

lemma nibbles_eq:
  assumes "\<And>j. j < 8 \<Longrightarrow> take_bit 4 (drop_bit (28 - 4 * j) v) = take_bit 4 (drop_bit (28 - 4 * j) w)"
  shows "v = (w :: u32)"
proof (rule bit_word_eqI)
  fix n assume n: "n < LENGTH(32)"
  let ?j = "7 - n div 4"
  have "n div 4 \<le> 7" using n by simp
  then have s: "28 - 4 * ?j = 4 * (n div 4)" by simp
  have "bit (take_bit 4 (drop_bit (28 - 4 * ?j) v)) (n mod 4) = bit (take_bit 4 (drop_bit (28 - 4 * ?j) w)) (n mod 4)"
    using assms [of ?j] by simp
  then show "bit v n = bit w n" unfolding s by (simp add: bit_take_bit_iff bit_drop_bit_eq)
qed

section \<open>Register lines\<close>

definition reg_text :: "u8 list \<Rightarrow> u32 \<Rightarrow> u8 list" where
  "reg_text label v = label @ chars '' 0x'' @ hex8 v"

definition reg_dot :: "u8 list \<Rightarrow> u32 \<Rightarrow> nat \<Rightarrow> nat \<Rightarrow> bool" where
  "reg_dot label v X row \<longleftrightarrow> 8 \<le> X \<and> X < 8 + 4 * length (reg_text label v) \<and> (X - 8) mod 4 < 3 \<and>
     dot (glyph_row (reg_text label v ! ((X - 8) div 4)) row) ((X - 8) mod 4)"

lemma pix_register:
  assumes "length px = 71680" "X < 320" "Y < 224" "line_text label" "length label \<le> 5" "unat y < 219"
  shows "pix (draw_register_line y label v px) X Y =
    (if unat y \<le> Y \<and> Y < unat y + 5 \<and> reg_dot label v X (Y - unat y) then 0x80FFFFFF else pix px X Y)"
proof -
  have "0 \<notin> set label" using assms(4) by (auto simp: line_text_def)
  then have "append_text 31 [] label = label" using assms(5) by (simp add: append_text_fits)
  then have t: "append_hex32 31 (append_char 31 (append_text 31 [] label) (of_char CHR '' '')) v = reg_text label v"
    using assms(5) by (simp add: append_char_def append_hex32_fits reg_text_def chars_def)
  have "line_text (reg_text label v)" "length (reg_text label v) \<le> 16"
    using assms(4,5) by (simp_all add: reg_text_def chars_def)
  then have "pix (draw_text_loop 8 0x80FFFFFF 76 8 y 0 (reg_text label v) px) X Y =
    (if unat y \<le> Y \<and> Y < unat y + 5 \<and> unat (8 :: u32) \<le> X \<and> X < unat (8 :: u32) + 4 * length (reg_text label v) \<and> (X - unat (8 :: u32)) mod 4 < 3 \<and>
        dot (glyph_row (reg_text label v ! ((X - unat (8 :: u32)) div 4)) (Y - unat y)) ((X - unat (8 :: u32)) mod 4) then 0x80FFFFFF else pix px X Y)"
    using assms by (intro pix_line) auto
  then show ?thesis unfolding draw_register_line_def t draw_text_def reg_dot_def by simp
qed

lemma register_length [simp]: "length (draw_register_line y label v px) = length px"
  by (simp add: draw_register_line_def)

lemma screen_fill_length [simp]: "length (screen_fill c) = 71680"
  by (simp add: screen_fill_def EF2_CRASH_SCREEN_W_def EF2_CRASH_SCREEN_H_def)

lemma pix_fill: "X < 320 \<Longrightarrow> Y < 224 \<Longrightarrow> pix (screen_fill c) X Y = c"
  by (simp add: pix_def screen_fill_def EF2_CRASH_SCREEN_W_def EF2_CRASH_SCREEN_H_def)

text \<open>The labels and values of the picture, with the row of each.\<close>

definition registers :: "crash_frame \<Rightarrow> (nat \<times> u8 list \<times> u32) list" where
  "registers frame = [(20, chars ''EXC'', exception_code frame), (28, chars ''CAUSE'', cf_cause frame), (36, chars ''EPC'', cf_epc frame),
     (44, chars ''BADV'', cf_badvaddr frame), (52, chars ''SP'', frame_gpr frame EF2_CRASH_GPR_SP),
     (60, chars ''RA'', frame_gpr frame EF2_CRASH_GPR_RA), (68, chars ''GP'', frame_gpr frame EF2_CRASH_GPR_GP)]"

lemma labels: "line_text (chars ''EXC'')" "line_text (chars ''CAUSE'')" "line_text (chars ''EPC'')" "line_text (chars ''BADV'')"
  "line_text (chars ''SP'')" "line_text (chars ''RA'')" "line_text (chars ''GP'')" "line_text (chars ''EF2 CRASH'')"
  "length (chars ''EXC'') \<le> 5" "length (chars ''CAUSE'') \<le> 5" "length (chars ''EPC'') \<le> 5" "length (chars ''BADV'') \<le> 5"
  "length (chars ''SP'') \<le> 5" "length (chars ''RA'') \<le> 5" "length (chars ''GP'') \<le> 5" "length (chars ''EF2 CRASH'') = 9"
  by (simp_all add: chars_def)

lemma pix_title:
  assumes "X < 320" "11 \<le> Y" "Y < 224" "length px = 71680"
  shows "pix (draw_text 8 6 (chars ''EF2 CRASH'') c 76 px) X Y = pix px X Y"
  unfolding draw_text_def using assms by (subst pix_line) (simp_all add: labels)

lemma pix_picture:
  assumes "X < 320" "11 \<le> Y" "Y < 84"
  shows "pix (crash_picture frame recent) X Y =
    (if \<exists>(y, label, v) \<in> set (registers frame). y \<le> Y \<and> Y < y + 5 \<and> reg_dot label v X (Y - y) then 0x80FFFFFF else 0x80000038)"
proof -
  let ?top = "draw_text 8 6 (chars ''EF2 CRASH'') 0x8000D8FF 76 (screen_fill 0x80000038)"
  have above: "pix (draw_text 8 84 cs c 76 px) X Y = pix px X Y" "pix (draw_text 8 94 cs c 76 px) X Y = pix px X Y"
    if "length px = 71680" for cs c px
    using pix_text_above [OF that assms(1)] assms(3) by (simp_all add: draw_text_def)
  have top: "pix ?top X Y = 0x80000038" using assms by (simp add: pix_title pix_fill)
  have reg: "pix (draw_register_line y label v px) X Y =
    (if unat y \<le> Y \<and> Y < unat y + 5 \<and> reg_dot label v X (Y - unat y) then 0x80FFFFFF else pix px X Y)"
    if "length px = 71680" "line_text label" "length label \<le> 5" "unat y < 219" for y label v px
    using pix_register [OF that(1) assms(1) _ that(2,3,4)] assms(3) by simp
  show ?thesis
    unfolding crash_picture_def Let_def
    by (subst above, simp, subst above, simp, (subst reg, simp, simp add: labels, simp add: labels, simp)+, subst top)
      (simp add: registers_def)
qed

text \<open>The digits have different glyphs.\<close>

definition glyph_dots :: "u8 \<Rightarrow> bool list" where
  "glyph_dots c = [dot (glyph_row c row) column. row \<leftarrow> [0..<5], column \<leftarrow> [0..<3]]"

lemma glyph_dots_distinct: "distinct (map glyph_dots hex_digits)"
  by code_simp

lemma glyph_dots_eq:
  assumes "\<And>row column. row < 5 \<Longrightarrow> column < 3 \<Longrightarrow> dot (glyph_row (hex_digits ! a) row) column = dot (glyph_row (hex_digits ! b) row) column"
    and "a < 16" "b < 16"
  shows "a = b"
proof -
  have "glyph_dots (hex_digits ! a) = glyph_dots (hex_digits ! b)"
    unfolding glyph_dots_def using assms(1) by (intro arg_cong [where f = concat] map_cong) auto
  then show ?thesis
    using glyph_dots_distinct assms(2,3) by (simp add: distinct_conv_nth hex_digits_facts) metis
qed

lemma reg_dot_digit:
  assumes "j < 8" "column < 3"
  shows "reg_dot label v (8 + (4 * (length label + 3 + j) + column)) row = dot (glyph_row (hex8 v ! j) row) column"
proof -
  let ?k = "length label + 3 + j"
  have "(4 * ?k + column) div 4 = ?k" "(4 * ?k + column) mod 4 = column" using assms(2) by presburger+
  moreover have "reg_text label v ! ?k = hex8 v ! j" by (simp add: reg_text_def nth_append chars_def)
  moreover have "4 * ?k + column < 4 * length (reg_text label v)" using assms by (simp add: reg_text_def chars_def)
  ultimately show ?thesis unfolding reg_dot_def diff_add_inverse using assms(2) by simp
qed

lemma reg_dot_inj:
  assumes "\<And>X row. X < 320 \<Longrightarrow> row < 5 \<Longrightarrow> reg_dot label v X row = reg_dot label w X row" "length label \<le> 5"
  shows "v = w"
proof (rule nibbles_eq)
  fix j :: nat assume j: "j < 8"
  have "dot (glyph_row (hex8 v ! j) row) column = dot (glyph_row (hex8 w ! j) row) column" if "row < 5" "column < 3" for row column
    using assms(1) [of "8 + (4 * (length label + 3 + j) + column)" row] assms(2) j that by (simp only: reg_dot_digit) simp
  then have "unat (take_bit 4 (drop_bit (28 - 4 * j) v)) = unat (take_bit 4 (drop_bit (28 - 4 * j) w))"
    using j by (intro glyph_dots_eq nibble(2)) (simp add: hex8_nth)
  then show "take_bit 4 (drop_bit (28 - 4 * j) v) = take_bit 4 (drop_bit (28 - 4 * j) w)" by (simp add: word_unat_eq_iff)
qed

lemma register_shown:
  assumes "k < 7" "row < 5" "X < 320" "registers frame ! k = (y, label, v)"
  shows "pix (crash_picture frame recent) X (y + row) = 0x80FFFFFF \<longleftrightarrow> reg_dot label v X row"
proof -
  have "k = 0 \<or> k = 1 \<or> k = 2 \<or> k = 3 \<or> k = 4 \<or> k = 5 \<or> k = 6" using assms(1) by linarith
  then have "20 \<le> y" "y \<le> 68" and *: "(\<exists>(y', l', v') \<in> set (registers frame). y' \<le> y + row \<and> y + row < y' + 5 \<and> reg_dot l' v' X (y + row - y')) \<longleftrightarrow>
      reg_dot label v X row"
    using assms(2,4) by (elim disjE; simp add: registers_def; elim conjE; hypsubst; simp)+
  then show ?thesis using assms(2,3) by (subst pix_picture) (simp_all add: *)
qed

lemma picture_registers:
  assumes "crash_picture f r = crash_picture g r'" "k < 7"
  shows "snd (snd (registers f ! k)) = snd (snd (registers g ! k))"
proof -
  obtain y label v where f: "registers f ! k = (y, label, v)" by (metis prod.collapse)
  obtain w where g: "registers g ! k = (y, label, w)" and label: "length label \<le> 5"
    using assms(2) f by (auto simp: registers_def chars_def less_Suc_eq eval_nat_numeral)
  have "reg_dot label v X row = reg_dot label w X row" if "X < 320" "row < 5" for X row
    using register_shown [OF assms(2) that(2,1) f, of r] register_shown [OF assms(2) that(2,1) g, of r'] assms(1) by simp
  then have "v = w" using label by (rule reg_dot_inj)
  then show ?thesis by (simp add: f g)
qed

end
