(* ===== verification/CrashProps.thy ===== *)
theory CrashProps
  imports CrashSpec DebugProps VideoProps
begin

text \<open>
  The properties of the crash screen.
\<close>

section \<open>The report in the log\<close>

definition crash_report :: "crash_frame \<Rightarrow> u8 list" where
  "crash_report frame =
     chars ''[EF2][CRASH] EXC=0x'' @ hex8 (exception_code frame) @ chars '' CAUSE=0x'' @ hex8 (cf_cause frame) @
     chars '' EPC=0x'' @ hex8 (cf_epc frame) @ chars '' BADV=0x'' @ hex8 (cf_badvaddr frame) @
     chars '' SP=0x'' @ hex8 (frame_gpr frame EF2_CRASH_GPR_SP) @ chars '' RA=0x'' @ hex8 (frame_gpr frame EF2_CRASH_GPR_RA) @
     chars '' GP=0x'' @ hex8 (frame_gpr frame EF2_CRASH_GPR_GP) @ [10]"

lemma append_field:
  "0 \<notin> set cs \<Longrightarrow> length line + length cs + 10 \<le> 255 \<Longrightarrow>
   append_hex32 255 (append_text 255 line cs) v = line @ cs @ chars ''0x'' @ hex8 v"
  by (simp add: append_text_fits append_hex32_fits)

lemma crash_log_line_exact: "crash_log_line frame = crash_report frame"
proof -
  have cs: "0 \<notin> set (chars ''[EF2][CRASH] EXC='')" "0 \<notin> set (chars '' CAUSE='')" "0 \<notin> set (chars '' EPC='')"
      "0 \<notin> set (chars '' BADV='')" "0 \<notin> set (chars '' SP='')" "0 \<notin> set (chars '' RA='')" "0 \<notin> set (chars '' GP='')"
      "length (chars ''[EF2][CRASH] EXC='') = 17" "length (chars '' CAUSE='') = 7" "length (chars '' EPC='') = 5"
      "length (chars '' BADV='') = 6" "length (chars '' SP='') = 4" "length (chars '' RA='') = 4" "length (chars '' GP='') = 4"
      "length (chars ''0x'') = 2"
    by (simp_all add: chars_def)
  have split: "chars ''[EF2][CRASH] EXC=0x'' = chars ''[EF2][CRASH] EXC='' @ chars ''0x''" "chars '' CAUSE=0x'' = chars '' CAUSE='' @ chars ''0x''"
      "chars '' EPC=0x'' = chars '' EPC='' @ chars ''0x''" "chars '' BADV=0x'' = chars '' BADV='' @ chars ''0x''"
      "chars '' SP=0x'' = chars '' SP='' @ chars ''0x''" "chars '' RA=0x'' = chars '' RA='' @ chars ''0x''" "chars '' GP=0x'' = chars '' GP='' @ chars ''0x''"
    by (simp_all add: chars_def)
  show ?thesis
    unfolding crash_log_line_def crash_report_def Let_def split
    by (simp add: append_field cs append_char_def)
qed

lemma crash_report_length: "length (crash_report frame) = 118"
  by (simp add: crash_report_def chars_def)

lemma log_frame:
  assumes "ring_rel (crash_log st) xs" "crash_line_at ker \<noteq> 0" "unat (crash_line_at ker) + 119 \<le> 4294967296"
  shows "\<exists>m log. crash_log_frame bus ker frame st = st\<lparr>crash_mem := m, crash_log := log\<rparr> \<and> ring_rel log (xs @ crash_report frame)"
proof -
  let ?line = "crash_report frame"
  let ?m = "put_bytes (crash_mem st) (unat (crash_line_at ker)) (?line @ [0])"
  obtain r log where w: "ef2_debug_write_raw bus ?m (crash_line_at ker) (word_of_nat (length ?line)) (crash_log st) = (r, log)"
    by (metis prod.collapse)
  have "bytes_at ?m (unat (crash_line_at ker)) (length (?line @ [0])) = ?line @ [0]"
    using assms(3) by (intro bytes_at_put) (simp add: crash_report_length)
  then have b: "bytes_at ?m (unat (crash_line_at ker)) (length ?line) = ?line"
    unfolding length_append bytes_at_add by simp
  have "ring_rel log (xs @ ?line)"
    using debug_write_raw_rel(1) [OF assms(1,2) w] b by (simp add: crash_report_length)
  then show ?thesis by (auto simp: crash_log_frame_def crash_log_line_exact w)
qed

section \<open>The last lines\<close>

lemma recent_loop_last:
  assumes "recent_loop buffer n lines = c"
  shows "c \<le> n \<and> (n \<le> length buffer \<longrightarrow> (let k = count_list (drop c (take n buffer)) 10 in
    k \<le> unat lines \<and> (c \<noteq> 0 \<longrightarrow> k = unat lines \<and> (c < n \<longrightarrow> buffer ! c = 10))))"
  using assms
proof (induction buffer n lines rule: recent_loop.induct)
  case (2 buffer cursor lines)
  show ?case
  proof (cases "lines = 0")
    case False
    let ?l = "if buffer ! cursor = 10 then lines - 1 else lines"
    have l: "unat ?l + (if buffer ! cursor = 10 then 1 else 0) = unat lines"
      using False by (auto simp: unat_minus_one unat_gt_0 Suc_leI)
    have c: "recent_loop buffer cursor ?l = c" using 2(2) False by simp
    note ih = 2(1) [OF False c]
    have "drop c (take (Suc cursor) buffer) = drop c (take cursor buffer) @ [buffer ! cursor]" if "cursor < length buffer"
      using ih that by (simp add: take_Suc_conv_app_nth)
    moreover have "0 < unat lines" using False by (simp add: unat_gt_0)
    ultimately show ?thesis using ih l by (auto simp: Let_def less_Suc_eq split: if_splits)
  qed (use 2 in auto)
qed simp

text \<open>Only the text and its terminator matter.\<close>

lemma recent_loop_cong: "(\<And>i. i < n \<Longrightarrow> b ! i = b' ! i) \<Longrightarrow> recent_loop b n lines = recent_loop b' n lines"
  by (induction b n lines rule: recent_loop.induct) auto

lemma recent_loop_le: "recent_loop b n lines \<le> n"
  by (induction b n lines rule: recent_loop.induct) (auto simp: le_Suc_eq)

lemma recent_log_start_cong:
  assumes "\<And>i. i \<le> n \<Longrightarrow> b ! i = b' ! i" shows "recent_log_start b n lines = recent_log_start b' n lines"
proof -
  have "recent_loop b n lines = recent_loop b' n lines" using assms by (intro recent_loop_cong) simp
  then show ?thesis using assms [OF recent_loop_le] by (simp add: recent_log_start_def Let_def)
qed

lemma recent_loop_zero:
  "recent_loop buffer n lines = 0 \<Longrightarrow> n \<le> length buffer \<Longrightarrow> lines \<noteq> 0 \<Longrightarrow>
   count_list (drop 1 (take n buffer)) 10 < unat lines"
proof (induction buffer n lines rule: recent_loop.induct)
  case (1 buffer lines)
  then show ?case by (simp add: unat_gt_0)
next
  case (2 buffer cursor lines)
  let ?l = "if buffer ! cursor = 10 then lines - 1 else lines"
  have c: "recent_loop buffer cursor ?l = 0" using 2(2,4) by simp
  have l: "unat ?l + (if buffer ! cursor = 10 then 1 else 0) = unat lines" "0 < unat lines"
    using 2(4) by (auto simp: unat_minus_one unat_gt_0 Suc_leI)
  show ?case
  proof (cases "cursor = 0")
    case False
    have t: "drop 1 (take (Suc cursor) buffer) = drop 1 (take cursor buffer) @ [buffer ! cursor]"
      using False 2(3) by (simp add: take_Suc_conv_app_nth)
    have "?l \<noteq> 0"
    proof
      assume z: "?l = 0"
      obtain k where "cursor = Suc k" using False by (cases cursor) auto
      then show False using c z by simp
    qed
    then show ?thesis using 2(1) [OF 2(4) c] 2(3) l unfolding t by (auto split: if_splits)
  qed (use l 2(3) in \<open>simp add: take_Suc split: list.split\<close>)
qed

text \<open>C37: Where the crash screen starts the text of the log.  For a text with its terminator and a positive number
  of lines, the start is within the text.  It is the beginning of the text exactly when fewer line feeds
  than lines follow the first character; otherwise it is just after a line feed, and one line feed fewer
  than lines follows, so that the lines asked for are shown.  The text that the screen passes is the end of the log,
  at most 1023 characters, whose beginning may be in the middle of a line.\<close>

theorem recent_log_lines:
  assumes "lines \<noteq> 0"
  shows "let s = recent_log_start (cs @ 0 # junk) (length cs) lines
    in s \<le> length cs \<and> (s = 0 \<longleftrightarrow> count_list (drop 1 cs) 10 < unat lines) \<and>
       (s \<noteq> 0 \<longrightarrow> cs ! (s - 1) = 10 \<and> Suc (count_list (drop s cs) 10) = unat lines)"
proof -
  let ?b = "cs @ 0 # junk"
  define c where "c = recent_loop ?b (length cs) lines"
  have c: "c \<le> length cs" "count_list (drop c cs) 10 \<le> unat lines"
      "c \<noteq> 0 \<Longrightarrow> count_list (drop c cs) 10 = unat lines \<and> (c < length cs \<longrightarrow> cs ! c = 10)"
    using recent_loop_last [OF c_def [symmetric]] by (auto simp: Let_def nth_append)
  show ?thesis
  proof (cases "c \<noteq> 0")
    case True
    have "0 < unat lines" using assms by (simp add: unat_gt_0)
    then have "c < length cs" using c(3) [OF True] c(1) by (cases "c = length cs") auto
    then have "cs ! c = 10" "drop c cs = 10 # drop (Suc c) cs" using c(3) [OF True] by (auto simp: Cons_nth_drop_Suc [symmetric])
    moreover have "count_list (drop c cs) 10 \<le> count_list (drop 1 cs) 10"
    proof -
      have "drop 1 cs = take (c - 1) (drop 1 cs) @ drop c cs"
        using True append_take_drop_id [of "c - 1" "drop 1 cs"] by simp
      then show ?thesis by (metis count_list_append le_add2)
    qed
    ultimately show ?thesis
      using c(3) [OF True] \<open>c < length cs\<close> True
      by (simp add: recent_log_start_def c_def [symmetric] Let_def nth_append)
  next
    case False
    then have "recent_loop ?b (length cs) lines = 0" by (simp add: c_def)
    from recent_loop_zero [OF this _ assms] have "count_list (drop 1 cs) 10 < unat lines" by simp
    then show ?thesis using False by (simp add: recent_log_start_def c_def [symmetric] Let_def)
  qed
qed

text \<open>The last two of three lines.\<close>

theorem recent_log_lines_witness:
  "let s = recent_log_start ([97, 10, 98, 10, 99] @ 0 # []) (length [97 :: u8, 10, 98, 10, 99]) 2
    in s \<noteq> 0 \<and> [97 :: u8, 10, 98, 10, 99] ! (s - 1) = 10 \<and> count_list (drop s [97 :: u8, 10, 98, 10, 99]) 10 = 1"
  using recent_log_lines [of 2 "[97, 10, 98, 10, 99]" "[]"] by (simp add: Let_def)

section \<open>The screen\<close>

text \<open>C38: The registers can be read off the crash screen: with the same log below, the pictures of two
  frames are equal exactly if cause, exception address, bad address, stack pointer, return address and
  global pointer agree.  Every digit of every value is within the screen, and different digits have
  different pixels.\<close>

theorem crash_screen_readable:
  "crash_picture f recent = crash_picture g recent \<longleftrightarrow>
    cf_cause f = cf_cause g \<and> cf_epc f = cf_epc g \<and> cf_badvaddr f = cf_badvaddr g \<and>
    frame_gpr f EF2_CRASH_GPR_SP = frame_gpr g EF2_CRASH_GPR_SP \<and> frame_gpr f EF2_CRASH_GPR_RA = frame_gpr g EF2_CRASH_GPR_RA \<and>
    frame_gpr f EF2_CRASH_GPR_GP = frame_gpr g EF2_CRASH_GPR_GP"
proof
  assume "crash_picture f recent = crash_picture g recent"
  note eq = picture_registers [OF this]
  show "cf_cause f = cf_cause g \<and> cf_epc f = cf_epc g \<and> cf_badvaddr f = cf_badvaddr g \<and>
    frame_gpr f EF2_CRASH_GPR_SP = frame_gpr g EF2_CRASH_GPR_SP \<and> frame_gpr f EF2_CRASH_GPR_RA = frame_gpr g EF2_CRASH_GPR_RA \<and>
    frame_gpr f EF2_CRASH_GPR_GP = frame_gpr g EF2_CRASH_GPR_GP"
    using eq [of 1] eq [of 2] eq [of 3] eq [of 4] eq [of 5] eq [of 6] by (simp add: registers_def)
next
  assume "cf_cause f = cf_cause g \<and> cf_epc f = cf_epc g \<and> cf_badvaddr f = cf_badvaddr g \<and>
    frame_gpr f EF2_CRASH_GPR_SP = frame_gpr g EF2_CRASH_GPR_SP \<and> frame_gpr f EF2_CRASH_GPR_RA = frame_gpr g EF2_CRASH_GPR_RA \<and>
    frame_gpr f EF2_CRASH_GPR_GP = frame_gpr g EF2_CRASH_GPR_GP"
  then show "crash_picture f recent = crash_picture g recent" by (simp add: crash_picture_def exception_code_def)
qed

text \<open>A text ends at its terminator.\<close>

lemma draw_text_terminated: "draw_text x y (cs @ 0 # junk) c n px = draw_text x y cs c n px"
proof -
  have "draw_text_loop sx c n x y k (cs @ 0 # junk) px = draw_text_loop sx c n x y k cs px" for sx x y k px
    by (induction cs arbitrary: x y k px) simp_all
  then show ?thesis by (simp add: draw_text_def)
qed

lemma crash_picture_terminated: "crash_picture f (cs @ 0 # junk) = crash_picture f cs"
  by (simp add: crash_picture_def draw_text_terminated)

text \<open>The end of the log that the screen can hold.\<close>

definition log_tail :: "u8 list \<Rightarrow> u8 list" where
  "log_tail ys = drop (length ys - min (length ys) 1023) ys"

lemma draw_screen:
  assumes "ring_rel (crash_log st) ys" "crash_recent_at ker \<noteq> 0" "unat (crash_recent_at ker) + 1024 \<le> 4294967296" "\<not> video_off (crash_video st)"
  shows "g_crash_pixels (crash_draw_screen ker frame st) =
    crash_picture frame (drop (recent_log_start (log_tail ys @ [0]) (length (log_tail ys)) 20) (log_tail ys))"
proof -
  let ?p = "unat (crash_recent_at ker)" and ?t = "log_tail ys"
  have len: "length ?t = min (length ys) 1023" "length ?t < 1024" by (simp_all add: log_tail_def)
  have "unat (crash_recent_at ker) \<noteq> 0" using assms(2) by (metis unat_gt_0 not_gr_zero)
  then have "ef2_debug_copy_recent (crash_log st) (crash_recent_at ker) EF2_CRASH_LOG_BYTES (crash_mem st) =
      (w32 (length ?t), put_bytes (crash_mem st) ?p (?t @ [0]))"
    using copy_recent_exact [OF assms(1), of "crash_recent_at ker" EF2_CRASH_LOG_BYTES "crash_mem st"] assms(3)
    by (simp add: EF2_CRASH_LOG_BYTES_def log_tail_def min.assoc)
  moreover obtain junk where junk: "bytes_at (put_bytes (crash_mem st) ?p (?t @ [0])) ?p 1024 = ?t @ 0 # junk"
  proof -
    have "bytes_at (put_bytes (crash_mem st) ?p (?t @ [0])) ?p (length (?t @ [0]) + (1023 - length ?t)) =
        (?t @ [0]) @ bytes_at (put_bytes (crash_mem st) ?p (?t @ [0])) (?p + length (?t @ [0])) (1023 - length ?t)"
      unfolding bytes_at_add using assms(3) len by (subst bytes_at_put) simp_all
    moreover have "length (?t @ [0]) + (1023 - length ?t) = 1024" using len by simp
    ultimately show ?thesis using that by simp
  qed
  moreover have start: "recent_log_start (?t @ 0 # junk) (length ?t) 20 = recent_log_start (?t @ [0]) (length ?t) 20"
    by (rule recent_log_start_cong) (simp add: nth_append)
  moreover have "recent_log_start (?t @ [0]) (length ?t) 20 \<le> length ?t"
  proof -
    have "recent_loop (?t @ [0]) (length ?t) 20 \<le> length ?t" by (rule recent_loop_le)
    then show ?thesis by (cases "recent_loop (?t @ [0]) (length ?t) 20 = length ?t") (auto simp: recent_log_start_def Let_def nth_append)
  qed
  moreover have "unat (w32 (length ?t)) = length ?t" using len by (simp add: unat_w32)
  ultimately show ?thesis
    using assms(4)
    by (simp add: crash_draw_screen_def ef2_video_get_size_def EF2_CRASH_LOG_BYTES_def Let_def crash_picture_terminated)
qed

lemma draw_screen_video:
  assumes "\<not> video_off (crash_video st)"
  shows "crash_video (crash_draw_screen ker frame st) =
    snd (run_state (crash_show ker (ef2_video_width (crash_video st)) (ef2_video_height (crash_video st)))
      (snd (run_state (ef2_video_set_double_buffering 0) (crash_video st))))"
  using assms by (simp add: crash_draw_screen_def ef2_video_get_size_def Let_def split: prod.split)

lemma log_frame_video: "crash_video (crash_log_frame bus ker frame st) = crash_video st"
  by (simp add: crash_log_frame_def Let_def split: prod.split)

lemma steps_active:
  fixes st :: "('b, 'w) crash"
  shows "0 < k \<Longrightarrow> g_crash_active (fold (\<lambda>step. step) (take k (crash_steps bus ker frame)) st)"
proof -
  have log: "g_crash_active (crash_log_frame bus ker f s) = g_crash_active s" for f and s :: "('b, 'w) crash"
    by (simp add: crash_log_frame_def Let_def split: prod.split)
  have draw: "g_crash_active (crash_draw_screen ker f s) = g_crash_active s" for f and s :: "('b, 'w) crash"
    by (auto simp: crash_draw_screen_def Let_def split: prod.split option.split)
  have keep: "g_crash_active (fold (\<lambda>step. step) (take j [crash_log_frame bus ker f, crash_draw_screen ker f]) s) = g_crash_active s"
    for j f s using log draw by (cases j; cases "j - 1") simp_all
  assume "0 < k"
  then show ?thesis by (cases k) (auto simp: crash_steps_def keep split: option.split)
qed

text \<open>The texture structure on the stack of the dispatcher, before the upload fills it in.\<close>

definition no_texture :: video_texture where
  "no_texture = \<lparr>vram_address = 0, clut_address = 0, tex_width = 0, tex_height = 0, tex_buffer_width = 0, tex_psm = 0,
     clut_psm = 0, width_log2 = 0, height_log2 = 0, valid = 0, indexed = 0\<rparr>"

text \<open>C39: The first crash is reported and a crash while reporting is not reported again.  The report, in
  full, is the newest text of the debug log.  With the video library running, the picture has the
  registers and the end of that log, the report included, and the video library is told to turn double
  buffering off, to release its textures, to upload the 320 by 224 pixels, and to draw them over the whole
  screen or, when the upload is refused, to clear it to dark red.  Once the dispatcher has passed its test
  and run its first statement, with any number of those behind it, an exception that enters it again
  changes nothing.\<close>

theorem crash_dispatch_reports:
  assumes "ring_rel (crash_log st) xs" "\<not> g_crash_active st" "crash_line_at ker \<noteq> 0" "unat (crash_line_at ker) + 119 \<le> 4294967296"
    and "crash_recent_at ker \<noteq> 0" "unat (crash_recent_at ker) + 1024 \<le> 4294967296" "\<not> video_off (crash_video st)"
  shows "let st' = ef2_crash_dispatch bus ker (Some frame) st; tail = log_tail (xs @ crash_report frame);
      single = snd (run_state (ef2_video_set_double_buffering 0) (crash_video st));
      released = snd (run_state ef2_video_reset_texture_allocator single);
      ((result, texture), uploaded) = run_state (ef2_video_upload_rgba32 ker (Some no_texture) (crash_pixels_at ker) 320 224) released;
      show = (if result = 0
        then ef2_video_draw_texture ker texture 0 0 (uint (ef2_video_width (crash_video st))) (uint (ef2_video_height (crash_video st)))
        else ef2_video_clear ker 120 0 0)
    in ring_rel (crash_log st') (xs @ crash_report frame) \<and>
       g_crash_pixels st' = crash_picture frame (drop (recent_log_start (tail @ [0]) (length tail) 20) tail) \<and>
       crash_video st' = snd (run_state show uploaded) \<and>
       (\<forall>k again. let during = fold (\<lambda>step. step) (take (Suc k) (crash_steps bus ker (Some frame))) st
         in ef2_crash_dispatch bus ker again during = during)"
proof -
  let ?st = "st\<lparr>g_crash_active := True\<rparr>" and ?ys = "xs @ crash_report frame"
  have "ring_rel (crash_log ?st) xs" using assms(1) by simp
  then obtain m log where l: "crash_log_frame bus ker frame ?st = ?st\<lparr>crash_mem := m, crash_log := log\<rparr>" "ring_rel log ?ys"
    using log_frame [OF _ assms(3,4)] by blast
  let ?st1 = "?st\<lparr>crash_mem := m, crash_log := log\<rparr>"
  have run: "ef2_crash_dispatch bus ker (Some frame) st = crash_draw_screen ker frame ?st1"
    using assms(2) by (simp add: ef2_crash_dispatch_def crash_steps_def l(1))
  have pixels: "g_crash_pixels (crash_draw_screen ker frame ?st1) =
      crash_picture frame (drop (recent_log_start (log_tail ?ys @ [0]) (length (log_tail ?ys)) 20) (log_tail ?ys))"
    using assms(5-7) l(2) by (intro draw_screen) simp_all
  have log: "crash_log (crash_draw_screen ker frame ?st1) = log"
    by (auto simp: crash_draw_screen_def Let_def split: prod.split option.split)
  have video: "crash_video (crash_draw_screen ker frame ?st1) =
      snd (run_state (crash_show ker (ef2_video_width (crash_video st)) (ef2_video_height (crash_video st)))
        (snd (run_state (ef2_video_set_double_buffering 0) (crash_video st))))"
    using draw_screen_video [of ?st1] assms(7) by simp
  have again: "ef2_crash_dispatch bus ker a (fold (\<lambda>step. step) (take (Suc k) (crash_steps bus ker (Some frame))) st) =
      fold (\<lambda>step. step) (take (Suc k) (crash_steps bus ker (Some frame))) st" for a k
    using steps_active [of "Suc k" bus ker "Some frame" st] by (subst ef2_crash_dispatch_def) simp
  have size: "ucast EF2_CRASH_SCREEN_W = (320 :: u16)" "ucast EF2_CRASH_SCREEN_H = (224 :: u16)"
    by (simp_all add: EF2_CRASH_SCREEN_W_def EF2_CRASH_SCREEN_H_def)
  show ?thesis
    unfolding Let_def run log pixels video again crash_show_def no_texture_def size
    using l(2) by (auto split: prod.split)
qed

definition quiet_crash_kernel :: "unit crash_kernel" where
  "quiet_crash_kernel = \<lparr>rd8 = (\<lambda>a w. (0, w)), rd16 = (\<lambda>a w. (0, w)), rd32 = (\<lambda>a w. (0, w)), wr8 = (\<lambda>a v w. w),
     wr16 = (\<lambda>a v w. w), wr32 = (\<lambda>a v w. w), rd64 = (\<lambda>a w. (0, w)), wr64 = (\<lambda>a v w. w), ld_word = (\<lambda>a w. 0),
     st_word = (\<lambda>a v w. w), st_qword = (\<lambda>a q w. w), ef2_cpu_count = (\<lambda>w. (0, w)), cache_line = (\<lambda>a w. w),
     ef2_gif_reset = (\<lambda>w. w), ef2_gif_send_qwords = (\<lambda>p n w. w), ef2_kernel_set_gs_crt = (\<lambda>i m f w. w),
     ef2_iop_get_romver = (\<lambda>w. ((-1, []), w)), packet_at = 0x100000, clut_stage_at = 0x200000,
     ld_byte = (\<lambda>a w. 0), st_byte = (\<lambda>a v w. w), read_status = (\<lambda>w. (0, w)), write_status = (\<lambda>v w. w),
     di = (\<lambda>w. w), ei = (\<lambda>w. w), ef2_kernel_flush_cache = (\<lambda>n w. w),
     ef2_kernel_add_dmac_handler = (\<lambda>c w. (0, w)), ef2_kernel_add_intc_handler2 = (\<lambda>c h n a w. (0, w)),
     ef2_kernel_remove_intc_handler = (\<lambda>c i w. (0, w)), ef2_kernel_enable_intc = (\<lambda>c w. (0, w)),
     ef2_kernel_disable_intc = (\<lambda>c w. (0, w)), ef2_kernel_add_dmac_handler2 = (\<lambda>c h n a w. (0, w)),
     ef2_kernel_remove_dmac_handler = (\<lambda>c i w. (0, w)), ef2_kernel_enable_dmac = (\<lambda>c w. (0, w)),
     ef2_kernel_disable_dmac = (\<lambda>c w. (0, w)), ef2_kernel_sif_set_dma = (\<lambda>ts w. (1, w)),
     ef2_kernel_sif_dma_stat = (\<lambda>i w. (-1, w)), ef2_kernel_sif_set_dchain = (\<lambda>w. w), ef2_kernel_isif_set_dchain = (\<lambda>w. w),
     ef2_kernel_sif_get_reg = (\<lambda>r w. (1, w)), ef2_kernel_sif_set_reg = (\<lambda>r v w. w),
     ef2_kernel_set_vtlb_refill_handler = (\<lambda>c h w. w), ef2_kernel_set_v_common_handler = (\<lambda>c h w. w),
     crash_vector_at = 0x400000, crash_pixels_at = 0x410000, crash_recent_at = 0x500000, crash_line_at = 0x600000\<rparr>"

definition first_crash :: "(unit, unit) crash" where
  "first_crash = \<lparr>g_crash_installed = True, g_crash_active = False, g_crash_pixels = [], crash_mem = (\<lambda>a. 0), crash_log = log_start,
     crash_video = small_picture\<rparr>"

definition null_frame :: crash_frame where
  "null_frame = \<lparr>cf_gpr = replicate 32 0, cf_status = 0, cf_cause = 8, cf_epc = 0, cf_error_epc = 0, cf_badvaddr = 0\<rparr>"

theorem crash_dispatch_reports_witness:
  "let st' = ef2_crash_dispatch null_bus quiet_crash_kernel (Some null_frame) first_crash; tail = log_tail (crash_report null_frame)
    in ring_rel (crash_log st') (crash_report null_frame) \<and>
       g_crash_pixels st' = crash_picture null_frame (drop (recent_log_start (tail @ [0]) (length tail) 20) tail) \<and>
       ef2_crash_dispatch null_bus quiet_crash_kernel None (first_crash\<lparr>g_crash_active := True\<rparr>) = first_crash\<lparr>g_crash_active := True\<rparr>"
proof -
  have "ring_rel (crash_log first_crash) []" "\<not> g_crash_active first_crash" "crash_line_at quiet_crash_kernel \<noteq> 0"
    "unat (crash_line_at quiet_crash_kernel) + 119 \<le> 4294967296" "crash_recent_at quiet_crash_kernel \<noteq> 0"
    "unat (crash_recent_at quiet_crash_kernel) + 1024 \<le> 4294967296" "\<not> video_off (crash_video first_crash)"
    by (simp_all add: first_crash_def quiet_crash_kernel_def log_start_def ring_rel_reset)
  note report = crash_dispatch_reports [OF this, of null_bus null_frame]
  have during: "fold (\<lambda>step. step) (take (Suc 0) (crash_steps null_bus quiet_crash_kernel (Some null_frame))) first_crash =
      first_crash\<lparr>g_crash_active := True\<rparr>"
    by (simp add: crash_steps_def)
  note parts = report [unfolded Let_def case_prod_unfold append_Nil]
  have "ef2_crash_dispatch null_bus quiet_crash_kernel None (first_crash\<lparr>g_crash_active := True\<rparr>) = first_crash\<lparr>g_crash_active := True\<rparr>"
    using parts [THEN conjunct2, THEN conjunct2, THEN conjunct2, THEN spec [of _ 0], THEN spec [of _ None]]
    unfolding during .
  then show ?thesis
    unfolding Let_def using parts [THEN conjunct1] parts [THEN conjunct2, THEN conjunct1] by blast
qed

end
