(* ===== verification/Runtime.thy ===== *)
theory Runtime
  imports LibcAlloc
begin

text \<open>
  The start of a program, \<open>src/ee/runtime/runtime.c\<close>: finding the arguments that the loader has left, the
  call of \<open>main\<close> and the exit.  \<open>main\<close>, the system calls and the memory that the loader has written are
  parameters.  \<open>ef2_runtime_exit\<close> does not return: the model gives the state after the system call.
\<close>

datatype runtime_args_source = Args_none | Args_direct | Args_sargs_start | Args_sargs

record runtime_args =
  ra_argc :: s32
  ra_argv :: u32
  ra_raw_a0 :: u32
  ra_raw_a1 :: u32
  ra_source :: runtime_args_source

definition EF2_RUNTIME_MAX_ARGS :: nat where "EF2_RUNTIME_MAX_ARGS = 16"
definition EF2_RUNTIME_USER_MIN :: u32 where "EF2_RUNTIME_USER_MIN = 0x00100000"
definition EF2_RUNTIME_USER_MAX :: u32 where "EF2_RUNTIME_USER_MAX = 0x02000000"

definition ef2_runtime_user_pointer :: "u32 \<Rightarrow> bool" where
  "ef2_runtime_user_pointer v \<longleftrightarrow> v \<ge> EF2_RUNTIME_USER_MIN \<and> v < EF2_RUNTIME_USER_MAX \<and> v AND 3 = 0"

definition ef2_runtime_argc_valid :: "s32 \<Rightarrow> bool" where
  "ef2_runtime_argc_valid argc \<longleftrightarrow> argc \<ge> 0 \<and> argc \<le> int EF2_RUNTIME_MAX_ARGS"

text \<open>The count and the vector of a structure of the loader: \<open>argc\<close> is its first word, \<open>argv\<close> follows.  A
  start structure has the process number before it.\<close>

definition capture_at :: "mem \<Rightarrow> u32 \<Rightarrow> runtime_args_source \<Rightarrow> runtime_args \<Rightarrow> runtime_args" where
  "capture_at m p source a = a\<lparr>ra_argc := sint (load32 m p), ra_argv := p + 4, ra_source := source\<rparr>"

definition ef2_runtime_capture_loader_args :: "mem \<Rightarrow> u32 \<Rightarrow> u32 \<Rightarrow> runtime_args" where
  "ef2_runtime_capture_loader_args m raw_a0 raw_a1 =
    (let a = \<lparr>ra_argc = 0, ra_argv = 0, ra_raw_a0 = raw_a0, ra_raw_a1 = raw_a1, ra_source = Args_none\<rparr>
     in if raw_a0 \<le> of_nat EF2_RUNTIME_MAX_ARGS \<and> (raw_a0 = 0 \<or> ef2_runtime_user_pointer raw_a1)
        then a\<lparr>ra_argc := sint raw_a0, ra_argv := (if raw_a0 = 0 then 0 else raw_a1), ra_source := Args_direct\<rparr>
        else if ef2_runtime_user_pointer raw_a0 then
          if ef2_runtime_argc_valid (sint (load32 m (raw_a0 + 4))) then capture_at m (raw_a0 + 4) Args_sargs_start a
          else if ef2_runtime_argc_valid (sint (load32 m raw_a0)) then capture_at m raw_a0 Args_sargs a
          else a
        else a)"

definition ef2_runtime_argc :: "runtime_args \<Rightarrow> s32" where
  "ef2_runtime_argc a = ra_argc a"

definition ef2_runtime_argv :: "runtime_args \<Rightarrow> u32" where
  "ef2_runtime_argv a = ra_argv a"

text \<open>\<open>None\<close> is the null pointer.\<close>

definition ef2_runtime_get_args :: "runtime_args \<Rightarrow> runtime_args option \<Rightarrow> runtime_args option" where
  "ef2_runtime_get_args a args = (case args of None \<Rightarrow> None | Some _ \<Rightarrow> Some a)"

definition ef2_runtime_exit :: "(s32 \<Rightarrow> 'k \<Rightarrow> 'k) \<Rightarrow> s32 \<Rightarrow> 'k \<Rightarrow> 'k" where
  "ef2_runtime_exit kernel_exit status k = kernel_exit status k"

definition ef2_runtime_abort :: "(s32 \<Rightarrow> 'k \<Rightarrow> 'k) \<Rightarrow> 'k \<Rightarrow> 'k" where
  "ef2_runtime_abort kernel_exit k = ef2_runtime_exit kernel_exit (-1) k"

definition ef2_runtime_run_main ::
  "(u32 \<Rightarrow> s32 \<Rightarrow> 'k \<Rightarrow> 'k) \<Rightarrow> ('k \<Rightarrow> u32) \<Rightarrow> u32 \<Rightarrow> (s32 \<Rightarrow> 'k \<Rightarrow> 'k) \<Rightarrow>
   (s32 \<Rightarrow> u32 \<Rightarrow> 'k \<Rightarrow> heap \<Rightarrow> s32 \<times> 'k \<times> heap) \<Rightarrow> runtime_args \<Rightarrow> 'k \<Rightarrow> heap \<Rightarrow> 'k \<times> heap" where
  "ef2_runtime_run_main setup_heap end_of_heap image_end kernel_exit main a k h =
    (let (ignored, k, h) = ef2_heap_init_default setup_heap end_of_heap image_end k h;
         (status, k, h) = main (ra_argc a) (ra_argv a) k h
     in (ef2_runtime_exit kernel_exit status k, h))"

text \<open>\<open>src/ee/runtime/setjmp.c\<close>: the value that \<open>setjmp\<close> will return is stored beside the registers before
  the jump, the compiler's \<open>__builtin_longjmp\<close>, a parameter.\<close>

record 'r jmp_state =
  jmp_registers :: 'r
  jmp_value :: s32

definition longjmp :: "('r jmp_state \<Rightarrow> 'k) \<Rightarrow> 'r jmp_state \<Rightarrow> s32 \<Rightarrow> 'k" where
  "longjmp builtin_longjmp environment v = builtin_longjmp (environment\<lparr>jmp_value := (if v = 0 then 1 else v)\<rparr>)"

section \<open>Properties\<close>

lemma user_pointer_bounds:
  assumes "ef2_runtime_user_pointer v" "k \<le> 8"
  shows "0x100000 \<le> unat v" "unat v < 0x2000000" "4 dvd unat v" "unat (v + word_of_nat k) = unat v + k"
proof -
  show b: "0x100000 \<le> unat v" "unat v < 0x2000000"
    using assms(1) by (simp_all add: ef2_runtime_user_pointer_def EF2_RUNTIME_USER_MIN_def EF2_RUNTIME_USER_MAX_def
        word_le_nat_alt word_less_nat_alt)
  have "take_bit 2 v = 0" using assms(1) by (simp add: ef2_runtime_user_pointer_def take_bit_eq_mask mask_eq_exp_minus_1)
  then have "unat v mod 4 = 0" using unat_take_bit [of 2 v] by (simp add: take_bit_eq_mod)
  then show "4 dvd unat v" by (simp add: mod_eq_0_iff_dvd)
  show "unat (v + word_of_nat k) = unat v + k" using b(2) assms(2) by (simp add: unat_word_ariths unat_of_nat)
qed

lemma user_pointer_large: "ef2_runtime_user_pointer v \<Longrightarrow> \<not> v \<le> 16"
  using user_pointer_bounds(1) [of v 0] by (simp add: word_le_nat_alt)

definition args_bounded :: "runtime_args \<Rightarrow> bool" where
  "args_bounded a \<longleftrightarrow> 0 \<le> ra_argc a \<and> ra_argc a \<le> 16 \<and> (ra_argc a = 0 \<or> ra_argv a \<noteq> 0) \<and>
     (ra_argv a = 0 \<or> 0x100000 \<le> unat (ra_argv a) \<and> unat (ra_argv a) < 0x2000008 \<and> 4 dvd unat (ra_argv a)) \<and>
     (ra_source a \<noteq> Args_none \<or> ra_argc a = 0 \<and> ra_argv a = 0)"

lemma capture_bounded:
  assumes "ef2_runtime_user_pointer v" "k = 0 \<or> k = 4" "ef2_runtime_argc_valid (sint (load32 m (v + word_of_nat k)))" "source \<noteq> Args_none"
  shows "args_bounded (capture_at m (v + word_of_nat k) source a)"
proof -
  note v = user_pointer_bounds [OF assms(1)]
  have "v + word_of_nat k + 4 = v + word_of_nat (k + 4)" by simp
  then have u: "unat (v + word_of_nat k + 4) = unat v + (k + 4)" using v(4) [of "k + 4"] assms(2) by (simp only:) auto
  then have "v + word_of_nat k + 4 \<noteq> 0" using v(1) [of 0] by (metis add_is_0 not_numeral_le_zero unat_0 le_0_eq)
  then show ?thesis
    using u v(1-3) [of 0] assms(2-4)
    by (auto simp: args_bounded_def capture_at_def ef2_runtime_argc_valid_def EF2_RUNTIME_MAX_ARGS_def)
qed

text \<open>The range checks in numbers: a word address from the first megabyte to the end of the 32 megabytes, and
  a count from 0 to 16.\<close>

definition in_user_memory :: "u32 \<Rightarrow> bool" where
  "in_user_memory v \<longleftrightarrow> 0x100000 \<le> unat v \<and> unat v < 0x2000000 \<and> 4 dvd unat v"

definition count_word :: "u32 \<Rightarrow> bool" where
  "count_word w \<longleftrightarrow> unat w \<le> 16"

definition args_are :: "runtime_args \<Rightarrow> nat \<Rightarrow> u32 \<Rightarrow> runtime_args_source \<Rightarrow> bool" where
  "args_are a count vector source \<longleftrightarrow> ra_argc a = int count \<and> ra_argv a = vector \<and> ra_source a = source"

lemma user_pointer_numeric: "ef2_runtime_user_pointer v \<longleftrightarrow> in_user_memory v"
proof -
  have "unat (v AND 3) = unat v mod 4"
    using unat_and_mask [of v 2] by (simp add: mask_eq_exp_minus_1)
  then have "v AND 3 = 0 \<longleftrightarrow> 4 dvd unat v" by (simp add: word_unat_eq_iff mod_eq_0_iff_dvd)
  then show ?thesis
    by (simp add: ef2_runtime_user_pointer_def in_user_memory_def EF2_RUNTIME_USER_MIN_def EF2_RUNTIME_USER_MAX_def
        word_le_nat_alt word_less_nat_alt)
qed

lemma count_word_small: "count_word w \<Longrightarrow> sint w = int (unat w)"
  by (simp add: count_word_def sint_small word_le_def flip: uint_nat)

lemma argc_valid_numeric: "ef2_runtime_argc_valid (sint w) \<longleftrightarrow> count_word w"
proof -
  have le: "count_word w \<longleftrightarrow> uint w \<le> 16"
    by (simp add: count_word_def flip: word_le_nat_alt [of w 16, simplified]) (simp add: word_le_def)
  have "uint w = sint w" if "0 \<le> sint w" "sint w \<le> 16"
    using that by (simp add: uint_sint take_bit_int_eq_self)
  moreover have "0 \<le> uint w" by simp
  ultimately show ?thesis
    using count_word_small [of w] unfolding le ef2_runtime_argc_valid_def EF2_RUNTIME_MAX_ARGS_def by auto
qed

lemma capture_bounds: "args_bounded (ef2_runtime_capture_loader_args m raw_a0 raw_a1)"
proof -
  let ?a = "\<lparr>ra_argc = 0, ra_argv = 0, ra_raw_a0 = raw_a0, ra_raw_a1 = raw_a1, ra_source = Args_none\<rparr>"
  consider (direct) "raw_a0 \<le> 16" "raw_a0 = 0 \<or> ef2_runtime_user_pointer raw_a1"
    | (memory) "ef2_runtime_user_pointer raw_a0" "\<not> raw_a0 \<le> 16"
    | (none) "\<not> (raw_a0 \<le> 16 \<and> (raw_a0 = 0 \<or> ef2_runtime_user_pointer raw_a1))" "\<not> ef2_runtime_user_pointer raw_a0"
    using user_pointer_large by blast
  then show ?thesis
  proof cases
    case direct
    then have n: "unat raw_a0 \<le> 16" by (simp add: word_le_nat_alt)
    have "raw_a1 \<noteq> 0 \<and> 0x100000 \<le> unat raw_a1 \<and> unat raw_a1 < 0x2000008 \<and> 4 dvd unat raw_a1" if "ef2_runtime_user_pointer raw_a1"
      using user_pointer_bounds [OF that, of 0] by auto
    moreover have "uint raw_a0 \<le> 16" using direct(1) by (simp add: word_le_def)
    ultimately show ?thesis
      using direct n by (auto simp: ef2_runtime_capture_loader_args_def args_bounded_def EF2_RUNTIME_MAX_ARGS_def Let_def sint_small)
  next
    case memory
    have b: "args_bounded (capture_at m (raw_a0 + 4) Args_sargs_start ?a)"
      if "ef2_runtime_argc_valid (sint (load32 m (raw_a0 + 4)))"
      using capture_bounded [OF memory(1), of 4 m] that by simp
    have c: "args_bounded (capture_at m raw_a0 Args_sargs ?a)" if "ef2_runtime_argc_valid (sint (load32 m raw_a0))"
      using capture_bounded [OF memory(1), of 0 m] that by simp
    show ?thesis
      using memory b c
      by (simp add: ef2_runtime_capture_loader_args_def EF2_RUNTIME_MAX_ARGS_def Let_def) (simp add: capture_at_def args_bounded_def)
  next
    case none
    then show ?thesis by (auto simp: ef2_runtime_capture_loader_args_def args_bounded_def EF2_RUNTIME_MAX_ARGS_def Let_def)
  qed
qed

text \<open>C40: What the loader leaves is found, for all values of the two registers and of memory: no arguments for
  a first register of zero; the two registers themselves for a count up to 16 with a vector in user memory;
  otherwise, for a first register that points into user memory, the structure with the process number, or
  else the one without, whose count is at most 16; and in all other cases nothing.  User memory is the
  word addresses from 0x100000 up to 0x2000000, in numbers.  So the count is always between 0 and 16, a
  positive count comes with a vector, and a vector is at most eight bytes past the last word of user memory.\<close>

theorem runtime_args_found:
  "args_bounded (ef2_runtime_capture_loader_args m raw_a0 raw_a1) \<and>
   (if unat raw_a0 = 0 then args_are (ef2_runtime_capture_loader_args m raw_a0 raw_a1) 0 0 Args_direct
    else if unat raw_a0 \<le> 16 \<and> in_user_memory raw_a1
    then args_are (ef2_runtime_capture_loader_args m raw_a0 raw_a1) (unat raw_a0) raw_a1 Args_direct
    else if in_user_memory raw_a0 \<and> count_word (load32 m (raw_a0 + 4))
    then args_are (ef2_runtime_capture_loader_args m raw_a0 raw_a1) (unat (load32 m (raw_a0 + 4))) (raw_a0 + 8) Args_sargs_start
    else if in_user_memory raw_a0 \<and> count_word (load32 m raw_a0)
    then args_are (ef2_runtime_capture_loader_args m raw_a0 raw_a1) (unat (load32 m raw_a0)) (raw_a0 + 4) Args_sargs
    else args_are (ef2_runtime_capture_loader_args m raw_a0 raw_a1) 0 0 Args_none)"
proof -
  have le: "raw_a0 \<le> of_nat EF2_RUNTIME_MAX_ARGS \<longleftrightarrow> unat raw_a0 \<le> 16" and z: "raw_a0 = 0 \<longleftrightarrow> unat raw_a0 = 0"
    by (simp_all add: word_le_nat_alt unat_eq_0 EF2_RUNTIME_MAX_ARGS_def)
  have s: "sint raw_a0 = int (unat raw_a0)" if "unat raw_a0 \<le> 16"
    using that by (intro count_word_small) (simp add: count_word_def)
  have small: "in_user_memory v \<Longrightarrow> \<not> unat v \<le> 16" for v by (simp add: in_user_memory_def)
  define w0 w1 where "w0 = load32 m raw_a0" and "w1 = load32 m (raw_a0 + 4)"
  show ?thesis
    using capture_bounds [of m raw_a0 raw_a1] s count_word_small [of w0] count_word_small [of w1] small [of raw_a0]
    unfolding ef2_runtime_capture_loader_args_def user_pointer_numeric args_are_def capture_at_def
      Let_def le z argc_valid_numeric w0_def [symmetric] w1_def [symmetric]
    by (auto simp: add.assoc unat_eq_0)
qed

text \<open>The last accepted address is the last word of user memory; the count of a start structure there is
  read from the word after it.\<close>

lemma runtime_reads_past_end:
  assumes "load32 m EF2_RUNTIME_USER_MAX = 1"
  shows "ef2_runtime_capture_loader_args m 0x01FFFFFC a1 =
    \<lparr>ra_argc = 1, ra_argv = 0x02000004, ra_raw_a0 = 0x01FFFFFC, ra_raw_a1 = a1, ra_source = Args_sargs_start\<rparr>"
  using assms
  by (simp add: ef2_runtime_capture_loader_args_def ef2_runtime_user_pointer_def EF2_RUNTIME_USER_MIN_def EF2_RUNTIME_USER_MAX_def
      EF2_RUNTIME_MAX_ARGS_def ef2_runtime_argc_valid_def capture_at_def Let_def)

text \<open>\<open>main\<close> runs on the default heap with these arguments, and its result is the exit status.\<close>

lemma run_main_status:
  assumes "ef2_heap_init_default setup_heap end_of_heap image_end k h = (r, k1, h1)" "main (ra_argc a) (ra_argv a) k1 h1 = (status, k2, h2)"
  shows "ef2_runtime_run_main setup_heap end_of_heap image_end kernel_exit main a k h = (kernel_exit status k2, h2)"
  by (simp add: ef2_runtime_run_main_def assms ef2_runtime_exit_def)

end
