(* ===== verification/IopModules.thy ===== *)
theory IopModules
  imports AudioService PadService StorageService
begin

text \<open>
  The threads that serve the requests of the EE in the three modules of the IOP, and the entry point of
  the audio module.  The calls into the SIF service of the IOP are a parameter; the loop that calls the
  dispatcher for each request does not return, and the model of a thread ends where it begins.
\<close>

record 'w sif_server =
  GetThreadId :: "'w \<Rightarrow> s32 \<times> 'w"
  sceSifInitRpc :: "s32 \<Rightarrow> 'w \<Rightarrow> 'w"
  sceSifSetRpcQueue :: "s32 \<Rightarrow> 'w \<Rightarrow> 'w"
  sceSifRegisterRpc :: "u32 \<Rightarrow> 'w \<Rightarrow> 'w"

definition EF2_AUDIO_RPC_SID :: u32 where "EF2_AUDIO_RPC_SID = 0xEF2A0001"
definition EF2_PAD_RPC_SID :: u32 where "EF2_PAD_RPC_SID = 0xEF2B0001"
definition EF2_STORAGE_RPC_SID :: u32 where "EF2_STORAGE_RPC_SID = 0xEF2C0001"

text \<open>The common body: the queue of this thread, the registration, and the signal to the entry point.\<close>

definition serve_requests :: "'w iop_kernel \<Rightarrow> 'w sif_server \<Rightarrow> u32 \<Rightarrow> s32 \<Rightarrow> 'w \<Rightarrow> 'w" where
  "serve_requests ker srv sid ready w =
    (let (tid, w) = GetThreadId srv w
     in SignalSema ker ready (sceSifRegisterRpc srv sid (sceSifSetRpcQueue srv tid (sceSifInitRpc srv 0 w))))"

definition audio_rpc_thread :: "'w iop_kernel \<Rightarrow> 'w sif_server \<Rightarrow> 'w audio \<Rightarrow> 'w audio" where
  "audio_rpc_thread ker srv st = on_dev (serve_requests ker srv EF2_AUDIO_RPC_SID (audio.g_rpc_ready_sema st)) st"

definition pad_rpc_thread :: "'w iop_kernel \<Rightarrow> 'w sif_server \<Rightarrow> 'w pad \<Rightarrow> 'w pad" where
  "pad_rpc_thread ker srv st =
    (let sio = pad_sio2 st
     in st\<lparr>pad_sio2 := sio\<lparr>sio2_dev := serve_requests ker srv EF2_PAD_RPC_SID (g_pad_ready_sema st) (sio2_dev sio)\<rparr>\<rparr>)"

definition storage_rpc_thread :: "'w iop_kernel \<Rightarrow> 'w sif_server \<Rightarrow> 'w storage \<Rightarrow> 'w storage" where
  "storage_rpc_thread ker srv st =
    st\<lparr>sto_dev := serve_requests ker srv EF2_STORAGE_RPC_SID (storage.g_rpc_ready_sema st) (sto_dev st)\<rparr>"

definition audio_module_start :: "'w iop_kernel \<Rightarrow> 'w audio \<Rightarrow> s32 \<times> 'w audio" where
  "audio_module_start ker st =
    (let st = on_dev (CpuEnableIntr ker) (on_dev (FlushDcache ker) st);
         (ready, st) = call_dev (create_semaphore ker 0 1) st;
         st = st\<lparr>audio.g_rpc_ready_sema := ready\<rparr>
     in if ready < 0 then (MODULE_NO_RESIDENT_END ker, st)
        else
          let (thread, st) = call_dev (CreateThread ker
                \<lparr>thread_attr = TH_C ker, thread_option = 0, thread_entry = Rpc_thread,
                 thread_stacksize = 0x1000, thread_priority = 40\<rparr>) st
          in if thread < 0 then (MODULE_NO_RESIDENT_END ker, st)
             else
               let (started, st) = call_dev (StartThread ker thread) st
               in if started < 0 then (MODULE_NO_RESIDENT_END ker, st)
                  else (MODULE_RESIDENT_END ker, on_dev (WaitSema ker ready) st))"

text \<open>Starting the module touches nothing of the service but the semaphore: the service itself is set up by
  the first request.\<close>

lemma audio_module_start_idle:
  "g_initialized (snd (audio_module_start ker st)) = g_initialized st \<and> g_ring (snd (audio_module_start ker st)) = g_ring st \<and>
   g_play_thread (snd (audio_module_start ker st)) = g_play_thread st"
  by (simp add: audio_module_start_def Let_def call_dev_def on_dev_def split: prod.split)

end
