(* ===== verification/Spec2Isabelle.thy ===== *)
theory Spec2Isabelle
  imports DebugProps AudioProps AudioServiceProps PadClientProps AudioClientProps StorageProps MemoryCard VideoProps SifProps KernelProps CrashProps Runtime IopModules
begin

text \<open>
  EF2SDK, a PlayStation 2 development kit: the runtime of the Emotion Engine (EE) side, and the modules
  it runs on the input/output processor (IOP), as functions of HOL with their correctness.

  \<^bold>\<open>The program.\<close>  An application on the EE calls the C runtime (heap, memory and string functions,
  formatted output, streams, a debug log with a serial mirror) and clients for controllers, audio and storage.
  The clients load a module into the IOP and send it requests over the SIF transport; the modules drive
  the SIO2 and SPU2 hardware and serve the requests from one RPC thread.

  \<^bold>\<open>The theories.\<close>  Each component has a theory of definitions, in the order of the C file, and theories
  of lemmas and properties over it.

  \<^item> \<open>Prelude\<close>: the integer types of \<open>include/ef2/base.h\<close> and the lemmas on words and lists that the
    components share.  \<open>OptionPost\<close>: postconditions of computations in the option type.
  \<^item> \<open>ByteMem\<close>: the byte-addressed memory of the EE, 32-bit loads and stores, the byte loops of the C
    code, and ranges of bytes that agree.
  \<^item> \<open>Heap\<close> models \<open>src/ee/runtime/heap.c\<close> on that memory: block headers are four words at their address,
    so \<open>split_block\<close>, \<open>merge_with_next\<close>, \<open>ef2_malloc\<close>, \<open>ef2_free\<close>, \<open>ef2_calloc\<close> and \<open>ef2_realloc\<close> store
    the fields the C code stores.  \<open>HeapSpec\<close> has the invariant \<open>heap_ok\<close> (the blocks tile the heap, are
    linked both ways and no two free ones are adjacent), the abstract list of blocks and the simulation;
    \<open>HeapProps\<close> the properties, among them what a reallocation does whose size wraps around: it gives a
    block of 32 bytes or more away but leaves a smaller one as it is.  \<open>Allocator\<close> is the interface of an allocator, \<open>HeapArena\<close> its extension
    by the bytes outside the heap; both are interpreted on the heap.  \<open>LibcAlloc\<close> models
    \<open>heap_default.c\<close> and \<open>libc_alloc.c\<close>.
  \<^item> \<open>LibcMemory\<close> models \<open>src/ee/runtime/libc_memory.c\<close> and has its properties.
  \<^item> \<open>LibcFormat\<close> models \<open>src/ee/runtime/libc_format.c\<close>; \<open>FormatSpec\<close> defines the text of a format as a
    list of bytes and proves that the interpreter of the C code writes it, \<open>out_rep\<close> being the output
    buffer after any number of bytes, the wrap-around of its 32-bit counter included; \<open>FormatProps\<close> has
    the properties.  Variable arguments are the list of the 64-bit slots of the calling convention.
  \<^item> \<open>LibcStdio\<close> models \<open>src/ee/runtime/libc_stdio.c\<close> over write functions that satisfy the locale \<open>sink\<close>
    of \<open>StdioSpec\<close>, and over the allocator of \<open>HeapArena\<close>: texts of 256 characters or more go through a
    buffer from the heap and are dropped when there is none (\<open>print_dropped\<close>).
  \<^item> \<open>Bus\<close>: hardware registers as an arbitrary device state with one function per access width; the
    drivers make the accesses in the order of the volatile accesses of the C code.
  \<^item> \<open>DebugSio\<close> and \<open>DebugLog\<close> model \<open>src/ee/kernel/debug_sio.c\<close> and \<open>src/ee/runtime/debug_log.c\<close>;
    \<open>DebugSpec\<close> relates the ring to the history of the bytes written and interprets \<open>sink\<close> on the log,
    \<open>DebugProps\<close> has the properties, those of the streams among them.
  \<^item> \<open>AudioRate\<close> models \<open>src/ee/audio/audio.c\<close> (rate conversion, mixing, the long divider); a sample
    access outside its buffer is \<open>None\<close>.  \<open>AudioSpec\<close>, \<open>AudioProps\<close>: the sample at a position as the nearer
    neighbour or the weighted average of both, exactness and properties.
  \<^item> \<open>IopKernel\<close>: the calls into the kernel of the IOP, a parameter.  \<open>Spu2\<close> and \<open>AudioService\<close> model
    \<open>src/iop/audio/src/spu2_direct.c\<close> and \<open>main.c\<close>.  \<open>SharedQueue\<close> is the interface of a bounded queue
    shared by threads, with its FIFO law under all interleavings; \<open>AudioRing\<close> and \<open>AudioThreads\<close>
    interpret it on the service and treat the play thread; \<open>AudioServiceProps\<close> has the properties.
  \<^item> \<open>AudioClient\<close>, \<open>AudioClientProps\<close>: \<open>src/ee/audio/iop_backend.c\<close>.
  \<^item> \<open>Sio2\<close> and \<open>PadService\<close> model \<open>src/iop/pad/src/sio2_direct.c\<close> and \<open>main.c\<close>; \<open>PadSpec\<close>, \<open>PadProps\<close>:
    the invariant of the module state over every reachable state, and the outcome of a poll, which counters
    change included.
  \<^item> \<open>PadInput\<close>, \<open>PadClient\<close>, \<open>PadClientProps\<close>: \<open>src/ee/input/pad.c\<close> and \<open>iop_backend.c\<close>, and the client
    composed with the module.
  \<^item> \<open>StatePost\<close>: triples and invariants of computations in the state monad.  \<open>StorageSio2\<close>, \<open>StorageCard\<close>,
    \<open>StorageMmce\<close>, \<open>StorageSd\<close> and \<open>StorageService\<close> model \<open>src/iop/storage/src/\<close>: \<open>sio2_storage.c\<close>, the three
    drivers and the scan of \<open>storage_backends.c\<close>, and the dispatcher of \<open>main.c\<close>.  \<open>StorageSpec\<close>,
    \<open>StorageScan\<close> and \<open>StorageModule\<close> have the invariant of the module over every reachable state;
    \<open>StorageSdSpec\<close> the arithmetic of the SD protocol (the command checksum as polynomial division, the
    fields of the CSD register); \<open>StoragePages\<close> and \<open>StorageBlocks\<close> the protocols of a memory card and of an
    SD card and the drivers on cards that follow them.  \<open>StorageClient\<close> models \<open>src/ee/storage/storage.c\<close>;
    \<open>StorageClientSpec\<close> and \<open>StorageSectors\<close> put it on the module; \<open>StorageProps\<close> has the properties.
    \<open>MemoryCard\<close> models \<open>src/ee/storage/memorycard.c\<close>.
  \<^item> \<open>IopModules\<close>: the threads that register the three modules with the SIF service of the IOP, and the entry
    point of the audio module.
  \<^item> \<open>EeMachine\<close>: the machine that the graphics code drives, with the data cache loop of
    \<open>src/ee/kernel/cache.c\<close> and the counters of \<open>profile.c\<close>.  \<open>GifDma\<close> and \<open>GsRegs\<close> model
    \<open>src/ee/gs/gif_dma.c\<close> and the registers of \<open>include/ef2/gs.h\<close> and \<open>gif.h\<close>; \<open>Video\<close> and \<open>VideoTexture\<close>
    model \<open>src/ee/gs/video.c\<close>: a packet is the list of its quadwords.  \<open>VideoSpec\<close> shows that the transport
    changes nothing but itself, \<open>VideoPackets\<close> the quadwords of a sprite in numbers, \<open>VideoMemory\<close> where the uploads place a texture, \<open>VideoModule\<close> the outcomes
    of an initialisation and the invariant over every sequence of calls; \<open>VideoProps\<close> has the properties.
  \<^item> \<open>EeKernel\<close>: the system calls of the EE kernel, a parameter.  \<open>SifTransport\<close> and \<open>SifModules\<close> model
    \<open>src/ee/sif/sif.c\<close>: commands, the interrupt handler, remote procedure calls and their packet pool;
    memory on the IOP, the search through the tables of its modules, the patch of an old module loader
    and loading modules.  Packets from the IOP arrive at the points where the code waits or takes a packet
    from the pool, in any number.  \<open>SifSpec\<close> has the invariant of the pool over every session, and
    \<open>SifProps\<close> the properties; that on late answers runs on a machine that plays a script of
    arriving packets, that on timeouts on every machine where no packet arrives.
  \<^item> \<open>InterruptControl\<close> and \<open>Timer\<close> model \<open>src/ee/kernel/interrupt.c\<close> and \<open>timer.c\<close>; \<open>KernelProps\<close> has
    their properties: the kernel is called with interrupts off and the state before restored, and no timer
    event is lost between reading and writing a mode register whose flags are cleared by writing ones; the
    bits of that register are given in numbers.
  \<^item> \<open>Crash\<close> models \<open>src/ee/runtime/crash.c\<close> on the models of the debug log and the video library;
    \<open>CrashSpec\<close> computes every pixel of a line of text, \<open>CrashProps\<close> has the properties: the registers can
    be read off the picture, and the report is the end of the log and of what the screen shows.  The
    dispatcher is the list of its steps (\<open>crash_steps\<close>), so that a crash between any two of them is a case.
  \<^item> \<open>Runtime\<close> models \<open>src/ee/runtime/runtime.c\<close> and \<open>setjmp.c\<close> and has the property of the arguments, with the ranges in numbers.

  \<^bold>\<open>Conventions.\<close>  A C function is a function of its arguments and of the state it touches and returns its
  result with the new state.  \<open>ef2_u8\<close> to \<open>ef2_u64\<close> are words of that width and wrap around; \<open>int\<close> results
  are integers where the code keeps them far from overflow, and words where it does not.  A pointer is a
  32-bit address into \<open>mem\<close>, or the list of the elements of the array it points to where the code only
  passes it around.  A loop is a recursive function; one whose end depends on a device, on another thread
  or on an unbounded wait is \<open>partial_function (option)\<close>, and \<open>None\<close> means that it does not end
  (\<open>audio_submit_returns\<close>, \<open>audio_submit_deadlock\<close>, \<open>pad_poll_outcome\<close>,
  \<open>storage_file_transfers_end\<close> and \<open>interrupt_calls_masked\<close> say when it does).  No fuel is
  used: the other loops have measures.

  \<^bold>\<open>Threads.\<close>  The audio module protects its ring with a semaphore; the sections between taking and
  releasing it are the steps of \<open>service_run\<close>, which interleave arbitrarily.  The single-word flags that
  the play thread reads without the semaphore change in steps of their own.

  \<^bold>\<open>Not modelled.\<close>  The clients take the transport as a parameter, the record \<open>sif_services\<close> of its calls, and
  are not composed with the model of \<open>sif.c\<close>, where the IOP is arbitrary.  The assembly files (\<open>start.S\<close>, \<open>syscall.S\<close>,
  \<open>crash_vector.S\<close>, \<open>gif.S\<close>) are instructions, register saves and system calls, parameters where they are used.
  \<open>examples/boot/main.c\<close> is a demonstration, and
  \<open>tests/\<close>, \<open>ports/\<close> and the build files are not part of the library.
\<close>

end
